(* ===== verification/Prelude.thy ===== *)
theory Prelude
  imports Complex_Main "HOL-Library.AList" "HOL-Library.Sublist"
    "HOL-Library.List_Lexorder" "HOL-Library.Char_ord" "HOL-Library.Product_Lexorder"
begin

text \<open>
  Shared vocabulary of the development: Python dictionaries as association lists in insertion
  order, Python string operations on the Latin-1 range, errors as sums, and the lemmas about
  them that the component theories use.

  A \<open>string\<close> is a list of code points below 256, so \<open>str.strip\<close> and \<open>str.lower\<close> are
  modelled exactly on that range.  A clock reading or a TTL is a \<open>rat\<close>: the code adds and
  compares them and does nothing else, and the rounding of the addition is not modelled.
\<close>

section \<open>Hint collections\<close>

named_theorems dict_simps \<open>lookups in updated, pruned and popped dictionaries\<close>
named_theorems str_simps \<open>facts about stripped and lowered strings\<close>
named_theorems repo_simps \<open>views of a repository after each of its operations\<close>

section \<open>Dictionaries\<close>

type_synonym time = rat
type_synonym ('k, 'v) dict = "('k \<times> 'v) list"

text \<open>
  \<open>AList.update\<close> keeps the position of an existing key and appends a new one, as assigning
  to a Python dictionary does; \<open>AList.delete\<close> is \<open>dict.pop(key, None)\<close>.
\<close>

abbreviation dict_get :: "('k, 'v) dict \<Rightarrow> 'k \<Rightarrow> 'v option" where
  "dict_get d k \<equiv> map_of d k"

abbreviation dict_set :: "'k \<Rightarrow> 'v \<Rightarrow> ('k, 'v) dict \<Rightarrow> ('k, 'v) dict" where
  "dict_set k v d \<equiv> AList.update k v d"

abbreviation dict_pop :: "'k \<Rightarrow> ('k, 'v) dict \<Rightarrow> ('k, 'v) dict" where
  "dict_pop k d \<equiv> AList.delete k d"

abbreviation wf_dict :: "('k, 'v) dict \<Rightarrow> bool" where
  "wf_dict d \<equiv> distinct (map fst d)"

text \<open>Popping every key of a list, the loop \<open>for key in keys: d.pop(key, None)\<close>.\<close>

definition dict_pops :: "'k list \<Rightarrow> ('k, 'v) dict \<Rightarrow> ('k, 'v) dict" where
  "dict_pops ks d = fold (\<lambda>k d. dict_pop k d) ks d"

lemma dict_get_set [dict_simps]:
  "dict_get (dict_set k v d) j = (if j = k then Some v else dict_get d j)"
  by (simp add: update_conv')

lemma dict_get_pop [dict_simps]:
  "dict_get (dict_pop k d) j = (if j = k then None else dict_get d j)"
  by (simp add: delete_conv')

lemma wf_dict_set [simp, intro]: "wf_dict d \<Longrightarrow> wf_dict (dict_set k v d)"
  by (rule distinct_update)

lemma wf_dict_pop [simp, intro]: "wf_dict d \<Longrightarrow> wf_dict (dict_pop k d)"
  by (rule distinct_delete)

lemma dict_pops_filter: "dict_pops ks d = filter (\<lambda>(k, v). k \<notin> set ks) d"
  unfolding dict_pops_def
proof (induction ks arbitrary: d)
  case Nil
  show ?case by simp
next
  case (Cons k ks)
  show ?case
    using Cons.IH [of "dict_pop k d"]
    by (simp add: AList.delete_eq case_prod_unfold conj_commute eq_commute [of k])
qed

lemma dict_get_pops [dict_simps]:
  "dict_get (dict_pops ks d) j = (if j \<in> set ks then None else dict_get d j)"
  unfolding dict_pops_filter by (induction d) (auto split: if_splits)

lemma wf_dict_filter [simp, intro]: "wf_dict d \<Longrightarrow> wf_dict (filter P d)"
  by (rule distinct_map_filter)

lemma wf_dict_pops [simp, intro]: "wf_dict d \<Longrightarrow> wf_dict (dict_pops ks d)"
  by (simp add: dict_pops_filter)

text \<open>
  The code prunes in two loops: collect the keys of the entries that satisfy a predicate, then
  pop each.  On a dictionary this filters the entries.
\<close>

lemma wf_dict_key_in_filter:
  "wf_dict d \<Longrightarrow> (k \<in> fst ` set (filter P d)) = (\<exists>v. dict_get d k = Some v \<and> P (k, v))"
proof -
  assume "wf_dict d"
  then have "(\<exists>v. dict_get d k = Some v \<and> P (k, v)) \<longleftrightarrow> (\<exists>v. (k, v) \<in> set d \<and> P (k, v))"
    by (simp add: map_of_eq_Some_iff)
  moreover have "k \<in> fst ` set (filter P d) \<longleftrightarrow> (\<exists>v. (k, v) \<in> set d \<and> P (k, v))"
    by (auto intro: rev_image_eqI)
  ultimately show ?thesis by simp
qed

lemma dict_get_prune:
  assumes "wf_dict d"
  shows "dict_get (dict_pops (map fst (filter P d)) d) k =
    (case dict_get d k of None \<Rightarrow> None | Some v \<Rightarrow> if P (k, v) then None else Some v)"
proof -
  have "k \<in> set (map fst (filter P d)) \<longleftrightarrow> (\<exists>v. dict_get d k = Some v \<and> P (k, v))"
    using wf_dict_key_in_filter [OF assms, of k P] by simp
  then show ?thesis by (cases "dict_get d k") (simp_all add: dict_get_pops)
qed

lemma dict_pops_prune:
  assumes "wf_dict d"
  shows "dict_pops (map fst (filter P d)) d = filter (\<lambda>e. \<not> P e) d"
  unfolding dict_pops_filter
proof (rule filter_cong [OF refl])
  fix e assume "e \<in> set d"
  then have "dict_get d (fst e) = Some (snd e)"
    using assms by (simp add: map_of_is_SomeI)
  then show "(case e of (k, v) \<Rightarrow> k \<notin> set (map fst (filter P d))) = (\<not> P e)"
    using wf_dict_key_in_filter [OF assms, of "fst e" P] by (cases e) simp
qed

lemma dict_get_SomeD: "dict_get d k = Some v \<Longrightarrow> (k, v) \<in> set d"
  by (rule map_of_SomeD)

lemma length_dict_set_le: "length (dict_set k v d) \<le> Suc (length d)"
  by (induction d) auto

lemma length_dict_set:
  "length (dict_set k v d) = (if k \<in> fst ` set d then length d else Suc (length d))"
  by (induction d) auto

lemma dict_set_fresh: "k \<notin> fst ` set d \<Longrightarrow> dict_set k v d = d @ [(k, v)]"
  by (induction d) auto

lemma set_dict_set_subset: "set (dict_set k v d) \<subseteq> insert (k, v) (set d)"
  by (induction d) auto

section \<open>Errors\<close>

text \<open>Sequencing of computations that may raise: \<open>Inl\<close> is the exception.\<close>

fun ebind :: "'e + 'a \<Rightarrow> ('a \<Rightarrow> 'e + 'b) \<Rightarrow> 'e + 'b" where
  "ebind (Inl e) f = Inl e"
| "ebind (Inr x) f = f x"

lemma ebind_cong [fundef_cong]:
  "m = m' \<Longrightarrow> (\<And>x. m' = Inr x \<Longrightarrow> f x = f' x) \<Longrightarrow> ebind m f = ebind m' f'"
  by (cases m') auto

lemma ebind_Inr_iff: "ebind m f = Inr y \<longleftrightarrow> (\<exists>x. m = Inr x \<and> f x = Inr y)"
  by (cases m) auto

lemma ebind_Inl_iff: "ebind m f = Inl e \<longleftrightarrow> m = Inl e \<or> (\<exists>x. m = Inr x \<and> f x = Inl e)"
  by (cases m) auto

text \<open>A loop whose body may raise: the first exception ends it.\<close>

fun emap :: "('a \<Rightarrow> 'e + 'b) \<Rightarrow> 'a list \<Rightarrow> 'e + 'b list" where
  "emap f [] = Inr []"
| "emap f (x # xs) = ebind (f x) (\<lambda>y. ebind (emap f xs) (\<lambda>ys. Inr (y # ys)))"

lemma emap_Inr_list_all2: "emap f xs = Inr ys \<longleftrightarrow> list_all2 (\<lambda>x y. f x = Inr y) xs ys"
  by (induction xs arbitrary: ys) (auto simp: ebind_Inr_iff list_all2_Cons1)

lemma length_emap: "emap f xs = Inr ys \<Longrightarrow> length ys = length xs"
  by (simp add: emap_Inr_list_all2 list_all2_lengthD)

section \<open>Strings\<close>

text \<open>\<open>str.isspace\<close> on the code points below 256.\<close>

definition py_space :: "char \<Rightarrow> bool" where
  "py_space c = (let n = (of_char c :: nat) in
     (9 \<le> n \<and> n \<le> 13) \<or> (28 \<le> n \<and> n \<le> 32) \<or> n = 133 \<or> n = 160)"

definition py_strip :: "string \<Rightarrow> string" where
  "py_strip s = rev (dropWhile py_space (rev (dropWhile py_space s)))"

text \<open>\<open>str.lower\<close> on the code points below 256.\<close>

definition py_lower_char :: "char \<Rightarrow> char" where
  "py_lower_char c = (let n = (of_char c :: nat) in
     if (65 \<le> n \<and> n \<le> 90) \<or> (192 \<le> n \<and> n \<le> 222 \<and> n \<noteq> 215)
     then char_of (n + 32) else c)"

definition py_lower :: "string \<Rightarrow> string" where
  "py_lower = map py_lower_char"

text \<open>\<open>s.rstrip("/")\<close>.\<close>

definition rstrip_slash :: "string \<Rightarrow> string" where
  "rstrip_slash s = rev (dropWhile (\<lambda>c. c = CHR ''/'') (rev s))"

fun py_join :: "string \<Rightarrow> string list \<Rightarrow> string" where
  "py_join sep [] = []"
| "py_join sep [x] = x"
| "py_join sep (x # y # ys) = x @ sep @ py_join sep (y # ys)"

text \<open>\<open>normalized or None\<close>: the empty string is falsy.\<close>

definition nonempty :: "string \<Rightarrow> string option" where
  "nonempty s = (if s = [] then None else Some s)"

text \<open>\<open>a or b\<close> on optional strings: \<open>None\<close> and the empty string are falsy.\<close>

fun str_or :: "string option \<Rightarrow> string option \<Rightarrow> string option" where
  "str_or (Some (c # cs)) y = Some (c # cs)"
| "str_or x y = y"

abbreviation truthy_str :: "string option \<Rightarrow> bool" where
  "truthy_str x \<equiv> x \<noteq> None \<and> x \<noteq> Some []"

lemma dropWhile_idem_rev:
  assumes "\<not> (xs \<noteq> [] \<and> P (hd xs))"
  shows "\<not> (rev (dropWhile P (rev xs)) \<noteq> [] \<and> P (hd (rev (dropWhile P (rev xs)))))"
proof
  assume a: "rev (dropWhile P (rev xs)) \<noteq> [] \<and> P (hd (rev (dropWhile P (rev xs))))"
  let ?t = "rev (dropWhile P (rev xs))"
  have "xs = rev (takeWhile P (rev xs) @ dropWhile P (rev xs))" by simp
  then have split: "xs = ?t @ rev (takeWhile P (rev xs))" by (metis rev_append)
  with a have "hd xs = hd ?t" and "xs \<noteq> []" by (metis hd_append2, auto)
  with a assms show False by auto
qed

lemma dropWhile_fixed: "\<not> (xs \<noteq> [] \<and> P (hd xs)) \<Longrightarrow> dropWhile P xs = xs"
  by (cases xs) auto

lemma py_strip_idem [simp, str_simps]: "py_strip (py_strip s) = py_strip s"
proof -
  let ?l = "dropWhile py_space s"
  let ?t = "rev (dropWhile py_space (rev ?l))"
  have l: "\<not> (?l \<noteq> [] \<and> py_space (hd ?l))" using hd_dropWhile by blast
  have "\<not> (?t \<noteq> [] \<and> py_space (hd ?t))"
    by (rule dropWhile_idem_rev [where P = py_space and xs = ?l, OF l])
  then have "dropWhile py_space ?t = ?t" by (rule dropWhile_fixed)
  moreover have "dropWhile py_space (rev ?t) = rev ?t"
    by (simp only: rev_rev_ident dropWhile_idem)
  ultimately show ?thesis by (simp add: py_strip_def)
qed

lemma py_strip_Nil [simp]: "py_strip [] = []"
  by (simp add: py_strip_def)

lemma py_strip_Nil_iff: "py_strip s = [] \<longleftrightarrow> (\<forall>c \<in> set s. py_space c)"
proof -
  have "py_strip s = [] \<longleftrightarrow> (\<forall>c \<in> set (dropWhile py_space s). py_space c)"
    by (simp add: py_strip_def)
  also have "\<dots> \<longleftrightarrow> (\<forall>c \<in> set s. py_space c)"
    by (induction s) auto
  finally show ?thesis .
qed

lemma set_py_strip_subset: "set (py_strip s) \<subseteq> set s"
  unfolding py_strip_def by (metis set_dropWhileD set_rev subsetI)

lemma py_strip_fixed: "\<forall>c \<in> set s. \<not> py_space c \<Longrightarrow> py_strip s = s"
  unfolding py_strip_def by (metis dropWhile_eq_self_iff hd_in_set rev_rev_ident set_rev)

lemma nonempty_None_iff [simp]: "nonempty s = None \<longleftrightarrow> s = []"
  by (simp add: nonempty_def)

lemma nonempty_Some_iff [simp]: "nonempty s = Some t \<longleftrightarrow> s = t \<and> t \<noteq> []"
  by (auto simp: nonempty_def)

lemma str_or_eq: "str_or x y = (if truthy_str x then x else y)"
  by (cases "(x, y)" rule: str_or.cases) auto

lemma code_lower:
  "(of_char (py_lower_char c) :: nat) = (let n = of_char c in
     if (65 \<le> n \<and> n \<le> 90) \<or> (192 \<le> n \<and> n \<le> 222 \<and> n \<noteq> 215) then n + 32 else n)"
  by (auto simp: py_lower_char_def Let_def)

lemma py_lower_char_idem [simp]: "py_lower_char (py_lower_char c) = py_lower_char c"
  by (subst py_lower_char_def) (auto simp: code_lower Let_def)

lemma py_space_lower [simp]: "py_space (py_lower_char c) = py_space c"
  by (auto simp: py_space_def code_lower Let_def)

lemma py_lower_idem [simp, str_simps]: "py_lower (py_lower s) = py_lower s"
  by (simp add: py_lower_def)

lemma dropWhile_map_space: "dropWhile py_space (map py_lower_char s) = map py_lower_char (dropWhile py_space s)"
  by (induction s) auto

lemma py_strip_lower [str_simps]: "py_strip (py_lower s) = py_lower (py_strip s)"
  by (simp add: py_strip_def py_lower_def dropWhile_map_space rev_map)

end
