(* ===== verification/TTL_Cache.thy ===== *)
theory TTL_Cache
  imports Prelude
begin

text \<open>
  \<open>_TTLCache\<close> of \<open>execution/stream_state.py\<close>: a bounded cache whose entries expire.  The
  Python object's state is the record below; the clock reading that \<open>self._now()\<close> returns is an
  argument of each operation.  The view \<open>ttl_view\<close> is what \<open>get\<close> answers at a time.
\<close>

section \<open>Model\<close>

record 'k ttl_cache =
  ttl_seconds :: int
  ttl_maxsize :: int
  ttl_refresh_on_get :: bool
  ttl_store :: "('k, string \<times> time) dict"

definition ttl_new :: "int \<Rightarrow> int \<Rightarrow> bool \<Rightarrow> 'k ttl_cache" where
  "ttl_new ttl maxsize refresh =
     \<lparr>ttl_seconds = ttl, ttl_maxsize = maxsize, ttl_refresh_on_get = refresh, ttl_store = []\<rparr>"

definition ttl_get :: "time \<Rightarrow> 'k \<Rightarrow> 'k ttl_cache \<Rightarrow> string option \<times> 'k ttl_cache" where
  "ttl_get now k c =
     (if ttl_seconds c \<le> 0 \<or> ttl_maxsize c \<le> 0 then (None, c)
      else case dict_get (ttl_store c) k of
        None \<Rightarrow> (None, c)
      | Some (v, expires_at) \<Rightarrow>
          if expires_at \<le> now then (None, c\<lparr>ttl_store := dict_pop k (ttl_store c)\<rparr>)
          else if ttl_refresh_on_get c
            then (Some v, c\<lparr>ttl_store := dict_set k (v, now + of_int (ttl_seconds c)) (ttl_store c)\<rparr>)
            else (Some v, c))"

definition ttl_evict_if_needed :: "time \<Rightarrow> 'k ttl_cache \<Rightarrow> 'k ttl_cache" where
  "ttl_evict_if_needed now c =
     (if int (length (ttl_store c)) \<le> ttl_maxsize c then c
      else
        let expired = map fst (filter (\<lambda>(k, _, e). e \<le> now) (ttl_store c));
            store = dict_pops expired (ttl_store c)
        in if int (length store) \<le> ttl_maxsize c then c\<lparr>ttl_store := store\<rparr>
           else
             let overflow = nat (int (length store) - ttl_maxsize c);
                 by_expiry = sort_key (\<lambda>(k, _, e). e) store
             in c\<lparr>ttl_store := dict_pops (map fst (take overflow by_expiry)) store\<rparr>)"

definition ttl_set :: "time \<Rightarrow> 'k \<Rightarrow> string \<Rightarrow> 'k ttl_cache \<Rightarrow> 'k ttl_cache" where
  "ttl_set now k v c =
     (if ttl_seconds c \<le> 0 \<or> ttl_maxsize c \<le> 0 then c
      else ttl_evict_if_needed now
             (c\<lparr>ttl_store := dict_set k (v, now + of_int (ttl_seconds c)) (ttl_store c)\<rparr>))"

definition ttl_pop :: "'k \<Rightarrow> 'k ttl_cache \<Rightarrow> 'k ttl_cache" where
  "ttl_pop k c = c\<lparr>ttl_store := dict_pop k (ttl_store c)\<rparr>"

section \<open>Specification\<close>

definition ttl_enabled :: "'k ttl_cache \<Rightarrow> bool" where
  "ttl_enabled c \<longleftrightarrow> 0 < ttl_seconds c \<and> 0 < ttl_maxsize c"

definition ttl_view :: "time \<Rightarrow> 'k ttl_cache \<Rightarrow> 'k \<Rightarrow> string option" where
  "ttl_view now c k =
     (if ttl_enabled c then
        case dict_get (ttl_store c) k of
          None \<Rightarrow> None
        | Some (v, e) \<Rightarrow> if e \<le> now then None else Some v
      else None)"

text \<open>
  The invariant at a clock reading: distinct keys, at most \<open>maxsize\<close> entries, and no entry that
  outlives a fresh one.  The last part needs the clock to be monotone (it is
  \<open>time.monotonic\<close>) and is what keeps a fresh entry from being evicted.
\<close>

definition ttl_inv :: "time \<Rightarrow> 'k ttl_cache \<Rightarrow> bool" where
  "ttl_inv now c \<longleftrightarrow>
     wf_dict (ttl_store c) \<and> int (length (ttl_store c)) \<le> max 0 (ttl_maxsize c) \<and>
     (\<forall>(k, v, e) \<in> set (ttl_store c). e \<le> now + of_int (ttl_seconds c))"

lemma ttl_inv_new: "ttl_inv now (ttl_new ttl maxsize refresh)"
  by (simp add: ttl_inv_def ttl_new_def)

lemma ttl_inv_mono: "ttl_inv now c \<Longrightarrow> now \<le> now' \<Longrightarrow> ttl_inv now' c"
  by (fastforce simp: ttl_inv_def)

lemma ttl_config [simp]:
  "ttl_enabled (ttl_new ttl maxsize refresh) \<longleftrightarrow> 0 < ttl \<and> 0 < maxsize"
  "ttl_enabled (c\<lparr>ttl_store := d\<rparr>) = ttl_enabled c"
  by (simp_all add: ttl_enabled_def ttl_new_def)

section \<open>Lookup\<close>

lemma ttl_get_view: "fst (ttl_get now k c) = ttl_view now c k"
  by (auto simp: ttl_get_def ttl_view_def ttl_enabled_def split: option.splits)

lemma ttl_get_keeps:
  "ttl_seconds (snd (ttl_get now k c)) = ttl_seconds c"
  "ttl_maxsize (snd (ttl_get now k c)) = ttl_maxsize c"
  "ttl_enabled (snd (ttl_get now k c)) = ttl_enabled c"
  by (auto simp: ttl_get_def ttl_enabled_def split: option.splits)

lemma length_dict_pop_le: "length (dict_pop k d) \<le> length d"
  by (simp add: AList.delete_eq)

lemma set_dict_pop_subset: "set (dict_pop k d) \<subseteq> set d"
  by (auto simp: AList.delete_eq)

lemma ttl_invI:
  assumes "wf_dict d" and "length d \<le> length (ttl_store c)"
    and "\<And>k v e. (k, v, e) \<in> set d \<Longrightarrow> e \<le> now + of_int (ttl_seconds c)"
    and "ttl_inv now c"
  shows "ttl_inv now (c\<lparr>ttl_store := d\<rparr>)"
  using assms unfolding ttl_inv_def by auto

lemma ttl_invD: "ttl_inv now c \<Longrightarrow> (k, v, e) \<in> set (ttl_store c) \<Longrightarrow> e \<le> now + of_int (ttl_seconds c)"
  by (auto simp: ttl_inv_def)

lemma ttl_inv_wf: "ttl_inv now c \<Longrightarrow> wf_dict (ttl_store c)"
  by (simp add: ttl_inv_def)

lemma ttl_inv_drop:
  assumes "ttl_inv now c"
  shows "ttl_inv now (c\<lparr>ttl_store := dict_pop k (ttl_store c)\<rparr>)"
proof (rule ttl_invI [OF _ _ _ assms])
  show "wf_dict (dict_pop k (ttl_store c))" using ttl_inv_wf [OF assms] by simp
  show "length (dict_pop k (ttl_store c)) \<le> length (ttl_store c)" by (rule length_dict_pop_le)
  show "e \<le> now + of_int (ttl_seconds c)" if "(k', v, e) \<in> set (dict_pop k (ttl_store c))" for k' v e
    using that set_dict_pop_subset ttl_invD [OF assms] by fast
qed

lemma ttl_inv_refresh:
  assumes "ttl_inv now c" and "dict_get (ttl_store c) k = Some p"
  shows "ttl_inv now (c\<lparr>ttl_store := dict_set k (v, now + of_int (ttl_seconds c)) (ttl_store c)\<rparr>)"
proof (rule ttl_invI [OF _ _ _ assms(1)])
  have "k \<in> fst ` set (ttl_store c)"
    using assms(2) by (force dest: map_of_SomeD)
  then show "length (dict_set k (v, now + of_int (ttl_seconds c)) (ttl_store c)) \<le> length (ttl_store c)"
    by (simp add: length_dict_set)
  fix k' v' e
  assume "(k', v', e) \<in> set (dict_set k (v, now + of_int (ttl_seconds c)) (ttl_store c))"
  then have "(k', v', e) = (k, v, now + of_int (ttl_seconds c)) \<or> (k', v', e) \<in> set (ttl_store c)"
    using set_dict_set_subset by fast
  then show "e \<le> now + of_int (ttl_seconds c)"
    using assms(1) by (auto dest: ttl_invD)
qed (use assms(1) in \<open>auto intro: ttl_inv_wf\<close>)

lemma ttl_inv_get:
  assumes "ttl_inv now c"
  shows "ttl_inv now (snd (ttl_get now k c))"
  using assms by (auto simp: ttl_get_def split: option.splits intro: ttl_inv_drop ttl_inv_refresh)

text \<open>A lookup can only extend the life of an entry that is live at the lookup.\<close>

lemma ttl_view_after_get:
  assumes "now \<le> now'" and "ttl_view now' (snd (ttl_get now k c)) j = Some v"
  shows "ttl_view now c j = Some v"
  using assms by (auto simp: ttl_get_def ttl_view_def ttl_enabled_def dict_simps
      split: option.splits if_splits)

lemma ttl_view_after_get_same:
  "0 \<le> ttl_seconds c \<Longrightarrow> ttl_view now (snd (ttl_get now k c)) j = ttl_view now c j"
  by (auto simp: ttl_get_def ttl_view_def ttl_enabled_def dict_simps split: option.splits if_splits)

lemma ttl_view_antimono: "ttl_view now' c k = Some v \<Longrightarrow> now \<le> now' \<Longrightarrow> ttl_view now c k = Some v"
  by (auto simp: ttl_view_def split: option.splits if_splits)

section \<open>Eviction\<close>

lemma insort_key_snoc_max: "f y \<le> f x \<Longrightarrow> insort_key f y (xs @ [x]) = insort_key f y xs @ [x]"
  by (induction xs) auto

lemma sort_key_snoc_max: "\<forall>y \<in> set xs. f y \<le> f x \<Longrightarrow> sort_key f (xs @ [x]) = sort_key f xs @ [x]"
  by (induction xs) (auto simp: insort_key_snoc_max)

lemma length_dict_pops_distinct:
  assumes "wf_dict d" and "distinct ks" and "set ks \<subseteq> fst ` set d"
  shows "length (dict_pops ks d) = length d - length ks"
proof -
  have "length (dict_pops ks d) = card (fst ` set (dict_pops ks d))"
    using wf_dict_pops [OF assms(1), of ks] by (metis distinct_card length_map set_map)
  also have "fst ` set (dict_pops ks d) = fst ` set d - set ks"
    by (force simp: dict_pops_filter)
  also have "card \<dots> = card (fst ` set d) - card (set ks)"
    using assms(3) by (simp add: card_Diff_subset)
  also have "card (fst ` set d) = length d"
    using assms(1) by (metis distinct_card length_map set_map)
  finally show ?thesis using assms(2) by (simp add: distinct_card)
qed

lemma map_fst_take_sort:
  assumes "wf_dict d"
  shows "distinct (map fst (take n (sort_key f d)))"
    and "set (map fst (take n (sort_key f d))) \<subseteq> fst ` set d"
proof -
  have "distinct d" using assms by (simp add: distinct_map)
  then have "inj_on fst (set d)" using assms by (simp add: distinct_map)
  then have "distinct (map fst (sort_key f d))"
    using \<open>distinct d\<close> by (simp add: distinct_map)
  then show "distinct (map fst (take n (sort_key f d)))"
    by (simp add: distinct_take flip: take_map)
  have "set (take n (sort_key f d)) \<subseteq> set d"
    by (metis set_sort set_take_subset)
  then show "set (map fst (take n (sort_key f d))) \<subseteq> fst ` set d" by auto
qed

lemma ttl_evict_keeps:
  "ttl_seconds (ttl_evict_if_needed now c) = ttl_seconds c"
  "ttl_maxsize (ttl_evict_if_needed now c) = ttl_maxsize c"
  "ttl_refresh_on_get (ttl_evict_if_needed now c) = ttl_refresh_on_get c"
  "ttl_enabled (ttl_evict_if_needed now c) = ttl_enabled c"
  by (simp_all add: ttl_evict_if_needed_def Let_def ttl_enabled_def)

text \<open>Eviction only removes entries.\<close>

lemma ttl_evict_subset: "set (ttl_store (ttl_evict_if_needed now c)) \<subseteq> set (ttl_store c)"
  by (auto simp: ttl_evict_if_needed_def Let_def dict_pops_filter)

lemma ttl_evict_wf: "wf_dict (ttl_store c) \<Longrightarrow> wf_dict (ttl_store (ttl_evict_if_needed now c))"
  by (simp add: ttl_evict_if_needed_def Let_def)

lemma ttl_evict_bound:
  assumes "wf_dict (ttl_store c)" and "0 \<le> ttl_maxsize c"
  shows "int (length (ttl_store (ttl_evict_if_needed now c))) \<le> ttl_maxsize c"
proof -
  let ?st = "dict_pops (map fst (filter (\<lambda>(k, _, e). e \<le> now) (ttl_store c))) (ttl_store c)"
  let ?n = "nat (int (length ?st) - ttl_maxsize c)"
  let ?ks = "map fst (take ?n (sort_key (\<lambda>(k, _, e). e) ?st))"
  have "wf_dict ?st" using assms(1) by simp
  note ks = map_fst_take_sort [OF this, of ?n "\<lambda>(k, _, e). e"]
  have "length (dict_pops ?ks ?st) = length ?st - length ?ks"
    by (rule length_dict_pops_distinct [OF \<open>wf_dict ?st\<close> ks])
  then have "int (length (dict_pops ?ks ?st)) \<le> ttl_maxsize c"
    if "\<not> int (length ?st) \<le> ttl_maxsize c"
    using that assms(2) by simp
  then show ?thesis
    by (auto simp: ttl_evict_if_needed_def Let_def)
qed

lemma ttl_evict_overflow:
  assumes "\<not> int (length (ttl_store c)) \<le> ttl_maxsize c"
    and "st = dict_pops (map fst (filter (\<lambda>(k, _, e). e \<le> now) (ttl_store c))) (ttl_store c)"
    and "\<not> int (length st) \<le> ttl_maxsize c"
    and "nat (int (length st) - ttl_maxsize c) = n"
  shows "ttl_store (ttl_evict_if_needed now c) =
    dict_pops (map fst (take n (sort_key (\<lambda>(k, _, e). e) st))) st"
  unfolding ttl_evict_if_needed_def Let_def assms(2) [symmetric] assms(4) [symmetric]
  using assms(1,3) by simp

text \<open>
  Among live entries, the ones that would expire first are the ones evicted: an entry that is
  dropped while still live expires no later than any entry that is kept.
\<close>

lemma ttl_evict_earliest_first:
  assumes wf: "wf_dict (ttl_store c)"
    and dropped: "(k, v, e) \<in> set (ttl_store c)" "(k, v, e) \<notin> set (ttl_store (ttl_evict_if_needed now c))"
    and live: "now < e"
    and kept: "(k', v', e') \<in> set (ttl_store (ttl_evict_if_needed now c))"
  shows "e \<le> e'"
proof -
  let ?f = "\<lambda>(k :: 'a, v :: string, e :: time). e"
  let ?ex = "map fst (filter (\<lambda>(k, _, e). e \<le> now) (ttl_store c))"
  let ?st = "dict_pops ?ex (ttl_store c)"
  let ?n = "nat (int (length ?st) - ttl_maxsize c)"
  let ?s = "sort_key ?f ?st"
  let ?ks = "map fst (take ?n ?s)"
  have st: "?st = filter (\<lambda>x. \<not> (case x of (k, v, e) \<Rightarrow> e \<le> now)) (ttl_store c)"
    by (rule dict_pops_prune [OF wf])
  have kst: "(k, v, e) \<in> set ?st"
    using dropped(1) live by (simp add: st)
  have big: "\<not> int (length (ttl_store c)) \<le> ttl_maxsize c" "\<not> int (length ?st) \<le> ttl_maxsize c"
    using dropped kst by (auto simp: ttl_evict_if_needed_def Let_def split: if_splits)
  then have res: "ttl_store (ttl_evict_if_needed now c) = dict_pops ?ks ?st"
    by (simp add: ttl_evict_if_needed_def Let_def)
  have "k \<in> set ?ks" using dropped(2) kst by (auto simp: res dict_pops_filter)
  then obtain p where "(k, p) \<in> set (take ?n ?s)" by auto
  moreover from this have "(k, p) \<in> set ?st" by (auto dest: in_set_takeD)
  ultimately have inT: "(k, v, e) \<in> set (take ?n ?s)"
    using kst wf_dict_pops [OF wf, of ?ex] by (metis eq_key_imp_eq_value)
  have "(k', v', e') \<in> set ?st" and nk: "k' \<notin> set ?ks"
    using kept by (auto simp: res dict_pops_filter)
  then have "(k', v', e') \<in> set (take ?n ?s @ drop ?n ?s)"
    by (simp only: append_take_drop_id set_sort)
  moreover have "(k', v', e') \<notin> set (take ?n ?s)" using nk by force
  ultimately have inD: "(k', v', e') \<in> set (drop ?n ?s)" unfolding set_append by blast
  have "sorted (map ?f (take ?n ?s) @ map ?f (drop ?n ?s))"
    by (simp flip: map_append)
  then show ?thesis
    using inT inD by (force simp: sorted_append)
qed

section \<open>Insertion\<close>

lemma ttl_set_keeps:
  "ttl_seconds (ttl_set now k v c) = ttl_seconds c"
  "ttl_maxsize (ttl_set now k v c) = ttl_maxsize c"
  "ttl_enabled (ttl_set now k v c) = ttl_enabled c"
  by (simp_all add: ttl_set_def ttl_evict_keeps)

lemma ttl_inv_set:
  assumes "ttl_inv now c"
  shows "ttl_inv now (ttl_set now k v c)"
proof (cases "ttl_enabled c")
  case False
  then have "ttl_set now k v c = c" by (auto simp: ttl_set_def ttl_enabled_def)
  with assms show ?thesis by simp
next
  case True
  let ?c = "c\<lparr>ttl_store := dict_set k (v, now + of_int (ttl_seconds c)) (ttl_store c)\<rparr>"
  have wf: "wf_dict (ttl_store ?c)" using assms by (auto simp: ttl_inv_def)
  have eq: "ttl_set now k v c = ttl_evict_if_needed now ?c"
    using True by (auto simp: ttl_set_def ttl_enabled_def)
  have "\<forall>(k, v, e) \<in> set (ttl_store ?c). e \<le> now + of_int (ttl_seconds c)"
    using assms set_dict_set_subset [of k "(v, now + of_int (ttl_seconds c))" "ttl_store c"]
    by (fastforce simp: ttl_inv_def)
  then have "\<forall>(k, v, e) \<in> set (ttl_store (ttl_evict_if_needed now ?c)). e \<le> now + of_int (ttl_seconds c)"
    using ttl_evict_subset [of now ?c] by blast
  moreover have "int (length (ttl_store (ttl_evict_if_needed now ?c))) \<le> ttl_maxsize c"
    using ttl_evict_bound [OF wf] True by (simp add: ttl_enabled_def)
  ultimately show ?thesis
    using ttl_evict_wf [OF wf] by (simp add: eq ttl_inv_def ttl_evict_keeps)
qed

lemma ttl_set_get_other:
  assumes inv: "ttl_inv now c" and "now \<le> now'"
    and "ttl_view now' (ttl_set now k v c) j = Some w"
  shows "if j = k then w = v else ttl_view now c j = Some w"
proof -
  let ?c = "c\<lparr>ttl_store := dict_set k (v, now + of_int (ttl_seconds c)) (ttl_store c)\<rparr>"
  have en: "ttl_enabled c" using assms(3) by (simp add: ttl_view_def ttl_set_keeps split: if_splits)
  then have eq: "ttl_set now k v c = ttl_evict_if_needed now ?c"
    by (auto simp: ttl_set_def ttl_enabled_def)
  have wf: "wf_dict (ttl_store ?c)" using inv by (auto simp: ttl_inv_def)
  from assms(3) obtain e where
    "dict_get (ttl_store (ttl_evict_if_needed now ?c)) j = Some (w, e)" "now' < e"
    by (auto simp: eq ttl_view_def ttl_evict_keeps split: option.splits if_splits)
  then have "(j, w, e) \<in> set (ttl_store ?c)" and "now' < e"
    using ttl_evict_subset [of now ?c] by (auto dest: map_of_SomeD)
  then have "dict_get (ttl_store ?c) j = Some (w, e)" using wf by (metis map_of_is_SomeI)
  then show ?thesis
    using en \<open>now' < e\<close> \<open>now \<le> now'\<close> by (auto simp: dict_simps ttl_view_def split: if_splits)
qed

lemma overflow_one:
  "a \<le> b \<Longrightarrow> b \<le> Suc (nat m) \<Longrightarrow> \<not> int a \<le> m \<Longrightarrow> 0 < m \<Longrightarrow> nat (int a - m) = 1"
  by linarith

text \<open>A value just stored is found: eviction never picks the fresh entry.\<close>

lemma ttl_set_get_same:
  assumes inv: "ttl_inv now c" and en: "ttl_enabled c"
  shows "ttl_view now (ttl_set now k v c) k = Some v"
proof -
  let ?e = "now + of_int (ttl_seconds c)"
  let ?c = "c\<lparr>ttl_store := dict_set k (v, ?e) (ttl_store c)\<rparr>"
  let ?f = "\<lambda>(k :: 'a, v :: string, e :: time). e"
  let ?st = "dict_pops (map fst (filter (\<lambda>(k, _, e). e \<le> now) (ttl_store ?c))) (ttl_store ?c)"
  have eq: "ttl_set now k v c = ttl_evict_if_needed now ?c"
    using en by (auto simp: ttl_set_def ttl_enabled_def)
  have wf: "wf_dict (ttl_store ?c)" using inv by (auto simp: ttl_inv_def)
  have pos: "now < ?e" using en by (simp add: ttl_enabled_def)
  have found: "dict_get (ttl_store (ttl_evict_if_needed now ?c)) k = Some (v, ?e)"
  proof (cases "int (length (ttl_store ?c)) \<le> ttl_maxsize c")
    case True
    then show ?thesis by (simp add: ttl_evict_if_needed_def dict_simps)
  next
    case False
    have st: "?st = filter (\<lambda>x. \<not> (case x of (k, v, e) \<Rightarrow> e \<le> now)) (ttl_store ?c)"
      by (rule dict_pops_prune [OF wf])
    have st_k: "dict_get ?st k = Some (v, ?e)"
      unfolding dict_get_prune [OF wf] using pos by (simp add: dict_simps)
    have "k \<notin> fst ` set (ttl_store c)"
      using False inv en by (auto simp: length_dict_set ttl_inv_def ttl_enabled_def split: if_splits)
    then have snoc: "ttl_store ?c = ttl_store c @ [(k, v, ?e)]" by (simp add: dict_set_fresh)
    define old where "old = filter (\<lambda>x. \<not> (case x of (k, v, e) \<Rightarrow> e \<le> now)) (ttl_store c)"
    have st_snoc: "?st = old @ [(k, v, ?e)]"
      unfolding st using pos by (simp add: snoc old_def)
    show ?thesis
    proof (cases "int (length ?st) \<le> ttl_maxsize c")
      case True
      with False st_k show ?thesis by (simp add: ttl_evict_if_needed_def Let_def)
    next
      case big: False
      have len: "length (ttl_store ?c) \<le> Suc (nat (ttl_maxsize c))"
      proof -
        have "int (length (ttl_store c)) \<le> ttl_maxsize c"
          using inv en by (simp add: ttl_inv_def ttl_enabled_def)
        then have "length (ttl_store c) \<le> nat (ttl_maxsize c)" by linarith
        then show ?thesis using length_dict_set_le [of k "(v, ?e)" "ttl_store c"] by simp
      qed
      have "length ?st \<le> length (ttl_store ?c)" unfolding st by simp
      then have n: "nat (int (length ?st) - ttl_maxsize c) = 1"
        using overflow_one [OF _ len big] en by (simp only: ttl_enabled_def)
      have "old \<noteq> []" using big en st_snoc by (auto simp: ttl_enabled_def)
      moreover have "\<forall>y \<in> set old. ?f y \<le> ?f (k, v, ?e)"
        using inv by (fastforce simp: old_def ttl_inv_def)
      ultimately have t1: "take 1 (sort_key ?f ?st) = take 1 (sort_key ?f old)"
        unfolding st_snoc by (subst sort_key_snoc_max) (auto simp: neq_Nil_conv Suc_le_eq)
      have "wf_dict old" using ttl_inv_wf [OF inv] by (simp add: old_def)
      then have "set (map fst (take 1 (sort_key ?f ?st))) \<subseteq> fst ` set old"
        unfolding t1 by (rule map_fst_take_sort(2))
      moreover have "k \<notin> fst ` set old"
        using \<open>k \<notin> fst ` set (ttl_store c)\<close> by (auto simp: old_def)
      ultimately have "k \<notin> set (map fst (take 1 (sort_key ?f ?st)))" by blast
      then have "dict_get (dict_pops (map fst (take 1 (sort_key ?f ?st))) ?st) k = Some (v, ?e)"
        using st_k by (simp only: dict_get_pops if_False)
      moreover have "ttl_store (ttl_evict_if_needed now ?c) =
          dict_pops (map fst (take 1 (sort_key ?f ?st))) ?st"
        by (rule ttl_evict_overflow [OF _ refl]) (use False big n in simp_all)
      ultimately show ?thesis by (simp only:)
    qed
  qed
  then show ?thesis
    using en pos by (simp add: eq ttl_view_def ttl_evict_keeps)
qed

section \<open>Removal\<close>

lemma ttl_pop_view: "ttl_view now (ttl_pop k c) j = (if j = k then None else ttl_view now c j)"
  by (simp add: ttl_pop_def ttl_view_def dict_simps)

lemma ttl_pop_keeps:
  "ttl_seconds (ttl_pop k c) = ttl_seconds c"
  "ttl_maxsize (ttl_pop k c) = ttl_maxsize c"
  "ttl_enabled (ttl_pop k c) = ttl_enabled c"
  by (simp_all add: ttl_pop_def)

lemma ttl_inv_pop: "ttl_inv now c \<Longrightarrow> ttl_inv now (ttl_pop k c)"
  using length_dict_pop_le [of k "ttl_store c"] set_dict_pop_subset [of k "ttl_store c"]
  by (auto simp: ttl_inv_def ttl_pop_def)

end
