(* ===== verification/State_Store.thy ===== *)
theory State_Store
  imports TTL_Cache
begin

text \<open>
  The session state repositories of \<open>server/state_store.py\<close>.  The abstract class is the record
  \<open>session_repo\<close> of its eight methods; the in-memory and the database implementation are
  two values of that record.  An operation that reads the clock takes the reading as its first
  argument.  A SQL table is a dictionary from its primary key to the other columns, and each
  statement the code builds is the corresponding change of that dictionary.

  The locale \<open>session_repository\<close> is the contract the session manager relies on; both
  implementations are interpreted.  \<open>durable_session_repository\<close> adds that owners never
  expire, which only the database promises.
\<close>

section \<open>The abstract repository\<close>

record 's session_repo =
  get_session :: "time \<Rightarrow> string \<Rightarrow> string \<Rightarrow> 's \<Rightarrow> string option \<times> 's"
  set_session :: "time \<Rightarrow> string \<Rightarrow> string \<Rightarrow> string \<Rightarrow> 's \<Rightarrow> 's"
  pop_session :: "string \<Rightarrow> string \<Rightarrow> 's \<Rightarrow> 's"
  get_owner :: "time \<Rightarrow> string \<Rightarrow> 's \<Rightarrow> string option \<times> 's"
  set_owner :: "time \<Rightarrow> string \<Rightarrow> string \<Rightarrow> 's \<Rightarrow> 's"
  get_pending_claim :: "time \<Rightarrow> string \<Rightarrow> 's \<Rightarrow> string option \<times> 's"
  set_pending_claim :: "time \<Rightarrow> string \<Rightarrow> string \<Rightarrow> 's \<Rightarrow> 's"
  clear_pending_claim :: "string \<Rightarrow> string option \<Rightarrow> 's \<Rightarrow> 's"

section \<open>The in-memory repository\<close>

record memory_sessions =
  mem_sessions :: "(string \<times> string) ttl_cache"
  mem_session_owners :: "string ttl_cache"
  mem_pending_claims :: "(string, string) dict"
  mem_pending_expiries :: "(string, time) dict"
  mem_pending_ttl :: time

definition mem_new :: "int \<Rightarrow> int \<Rightarrow> time \<Rightarrow> memory_sessions" where
  "mem_new ttl maxsize pending_ttl =
     \<lparr>mem_sessions = ttl_new ttl maxsize False,
      mem_session_owners = ttl_new ttl maxsize True,
      mem_pending_claims = [], mem_pending_expiries = [], mem_pending_ttl = pending_ttl\<rparr>"

definition mem_prune_pending_claims :: "time \<Rightarrow> memory_sessions \<Rightarrow> memory_sessions" where
  "mem_prune_pending_claims now s =
     (let expired = map fst (filter (\<lambda>(sid, e). e \<le> now) (mem_pending_expiries s))
      in s\<lparr>mem_pending_claims := dict_pops expired (mem_pending_claims s),
           mem_pending_expiries := dict_pops expired (mem_pending_expiries s)\<rparr>)"

definition mem_get_session :: "time \<Rightarrow> string \<Rightarrow> string \<Rightarrow> memory_sessions \<Rightarrow> string option \<times> memory_sessions" where
  "mem_get_session now identity context_id s =
     (let (v, c) = ttl_get now (identity, context_id) (mem_sessions s)
      in (v, s\<lparr>mem_sessions := c\<rparr>))"

definition mem_set_session :: "time \<Rightarrow> string \<Rightarrow> string \<Rightarrow> string \<Rightarrow> memory_sessions \<Rightarrow> memory_sessions" where
  "mem_set_session now identity context_id session_id s =
     s\<lparr>mem_sessions := ttl_set now (identity, context_id) session_id (mem_sessions s)\<rparr>"

definition mem_pop_session :: "string \<Rightarrow> string \<Rightarrow> memory_sessions \<Rightarrow> memory_sessions" where
  "mem_pop_session identity context_id s =
     s\<lparr>mem_sessions := ttl_pop (identity, context_id) (mem_sessions s)\<rparr>"

definition mem_get_owner :: "time \<Rightarrow> string \<Rightarrow> memory_sessions \<Rightarrow> string option \<times> memory_sessions" where
  "mem_get_owner now session_id s =
     (let (v, c) = ttl_get now session_id (mem_session_owners s)
      in (v, s\<lparr>mem_session_owners := c\<rparr>))"

definition mem_set_owner :: "time \<Rightarrow> string \<Rightarrow> string \<Rightarrow> memory_sessions \<Rightarrow> memory_sessions" where
  "mem_set_owner now session_id identity s =
     s\<lparr>mem_session_owners := ttl_set now session_id identity (mem_session_owners s)\<rparr>"

definition mem_get_pending_claim :: "time \<Rightarrow> string \<Rightarrow> memory_sessions \<Rightarrow> string option \<times> memory_sessions" where
  "mem_get_pending_claim now session_id s =
     (let s' = mem_prune_pending_claims now s
      in (dict_get (mem_pending_claims s') session_id, s'))"

definition mem_clear_pending_claim :: "string \<Rightarrow> string option \<Rightarrow> memory_sessions \<Rightarrow> memory_sessions" where
  "mem_clear_pending_claim session_id identity s =
     (if identity = None \<or> dict_get (mem_pending_claims s) session_id = identity
      then s\<lparr>mem_pending_claims := dict_pop session_id (mem_pending_claims s),
             mem_pending_expiries := dict_pop session_id (mem_pending_expiries s)\<rparr>
      else s)"

definition mem_set_pending_claim :: "time \<Rightarrow> string \<Rightarrow> string \<Rightarrow> memory_sessions \<Rightarrow> memory_sessions" where
  "mem_set_pending_claim now session_id identity s =
     (let s' = mem_prune_pending_claims now s
      in if mem_pending_ttl s' \<le> 0 then mem_clear_pending_claim session_id None s'
         else s'\<lparr>mem_pending_claims := dict_set session_id identity (mem_pending_claims s'),
                 mem_pending_expiries :=
                   dict_set session_id (now + mem_pending_ttl s') (mem_pending_expiries s')\<rparr>)"

definition memory_repo :: "memory_sessions session_repo" where
  "memory_repo =
     \<lparr>get_session = mem_get_session, set_session = mem_set_session, pop_session = mem_pop_session,
      get_owner = mem_get_owner, set_owner = mem_set_owner,
      get_pending_claim = mem_get_pending_claim, set_pending_claim = mem_set_pending_claim,
      clear_pending_claim = mem_clear_pending_claim\<rparr>"

section \<open>The database repository\<close>

record pending_row =
  row_identity :: string
  row_updated_at :: "time option"
  row_expires_at :: "time option"

record db_sessions =
  db_bindings :: "(string \<times> string, string) dict"
  db_owners :: "(string, string) dict"
  db_pending :: "(string, pending_row) dict"
  db_pending_ttl :: time

definition db_new :: "time \<Rightarrow> db_sessions" where
  "db_new pending_ttl = \<lparr>db_bindings = [], db_owners = [], db_pending = [], db_pending_ttl = pending_ttl\<rparr>"

text \<open>
  An \<open>INSERT\<close> of an existing primary key is an \<open>IntegrityError\<close> (\<open>None\<close>); the code then
  updates the row.
\<close>

definition table_insert :: "'k \<Rightarrow> 'v \<Rightarrow> ('k, 'v) dict \<Rightarrow> ('k, 'v) dict option" where
  "table_insert k v t = (if k \<in> set (map fst t) then None else Some (t @ [(k, v)]))"

definition table_update :: "'k \<Rightarrow> 'v \<Rightarrow> ('k, 'v) dict \<Rightarrow> ('k, 'v) dict" where
  "table_update k v t = map (\<lambda>(j, w). if j = k then (j, v) else (j, w)) t"

definition insert_then_update_on_conflict :: "'k \<Rightarrow> 'v \<Rightarrow> ('k, 'v) dict \<Rightarrow> ('k, 'v) dict" where
  "insert_then_update_on_conflict k v t =
     (case table_insert k v t of Some t' \<Rightarrow> t' | None \<Rightarrow> table_update k v t)"

definition pending_claim_expires_at :: "pending_row \<Rightarrow> time \<Rightarrow> time option" where
  "pending_claim_expires_at row legacy_ttl =
     (case row_expires_at row of
        Some e \<Rightarrow> Some e
      | None \<Rightarrow> (case row_updated_at row of None \<Rightarrow> None | Some u \<Rightarrow> Some (u + max 0 legacy_ttl)))"

definition pending_row_expired :: "time \<Rightarrow> time \<Rightarrow> pending_row \<Rightarrow> bool" where
  "pending_row_expired now ttl row =
     ((case row_expires_at row of Some e \<Rightarrow> e \<le> now | None \<Rightarrow> False) \<or>
      (row_expires_at row = None \<and>
        (case row_updated_at row of Some u \<Rightarrow> u \<le> now - ttl | None \<Rightarrow> False)) \<or>
      (row_expires_at row = None \<and> row_updated_at row = None))"

definition db_prune_expired_pending_claims :: "time \<Rightarrow> db_sessions \<Rightarrow> db_sessions" where
  "db_prune_expired_pending_claims now s =
     (if db_pending_ttl s \<le> 0 then s\<lparr>db_pending := []\<rparr>
      else s\<lparr>db_pending :=
             filter (\<lambda>(sid, row). \<not> pending_row_expired now (db_pending_ttl s) row) (db_pending s)\<rparr>)"

definition db_get_session :: "time \<Rightarrow> string \<Rightarrow> string \<Rightarrow> db_sessions \<Rightarrow> string option \<times> db_sessions" where
  "db_get_session now identity context_id s = (dict_get (db_bindings s) (identity, context_id), s)"

definition db_set_session :: "time \<Rightarrow> string \<Rightarrow> string \<Rightarrow> string \<Rightarrow> db_sessions \<Rightarrow> db_sessions" where
  "db_set_session now identity context_id session_id s =
     s\<lparr>db_bindings :=
         insert_then_update_on_conflict (identity, context_id) session_id (db_bindings s)\<rparr>"

definition db_pop_session :: "string \<Rightarrow> string \<Rightarrow> db_sessions \<Rightarrow> db_sessions" where
  "db_pop_session identity context_id s =
     s\<lparr>db_bindings := dict_pop (identity, context_id) (db_bindings s)\<rparr>"

definition db_get_owner :: "time \<Rightarrow> string \<Rightarrow> db_sessions \<Rightarrow> string option \<times> db_sessions" where
  "db_get_owner now session_id s = (dict_get (db_owners s) session_id, s)"

definition db_set_owner :: "time \<Rightarrow> string \<Rightarrow> string \<Rightarrow> db_sessions \<Rightarrow> db_sessions" where
  "db_set_owner now session_id identity s =
     s\<lparr>db_owners := insert_then_update_on_conflict session_id identity (db_owners s)\<rparr>"

definition db_get_pending_claim :: "time \<Rightarrow> string \<Rightarrow> db_sessions \<Rightarrow> string option \<times> db_sessions" where
  "db_get_pending_claim now session_id s =
     (let s' = db_prune_expired_pending_claims now s
      in case dict_get (db_pending s') session_id of
           None \<Rightarrow> (None, s')
         | Some row \<Rightarrow>
             (case pending_claim_expires_at row (db_pending_ttl s') of
                None \<Rightarrow> (None, s'\<lparr>db_pending := dict_pop session_id (db_pending s')\<rparr>)
              | Some e \<Rightarrow>
                  if e \<le> now then (None, s'\<lparr>db_pending := dict_pop session_id (db_pending s')\<rparr>)
                  else (Some (row_identity row), s')))"

definition db_set_pending_claim :: "time \<Rightarrow> string \<Rightarrow> string \<Rightarrow> db_sessions \<Rightarrow> db_sessions" where
  "db_set_pending_claim now session_id identity s =
     (let s' = db_prune_expired_pending_claims now s
      in if db_pending_ttl s' \<le> 0 then s'\<lparr>db_pending := dict_pop session_id (db_pending s')\<rparr>
         else s'\<lparr>db_pending :=
           insert_then_update_on_conflict session_id
             \<lparr>row_identity = identity, row_updated_at = Some now,
              row_expires_at = Some (now + db_pending_ttl s')\<rparr> (db_pending s')\<rparr>)"

definition db_clear_pending_claim :: "string \<Rightarrow> string option \<Rightarrow> db_sessions \<Rightarrow> db_sessions" where
  "db_clear_pending_claim session_id identity s =
     s\<lparr>db_pending :=
         filter (\<lambda>(sid, row). \<not> (sid = session_id \<and>
           (case identity of None \<Rightarrow> True | Some i \<Rightarrow> row_identity row = i))) (db_pending s)\<rparr>"

definition database_repo :: "db_sessions session_repo" where
  "database_repo =
     \<lparr>get_session = db_get_session, set_session = db_set_session, pop_session = db_pop_session,
      get_owner = db_get_owner, set_owner = db_set_owner,
      get_pending_claim = db_get_pending_claim, set_pending_claim = db_set_pending_claim,
      clear_pending_claim = db_clear_pending_claim\<rparr>"

end
