(* ===== verification/Session_Contract.thy ===== *)
theory Session_Contract
  imports State_Store
begin

text \<open>
  The contract of a session state repository, in terms of three views of its state at a clock
  reading: the session bound to an (identity, context) pair, the owner of a session, and the
  identity holding a pending claim on a session, which lives for \<open>claim_ttl\<close>.  Both repositories of \<open>State_Store\<close> satisfy
  it; the database one also satisfies the durable contract.
\<close>

section \<open>Contracts\<close>

locale session_repository =
  fixes R :: "'s session_repo"
    and inv :: "time \<Rightarrow> 's \<Rightarrow> bool"
    and session_at :: "time \<Rightarrow> 's \<Rightarrow> string \<times> string \<Rightarrow> string option"
    and owner_at :: "time \<Rightarrow> 's \<Rightarrow> string \<Rightarrow> string option"
    and claim_at :: "time \<Rightarrow> 's \<Rightarrow> string \<Rightarrow> string option"
    and claim_ttl :: "'s \<Rightarrow> time"
  assumes inv_later: "inv t s \<Longrightarrow> t \<le> t' \<Longrightarrow> inv t' s"
    and inv_get_session: "inv t s \<Longrightarrow> inv t (snd (get_session R t i c s))"
    and inv_set_session: "inv t s \<Longrightarrow> inv t (set_session R t i c sid s)"
    and inv_pop_session: "inv t s \<Longrightarrow> inv t (pop_session R i c s)"
    and inv_get_owner: "inv t s \<Longrightarrow> inv t (snd (get_owner R t sid s))"
    and inv_set_owner: "inv t s \<Longrightarrow> inv t (set_owner R t sid i s)"
    and inv_get_claim: "inv t s \<Longrightarrow> inv t (snd (get_pending_claim R t sid s))"
    and inv_set_claim: "inv t s \<Longrightarrow> inv t (set_pending_claim R t sid i s)"
    and inv_clear_claim: "inv t s \<Longrightarrow> inv t (clear_pending_claim R sid io s)"
    and get_session_value: "inv t s \<Longrightarrow> fst (get_session R t i c s) = session_at t s (i, c)"
    and get_owner_value: "inv t s \<Longrightarrow> fst (get_owner R t sid s) = owner_at t s sid"
    and get_claim_value: "inv t s \<Longrightarrow> fst (get_pending_claim R t sid s) = claim_at t s sid"
    and session_earlier: "session_at t' s k = Some v \<Longrightarrow> t \<le> t' \<Longrightarrow> session_at t s k = Some v"
    and owner_earlier: "owner_at t' s x = Some j \<Longrightarrow> t \<le> t' \<Longrightarrow> owner_at t s x = Some j"
    and claim_earlier: "claim_at t' s x = Some j \<Longrightarrow> t \<le> t' \<Longrightarrow> claim_at t s x = Some j"
    and session_after_get: "inv t s \<Longrightarrow> t \<le> t' \<Longrightarrow>
      session_at t' (snd (get_session R t i c s)) k = Some v \<Longrightarrow> session_at t s k = Some v"
    and session_after_set_same: "inv t s \<Longrightarrow> session_at t (set_session R t i c sid s) (i, c) = Some sid"
    and session_after_set: "inv t s \<Longrightarrow> t \<le> t' \<Longrightarrow>
      session_at t' (set_session R t i c sid s) k = Some v \<Longrightarrow>
      (if k = (i, c) then v = sid else session_at t s k = Some v)"
    and session_after_pop:
      "session_at t (pop_session R i c s) k = (if k = (i, c) then None else session_at t s k)"
    and session_frame: "session_at t (snd (get_owner R u sid s)) = session_at t s"
      "session_at t (set_owner R u sid j s) = session_at t s"
      "session_at t (snd (get_pending_claim R u sid s)) = session_at t s"
      "session_at t (set_pending_claim R u sid j s) = session_at t s"
      "session_at t (clear_pending_claim R sid io s) = session_at t s"
    and owner_after_get: "inv t s \<Longrightarrow> t \<le> t' \<Longrightarrow>
      owner_at t' (snd (get_owner R t sid s)) x = Some j \<Longrightarrow> owner_at t s x = Some j"
    and owner_after_get_now: "inv t s \<Longrightarrow> owner_at t (snd (get_owner R t sid s)) x = owner_at t s x"
    and owner_after_set_same: "inv t s \<Longrightarrow> owner_at t (set_owner R t sid j s) sid = Some j"
    and owner_after_set: "inv t s \<Longrightarrow> t \<le> t' \<Longrightarrow>
      owner_at t' (set_owner R t sid i s) x = Some j \<Longrightarrow>
      (if x = sid then j = i else owner_at t s x = Some j)"
    and owner_frame: "owner_at t (snd (get_session R u i c s)) = owner_at t s"
      "owner_at t (set_session R u i c sid s) = owner_at t s"
      "owner_at t (pop_session R i c s) = owner_at t s"
      "owner_at t (snd (get_pending_claim R u sid s)) = owner_at t s"
      "owner_at t (set_pending_claim R u sid j s) = owner_at t s"
      "owner_at t (clear_pending_claim R sid io s) = owner_at t s"
    and claim_after_get: "inv t s \<Longrightarrow> t \<le> t' \<Longrightarrow>
      claim_at t' (snd (get_pending_claim R t sid s)) x = claim_at t' s x"
    and claim_after_set: "inv t s \<Longrightarrow> t \<le> t' \<Longrightarrow>
      claim_at t' (set_pending_claim R t sid i s) x =
        (if x = sid then (if t + claim_ttl s \<le> t' \<or> claim_ttl s \<le> 0 then None else Some i)
         else claim_at t' s x)"
    and claim_after_clear: "inv t s \<Longrightarrow> claim_at t' (clear_pending_claim R sid io s) x =
      (if x = sid \<and> (io = None \<or> claim_at t' s x = io) then None else claim_at t' s x)"
    and claim_frame: "claim_at t (snd (get_session R u i c s)) = claim_at t s"
      "claim_at t (set_session R u i c sid s) = claim_at t s"
      "claim_at t (pop_session R i c s) = claim_at t s"
      "claim_at t (snd (get_owner R u sid s)) = claim_at t s"
      "claim_at t (set_owner R u sid j s) = claim_at t s"

locale durable_session_repository = session_repository R inv session_at owner_at claim_at claim_ttl
  for R :: "'s session_repo" and inv session_at owner_at claim_at claim_ttl +
  assumes session_durable: "session_at t s = session_at t' s"
    and owner_durable: "owner_at t s = owner_at t' s"
    and owner_set: "inv t s \<Longrightarrow> owner_at t' (set_owner R t sid i s) = (owner_at t s)(sid \<mapsto> i)"
    and session_set: "inv t s \<Longrightarrow> session_at t' (set_session R t i c sid s) = (session_at t s)((i, c) \<mapsto> sid)"
    and owner_get: "inv t s \<Longrightarrow> owner_at t' (snd (get_owner R t sid s)) = owner_at t s"
    and session_get: "inv t s \<Longrightarrow> session_at t' (snd (get_session R t i c s)) = session_at t s"

section \<open>The in-memory repository\<close>

definition mem_inv :: "time \<Rightarrow> memory_sessions \<Rightarrow> bool" where
  "mem_inv now s \<longleftrightarrow>
     ttl_inv now (mem_sessions s) \<and> ttl_enabled (mem_sessions s) \<and>
     ttl_inv now (mem_session_owners s) \<and> ttl_enabled (mem_session_owners s) \<and>
     wf_dict (mem_pending_claims s) \<and> wf_dict (mem_pending_expiries s) \<and>
     fst ` set (mem_pending_claims s) = fst ` set (mem_pending_expiries s)"

definition mem_session_at :: "time \<Rightarrow> memory_sessions \<Rightarrow> string \<times> string \<Rightarrow> string option" where
  "mem_session_at now s k = ttl_view now (mem_sessions s) k"

definition mem_owner_at :: "time \<Rightarrow> memory_sessions \<Rightarrow> string \<Rightarrow> string option" where
  "mem_owner_at now s sid = ttl_view now (mem_session_owners s) sid"

definition mem_claim_at :: "time \<Rightarrow> memory_sessions \<Rightarrow> string \<Rightarrow> string option" where
  "mem_claim_at now s sid =
     (case dict_get (mem_pending_expiries s) sid of
        None \<Rightarrow> None
      | Some e \<Rightarrow> if e \<le> now then None else dict_get (mem_pending_claims s) sid)"

lemma mem_inv_new: "0 < ttl \<Longrightarrow> 0 < maxsize \<Longrightarrow> mem_inv now (mem_new ttl maxsize pttl)"
  by (simp add: mem_inv_def mem_new_def ttl_inv_new)

lemma mem_claims_expiries:
  "mem_inv now s \<Longrightarrow> dict_get (mem_pending_claims s) sid = None \<longleftrightarrow>
    dict_get (mem_pending_expiries s) sid = None"
  by (simp add: mem_inv_def map_of_eq_None_iff)

lemma fst_set_pops: "fst ` set (dict_pops ks d) = fst ` set d - set ks"
  by (force simp: dict_pops_filter)

lemma fst_set_dict_set: "fst ` set (dict_set k v d) = insert k (fst ` set d)"
  by (induction d) auto

lemma fst_set_pop: "fst ` set (dict_pop k d) = fst ` set d - {k}"
  by (force simp: AList.delete_eq)

lemma mem_inv_prune: "mem_inv now s \<Longrightarrow> mem_inv now (mem_prune_pending_claims now' s)"
  by (simp add: mem_inv_def mem_prune_pending_claims_def Let_def fst_set_pops)

lemma mem_prune_expiry:
  "wf_dict (mem_pending_expiries s) \<Longrightarrow>
    dict_get (mem_pending_expiries (mem_prune_pending_claims now s)) sid =
      (case dict_get (mem_pending_expiries s) sid of
         None \<Rightarrow> None | Some e \<Rightarrow> if e \<le> now then None else Some e)"
  by (simp add: mem_prune_pending_claims_def Let_def dict_get_prune split: option.split)

lemma mem_prune_claim:
  "mem_inv now s \<Longrightarrow>
    dict_get (mem_pending_claims (mem_prune_pending_claims now s)) sid = mem_claim_at now s sid"
  using mem_claims_expiries [of now s sid]
    wf_dict_key_in_filter [of "mem_pending_expiries s" sid "\<lambda>(sid, e). e \<le> now"]
  unfolding mem_inv_def mem_prune_pending_claims_def mem_claim_at_def Let_def
  by (cases "dict_get (mem_pending_expiries s) sid") (simp_all add: dict_get_pops)

lemma mem_prune_keeps:
  "mem_sessions (mem_prune_pending_claims now s) = mem_sessions s"
  "mem_session_owners (mem_prune_pending_claims now s) = mem_session_owners s"
  "mem_pending_ttl (mem_prune_pending_claims now s) = mem_pending_ttl s"
  by (simp_all add: mem_prune_pending_claims_def Let_def)

lemma mem_claim_at_prune:
  assumes "mem_inv now s" and "now \<le> now'"
  shows "mem_claim_at now' (mem_prune_pending_claims now s) sid = mem_claim_at now' s sid"
proof -
  have wf: "wf_dict (mem_pending_expiries s)" using assms(1) by (simp add: mem_inv_def)
  show ?thesis
    using assms(2) unfolding mem_claim_at_def [of now'] mem_prune_expiry [OF wf]
      mem_prune_claim [OF assms(1)] mem_claim_at_def [of now]
    by (cases "dict_get (mem_pending_expiries s) sid") auto
qed

lemma mem_inv_clear: "mem_inv now s \<Longrightarrow> mem_inv now (mem_clear_pending_claim sid io s)"
  by (auto simp: mem_inv_def mem_clear_pending_claim_def fst_set_pop)

lemma mem_inv_set_claim: "mem_inv now s \<Longrightarrow> mem_inv now (mem_set_pending_claim now sid i s)"
  using mem_inv_prune [of now s now]
  by (auto simp: mem_set_pending_claim_def Let_def mem_inv_clear)
    (auto simp: mem_inv_def fst_set_dict_set)

lemma mem_claim_after_clear:
  "mem_inv t s \<Longrightarrow> mem_claim_at t' (mem_clear_pending_claim sid io s) x =
    (if x = sid \<and> (io = None \<or> mem_claim_at t' s x = io) then None else mem_claim_at t' s x)"
  by (auto simp: mem_clear_pending_claim_def mem_claim_at_def dict_simps split: option.splits)

lemma mem_claim_at_put:
  "mem_claim_at t (s\<lparr>mem_pending_claims := dict_set sid i (mem_pending_claims s),
      mem_pending_expiries := dict_set sid e (mem_pending_expiries s)\<rparr>) x =
    (if x = sid then (if e \<le> t then None else Some i) else mem_claim_at t s x)"
  by (auto simp: mem_claim_at_def dict_simps split: option.split)

lemma mem_claim_after_set:
  assumes "mem_inv t s" and "t \<le> t'"
  shows "mem_claim_at t' (mem_set_pending_claim t sid i s) x =
    (if x = sid then (if t + mem_pending_ttl s \<le> t' \<or> mem_pending_ttl s \<le> 0 then None else Some i)
     else mem_claim_at t' s x)"
  by (simp add: mem_set_pending_claim_def Let_def mem_prune_keeps mem_claim_at_put
      mem_claim_after_clear [OF mem_inv_prune [OF assms(1)]] mem_claim_at_prune [OF assms])

lemma memory_repo_sel [simp]:
  "get_session memory_repo = mem_get_session"
  "set_session memory_repo = mem_set_session"
  "pop_session memory_repo = mem_pop_session"
  "get_owner memory_repo = mem_get_owner"
  "set_owner memory_repo = mem_set_owner"
  "get_pending_claim memory_repo = mem_get_pending_claim"
  "set_pending_claim memory_repo = mem_set_pending_claim"
  "clear_pending_claim memory_repo = mem_clear_pending_claim"
  by (simp_all add: memory_repo_def)

lemma mem_get_value:
  "fst (mem_get_session t i c s) = mem_session_at t s (i, c)"
  "fst (mem_get_owner t sid s) = mem_owner_at t s sid"
  "mem_inv t s \<Longrightarrow> fst (mem_get_pending_claim t sid s) = mem_claim_at t s sid"
  by (simp_all add: mem_get_session_def mem_get_owner_def mem_get_pending_claim_def case_prod_unfold
      Let_def mem_session_at_def mem_owner_at_def ttl_get_view mem_prune_claim)

lemma mem_get_state:
  "snd (mem_get_session t i c s) = s\<lparr>mem_sessions := snd (ttl_get t (i, c) (mem_sessions s))\<rparr>"
  "snd (mem_get_owner t sid s) = s\<lparr>mem_session_owners := snd (ttl_get t sid (mem_session_owners s))\<rparr>"
  "snd (mem_get_pending_claim t sid s) = mem_prune_pending_claims t s"
  by (simp_all add: mem_get_session_def mem_get_owner_def mem_get_pending_claim_def case_prod_unfold
      Let_def)

lemma mem_claim_fields:
  "mem_sessions (mem_set_pending_claim t sid i s) = mem_sessions s"
  "mem_session_owners (mem_set_pending_claim t sid i s) = mem_session_owners s"
  "mem_sessions (mem_clear_pending_claim sid io s) = mem_sessions s"
  "mem_session_owners (mem_clear_pending_claim sid io s) = mem_session_owners s"
  by (simp_all add: mem_set_pending_claim_def mem_clear_pending_claim_def Let_def mem_prune_keeps)

lemmas mem_state = mem_get_state mem_set_session_def mem_pop_session_def mem_set_owner_def

lemma mem_inv_ops:
  assumes "mem_inv t s"
  shows "mem_inv t (snd (mem_get_session t i c s))" "mem_inv t (mem_set_session t i c sid s)"
    "mem_inv t (mem_pop_session i c s)" "mem_inv t (snd (mem_get_owner t sid s))"
    "mem_inv t (mem_set_owner t sid i s)" "mem_inv t (snd (mem_get_pending_claim t sid s))"
  using assms mem_inv_prune [OF assms]
  by (simp_all add: mem_state mem_inv_def ttl_inv_get ttl_inv_set ttl_inv_pop ttl_get_keeps
      ttl_set_keeps ttl_pop_keeps)

lemma mem_frames:
  "mem_session_at t (s\<lparr>mem_session_owners := o'\<rparr>) = mem_session_at t s"
  "mem_claim_at t (s\<lparr>mem_session_owners := o'\<rparr>) = mem_claim_at t s"
  "mem_owner_at t (s\<lparr>mem_sessions := c'\<rparr>) = mem_owner_at t s"
  "mem_claim_at t (s\<lparr>mem_sessions := c'\<rparr>) = mem_claim_at t s"
  by (simp_all add: fun_eq_iff mem_session_at_def mem_owner_at_def mem_claim_at_def
      split: option.split)

lemma mem_claim_frames:
  "mem_session_at t (mem_prune_pending_claims u s) = mem_session_at t s"
  "mem_session_at t (mem_set_pending_claim u sid i s) = mem_session_at t s"
  "mem_session_at t (mem_clear_pending_claim sid io s) = mem_session_at t s"
  "mem_owner_at t (mem_prune_pending_claims u s) = mem_owner_at t s"
  "mem_owner_at t (mem_set_pending_claim u sid i s) = mem_owner_at t s"
  "mem_owner_at t (mem_clear_pending_claim sid io s) = mem_owner_at t s"
  by (simp_all add: fun_eq_iff mem_session_at_def mem_owner_at_def mem_prune_keeps mem_claim_fields)

lemma mem_invD:
  assumes "mem_inv t s"
  shows "ttl_inv t (mem_sessions s)" "ttl_enabled (mem_sessions s)"
    "ttl_inv t (mem_session_owners s)" "ttl_enabled (mem_session_owners s)"
  using assms by (simp_all add: mem_inv_def)

lemma mem_views:
  "mem_session_at t (s\<lparr>mem_sessions := c'\<rparr>) k = ttl_view t c' k"
  "mem_owner_at t (s\<lparr>mem_session_owners := o'\<rparr>) x = ttl_view t o' x"
  by (simp_all add: mem_session_at_def mem_owner_at_def)

lemma mem_claim_earlier:
  "mem_claim_at t' s x = Some j \<Longrightarrow> t \<le> t' \<Longrightarrow> mem_claim_at t s x = Some j"
  by (auto simp: mem_claim_at_def split: option.splits if_splits)

lemma mem_inv_later: "mem_inv t s \<Longrightarrow> t \<le> t' \<Longrightarrow> mem_inv t' s"
  by (auto simp: mem_inv_def intro: ttl_inv_mono)

lemma mem_owner_view_now:
  "mem_inv t s \<Longrightarrow>
    ttl_view t (snd (ttl_get t sid (mem_session_owners s))) x = ttl_view t (mem_session_owners s) x"
  using ttl_view_after_get_same [of "mem_session_owners s" t sid x]
  by (auto simp: mem_inv_def ttl_enabled_def)

interpretation mem: session_repository memory_repo mem_inv mem_session_at mem_owner_at mem_claim_at
  mem_pending_ttl
proof (unfold_locales, unfold memory_repo_sel)
  fix t t' :: time and s k v i c
  assume "mem_inv t s" "t \<le> t'" "mem_session_at t' (snd (mem_get_session t i c s)) k = Some v"
  then show "mem_session_at t s k = Some v"
    using ttl_view_after_get [of t t' "(i, c)" "mem_sessions s" k v]
    by (simp add: mem_state mem_views mem_session_at_def)
next
  fix t t' :: time and s k v i c sid
  assume "mem_inv t s" "t \<le> t'" "mem_session_at t' (mem_set_session t i c sid s) k = Some v"
  then show "if k = (i, c) then v = sid else mem_session_at t s k = Some v"
    using ttl_set_get_other [of t "mem_sessions s" t' "(i, c)" sid k v]
    by (simp add: mem_state mem_views mem_session_at_def mem_invD)
next
  fix t t' :: time and s x j sid
  assume "mem_inv t s" "t \<le> t'" "mem_owner_at t' (snd (mem_get_owner t sid s)) x = Some j"
  then show "mem_owner_at t s x = Some j"
    using ttl_view_after_get [of t t' sid "mem_session_owners s" x j]
    by (simp add: mem_state mem_views mem_owner_at_def)
next
  fix t t' :: time and s x j sid i
  assume "mem_inv t s" "t \<le> t'" "mem_owner_at t' (mem_set_owner t sid i s) x = Some j"
  then show "if x = sid then j = i else mem_owner_at t s x = Some j"
    using ttl_set_get_other [of t "mem_session_owners s" t' sid i x j]
    by (simp add: mem_state mem_views mem_owner_at_def mem_invD)
next
  show "mem_inv t' s" if "mem_inv t s" "t \<le> t'" for t t' s
    using that by (rule mem_inv_later)
  show "mem_session_at t s k = Some v" if "mem_session_at t' s k = Some v" "t \<le> t'" for t t' s k v
    using that unfolding mem_session_at_def by (rule ttl_view_antimono)
  show "mem_owner_at t s k = Some v" if "mem_owner_at t' s k = Some v" "t \<le> t'" for t t' s k v
    using that unfolding mem_owner_at_def by (rule ttl_view_antimono)
  show "mem_claim_at t s k = Some v" if "mem_claim_at t' s k = Some v" "t \<le> t'" for t t' s k v
    using that by (rule mem_claim_earlier)
qed (simp_all add: mem_inv_ops [unfolded mem_state] mem_inv_set_claim mem_inv_clear mem_get_value
    mem_owner_view_now
    mem_claim_at_prune mem_claim_after_set mem_claim_after_clear mem_claim_frames mem_frames
    mem_state mem_views ttl_set_get_same mem_invD ttl_pop_view mem_session_at_def mem_owner_at_def)

section \<open>The database repository\<close>

definition db_inv :: "time \<Rightarrow> db_sessions \<Rightarrow> bool" where
  "db_inv now s \<longleftrightarrow> wf_dict (db_bindings s) \<and> wf_dict (db_owners s) \<and> wf_dict (db_pending s)"

definition db_session_at :: "time \<Rightarrow> db_sessions \<Rightarrow> string \<times> string \<Rightarrow> string option" where
  "db_session_at now s k = dict_get (db_bindings s) k"

definition db_owner_at :: "time \<Rightarrow> db_sessions \<Rightarrow> string \<Rightarrow> string option" where
  "db_owner_at now s sid = dict_get (db_owners s) sid"

definition db_claim_at :: "time \<Rightarrow> db_sessions \<Rightarrow> string \<Rightarrow> string option" where
  "db_claim_at now s sid =
     (if db_pending_ttl s \<le> 0 then None
      else case dict_get (db_pending s) sid of
             None \<Rightarrow> None
           | Some row \<Rightarrow> if pending_row_expired now (db_pending_ttl s) row then None
                         else Some (row_identity row))"

lemma db_inv_new: "db_inv now (db_new pttl)"
  by (simp add: db_inv_def db_new_def)

lemma insert_then_update_eq: "wf_dict t \<Longrightarrow> insert_then_update_on_conflict k v t = dict_set k v t"
proof (induction t)
  case Nil
  then show ?case by (simp add: insert_then_update_on_conflict_def table_insert_def)
next
  case (Cons e t)
  have "table_update k v t = t" if "k \<notin> fst ` set t"
    using that unfolding table_update_def by (intro map_idI) force
  then show ?case
    using Cons by (cases e) (auto simp: insert_then_update_on_conflict_def table_insert_def
        table_update_def split: if_splits)
qed

lemma db_pending_alive:
  "\<not> ttl \<le> 0 \<Longrightarrow> \<not> pending_row_expired now ttl row \<Longrightarrow>
    \<exists>e. pending_claim_expires_at row ttl = Some e \<and> now < e"
  by (auto simp: pending_claim_expires_at_def pending_row_expired_def split: option.splits)

lemma pending_row_expired_mono:
  "pending_row_expired now ttl row \<Longrightarrow> now \<le> now' \<Longrightarrow> pending_row_expired now' ttl row"
  by (auto simp: pending_row_expired_def split: option.splits)

lemma db_inv_prune: "db_inv t s \<Longrightarrow> db_inv t' (db_prune_expired_pending_claims now s)"
  by (simp add: db_inv_def db_prune_expired_pending_claims_def)

lemma dict_get_filter:
  assumes "wf_dict d"
  shows "dict_get (filter P d) k =
    (case dict_get d k of None \<Rightarrow> None | Some v \<Rightarrow> if P (k, v) then Some v else None)"
  using dict_get_prune [OF assms, of "\<lambda>e. \<not> P e" k] dict_pops_prune [OF assms, of "\<lambda>e. \<not> P e"]
  by (auto split: option.splits)

lemma db_prune_get:
  "db_inv t s \<Longrightarrow> dict_get (db_pending (db_prune_expired_pending_claims now s)) sid =
    (if db_pending_ttl s \<le> 0 then None
     else case dict_get (db_pending s) sid of None \<Rightarrow> None
       | Some row \<Rightarrow> if pending_row_expired now (db_pending_ttl s) row then None else Some row)"
  by (auto simp: db_prune_expired_pending_claims_def db_inv_def dict_get_filter split: option.split)

lemma db_prune_keeps:
  "db_pending_ttl (db_prune_expired_pending_claims now s) = db_pending_ttl s"
  "db_bindings (db_prune_expired_pending_claims now s) = db_bindings s"
  "db_owners (db_prune_expired_pending_claims now s) = db_owners s"
  by (simp_all add: db_prune_expired_pending_claims_def)

lemma db_claim_at_prune:
  "db_inv t s \<Longrightarrow> now \<le> now' \<Longrightarrow>
    db_claim_at now' (db_prune_expired_pending_claims now s) sid = db_claim_at now' s sid"
  by (auto simp: db_claim_at_def db_prune_get db_prune_keeps split: option.splits
      dest: pending_row_expired_mono)

text \<open>
  The second expiry check of \<open>get_pending_claim\<close>, after the pruning statement, never fires: a
  row the statement leaves in the table has not expired.
\<close>

lemma db_get_claim_eq:
  assumes "db_inv t s"
  shows "db_get_pending_claim now sid s =
    (db_claim_at now s sid, db_prune_expired_pending_claims now s)"
  using assms
  by (cases "db_pending_ttl s \<le> 0") (auto simp: db_get_pending_claim_def Let_def db_prune_get
      db_prune_keeps db_claim_at_def dest!: db_pending_alive split: option.split)

lemma db_set_claim_state:
  assumes "db_inv t s"
  shows "db_set_pending_claim now sid i s =
    (let p = db_prune_expired_pending_claims now s
     in if db_pending_ttl s \<le> 0 then p\<lparr>db_pending := dict_pop sid (db_pending p)\<rparr>
        else p\<lparr>db_pending := dict_set sid
               \<lparr>row_identity = i, row_updated_at = Some now,
                row_expires_at = Some (now + db_pending_ttl s)\<rparr> (db_pending p)\<rparr>)"
  using db_inv_prune [OF assms, of now now]
  by (simp add: db_set_pending_claim_def Let_def db_prune_keeps db_inv_def insert_then_update_eq)

lemma db_claim_at_put:
  "db_claim_at t (s\<lparr>db_pending := dict_set sid row (db_pending s)\<rparr>) x =
    (if x = sid
     then (if db_pending_ttl s \<le> 0 \<or> pending_row_expired t (db_pending_ttl s) row then None
           else Some (row_identity row))
     else db_claim_at t s x)"
  by (auto simp: db_claim_at_def dict_simps split: option.split)

lemma db_claim_after_set:
  assumes "db_inv t s" and "t \<le> t'"
  shows "db_claim_at t' (db_set_pending_claim t sid i s) x =
    (if x = sid then (if t + db_pending_ttl s \<le> t' \<or> db_pending_ttl s \<le> 0 then None else Some i)
     else db_claim_at t' s x)"
proof (cases "db_pending_ttl s \<le> 0")
  case True
  then show ?thesis
    by (simp add: db_set_claim_state [OF assms(1)] Let_def db_claim_at_def db_prune_keeps)
next
  case False
  then show ?thesis
    by (simp add: db_set_claim_state [OF assms(1)] Let_def db_claim_at_put db_prune_keeps
        db_claim_at_prune [OF assms] pending_row_expired_def)
qed

lemma db_claim_after_clear:
  "db_inv t s \<Longrightarrow> db_claim_at t' (db_clear_pending_claim sid io s) x =
    (if x = sid \<and> (io = None \<or> db_claim_at t' s x = io) then None else db_claim_at t' s x)"
  by (auto simp: db_claim_at_def db_clear_pending_claim_def db_inv_def dict_get_filter
      split: option.splits if_splits)

lemma database_repo_sel [simp]:
  "get_session database_repo = db_get_session"
  "set_session database_repo = db_set_session"
  "pop_session database_repo = db_pop_session"
  "get_owner database_repo = db_get_owner"
  "set_owner database_repo = db_set_owner"
  "get_pending_claim database_repo = db_get_pending_claim"
  "set_pending_claim database_repo = db_set_pending_claim"
  "clear_pending_claim database_repo = db_clear_pending_claim"
  by (simp_all add: database_repo_def)

lemmas db_state = db_get_session_def db_set_session_def db_pop_session_def db_get_owner_def
  db_set_owner_def

lemma db_claim_fields:
  "db_bindings (db_set_pending_claim u sid i s) = db_bindings s"
  "db_owners (db_set_pending_claim u sid i s) = db_owners s"
  "db_bindings (db_clear_pending_claim sid io s) = db_bindings s"
  "db_owners (db_clear_pending_claim sid io s) = db_owners s"
  "db_bindings (snd (db_get_pending_claim u sid s)) = db_bindings s"
  "db_owners (snd (db_get_pending_claim u sid s)) = db_owners s"
  by (simp_all add: db_set_pending_claim_def db_clear_pending_claim_def db_get_pending_claim_def
      Let_def db_prune_keeps split: option.split)

lemma db_inv_ops:
  assumes "db_inv t s"
  shows "db_inv t (db_set_session t i c sid s)" "db_inv t (db_pop_session i c s)"
    "db_inv t (db_set_owner t sid i s)" "db_inv t (snd (db_get_pending_claim t sid s))"
    "db_inv t (db_set_pending_claim t sid i s)" "db_inv t (db_clear_pending_claim sid io s)"
  using assms db_inv_prune [OF assms]
  by (simp_all add: db_state db_get_claim_eq [OF assms] db_set_claim_state [OF assms] Let_def
      db_clear_pending_claim_def db_inv_def insert_then_update_eq)

lemma db_claim_frames:
  "db_claim_at t (s\<lparr>db_bindings := b\<rparr>) = db_claim_at t s"
  "db_claim_at t (s\<lparr>db_owners := b'\<rparr>) = db_claim_at t s"
  by (auto simp: fun_eq_iff db_claim_at_def split: option.split)

lemma db_claim_earlier:
  "db_claim_at t' s x = Some j \<Longrightarrow> t \<le> t' \<Longrightarrow> db_claim_at t s x = Some j"
  by (auto simp: db_claim_at_def split: option.splits if_splits dest: pending_row_expired_mono)

lemma db_inv_later: "db_inv t s \<Longrightarrow> db_inv t' s"
  by (simp add: db_inv_def)

lemma db_inv_fields:
  assumes "db_inv t s"
  shows "db_inv t (s\<lparr>db_bindings := dict_set k v (db_bindings s)\<rparr>)"
    "db_inv t (s\<lparr>db_bindings := dict_pop k (db_bindings s)\<rparr>)"
    "db_inv t (s\<lparr>db_owners := dict_set x i (db_owners s)\<rparr>)"
  using assms by (simp_all add: db_inv_def)

lemma db_bindings_set:
  "db_inv t s \<Longrightarrow> insert_then_update_on_conflict k v (db_bindings s) = dict_set k v (db_bindings s)"
  by (simp add: db_inv_def insert_then_update_eq)

lemma db_owners_set:
  "db_inv t s \<Longrightarrow> insert_then_update_on_conflict x i (db_owners s) = dict_set x i (db_owners s)"
  by (simp add: db_inv_def insert_then_update_eq)

interpretation db: durable_session_repository database_repo db_inv db_session_at db_owner_at db_claim_at
  db_pending_ttl
proof (unfold_locales, unfold database_repo_sel)
  fix t t' :: time and s x j
  assume "db_claim_at t' s x = Some j" "t \<le> t'"
  then show "db_claim_at t s x = Some j" by (rule db_claim_earlier)
qed (auto simp: db_state db_inv_ops db_get_claim_eq db_claim_at_prune db_claim_after_set
    db_claim_after_clear db_claim_frames db_session_at_def db_owner_at_def fun_eq_iff db_claim_fields
    db_bindings_set db_owners_set db_inv_later db_inv_fields
    db_inv_prune dict_simps split: if_splits)

end
