(* ===== verification/Session_Manager.thy ===== *)
theory Session_Manager
  imports Session_Contract
begin

text \<open>
  \<open>SessionManager\<close> of \<open>execution/session_manager.py\<close>.  Every public method is a sequence of
  critical sections under \<open>self._lock\<close>; a section is one definition over the repository record
  \<open>R\<close>, with one clock reading per repository call that takes one.  The concurrent behaviour is
  the step relation \<open>mgr_step\<close>, whose steps are whole sections: the lock is held across the
  awaits inside a section, and any other request can run between two sections.
\<close>

section \<open>State\<close>

datatype session_error = PermissionDenied string | CreateFailed | CreateCancelled

text \<open>An \<open>asyncio.Task\<close> that creates an upstream session.\<close>

datatype create_task = Running | Finished string | Failed | CancelledTask

type_synonym cache_key = "string \<times> string"

record 's session_mgr =
  state_repository :: 's
  inflight_creates :: "(cache_key, nat) dict"

section \<open>Critical sections\<close>

definition claim_preferred_session ::
  "'s session_repo \<Rightarrow> time \<Rightarrow> time \<Rightarrow> time \<Rightarrow> string \<Rightarrow> string \<Rightarrow> 's \<Rightarrow> (session_error + bool) \<times> 's" where
  "claim_preferred_session R t1 t2 t3 identity session_id s =
     (let (owner, s1) = get_owner R t1 session_id s;
          (pending_owner, s2) = get_pending_claim R t2 session_id s1
      in if truthy_str owner \<and> owner \<noteq> Some identity then (Inl (PermissionDenied session_id), s2)
         else if truthy_str pending_owner \<and> pending_owner \<noteq> Some identity
           then (Inl (PermissionDenied session_id), s2)
         else if owner = Some identity then (Inr False, s2)
         else (Inr True, set_pending_claim R t3 session_id identity s2))"

definition finalize_session_claim ::
  "'s session_repo \<Rightarrow> time \<Rightarrow> time \<Rightarrow> time \<Rightarrow> string \<Rightarrow> string \<Rightarrow> 's \<Rightarrow> (session_error + unit) \<times> 's" where
  "finalize_session_claim R t1 t2 t3 identity session_id s =
     (let (owner, s1) = get_owner R t1 session_id s;
          (pending_owner, s2) = get_pending_claim R t2 session_id s1
      in if truthy_str owner \<and> owner \<noteq> Some identity then (Inl (PermissionDenied session_id), s2)
         else if truthy_str pending_owner \<and> pending_owner \<noteq> Some identity
           then (Inl (PermissionDenied session_id), s2)
         else (Inr (), clear_pending_claim R session_id (Some identity)
                         (set_owner R t3 session_id identity s2)))"

definition release_preferred_session_claim :: "'s session_repo \<Rightarrow> string \<Rightarrow> string \<Rightarrow> 's \<Rightarrow> 's" where
  "release_preferred_session_claim R identity session_id s =
     clear_pending_claim R session_id (Some identity) s"

definition finalize_preferred_session_binding ::
  "'s session_repo \<Rightarrow> time \<Rightarrow> time \<Rightarrow> time \<Rightarrow> time \<Rightarrow> string \<Rightarrow> string \<Rightarrow> string \<Rightarrow> 's
     \<Rightarrow> (session_error + unit) \<times> 's" where
  "finalize_preferred_session_binding R t1 t2 t3 t4 identity context_id session_id s =
     (case finalize_session_claim R t1 t2 t3 identity session_id s of
        (Inl e, s') \<Rightarrow> (Inl e, s')
      | (Inr _, s') \<Rightarrow> (Inr (), set_session R t4 identity context_id session_id s'))"

text \<open>
  The first section of \<open>get_or_create_session\<close> without a preferred session: an existing
  binding is returned, otherwise the request waits for the creation task in flight for its key,
  which it starts (as \<open>fresh\<close>) when there is none.
\<close>

definition lookup_or_start ::
  "'s session_repo \<Rightarrow> time \<Rightarrow> nat \<Rightarrow> string \<Rightarrow> string \<Rightarrow> 's session_mgr \<Rightarrow> (string + nat) \<times> 's session_mgr" where
  "lookup_or_start R t fresh identity context_id m =
     (let (existing, s) = get_session R t identity context_id (state_repository m);
          m' = m\<lparr>state_repository := s\<rparr>
      in case existing of
           Some (ch # cs) \<Rightarrow> (Inl (ch # cs), m')
         | _ \<Rightarrow> (case dict_get (inflight_creates m) (identity, context_id) of
                  Some task \<Rightarrow> (Inr task, m')
                | None \<Rightarrow> (Inr fresh, m'\<lparr>inflight_creates :=
                             dict_set (identity, context_id) fresh (inflight_creates m)\<rparr>)))"

definition drop_inflight :: "cache_key \<Rightarrow> nat \<Rightarrow> 's session_mgr \<Rightarrow> 's session_mgr" where
  "drop_inflight key task m =
     (if dict_get (inflight_creates m) key = Some task
      then m\<lparr>inflight_creates := dict_pop key (inflight_creates m)\<rparr> else m)"

definition finish_create ::
  "'s session_repo \<Rightarrow> time \<Rightarrow> time \<Rightarrow> time \<Rightarrow> string \<Rightarrow> string \<Rightarrow> nat \<Rightarrow> string \<Rightarrow> 's session_mgr
     \<Rightarrow> (session_error + string) \<times> 's session_mgr" where
  "finish_create R t1 t2 t3 identity context_id task session_id m =
     (let (owner, s1) = get_owner R t1 session_id (state_repository m)
      in if truthy_str owner \<and> owner \<noteq> Some identity
         then (Inl (PermissionDenied session_id),
               drop_inflight (identity, context_id) task (m\<lparr>state_repository := s1\<rparr>))
         else
           let s2 = set_session R t2 identity context_id session_id s1;
               s3 = (if truthy_str owner then s2 else set_owner R t3 session_id identity s2)
           in (Inr session_id,
               drop_inflight (identity, context_id) task (m\<lparr>state_repository := s3\<rparr>)))"

definition pop_cached_session ::
  "'s session_repo \<Rightarrow> string \<Rightarrow> string \<Rightarrow> 's session_mgr \<Rightarrow> nat option \<times> 's session_mgr" where
  "pop_cached_session R identity context_id m =
     (dict_get (inflight_creates m) (identity, context_id),
      m\<lparr>state_repository := pop_session R identity context_id (state_repository m),
        inflight_creates := dict_pop (identity, context_id) (inflight_creates m)\<rparr>)"

text \<open>
  What the waiting request does when its creation task settles.  The handler is
  \<open>except Exception\<close>, which a \<open>CancelledError\<close> is not: a cancelled task leaves the
  table as it is.
\<close>

definition await_create ::
  "'s session_repo \<Rightarrow> time \<Rightarrow> time \<Rightarrow> time \<Rightarrow> string \<Rightarrow> string \<Rightarrow> nat \<Rightarrow> create_task \<Rightarrow> 's session_mgr
     \<Rightarrow> (session_error + string) \<times> 's session_mgr" where
  "await_create R t1 t2 t3 identity context_id task outcome m =
     (case outcome of
        Finished session_id \<Rightarrow> finish_create R t1 t2 t3 identity context_id task session_id m
      | Failed \<Rightarrow> (Inl CreateFailed, drop_inflight (identity, context_id) task m)
      | _ \<Rightarrow> (Inl CreateCancelled, m))"

text \<open>
  \<open>get_or_create_session\<close> of one request with no other request in between.  The clock
  readings are \<open>clk 0\<close>, \<open>clk 1\<close>, and so on, and \<open>outcome\<close> is how each creation task
  settles.
\<close>

definition get_or_create_session ::
  "'s session_repo \<Rightarrow> (nat \<Rightarrow> time) \<Rightarrow> (nat \<Rightarrow> create_task) \<Rightarrow> nat \<Rightarrow> string \<Rightarrow> string \<Rightarrow> string option
     \<Rightarrow> 's session_mgr \<Rightarrow> (session_error + string \<times> bool) \<times> 's session_mgr" where
  "get_or_create_session R clk outcome fresh identity context_id preferred m =
     (if truthy_str preferred then
        let sid = the preferred in
        case claim_preferred_session R (clk 0) (clk 1) (clk 2) identity sid (state_repository m) of
          (Inl e, s) \<Rightarrow> (Inl e, m\<lparr>state_repository := s\<rparr>)
        | (Inr True, s) \<Rightarrow> (Inr (sid, True), m\<lparr>state_repository := s\<rparr>)
        | (Inr False, s) \<Rightarrow>
            (Inr (sid, False), m\<lparr>state_repository := set_session R (clk 3) identity context_id sid s\<rparr>)
      else
        case lookup_or_start R (clk 0) fresh identity context_id m of
          (Inl sid, m') \<Rightarrow> (Inr (sid, False), m')
        | (Inr task, m') \<Rightarrow>
            (case await_create R (clk 1) (clk 2) (clk 3) identity context_id task (outcome task) m' of
               (Inl e, m'') \<Rightarrow> (Inl e, m'')
             | (Inr sid, m'') \<Rightarrow> (Inr (sid, False), m'')))"

section \<open>Ownership in any repository\<close>

context session_repository begin

lemma guards_state:
  assumes "inv t1 s" "t1 \<le> t2"
  shows "inv t2 (snd (get_pending_claim R t2 sid (snd (get_owner R t1 sid s))))"
  using assms by (blast intro: inv_get_claim inv_get_owner inv_later)

lemma guards_values:
  assumes "inv t1 s" "t1 \<le> t2"
  shows "fst (get_owner R t1 sid s) = owner_at t1 s sid"
    and "fst (get_pending_claim R t2 sid (snd (get_owner R t1 sid s))) = claim_at t2 s sid"
  using assms get_claim_value [OF inv_later [OF inv_get_owner [OF assms(1)] assms(2)]]
  by (simp_all add: get_owner_value claim_frame)

text \<open>The guards only read: what is owned or claimed afterwards was owned or claimed before.\<close>

lemma guards_owner:
  assumes "inv t1 s" "t1 \<le> t2" "t2 \<le> t'"
    and "owner_at t' (snd (get_pending_claim R t2 sid (snd (get_owner R t1 sid s)))) x = Some j"
  shows "owner_at t1 s x = Some j"
proof -
  from assms(4) have "owner_at t' (snd (get_owner R t1 sid s)) x = Some j"
    by (simp only: owner_frame)
  then show ?thesis using owner_after_get [OF assms(1)] assms(2,3) by (meson order_trans)
qed

lemma guards_claim:
  assumes "inv t1 s" "t1 \<le> t2" "t2 \<le> t'"
  shows "claim_at t' (snd (get_pending_claim R t2 sid (snd (get_owner R t1 sid s)))) x = claim_at t' s x"
  using claim_after_get [OF inv_later [OF inv_get_owner [OF assms(1)] assms(2)] assms(3)]
  by (simp add: claim_frame)

lemma claim_owned_by_other:
  assumes "inv t1 s" "t1 \<le> t2" and "owner_at t1 s sid = Some i" "i \<noteq> []" "i \<noteq> j"
  shows "fst (claim_preferred_session R t1 t2 t3 j sid s) = Inl (PermissionDenied sid)"
    and "fst (finalize_session_claim R t1 t2 t3 j sid s) = Inl (PermissionDenied sid)"
  using assms guards_values [OF assms(1,2)]
  by (simp_all add: claim_preferred_session_def finalize_session_claim_def case_prod_unfold Let_def)

lemma claim_pending_for_other:
  assumes "inv t1 s" "t1 \<le> t2" and "claim_at t2 s sid = Some i" "i \<noteq> []" "i \<noteq> j"
  shows "fst (claim_preferred_session R t1 t2 t3 j sid s) = Inl (PermissionDenied sid)"
    and "fst (finalize_session_claim R t1 t2 t3 j sid s) = Inl (PermissionDenied sid)"
  using assms guards_values [OF assms(1,2)]
  by (simp_all add: claim_preferred_session_def finalize_session_claim_def case_prod_unfold Let_def)

lemma claim_result:
  assumes "inv t1 s" "t1 \<le> t2"
  shows "fst (claim_preferred_session R t1 t2 t3 j sid s) =
    (if (truthy_str (owner_at t1 s sid) \<and> owner_at t1 s sid \<noteq> Some j) \<or>
        (truthy_str (claim_at t2 s sid) \<and> claim_at t2 s sid \<noteq> Some j)
     then Inl (PermissionDenied sid)
     else Inr (owner_at t1 s sid \<noteq> Some j))"
  using guards_values [OF assms]
  by (auto simp: claim_preferred_session_def case_prod_unfold Let_def)

lemma claim_never_owns:
  assumes "inv t1 s" "t1 \<le> t2" "t2 \<le> t3" "t3 \<le> t'"
    and "owner_at t' (snd (claim_preferred_session R t1 t2 t3 j sid s)) x = Some i"
  shows "owner_at t1 s x = Some i"
  using assms guards_owner [OF assms(1,2), of t' sid x i]
  by (auto simp: claim_preferred_session_def case_prod_unfold Let_def owner_frame split: if_splits)

lemma claim_holds:
  assumes "inv t1 s" "t1 \<le> t2" "t2 \<le> t3" "t3 \<le> t'"
    and "fst (claim_preferred_session R t1 t2 t3 i sid s) = Inr True"
    and "0 < claim_ttl (snd (get_pending_claim R t2 sid (snd (get_owner R t1 sid s))))"
    and "t' < t3 + claim_ttl (snd (get_pending_claim R t2 sid (snd (get_owner R t1 sid s))))"
  shows "claim_at t' (snd (claim_preferred_session R t1 t2 t3 i sid s)) sid = Some i"
  using assms(4-7) claim_after_set [OF inv_later [OF guards_state [OF assms(1,2)] assms(3)] assms(4)]
  by (auto simp: claim_preferred_session_def case_prod_unfold Let_def split: if_splits)

lemma inv_claim:
  assumes "inv t1 s" "t1 \<le> t2" "t2 \<le> t3"
  shows "inv t3 (snd (claim_preferred_session R t1 t2 t3 i sid s))"
  using inv_later [OF guards_state [OF assms(1,2)] assms(3), of sid]
  by (auto simp: claim_preferred_session_def case_prod_unfold Let_def inv_set_claim)

lemma inv_finalize:
  assumes "inv t1 s" "t1 \<le> t2" "t2 \<le> t3"
  shows "inv t3 (snd (finalize_session_claim R t1 t2 t3 i sid s))"
  using inv_later [OF guards_state [OF assms(1,2)] assms(3), of sid]
  by (auto simp: finalize_session_claim_def case_prod_unfold Let_def inv_set_owner inv_clear_claim)

lemma finalize_owner:
  assumes "inv t1 s" "t1 \<le> t2" "t2 \<le> t3"
    and "fst (finalize_session_claim R t1 t2 t3 i sid s) = Inr ()"
  shows "owner_at t3 (snd (finalize_session_claim R t1 t2 t3 i sid s)) sid = Some i"
  using assms(4) owner_after_set_same [OF inv_later [OF guards_state [OF assms(1,2)] assms(3)]]
  by (auto simp: finalize_session_claim_def case_prod_unfold Let_def owner_frame split: if_splits)

lemma finalize_clears_claim:
  assumes "inv t1 s" "t1 \<le> t2" "t2 \<le> t3"
    and "fst (finalize_session_claim R t1 t2 t3 i sid s) = Inr ()"
  shows "\<not> truthy_str (claim_at t3 (snd (finalize_session_claim R t1 t2 t3 i sid s)) sid)"
proof -
  let ?g = "snd (get_pending_claim R t2 sid (snd (get_owner R t1 sid s)))"
  have inv3: "inv t3 (set_owner R t3 sid i ?g)"
    using inv_later [OF guards_state [OF assms(1,2)] assms(3)] by (rule inv_set_owner)
  have fin: "\<not> (truthy_str (claim_at t2 s sid) \<and> claim_at t2 s sid \<noteq> Some i)"
    "snd (finalize_session_claim R t1 t2 t3 i sid s) =
      clear_pending_claim R sid (Some i) (set_owner R t3 sid i ?g)"
    using assms(4) guards_values [OF assms(1,2)]
    by (auto simp: finalize_session_claim_def case_prod_unfold Let_def split: if_splits)
  have "claim_at t3 (set_owner R t3 sid i ?g) sid = claim_at t3 s sid"
    using guards_claim [OF assms(1-3)] by (simp add: claim_frame)
  moreover have "claim_at t3 s sid = Some j \<Longrightarrow> claim_at t2 s sid = Some j" for j
    using claim_earlier assms(3) by blast
  ultimately show ?thesis
    using fin by (cases "claim_at t3 s sid") (auto simp: claim_after_clear [OF inv3])
qed

end

end
