(* ===== verification/Session_Concurrency.thy ===== *)
theory Session_Concurrency
  imports Session_Manager
begin

text \<open>
  Concurrent requests on one \<open>SessionManager\<close>.  A request is between two critical sections
  at its program counter; a step is one section of one request, the settling of a creation task,
  or the cancellation of a waiting request.  The clock never goes backwards.
\<close>

section \<open>Steps\<close>

datatype request_pc =
    Idle
  | Claimed string string string     \<comment> \<open>claim pending: identity, context, session\<close>
  | BindPreferred string string string  \<comment> \<open>the claim returned False, about to bind\<close>
  | BindFinalized string string string  \<comment> \<open>ownership finalized, about to bind\<close>
  | AwaitCreate string string nat    \<comment> \<open>waiting for a creation task\<close>

record 's mgr_sys =
  sys_mgr :: "'s session_mgr"
  sys_now :: time
  sys_tasks :: "nat \<Rightarrow> create_task option"
  sys_pc :: "nat \<Rightarrow> request_pc"

definition mgr_init :: "'s \<Rightarrow> time \<Rightarrow> 's mgr_sys" where
  "mgr_init s now = \<lparr>sys_mgr = \<lparr>state_repository = s, inflight_creates = []\<rparr>, sys_now = now,
     sys_tasks = (\<lambda>_. None), sys_pc = (\<lambda>_. Idle)\<rparr>"

definition set_pc :: "nat \<Rightarrow> request_pc \<Rightarrow> 's mgr_sys \<Rightarrow> 's mgr_sys" where
  "set_pc p pc w = w\<lparr>sys_pc := (sys_pc w)(p := pc)\<rparr>"

definition set_repo :: "'s \<Rightarrow> time \<Rightarrow> 's mgr_sys \<Rightarrow> 's mgr_sys" where
  "set_repo s t w = w\<lparr>sys_mgr := (sys_mgr w)\<lparr>state_repository := s\<rparr>, sys_now := t\<rparr>"

abbreviation sys_repo :: "'s mgr_sys \<Rightarrow> 's" where
  "sys_repo w \<equiv> state_repository (sys_mgr w)"

text \<open>
  Identities are never empty: the executor substitutes \<open>"anonymous"\<close> and the JSON-RPC claim
  guard skips an empty identity.  The rules whose name ends in \<open>rpc\<close> are the claims of
  the JSON-RPC handlers, which bind no context.
\<close>

inductive mgr_step :: "'s session_repo \<Rightarrow> 's mgr_sys \<Rightarrow> 's mgr_sys \<Rightarrow> bool" for R where
  claim_denied: "sys_pc w p = Idle \<Longrightarrow> i \<noteq> [] \<Longrightarrow> sys_now w \<le> t1 \<Longrightarrow> t1 \<le> t2 \<Longrightarrow> t2 \<le> t3 \<Longrightarrow>
    claim_preferred_session R t1 t2 t3 i sid (sys_repo w) = (Inl e, s) \<Longrightarrow>
    mgr_step R w (set_repo s t3 w)"
| claim_pending: "sys_pc w p = Idle \<Longrightarrow> i \<noteq> [] \<Longrightarrow> sys_now w \<le> t1 \<Longrightarrow> t1 \<le> t2 \<Longrightarrow> t2 \<le> t3 \<Longrightarrow>
    claim_preferred_session R t1 t2 t3 i sid (sys_repo w) = (Inr True, s) \<Longrightarrow>
    mgr_step R w (set_pc p (Claimed i c sid) (set_repo s t3 w))"
| claim_owned: "sys_pc w p = Idle \<Longrightarrow> i \<noteq> [] \<Longrightarrow> sys_now w \<le> t1 \<Longrightarrow> t1 \<le> t2 \<Longrightarrow> t2 \<le> t3 \<Longrightarrow>
    claim_preferred_session R t1 t2 t3 i sid (sys_repo w) = (Inr False, s) \<Longrightarrow>
    mgr_step R w (set_pc p (BindPreferred i c sid) (set_repo s t3 w))"
| claim_owned_rpc: "sys_pc w p = Idle \<Longrightarrow> i \<noteq> [] \<Longrightarrow> sys_now w \<le> t1 \<Longrightarrow> t1 \<le> t2 \<Longrightarrow> t2 \<le> t3 \<Longrightarrow>
    claim_preferred_session R t1 t2 t3 i sid (sys_repo w) = (Inr False, s) \<Longrightarrow>
    mgr_step R w (set_repo s t3 w)"
| bind_preferred: "sys_pc w p = BindPreferred i c sid \<Longrightarrow> sys_now w \<le> t \<Longrightarrow>
    mgr_step R w (set_pc p Idle (set_repo (set_session R t i c sid (sys_repo w)) t w))"
| finalize: "sys_pc w p = Claimed i c sid \<Longrightarrow> i \<noteq> [] \<Longrightarrow> sys_now w \<le> t1 \<Longrightarrow> t1 \<le> t2 \<Longrightarrow> t2 \<le> t3 \<Longrightarrow>
    finalize_session_claim R t1 t2 t3 i sid (sys_repo w) = (Inr u, s) \<Longrightarrow>
    mgr_step R w (set_pc p (BindFinalized i c sid) (set_repo s t3 w))"
| finalize_rpc: "sys_pc w p = Claimed i c sid \<Longrightarrow> i \<noteq> [] \<Longrightarrow> sys_now w \<le> t1 \<Longrightarrow> t1 \<le> t2 \<Longrightarrow> t2 \<le> t3 \<Longrightarrow>
    finalize_session_claim R t1 t2 t3 i sid (sys_repo w) = (Inr u, s) \<Longrightarrow>
    mgr_step R w (set_pc p Idle (set_repo s t3 w))"
| finalize_denied: "sys_pc w p = Claimed i c sid \<Longrightarrow> i \<noteq> [] \<Longrightarrow> sys_now w \<le> t1 \<Longrightarrow> t1 \<le> t2 \<Longrightarrow> t2 \<le> t3 \<Longrightarrow>
    finalize_session_claim R t1 t2 t3 i sid (sys_repo w) = (Inl e, s) \<Longrightarrow>
    mgr_step R w (set_repo s t3 w)"
| bind_finalized: "sys_pc w p = BindFinalized i c sid \<Longrightarrow> sys_now w \<le> t \<Longrightarrow>
    mgr_step R w (set_pc p Idle (set_repo (set_session R t i c sid (sys_repo w)) t w))"
| release: "sys_pc w p = Claimed i c sid \<Longrightarrow>
    mgr_step R w (set_pc p Idle
      (set_repo (release_preferred_session_claim R i sid (sys_repo w)) (sys_now w) w))"
| lookup_hit: "sys_pc w p = Idle \<Longrightarrow> i \<noteq> [] \<Longrightarrow> sys_now w \<le> t \<Longrightarrow>
    lookup_or_start R t fresh i c (sys_mgr w) = (Inl sid, m) \<Longrightarrow>
    mgr_step R w (w\<lparr>sys_mgr := m, sys_now := t\<rparr>)"
| lookup_wait: "sys_pc w p = Idle \<Longrightarrow> i \<noteq> [] \<Longrightarrow> sys_now w \<le> t \<Longrightarrow> sys_tasks w fresh = None \<Longrightarrow>
    lookup_or_start R t fresh i c (sys_mgr w) = (Inr task, m) \<Longrightarrow>
    mgr_step R w (set_pc p (AwaitCreate i c task)
      (w\<lparr>sys_mgr := m, sys_now := t,
         sys_tasks := (if task = fresh then (sys_tasks w)(fresh \<mapsto> Running) else sys_tasks w)\<rparr>))"
| settle: "sys_tasks w task = Some Running \<Longrightarrow> r \<noteq> Running \<Longrightarrow>
    mgr_step R w (w\<lparr>sys_tasks := (sys_tasks w)(task \<mapsto> r)\<rparr>)"
| resume: "sys_pc w p = AwaitCreate i c task \<Longrightarrow> i \<noteq> [] \<Longrightarrow> sys_tasks w task = Some r \<Longrightarrow> r \<noteq> Running \<Longrightarrow>
    sys_now w \<le> t1 \<Longrightarrow> t1 \<le> t2 \<Longrightarrow> t2 \<le> t3 \<Longrightarrow>
    await_create R t1 t2 t3 i c task r (sys_mgr w) = (res, m) \<Longrightarrow>
    mgr_step R w (set_pc p Idle (w\<lparr>sys_mgr := m, sys_now := t3\<rparr>))"
| cancel_waiting: "sys_pc w p = AwaitCreate i c task \<Longrightarrow>
    mgr_step R w (set_pc p Idle (w\<lparr>sys_tasks :=
      (if sys_tasks w task = Some Running then (sys_tasks w)(task \<mapsto> CancelledTask)
       else sys_tasks w)\<rparr>))"
| pop_cached: "i \<noteq> [] \<Longrightarrow>
    mgr_step R w (w\<lparr>sys_mgr := snd (pop_cached_session R i c (sys_mgr w))\<rparr>)"

inductive mgr_reachable :: "'s session_repo \<Rightarrow> 's \<Rightarrow> time \<Rightarrow> 's mgr_sys \<Rightarrow> bool" for R s0 t0 where
  start: "mgr_reachable R s0 t0 (mgr_init s0 t0)"
| step: "mgr_reachable R s0 t0 w \<Longrightarrow> mgr_step R w w' \<Longrightarrow> mgr_reachable R s0 t0 w'"

lemma set_pc_sel [simp]:
  "sys_mgr (set_pc p pc w) = sys_mgr w" "sys_now (set_pc p pc w) = sys_now w"
  "sys_tasks (set_pc p pc w) = sys_tasks w" "sys_pc (set_pc p pc w) = (sys_pc w)(p := pc)"
  by (simp_all add: set_pc_def)

lemma set_repo_sel [simp]:
  "sys_repo (set_repo s t w) = s" "sys_now (set_repo s t w) = t"
  "sys_tasks (set_repo s t w) = sys_tasks w" "sys_pc (set_repo s t w) = sys_pc w"
  "inflight_creates (sys_mgr (set_repo s t w)) = inflight_creates (sys_mgr w)"
  by (simp_all add: set_repo_def)

lemma mgr_init_sel [simp]:
  "sys_repo (mgr_init s t) = s" "sys_now (mgr_init s t) = t" "sys_pc (mgr_init s t) p = Idle"
  "sys_tasks (mgr_init s t) x = None" "inflight_creates (sys_mgr (mgr_init s t)) = []"
  by (simp_all add: mgr_init_def)

section \<open>Ownership in a durable repository\<close>

text \<open>
  What the sections keep true between them: a binding belongs to the owner of its session, and
  a request about to bind a session is its owner.
\<close>

definition pc_owned :: "(string \<Rightarrow> string option) \<Rightarrow> request_pc \<Rightarrow> bool" where
  "pc_owned owners pc =
     (case pc of BindPreferred i c sid \<Rightarrow> i \<noteq> [] \<and> owners sid = Some i
      | BindFinalized i c sid \<Rightarrow> i \<noteq> [] \<and> owners sid = Some i
      | _ \<Rightarrow> True)"

definition bindings_owned ::
  "(string \<times> string \<Rightarrow> string option) \<Rightarrow> (string \<Rightarrow> string option) \<Rightarrow> bool" where
  "bindings_owned sessions owners \<longleftrightarrow>
     (\<forall>i c sid. sessions (i, c) = Some sid \<longrightarrow> owners sid = Some i) \<and>
     (\<forall>sid. owners sid \<noteq> Some [])"

lemma pc_owned_mono: "pc_owned owners pc \<Longrightarrow> owners \<subseteq>\<^sub>m owners' \<Longrightarrow> pc_owned owners' pc"
  by (auto simp: pc_owned_def map_le_def dom_def split: request_pc.splits; metis)

lemma bindings_owned_extend:
  assumes "bindings_owned sessions owners" and "owners \<subseteq>\<^sub>m owners'" and "\<forall>sid. owners' sid \<noteq> Some []"
  shows "bindings_owned sessions owners'"
  using assms unfolding bindings_owned_def map_le_def dom_def
  by (metis (mono_tags, lifting) mem_Collect_eq option.distinct(1))

definition mgr_ok ::
  "(time \<Rightarrow> 's \<Rightarrow> bool) \<Rightarrow> (time \<Rightarrow> 's \<Rightarrow> string \<times> string \<Rightarrow> string option) \<Rightarrow>
   (time \<Rightarrow> 's \<Rightarrow> string \<Rightarrow> string option) \<Rightarrow> 's mgr_sys \<Rightarrow> bool" where
  "mgr_ok ok sessions owners w \<longleftrightarrow> ok (sys_now w) (sys_repo w) \<and>
     bindings_owned (sessions 0 (sys_repo w)) (owners 0 (sys_repo w)) \<and>
     (\<forall>p. pc_owned (owners 0 (sys_repo w)) (sys_pc w p))"

lemma mgr_okI:
  assumes "mgr_ok ok sessions owners w"
    and "ok (sys_now w') (sys_repo w')"
    and "owners 0 (sys_repo w) \<subseteq>\<^sub>m owners 0 (sys_repo w')"
    and "bindings_owned (sessions 0 (sys_repo w')) (owners 0 (sys_repo w'))"
    and "\<And>q. sys_pc w' q = sys_pc w q \<or> pc_owned (owners 0 (sys_repo w')) (sys_pc w' q)"
  shows "mgr_ok ok sessions owners w' \<and> owners 0 (sys_repo w) \<subseteq>\<^sub>m owners 0 (sys_repo w')"
  using assms unfolding mgr_ok_def by (metis pc_owned_mono)

lemma bindings_owned_bind:
  assumes "bindings_owned sessions owners" and "owners sid = Some i"
  shows "bindings_owned (sessions((i, c) \<mapsto> sid)) owners"
  using assms by (auto simp: bindings_owned_def)

lemma bindings_owned_own:
  assumes "bindings_owned sessions owners" and "\<not> truthy_str (owners sid) \<or> owners sid = Some i" and "i \<noteq> []"
  shows "bindings_owned sessions (owners(sid \<mapsto> i))" and "owners \<subseteq>\<^sub>m owners(sid \<mapsto> i)"
  using assms by (auto simp: bindings_owned_def map_le_def)

context durable_session_repository begin

lemma owner_now: "NO_MATCH 0 t \<Longrightarrow> owner_at t s = owner_at 0 s"
  by (rule owner_durable)

lemma session_now: "NO_MATCH 0 t \<Longrightarrow> session_at t s = session_at 0 s"
  by (rule session_durable)

lemma guards_durable:
  assumes "inv t1 s" "t1 \<le> t2"
  shows "owner_at 0 (snd (get_pending_claim R t2 sid (snd (get_owner R t1 sid s)))) = owner_at 0 s"
    and "session_at 0 (snd (get_pending_claim R t2 sid (snd (get_owner R t1 sid s)))) = session_at 0 s"
  using owner_get [OF assms(1)] by (simp_all add: owner_frame session_frame owner_now)

lemma claim_durable:
  assumes "inv t1 s" "t1 \<le> t2" "t2 \<le> t3" and "claim_preferred_session R t1 t2 t3 i sid s = (r, s')"
  shows "inv t3 s'" "owner_at 0 s' = owner_at 0 s" "session_at 0 s' = session_at 0 s"
    "r = Inr False \<Longrightarrow> owner_at 0 s sid = Some i"
  using assms(4) inv_claim [OF assms(1-3), of i sid] guards_durable [OF assms(1,2), of sid]
    guards_values [OF assms(1,2), of sid]
  by (auto simp: claim_preferred_session_def case_prod_unfold Let_def owner_frame session_frame
      owner_now split: if_splits)

lemma finalize_durable:
  assumes "inv t1 s" "t1 \<le> t2" "t2 \<le> t3" and "finalize_session_claim R t1 t2 t3 i sid s = (r, s')"
  shows "inv t3 s'" "session_at 0 s' = session_at 0 s"
    "r = Inl e \<Longrightarrow> owner_at 0 s' = owner_at 0 s"
    "r = Inr () \<Longrightarrow> owner_at 0 s' = (owner_at 0 s)(sid \<mapsto> i)"
    "r = Inr () \<Longrightarrow> \<not> truthy_str (owner_at 0 s sid) \<or> owner_at 0 s sid = Some i"
proof -
  let ?g = "snd (get_pending_claim R t2 sid (snd (get_owner R t1 sid s)))"
  have "inv t3 ?g" using inv_later [OF guards_state [OF assms(1,2)] assms(3)] .
  then have "owner_at 0 (set_owner R t3 sid i ?g) = (owner_at 0 s)(sid \<mapsto> i)"
    using owner_set guards_durable(1) [OF assms(1,2)] by (metis owner_durable)
  then show "session_at 0 s' = session_at 0 s" "r = Inl e \<Longrightarrow> owner_at 0 s' = owner_at 0 s"
    "r = Inr () \<Longrightarrow> owner_at 0 s' = (owner_at 0 s)(sid \<mapsto> i)"
    "r = Inr () \<Longrightarrow> \<not> truthy_str (owner_at 0 s sid) \<or> owner_at 0 s sid = Some i"
    using assms(4) guards_durable [OF assms(1,2), of sid] guards_values [OF assms(1,2), of sid]
    by (auto simp: finalize_session_claim_def case_prod_unfold Let_def owner_frame session_frame
        owner_now split: if_splits)
  show "inv t3 s'" using assms(4) inv_finalize [OF assms(1-3), of i sid] by simp
qed

lemma lookup_durable:
  assumes "inv t (state_repository m)" and "lookup_or_start R t fresh i c m = (r, m')"
  shows "inv t (state_repository m')" "owner_at 0 (state_repository m') = owner_at 0 (state_repository m)"
    "session_at 0 (state_repository m') = session_at 0 (state_repository m)"
proof -
  have "state_repository m' = snd (get_session R t i c (state_repository m))"
    using assms(2) by (auto simp: lookup_or_start_def case_prod_unfold Let_def
        split: option.splits list.splits)
  then show "inv t (state_repository m')" "owner_at 0 (state_repository m') = owner_at 0 (state_repository m)"
    "session_at 0 (state_repository m') = session_at 0 (state_repository m)"
    using assms(1) by (simp_all add: inv_get_session owner_frame session_get session_now)
qed

lemma drop_inflight_repo [simp]: "state_repository (drop_inflight key task m) = state_repository m"
  by (simp add: drop_inflight_def)

lemma finish_durable:
  assumes "inv t1 (state_repository m)" "t1 \<le> t2" "t2 \<le> t3" "i \<noteq> []"
    and own: "bindings_owned (session_at 0 (state_repository m)) (owner_at 0 (state_repository m))"
    and fin: "finish_create R t1 t2 t3 i c task sid m = (r, m')"
  shows "inv t3 (state_repository m')"
    "owner_at 0 (state_repository m) \<subseteq>\<^sub>m owner_at 0 (state_repository m')"
    "bindings_owned (session_at 0 (state_repository m')) (owner_at 0 (state_repository m'))"
proof -
  let ?s = "state_repository m" and ?s1 = "snd (get_owner R t1 sid (state_repository m))"
  let ?s2 = "set_session R t2 i c sid ?s1"
  have i1: "inv t2 ?s1" using inv_later [OF inv_get_owner [OF assms(1)] assms(2)] .
  have i2: "inv t3 ?s2" using inv_later [OF inv_set_session [OF i1] assms(3)] .
  have o1: "owner_at 0 ?s1 = owner_at 0 ?s" and e1: "session_at 0 ?s1 = session_at 0 ?s"
    using owner_get [OF assms(1)] by (simp_all add: session_frame owner_now)
  have o2: "owner_at 0 ?s2 = owner_at 0 ?s" by (simp add: owner_frame o1)
  have e2: "session_at 0 ?s2 = (session_at 0 ?s)((i, c) \<mapsto> sid)"
    using session_set [OF i1, of 0] by (simp add: session_now e1)
  have o3: "owner_at 0 (set_owner R t3 sid i ?s2) = (owner_at 0 ?s)(sid \<mapsto> i)"
    using owner_set [OF i2, of 0] by (simp add: owner_now o2)
  have g: "fst (get_owner R t1 sid ?s) = owner_at 0 ?s sid"
    using get_owner_value [OF assms(1)] by (simp add: owner_now)
  show "inv t3 (state_repository m')"
    using fin i2 inv_later [OF i1 assms(3)]
    by (auto simp: finish_create_def case_prod_unfold Let_def inv_set_owner split: if_splits)
  have cases: "(owner_at 0 (state_repository m') = owner_at 0 ?s \<and>
      session_at 0 (state_repository m') = session_at 0 ?s) \<or>
    (owner_at 0 ?s sid = Some i \<and> owner_at 0 (state_repository m') = owner_at 0 ?s \<and>
      session_at 0 (state_repository m') = (session_at 0 ?s)((i, c) \<mapsto> sid)) \<or>
    (\<not> truthy_str (owner_at 0 ?s sid) \<and>
      owner_at 0 (state_repository m') = (owner_at 0 ?s)(sid \<mapsto> i) \<and>
      session_at 0 (state_repository m') = (session_at 0 ?s)((i, c) \<mapsto> sid))"
    using fin assms(4) by (auto simp: finish_create_def case_prod_unfold Let_def g o1 e1 o2 e2 o3
        session_frame split: if_splits)
  have new: "bindings_owned ((session_at 0 ?s)((i, c) \<mapsto> sid)) ((owner_at 0 ?s)(sid \<mapsto> i))"
    if "\<not> truthy_str (owner_at 0 ?s sid)"
    by (rule bindings_owned_bind) (use bindings_owned_own(1) [OF own _ assms(4)] that in auto)
  show "owner_at 0 (state_repository m) \<subseteq>\<^sub>m owner_at 0 (state_repository m')"
    using cases bindings_owned_own(2) [OF own _ assms(4)] by (elim disjE) auto
  show "bindings_owned (session_at 0 (state_repository m')) (owner_at 0 (state_repository m'))"
    using cases own new by (elim disjE) (auto simp: bindings_owned_bind)
qed

lemma await_durable:
  assumes "inv t1 (state_repository m)" "t1 \<le> t2" "t2 \<le> t3" "i \<noteq> []"
    and own: "bindings_owned (session_at 0 (state_repository m)) (owner_at 0 (state_repository m))"
    and "await_create R t1 t2 t3 i c task out m = (r, m')"
  shows "inv t3 (state_repository m')"
    "owner_at 0 (state_repository m) \<subseteq>\<^sub>m owner_at 0 (state_repository m')"
    "bindings_owned (session_at 0 (state_repository m')) (owner_at 0 (state_repository m'))"
  using assms(6) finish_durable [OF assms(1-5)] own inv_later [OF inv_later [OF assms(1,2)] assms(3)]
  by (auto simp: await_create_def split: create_task.splits)

lemma pop_durable:
  assumes "inv t (state_repository m)"
    and "bindings_owned (session_at 0 (state_repository m)) (owner_at 0 (state_repository m))"
  shows "inv t (state_repository (snd (pop_cached_session R i c m)))"
    "owner_at 0 (state_repository (snd (pop_cached_session R i c m))) = owner_at 0 (state_repository m)"
    "bindings_owned (session_at 0 (state_repository (snd (pop_cached_session R i c m))))
      (owner_at 0 (state_repository (snd (pop_cached_session R i c m))))"
  using assms by (auto simp: pop_cached_session_def inv_pop_session owner_frame session_after_pop
      bindings_owned_def split: if_splits)

abbreviation sys_good :: "'s mgr_sys \<Rightarrow> bool" where
  "sys_good w \<equiv> mgr_ok inv session_at owner_at w"

lemma goodD:
  assumes "sys_good w"
  shows "inv (sys_now w) (sys_repo w)"
    "bindings_owned (session_at 0 (sys_repo w)) (owner_at 0 (sys_repo w))"
    "pc_owned (owner_at 0 (sys_repo w)) (sys_pc w p)"
  using assms by (simp_all add: mgr_ok_def)

lemma good_read:
  assumes "sys_good w" and "inv (sys_now w') (sys_repo w')"
    and "owner_at 0 (sys_repo w') = owner_at 0 (sys_repo w)"
    and "session_at 0 (sys_repo w') = session_at 0 (sys_repo w)"
    and "\<And>q. sys_pc w' q = sys_pc w q \<or> pc_owned (owner_at 0 (sys_repo w)) (sys_pc w' q)"
  shows "sys_good w' \<and> owner_at 0 (sys_repo w) \<subseteq>\<^sub>m owner_at 0 (sys_repo w')"
  using assms goodD(2) [OF assms(1)] by (intro mgr_okI) auto

lemma good_bind:
  assumes "sys_good w" and "sys_now w \<le> t"
    and "sys_pc w p = BindPreferred i c sid \<or> sys_pc w p = BindFinalized i c sid"
    and "w' = set_pc p Idle (set_repo (set_session R t i c sid (sys_repo w)) t w)"
  shows "sys_good w' \<and> owner_at 0 (sys_repo w) \<subseteq>\<^sub>m owner_at 0 (sys_repo w')"
proof -
  have i: "inv t (sys_repo w)" using inv_later [OF goodD(1) [OF assms(1)] assms(2)] .
  have o: "owner_at 0 (sys_repo w) sid = Some i"
    using goodD(3) [OF assms(1), of p] assms(3) by (auto simp: pc_owned_def)
  have "session_at 0 (set_session R t i c sid (sys_repo w)) = (session_at 0 (sys_repo w))((i, c) \<mapsto> sid)"
    using session_set [OF i, of 0] by (simp add: session_now)
  then show ?thesis
    unfolding assms(4) using bindings_owned_bind [OF goodD(2) [OF assms(1)] o] inv_set_session [OF i]
    by (intro mgr_okI [OF assms(1)]) (auto simp: owner_frame pc_owned_def)
qed

lemma good_finalize:
  assumes "sys_good w" and "i \<noteq> []" and "sys_now w \<le> t1" "t1 \<le> t2" "t2 \<le> t3"
    and "finalize_session_claim R t1 t2 t3 i sid (sys_repo w) = (Inr u, s)"
    and "w' = set_pc p pc (set_repo s t3 w)" and "pc = Idle \<or> pc = BindFinalized i c sid"
  shows "sys_good w' \<and> owner_at 0 (sys_repo w) \<subseteq>\<^sub>m owner_at 0 (sys_repo w')"
proof -
  have i: "inv t1 (sys_repo w)" using inv_later [OF goodD(1) [OF assms(1)] assms(3)] .
  note fin = finalize_durable [OF i assms(4,5,6)]
  have u: "Inr u = (Inr () :: session_error + unit)" by simp
  note own = bindings_owned_own [OF goodD(2) [OF assms(1)] fin(5) [OF u] assms(2)]
  show ?thesis
    unfolding assms(7) using fin(1,2) fin(4) [OF u] own assms(2,8)
    by (intro mgr_okI [OF assms(1)]) (auto simp: pc_owned_def)
qed

lemma step_good:
  assumes "mgr_step R w w'" and "sys_good w"
  shows "sys_good w' \<and> owner_at 0 (sys_repo w) \<subseteq>\<^sub>m owner_at 0 (sys_repo w')"
  using assms
proof (induction rule: mgr_step.induct)
  case (claim_denied w p i t1 t2 t3 sid e s)
  with claim_durable [OF inv_later [OF goodD(1)] _ _ claim_denied(6)] show ?case
    by (intro good_read) auto
next
  case (claim_pending w p i t1 t2 t3 sid s c)
  with claim_durable [OF inv_later [OF goodD(1)] _ _ claim_pending(6)] show ?case
    by (intro good_read) (auto simp: pc_owned_def)
next
  case (claim_owned w p i t1 t2 t3 sid s c)
  with claim_durable [OF inv_later [OF goodD(1)] _ _ claim_owned(6)] show ?case
    by (intro good_read) (auto simp: pc_owned_def)
next
  case (claim_owned_rpc w p i t1 t2 t3 sid s)
  with claim_durable [OF inv_later [OF goodD(1)] _ _ claim_owned_rpc(6)] show ?case
    by (intro good_read) auto
next
  case (bind_preferred w p i c sid t)
  then show ?case using good_bind by blast
next
  case (finalize w p i c sid t1 t2 t3 u s)
  then show ?case using good_finalize by blast
next
  case (finalize_rpc w p i c sid t1 t2 t3 u s)
  then show ?case using good_finalize by blast
next
  case (finalize_denied w p i c sid t1 t2 t3 e s)
  with finalize_durable [OF inv_later [OF goodD(1)] _ _ finalize_denied(6)] show ?case
    by (intro good_read) auto
next
  case (bind_finalized w p i c sid t)
  then show ?case using good_bind by blast
next
  case (release w p i c sid)
  then show ?case
    using goodD(1) [OF release(2)] by (intro good_read)
      (auto simp: release_preferred_session_claim_def inv_clear_claim owner_frame session_frame pc_owned_def)
next
  case (lookup_hit w p i t fresh c sid m)
  with lookup_durable [OF inv_later [OF goodD(1)] lookup_hit(4)] show ?case
    by (intro good_read) auto
next
  case (lookup_wait w p i t fresh c task m)
  with lookup_durable [OF inv_later [OF goodD(1)] lookup_wait(5)] show ?case
    by (intro good_read) (auto simp: pc_owned_def)
next
  case (settle w task r)
  then show ?case using goodD(1) [OF settle(3)] by (intro good_read) auto
next
  case (resume w p i c task r t1 t2 t3 res m)
  note i = inv_later [OF goodD(1) [OF resume(9)] resume(5)]
  show ?case
    using await_durable [OF i resume(6,7,2) goodD(2) [OF resume(9)] resume(8)]
    by (intro mgr_okI [OF resume(9)]) (auto simp: pc_owned_def)
next
  case (cancel_waiting w p i c task)
  then show ?case using goodD(1) [OF cancel_waiting(2)] by (intro good_read) (auto simp: pc_owned_def)
next
  case (pop_cached i w c)
  then show ?case
    using pop_durable [OF goodD(1,2) [OF pop_cached(2)]] by (intro mgr_okI [OF pop_cached(2)]) auto
qed

lemma reachable_good:
  assumes "mgr_reachable R s0 t0 w" and "inv t0 s0"
    and "bindings_owned (session_at 0 s0) (owner_at 0 s0)"
  shows "sys_good w"
  using assms
proof (induction rule: mgr_reachable.induct)
  case start
  then show ?case by (simp add: mgr_ok_def pc_owned_def)
next
  case (step w w')
  then show ?case using step_good by blast
qed

end

end
