(* ===== verification/Session_Properties.thy ===== *)
theory Session_Properties
  imports Session_Concurrency
begin

text \<open>
  What the session manager promises with the repositories the server can be configured with:
  exclusive pending claims, permanent ownership, bindings that only their owner uses, and the
  behaviour of session creation when it succeeds, fails or is cancelled.
\<close>

section \<open>Claims\<close>

context session_repository begin

lemma claim_excludes:
  assumes "inv t1 s" "t1 \<le> t2" "t2 \<le> t3" "t3 \<le> u1" "u1 \<le> u2"
    and "i \<noteq> []" "i \<noteq> j"
    and "claim_preferred_session R t1 t2 t3 i sid s = (Inr True, s')"
    and "0 < claim_ttl (snd (get_pending_claim R t2 sid (snd (get_owner R t1 sid s))))"
    and "u2 < t3 + claim_ttl (snd (get_pending_claim R t2 sid (snd (get_owner R t1 sid s))))"
  shows "fst (claim_preferred_session R u1 u2 u3 j sid s') = Inl (PermissionDenied sid) \<and>
    fst (finalize_session_claim R u1 u2 u3 j sid s') = Inl (PermissionDenied sid)"
proof -
  have "inv u1 s'" using inv_later [OF inv_claim [OF assms(1-3), of i sid]] assms(4,8) by simp
  moreover have "claim_at u2 s' sid = Some i"
    using claim_holds [OF assms(1-3), of u2 i sid] assms(4-10) by simp
  ultimately show ?thesis using claim_pending_for_other assms(5-7) by blast
qed

end

lemma mem_guards_ttl:
  "mem_pending_ttl (snd (mem_get_pending_claim t2 sid (snd (mem_get_owner t1 sid s)))) = mem_pending_ttl s"
  by (simp add: mem_get_pending_claim_def mem_get_owner_def mem_prune_pending_claims_def Let_def
      case_prod_unfold)

lemma db_guards_ttl:
  "db_pending_ttl (snd (db_get_pending_claim t2 sid (snd (db_get_owner t1 sid s)))) = db_pending_ttl s"
  by (simp add: db_get_pending_claim_def db_get_owner_def db_prune_expired_pending_claims_def Let_def
      split: option.split)

text \<open>
  C8: once an identity holds a pending claim on a session, no other identity can claim or
  finalize that session until the claim's TTL has run out, in the in-memory and in the
  database repository.
\<close>

theorem pending_claim_excludes:
  assumes "t1 \<le> t2" "t2 \<le> t3" "t3 \<le> u1" "u1 \<le> u2" and "i \<noteq> []" "i \<noteq> j"
  shows "(mem_inv t1 m \<and> 0 < mem_pending_ttl m \<and> u2 < t3 + mem_pending_ttl m \<and>
      claim_preferred_session memory_repo t1 t2 t3 i sid m = (Inr True, m') \<longrightarrow>
      fst (claim_preferred_session memory_repo u1 u2 u3 j sid m') = Inl (PermissionDenied sid) \<and>
      fst (finalize_session_claim memory_repo u1 u2 u3 j sid m') = Inl (PermissionDenied sid)) \<and>
    (db_inv t1 s \<and> 0 < db_pending_ttl s \<and> u2 < t3 + db_pending_ttl s \<and>
      claim_preferred_session database_repo t1 t2 t3 i sid s = (Inr True, s') \<longrightarrow>
      fst (claim_preferred_session database_repo u1 u2 u3 j sid s') = Inl (PermissionDenied sid) \<and>
      fst (finalize_session_claim database_repo u1 u2 u3 j sid s') = Inl (PermissionDenied sid))"
  using mem.claim_excludes [OF _ assms, of m sid m' u3] db.claim_excludes [OF _ assms, of s sid s' u3]
  by (simp add: mem_guards_ttl db_guards_ttl)

theorem pending_claim_excludes_witness:
  "fst (claim_preferred_session database_repo 20 21 22 ''bob'' ''s1''
      (snd (claim_preferred_session database_repo 0 0 0 ''alice'' ''s1'' (db_new 30)))) =
    Inl (PermissionDenied ''s1'') \<and>
   fst (claim_preferred_session memory_repo 20 21 22 ''bob'' ''s1''
      (snd (claim_preferred_session memory_repo 0 0 0 ''alice'' ''s1'' (mem_new 3600 100 30)))) =
    Inl (PermissionDenied ''s1'')"
proof -
  let ?m = "claim_preferred_session memory_repo 0 0 0 ''alice'' ''s1'' (mem_new 3600 100 30)"
  let ?d = "claim_preferred_session database_repo 0 0 0 ''alice'' ''s1'' (db_new 30)"
  have "fst ?m = Inr True" "fst ?d = Inr True" by code_simp+
  then have "?m = (Inr True, snd ?m)" "?d = (Inr True, snd ?d)" by (simp_all add: prod_eq_iff)
  then show ?thesis
    using pending_claim_excludes [of 0 0 0 20 21 "''alice''" "''bob''" "mem_new 3600 100 30" "''s1''"
        "snd ?m" 22 "db_new 30" "snd ?d"] mem_inv_new [of 3600 100 0 30] db_inv_new [of 0 30]
    by (simp add: mem_new_def db_new_def)
qed

text \<open>
  Once an identity has finalized its claim, it owns the session for good in the database
  repository: at any later time another identity is refused, and the owner needs no claim.
\<close>

theorem finalized_session_is_exclusive:
  assumes "db_inv t1 s" "t1 \<le> t2" "t2 \<le> t3" "t3 \<le> u1" "u1 \<le> u2" and "i \<noteq> []"
    and "finalize_session_claim database_repo t1 t2 t3 i sid s = (Inr (), s')"
  shows "fst (claim_preferred_session database_repo u1 u2 u3 j sid s') =
      (if j = i then Inr False else Inl (PermissionDenied sid))"
    (is "?claim j = _")
proof -
  have inv: "db_inv u1 s'"
    using db.inv_later [OF db.inv_finalize [OF assms(1-3), of i sid] assms(4)] assms(7) by simp
  have own: "db_owner_at u1 s' sid = Some i"
    using db.finalize_owner [OF assms(1-3), of i sid] assms(7) by (simp add: db_owner_at_def)
  have "\<not> truthy_str (db_claim_at t3 s' sid)"
    using db.finalize_clears_claim [OF assms(1-3), of i sid] assms(7) by simp
  moreover have "db_claim_at u2 s' sid = Some x \<Longrightarrow> db_claim_at t3 s' sid = Some x" for x
    using db.claim_earlier [of u2 s' sid x t3] assms(4,5) by simp
  ultimately have "\<not> truthy_str (db_claim_at u2 s' sid)"
    by (cases "db_claim_at u2 s' sid") auto
  then have "fst (claim_preferred_session database_repo u1 u2 u3 i sid s') = Inr False"
    using own by (auto simp: db.claim_result [OF inv assms(5)])
  then show ?thesis
    using db.claim_owned_by_other(1) [OF inv assms(5) own assms(6), of j u3] by simp
qed

theorem finalized_session_is_exclusive_witness:
  "fst (claim_preferred_session database_repo 9000 9000 9000 ''bob'' ''s1''
      (snd (finalize_session_claim database_repo 1 1 1 ''alice'' ''s1'' (db_new 30)))) =
    Inl (PermissionDenied ''s1'')"
proof -
  let ?f = "finalize_session_claim database_repo 1 1 1 ''alice'' ''s1'' (db_new 30)"
  have "fst ?f = Inr ()" by code_simp
  then have "?f = (Inr (), snd ?f)" by (simp add: prod_eq_iff)
  then show ?thesis
    using finalized_session_is_exclusive [of 1 "db_new 30" 1 1 9000 9000 "''alice''" "''s1''" "snd ?f" 9000 "''bob''"]
      db_inv_new [of 1 30] by simp
qed

section \<open>Concurrent requests\<close>


text \<open>No step of any request, in any reachable state, changes or removes the owner of a session.\<close>

theorem owners_never_change:
  assumes "mgr_reachable database_repo (db_new ttl) t0 w" and "mgr_step database_repo w w'"
    and "dict_get (db_owners (sys_repo w)) sid = Some i"
  shows "dict_get (db_owners (sys_repo w')) sid = Some i"
proof -
  have "bindings_owned (db_session_at 0 (db_new ttl)) (db_owner_at 0 (db_new ttl))"
    by (simp add: bindings_owned_def db_session_at_def db_owner_at_def db_new_def)
  with db.step_good [OF assms(2) db.reachable_good [OF assms(1) db_inv_new]]
  have "db_owner_at 0 (sys_repo w) \<subseteq>\<^sub>m db_owner_at 0 (sys_repo w')" by simp
  then show ?thesis using assms(3) unfolding db_owner_at_def map_le_def dom_def by force
qed

text \<open>A run of the step relation: one request claims, finalizes and binds a session.\<close>

definition run_claimed :: "db_sessions mgr_sys" where
  "run_claimed = set_pc 0 (Claimed ''alice'' ''c1'' ''s1'')
     (set_repo (snd (claim_preferred_session database_repo 0 0 0 ''alice'' ''s1'' (db_new 30))) 0
       (mgr_init (db_new 30) 0))"

definition run_finalized :: "db_sessions mgr_sys" where
  "run_finalized = set_pc 0 (BindFinalized ''alice'' ''c1'' ''s1'')
     (set_repo (snd (finalize_session_claim database_repo 0 0 0 ''alice'' ''s1'' (sys_repo run_claimed))) 0
       run_claimed)"

definition run_bound :: "db_sessions mgr_sys" where
  "run_bound = set_pc 0 Idle
     (set_repo (set_session database_repo 0 ''alice'' ''c1'' ''s1'' (sys_repo run_finalized)) 0 run_finalized)"

lemma run_steps:
  "mgr_step database_repo (mgr_init (db_new 30) 0) run_claimed"
  "mgr_step database_repo run_claimed run_finalized"
  "mgr_step database_repo run_finalized run_bound"
proof -
  obtain r1 s1 where c: "claim_preferred_session database_repo 0 0 0 ''alice'' ''s1'' (db_new 30) = (r1, s1)"
    by fastforce
  have "fst (claim_preferred_session database_repo 0 0 0 ''alice'' ''s1'' (db_new 30)) = Inr True" by code_simp
  with c have r1: "r1 = Inr True" by simp
  obtain r2 s2 where f: "finalize_session_claim database_repo 0 0 0 ''alice'' ''s1'' s1 = (r2, s2)"
    by fastforce
  have "fst (finalize_session_claim database_repo 0 0 0 ''alice'' ''s1''
      (snd (claim_preferred_session database_repo 0 0 0 ''alice'' ''s1'' (db_new 30)))) = Inr ()" by code_simp
  with c f have r2: "r2 = Inr ()" by simp
  show "mgr_step database_repo (mgr_init (db_new 30) 0) run_claimed"
    using claim_pending [of "mgr_init (db_new 30) 0" 0 "''alice''" 0 0 0 database_repo "''s1''" s1 "''c1''"] c r1
    by (simp add: run_claimed_def)
  show "mgr_step database_repo run_claimed run_finalized"
    using finalize [of run_claimed 0 "''alice''" "''c1''" "''s1''" 0 0 0 database_repo "()" s2] c f r2
    by (simp add: run_claimed_def run_finalized_def)
  show "mgr_step database_repo run_finalized run_bound"
    unfolding run_bound_def by (rule bind_finalized) (simp_all add: run_finalized_def)
qed

lemma run_repos:
  "sys_repo run_finalized = snd (finalize_session_claim database_repo 0 0 0 ''alice'' ''s1''
     (snd (claim_preferred_session database_repo 0 0 0 ''alice'' ''s1'' (db_new 30))))"
  "sys_repo run_bound = db_set_session 0 ''alice'' ''c1'' ''s1'' (sys_repo run_finalized)"
  by (simp_all add: run_bound_def run_finalized_def run_claimed_def)

lemma run_reachable:
  "mgr_reachable database_repo (db_new 30) 0 run_finalized"
  "mgr_reachable database_repo (db_new 30) 0 run_bound"
  using run_steps by (meson mgr_reachable.intros)+


theorem owners_never_change_witness:
  "dict_get (db_owners (sys_repo run_bound)) ''s1'' = Some ''alice''"
proof (rule owners_never_change [OF run_reachable(1) run_steps(3)])
  show "dict_get (db_owners (sys_repo run_finalized)) ''s1'' = Some ''alice''"
    unfolding run_repos by code_simp
qed

section \<open>Creation\<close>

lemma dict_pop_set_fresh: "dict_get d k = None \<Longrightarrow> dict_pop k (dict_set k v d) = d"
proof -
  assume "dict_get d k = None"
  then have "k \<notin> fst ` set d" by (simp add: map_of_eq_None_iff)
  then show ?thesis by (force simp: dict_set_fresh AList.delete_eq intro!: filter_True)
qed

text \<open>
  When no session is bound and no creation is in flight, a failed creation is reported and
  leaves the manager as it was, so the next request starts a fresh one.
\<close>

theorem failed_creation_changes_nothing:
  assumes "dict_get (db_bindings (state_repository m)) (i, c) = None"
    and "dict_get (inflight_creates m) (i, c) = None" and "outcome fresh = Failed"
  shows "get_or_create_session database_repo clk outcome fresh i c None m = (Inl CreateFailed, m)"
  using assms by (simp add: get_or_create_session_def lookup_or_start_def await_create_def
      drop_inflight_def db_get_session_def dict_simps dict_pop_set_fresh)

theorem failed_creation_changes_nothing_witness:
  "get_or_create_session database_repo (\<lambda>_. 0) (\<lambda>_. Failed) 7 ''alice'' ''c1'' None
     \<lparr>state_repository = db_new 30, inflight_creates = []\<rparr> =
   (Inl CreateFailed, \<lparr>state_repository = db_new 30, inflight_creates = []\<rparr>)"
  by (rule failed_creation_changes_nothing) (simp_all add: db_new_def)

text \<open>
  A created session is bound and owned, nothing stays in flight, and every later request of
  the same identity and context, at any time and whatever creations would do, gets it at once.
\<close>

theorem created_session_is_reused:
  assumes "db_inv t (state_repository m)"
    and "dict_get (db_bindings (state_repository m)) (i, c) = None"
    and "dict_get (inflight_creates m) (i, c) = None"
    and "outcome fresh = Finished sid" "sid \<noteq> []"
    and "dict_get (db_owners (state_repository m)) sid = None"
    and "get_or_create_session database_repo clk outcome fresh i c None m = (r, m')"
  shows "r = Inr (sid, False) \<and> dict_get (db_owners (state_repository m')) sid = Some i \<and>
    inflight_creates m' = inflight_creates m \<and>
    get_or_create_session database_repo clk' outcome' fresh' i c None m' = (Inr (sid, False), m')"
proof -
  from assms(5) obtain x xs where sid: "sid = x # xs" by (cases sid) auto
  have "m' = m\<lparr>state_repository := (state_repository m)
      \<lparr>db_bindings := dict_set (i, c) sid (db_bindings (state_repository m)),
       db_owners := dict_set sid i (db_owners (state_repository m))\<rparr>\<rparr> \<and> r = Inr (sid, False)"
    using assms by (auto simp: get_or_create_session_def lookup_or_start_def await_create_def
        finish_create_def drop_inflight_def db_state dict_simps dict_pop_set_fresh db_inv_def
        insert_then_update_eq)
  then show ?thesis
    by (simp add: get_or_create_session_def lookup_or_start_def db_get_session_def dict_simps sid)
qed

theorem created_session_is_reused_witness:
  "get_or_create_session database_repo (\<lambda>_. 5) (\<lambda>_. Failed) 8 ''alice'' ''c1'' None
     (snd (get_or_create_session database_repo (\<lambda>_. 0) (\<lambda>_. Finished ''s1'') 7 ''alice'' ''c1'' None
        \<lparr>state_repository = db_new 30, inflight_creates = []\<rparr>)) =
   (Inr (''s1'', False), snd (get_or_create_session database_repo (\<lambda>_. 0) (\<lambda>_. Finished ''s1'') 7
        ''alice'' ''c1'' None \<lparr>state_repository = db_new 30, inflight_creates = []\<rparr>))"
proof -
  let ?m = "\<lparr>state_repository = db_new 30, inflight_creates = []\<rparr>"
  have "db_inv 0 (state_repository ?m)" by (simp add: db_inv_new)
  from created_session_is_reused [OF this, of "''alice''" "''c1''" "\<lambda>_. Finished ''s1''" 7 "''s1''" "\<lambda>_. 0"]
  show ?thesis by (simp add: db_new_def prod_eq_iff)
qed

text \<open>The state reached by one request that starts a creation and is cancelled while it waits.\<close>

definition run_cancelled_create :: "time \<Rightarrow> string \<Rightarrow> string \<Rightarrow> db_sessions mgr_sys" where
  "run_cancelled_create ttl i c =
     (let m = snd (lookup_or_start database_repo 0 0 i c \<lparr>state_repository = db_new ttl, inflight_creates = []\<rparr>)
      in \<lparr>sys_mgr = m, sys_now = 0, sys_tasks = (\<lambda>_. None)(0 \<mapsto> CancelledTask), sys_pc = (\<lambda>_. Idle)\<rparr>)"

lemma run_cancelled_create_reachable:
  assumes "i \<noteq> []"
  shows "mgr_reachable database_repo (db_new ttl) 0 (run_cancelled_create ttl i c)"
proof -
  let ?w0 = "mgr_init (db_new ttl) 0"
  obtain m where m: "lookup_or_start database_repo 0 0 i c (sys_mgr ?w0) = (Inr 0, m)"
    by (simp add: lookup_or_start_def mgr_init_def db_get_session_def db_new_def)
  let ?w1 = "set_pc 0 (AwaitCreate i c 0) (?w0\<lparr>sys_mgr := m, sys_now := 0,
      sys_tasks := (sys_tasks ?w0)(0 \<mapsto> Running)\<rparr>)"
  have "mgr_step database_repo ?w0 ?w1"
    using lookup_wait [of ?w0 0 i 0 0 database_repo c 0 m] assms m by simp
  moreover have "mgr_step database_repo ?w1 (run_cancelled_create ttl i c)"
    using cancel_waiting [of ?w1 0 i c 0 database_repo] m
    by (simp add: run_cancelled_create_def set_pc_def mgr_init_def fun_upd_idem)
  ultimately show ?thesis
    by (meson mgr_reachable.intros)
qed

text \<open>
  The cancellation of a request that waits for a creation leaves the cancelled task in the
  table.  In the state reached by one request that is cancelled while it waits, no request is
  running, and yet any later request of the same identity and context fails with the
  cancellation and leaves that state as it is: the key is unusable until something pops it.
\<close>

theorem cancelled_creation_poisons_key:
  assumes "i \<noteq> []" and "w = run_cancelled_create ttl i c"
    and "\<forall>task r. sys_tasks w task = Some r \<longrightarrow> outcome task = r"
  shows "mgr_reachable database_repo (db_new ttl) 0 w \<and>
    get_or_create_session database_repo clk outcome fresh i c None (sys_mgr w) = (Inl CreateCancelled, sys_mgr w)"
proof -
  have "outcome 0 = CancelledTask" using assms(2,3) by (simp add: run_cancelled_create_def Let_def)
  then show ?thesis
    using run_cancelled_create_reachable [OF assms(1)] assms(2)
    by (simp add: run_cancelled_create_def get_or_create_session_def lookup_or_start_def Let_def
        db_get_session_def db_new_def await_create_def)
qed

theorem cancelled_creation_poisons_key_witness:
  "get_or_create_session database_repo (\<lambda>_. 99) (\<lambda>_. CancelledTask) 1 ''alice'' ''c1'' None
     (sys_mgr (run_cancelled_create 30 ''alice'' ''c1'')) =
   (Inl CreateCancelled, sys_mgr (run_cancelled_create 30 ''alice'' ''c1''))"
  using cancelled_creation_poisons_key [of "''alice''" "run_cancelled_create 30 ''alice'' ''c1''" 30 "''c1''"
      "\<lambda>_. CancelledTask" "\<lambda>_. 99" 1]
  by (simp add: run_cancelled_create_def Let_def)

end
