(* ===== verification/Session_Lock.thy ===== *)
theory Session_Lock
  imports Prelude
begin

text \<open>
  The lock that serializes the requests of one upstream session: \<open>_bind_session\<close> acquires it and
  \<open>_cleanup\<close> releases it (\<open>execution/coordinator.py\<close>).  A request is at the program counter
  between two of its atomic sections.  \<open>asyncio.Lock\<close> is modelled as the standard library has it:
  a flag and a queue of waiters; releasing clears the flag and wakes the first waiter, which sets
  the flag again when it runs.
\<close>

section \<open>State\<close>

datatype run_pc =
    NotStarted
  | Acquiring   \<comment> \<open>\<open>_session_lock\<close> is set, suspended in \<open>acquire\<close>\<close>
  | Running     \<comment> \<open>\<open>acquire\<close> has returned\<close>
  | Cleaned

record session_lock =
  locked :: bool
  waiters :: "(nat \<times> bool) list"  \<comment> \<open>request, woken\<close>

record lock_sys =
  lk_lock :: session_lock
  lk_pc :: "nat \<Rightarrow> run_pc"

definition lock_init :: lock_sys where
  "lock_init = \<lparr>lk_lock = \<lparr>locked = False, waiters = []\<rparr>, lk_pc = (\<lambda>_. NotStarted)\<rparr>"

section \<open>The lock\<close>

definition wake_up_first :: "session_lock \<Rightarrow> session_lock" where
  "wake_up_first l = l\<lparr>waiters := (case waiters l of [] \<Rightarrow> [] | (p, b) # ws \<Rightarrow> (p, True) # ws)\<rparr>"

definition lock_release :: "session_lock \<Rightarrow> session_lock" where
  "lock_release l = wake_up_first (l\<lparr>locked := False\<rparr>)"

definition remove_waiter :: "nat \<Rightarrow> session_lock \<Rightarrow> session_lock" where
  "remove_waiter p l = l\<lparr>waiters := filter (\<lambda>(q, b). q \<noteq> p) (waiters l)\<rparr>"

text \<open>The end of \<open>_cleanup\<close>: \<open>if self._session_lock and self._session_lock.locked(): release()\<close>.\<close>

definition cleanup_lock :: "session_lock \<Rightarrow> session_lock" where
  "cleanup_lock l = (if locked l then lock_release l else l)"

section \<open>Steps\<close>

text \<open>
  \<open>cancels\<close> says whether requests may be cancelled while they wait for the lock.  A cancelled
  waiter leaves the queue, wakes the next one if the lock is free, and then runs \<open>_cleanup\<close>.
\<close>

inductive lock_step :: "bool \<Rightarrow> lock_sys \<Rightarrow> lock_sys \<Rightarrow> bool" for cancels where
  acquire_free: "lk_pc w p = NotStarted \<Longrightarrow> \<not> locked (lk_lock w) \<Longrightarrow> waiters (lk_lock w) = [] \<Longrightarrow>
    lock_step cancels w
      (w\<lparr>lk_lock := (lk_lock w)\<lparr>locked := True\<rparr>, lk_pc := (lk_pc w)(p := Running)\<rparr>)"
| acquire_wait: "lk_pc w p = NotStarted \<Longrightarrow> locked (lk_lock w) \<or> waiters (lk_lock w) \<noteq> [] \<Longrightarrow>
    lock_step cancels w
      (w\<lparr>lk_lock := (lk_lock w)\<lparr>waiters := waiters (lk_lock w) @ [(p, False)]\<rparr>,
         lk_pc := (lk_pc w)(p := Acquiring)\<rparr>)"
| resume: "lk_pc w p = Acquiring \<Longrightarrow> (p, True) \<in> set (waiters (lk_lock w)) \<Longrightarrow>
    lock_step cancels w
      (w\<lparr>lk_lock := (remove_waiter p (lk_lock w))\<lparr>locked := True\<rparr>, lk_pc := (lk_pc w)(p := Running)\<rparr>)"
| finish: "lk_pc w p = Running \<Longrightarrow>
    lock_step cancels w
      (w\<lparr>lk_lock := cleanup_lock (lk_lock w), lk_pc := (lk_pc w)(p := Cleaned)\<rparr>)"
| cancel_waiter: "cancels \<Longrightarrow> lk_pc w p = Acquiring \<Longrightarrow>
    lock_step cancels w
      (w\<lparr>lk_lock := cleanup_lock (let l = remove_waiter p (lk_lock w)
                                  in if locked l then l else wake_up_first l),
         lk_pc := (lk_pc w)(p := Cleaned)\<rparr>)"

inductive lock_reachable :: "bool \<Rightarrow> lock_sys \<Rightarrow> bool" for cancels where
  start: "lock_reachable cancels lock_init"
| step: "lock_reachable cancels w \<Longrightarrow> lock_step cancels w w' \<Longrightarrow> lock_reachable cancels w'"

inductive_cases lock_stepE: "lock_step cancels w w'"

section \<open>Invariants\<close>

text \<open>
  In every system: waiters are queued once, a free lock with waiters has woken the first of them,
  and the lock is held only while some request runs.
\<close>

definition queue_ok :: "lock_sys \<Rightarrow> bool" where
  "queue_ok w \<longleftrightarrow>
     distinct (map fst (waiters (lk_lock w))) \<and>
     fst ` set (waiters (lk_lock w)) = {p. lk_pc w p = Acquiring} \<and>
     (locked (lk_lock w) \<or> waiters (lk_lock w) = [] \<or> snd (hd (waiters (lk_lock w)))) \<and>
     (locked (lk_lock w) \<longrightarrow> (\<exists>p. lk_pc w p = Running))"

text \<open>
  Without cancellations: one token, the flag or the first waiter woken, and a single request runs,
  while the flag is set.
\<close>

definition token_ok :: "lock_sys \<Rightarrow> bool" where
  "token_ok w \<longleftrightarrow>
     (\<forall>(p, b) \<in> set (tl (waiters (lk_lock w))). \<not> b) \<and>
     (locked (lk_lock w) \<longrightarrow> (\<forall>(p, b) \<in> set (waiters (lk_lock w)). \<not> b)) \<and>
     (\<forall>p. lk_pc w p = Running \<longrightarrow> locked (lk_lock w)) \<and>
     (\<forall>p q. lk_pc w p = Running \<longrightarrow> lk_pc w q = Running \<longrightarrow> p = q)"

lemma waiters_wake [simp]: "waiters (wake_up_first l) =
    (case waiters l of [] \<Rightarrow> [] | (p, b) # ws \<Rightarrow> (p, True) # ws)"
  by (simp add: wake_up_first_def split: list.splits)

lemma locked_wake [simp]: "locked (wake_up_first l) = locked l"
  by (simp add: wake_up_first_def)

lemma map_fst_wake [simp]: "map fst (waiters (wake_up_first l)) = map fst (waiters l)"
  by (auto split: list.splits)

lemma fst_set_wake [simp]: "fst ` set (waiters (wake_up_first l)) = fst ` set (waiters l)"
  by (metis list.set_map map_fst_wake)

lemma map_fst_cleanup [simp]: "map fst (waiters (cleanup_lock l)) = map fst (waiters l)"
  by (simp add: cleanup_lock_def lock_release_def del: waiters_wake)

lemma fst_set_cleanup [simp]: "fst ` set (waiters (cleanup_lock l)) = fst ` set (waiters l)"
  by (metis list.set_map map_fst_cleanup)

lemma locked_cleanup [simp]: "\<not> locked (cleanup_lock l)"
  by (simp add: cleanup_lock_def lock_release_def)

lemma woken_cleanup:
  "locked l \<or> waiters l = [] \<or> snd (hd (waiters l)) \<Longrightarrow>
   waiters (cleanup_lock l) = [] \<or> snd (hd (waiters (cleanup_lock l)))"
  by (auto simp: cleanup_lock_def lock_release_def split: list.splits)

lemma fst_set_remove [simp]: "fst ` set (waiters (remove_waiter p l)) = fst ` set (waiters l) - {p}"
  by (auto simp: remove_waiter_def image_iff)

lemma distinct_remove: "distinct (map fst (waiters l)) \<Longrightarrow> distinct (map fst (waiters (remove_waiter p l)))"
  by (simp add: remove_waiter_def distinct_map_filter)

lemma locked_remove [simp]: "locked (remove_waiter p l) = locked l"
  by (simp add: remove_waiter_def)

lemma queue_ok_init: "queue_ok lock_init" and token_ok_init: "token_ok lock_init"
  by (simp_all add: queue_ok_def token_ok_def lock_init_def)

lemma waiting_listed: "queue_ok w \<Longrightarrow> (p, b) \<in> set (waiters (lk_lock w)) \<Longrightarrow> lk_pc w p = Acquiring"
  unfolding queue_ok_def by force

lemma runner_kept: "lk_pc w p \<noteq> Running \<Longrightarrow> \<exists>q. lk_pc w q = Running \<Longrightarrow>
    \<exists>q. ((lk_pc w)(p := c)) q = Running"
  by (metis fun_upd_other)

lemma queue_ok_step: "lock_step cancels w w' \<Longrightarrow> queue_ok w \<Longrightarrow> queue_ok w'"
proof (induction rule: lock_step.induct)
  case (acquire_free w p)
  then show ?case by (auto simp: queue_ok_def)
next
  case (acquire_wait w p)
  then have "p \<notin> fst ` set (waiters (lk_lock w))" by (simp add: queue_ok_def)
  moreover have "{q. ((lk_pc w)(p := Acquiring)) q = Acquiring} = insert p {q. lk_pc w q = Acquiring}"
    by auto
  ultimately show ?case
    using acquire_wait runner_kept [of w p Acquiring]
    by (auto simp: queue_ok_def hd_append simp del: fun_upd_apply)
next
  case (resume w p)
  have "{q. ((lk_pc w)(p := Running)) q = Acquiring} = {q. lk_pc w q = Acquiring} - {p}" by auto
  moreover have "\<exists>q. ((lk_pc w)(p := Running)) q = Running" by (rule exI [of _ p]) simp
  ultimately show ?case using resume by (simp add: queue_ok_def distinct_remove del: fun_upd_apply)
next
  case (finish w p)
  have "{q. ((lk_pc w)(p := Cleaned)) q = Acquiring} = {q. lk_pc w q = Acquiring}"
    using finish by auto
  then show ?case using finish woken_cleanup [of "lk_lock w"]
    by (simp add: queue_ok_def del: fun_upd_apply)
next
  case (cancel_waiter w p)
  let ?l = "remove_waiter p (lk_lock w)"
  let ?m = "if locked ?l then ?l else wake_up_first ?l"
  have "locked ?m \<or> waiters ?m = [] \<or> snd (hd (waiters ?m))"
    by (auto split: list.splits)
  then have "waiters (cleanup_lock ?m) = [] \<or> snd (hd (waiters (cleanup_lock ?m)))"
    by (rule woken_cleanup)
  moreover have m: "map fst (waiters ?m) = map fst (waiters ?l)"
    by (simp del: waiters_wake)
  moreover from this have "fst ` set (waiters ?m) = fst ` set (waiters (lk_lock w)) - {p}"
    by (metis fst_set_remove list.set_map)
  moreover have "{q. ((lk_pc w)(p := Cleaned)) q = Acquiring} = {q. lk_pc w q = Acquiring} - {p}"
    by auto
  ultimately show ?case
    using cancel_waiter by (simp add: queue_ok_def distinct_remove Let_def del: waiters_wake fun_upd_apply)
qed

lemma token_ok_step: "lock_step False w w' \<Longrightarrow> queue_ok w \<Longrightarrow> token_ok w \<Longrightarrow> token_ok w'"
proof (induction rule: lock_step.cases)
  case (acquire_free u p)
  then show ?case by (auto simp: token_ok_def)
next
  case (acquire_wait u p)
  then show ?case by (cases "waiters (lk_lock u)") (auto simp: token_ok_def)
next
  case (resume u p)
  then have "\<not> locked (lk_lock u)"
    by (auto simp: token_ok_def)
  moreover obtain ws where "waiters (lk_lock u) = (p, True) # ws"
    using resume by (cases "waiters (lk_lock u)") (auto simp: token_ok_def)
  moreover have "\<not> c" if "(q, c) \<in> set (tl xs)" "\<forall>x \<in> set xs. \<not> snd x" for q c and xs :: "(nat \<times> bool) list"
    using that by (cases xs) auto
  ultimately show ?case using resume
    by (fastforce simp: token_ok_def remove_waiter_def)
next
  case (finish u p)
  then have l: "locked (lk_lock u)"
    by (auto simp: token_ok_def)
  from finish show ?case
    by (auto simp: token_ok_def cleanup_lock_def lock_release_def l split: list.splits)
qed simp

lemma queue_ok_reachable: "lock_reachable cancels w \<Longrightarrow> queue_ok w"
  by (induction rule: lock_reachable.induct) (auto intro: queue_ok_init queue_ok_step)

lemma token_ok_reachable: "lock_reachable False w \<Longrightarrow> token_ok w"
  by (induction rule: lock_reachable.induct)
    (auto intro: token_ok_init token_ok_step queue_ok_reachable)

section \<open>Properties\<close>

text \<open>
  C23: as long as no request is cancelled while it waits for the lock of its session, at most one
  request of the session runs at any time, whatever the order in which requests arrive, wait,
  resume and finish.
\<close>

theorem session_lock_excludes:
  assumes "lock_reachable False w" and "lk_pc w p = Running" and "lk_pc w q = Running"
  shows "p = q"
  using token_ok_reachable [OF assms(1)] assms(2,3) by (simp add: token_ok_def)

lemma first_runs: "lock_reachable cancels
    (lock_init\<lparr>lk_lock := \<lparr>locked = True, waiters = []\<rparr>, lk_pc := (\<lambda>_. NotStarted)(0 := Running)\<rparr>)"
  using lock_reachable.step [OF lock_reachable.start lock_step.acquire_free [of lock_init 0]]
  by (simp add: lock_init_def)

theorem session_lock_excludes_witness:
  "let w = lock_init\<lparr>lk_lock := \<lparr>locked = True, waiters = []\<rparr>, lk_pc := (\<lambda>_. NotStarted)(0 := Running)\<rparr>
   in lk_pc w 0 = Running \<and> (0::nat) = 0"
  using session_lock_excludes [OF first_runs, of 0 0] by (simp add: Let_def)

text \<open>
  C24: no wake-up is lost, cancellations included: whenever a request waits for the lock, some
  request runs, which will release the lock, or a waiting request has been woken and can resume.
\<close>

theorem waiting_request_can_proceed:
  assumes "lock_reachable cancels w" and "lk_pc w p = Acquiring"
  shows "\<exists>q w'. (lk_pc w q = Running \<or> (q, True) \<in> set (waiters (lk_lock w)) \<and> lk_pc w' q = Running) \<and>
    lock_step cancels w w'"
proof -
  have ok: "queue_ok w" by (rule queue_ok_reachable [OF assms(1)])
  show ?thesis
  proof (cases "locked (lk_lock w)")
    case True
    then obtain q where "lk_pc w q = Running" using ok by (auto simp: queue_ok_def)
    then show ?thesis using lock_step.finish by blast
  next
    case False
    then obtain q ws where q: "waiters (lk_lock w) = (q, True) # ws"
      using ok assms(2) by (cases "waiters (lk_lock w)") (auto simp: queue_ok_def set_eq_iff)
    then have "(q, True) \<in> set (waiters (lk_lock w))" by simp
    note waiting_listed [OF ok this] and this
    then obtain w' where "lk_pc w' q = Running" "lock_step cancels w w'"
      using lock_step.resume [of w q cancels] by (metis fun_upd_same lock_sys.select_convs(2)
          lock_sys.surjective lock_sys.update_convs(2))
    then show ?thesis using q by auto
  qed
qed

definition contended :: lock_sys where
  "contended = lock_init\<lparr>lk_lock := \<lparr>locked = True, waiters = [(1, False)]\<rparr>,
     lk_pc := (\<lambda>_. NotStarted)(0 := Running, 1 := Acquiring)\<rparr>"

lemma contended_reachable: "lock_reachable cancels contended"
  using lock_reachable.step [OF first_runs lock_step.acquire_wait [of _ 1]]
  by (simp add: contended_def)

theorem waiting_request_can_proceed_witness:
  "\<exists>q w'. (lk_pc contended q = Running \<or> (q, True) \<in> set (waiters (lk_lock contended)) \<and> lk_pc w' q = Running) \<and>
    lock_step True contended w'"
  by (rule waiting_request_can_proceed [OF contended_reachable, of 1]) (simp add: contended_def)

text \<open>
  A request cancelled while it waits for the lock breaks mutual exclusion: \<open>_cleanup\<close> asks only
  whether the lock is locked, not whether this request holds it, and releases the lock of the
  request that runs; the next request that waits or arrives then runs beside it.
\<close>

theorem cancelled_waiter_releases_foreign_lock:
  "\<exists>w. lock_reachable True w \<and> lk_pc w 0 = Running \<and> lk_pc w 2 = Running"
proof -
  define w1 where "w1 = contended\<lparr>lk_lock := \<lparr>locked = False, waiters = []\<rparr>,
      lk_pc := (lk_pc contended)(1 := Cleaned)\<rparr>"
  have "lock_reachable True w1"
    using lock_reachable.step [OF contended_reachable lock_step.cancel_waiter [of True contended 1]]
    by (simp add: w1_def contended_def remove_waiter_def cleanup_lock_def lock_release_def
        wake_up_first_def Let_def)
  from lock_reachable.step [OF this lock_step.acquire_free [of w1 2]] show ?thesis
    by (rule_tac exI, intro conjI) (assumption | simp add: w1_def contended_def lock_init_def)+
qed

end
