(* ===== verification/Py_Values.thy ===== *)
theory Py_Values
  imports Prelude
begin

text \<open>
  The dynamically typed values the program receives as JSON: \<open>Any\<close> of the source.  A
  dictionary keeps its insertion order.  A \<open>float\<close> is a \<open>rat\<close>: infinities and NaN do not
  occur in JSON requests, and no arithmetic on floats is rounded in the modelled code.
\<close>

datatype pyval =
    PNone
  | PBool bool
  | PInt int
  | PFloat rat
  | PStr string
  | PList "pyval list"
  | PDict "(string \<times> pyval) list"

fun is_str :: "pyval \<Rightarrow> bool" where
  "is_str (PStr _) = True"
| "is_str _ = False"

fun is_dict :: "pyval \<Rightarrow> bool" where
  "is_dict (PDict _) = True"
| "is_dict _ = False"

fun is_list :: "pyval \<Rightarrow> bool" where
  "is_list (PList _) = True"
| "is_list _ = False"

text \<open>The truth value of a Python object.\<close>

fun truthy :: "pyval \<Rightarrow> bool" where
  "truthy PNone = False"
| "truthy (PBool b) = b"
| "truthy (PInt n) = (n \<noteq> 0)"
| "truthy (PFloat r) = (r \<noteq> 0)"
| "truthy (PStr s) = (s \<noteq> [])"
| "truthy (PList xs) = (xs \<noteq> [])"
| "truthy (PDict d) = (d \<noteq> [])"

text \<open>\<open>mapping.get(key)\<close>: a missing key reads as \<open>None\<close>.\<close>

definition pget :: "(string \<times> pyval) list \<Rightarrow> string \<Rightarrow> pyval" where
  "pget d k = (case map_of d k of None \<Rightarrow> PNone | Some v \<Rightarrow> v)"

text \<open>\<open>value.get(key) if isinstance(value, Mapping) else None\<close>.\<close>

fun vget :: "pyval \<Rightarrow> string \<Rightarrow> pyval" where
  "vget (PDict d) k = pget d k"
| "vget _ k = PNone"

text \<open>
  What \<open>json.dumps(value, sort_keys=True)\<close> followed by \<open>json.loads\<close> makes of a value: the same
  value with the keys of every dictionary in ascending order.
\<close>

primrec json_canon :: "pyval \<Rightarrow> pyval" where
  "json_canon PNone = PNone"
| "json_canon (PBool b) = PBool b"
| "json_canon (PInt n) = PInt n"
| "json_canon (PFloat r) = PFloat r"
| "json_canon (PStr s) = PStr s"
| "json_canon (PList xs) = PList (map json_canon xs)"
| "json_canon (PDict d) = PDict (sort_key fst (map (map_prod id json_canon) d))"

lemma pget_Cons [simp]: "pget ((k, v) # d) j = (if k = j then v else pget d j)"
  by (simp add: pget_def)

lemma pget_Nil [simp]: "pget [] j = PNone"
  by (simp add: pget_def)

lemma map_of_insort: "map_of (insort_key fst e d) k = (if k = fst e then Some (snd e) else map_of d k)"
  by (induction d) auto

lemma map_of_sort_key_fst:
  "map_of (sort_key fst d) = map_of d"
  by (induction d) (auto simp: fun_eq_iff map_of_insort)

section \<open>Numbers as text\<close>

definition digit_char :: "nat \<Rightarrow> char" where
  "digit_char d = char_of (48 + d)"

fun nat_str :: "nat \<Rightarrow> string" where
  "nat_str n = (if n < 10 then [digit_char n] else nat_str (n div 10) @ [digit_char (n mod 10)])"

declare nat_str.simps [simp del]

definition int_str :: "int \<Rightarrow> string" where
  "int_str n = (if n < 0 then CHR ''-'' # nat_str (nat (- n)) else nat_str (nat n))"

definition is_digit :: "char \<Rightarrow> bool" where
  "is_digit c = (let n = (of_char c :: nat) in 48 \<le> n \<and> n \<le> 57)"

definition digit_value :: "char \<Rightarrow> nat" where
  "digit_value c = (of_char c :: nat) - 48"

text \<open>Decimal digits with single underscores between digits, as \<open>int()\<close> reads them.\<close>

fun digits_of :: "string \<Rightarrow> string option" where
  "digits_of [] = None"
| "digits_of [c] = (if is_digit c then Some [c] else None)"
| "digits_of (c # c' # cs) =
     (if \<not> is_digit c then None
      else if c' = CHR ''_'' then map_option (\<lambda>ds. c # ds) (digits_of cs)
      else map_option (\<lambda>ds. c # ds) (digits_of (c' # cs)))"

definition digits_value :: "string \<Rightarrow> nat" where
  "digits_value ds = fold (\<lambda>c n. 10 * n + digit_value c) ds 0"

text \<open>\<open>int(text)\<close>; \<open>None\<close> is the \<open>ValueError\<close>, also raised beyond 4300 digits.\<close>

definition py_int :: "string \<Rightarrow> int option" where
  "py_int text =
     (let s = py_strip text;
          (neg, body) = (case s of
             c # cs \<Rightarrow> if c = CHR ''-'' then (True, cs) else if c = CHR ''+'' then (False, cs) else (False, s)
           | [] \<Rightarrow> (False, s))
      in case digits_of body of
           None \<Rightarrow> None
         | Some ds \<Rightarrow>
             if 4300 < length ds then None
             else Some (if neg then - int (digits_value ds) else int (digits_value ds)))"

text \<open>
  The conversions between text and binary floating point are parameters: their rounding is not
  modelled.
\<close>

record py_floats =
  pf_repr :: "rat \<Rightarrow> string"
  pf_parse :: "string \<Rightarrow> rat option"

definition is_integer :: "rat \<Rightarrow> bool" where
  "is_integer r \<longleftrightarrow> snd (quotient_of r) = 1"

definition int_of_rat :: "rat \<Rightarrow> int" where
  "int_of_rat r = fst (quotient_of r)"

section \<open>JSON text\<close>

definition hex_char :: "nat \<Rightarrow> char" where
  "hex_char d = (if d < 10 then char_of (48 + d) else char_of (87 + d))"

definition json_escape_char :: "bool \<Rightarrow> char \<Rightarrow> string" where
  "json_escape_char ensure_ascii c =
     (let n = (of_char c :: nat) in
      if c = CHR 0x22 then [CHR 0x5C, CHR 0x22]
      else if c = CHR 0x5C then [CHR 0x5C, CHR 0x5C]
      else if n = 10 then [CHR 0x5C, CHR ''n'']
      else if n = 13 then [CHR 0x5C, CHR ''r'']
      else if n = 9 then [CHR 0x5C, CHR ''t'']
      else if n = 8 then [CHR 0x5C, CHR ''b'']
      else if n = 12 then [CHR 0x5C, CHR ''f'']
      else if n < 32 \<or> (ensure_ascii \<and> 126 < n)
        then [CHR 0x5C, CHR ''u'', CHR ''0'', CHR ''0'', hex_char (n div 16), hex_char (n mod 16)]
      else [c])"

definition json_str :: "bool \<Rightarrow> string \<Rightarrow> string" where
  "json_str ensure_ascii s = [CHR 0x22] @ concat (map (json_escape_char ensure_ascii) s) @ [CHR 0x22]"

text \<open>\<open>json.dumps(value, ensure_ascii=..., sort_keys=True, separators=(",", ":"))\<close>.\<close>

primrec json_text :: "py_floats \<Rightarrow> bool \<Rightarrow> pyval \<Rightarrow> string" where
  "json_text fl ea PNone = ''null''"
| "json_text fl ea (PBool b) = (if b then ''true'' else ''false'')"
| "json_text fl ea (PInt n) = int_str n"
| "json_text fl ea (PFloat r) = pf_repr fl r"
| "json_text fl ea (PStr s) = json_str ea s"
| "json_text fl ea (PList xs) = ''['' @ py_join '','' (map (json_text fl ea) xs) @ '']''"
| "json_text fl ea (PDict d) = ''{'' @ py_join '',''
     (map (\<lambda>(k, t). json_str ea k @ '':'' @ t) (sort_key fst (map (map_prod id (json_text fl ea)) d))) @ ''}''"

end
