(* ===== verification/Interrupt_Store.thy ===== *)
theory Interrupt_Store
  imports Py_Values State_Store
begin

text \<open>
  The interrupt request repositories of \<open>server/state_store.py\<close>: requests the agent is
  waiting on, each with an expiry, and tombstones that let an expired request be told from an
  unknown one.  The abstract class is the record \<open>interrupt_repo\<close>; the in-memory and the
  database implementation are two values of it.  The clock reading is the first argument.  The
  column \<open>details_json\<close> is represented by the value its JSON text denotes.
\<close>

section \<open>The abstract repository\<close>

type_synonym details = "(string, pyval) dict"

record interrupt_binding =
  ib_request_id :: string
  ib_session_id :: "string option"
  ib_type :: "string option"
  ib_identity :: "string option"
  ib_credential_id :: "string option"
  ib_task_id :: "string option"
  ib_context_id :: "string option"
  ib_details :: "details option"
  ib_expires_at :: time

text \<open>The keyword arguments of \<open>remember\<close>.\<close>

record remember_args =
  ra_request_id :: string
  ra_session_id :: string
  ra_type :: string
  ra_identity :: "string option"
  ra_credential_id :: "string option"
  ra_task_id :: "string option"
  ra_context_id :: "string option"
  ra_details :: "details option"
  ra_ttl_seconds :: "time option"

datatype interrupt_status = Active | Expired | Missing

record 's interrupt_repo =
  ir_remember :: "time \<Rightarrow> remember_args \<Rightarrow> 's \<Rightarrow> 's"
  ir_resolve :: "time \<Rightarrow> string \<Rightarrow> 's \<Rightarrow> (interrupt_status \<times> interrupt_binding option) \<times> 's"
  ir_discard :: "string \<Rightarrow> 's \<Rightarrow> 's"
  ir_list_pending :: "time \<Rightarrow> string \<Rightarrow> string option \<Rightarrow> 's \<Rightarrow> interrupt_binding list \<times> 's"

section \<open>The in-memory repository\<close>

record mem_interrupts =
  mi_request_ttl :: time
  mi_tombstone_ttl :: time
  mi_requests :: "(string, interrupt_binding) dict"
  mi_tombstones :: "(string, time) dict"

definition mi_new :: "time \<Rightarrow> time \<Rightarrow> mem_interrupts" where
  "mi_new request_ttl tombstone_ttl =
     \<lparr>mi_request_ttl = request_ttl, mi_tombstone_ttl = tombstone_ttl,
      mi_requests = [], mi_tombstones = []\<rparr>"

definition mi_remember_tombstone :: "string \<Rightarrow> time \<Rightarrow> mem_interrupts \<Rightarrow> mem_interrupts" where
  "mi_remember_tombstone request_id now s =
     (let ttl = mi_tombstone_ttl s
      in if ttl \<le> 0 then s\<lparr>mi_tombstones := dict_pop request_id (mi_tombstones s)\<rparr>
         else s\<lparr>mi_tombstones := dict_set request_id (now + ttl) (mi_tombstones s)\<rparr>)"

text \<open>The body of the loop of \<open>_prune_interrupt_requests\<close>.\<close>

definition mi_expire :: "time \<Rightarrow> string \<Rightarrow> mem_interrupts \<Rightarrow> mem_interrupts" where
  "mi_expire now rid s =
     mi_remember_tombstone rid now (s\<lparr>mi_requests := dict_pop rid (mi_requests s)\<rparr>)"

definition mi_prune_requests :: "time \<Rightarrow> mem_interrupts \<Rightarrow> mem_interrupts" where
  "mi_prune_requests now s =
     (let expired = map fst (filter (\<lambda>(rid, b). ib_expires_at b \<le> now) (mi_requests s))
      in fold (mi_expire now) expired s)"

definition mi_prune_tombstones :: "time \<Rightarrow> mem_interrupts \<Rightarrow> mem_interrupts" where
  "mi_prune_tombstones now s =
     (let expired = map fst (filter (\<lambda>(rid, e). e \<le> now) (mi_tombstones s))
      in s\<lparr>mi_tombstones := dict_pops expired (mi_tombstones s)\<rparr>)"

definition mi_remember :: "time \<Rightarrow> remember_args \<Rightarrow> mem_interrupts \<Rightarrow> mem_interrupts" where
  "mi_remember now a s =
     (let s' = mi_prune_tombstones now (mi_prune_requests now s);
          ttl = (case ra_ttl_seconds a of None \<Rightarrow> mi_request_ttl s' | Some ttl \<Rightarrow> ttl);
          binding = \<lparr>ib_request_id = ra_request_id a, ib_session_id = Some (ra_session_id a),
                     ib_type = Some (ra_type a), ib_identity = ra_identity a,
                     ib_credential_id = ra_credential_id a, ib_task_id = ra_task_id a,
                     ib_context_id = ra_context_id a, ib_details = ra_details a,
                     ib_expires_at = now + max 0 ttl\<rparr>
      in s'\<lparr>mi_requests := dict_set (ra_request_id a) binding (mi_requests s'),
            mi_tombstones := dict_pop (ra_request_id a) (mi_tombstones s')\<rparr>)"

definition mi_resolve ::
  "time \<Rightarrow> string \<Rightarrow> mem_interrupts \<Rightarrow> (interrupt_status \<times> interrupt_binding option) \<times> mem_interrupts" where
  "mi_resolve now request_id s =
     (if request_id = [] then ((Missing, None), s)
      else
        let s1 = mi_prune_tombstones now s
        in case dict_get (mi_requests s1) request_id of
             None \<Rightarrow>
               (if dict_get (mi_tombstones s1) request_id \<noteq> None then ((Expired, None), s1)
                else ((Missing, None), s1))
           | Some binding \<Rightarrow>
               if ib_expires_at binding \<le> now then
                 let s2 = s1\<lparr>mi_requests := dict_pop request_id (mi_requests s1)\<rparr>;
                     s3 = mi_prune_requests now s2
                 in ((Expired, None), mi_remember_tombstone request_id now s3)
               else ((Active, Some binding), mi_prune_requests now s1))"

definition mi_discard :: "string \<Rightarrow> mem_interrupts \<Rightarrow> mem_interrupts" where
  "mi_discard request_id s =
     s\<lparr>mi_requests := dict_pop request_id (mi_requests s),
       mi_tombstones := dict_pop request_id (mi_tombstones s)\<rparr>"

abbreviation expiry_order :: "interrupt_binding \<Rightarrow> time \<times> string" where
  "expiry_order b \<equiv> (ib_expires_at b, ib_request_id b)"

definition mi_list_pending ::
  "time \<Rightarrow> string \<Rightarrow> string option \<Rightarrow> mem_interrupts \<Rightarrow> interrupt_binding list \<times> mem_interrupts" where
  "mi_list_pending now identity interrupt_type s =
     (let s' = mi_prune_tombstones now (mi_prune_requests now s);
          normalized_type = map_option py_strip interrupt_type;
          items = filter (\<lambda>b. ib_identity b = Some identity \<and>
                    (normalized_type = None \<or> ib_type b = normalized_type) \<and>
                    now < ib_expires_at b) (map snd (mi_requests s'))
      in (sort_key expiry_order items, s'))"

definition memory_interrupt_repo :: "mem_interrupts interrupt_repo" where
  "memory_interrupt_repo =
     \<lparr>ir_remember = mi_remember, ir_resolve = mi_resolve, ir_discard = mi_discard,
      ir_list_pending = mi_list_pending\<rparr>"

section \<open>The database repository\<close>

record interrupt_row =
  rw_session_id :: "string option"
  rw_type :: "string option"
  rw_identity :: "string option"
  rw_credential_id :: "string option"
  rw_task_id :: "string option"
  rw_context_id :: "string option"
  rw_details_json :: "pyval option"
  rw_expires_at :: "time option"
  rw_tombstone_expires_at :: "time option"

record db_interrupts =
  di_request_ttl :: time
  di_tombstone_ttl :: time
  di_rows :: "(string, interrupt_row) dict"

definition di_new :: "time \<Rightarrow> time \<Rightarrow> db_interrupts" where
  "di_new request_ttl tombstone_ttl =
     \<lparr>di_request_ttl = request_ttl, di_tombstone_ttl = tombstone_ttl, di_rows = []\<rparr>"

definition encode_details :: "details option \<Rightarrow> pyval option" where
  "encode_details d = map_option (\<lambda>d. json_canon (PDict d)) d"

fun decode_details :: "pyval option \<Rightarrow> details option" where
  "decode_details (Some (PDict d)) = Some d"
| "decode_details _ = None"

definition di_prune_tombstones :: "time \<Rightarrow> db_interrupts \<Rightarrow> db_interrupts" where
  "di_prune_tombstones now s =
     s\<lparr>di_rows := filter (\<lambda>(rid, row).
         \<not> (case rw_tombstone_expires_at row of None \<Rightarrow> False | Some e \<Rightarrow> e \<le> now)) (di_rows s)\<rparr>"

definition di_set_tombstone :: "string \<Rightarrow> time \<Rightarrow> db_interrupts \<Rightarrow> db_interrupts" where
  "di_set_tombstone request_id now s =
     (let tombstone_expires_at =
            (if di_tombstone_ttl s \<le> 0 then None else Some (now + di_tombstone_ttl s))
      in s\<lparr>di_rows := table_update request_id
            \<lparr>rw_session_id = None, rw_type = None, rw_identity = None, rw_credential_id = None,
             rw_task_id = None, rw_context_id = None, rw_details_json = None, rw_expires_at = None,
             rw_tombstone_expires_at = tombstone_expires_at\<rparr> (di_rows s)\<rparr>)"

definition di_remember :: "time \<Rightarrow> remember_args \<Rightarrow> db_interrupts \<Rightarrow> db_interrupts" where
  "di_remember now a s =
     (let ttl = (case ra_ttl_seconds a of None \<Rightarrow> di_request_ttl s | Some ttl \<Rightarrow> ttl);
          expires_at = now + max 0 ttl;
          s' = di_prune_tombstones now s
      in s'\<lparr>di_rows := insert_then_update_on_conflict (ra_request_id a)
            \<lparr>rw_session_id = Some (ra_session_id a), rw_type = Some (ra_type a),
             rw_identity = ra_identity a, rw_credential_id = ra_credential_id a,
             rw_task_id = ra_task_id a, rw_context_id = ra_context_id a,
             rw_details_json = encode_details (ra_details a), rw_expires_at = Some expires_at,
             rw_tombstone_expires_at = None\<rparr> (di_rows s')\<rparr>)"

definition row_binding :: "string \<Rightarrow> interrupt_row \<Rightarrow> time \<Rightarrow> interrupt_binding" where
  "row_binding request_id row expires_at =
     \<lparr>ib_request_id = request_id, ib_session_id = rw_session_id row, ib_type = rw_type row,
      ib_identity = rw_identity row, ib_credential_id = rw_credential_id row,
      ib_task_id = rw_task_id row, ib_context_id = rw_context_id row,
      ib_details = decode_details (rw_details_json row), ib_expires_at = expires_at\<rparr>"

definition di_resolve ::
  "time \<Rightarrow> string \<Rightarrow> db_interrupts \<Rightarrow> (interrupt_status \<times> interrupt_binding option) \<times> db_interrupts" where
  "di_resolve now request_id s =
     (if request_id = [] then ((Missing, None), s)
      else
        let s' = di_prune_tombstones now s
        in case dict_get (di_rows s') request_id of
             None \<Rightarrow> ((Missing, None), s')
           | Some row \<Rightarrow>
               if (case rw_tombstone_expires_at row of None \<Rightarrow> False | Some e \<Rightarrow> now < e)
               then ((Expired, None), s')
               else case rw_expires_at row of
                      None \<Rightarrow> ((Missing, None), s')
                    | Some expires_at \<Rightarrow>
                        if expires_at \<le> now then ((Expired, None), di_set_tombstone request_id now s')
                        else ((Active, Some (row_binding request_id row expires_at)), s'))"

definition di_discard :: "string \<Rightarrow> db_interrupts \<Rightarrow> db_interrupts" where
  "di_discard request_id s = s\<lparr>di_rows := dict_pop request_id (di_rows s)\<rparr>"

definition di_list_pending ::
  "time \<Rightarrow> string \<Rightarrow> string option \<Rightarrow> db_interrupts \<Rightarrow> interrupt_binding list \<times> db_interrupts" where
  "di_list_pending now identity interrupt_type s =
     (let normalized_type = map_option py_strip interrupt_type;
          s' = di_prune_tombstones now s;
          rows = filter (\<lambda>(rid, row). rw_identity row = Some identity \<and>
                   (case rw_expires_at row of None \<Rightarrow> False | Some e \<Rightarrow> now < e) \<and>
                   (normalized_type = None \<or> rw_type row = normalized_type)) (di_rows s')
      in (map (\<lambda>(rid, row). row_binding rid row (the (rw_expires_at row)))
            (sort_key (\<lambda>(rid, row). (the (rw_expires_at row), rid)) rows), s'))"

definition database_interrupt_repo :: "db_interrupts interrupt_repo" where
  "database_interrupt_repo =
     \<lparr>ir_remember = di_remember, ir_resolve = di_resolve, ir_discard = di_discard,
      ir_list_pending = di_list_pending\<rparr>"

end
