(* ===== verification/Interrupt_Contract.thy ===== *)
theory Interrupt_Contract
  imports Interrupt_Store Session_Contract
begin

text \<open>
  The contract of an interrupt request repository: \<open>pending_at t s\<close> maps the identifiers of the
  requests that are alive at time \<open>t\<close> to their bindings, and every operation is described by
  what it does to that map.  Both repositories of \<open>Interrupt_Store\<close> satisfy it, so both refine
  the abstract machine \<open>spec_step\<close>, which has no pruning, tombstones or rows.
\<close>

section \<open>Abstract machine\<close>

datatype interrupt_op =
    Remember remember_args
  | Resolve string
  | Discard string
  | ListPending string "string option"

text \<open>What is stored for the arguments; \<open>st\<close> is what the repository makes of the details.\<close>

definition binding_of :: "(details option \<Rightarrow> details option) \<Rightarrow> time \<Rightarrow> time \<Rightarrow> remember_args \<Rightarrow> interrupt_binding" where
  "binding_of st default_ttl now a =
     \<lparr>ib_request_id = ra_request_id a, ib_session_id = Some (ra_session_id a),
      ib_type = Some (ra_type a), ib_identity = ra_identity a,
      ib_credential_id = ra_credential_id a, ib_task_id = ra_task_id a,
      ib_context_id = ra_context_id a, ib_details = st (ra_details a),
      ib_expires_at = now + max 0 (case ra_ttl_seconds a of None \<Rightarrow> default_ttl | Some ttl \<Rightarrow> ttl)\<rparr>"

definition alive :: "time \<Rightarrow> (string \<Rightarrow> interrupt_binding option) \<Rightarrow> string \<Rightarrow> interrupt_binding option" where
  "alive now m rid = (case m rid of None \<Rightarrow> None | Some b \<Rightarrow> if ib_expires_at b \<le> now then None else Some b)"

fun spec_step ::
  "(details option \<Rightarrow> details option) \<Rightarrow> time \<Rightarrow> time \<times> interrupt_op \<Rightarrow>
   (string \<Rightarrow> interrupt_binding option) \<Rightarrow> (string \<Rightarrow> interrupt_binding option)" where
  "spec_step st ttl (now, Remember a) m = m(ra_request_id a \<mapsto> binding_of st ttl now a)"
| "spec_step st ttl (now, Discard rid) m = m(rid := None)"
| "spec_step st ttl (now, _) m = m"

fun repo_step :: "'s interrupt_repo \<Rightarrow> time \<times> interrupt_op \<Rightarrow> 's \<Rightarrow> 's" where
  "repo_step R (now, Remember a) s = ir_remember R now a s"
| "repo_step R (now, Discard rid) s = ir_discard R rid s"
| "repo_step R (now, Resolve rid) s = snd (ir_resolve R now rid s)"
| "repo_step R (now, ListPending i ty) s = snd (ir_list_pending R now i ty s)"

definition matches :: "string \<Rightarrow> string option \<Rightarrow> interrupt_binding \<Rightarrow> bool" where
  "matches identity interrupt_type b \<longleftrightarrow> ib_identity b = Some identity \<and>
     (interrupt_type = None \<or> ib_type b = map_option py_strip interrupt_type)"

section \<open>Contract\<close>

locale interrupt_repository =
  fixes R :: "'s interrupt_repo"
    and inv :: "'s \<Rightarrow> bool"
    and pending_at :: "time \<Rightarrow> 's \<Rightarrow> string \<Rightarrow> interrupt_binding option"
    and default_ttl :: "'s \<Rightarrow> time"
    and st :: "details option \<Rightarrow> details option"
  assumes inv_remember: "inv s \<Longrightarrow> inv (ir_remember R t a s)"
    and inv_resolve: "inv s \<Longrightarrow> inv (snd (ir_resolve R t rid s))"
    and inv_discard: "inv s \<Longrightarrow> inv (ir_discard R rid s)"
    and inv_list: "inv s \<Longrightarrow> inv (snd (ir_list_pending R t i ty s))"
    and ttl_frame: "default_ttl (ir_remember R t a s) = default_ttl s"
      "default_ttl (snd (ir_resolve R t rid s)) = default_ttl s"
      "default_ttl (ir_discard R rid s) = default_ttl s"
      "default_ttl (snd (ir_list_pending R t i ty s)) = default_ttl s"
    and pending_remember: "inv s \<Longrightarrow> t \<le> t' \<Longrightarrow> pending_at t' (ir_remember R t a s) x =
      (if x = ra_request_id a then alive t' (\<lambda>_. Some (binding_of st (default_ttl s) t a)) x
       else pending_at t' s x)"
    and pending_resolve: "inv s \<Longrightarrow> t \<le> t' \<Longrightarrow>
      pending_at t' (snd (ir_resolve R t rid s)) x = pending_at t' s x"
    and pending_discard: "inv s \<Longrightarrow>
      pending_at t (ir_discard R rid s) x = (if x = rid then None else pending_at t s x)"
    and pending_list: "inv s \<Longrightarrow> t \<le> t' \<Longrightarrow>
      pending_at t' (snd (ir_list_pending R t i ty s)) x = pending_at t' s x"
    and resolve_binding: "inv s \<Longrightarrow> rid \<noteq> [] \<Longrightarrow> snd (fst (ir_resolve R t rid s)) = pending_at t s rid"
    and resolve_status: "inv s \<Longrightarrow> rid \<noteq> [] \<Longrightarrow>
      fst (fst (ir_resolve R t rid s)) = Active \<longleftrightarrow> pending_at t s rid \<noteq> None"
    and list_set: "inv s \<Longrightarrow> set (fst (ir_list_pending R t i ty s)) =
      {b. \<exists>rid. pending_at t s rid = Some b \<and> matches i ty b}"
    and list_sorted: "inv s \<Longrightarrow> sorted (map expiry_order (fst (ir_list_pending R t i ty s)))"
    and list_distinct: "inv s \<Longrightarrow> distinct (map ib_request_id (fst (ir_list_pending R t i ty s)))"

context interrupt_repository begin

lemma inv_step: "inv s \<Longrightarrow> inv (repo_step R e s)"
  by (cases "(R, e, s)" rule: repo_step.cases)
    (simp_all add: inv_remember inv_resolve inv_discard inv_list)

lemma ttl_step: "default_ttl (repo_step R e s) = default_ttl s"
  by (cases "(R, e, s)" rule: repo_step.cases) (simp_all add: ttl_frame)

lemma step_refines:
  assumes "inv s" "fst e \<le> t'" and "\<And>t'. fst e \<le> t' \<Longrightarrow> pending_at t' s = alive t' m"
  shows "pending_at t' (repo_step R e s) = alive t' (spec_step st (default_ttl s) e m)"
proof (rule ext)
  fix x
  show "pending_at t' (repo_step R e s) x = alive t' (spec_step st (default_ttl s) e m) x"
    using assms
    by (cases "(R, e, s)" rule: repo_step.cases)
      (auto simp: pending_remember pending_resolve pending_discard pending_list alive_def)
qed

text \<open>Every sequence of operations at increasing times refines the abstract machine.\<close>

lemma trace_refines:
  assumes "inv s" "sorted (map fst ops)" "\<forall>e \<in> set ops. fst e \<le> t'" "\<forall>e \<in> set ops. t0 \<le> fst e" "t0 \<le> t'"
    and "\<And>t'. t0 \<le> t' \<Longrightarrow> pending_at t' s = alive t' m"
  shows "inv (fold (repo_step R) ops s) \<and>
    pending_at t' (fold (repo_step R) ops s) = alive t' (fold (spec_step st (default_ttl s)) ops m)"
  using assms
proof (induction ops arbitrary: s m t0)
  case Nil
  then show ?case by simp
next
  case (Cons e ops)
  have "\<And>t'. fst e \<le> t' \<Longrightarrow>
      pending_at t' (repo_step R e s) = alive t' (spec_step st (default_ttl s) e m)"
    using Cons.prems by (intro step_refines) (auto intro: order_trans)
  then show ?case
    using Cons.IH [of "repo_step R e s" "fst e" "spec_step st (default_ttl s) e m"] Cons.prems
    by (simp add: inv_step ttl_step)
qed

end

section \<open>The in-memory repository\<close>

definition mi_inv :: "mem_interrupts \<Rightarrow> bool" where
  "mi_inv s \<longleftrightarrow> wf_dict (mi_requests s) \<and> wf_dict (mi_tombstones s) \<and>
     (\<forall>(rid, b) \<in> set (mi_requests s). ib_request_id b = rid)"

definition mi_pending_at :: "time \<Rightarrow> mem_interrupts \<Rightarrow> string \<Rightarrow> interrupt_binding option" where
  "mi_pending_at now s = alive now (dict_get (mi_requests s))"

lemma mi_fold_state:
  "mi_requests (fold (mi_expire now) rids s) = dict_pops rids (mi_requests s)"
  "mi_request_ttl (fold (mi_expire now) rids s) = mi_request_ttl s"
  "mi_tombstone_ttl (fold (mi_expire now) rids s) = mi_tombstone_ttl s"
  "wf_dict (mi_tombstones s) \<Longrightarrow> wf_dict (mi_tombstones (fold (mi_expire now) rids s))"
  by (induction rids arbitrary: s) (simp_all add: mi_expire_def mi_remember_tombstone_def Let_def dict_pops_def)

lemma mi_prune_fields:
  "mi_request_ttl (mi_prune_requests now s) = mi_request_ttl s"
  "mi_request_ttl (mi_prune_tombstones now s) = mi_request_ttl s"
  "mi_requests (mi_prune_tombstones now s) = mi_requests s"
  "mi_requests (mi_remember_tombstone rid now s) = mi_requests s"
  "mi_request_ttl (mi_remember_tombstone rid now s) = mi_request_ttl s"
  by (simp_all add: mi_prune_requests_def mi_prune_tombstones_def mi_remember_tombstone_def Let_def
      mi_fold_state)

lemma mi_prune_requests_eq:
  "wf_dict (mi_requests s) \<Longrightarrow> mi_requests (mi_prune_requests now s) =
    filter (\<lambda>(rid, b). \<not> ib_expires_at b \<le> now) (mi_requests s)"
  by (simp add: mi_prune_requests_def Let_def mi_fold_state dict_pops_prune case_prod_unfold)

lemma wf_mi_tombstones:
  "wf_dict (mi_tombstones s) \<Longrightarrow> wf_dict (mi_tombstones (mi_prune_requests now s))"
  "wf_dict (mi_tombstones s) \<Longrightarrow> wf_dict (mi_tombstones (mi_prune_tombstones now s))"
  "wf_dict (mi_tombstones s) \<Longrightarrow> wf_dict (mi_tombstones (mi_remember_tombstone rid now s))"
  by (simp_all add: mi_prune_requests_def mi_prune_tombstones_def mi_remember_tombstone_def Let_def
      mi_fold_state)

lemma mi_inv_prune:
  assumes "mi_inv s"
  shows "mi_inv (mi_prune_requests now s)" "mi_inv (mi_prune_tombstones now s)"
    "mi_inv (mi_remember_tombstone rid now s)"
  using assms by (auto simp: mi_inv_def mi_prune_requests_eq mi_prune_fields wf_mi_tombstones)

lemma mi_inv_pop: "mi_inv s \<Longrightarrow> mi_inv (s\<lparr>mi_requests := dict_pop rid (mi_requests s)\<rparr>)"
  using set_dict_pop_subset [of rid "mi_requests s"] by (auto simp: mi_inv_def)

lemma mi_inv_wf: "mi_inv s \<Longrightarrow> wf_dict (mi_requests s)" "mi_inv s \<Longrightarrow> wf_dict (mi_tombstones s)"
  by (simp_all add: mi_inv_def)

lemma mi_inv_put:
  assumes "mi_inv s" "ib_request_id b = rid"
  shows "mi_inv (s\<lparr>mi_requests := dict_set rid b (mi_requests s),
    mi_tombstones := dict_pop rid (mi_tombstones s)\<rparr>)"
proof -
  have "ib_request_id b' = k" if "(k, b') \<in> set (dict_set rid b (mi_requests s))" for k b'
    using that assms set_dict_set_subset [of rid b "mi_requests s"] by (auto simp: mi_inv_def)
  then show ?thesis using assms(1) by (auto simp: mi_inv_def)
qed

lemma mi_inv_remember: "mi_inv s \<Longrightarrow> mi_inv (mi_remember t a s)"
  unfolding mi_remember_def Let_def by (intro mi_inv_put mi_inv_prune) simp_all

lemma mi_inv_resolve: "mi_inv s \<Longrightarrow> mi_inv (snd (mi_resolve t rid s))"
  by (auto simp: mi_resolve_def Let_def mi_inv_prune mi_inv_pop split: option.split)

lemma mi_inv_discard: "mi_inv s \<Longrightarrow> mi_inv (mi_discard rid s)"
  using set_dict_pop_subset [of rid "mi_requests s"] by (auto simp: mi_inv_def mi_discard_def)

lemma mi_inv_list: "mi_inv s \<Longrightarrow> mi_inv (snd (mi_list_pending t i ty s))"
  by (simp add: mi_list_pending_def Let_def mi_inv_prune)

lemma mi_pending_prune:
  assumes "mi_inv s" "t \<le> t'"
  shows "alive t' (dict_get (mi_requests (mi_prune_requests t s))) = alive t' (dict_get (mi_requests s))"
  using assms(2)
  by (auto simp: fun_eq_iff alive_def mi_prune_requests_eq [OF mi_inv_wf(1) [OF assms(1)]]
      dict_get_filter [OF mi_inv_wf(1) [OF assms(1)]] split: option.split)

lemma mi_pending_pop:
  "alive t (dict_get (dict_pop rid d)) x = (if x = rid then None else alive t (dict_get d) x)"
  by (simp add: alive_def dict_simps)

lemma mi_pending_remember:
  assumes "mi_inv s" "t \<le> t'"
  shows "mi_pending_at t' (mi_remember t a s) x =
      (if x = ra_request_id a then alive t' (\<lambda>_. Some (binding_of id (mi_request_ttl s) t a)) x
       else mi_pending_at t' s x)"
  using mi_pending_prune [OF assms]
  by (cases "ra_ttl_seconds a") (simp_all add: mi_pending_at_def mi_remember_def Let_def mi_prune_fields alive_def dict_simps
      binding_of_def fun_eq_iff)

lemma mi_pending_resolve:
  assumes "mi_inv s" "t \<le> t'"
  shows "mi_pending_at t' (snd (mi_resolve t rid s)) x = mi_pending_at t' s x"
  using assms(2) mi_pending_prune [OF mi_inv_prune(2) [OF assms(1)] assms(2), of t]
    mi_pending_prune [OF mi_inv_pop [OF mi_inv_prune(2) [OF assms(1)]] assms(2), of rid t]
  by (auto simp: mi_pending_at_def mi_resolve_def Let_def mi_prune_fields fun_eq_iff mi_pending_pop
      split: option.split) (auto simp: alive_def)

lemma mi_resolve_value:
  "rid \<noteq> [] \<Longrightarrow> snd (fst (mi_resolve t rid s)) = mi_pending_at t s rid"
  "rid \<noteq> [] \<Longrightarrow> fst (fst (mi_resolve t rid s)) = Active \<longleftrightarrow> mi_pending_at t s rid \<noteq> None"
  by (auto simp: mi_pending_at_def alive_def mi_resolve_def Let_def mi_prune_fields split: option.split)

lemma mi_list_value:
  assumes "mi_inv s"
  shows "fst (mi_list_pending t i ty s) =
    sort_key expiry_order (filter (\<lambda>b. matches i ty b \<and> t < ib_expires_at b) (map snd (mi_requests s)))"
  using mi_inv_wf(1) [OF assms]
  by (auto simp: mi_list_pending_def Let_def mi_prune_fields mi_prune_requests_eq filter_map comp_def
      matches_def case_prod_unfold intro!: arg_cong [where f = "\<lambda>xs. sort_key expiry_order (map snd xs)"] filter_cong)

lemma mi_pending_Some:
  assumes "mi_inv s"
  shows "mi_pending_at t s rid = Some b \<longleftrightarrow> (rid, b) \<in> set (mi_requests s) \<and> t < ib_expires_at b"
  by (subst map_of_eq_Some_iff [OF mi_inv_wf(1) [OF assms], symmetric])
    (auto simp: mi_pending_at_def alive_def split: option.splits)

lemma mi_list_set:
  assumes "mi_inv s"
  shows "set (fst (mi_list_pending t i ty s)) = {b. \<exists>rid. mi_pending_at t s rid = Some b \<and> matches i ty b}"
  by (force simp: mi_list_value [OF assms] mi_pending_Some [OF assms])

lemma map_snd_keys:
  assumes "\<forall>(rid, b) \<in> set d. f b = rid"
  shows "map f (map snd d) = map fst d"
  using assms by (induction d) auto

lemma distinct_map_sort: "distinct (map f xs) \<Longrightarrow> distinct (map f (sort_key g xs))"
  by (metis distinct_map distinct_sort set_sort)

lemma mi_list_distinct:
  assumes "mi_inv s"
  shows "distinct (map ib_request_id (fst (mi_list_pending t i ty s)))"
proof -
  have "distinct (map ib_request_id (map snd (mi_requests s)))"
    unfolding map_snd_keys [OF assms [unfolded mi_inv_def, THEN conjunct2, THEN conjunct2]]
    by (rule mi_inv_wf [OF assms])
  then show ?thesis
    unfolding mi_list_value [OF assms] by (intro distinct_map_sort distinct_map_filter)
qed

interpretation mem_interrupt: interrupt_repository memory_interrupt_repo mi_inv mi_pending_at mi_request_ttl id
proof (unfold_locales, unfold memory_interrupt_repo_def interrupt_repo.simps)
  fix s :: mem_interrupts and t t' :: time and i ty x
  assume "mi_inv s" "t \<le> t'"
  then show "mi_pending_at t' (snd (mi_list_pending t i ty s)) x = mi_pending_at t' s x"
    by (simp add: mi_list_pending_def Let_def mi_pending_at_def mi_prune_fields mi_pending_prune)
next
  fix s :: mem_interrupts and t :: time and i ty
  assume "mi_inv s"
  then show "sorted (map expiry_order (fst (mi_list_pending t i ty s)))"
    by (simp add: mi_list_value)
qed (simp_all add: mi_inv_remember mi_inv_resolve mi_inv_discard mi_inv_list mi_pending_remember
    mi_pending_resolve mi_resolve_value mi_list_set mi_list_distinct,
    simp_all add: mi_remember_def mi_resolve_def mi_discard_def mi_list_pending_def Let_def
      mi_prune_fields mi_pending_at_def mi_pending_pop split: option.split)

section \<open>The database repository\<close>

text \<open>No row is both pending and a tombstone.\<close>

definition di_inv :: "db_interrupts \<Rightarrow> bool" where
  "di_inv s \<longleftrightarrow> wf_dict (di_rows s) \<and>
     (\<forall>(rid, row) \<in> set (di_rows s). rw_tombstone_expires_at row \<noteq> None \<longrightarrow> rw_expires_at row = None)"

definition row_pending :: "time \<Rightarrow> string \<Rightarrow> interrupt_row \<Rightarrow> interrupt_binding option" where
  "row_pending now rid row =
     (case rw_expires_at row of None \<Rightarrow> None
      | Some e \<Rightarrow> if e \<le> now then None else Some (row_binding rid row e))"

definition di_pending_at :: "time \<Rightarrow> db_interrupts \<Rightarrow> string \<Rightarrow> interrupt_binding option" where
  "di_pending_at now s rid =
     (case dict_get (di_rows s) rid of None \<Rightarrow> None | Some row \<Rightarrow> row_pending now rid row)"

abbreviation stored_details :: "details option \<Rightarrow> details option" where
  "stored_details d \<equiv> decode_details (encode_details d)"

lemma di_invD: "di_inv s \<Longrightarrow> dict_get (di_rows s) rid = Some row \<Longrightarrow>
    rw_tombstone_expires_at row \<noteq> None \<Longrightarrow> rw_expires_at row = None"
  by (auto simp: di_inv_def dest: map_of_SomeD)

lemma di_inv_wf: "di_inv s \<Longrightarrow> wf_dict (di_rows s)"
  by (simp add: di_inv_def)

lemma di_inv_rows:
  assumes "di_inv s" and "wf_dict rows"
    and "\<And>rid row. (rid, row) \<in> set rows \<Longrightarrow> (rid, row) \<in> set (di_rows s) \<or>
      rw_tombstone_expires_at row = None \<or> rw_expires_at row = None"
  shows "di_inv (s\<lparr>di_rows := rows\<rparr>)"
  using assms by (fastforce simp: di_inv_def)

lemma di_prune_fields:
  "di_request_ttl (di_prune_tombstones now s) = di_request_ttl s"
  "di_tombstone_ttl (di_prune_tombstones now s) = di_tombstone_ttl s"
  by (simp_all add: di_prune_tombstones_def)

lemma di_inv_prune: "di_inv s \<Longrightarrow> di_inv (di_prune_tombstones now s)"
  unfolding di_prune_tombstones_def by (rule di_inv_rows) (auto simp: di_inv_wf)

lemma di_prune_get:
  assumes "di_inv s"
  shows "dict_get (di_rows (di_prune_tombstones now s)) rid =
    (case dict_get (di_rows s) rid of None \<Rightarrow> None
     | Some row \<Rightarrow> (case rw_tombstone_expires_at row of None \<Rightarrow> Some row
         | Some e \<Rightarrow> if e \<le> now then None else Some row))"
  by (simp add: di_prune_tombstones_def dict_get_filter [OF di_inv_wf [OF assms]] split: option.split)

lemma di_pending_prune: "di_inv s \<Longrightarrow> di_pending_at t (di_prune_tombstones now s) = di_pending_at t s"
  by (auto simp: fun_eq_iff di_pending_at_def di_prune_get row_pending_def split: option.split dest: di_invD)

lemma di_remember_eq:
  assumes "di_inv s"
  shows "\<exists>row. di_remember t a s = (di_prune_tombstones t s)\<lparr>di_rows :=
      dict_set (ra_request_id a) row (di_rows (di_prune_tombstones t s))\<rparr> \<and>
    rw_tombstone_expires_at row = None \<and>
    (\<forall>t'. row_pending t' (ra_request_id a) row =
      alive t' (\<lambda>_. Some (binding_of stored_details (di_request_ttl s) t a)) (ra_request_id a))"
  using insert_then_update_eq [OF di_inv_wf [OF di_inv_prune [OF assms]]]
  by (cases "ra_ttl_seconds a") (auto simp: di_remember_def Let_def di_prune_fields row_pending_def
      alive_def binding_of_def row_binding_def)

lemma di_inv_put:
  assumes "di_inv s" "rw_tombstone_expires_at row = None"
  shows "di_inv (s\<lparr>di_rows := dict_set rid row (di_rows s)\<rparr>)"
proof (rule di_inv_rows [OF assms(1)])
  show "wf_dict (dict_set rid row (di_rows s))" using di_inv_wf [OF assms(1)] by simp
  fix k r assume "(k, r) \<in> set (dict_set rid row (di_rows s))"
  then have "(k, r) = (rid, row) \<or> (k, r) \<in> set (di_rows s)" using set_dict_set_subset by fast
  then show "(k, r) \<in> set (di_rows s) \<or> rw_tombstone_expires_at r = None \<or> rw_expires_at r = None"
    using assms(2) by auto
qed

lemma map_fst_table_update: "map fst (table_update k v t) = map fst t"
  by (induction t) (auto simp: table_update_def)

lemma dict_get_table_update:
  "dict_get (table_update k v t) j = (if j = k then map_option (\<lambda>_. v) (dict_get t j) else dict_get t j)"
  by (induction t) (auto simp: table_update_def)

lemma di_inv_tombstone: "di_inv s \<Longrightarrow> di_inv (di_set_tombstone rid now s)"
  unfolding di_set_tombstone_def Let_def
  by (rule di_inv_rows) (simp_all add: di_inv_wf map_fst_table_update, auto simp: table_update_def split: if_splits)

lemma di_pending_tombstone:
  "di_pending_at t (di_set_tombstone rid now s) x = (if x = rid then None else di_pending_at t s x)"
  by (auto simp: di_pending_at_def di_set_tombstone_def Let_def dict_get_table_update row_pending_def
      split: option.split)

lemma di_resolve_state:
  "snd (di_resolve t rid s) = s \<or> snd (di_resolve t rid s) = di_prune_tombstones t s \<or>
    (di_pending_at t (di_prune_tombstones t s) rid = None \<and>
     snd (di_resolve t rid s) = di_set_tombstone rid t (di_prune_tombstones t s))"
  by (auto simp: di_resolve_def Let_def di_pending_at_def row_pending_def split: option.split)

lemma di_pending_None_later: "di_pending_at t s x = None \<Longrightarrow> t \<le> t' \<Longrightarrow> di_pending_at t' s x = None"
  by (auto simp: di_pending_at_def row_pending_def split: option.splits if_splits)

lemma di_inv_resolve: "di_inv s \<Longrightarrow> di_inv (snd (di_resolve t rid s))"
  using di_resolve_state [of t rid s] di_inv_prune di_inv_tombstone by metis

lemma di_pending_resolve:
  assumes "di_inv s" "t \<le> t'"
  shows "di_pending_at t' (snd (di_resolve t rid s)) x = di_pending_at t' s x"
  using di_resolve_state [of t rid s]
  by (auto simp: di_pending_prune [OF assms(1)] di_pending_tombstone
      di_pending_None_later [OF _ assms(2)])

lemma di_resolve_value:
  assumes "di_inv s" "rid \<noteq> []"
  shows "snd (fst (di_resolve t rid s)) = di_pending_at t s rid"
    and "fst (fst (di_resolve t rid s)) = Active \<longleftrightarrow> di_pending_at t s rid \<noteq> None"
  using assms(2) di_invD [OF assms(1), of rid]
  by (auto simp: di_resolve_def Let_def di_prune_get [OF assms(1)] di_pending_at_def row_pending_def
      split: option.split)

lemma di_pending_Some:
  assumes "di_inv s"
  shows "di_pending_at t s rid = Some b \<longleftrightarrow>
    (\<exists>row e. (rid, row) \<in> set (di_rows s) \<and> rw_expires_at row = Some e \<and> t < e \<and> b = row_binding rid row e)"
  unfolding map_of_eq_Some_iff [OF di_inv_wf [OF assms], symmetric]
  by (auto simp: di_pending_at_def row_pending_def split: option.splits)

lemma map_insort_key: "map f (insort_key (\<lambda>x. k (f x)) x xs) = insort_key k (f x) (map f xs)"
  by (induction xs) auto

lemma map_sort_key: "map f (sort_key (\<lambda>x. k (f x)) xs) = sort_key k (map f xs)"
  by (induction xs) (simp_all add: map_insort_key)

definition row_item :: "string \<times> interrupt_row \<Rightarrow> interrupt_binding" where
  "row_item = (\<lambda>(rid, row). row_binding rid row (the (rw_expires_at row)))"

lemma row_item_sel:
  "ib_request_id (row_item e) = fst e" "ib_expires_at (row_item e) = the (rw_expires_at (snd e))"
  "ib_identity (row_item e) = rw_identity (snd e)" "ib_type (row_item e) = rw_type (snd e)"
  by (cases e; simp add: row_item_def row_binding_def)+

definition row_live :: "time \<Rightarrow> string \<times> interrupt_row \<Rightarrow> bool" where
  "row_live t e = (case rw_expires_at (snd e) of None \<Rightarrow> False | Some x \<Rightarrow> t < x)"

lemma sort_row_items:
  "map row_item (sort_key (\<lambda>e. (the (rw_expires_at (snd e)), fst e)) es) = sort_key expiry_order (map row_item es)"
  using map_sort_key [of row_item expiry_order es] by (simp add: row_item_sel)

lemma di_list_value:
  "fst (di_list_pending t i ty s) = sort_key expiry_order
    (map row_item (filter (\<lambda>e. row_live t e \<and> matches i ty (row_item e)) (di_rows (di_prune_tombstones t s))))"
proof -
  have "(\<lambda>(rid, row). rw_identity row = Some i \<and>
        (case rw_expires_at row of None \<Rightarrow> False | Some e \<Rightarrow> t < e) \<and>
        (map_option py_strip ty = None \<or> rw_type row = map_option py_strip ty)) =
      (\<lambda>e. row_live t e \<and> matches i ty (row_item e))"
    by (auto simp: fun_eq_iff row_live_def matches_def row_item_sel)
  then show ?thesis
    unfolding di_list_pending_def Let_def fst_conv row_item_def [symmetric]
    by (simp add: sort_row_items [symmetric] case_prod_unfold)
qed

lemma di_list_set:
  assumes "di_inv s"
  shows "set (fst (di_list_pending t i ty s)) = {b. \<exists>rid. di_pending_at t s rid = Some b \<and> matches i ty b}"
proof -
  have "b \<in> row_item ` {e \<in> set (di_rows (di_prune_tombstones t s)). row_live t e} \<longleftrightarrow>
      (\<exists>rid. di_pending_at t s rid = Some b)" for b
    unfolding di_pending_prune [OF assms, of t t, symmetric] di_pending_Some [OF di_inv_prune [OF assms]]
    by (force simp: row_live_def row_item_def split: option.splits)
  moreover have "b \<in> set (fst (di_list_pending t i ty s)) \<longleftrightarrow>
      b \<in> row_item ` {e \<in> set (di_rows (di_prune_tombstones t s)). row_live t e} \<and> matches i ty b" for b
    by (auto simp: di_list_value image_iff)
  ultimately show ?thesis by auto
qed

lemma di_list_distinct:
  assumes "di_inv s"
  shows "distinct (map ib_request_id (fst (di_list_pending t i ty s)))"
proof -
  have "distinct (map ib_request_id (map row_item (di_rows (di_prune_tombstones t s))))"
    using di_inv_wf [OF di_inv_prune [OF assms]] by (simp add: comp_def row_item_sel)
  then have "distinct (map (\<lambda>e. ib_request_id (row_item e)) (di_rows (di_prune_tombstones t s)))"
    by (simp add: comp_def)
  then show ?thesis
    unfolding di_list_value by (intro distinct_map_sort) (simp add: comp_def distinct_map_filter)
qed

interpretation db_interrupt: interrupt_repository database_interrupt_repo di_inv di_pending_at di_request_ttl
  stored_details
proof (unfold_locales, unfold database_interrupt_repo_def interrupt_repo.simps)
  fix s :: db_interrupts and t a
  assume inv: "di_inv s"
  then show "di_inv (di_remember t a s)"
    using di_remember_eq [OF inv, of t a] di_inv_put di_inv_prune by metis
next
  fix s :: db_interrupts and t t' :: time and a x
  assume inv: "di_inv s" "t \<le> t'"
  show "di_pending_at t' (di_remember t a s) x =
      (if x = ra_request_id a then alive t' (\<lambda>_. Some (binding_of stored_details (di_request_ttl s) t a)) x
       else di_pending_at t' s x)"
    using di_remember_eq [OF inv(1), of t a]
    by (auto simp: di_pending_at_def dict_simps simp flip: di_pending_prune [OF inv(1), of t' t])
next
  fix s :: db_interrupts and t a
  show "di_request_ttl (di_remember t a s) = di_request_ttl s"
    by (simp add: di_remember_def Let_def di_prune_fields)
next
  fix s :: db_interrupts and t t' :: time and i ty x
  assume "di_inv s" "t \<le> t'"
  then show "di_pending_at t' (snd (di_list_pending t i ty s)) x = di_pending_at t' s x"
    by (simp add: di_list_pending_def Let_def di_pending_prune)
next
  fix s :: db_interrupts and t :: time and i ty
  show "sorted (map expiry_order (fst (di_list_pending t i ty s)))"
    by (simp add: di_list_value)
next
  fix s :: db_interrupts and rid
  assume "di_inv s"
  then show "di_inv (di_discard rid s)"
    unfolding di_discard_def using set_dict_pop_subset [of rid "di_rows s"]
    by (intro di_inv_rows) (auto simp: di_inv_wf)
next
  fix s :: db_interrupts and t rid
  show "di_request_ttl (snd (di_resolve t rid s)) = di_request_ttl s"
    using di_resolve_state [of t rid s] by (auto simp: di_prune_fields di_set_tombstone_def Let_def)
qed (simp_all add: di_inv_resolve di_pending_resolve di_resolve_value di_list_set di_list_distinct,
    simp_all add: di_list_pending_def Let_def di_inv_prune di_prune_fields di_discard_def
      di_pending_at_def dict_simps)

section \<open>Properties\<close>

lemma mi_inv_new: "mi_inv (mi_new ttl tomb)"
  by (simp add: mi_inv_def mi_new_def)

lemma di_inv_new: "di_inv (di_new ttl tomb)"
  by (simp add: di_inv_def di_new_def)

lemma pending_new:
  "mi_pending_at t (mi_new ttl tomb) = alive t Map.empty"
  "di_pending_at t (di_new ttl tomb) = alive t Map.empty"
  by (simp_all add: fun_eq_iff mi_pending_at_def di_pending_at_def alive_def mi_new_def di_new_def)

lemma new_refines:
  assumes "sorted (map fst ops)" "sorted (map fst ops @ [t])" and "ops \<noteq> [] \<Longrightarrow> fst (hd ops) \<le> t"
  shows "mi_inv (fold (repo_step memory_interrupt_repo) ops (mi_new ttl tomb)) \<and>
    mi_pending_at t (fold (repo_step memory_interrupt_repo) ops (mi_new ttl tomb)) =
      alive t (fold (spec_step id ttl) ops Map.empty)"
    and "di_inv (fold (repo_step database_interrupt_repo) ops (di_new ttl tomb)) \<and>
    di_pending_at t (fold (repo_step database_interrupt_repo) ops (di_new ttl tomb)) =
      alive t (fold (spec_step stored_details ttl) ops Map.empty)"
proof -
  define t0 where "t0 = (case ops of [] \<Rightarrow> t | e # _ \<Rightarrow> fst e)"
  have t0: "\<forall>e \<in> set ops. fst e \<le> t" "\<forall>e \<in> set ops. t0 \<le> fst e" "t0 \<le> t"
    using assms by (fastforce simp: t0_def sorted_append split: list.split)+
  have ttl: "mi_request_ttl (mi_new ttl tomb) = ttl" "di_request_ttl (di_new ttl tomb) = ttl"
    by (simp_all add: mi_new_def di_new_def)
  show "mi_inv (fold (repo_step memory_interrupt_repo) ops (mi_new ttl tomb)) \<and>
    mi_pending_at t (fold (repo_step memory_interrupt_repo) ops (mi_new ttl tomb)) =
      alive t (fold (spec_step id ttl) ops Map.empty)"
    using mem_interrupt.trace_refines [OF mi_inv_new assms(1) t0 pending_new(1)] by (simp only: ttl)
  show "di_inv (fold (repo_step database_interrupt_repo) ops (di_new ttl tomb)) \<and>
    di_pending_at t (fold (repo_step database_interrupt_repo) ops (di_new ttl tomb)) =
      alive t (fold (spec_step stored_details ttl) ops Map.empty)"
    using db_interrupt.trace_refines [OF di_inv_new assms(1) t0 pending_new(2)] by (simp only: ttl)
qed

text \<open>
  C5: after any sequence of remember, resolve, discard and list operations at increasing times,
  resolving a request in the in-memory or in the database repository returns exactly the binding
  that the abstract machine holds for it and that has not expired (in the database with its
  details as JSON restores them), and reports it active exactly then.
\<close>

theorem interrupt_repositories_refine_spec:
  assumes "sorted (map fst ops @ [t])" and "rid \<noteq> []"
    and "m = fold (repo_step memory_interrupt_repo) ops (mi_new ttl tomb)"
    and "d = fold (repo_step database_interrupt_repo) ops (di_new ttl tomb)"
  shows "snd (fst (mi_resolve t rid m)) = alive t (fold (spec_step id ttl) ops Map.empty) rid \<and>
    snd (fst (di_resolve t rid d)) = alive t (fold (spec_step stored_details ttl) ops Map.empty) rid \<and>
    (fst (fst (mi_resolve t rid m)) = Active \<longleftrightarrow> snd (fst (mi_resolve t rid m)) \<noteq> None) \<and>
    (fst (fst (di_resolve t rid d)) = Active \<longleftrightarrow> snd (fst (di_resolve t rid d)) \<noteq> None)"
proof -
  have s: "sorted (map fst ops)" "ops \<noteq> [] \<Longrightarrow> fst (hd ops) \<le> t"
    using assms(1) by (auto simp: sorted_append)
  note new = new_refines [OF s(1) assms(1) s(2), of ttl tomb]
  have "mi_inv m \<and> mi_pending_at t m = alive t (fold (spec_step id ttl) ops Map.empty)"
    "di_inv d \<and> di_pending_at t d = alive t (fold (spec_step stored_details ttl) ops Map.empty)"
    using new unfolding assms(3,4) by simp_all
  then show ?thesis
    using mi_resolve_value [OF assms(2), of t m] di_resolve_value [OF _ assms(2), of d t] by simp
qed

text \<open>A request remembered for a minute, with another one discarded and a listing in between.\<close>

definition sample_args :: "string \<Rightarrow> remember_args" where
  "sample_args rid = \<lparr>ra_request_id = rid, ra_session_id = ''s1'', ra_type = ''permission'',
     ra_identity = Some ''alice'', ra_credential_id = None, ra_task_id = None, ra_context_id = None,
     ra_details = Some [(''b'', PInt 1), (''a'', PNone)], ra_ttl_seconds = Some 60\<rparr>"

definition sample_ops :: "(time \<times> interrupt_op) list" where
  "sample_ops = [(0, Remember (sample_args ''r1'')), (5, Remember (sample_args ''r2'')),
     (6, Discard ''r2''), (30, ListPending ''alice'' None)]"

theorem interrupt_repositories_refine_spec_witness:
  "snd (fst (mi_resolve 50 ''r1'' (fold (repo_step memory_interrupt_repo) sample_ops (mi_new 180 600)))) =
    Some (binding_of id 180 0 (sample_args ''r1'')) \<and>
   snd (fst (di_resolve 70 ''r1'' (fold (repo_step database_interrupt_repo) sample_ops (di_new 180 600)))) = None"
proof -
  have "sorted (map fst sample_ops @ [50])" "sorted (map fst sample_ops @ [70])"
    by (simp_all add: sample_ops_def)
  note 1 = interrupt_repositories_refine_spec [OF this(1) _ refl refl, of "''r1''" 180 600]
  note 2 = interrupt_repositories_refine_spec [OF \<open>sorted (map fst sample_ops @ [70])\<close> _ refl refl, of "''r1''" 180 600]
  show ?thesis using 1 2
    by (simp add: sample_ops_def alive_def binding_of_def sample_args_def)
qed

text \<open>
  Listing the pending requests of an identity returns, in any reachable repository state,
  exactly the requests that would resolve as active for that identity and type, each once, ordered
  by expiry and then by request identifier.
\<close>

theorem list_pending_complete_and_ordered:
  assumes "mi_inv s" and "di_inv d"
  shows "set (fst (mi_list_pending t i ty s)) =
      {b. \<exists>rid. mi_pending_at t s rid = Some b \<and> matches i ty b} \<and>
    sorted (map expiry_order (fst (mi_list_pending t i ty s))) \<and>
    distinct (map ib_request_id (fst (mi_list_pending t i ty s))) \<and>
    set (fst (di_list_pending t i ty d)) =
      {b. \<exists>rid. di_pending_at t d rid = Some b \<and> matches i ty b} \<and>
    sorted (map expiry_order (fst (di_list_pending t i ty d))) \<and>
    distinct (map ib_request_id (fst (di_list_pending t i ty d)))"
  using assms mi_list_set mi_list_distinct di_list_set di_list_distinct di_list_value mi_list_value
  by (simp add: di_list_value mi_list_value)

theorem list_pending_complete_and_ordered_witness:
  "distinct (map ib_request_id (fst (mi_list_pending 30 ''alice'' None
     (fold (repo_step memory_interrupt_repo) sample_ops (mi_new 180 600)))))"
proof -
  have "sorted (map fst sample_ops)" "sorted (map fst sample_ops @ [30])"
    "sample_ops \<noteq> [] \<Longrightarrow> fst (hd sample_ops) \<le> 30" by (simp_all add: sample_ops_def)
  then show ?thesis
    using list_pending_complete_and_ordered [OF _ di_inv_new] new_refines(1) by blast
qed

lemma mi_tombstone_get:
  assumes "mi_inv s"
  shows "dict_get (mi_tombstones (mi_prune_tombstones now s)) rid =
    (case dict_get (mi_tombstones s) rid of None \<Rightarrow> None | Some e \<Rightarrow> if e \<le> now then None else Some e)"
  by (simp add: mi_prune_tombstones_def Let_def dict_get_prune [OF mi_inv_wf(2) [OF assms]] split: option.split)

lemma mi_tombstone_after_remember:
  "dict_get (mi_tombstones (mi_remember_tombstone rid now s)) rid =
    (if mi_tombstone_ttl s \<le> 0 then None else Some (now + mi_tombstone_ttl s))"
  by (simp add: mi_remember_tombstone_def Let_def dict_simps)

lemma mi_tombstone_ttl_prune:
  "mi_tombstone_ttl (mi_prune_requests now s) = mi_tombstone_ttl s"
  "mi_tombstone_ttl (mi_prune_tombstones now s) = mi_tombstone_ttl s"
  by (simp_all add: mi_prune_requests_def mi_prune_tombstones_def Let_def mi_fold_state)

lemma mi_resolve_gone:
  assumes "mi_inv s" "rid \<noteq> []" "dict_get (mi_requests s) rid = None"
  shows "fst (mi_resolve t rid s) = (case dict_get (mi_tombstones s) rid of None \<Rightarrow> (Missing, None)
    | Some e \<Rightarrow> (if t < e then Expired else Missing, None))"
  using assms(2,3)
  by (auto simp: mi_resolve_def Let_def mi_prune_fields mi_tombstone_get [OF assms(1)] split: option.split)

text \<open>
  A request found expired is reported as expired, and it goes on being reported so until the
  tombstone TTL, counted from that first report, has run out; from then on it is unknown.  Both
  repositories agree on this.
\<close>

theorem expired_request_lifecycle:
  assumes "rid \<noteq> []" and "t1 \<le> t2"
  shows "(mi_inv s \<and> dict_get (mi_requests s) rid = Some b \<and> ib_expires_at b \<le> t1 \<longrightarrow>
      fst (mi_resolve t1 rid s) = (Expired, None) \<and>
      fst (mi_resolve t2 rid (snd (mi_resolve t1 rid s))) =
        (if t2 < t1 + mi_tombstone_ttl s then Expired else Missing, None)) \<and>
    (di_inv d \<and> dict_get (di_rows d) rid = Some row \<and> rw_expires_at row = Some e \<and> e \<le> t1 \<longrightarrow>
      fst (di_resolve t1 rid d) = (Expired, None) \<and>
      fst (di_resolve t2 rid (snd (di_resolve t1 rid d))) =
        (if t2 < t1 + di_tombstone_ttl d then Expired else Missing, None))"
proof (intro conjI impI; elim conjE)
  assume inv: "mi_inv s" and found: "dict_get (mi_requests s) rid = Some b" "ib_expires_at b \<le> t1"
  let ?s1 = "mi_prune_tombstones t1 s"
  let ?s3 = "mi_prune_requests t1 (?s1\<lparr>mi_requests := dict_pop rid (mi_requests ?s1)\<rparr>)"
  have r: "mi_resolve t1 rid s = ((Expired, None), mi_remember_tombstone rid t1 ?s3)"
    using assms(1) found by (simp add: mi_resolve_def Let_def mi_prune_fields)
  then show "fst (mi_resolve t1 rid s) = (Expired, None)" by simp
  have inv3: "mi_inv (?s1\<lparr>mi_requests := dict_pop rid (mi_requests ?s1)\<rparr>)"
    by (intro mi_inv_pop mi_inv_prune inv)
  have gone: "dict_get (mi_requests (mi_remember_tombstone rid t1 ?s3)) rid = None"
    using mi_prune_requests_eq [OF mi_inv_wf(1) [OF inv3], of t1] mi_inv_wf(1) [OF inv]
    by (simp add: mi_prune_fields dict_get_filter dict_simps)
  show "fst (mi_resolve t2 rid (snd (mi_resolve t1 rid s))) =
      (if t2 < t1 + mi_tombstone_ttl s then Expired else Missing, None)"
    using mi_resolve_gone [OF mi_inv_prune(3) [OF mi_inv_prune(1) [OF inv3]] assms(1) gone, of t2] assms(2)
    unfolding r snd_conv mi_tombstone_after_remember mi_tombstone_ttl_prune
    by (auto simp: mi_tombstone_ttl_prune split: if_splits)
next
  assume inv: "di_inv d" and found: "dict_get (di_rows d) rid = Some row" "rw_expires_at row = Some e" "e \<le> t1"
  have "rw_tombstone_expires_at row = None" using di_invD [OF inv found(1)] found(2)
    by (cases "rw_tombstone_expires_at row") auto
  then have r: "di_resolve t1 rid d = ((Expired, None), di_set_tombstone rid t1 (di_prune_tombstones t1 d))"
    and g: "dict_get (di_rows (di_prune_tombstones t1 d)) rid = Some row"
    using assms(1) found by (simp_all add: di_resolve_def Let_def di_prune_get [OF inv])
  then show "fst (di_resolve t1 rid d) = (Expired, None)" by simp
  have "dict_get (di_rows (di_set_tombstone rid t1 (di_prune_tombstones t1 d))) rid =
    Some \<lparr>rw_session_id = None, rw_type = None, rw_identity = None, rw_credential_id = None,
      rw_task_id = None, rw_context_id = None, rw_details_json = None, rw_expires_at = None,
      rw_tombstone_expires_at = (if di_tombstone_ttl d \<le> 0 then None else Some (t1 + di_tombstone_ttl d))\<rparr>"
    by (simp add: di_set_tombstone_def Let_def dict_get_table_update g di_prune_fields)
  then show "fst (di_resolve t2 rid (snd (di_resolve t1 rid d))) =
      (if t2 < t1 + di_tombstone_ttl d then Expired else Missing, None)"
    using assms di_inv_tombstone [OF di_inv_prune [OF inv]]
    by (auto simp: r di_resolve_def [of t2] Let_def di_prune_get split: if_splits)
qed

theorem expired_request_lifecycle_witness:
  "fst (di_resolve 700 ''r1'' (snd (di_resolve 70 ''r1''
      (di_remember 0 (sample_args ''r1'') (di_new 180 600))))) = (Missing, None)"
proof -
  have "di_inv (di_remember 0 (sample_args ''r1'') (di_new 180 600))"
    using db_interrupt.inv_remember [OF di_inv_new] by (simp add: database_interrupt_repo_def)
  moreover obtain row where
    "dict_get (di_rows (di_remember 0 (sample_args ''r1'') (di_new 180 600))) ''r1'' = Some row"
    "rw_expires_at row = Some 60"
    by (simp add: di_remember_def di_new_def di_prune_tombstones_def insert_then_update_on_conflict_def
        table_insert_def sample_args_def)
  ultimately show ?thesis
    using expired_request_lifecycle [of "''r1''" 70 700 _ _ "di_remember 0 (sample_args ''r1'') (di_new 180 600)" row 60]
    by (simp add: di_remember_def di_new_def di_prune_tombstones_def)
qed

end
