(* ===== verification/Task_Store.thy ===== *)
theory Task_Store
  imports Py_Values
begin

text \<open>
  The task store stack of \<open>server/task_store.py\<close>: decorators around an SDK task store that
  turn its failures into \<open>TaskStoreOperationError\<close> and keep the first terminal state of a task.
  The SDK stores are not part of the repository: their \<open>get\<close>, \<open>save\<close> and \<open>delete\<close>, and the
  execution of the guarded upsert statement the code builds, are the fields of \<open>raw_store\<close>, and
  \<open>raw_laws\<close> states what is documented of them.  Logging is not modelled, and a save is one step,
  as the save lock and the single SQL statement make it.
\<close>

section \<open>Tasks\<close>

text \<open>The states of the A2A protocol, and what the code reads of a task: the rest is its dump.\<close>

datatype task_state =
    submitted | working | input_required | completed | canceled | failed | rejected
  | auth_required | unknown

fun state_value :: "task_state \<Rightarrow> string" where
  "state_value submitted = ''submitted''"
| "state_value working = ''working''"
| "state_value input_required = ''input-required''"
| "state_value completed = ''completed''"
| "state_value canceled = ''canceled''"
| "state_value failed = ''failed''"
| "state_value rejected = ''rejected''"
| "state_value auth_required = ''auth-required''"
| "state_value unknown = ''unknown''"

definition terminal_task_states :: "task_state list" where
  "terminal_task_states = [completed, canceled, failed, rejected]"

abbreviation terminal :: "task_state \<Rightarrow> bool" where
  "terminal st \<equiv> st \<in> set terminal_task_states"

definition terminal_task_state_values :: "string list" where
  "terminal_task_state_values = map state_value terminal_task_states"

record task =
  tk_id :: string
  tk_context_id :: string
  tk_state :: task_state
  tk_rest :: pyval

section \<open>Errors and the SDK store\<close>

datatype store_error = TaskStoreOperationError string "string option" | OtherError string

text \<open>The statement of \<open>_build_atomic_task_save_statement\<close>: the row, and the update guard.\<close>

record save_statement =
  stmt_row :: task
  stmt_guard :: "string option option \<Rightarrow> bool"

record 's raw_store =
  raw_get :: "string \<Rightarrow> 's \<Rightarrow> (store_error + task option) \<times> 's"
  raw_save :: "task \<Rightarrow> 's \<Rightarrow> (store_error + unit) \<times> 's"
  raw_delete :: "string \<Rightarrow> 's \<Rightarrow> (store_error + unit) \<times> 's"
  raw_execute :: "save_statement \<Rightarrow> 's \<Rightarrow> (store_error + string option) \<times> 's"
  raw_list :: "'s \<Rightarrow> (store_error + task list) \<times> 's"

datatype raw_kind = InMemory | Database string | OtherStore

section \<open>Write policy\<close>

record decision =
  persist :: bool
  reason :: "string option"

type_synonym write_policy = "task option \<Rightarrow> task \<Rightarrow> decision"

definition first_terminal_state_wins :: write_policy where
  "first_terminal_state_wins existing incoming =
     (case existing of
        None \<Rightarrow> \<lparr>persist = True, reason = None\<rparr>
      | Some old \<Rightarrow>
          if \<not> terminal (tk_state old) then \<lparr>persist = True, reason = None\<rparr>
          else if tk_state incoming \<noteq> tk_state old
            then \<lparr>persist = False, reason = Some ''state_overwrite_after_terminal_persistence''\<rparr>
          else if incoming \<noteq> old
            then \<lparr>persist = False, reason = Some ''late_mutation_after_terminal_persistence''\<rparr>
          else \<lparr>persist = True, reason = None\<rparr>)"

section \<open>The stack\<close>

datatype store =
    Raw raw_kind
  | Decorator store
  | OperationWrapping store
  | PolicyAware write_policy store

primrec unwrap_task_store :: "store \<Rightarrow> raw_kind" where
  "unwrap_task_store (Raw k) = k"
| "unwrap_task_store (Decorator inner) = unwrap_task_store inner"
| "unwrap_task_store (OperationWrapping inner) = unwrap_task_store inner"
| "unwrap_task_store (PolicyAware p inner) = unwrap_task_store inner"

text \<open>\<open>except TaskStoreOperationError: raise; except Exception as exc: raise ... from exc\<close>.\<close>

fun wrap_error :: "string \<Rightarrow> string option \<Rightarrow> (store_error + 'a) \<times> 's \<Rightarrow> (store_error + 'a) \<times> 's" where
  "wrap_error op tid (Inl (OtherError msg), s) = (Inl (TaskStoreOperationError op tid), s)"
| "wrap_error op tid r = r"

definition atomic_terminal_guard_dialects :: "string list" where
  "atomic_terminal_guard_dialects = [''postgresql'', ''sqlite'']"

definition resolve_atomic_insert_factory :: "string \<Rightarrow> store_error + unit" where
  "resolve_atomic_insert_factory dialect =
     (if dialect = ''sqlite'' then Inr () else if dialect = ''postgresql'' then Inr ()
      else Inl (OtherError (''Unsupported atomic task persistence dialect: '' @ dialect)))"

definition build_atomic_task_save_statement :: "task \<Rightarrow> string \<Rightarrow> store_error + save_statement" where
  "build_atomic_task_save_statement tk dialect =
     ebind (resolve_atomic_insert_factory dialect) (\<lambda>_.
       Inr \<lparr>stmt_row = tk,
            stmt_guard = (\<lambda>status. status = None \<or> status = Some None \<or>
              (case status of Some (Some v) \<Rightarrow> v \<notin> set terminal_task_state_values | _ \<Rightarrow> False))\<rparr>)"

definition persist_with_atomic_terminal_guard ::
  "'s raw_store \<Rightarrow> string \<Rightarrow> task \<Rightarrow> 's \<Rightarrow> (store_error + bool) \<times> 's" where
  "persist_with_atomic_terminal_guard R dialect tk s =
     (case build_atomic_task_save_statement tk dialect of
        Inl e \<Rightarrow> (Inl e, s)
      | Inr stmt \<Rightarrow>
          (case raw_execute R stmt s of
             (Inl e, s') \<Rightarrow> (Inl e, s')
           | (Inr r, s') \<Rightarrow> (Inr (r \<noteq> None), s')))"

definition save_with_read_before_write ::
  "(string \<Rightarrow> 's \<Rightarrow> (store_error + task option) \<times> 's) \<Rightarrow> (task \<Rightarrow> 's \<Rightarrow> (store_error + unit) \<times> 's) \<Rightarrow>
   write_policy \<Rightarrow> task \<Rightarrow> 's \<Rightarrow> (store_error + unit) \<times> 's" where
  "save_with_read_before_write get save policy tk s =
     (case get (tk_id tk) s of
        (Inl e, s') \<Rightarrow> (Inl e, s')
      | (Inr existing, s') \<Rightarrow>
          if persist (policy existing tk) then save tk s' else (Inr (), s'))"

text \<open>The database path when the dialect has the guarded statement.\<close>

definition save_with_atomic_guard ::
  "'s raw_store \<Rightarrow> string \<Rightarrow> write_policy \<Rightarrow> task \<Rightarrow> 's \<Rightarrow> (store_error + unit) \<times> 's" where
  "save_with_atomic_guard R dialect policy tk s =
     (case persist_with_atomic_terminal_guard R dialect tk s of
        (Inl e, s') \<Rightarrow> (Inl e, s')
      | (Inr True, s') \<Rightarrow> (Inr (), s')
      | (Inr False, s') \<Rightarrow>
          (case raw_get R (tk_id tk) s' of
             (Inl e, s'') \<Rightarrow> (Inl e, s'')
           | (Inr existing, s'') \<Rightarrow>
               if \<not> persist (policy existing tk) then (Inr (), s'')
               else if (case existing of None \<Rightarrow> False | Some old \<Rightarrow> terminal (tk_state old) \<and> old = tk)
                 then (Inr (), s'')
               else (Inl (OtherError
                 ''Atomic task persistence was skipped without an authoritative terminal task.''), s'')))"

definition save_database_task ::
  "'s raw_store \<Rightarrow> string \<Rightarrow> (string \<Rightarrow> 's \<Rightarrow> (store_error + task option) \<times> 's) \<Rightarrow>
   (task \<Rightarrow> 's \<Rightarrow> (store_error + unit) \<times> 's) \<Rightarrow> write_policy \<Rightarrow> task \<Rightarrow> 's \<Rightarrow> (store_error + unit) \<times> 's" where
  "save_database_task R dialect get save policy tk s =
     (if dialect \<notin> set atomic_terminal_guard_dialects
      then save_with_read_before_write get save policy tk s
      else wrap_error ''save'' (Some (tk_id tk)) (save_with_atomic_guard R dialect policy tk s))"

primrec store_get :: "'s raw_store \<Rightarrow> store \<Rightarrow> string \<Rightarrow> 's \<Rightarrow> (store_error + task option) \<times> 's" where
  "store_get R (Raw k) = raw_get R"
| "store_get R (Decorator inner) = store_get R inner"
| "store_get R (OperationWrapping inner) = (\<lambda>tid s. wrap_error ''get'' (Some tid) (store_get R inner tid s))"
| "store_get R (PolicyAware p inner) = store_get R inner"

primrec store_delete :: "'s raw_store \<Rightarrow> store \<Rightarrow> string \<Rightarrow> 's \<Rightarrow> (store_error + unit) \<times> 's" where
  "store_delete R (Raw k) = raw_delete R"
| "store_delete R (Decorator inner) = store_delete R inner"
| "store_delete R (OperationWrapping inner) =
     (\<lambda>tid s. wrap_error ''delete'' (Some tid) (store_delete R inner tid s))"
| "store_delete R (PolicyAware p inner) = store_delete R inner"

primrec store_save :: "'s raw_store \<Rightarrow> store \<Rightarrow> task \<Rightarrow> 's \<Rightarrow> (store_error + unit) \<times> 's" where
  "store_save R (Raw k) = raw_save R"
| "store_save R (Decorator inner) = store_save R inner"
| "store_save R (OperationWrapping inner) =
     (\<lambda>tk s. wrap_error ''save'' (Some (tk_id tk)) (store_save R inner tk s))"
| "store_save R (PolicyAware p inner) =
     (case unwrap_task_store inner of
        Database dialect \<Rightarrow> save_database_task R dialect (store_get R inner) (store_save R inner) p
      | _ \<Rightarrow> save_with_read_before_write (store_get R inner) (store_save R inner) p)"

definition guarded_task_store :: "raw_kind \<Rightarrow> store" where
  "guarded_task_store k = PolicyAware first_terminal_state_wins (OperationWrapping (Raw k))"

definition build_task_store :: "string \<Rightarrow> string \<Rightarrow> store" where
  "build_task_store backend dialect =
     (if backend = ''memory'' then guarded_task_store InMemory
      else guarded_task_store (Database dialect))"

definition list_stored_tasks :: "'s raw_store \<Rightarrow> store \<Rightarrow> 's \<Rightarrow> (store_error + task list) \<times> 's" where
  "list_stored_tasks R st s =
     wrap_error ''list'' None
       (case unwrap_task_store st of
          InMemory \<Rightarrow> raw_list R s
        | Database dialect \<Rightarrow> raw_list R s
        | OtherStore \<Rightarrow> (Inl (OtherError ''Unsupported task store type for listing tasks''), s))"

end
