(* ===== verification/Task_Store_Properties.thy ===== *)
theory Task_Store_Properties
  imports Task_Store
begin

text \<open>
  The guarded task store against its specification: the first terminal state of a task is final,
  every other save is an upsert, on each of the three save paths, and nothing but
  \<open>TaskStoreOperationError\<close> leaves the store.
\<close>

section \<open>Contracts\<close>

text \<open>
  What is documented of the SDK stores and of the SQL statement, in terms of the stored tasks:
  \<open>get\<close> reads, \<open>save\<close> upserts, the guarded upsert updates an existing row only if the guard
  holds of its status and returns the identifier exactly if it wrote, and a failure writes
  nothing.
\<close>

definition execute_law :: "('s \<Rightarrow> string \<Rightarrow> task option) \<Rightarrow> save_statement \<Rightarrow> 's \<Rightarrow> string option \<Rightarrow> 's \<Rightarrow> bool" where
  "execute_law view stmt s r s' =
     (if (case view s (tk_id (stmt_row stmt)) of None \<Rightarrow> True
          | Some old \<Rightarrow> stmt_guard stmt (Some (Some (state_value (tk_state old)))))
      then r = Some (tk_id (stmt_row stmt)) \<and> view s' = (view s)(tk_id (stmt_row stmt) \<mapsto> stmt_row stmt)
      else r = None \<and> view s' = view s)"

definition raw_laws :: "'s raw_store \<Rightarrow> ('s \<Rightarrow> string \<Rightarrow> task option) \<Rightarrow> bool" where
  "raw_laws R view \<longleftrightarrow>
     (\<forall>tid s e s'. raw_get R tid s = (Inl e, s') \<longrightarrow> view s' = view s) \<and>
     (\<forall>tid s r s'. raw_get R tid s = (Inr r, s') \<longrightarrow> r = view s tid \<and> view s' = view s) \<and>
     (\<forall>tk s e s'. raw_save R tk s = (Inl e, s') \<longrightarrow> view s' = view s) \<and>
     (\<forall>tk s r s'. raw_save R tk s = (Inr r, s') \<longrightarrow> view s' = (view s)(tk_id tk \<mapsto> tk)) \<and>
     (\<forall>stmt s e s'. raw_execute R stmt s = (Inl e, s') \<longrightarrow> view s' = view s) \<and>
     (\<forall>stmt s r s'. raw_execute R stmt s = (Inr r, s') \<longrightarrow> execute_law view stmt s r s')"

lemma raw_lawsD:
  assumes "raw_laws R view"
  shows "raw_get R tid s = (Inl e, s') \<Longrightarrow> view s' = view s"
    and "raw_get R tid s = (Inr x, s') \<Longrightarrow> x = view s tid \<and> view s' = view s"
    and "raw_save R tk s = (Inl e, s') \<Longrightarrow> view s' = view s"
    and "raw_save R tk s = (Inr u, s') \<Longrightarrow> view s' = (view s)(tk_id tk \<mapsto> tk)"
    and "raw_execute R stmt s = (Inl e, s') \<Longrightarrow> view s' = view s"
    and "raw_execute R stmt s = (Inr y, s') \<Longrightarrow> execute_law view stmt s y s'"
  using assms by (auto simp: raw_laws_def)

text \<open>A write policy accepts every save until a terminal state is stored, and then only the same task again.\<close>

locale terminal_write_policy =
  fixes policy :: write_policy
  assumes accepts: "(case existing of None \<Rightarrow> True | Some old \<Rightarrow> \<not> terminal (tk_state old)) \<Longrightarrow>
      persist (policy existing new)"
    and keeps: "terminal (tk_state old) \<Longrightarrow> persist (policy (Some old) new) \<longleftrightarrow> new = old"

definition spec_save :: "task \<Rightarrow> (string \<Rightarrow> task option) \<Rightarrow> string \<Rightarrow> task option" where
  "spec_save tk v = (case v (tk_id tk) of
       Some old \<Rightarrow> if terminal (tk_state old) then v else v(tk_id tk \<mapsto> tk)
     | None \<Rightarrow> v(tk_id tk \<mapsto> tk))"

lemma spec_save_same: "v (tk_id tk) = Some tk \<Longrightarrow> v(tk_id tk \<mapsto> tk) = spec_save tk v"
  by (auto simp: spec_save_def)

lemma state_value_inject [simp]: "state_value a = state_value b \<longleftrightarrow> a = b"
  by (cases a; cases b) simp_all

lemma terminal_values: "state_value st \<in> set terminal_task_state_values \<longleftrightarrow> terminal st"
  by (auto simp: terminal_task_state_values_def)

lemma wrap_error_simps [simp]:
  "snd (wrap_error op tid r) = snd r"
  "wrap_error op tid r = (Inr x, s) \<longleftrightarrow> r = (Inr x, s)"
  "(\<exists>e. wrap_error op tid r = (Inl e, s)) \<longleftrightarrow> (\<exists>e. r = (Inl e, s))"
  by (cases "(op, tid, r)" rule: wrap_error.cases; auto)+

definition wrapped :: "string \<Rightarrow> string option \<Rightarrow> store_error \<Rightarrow> store_error" where
  "wrapped op tid e = (case e of OtherError _ \<Rightarrow> TaskStoreOperationError op tid | _ \<Rightarrow> e)"

lemma wrap_error_pair:
  "wrap_error op tid (Inl e, s) = (Inl (wrapped op tid e), s)" "wrap_error op tid (Inr x, s) = (Inr x, s)"
  by (cases e; simp add: wrapped_def)+

lemma wrap_error_Inl: "wrap_error op tid r = (Inl e, s) \<Longrightarrow> \<exists>op tid. e = TaskStoreOperationError op tid"
  by (cases "(op, tid, r)" rule: wrap_error.cases) auto

lemma statement_guard:
  "build_atomic_task_save_statement tk dialect = Inr stmt \<Longrightarrow>
    stmt_row stmt = tk \<and> stmt_guard stmt (Some (Some (state_value st))) = (\<not> terminal st)"
  by (auto simp: build_atomic_task_save_statement_def ebind_Inr_iff terminal_values)

text \<open>What the guarded statement does, whatever the policy.\<close>

lemma execute_statement:
  assumes "raw_laws R view" and "build_atomic_task_save_statement tk dialect = Inr stmt"
    and "raw_execute R stmt s = (Inr y, s')"
  shows "view s' = spec_save tk (view s) \<and> (y = None \<longrightarrow> (\<exists>old. view s (tk_id tk) = Some old \<and> terminal (tk_state old)))"
  using raw_lawsD(6) [OF assms(1,3)] statement_guard [OF assms(2)]
  by (auto simp: spec_save_def execute_law_def split: option.splits if_splits)

lemma atomic_guard_result:
  assumes "raw_laws R view" and "persist_with_atomic_terminal_guard R dialect tk s = (r, s')"
  shows "r = Inl e \<Longrightarrow> view s' = view s"
    and "r = Inr b \<Longrightarrow> view s' = spec_save tk (view s)"
    and "r = Inr False \<Longrightarrow> \<exists>old. view s (tk_id tk) = Some old \<and> terminal (tk_state old)"
proof -
  show "r = Inl e \<Longrightarrow> view s' = view s"
    using assms(2) raw_lawsD(5) [OF assms(1)]
    by (auto simp: persist_with_atomic_terminal_guard_def split: sum.splits prod.splits)
  show "r = Inr b \<Longrightarrow> view s' = spec_save tk (view s)"
    using assms(2) execute_statement [OF assms(1)]
    by (auto simp: persist_with_atomic_terminal_guard_def split: sum.splits prod.splits)
  show "r = Inr False \<Longrightarrow> \<exists>old. view s (tk_id tk) = Some old \<and> terminal (tk_state old)"
    using assms(2) execute_statement [OF assms(1)]
    by (auto simp: persist_with_atomic_terminal_guard_def split: sum.splits prod.splits)
qed

section \<open>The save paths implement the specification\<close>

lemma spec_save_terminal:
  "v (tk_id tk) = Some old \<Longrightarrow> terminal (tk_state old) \<Longrightarrow> spec_save tk v = v"
  by (simp add: spec_save_def)

lemma spec_save_open:
  "(case v (tk_id tk) of None \<Rightarrow> True | Some old \<Rightarrow> \<not> terminal (tk_state old)) \<Longrightarrow>
    spec_save tk v = v(tk_id tk \<mapsto> tk)"
  by (auto simp: spec_save_def split: option.splits)

context terminal_write_policy begin

text \<open>A save allowed by the policy, or skipped by it, is a save of the specification.\<close>

lemma decision_spec:
  "(if persist (policy (v (tk_id tk)) tk) then v(tk_id tk \<mapsto> tk) else v) = spec_save tk v"
proof (cases "v (tk_id tk)")
  case None
  then show ?thesis using accepts [of None tk] by (simp add: spec_save_def)
next
  case (Some old)
  then show ?thesis
    using accepts [of "Some old" tk] keeps [of old tk] spec_save_same [of v tk]
    by (auto simp: spec_save_def fun_upd_idem)
qed

lemma read_before_write_spec:
  assumes laws: "raw_laws R view"
    and save: "save_with_read_before_write
      (\<lambda>tid s. wrap_error ''get'' (Some tid) (raw_get R tid s))
      (\<lambda>tk s. wrap_error ''save'' (Some (tk_id tk)) (raw_save R tk s)) policy tk s = (r, s')"
  shows "r = Inr () \<Longrightarrow> view s' = spec_save tk (view s)" and "r = Inl e \<Longrightarrow> view s' = view s"
proof -
  obtain g s1 where g: "raw_get R (tk_id tk) s = (g, s1)" by fastforce
  obtain w s2 where w: "raw_save R tk s1 = (w, s2)" by fastforce
  have s1: "view s1 = view s" using raw_lawsD(1,2) [OF laws] g by (cases g) auto
  note sv = save [unfolded save_with_read_before_write_def g]
  show "r = Inr () \<Longrightarrow> view s' = spec_save tk (view s)"
    using sv w s1 raw_lawsD(2) [OF laws] raw_lawsD(4) [OF laws] g decision_spec [of "view s" tk]
    by (cases g; cases w) (auto simp: wrap_error_pair split: if_splits)
  show "r = Inl e \<Longrightarrow> view s' = view s"
    using sv w s1 raw_lawsD(3) [OF laws]
    by (cases g; cases w) (auto simp: wrap_error_pair split: if_splits)
qed

lemma atomic_path_spec:
  assumes laws: "raw_laws R view"
    and save: "save_with_atomic_guard R dialect policy tk s = (r, s')"
  shows "view s' = spec_save tk (view s) \<or> (view s' = view s \<and> (\<exists>e. r = Inl e))"
proof -
  obtain p s1 where p: "persist_with_atomic_terminal_guard R dialect tk s = (p, s1)" by fastforce
  obtain g s2 where g: "raw_get R (tk_id tk) s1 = (g, s2)" by fastforce
  have "view s2 = view s1" using raw_lawsD(1,2) [OF laws] g by (cases g) auto
  then show ?thesis
    using save p g atomic_guard_result(1,2) [OF laws p]
    by (cases p; cases g) (auto simp: save_with_atomic_guard_def split: if_splits bool.splits)
qed

end

interpretation first_terminal: terminal_write_policy first_terminal_state_wins
  by unfold_locales (auto simp: first_terminal_state_wins_def split: option.splits)

section \<open>The guarded store\<close>

lemma guarded_save_eq:
  "store_save R (guarded_task_store k) tk s =
    (let rbw = save_with_read_before_write
        (\<lambda>tid s. wrap_error ''get'' (Some tid) (raw_get R tid s))
        (\<lambda>tk s. wrap_error ''save'' (Some (tk_id tk)) (raw_save R tk s)) first_terminal_state_wins tk s
     in case k of
          Database dialect \<Rightarrow>
            if dialect \<in> set atomic_terminal_guard_dialects
            then wrap_error ''save'' (Some (tk_id tk))
              (save_with_atomic_guard R dialect first_terminal_state_wins tk s)
            else rbw
        | _ \<Rightarrow> rbw)"
  by (simp add: guarded_task_store_def save_database_task_def Let_def split: raw_kind.split)

lemma guarded_save_cases:
  assumes "raw_laws R view" and "store_save R (guarded_task_store k) tk s = (r, s')"
  shows "view s' = spec_save tk (view s) \<or> (view s' = view s \<and> (\<exists>e. r = Inl e))"
proof -
  have rbw: "view s' = spec_save tk (view s) \<or> (view s' = view s \<and> (\<exists>e. r = Inl e))"
    if "save_with_read_before_write (\<lambda>tid s. wrap_error ''get'' (Some tid) (raw_get R tid s))
      (\<lambda>tk s. wrap_error ''save'' (Some (tk_id tk)) (raw_save R tk s)) first_terminal_state_wins tk s = (r, s')"
    using first_terminal.read_before_write_spec [OF assms(1) that] by (cases r) auto
  have atomic: "view s' = spec_save tk (view s) \<or> (view s' = view s \<and> (\<exists>e. r = Inl e))"
    if w: "wrap_error ''save'' (Some (tk_id tk))
      (save_with_atomic_guard R dialect first_terminal_state_wins tk s) = (r, s')" for dialect
  proof -
    obtain r0 s0 where a: "save_with_atomic_guard R dialect first_terminal_state_wins tk s = (r0, s0)" by fastforce
    show ?thesis
      using first_terminal.atomic_path_spec [OF assms(1) a] w unfolding a
      by (cases r0) (auto simp: wrap_error_pair)
  qed
  show ?thesis
    using assms(2) rbw atomic unfolding guarded_save_eq Let_def
    by (auto split: raw_kind.splits if_splits)
qed

text \<open>
  C3: a successful save of the guarded store, in memory or in a database of any dialect, is
  exactly an upsert that leaves a stored terminal task alone: the guarded SQL statement and the
  read-before-write policy implement the same specification.
\<close>

theorem guarded_save_refines_spec:
  assumes "raw_laws R view" and "store_save R (guarded_task_store k) tk s = (Inr (), s')"
  shows "view s' = spec_save tk (view s)"
  using guarded_save_cases [OF assms] by auto

datatype store_op = SaveTask task | GetTask string

fun store_step :: "'s raw_store \<Rightarrow> store \<Rightarrow> store_op \<Rightarrow> 's \<Rightarrow> 's" where
  "store_step R st (SaveTask tk) s = snd (store_save R st tk s)"
| "store_step R st (GetTask tid) s = snd (store_get R st tid s)"

lemma spec_save_keeps_terminal:
  "v tid = Some old \<Longrightarrow> terminal (tk_state old) \<Longrightarrow> spec_save tk v tid = Some old"
  by (auto simp: spec_save_def split: option.split)

lemma guarded_step_keeps_terminal:
  assumes "raw_laws R view" and "view s tid = Some old" and "terminal (tk_state old)"
  shows "view (store_step R (guarded_task_store k) e s) tid = Some old"
proof (cases e)
  case (SaveTask tk)
  obtain r s' where "store_save R (guarded_task_store k) tk s = (r, s')" by fastforce
  with guarded_save_cases [OF assms(1) this] spec_save_keeps_terminal [of "view s", OF assms(2,3)]
  show ?thesis using assms(2) by (auto simp: SaveTask)
next
  case (GetTask tid')
  obtain r s' where g: "raw_get R tid' s = (r, s')" by fastforce
  then have "view s' = view s" using raw_lawsD(1,2) [OF assms(1)] by (cases r) auto
  then show ?thesis using assms(2) g by (simp add: GetTask guarded_task_store_def)
qed

text \<open>
  C14: once a task is stored in a terminal state, no sequence of saves and reads through the
  guarded store, failing or not, changes what is stored for it.
\<close>

theorem terminal_task_is_final:
  assumes "raw_laws R view" and "view s tid = Some old" and "terminal (tk_state old)"
  shows "view (fold (store_step R (guarded_task_store k)) es s) tid = Some old"
  using assms(2) guarded_step_keeps_terminal [OF assms(1) _ assms(3)]
  by (induction es arbitrary: s) simp_all

lemma wrap_error_only:
  assumes "\<And>tid s e s'. get tid s = (Inl e, s') \<Longrightarrow> \<exists>op tid. e = TaskStoreOperationError op tid"
    and "\<And>tk s e s'. save tk s = (Inl e, s') \<Longrightarrow> \<exists>op tid. e = TaskStoreOperationError op tid"
    and "save_with_read_before_write get save p tk s = (Inl e, s')"
  shows "\<exists>op tid. e = TaskStoreOperationError op tid"
  using assms(3) by (auto simp: save_with_read_before_write_def dest: assms(1,2) split: prod.splits sum.splits if_splits)

lemma wrap_error_fst: "fst (wrap_error op tid r) = Inl e \<Longrightarrow> \<exists>op tid. e = TaskStoreOperationError op tid"
  by (cases "(op, tid, r)" rule: wrap_error.cases) auto

text \<open>
  Whatever the SDK store or the SQL engine raises, the only error that save, get, delete and
  the listing of a guarded store raise is \<open>TaskStoreOperationError\<close>.
\<close>

theorem guarded_store_errors:
  assumes "fst (store_save R (guarded_task_store k) tk s) = Inl e \<or>
    fst (store_get R (guarded_task_store k) tid s) = Inl e \<or>
    fst (store_delete R (guarded_task_store k) tid s) = Inl e \<or>
    fst (list_stored_tasks R (guarded_task_store k) s) = Inl e"
  shows "\<exists>op tid. e = TaskStoreOperationError op tid"
proof -
  have save: "\<exists>op tid. e = TaskStoreOperationError op tid"
    if "store_save R (guarded_task_store k) tk s = (Inl e, s')" for s'
    using that unfolding guarded_save_eq Let_def
    by (auto split: raw_kind.splits if_splits dest!: wrap_error_Inl
        intro: wrap_error_only [rotated 2] dest: wrap_error_Inl)
  show ?thesis
    using assms save [of "snd (store_save R (guarded_task_store k) tk s)"]
    by (auto simp: prod_eq_iff guarded_task_store_def list_stored_tasks_def dest: wrap_error_fst)
qed

lemma wrap_error_ok: "fst r = Inr x \<Longrightarrow> fst (wrap_error op tid r) = Inr x"
  by (cases "(op, tid, r)" rule: wrap_error.cases) auto

text \<open>
  A save never fails of itself: when the SDK store and the SQL engine answer, the save
  succeeds; in particular the skipped-statement error of the atomic path is unreachable without a
  concurrent deletion.
\<close>

theorem guarded_save_succeeds:
  assumes "raw_laws R view"
    and "\<forall>tid s. isl (fst (raw_get R tid s)) = False" and "\<forall>tk s. isl (fst (raw_save R tk s)) = False"
    and "\<forall>stmt s. isl (fst (raw_execute R stmt s)) = False"
  shows "fst (store_save R (guarded_task_store k) tk s) = Inr ()"
proof -
  have g: "\<exists>s'. raw_get R tid s = (Inr (view s tid), s') \<and> view s' = view s" for tid s
  proof -
    obtain r s' where "raw_get R tid s = (r, s')" by fastforce
    with raw_lawsD(2) [OF assms(1)] assms(2) [rule_format, of tid s] show ?thesis
      by (cases r) auto
  qed
  have w: "\<exists>s'. raw_save R tk s = (Inr (), s')" for s
    using assms(3) [rule_format, of tk s] by (cases "raw_save R tk s"; cases "fst (raw_save R tk s)") auto
  have rbw: "fst (save_with_read_before_write (\<lambda>tid s. wrap_error ''get'' (Some tid) (raw_get R tid s))
      (\<lambda>tk s. wrap_error ''save'' (Some (tk_id tk)) (raw_save R tk s)) first_terminal_state_wins tk s) = Inr ()"
  proof -
    obtain s1 where g1: "raw_get R (tk_id tk) s = (Inr (view s (tk_id tk)), s1)" using g by blast
    obtain s2 where w1: "raw_save R tk s1 = (Inr (), s2)" using w by blast
    show ?thesis by (simp add: save_with_read_before_write_def wrap_error_pair g1 w1)
  qed
  have atomic: "fst (save_with_atomic_guard R dialect first_terminal_state_wins tk s) = Inr ()"
    if "dialect \<in> set atomic_terminal_guard_dialects" for dialect
  proof -
    obtain p s1 where p: "persist_with_atomic_terminal_guard R dialect tk s = (p, s1)" by fastforce
    have "raw_execute R stmt s = (Inl x, s') \<Longrightarrow> False" for stmt x s'
      using assms(4) [rule_format, of stmt s] by simp
    then have "\<exists>b. p = Inr b"
      using p that
      by (auto simp: persist_with_atomic_terminal_guard_def build_atomic_task_save_statement_def
          resolve_atomic_insert_factory_def atomic_terminal_guard_dialects_def split: sum.splits prod.splits)
    then obtain b where b: "p = Inr b" ..
    show ?thesis
    proof (cases b)
      case True
      then show ?thesis by (simp add: save_with_atomic_guard_def p b)
    next
      case False
      with atomic_guard_result(2,3) [OF assms(1) p] b obtain old where
        "view s1 (tk_id tk) = Some old" "terminal (tk_state old)"
        using spec_save_keeps_terminal by fastforce
      then show ?thesis
        using g [of "tk_id tk" s1] False first_terminal.keeps [of old tk]
        by (auto simp: save_with_atomic_guard_def p b)
    qed
  qed
  show ?thesis
    unfolding guarded_save_eq Let_def using rbw
    by (simp split: raw_kind.split) (blast intro: wrap_error_ok atomic)
qed

section \<open>A concrete store\<close>

definition map_store :: "(string \<Rightarrow> task option) raw_store" where
  "map_store =
     \<lparr>raw_get = (\<lambda>tid m. (Inr (m tid), m)),
      raw_save = (\<lambda>tk m. (Inr (), m(tk_id tk \<mapsto> tk))),
      raw_delete = (\<lambda>tid m. (Inr (), m(tid := None))),
      raw_execute = (\<lambda>stmt m. if (case m (tk_id (stmt_row stmt)) of None \<Rightarrow> True
            | Some old \<Rightarrow> stmt_guard stmt (Some (Some (state_value (tk_state old)))))
          then (Inr (Some (tk_id (stmt_row stmt))), m(tk_id (stmt_row stmt) \<mapsto> stmt_row stmt))
          else (Inr None, m)),
      raw_list = (\<lambda>m. (Inr [], m))\<rparr>"

lemma map_store_laws: "raw_laws map_store (\<lambda>m. m)"
  by (auto simp: raw_laws_def map_store_def execute_law_def split: if_splits)

definition sample_task :: "task_state \<Rightarrow> task" where
  "sample_task st = \<lparr>tk_id = ''t1'', tk_context_id = ''c1'', tk_state = st, tk_rest = PNone\<rparr>"

theorem guarded_save_refines_spec_witness:
  "snd (store_save map_store (guarded_task_store (Database ''sqlite'')) (sample_task working)
      (Map.empty(''t1'' \<mapsto> sample_task completed))) = Map.empty(''t1'' \<mapsto> sample_task completed)"
proof -
  let ?s = "Map.empty(''t1'' \<mapsto> sample_task completed)"
  let ?r = "store_save map_store (guarded_task_store (Database ''sqlite'')) (sample_task working) ?s"
  have "fst ?r = Inr ()" by code_simp
  then obtain s' where r: "?r = (Inr (), s')" by (metis prod.collapse)
  then show ?thesis
    using guarded_save_refines_spec [OF map_store_laws r]
    by (simp add: spec_save_def sample_task_def terminal_task_states_def)
qed

theorem terminal_task_is_final_witness:
  "fold (store_step map_store (guarded_task_store InMemory)) [SaveTask (sample_task failed), GetTask ''t1'']
     (Map.empty(''t1'' \<mapsto> sample_task completed)) ''t1'' = Some (sample_task completed)"
  by (rule terminal_task_is_final [OF map_store_laws]) (simp_all add: sample_task_def terminal_task_states_def)

theorem guarded_store_errors_witness:
  "\<exists>op tid. TaskStoreOperationError ''get'' (Some ''t1'') = TaskStoreOperationError op tid"
  by (rule guarded_store_errors [of "map_store\<lparr>raw_get := \<lambda>tid m. (Inl (OtherError ''down''), m)\<rparr>" InMemory
        "sample_task working" Map.empty _ "''t1''"]) (simp add: guarded_task_store_def)

theorem guarded_save_succeeds_witness:
  "fst (store_save map_store (guarded_task_store (Database ''sqlite'')) (sample_task completed)
     (Map.empty(''t1'' \<mapsto> sample_task completed))) = Inr ()"
  by (rule guarded_save_succeeds [OF map_store_laws]) (simp_all add: map_store_def)

end
