(* ===== verification/Upstream_Errors.thy ===== *)
theory Upstream_Errors
  imports Task_Store
begin

text \<open>
  \<open>upstream_taxonomy.py\<close> and \<open>execution/upstream_error_translator.py\<close>: how an HTTP status,
  an error reported inside the event stream or a response, and the end of the stream become the
  state and the message of the task.
\<close>

section \<open>HTTP error profiles\<close>

record error_profile =
  ep_error_type :: string
  ep_state :: task_state
  ep_default_message :: string

text \<open>
  A status code is whatever passes \<open>isinstance(value, int)\<close>: an integer, or a boolean, which
  Python compares as 0 or 1 and prints as \<open>False\<close> or \<open>True\<close>.
\<close>

datatype py_status = StatusInt int | StatusBool bool

fun status_int :: "py_status \<Rightarrow> int" where
  "status_int (StatusInt n) = n"
| "status_int (StatusBool b) = (if b then 1 else 0)"

fun status_str :: "py_status \<Rightarrow> string" where
  "status_str (StatusInt n) = int_str n"
| "status_str (StatusBool b) = (if b then ''True'' else ''False'')"

fun as_status :: "pyval \<Rightarrow> py_status option" where
  "as_status (PInt n) = Some (StatusInt n)"
| "as_status (PBool b) = Some (StatusBool b)"
| "as_status _ = None"

definition upstream_http_error_profile_by_status :: "(int \<times> error_profile) list" where
  "upstream_http_error_profile_by_status =
     [(400, \<lparr>ep_error_type = ''UPSTREAM_BAD_REQUEST'', ep_state = failed,
             ep_default_message = ''OpenCode rejected the request due to invalid input''\<rparr>),
      (401, \<lparr>ep_error_type = ''UPSTREAM_UNAUTHORIZED'', ep_state = auth_required,
             ep_default_message = ''OpenCode rejected the request due to authentication failure''\<rparr>),
      (403, \<lparr>ep_error_type = ''UPSTREAM_PERMISSION_DENIED'', ep_state = failed,
             ep_default_message = ''OpenCode rejected the request due to insufficient permissions''\<rparr>),
      (404, \<lparr>ep_error_type = ''UPSTREAM_RESOURCE_NOT_FOUND'', ep_state = failed,
             ep_default_message = ''OpenCode rejected the request because the target resource was not found''\<rparr>),
      (429, \<lparr>ep_error_type = ''UPSTREAM_QUOTA_EXCEEDED'', ep_state = failed,
             ep_default_message = ''OpenCode rejected the request due to quota limits''\<rparr>)]"

definition resolve_upstream_http_error_profile :: "py_status \<Rightarrow> error_profile" where
  "resolve_upstream_http_error_profile status =
     (case map_of upstream_http_error_profile_by_status (status_int status) of
        Some profile \<Rightarrow> profile
      | None \<Rightarrow>
          if 400 \<le> status_int status \<and> status_int status < 500 then
            \<lparr>ep_error_type = ''UPSTREAM_CLIENT_ERROR'', ep_state = failed,
             ep_default_message = ''OpenCode rejected the request with client error '' @ status_str status\<rparr>
          else if 500 \<le> status_int status then
            \<lparr>ep_error_type = ''UPSTREAM_SERVER_ERROR'', ep_state = failed,
             ep_default_message = ''OpenCode rejected the request with server error '' @ status_str status\<rparr>
          else
            \<lparr>ep_error_type = ''UPSTREAM_HTTP_ERROR'', ep_state = failed,
             ep_default_message = ''OpenCode rejected the request with HTTP status '' @ status_str status\<rparr>)"

text \<open>An HTTP response: what \<open>response.json()\<close> returns (\<open>None\<close> when it raises) and its text.\<close>

record http_response =
  hr_status :: int
  hr_json :: "pyval option"
  hr_text :: string

fun first_detail :: "string list \<Rightarrow> (string \<times> pyval) list \<Rightarrow> string option" where
  "first_detail [] payload = None"
| "first_detail (k # ks) payload =
     (case pget payload k of
        PStr v \<Rightarrow> (if py_strip v \<noteq> [] then Some (py_strip v) else first_detail ks payload)
      | _ \<Rightarrow> first_detail ks payload)"

definition extract_upstream_error_detail :: "http_response option \<Rightarrow> string option" where
  "extract_upstream_error_detail response =
     (case response of
        None \<Rightarrow> None
      | Some r \<Rightarrow>
          (case (case hr_json r of
                   Some (PDict payload) \<Rightarrow> first_detail [''detail'', ''error'', ''message''] payload
                 | _ \<Rightarrow> None) of
             Some detail \<Rightarrow> Some detail
           | None \<Rightarrow> (let text = py_strip (hr_text r)
                      in if text \<noteq> [] then Some (take 512 text) else None)))"

section \<open>Translation\<close>

record terminal_signal =
  ts_state :: task_state
  ts_error_type :: "string option"
  ts_message :: "string option"
  ts_upstream_status :: "py_status option"

record inband_error =
  ie_error_type :: string
  ie_state :: task_state
  ie_message :: string
  ie_upstream_status :: "py_status option"

definition format_upstream_error :: "http_response \<Rightarrow> string \<Rightarrow> string \<times> task_state \<times> string" where
  "format_upstream_error response request =
     (let status = StatusInt (hr_status response);
          profile = resolve_upstream_http_error_profile status
      in case extract_upstream_error_detail (Some response) of
           Some (c # cs) \<Rightarrow> (ep_error_type profile, ep_state profile,
             ep_default_message profile @ '' ('' @ request @ '', status='' @ status_str status
               @ '', detail='' @ (c # cs) @ '').'')
         | _ \<Rightarrow> (ep_error_type profile, ep_state profile,
             ep_default_message profile @ '' ('' @ request @ '', status='' @ status_str status @ '').''))"

definition format_inband_upstream_error ::
  "string \<Rightarrow> string option \<Rightarrow> py_status option \<Rightarrow> string option \<Rightarrow> inband_error" where
  "format_inband_upstream_error source detail status error_name =
     (case status of
        Some st \<Rightarrow>
          (let profile = resolve_upstream_http_error_profile st
           in \<lparr>ie_error_type = ep_error_type profile, ie_state = ep_state profile,
               ie_message = ep_default_message profile @ '' ('' @ source @ '', status='' @ status_str st
                 @ (if truthy_str detail then '', detail='' @ the detail else []) @ '').'',
               ie_upstream_status = Some st\<rparr>)
      | None \<Rightarrow>
          if error_name = Some ''ProviderAuthError'' then
            \<lparr>ie_error_type = ''UPSTREAM_UNAUTHORIZED'', ie_state = auth_required,
             ie_message = ''OpenCode rejected the request due to authentication failure ('' @ source
               @ (if truthy_str detail then '', detail='' @ the detail else []) @ '').'',
             ie_upstream_status = None\<rparr>
          else
            \<lparr>ie_error_type = ''UPSTREAM_EXECUTION_ERROR'', ie_state = failed,
             ie_message = ''OpenCode execution failed ('' @ source
               @ (if truthy_str detail then '', detail='' @ the detail
                  else if truthy_str error_name then '', error='' @ the error_name else []) @ '').'',
             ie_upstream_status = None\<rparr>)"

definition format_stream_terminal_error ::
  "string option \<Rightarrow> py_status option \<Rightarrow> string option \<Rightarrow> terminal_signal" where
  "format_stream_terminal_error detail status error_name =
     (case status of
        Some st \<Rightarrow>
          (let profile = resolve_upstream_http_error_profile st
           in \<lparr>ts_state = ep_state profile, ts_error_type = Some (ep_error_type profile),
               ts_message = Some (ep_default_message profile @ '' (session.error, status='' @ status_str st
                 @ (if truthy_str detail then '', detail='' @ the detail else []) @ '').''),
               ts_upstream_status = Some st\<rparr>)
      | None \<Rightarrow>
          if error_name = Some ''ProviderAuthError'' then
            \<lparr>ts_state = auth_required, ts_error_type = Some ''UPSTREAM_UNAUTHORIZED'',
             ts_message = Some (''OpenCode rejected the request due to authentication failure (session.error''
               @ (if truthy_str detail then '', detail='' @ the detail else []) @ '').''),
             ts_upstream_status = None\<rparr>
          else
            \<lparr>ts_state = failed, ts_error_type = Some ''UPSTREAM_EXECUTION_ERROR'',
             ts_message = Some (''OpenCode execution failed (session.error''
               @ (if truthy_str detail then '', detail='' @ the detail
                  else if truthy_str error_name then '', error='' @ the error_name else []) @ '').''),
             ts_upstream_status = None\<rparr>)"

text \<open>
  \<open>_await_stream_terminal_signal\<close>: the stream task and the wait for the signal race.  \<open>now\<close> is
  the signal when the wait starts, \<open>race\<close> says which side \<open>asyncio.wait\<close> reports first and what
  the signal is then.
\<close>

datatype await_outcome = Signal terminal_signal | ContractError string | NotInitialized

datatype race = SignalFirst terminal_signal | StreamEnds "terminal_signal option"

definition await_stream_terminal_signal ::
  "string \<Rightarrow> bool \<Rightarrow> terminal_signal option \<Rightarrow> race \<Rightarrow> await_outcome" where
  "await_stream_terminal_signal session_id has_stream now race =
     (case now of
        Some s \<Rightarrow> Signal s
      | None \<Rightarrow>
          if \<not> has_stream then NotInitialized
          else case race of
                 SignalFirst s \<Rightarrow> Signal s
               | StreamEnds (Some s) \<Rightarrow> Signal s
               | StreamEnds None \<Rightarrow> ContractError
                   (''OpenCode event stream ended before terminal signal (session_id='' @ session_id
                    @ '', expected session.idle or session.error)''))"

end
