(* ===== verification/Stream_Events.thy ===== *)
theory Stream_Events
  imports Upstream_Errors
begin

text \<open>
  \<open>execution/stream_events.py\<close>: what the adapter reads from an OpenCode event.  An event is the
  dictionary the JSON denotes; every extractor is total on it.  The debug log of an event
  (\<open>_log_stream_event_debug\<close>) is represented by the value it renders.
\<close>

type_synonym pdict = "(string \<times> pyval) list"

section \<open>Strings and numbers\<close>

fun nonempty_strip :: "pyval \<Rightarrow> string option" where
  "nonempty_strip (PStr s) = nonempty (py_strip s)"
| "nonempty_strip _ = None"

text \<open>\<open>_extract_first_nonempty_string\<close>; a source that is not a mapping is \<open>None\<close> here.\<close>

fun first_nonempty_string :: "pdict \<Rightarrow> string list \<Rightarrow> string option" where
  "first_nonempty_string source [] = None"
| "first_nonempty_string source (k # ks) =
     (case nonempty_strip (pget source k) of Some s \<Rightarrow> Some s | None \<Rightarrow> first_nonempty_string source ks)"

definition extract_optional_string :: "pdict \<Rightarrow> string \<Rightarrow> string option" where
  "extract_optional_string source key = nonempty_strip (pget source key)"

text \<open>\<open>value if isinstance(value, Mapping) else {}\<close>.\<close>

fun mapping_or_empty :: "pyval \<Rightarrow> pdict" where
  "mapping_or_empty (PDict d) = d"
| "mapping_or_empty _ = []"

definition has_exponent_or_point :: "string \<Rightarrow> bool" where
  "has_exponent_or_point s \<longleftrightarrow> CHR ''.'' \<in> set s \<or> CHR ''e'' \<in> set (py_lower s)"

definition number_of_rat :: "rat \<Rightarrow> pyval" where
  "number_of_rat r = (if is_integer r then PInt (int_of_rat r) else PFloat r)"

fun coerce_number :: "py_floats \<Rightarrow> pyval \<Rightarrow> pyval option" where
  "coerce_number fl (PInt n) = Some (PInt n)"
| "coerce_number fl (PFloat r) = Some (number_of_rat r)"
| "coerce_number fl (PStr s) =
     (let normalized = py_strip s
      in if normalized = [] then None
         else if has_exponent_or_point normalized then map_option number_of_rat (pf_parse fl normalized)
         else map_option PInt (py_int normalized))"
| "coerce_number fl _ = None"

text \<open>The sum of two results of \<open>coerce_number\<close>.\<close>

fun add_numbers :: "pyval \<Rightarrow> pyval \<Rightarrow> pyval" where
  "add_numbers (PInt m) (PInt n) = PInt (m + n)"
| "add_numbers (PInt m) (PFloat r) = PFloat (of_int m + r)"
| "add_numbers (PFloat r) (PInt n) = PFloat (r + of_int n)"
| "add_numbers (PFloat r) (PFloat q) = PFloat (r + q)"
| "add_numbers x y = PNone"

definition put_some :: "string \<Rightarrow> pyval option \<Rightarrow> pdict \<Rightarrow> pdict" where
  "put_some k v d = (case v of None \<Rightarrow> d | Some x \<Rightarrow> dict_set k x d)"

definition put_str :: "string \<Rightarrow> string option \<Rightarrow> pdict \<Rightarrow> pdict" where
  "put_str k v d = put_some k (map_option PStr v) d"

section \<open>Parts\<close>

definition extract_stream_part_type :: "pdict \<Rightarrow> string option" where
  "extract_stream_part_type part =
     (case pget part ''type'' of PStr s \<Rightarrow> nonempty (py_lower (py_strip s)) | _ \<Rightarrow> None)"

definition extract_stream_part_id :: "pdict \<Rightarrow> pdict \<Rightarrow> string option" where
  "extract_stream_part_id part props =
     (case first_nonempty_string part [''id''] of Some s \<Rightarrow> Some s
      | None \<Rightarrow> first_nonempty_string props [''partID''])"

definition extract_stream_message_id :: "pdict \<Rightarrow> pdict \<Rightarrow> string option" where
  "extract_stream_message_id part props =
     (case first_nonempty_string part [''messageID''] of Some s \<Rightarrow> Some s
      | None \<Rightarrow> first_nonempty_string props [''messageID''])"

definition extract_stream_session_id :: "pdict \<Rightarrow> pdict \<Rightarrow> string option" where
  "extract_stream_session_id part props =
     (case first_nonempty_string part [''sessionID''] of Some s \<Rightarrow> Some s
      | None \<Rightarrow> first_nonempty_string props [''sessionID''])"

definition extract_event_session_id :: "pdict \<Rightarrow> string option" where
  "extract_event_session_id event =
     (case pget event ''properties'' of
        PDict props \<Rightarrow>
          (case first_nonempty_string props [''sessionID''] of
             Some s \<Rightarrow> Some s
           | None \<Rightarrow>
               (case first_nonempty_string (mapping_or_empty (pget props ''info'')) [''sessionID''] of
                  Some s \<Rightarrow> Some s
                | None \<Rightarrow> first_nonempty_string (mapping_or_empty (pget props ''part'')) [''sessionID'']))
      | _ \<Rightarrow> None)"

definition normalize_role :: "pyval \<Rightarrow> string option" where
  "normalize_role role =
     (case role of
        PStr s \<Rightarrow>
          (let v = py_lower (py_strip s)
           in if v = ''assistant'' then Some ''agent''
              else if v = ''user'' then Some ''user''
              else if v = ''system'' then Some ''system'' else None)
      | _ \<Rightarrow> None)"

definition extract_stream_role :: "pdict \<Rightarrow> pdict \<Rightarrow> string option" where
  "extract_stream_role part props =
     normalize_role (if truthy (pget part ''role'') then pget part ''role'' else pget props ''role'')"

datatype block_type = TextBlock | ReasoningBlock | ToolCallBlock

fun block_value :: "block_type \<Rightarrow> string" where
  "block_value TextBlock = ''text''"
| "block_value ReasoningBlock = ''reasoning''"
| "block_value ToolCallBlock = ''tool_call''"

definition map_part_type_to_block_type :: "string option \<Rightarrow> block_type option" where
  "map_part_type_to_block_type part_type =
     (if part_type = Some ''text'' then Some TextBlock
      else if part_type = Some ''reasoning'' then Some ReasoningBlock
      else if part_type = Some ''tool'' then Some ToolCallBlock else None)"

definition resolve_stream_block_type :: "pdict \<Rightarrow> block_type option" where
  "resolve_stream_block_type part = map_part_type_to_block_type (extract_stream_part_type part)"

definition extract_stream_snapshot_text :: "pdict \<Rightarrow> string option" where
  "extract_stream_snapshot_text part =
     (if extract_stream_part_type part \<in> {Some ''text'', Some ''reasoning''}
      then first_nonempty_string part [''text''] else None)"

definition copy_present :: "pdict \<Rightarrow> string list \<Rightarrow> pdict \<Rightarrow> pdict" where
  "copy_present source keys payload =
     fold (\<lambda>k d. if pget source k = PNone then d else dict_set k (pget source k) d) keys payload"

definition extract_tool_part_payload :: "pdict \<Rightarrow> pdict option" where
  "extract_tool_part_payload part =
     (let p1 = put_str ''call_id'' (nonempty_strip (pget part ''callID'')) [];
          p2 = put_str ''tool'' (nonempty_strip (pget part ''tool'')) p1;
          p3 = (case pget part ''state'' of
                  PDict state \<Rightarrow>
                    copy_present state [''title'', ''subtitle'', ''input'', ''output'', ''error'']
                      (put_str ''status'' (nonempty_strip (pget state ''status'')) p2)
                | _ \<Rightarrow> p2)
      in if p3 = [] then None else Some p3)"

section \<open>Progress\<close>

definition extract_progress_metadata :: "pdict \<Rightarrow> pdict \<Rightarrow> pdict option" where
  "extract_progress_metadata part props =
     (case extract_stream_part_type part of
        None \<Rightarrow> None
      | Some part_type \<Rightarrow>
          if part_type \<notin> {''step-start'', ''step-finish'', ''snapshot''} then None
          else
            let p1 = put_str ''part_id'' (extract_stream_part_id part props) [(''type'', PStr part_type)];
                p2 = put_str ''reason'' (first_nonempty_string part [''reason'']) p1
            in Some (case pget part ''state'' of
                 PDict state \<Rightarrow>
                   put_str ''subtitle'' (first_nonempty_string state [''subtitle''])
                     (put_str ''title'' (first_nonempty_string state [''title''])
                       (put_str ''status'' (first_nonempty_string state [''status'']) p2))
               | _ \<Rightarrow> p2))"

definition build_progress_identity :: "pdict \<Rightarrow> pdict \<Rightarrow> string" where
  "build_progress_identity part props =
     (let part_type = (case extract_stream_part_type part of None \<Rightarrow> ''unknown'' | Some s \<Rightarrow> s)
      in case extract_stream_part_id part props of
           Some pid \<Rightarrow> part_type @ '':'' @ pid
         | None \<Rightarrow> (case extract_stream_message_id part props of
                      Some mid \<Rightarrow> part_type @ '':'' @ mid
                    | None \<Rightarrow> part_type))"

section \<open>Token usage\<close>

definition extract_usage_from_info_like :: "py_floats \<Rightarrow> pdict \<Rightarrow> pdict option" where
  "extract_usage_from_info_like fl info =
     (case pget info ''tokens'' of
        PDict tokens \<Rightarrow>
          (let input_tokens = coerce_number fl (pget tokens ''input'');
               output_tokens = coerce_number fl (pget tokens ''output'');
               total_tokens = coerce_number fl (pget tokens ''total'');
               u1 = put_some ''output_tokens'' output_tokens (put_some ''input_tokens'' input_tokens []);
               u2 = (case total_tokens of
                       Some t \<Rightarrow> dict_set ''total_tokens'' t u1
                     | None \<Rightarrow> (case (input_tokens, output_tokens) of
                                  (Some i, Some out) \<Rightarrow> dict_set ''total_tokens'' (add_numbers i out) u1
                                | _ \<Rightarrow> u1));
               u3 = put_some ''reasoning_tokens'' (coerce_number fl (pget tokens ''reasoning'')) u2;
               u4 = (case pget tokens ''cache'' of
                       PDict cache \<Rightarrow>
                         (let c = put_some ''write_tokens'' (coerce_number fl (pget cache ''write''))
                                   (put_some ''read_tokens'' (coerce_number fl (pget cache ''read'')) [])
                          in if c = [] then u3 else dict_set ''cache_tokens'' (PDict c) u3)
                     | _ \<Rightarrow> u3);
               u5 = put_some ''cost'' (coerce_number fl (pget info ''cost'')) u4
           in if u5 = [] then None else Some u5)
      | _ \<Rightarrow> None)"

fun first_usage :: "py_floats \<Rightarrow> pdict list \<Rightarrow> pdict option" where
  "first_usage fl [] = None"
| "first_usage fl (c # cs) =
     (case extract_usage_from_info_like fl c of Some u \<Rightarrow> Some u | None \<Rightarrow> first_usage fl cs)"

definition extract_token_usage :: "py_floats \<Rightarrow> pyval \<Rightarrow> pdict option" where
  "extract_token_usage fl payload =
     (case payload of
        PDict p \<Rightarrow>
          (let info = (case pget p ''info'' of PDict d \<Rightarrow> [d] | _ \<Rightarrow> []);
               rest = (case pget p ''properties'' of
                  PDict props \<Rightarrow>
                    (case pget props ''info'' of PDict d \<Rightarrow> [d] | _ \<Rightarrow> []) @
                    (case pget props ''part'' of
                       PDict part \<Rightarrow>
                         (if extract_stream_part_type part = Some ''step-finish'' then [part] else [])
                     | _ \<Rightarrow> [])
                | _ \<Rightarrow> [])
           in first_usage fl (info @ rest))
      | _ \<Rightarrow> None)"

section \<open>Errors and the terminal signal\<close>

definition error_fields :: "pdict \<Rightarrow> string option \<times> string option \<times> py_status option" where
  "error_fields error =
     (let data = mapping_or_empty (pget error ''data'');
          detail = (case first_nonempty_string data [''message''] of Some s \<Rightarrow> Some s
                    | None \<Rightarrow> first_nonempty_string error [''message''])
      in (first_nonempty_string error [''name''], detail, as_status (pget data ''statusCode'')))"

definition generic_failure :: terminal_signal where
  "generic_failure = \<lparr>ts_state = failed, ts_error_type = Some ''UPSTREAM_EXECUTION_ERROR'',
     ts_message = Some ''OpenCode execution failed (session.error).'', ts_upstream_status = None\<rparr>"

definition extract_stream_terminal_signal :: "pdict \<Rightarrow> terminal_signal option" where
  "extract_stream_terminal_signal event =
     (if pget event ''type'' = PStr ''session.idle'' then
        Some \<lparr>ts_state = completed, ts_error_type = None, ts_message = None, ts_upstream_status = None\<rparr>
      else if pget event ''type'' \<noteq> PStr ''session.error'' then None
      else case pget event ''properties'' of
             PDict props \<Rightarrow>
               (case pget props ''error'' of
                  PDict error \<Rightarrow>
                    (let (name, detail, status) = error_fields error
                     in Some (format_stream_terminal_error detail status name))
                | _ \<Rightarrow> Some generic_failure)
           | _ \<Rightarrow> Some generic_failure)"

definition extract_upstream_error_from_payload :: "pdict \<Rightarrow> string \<Rightarrow> inband_error option" where
  "extract_upstream_error_from_payload payload source =
     (case pget payload ''error'' of
        PDict error \<Rightarrow>
          (let (name, detail, status) = error_fields error
           in Some (format_inband_upstream_error source detail status name))
      | _ \<Rightarrow> None)"

definition extract_upstream_error_from_response :: "pyval \<Rightarrow> inband_error option" where
  "extract_upstream_error_from_response response =
     (case vget response ''info'' of
        PDict info \<Rightarrow> extract_upstream_error_from_payload info ''response.info.error''
      | _ \<Rightarrow> None)"

definition extract_upstream_error_from_event :: "pdict \<Rightarrow> inband_error option" where
  "extract_upstream_error_from_event event =
     (case (pget event ''type'', pget event ''properties'') of
        (PStr event_type, PDict props) \<Rightarrow>
          (if event_type = ''session.error'' then extract_upstream_error_from_payload props ''session.error''
           else if event_type = ''message.updated'' then
             (case pget props ''info'' of
                PDict info \<Rightarrow> extract_upstream_error_from_payload info ''message.updated''
              | _ \<Rightarrow> None)
           else None)
      | _ \<Rightarrow> None)"

section \<open>Interrupts\<close>

fun extract_string_list :: "pyval \<Rightarrow> string list" where
  "extract_string_list (PList xs) =
     concat (map (\<lambda>x. case nonempty_strip x of Some s \<Rightarrow> [s] | None \<Rightarrow> []) xs)"
| "extract_string_list _ = []"

definition pick_strings :: "pdict \<Rightarrow> string list \<Rightarrow> pdict" where
  "pick_strings item keys = fold (\<lambda>k. put_str k (extract_optional_string item k)) keys []"

fun normalize_interrupt_question_options :: "pyval \<Rightarrow> pyval list" where
  "normalize_interrupt_question_options (PList xs) =
     concat (map (\<lambda>x. case x of
         PDict item \<Rightarrow>
           (let opt = pick_strings item [''label'', ''value'', ''description'']
            in if opt = [] then [] else [PDict opt])
       | _ \<Rightarrow> []) xs)"
| "normalize_interrupt_question_options _ = []"

fun normalize_interrupt_questions :: "pyval \<Rightarrow> pyval list" where
  "normalize_interrupt_questions (PList xs) =
     concat (map (\<lambda>x. case x of
         PDict item \<Rightarrow>
           (let q = pick_strings item [''header'', ''question''];
                options = normalize_interrupt_question_options (pget item ''options'');
                q' = (if options = [] then q else dict_set ''options'' (PList options) q)
            in if q' = [] then [] else [PDict q'])
       | _ \<Rightarrow> []) xs)"
| "normalize_interrupt_questions _ = []"

record asked_event =
  ae_request_id :: string
  ae_interrupt_type :: string
  ae_details :: pdict

record resolved_event =
  re_request_id :: string
  re_event_type :: string
  re_interrupt_type :: string
  re_resolution :: string

definition opt_str :: "string option \<Rightarrow> pyval" where
  "opt_str s = (case s of None \<Rightarrow> PNone | Some x \<Rightarrow> PStr x)"

definition extract_interrupt_asked_event :: "pdict \<Rightarrow> asked_event option" where
  "extract_interrupt_asked_event event =
     (if pget event ''type'' \<notin> {PStr ''permission.asked'', PStr ''question.asked''} then None
      else case pget event ''properties'' of
             PDict props \<Rightarrow>
               (case first_nonempty_string props [''id''] of
                  None \<Rightarrow> None
                | Some request_id \<Rightarrow>
                    if pget event ''type'' = PStr ''permission.asked'' then
                      Some \<lparr>ae_request_id = request_id, ae_interrupt_type = ''permission'',
                        ae_details = [(''permission'', opt_str (extract_optional_string props ''permission'')),
                          (''patterns'', PList (map PStr (extract_string_list (pget props ''patterns''))))]\<rparr>
                    else
                      Some \<lparr>ae_request_id = request_id, ae_interrupt_type = ''question'',
                        ae_details = [(''questions'',
                          PList (normalize_interrupt_questions (pget props ''questions'')))]\<rparr>)
           | _ \<Rightarrow> None)"

definition extract_interrupt_resolved_event :: "pdict \<Rightarrow> resolved_event option" where
  "extract_interrupt_resolved_event event =
     (case pget event ''type'' of
        PStr event_type \<Rightarrow>
          (if event_type \<notin> {''permission.replied'', ''question.replied'', ''question.rejected''} then None
           else case pget event ''properties'' of
                  PDict props \<Rightarrow>
                    (case first_nonempty_string props [''requestID''] of
                       None \<Rightarrow> None
                     | Some request_id \<Rightarrow>
                         Some \<lparr>re_request_id = request_id, re_event_type = event_type,
                           re_interrupt_type =
                             (if take 11 event_type = ''permission.'' then ''permission'' else ''question''),
                           re_resolution =
                             (if event_type = ''question.rejected'' then ''rejected'' else ''replied'')\<rparr>)
                | _ \<Rightarrow> None)
      | _ \<Rightarrow> None)"

section \<open>Log redaction\<close>

definition sensitive_log_field_markers :: "string list" where
  "sensitive_log_field_markers =
     [''api_key'', ''apikey'', ''authorization'', ''bearer'', ''cookie'', ''credential'', ''credentials'',
      ''password'', ''secret'', ''set-cookie'', ''token'']"

definition is_sensitive_log_field :: "string \<Rightarrow> bool" where
  "is_sensitive_log_field key =
     (let normalized = map (\<lambda>c. if c = CHR ''_'' then CHR ''-'' else c) (py_lower (py_strip key))
      in \<exists>marker \<in> set sensitive_log_field_markers. sublist marker normalized)"

primrec sanitize_log_value :: "pyval \<Rightarrow> pyval" where
  "sanitize_log_value PNone = PNone"
| "sanitize_log_value (PBool b) = PBool b"
| "sanitize_log_value (PInt n) = PInt n"
| "sanitize_log_value (PFloat r) = PFloat r"
| "sanitize_log_value (PStr s) = PStr s"
| "sanitize_log_value (PList xs) = PList (map sanitize_log_value xs)"
| "sanitize_log_value (PDict d) =
     PDict (map (\<lambda>(k, v). (k, if is_sensitive_log_field k then PStr ''[redacted]'' else v))
       (map (map_prod id sanitize_log_value) d))"

definition preview_log_value :: "py_floats \<Rightarrow> pyval \<Rightarrow> int \<Rightarrow> string" where
  "preview_log_value fl value limit =
     (let rendered = json_text fl False value
      in if 0 < limit \<and> limit < int (length rendered)
         then take (nat limit) rendered @ ''...[truncated]'' else rendered)"

end
