(* ===== verification/Output_Modes.thy ===== *)
theory Output_Modes
  imports Stream_Events
begin

text \<open>
  \<open>output_modes.py\<close>: the accepted output modes of a request, the filtering of every outgoing
  payload to them, and the metadata that records them on the task.  SDK objects are records of
  the fields the code reads or replaces, with the others kept in a \<open>rest\<close> field; the SDK's task
  manager is a parameter of the aggregator loops.
\<close>

section \<open>Payloads\<close>

datatype a2a_part =
    TextPart string
  | DataPart pdict
  | FilePart "string option" pyval
  | OtherPart pyval

record message =
  msg_parts :: "a2a_part list"
  msg_rest :: pyval

record artifact =
  art_parts :: "a2a_part list"
  art_rest :: pyval

record a2a_task =
  at_state :: task_state
  at_status_message :: "message option"
  at_history :: "message list option"
  at_artifacts :: "artifact list option"
  at_metadata :: "pdict option"
  at_rest :: pyval

record status_event =
  se_state :: task_state
  se_message :: "message option"
  se_metadata :: "pdict option"
  se_rest :: pyval

record artifact_event =
  ar_artifact :: artifact
  ar_metadata :: "pdict option"
  ar_rest :: pyval

datatype payload =
    PTask a2a_task
  | PStatus status_event
  | PArtifact artifact_event
  | PMessage message
  | POther pyval

section \<open>Accepted modes\<close>

text \<open>
  The argument of the normalization: an object with an \<open>accepted_output_modes\<close> attribute, or a
  plain value.  A configuration whose list is empty is iterated itself, over field pairs, none
  of which is a string.
\<close>

datatype modes_source = ModesConfig pyval | ModesValue pyval

definition accepted_output_modes_source :: "modes_source \<Rightarrow> pyval list option" where
  "accepted_output_modes_source source =
     (case source of
        ModesConfig v \<Rightarrow> (if truthy v then (case v of PList xs \<Rightarrow> Some xs | _ \<Rightarrow> None) else Some [])
      | ModesValue (PList xs) \<Rightarrow> Some xs
      | ModesValue _ \<Rightarrow> None)"

fun normalize_modes :: "pyval list \<Rightarrow> string list \<Rightarrow> string list option" where
  "normalize_modes [] normalized = Some normalized"
| "normalize_modes (v # vs) normalized =
     (case v of
        PStr s \<Rightarrow>
          (let mode = py_lower (py_strip s)
           in if mode = [] \<or> mode \<in> set normalized then normalize_modes vs normalized
              else if mode \<in> {''*'', ''*/*''} then None
              else normalize_modes vs (normalized @ [mode]))
      | _ \<Rightarrow> normalize_modes vs normalized)"

definition normalize_accepted_output_modes :: "modes_source \<Rightarrow> string list option" where
  "normalize_accepted_output_modes source =
     (case accepted_output_modes_source source of
        None \<Rightarrow> None
      | Some xs \<Rightarrow> (case normalize_modes xs [] of None \<Rightarrow> None | Some [] \<Rightarrow> None | Some ms \<Rightarrow> Some ms))"

text \<open>A normalized tuple passed as the argument again.\<close>

abbreviation modes_tuple :: "string list \<Rightarrow> modes_source" where
  "modes_tuple ms \<equiv> ModesValue (PList (map PStr ms))"

definition accepts_output_mode :: "string list option \<Rightarrow> string \<Rightarrow> bool" where
  "accepts_output_mode accepted media_type =
     (case accepted of None \<Rightarrow> True | Some ms \<Rightarrow> media_type \<in> set ms)"

fun part_text_fallback :: "py_floats \<Rightarrow> a2a_part \<Rightarrow> string option" where
  "part_text_fallback fl (TextPart t) = Some t"
| "part_text_fallback fl (DataPart d) = Some (json_text fl True (PDict d))"
| "part_text_fallback fl _ = None"

fun part_media_type :: "a2a_part \<Rightarrow> string option" where
  "part_media_type (TextPart _) = Some ''text/plain''"
| "part_media_type (DataPart _) = Some ''application/json''"
| "part_media_type (FilePart mime _) = str_or mime (Some ''application/octet-stream'')"
| "part_media_type (OtherPart _) = None"

section \<open>Filtering\<close>

definition filter_part :: "py_floats \<Rightarrow> string list \<Rightarrow> a2a_part \<Rightarrow> a2a_part list" where
  "filter_part fl accepted part =
     (if (case part_media_type part of None \<Rightarrow> True | Some mt \<Rightarrow> accepts_output_mode (Some accepted) mt)
      then [part]
      else if accepts_output_mode (Some accepted) ''text/plain''
      then (case part_text_fallback fl part of Some t \<Rightarrow> [TextPart t] | None \<Rightarrow> [])
      else [])"

definition filter_parts :: "py_floats \<Rightarrow> string list \<Rightarrow> a2a_part list \<Rightarrow> a2a_part list" where
  "filter_parts fl accepted parts = concat (map (filter_part fl accepted) parts)"

definition filter_message :: "py_floats \<Rightarrow> string list \<Rightarrow> message \<Rightarrow> message option" where
  "filter_message fl accepted m =
     (let parts = filter_parts fl accepted (msg_parts m)
      in if parts = [] then None else Some (m\<lparr>msg_parts := parts\<rparr>))"

definition filter_optional_message :: "py_floats \<Rightarrow> string list \<Rightarrow> message option \<Rightarrow> message option" where
  "filter_optional_message fl accepted m =
     (case m of None \<Rightarrow> None | Some x \<Rightarrow> filter_message fl accepted x)"

definition filter_artifact :: "py_floats \<Rightarrow> string list \<Rightarrow> artifact \<Rightarrow> artifact option" where
  "filter_artifact fl accepted a =
     (let parts = filter_parts fl accepted (art_parts a)
      in if parts = [] then None else Some (a\<lparr>art_parts := parts\<rparr>))"

definition filter_task :: "py_floats \<Rightarrow> string list \<Rightarrow> a2a_task \<Rightarrow> a2a_task" where
  "filter_task fl accepted t =
     t\<lparr>at_status_message := filter_optional_message fl accepted (at_status_message t),
       at_history := map_option (List.map_filter (filter_message fl accepted)) (at_history t),
       at_artifacts := map_option (List.map_filter (filter_artifact fl accepted)) (at_artifacts t)\<rparr>"

definition apply_accepted_output_modes :: "py_floats \<Rightarrow> modes_source \<Rightarrow> payload \<Rightarrow> payload option" where
  "apply_accepted_output_modes fl source payload =
     (case normalize_accepted_output_modes source of
        None \<Rightarrow> Some payload
      | Some ms \<Rightarrow>
          (case payload of
             PArtifact e \<Rightarrow>
               (case filter_artifact fl ms (ar_artifact e) of
                  None \<Rightarrow> None | Some a \<Rightarrow> Some (PArtifact (e\<lparr>ar_artifact := a\<rparr>)))
           | PStatus e \<Rightarrow> Some (PStatus (e\<lparr>se_message := filter_optional_message fl ms (se_message e)\<rparr>))
           | PTask t \<Rightarrow> Some (PTask (filter_task fl ms t))
           | PMessage m \<Rightarrow>
               (case filter_message fl ms m of
                  Some m' \<Rightarrow> Some (PMessage m') | None \<Rightarrow> Some (PMessage (m\<lparr>msg_parts := []\<rparr>)))
           | POther v \<Rightarrow> Some (POther v)))"

section \<open>Negotiation metadata\<close>

definition negotiation_value :: "string list \<Rightarrow> pyval" where
  "negotiation_value ms = PDict [(''accepted_output_modes'', PList (map PStr (sort ms)))]"

definition build_output_negotiation_metadata :: "modes_source \<Rightarrow> pdict option" where
  "build_output_negotiation_metadata source =
     map_option (\<lambda>ms. [(''opencode'', PDict [(''output_negotiation'', negotiation_value ms)])])
       (normalize_accepted_output_modes source)"

definition merge_output_negotiation_metadata :: "pdict option \<Rightarrow> modes_source \<Rightarrow> pdict option" where
  "merge_output_negotiation_metadata metadata source =
     (case normalize_accepted_output_modes source of
        None \<Rightarrow> metadata
      | Some ms \<Rightarrow>
          (let merged = (case metadata of None \<Rightarrow> [] | Some d \<Rightarrow> d);
               opencode = mapping_or_empty (pget merged ''opencode'')
           in Some (dict_set ''opencode''
                (PDict (dict_set ''output_negotiation'' (negotiation_value ms) opencode)) merged)))"

definition extract_accepted_output_modes_from_metadata :: "pdict option \<Rightarrow> string list option" where
  "extract_accepted_output_modes_from_metadata metadata =
     (case metadata of
        None \<Rightarrow> None
      | Some d \<Rightarrow>
          (case pget d ''opencode'' of
             PDict oc \<Rightarrow>
               (case pget oc ''output_negotiation'' of
                  PDict neg \<Rightarrow> normalize_accepted_output_modes (ModesValue (pget neg ''accepted_output_modes''))
                | _ \<Rightarrow> None)
           | _ \<Rightarrow> None))"

definition annotate_output_negotiation_metadata :: "modes_source \<Rightarrow> payload \<Rightarrow> payload" where
  "annotate_output_negotiation_metadata source payload =
     (case normalize_accepted_output_modes source of
        None \<Rightarrow> payload
      | Some ms \<Rightarrow>
          (case payload of
             PTask t \<Rightarrow> PTask (t\<lparr>at_metadata := merge_output_negotiation_metadata (at_metadata t) (modes_tuple ms)\<rparr>)
           | PStatus e \<Rightarrow> PStatus (e\<lparr>se_metadata := merge_output_negotiation_metadata (se_metadata e) (modes_tuple ms)\<rparr>)
           | PArtifact e \<Rightarrow> PArtifact (e\<lparr>ar_metadata := merge_output_negotiation_metadata (ar_metadata e) (modes_tuple ms)\<rparr>)
           | _ \<Rightarrow> payload))"

section \<open>The aggregator\<close>

text \<open>
  The SDK's task manager: \<open>ensure_task\<close> and \<open>get_task\<close> return the current task,
  \<open>process\<close> and \<open>save_task\<close> update it.
\<close>

record 's task_manager =
  tm_ensure_task :: "payload \<Rightarrow> 's \<Rightarrow> a2a_task \<times> 's"
  tm_save_task :: "a2a_task \<Rightarrow> 's \<Rightarrow> 's"
  tm_process :: "payload \<Rightarrow> 's \<Rightarrow> 's"
  tm_get_task :: "'s \<Rightarrow> a2a_task option"

definition transform_event :: "py_floats \<Rightarrow> modes_source \<Rightarrow> payload \<Rightarrow> payload option" where
  "transform_event fl accepted event =
     map_option (annotate_output_negotiation_metadata accepted)
       (apply_accepted_output_modes fl accepted event)"

definition persist_output_negotiation_metadata :: "'s task_manager \<Rightarrow> payload \<Rightarrow> 's \<Rightarrow> 's" where
  "persist_output_negotiation_metadata M event s =
     (case event of
        PArtifact e \<Rightarrow>
          (case extract_accepted_output_modes_from_metadata (ar_metadata e) of
             None \<Rightarrow> s
           | Some ms \<Rightarrow>
               (let (t, s') = tm_ensure_task M event s;
                    merged = merge_output_negotiation_metadata (at_metadata t) (modes_tuple ms)
                in if merged = at_metadata t then s' else tm_save_task M (t\<lparr>at_metadata := merged\<rparr>) s'))
      | _ \<Rightarrow> s)"

definition ingest :: "'s task_manager \<Rightarrow> payload \<Rightarrow> 's \<Rightarrow> 's" where
  "ingest M event s = tm_process M event (persist_output_negotiation_metadata M event s)"

fun consume_and_emit :: "'s task_manager \<Rightarrow> py_floats \<Rightarrow> modes_source \<Rightarrow> payload list \<Rightarrow> 's \<Rightarrow> payload list \<times> 's" where
  "consume_and_emit M fl acc [] s = ([], s)"
| "consume_and_emit M fl acc (e # es) s =
     (case transform_event fl acc e of
        None \<Rightarrow> consume_and_emit M fl acc es s
      | Some e' \<Rightarrow> (let (out, s') = consume_and_emit M fl acc es (ingest M e' s) in (e' # out, s')))"

datatype aggregate = AggTask "a2a_task option" | AggMessage message

fun consume_all :: "'s task_manager \<Rightarrow> py_floats \<Rightarrow> modes_source \<Rightarrow> payload list \<Rightarrow> 's \<Rightarrow> aggregate \<times> 's" where
  "consume_all M fl acc [] s = (AggTask (tm_get_task M s), s)"
| "consume_all M fl acc (e # es) s =
     (case transform_event fl acc e of
        None \<Rightarrow> consume_all M fl acc es s
      | Some (PMessage m) \<Rightarrow> (AggMessage m, s)
      | Some e' \<Rightarrow> consume_all M fl acc es (ingest M e' s))"

fun interrupts :: "bool \<Rightarrow> payload \<Rightarrow> bool" where
  "interrupts blocking (PTask t) = (at_state t = auth_required \<or> \<not> blocking)"
| "interrupts blocking (PStatus e) = (se_state e = auth_required \<or> \<not> blocking)"
| "interrupts blocking _ = (\<not> blocking)"

text \<open>The result, whether it was interrupted, and the events left to the background task.\<close>

fun consume_and_break_on_interrupt ::
  "'s task_manager \<Rightarrow> py_floats \<Rightarrow> modes_source \<Rightarrow> bool \<Rightarrow> payload list \<Rightarrow> 's
     \<Rightarrow> (aggregate \<times> bool \<times> payload list) \<times> 's" where
  "consume_and_break_on_interrupt M fl acc blocking [] s = ((AggTask (tm_get_task M s), False, []), s)"
| "consume_and_break_on_interrupt M fl acc blocking (e # es) s =
     (case transform_event fl acc e of
        None \<Rightarrow> consume_and_break_on_interrupt M fl acc blocking es s
      | Some (PMessage m) \<Rightarrow> ((AggMessage m, False, []), s)
      | Some e' \<Rightarrow>
          (let s' = ingest M e' s
           in if interrupts blocking e' then ((AggTask (tm_get_task M s'), True, es), s')
              else consume_and_break_on_interrupt M fl acc blocking es s'))"

definition continue_consuming :: "'s task_manager \<Rightarrow> py_floats \<Rightarrow> modes_source \<Rightarrow> payload list \<Rightarrow> 's \<Rightarrow> 's" where
  "continue_consuming M fl acc es s =
     fold (\<lambda>e s. case transform_event fl acc e of None \<Rightarrow> s | Some e' \<Rightarrow> ingest M e' s) es s"

end
