(* ===== verification/Output_Properties.thy ===== *)
theory Output_Properties
  imports Output_Modes
begin

text \<open>
  What output negotiation guarantees, and what the log redaction of stream events does not:
  every payload is reduced to the accepted media types, doing so twice changes nothing, the
  accepted modes can be read back from the metadata they are recorded in, and the marker
  \<open>api_key\<close> of the redaction never applies.
\<close>

section \<open>Normalized modes\<close>

definition mode_ok :: "string \<Rightarrow> bool" where
  "mode_ok m \<longleftrightarrow> m \<noteq> [] \<and> py_lower (py_strip m) = m \<and> m \<notin> {''*'', ''*/*''}"

lemma normalize_modes_ok:
  "normalize_modes vs acc = Some ms \<Longrightarrow> list_all mode_ok acc \<Longrightarrow> distinct acc \<Longrightarrow>
    list_all mode_ok ms \<and> distinct ms"
proof (induction vs acc rule: normalize_modes.induct)
  case (2 v vs acc)
  then show ?case
    by (cases v) (auto simp: Let_def mode_ok_def py_strip_lower split: if_splits)
qed simp

lemma normalize_modes_fixed:
  "list_all mode_ok ms \<Longrightarrow> distinct (acc @ ms) \<Longrightarrow> normalize_modes (map PStr ms) acc = Some (acc @ ms)"
proof (induction ms arbitrary: acc)
  case (Cons m ms)
  then show ?case using Cons.IH [of "acc @ [m]"] by (auto simp: mode_ok_def)
qed simp

lemma normalized_ok:
  assumes "normalize_accepted_output_modes source = Some ms"
  shows "list_all mode_ok ms" "distinct ms" "ms \<noteq> []"
proof -
  obtain xs where "normalize_modes xs [] = Some ms" "ms \<noteq> []"
    using assms by (auto simp: normalize_accepted_output_modes_def split: option.splits list.splits)
  then show "list_all mode_ok ms" "distinct ms" "ms \<noteq> []"
    using normalize_modes_ok [of xs "[]" ms] by simp_all
qed

lemma normalize_tuple:
  assumes "list_all mode_ok ms" "distinct ms" "ms \<noteq> []"
  shows "normalize_accepted_output_modes (modes_tuple ms) = Some ms"
  using normalize_modes_fixed [of ms "[]"] assms
  by (cases ms) (simp_all add: normalize_accepted_output_modes_def accepted_output_modes_source_def)

text \<open>
  The accepted output modes recorded on a task's metadata are read back as the normalized
  modes in ascending order, whatever the metadata held before.
\<close>

theorem negotiation_metadata_roundtrip:
  assumes "normalize_accepted_output_modes source = Some ms"
  shows "extract_accepted_output_modes_from_metadata (merge_output_negotiation_metadata md source) = Some (sort ms)"
proof -
  have get: "pget (dict_set k v d) k = v" for k v and d :: pdict
    by (simp add: pget_def dict_simps)
  have "sort ms \<noteq> []" using normalized_ok(3) [OF assms] by (metis set_empty set_sort)
  then have "normalize_accepted_output_modes (modes_tuple (sort ms)) = Some (sort ms)"
    using normalized_ok [OF assms] by (intro normalize_tuple) (simp_all add: list_all_iff)
  then show ?thesis
    by (simp add: merge_output_negotiation_metadata_def assms extract_accepted_output_modes_from_metadata_def
        get negotiation_value_def Let_def)
qed

theorem negotiation_metadata_roundtrip_witness:
  "extract_accepted_output_modes_from_metadata (merge_output_negotiation_metadata None
     (ModesConfig (PList [PStr '' Text/Plain '', PInt 3, PStr ''application/json'', PStr ''text/plain'']))) =
   Some [''application/json'', ''text/plain'']"
proof -
  have "normalize_accepted_output_modes
      (ModesConfig (PList [PStr '' Text/Plain '', PInt 3, PStr ''application/json'', PStr ''text/plain''])) =
    Some [''text/plain'', ''application/json'']" by code_simp
  from negotiation_metadata_roundtrip [OF this] show ?thesis by (simp add: sort_key_def)
qed

section \<open>Filtering\<close>

fun part_accepted :: "string list \<Rightarrow> a2a_part \<Rightarrow> bool" where
  "part_accepted ms p = (case part_media_type p of None \<Rightarrow> True | Some mt \<Rightarrow> mt \<in> set ms)"

declare part_accepted.simps [simp del]

definition message_accepted :: "string list \<Rightarrow> message option \<Rightarrow> bool" where
  "message_accepted ms m = (case m of None \<Rightarrow> True | Some x \<Rightarrow> list_all (part_accepted ms) (msg_parts x))"

fun payload_accepted :: "string list \<Rightarrow> payload \<Rightarrow> bool" where
  "payload_accepted ms (PTask t) = (message_accepted ms (at_status_message t) \<and>
     (case at_history t of None \<Rightarrow> True | Some h \<Rightarrow> list_all (\<lambda>m. list_all (part_accepted ms) (msg_parts m)) h) \<and>
     (case at_artifacts t of None \<Rightarrow> True | Some as \<Rightarrow> list_all (\<lambda>a. list_all (part_accepted ms) (art_parts a)) as))"
| "payload_accepted ms (PStatus e) = message_accepted ms (se_message e)"
| "payload_accepted ms (PArtifact e) = list_all (part_accepted ms) (art_parts (ar_artifact e))"
| "payload_accepted ms (PMessage m) = list_all (part_accepted ms) (msg_parts m)"
| "payload_accepted ms (POther v) = True"

lemma filter_part_accepted: "list_all (part_accepted ms) (filter_part fl ms p)"
  by (auto simp: filter_part_def accepts_output_mode_def part_accepted.simps split: option.splits)

lemma filter_part_fixed: "part_accepted ms p \<Longrightarrow> filter_part fl ms p = [p]"
  by (auto simp: filter_part_def accepts_output_mode_def part_accepted.simps split: option.splits)

lemma filter_parts_accepted: "list_all (part_accepted ms) (filter_parts fl ms ps)"
  using filter_part_accepted [of ms fl] by (auto simp: filter_parts_def list_all_iff)

lemma filter_parts_fixed: "list_all (part_accepted ms) ps \<Longrightarrow> filter_parts fl ms ps = ps"
  by (induction ps) (simp_all add: filter_parts_def filter_part_fixed)

lemma filter_message_accepted:
  "filter_message fl ms m = Some m' \<Longrightarrow> list_all (part_accepted ms) (msg_parts m') \<and> filter_message fl ms m' = Some m'"
  using filter_parts_accepted [of ms fl "msg_parts m"]
  by (auto simp: filter_message_def Let_def filter_parts_fixed split: if_splits)

lemma filter_artifact_accepted:
  "filter_artifact fl ms a = Some a' \<Longrightarrow> list_all (part_accepted ms) (art_parts a') \<and> filter_artifact fl ms a' = Some a'"
  using filter_parts_accepted [of ms fl "art_parts a"]
  by (auto simp: filter_artifact_def Let_def filter_parts_fixed split: if_splits)

lemma map_filter_filtered:
  assumes "\<And>x y. f x = Some y \<Longrightarrow> P y \<and> f y = Some y"
  shows "list_all P (List.map_filter f xs)" "List.map_filter f (List.map_filter f xs) = List.map_filter f xs"
  using assms by (induction xs) (auto simp: map_filter_simps split: option.split)

lemma filter_optional_accepted:
  "message_accepted ms (filter_optional_message fl ms m)"
  "filter_optional_message fl ms (filter_optional_message fl ms m) = filter_optional_message fl ms m"
  using filter_message_accepted [of fl ms]
  by (auto simp: filter_optional_message_def message_accepted_def split: option.split)

lemma filter_message_None: "filter_message fl ms (m\<lparr>msg_parts := []\<rparr>) = None"
  by (simp add: filter_message_def filter_parts_def)

lemmas history_filtered = map_filter_filtered [of "filter_message fl ms"
    "\<lambda>m. list_all (part_accepted ms) (msg_parts m)", OF filter_message_accepted] for fl ms
lemmas artifacts_filtered = map_filter_filtered [of "filter_artifact fl ms"
    "\<lambda>a. list_all (part_accepted ms) (art_parts a)", OF filter_artifact_accepted] for fl ms

text \<open>
  C22: a payload that passes the negotiated output modes holds only parts of an accepted media type
  (or without one), in its status message, its history and its artifacts, and filtering it again
  leaves it as it is.
\<close>

theorem negotiated_payload_is_accepted:
  assumes "normalize_accepted_output_modes source = Some ms"
    and "apply_accepted_output_modes fl source payload = Some payload'"
  shows "payload_accepted ms payload' \<and> apply_accepted_output_modes fl source payload' = Some payload'"
proof (cases payload)
  case (PTask t)
  then have "payload' = PTask (filter_task fl ms t)"
    using assms by (simp add: apply_accepted_output_modes_def)
  then show ?thesis
    using assms(1) history_filtered [of fl ms] artifacts_filtered [of fl ms]
    by (cases "at_history t"; cases "at_artifacts t")
      (simp_all add: apply_accepted_output_modes_def filter_task_def filter_optional_accepted)
next
  case (PStatus e)
  then show ?thesis
    using assms by (auto simp: apply_accepted_output_modes_def filter_optional_accepted)
next
  case (PArtifact e)
  then show ?thesis
    using assms by (auto simp: apply_accepted_output_modes_def dest: filter_artifact_accepted split: option.splits)
next
  case (PMessage m)
  then show ?thesis
    using assms by (auto simp: apply_accepted_output_modes_def filter_message_None
        dest: filter_message_accepted split: option.splits)
next
  case (POther v)
  then show ?thesis using assms by (auto simp: apply_accepted_output_modes_def)
qed

theorem negotiated_payload_is_accepted_witness:
  "payload_accepted [''text/plain''] (PMessage \<lparr>msg_parts = [TextPart ''a'', TextPart ''{}''], msg_rest = PNone\<rparr>)"
  using negotiated_payload_is_accepted [of "modes_tuple [''text/plain'']" "[''text/plain'']"
      "\<lparr>pf_repr = (\<lambda>_. []), pf_parse = (\<lambda>_. None)\<rparr>"
      "PMessage \<lparr>msg_parts = [TextPart ''a'', DataPart []], msg_rest = PNone\<rparr>"]
  by (simp add: normalize_accepted_output_modes_def accepted_output_modes_source_def py_lower_def
      py_strip_def py_space_def py_lower_char_def apply_accepted_output_modes_def filter_message_def
      filter_parts_def filter_part_def accepts_output_mode_def Let_def)

section \<open>Log redaction\<close>

text \<open>
  The redaction of logged events replaces underscores by hyphens before it looks for the marker
  \<open>api_key\<close>, so that marker never applies: a field named \<open>api_key\<close> is logged with its value.
\<close>

theorem api_key_is_not_redacted:
  "\<not> is_sensitive_log_field ''api_key'' \<and>
   sanitize_log_value (PDict [(''api_key'', PStr ''sk-1''), (''password'', PStr ''pw'')]) =
     PDict [(''api_key'', PStr ''sk-1''), (''password'', PStr ''[redacted]'')]"
  by code_simp

end
