(* ===== verification/Stream_State.thy ===== *)
theory Stream_State
  imports Output_Modes
begin

text \<open>
  The state of one streamed answer (\<open>execution/stream_state.py\<close> without the cache of
  \<open>TTL_Cache\<close>) and the events the stream runtime puts on the event queue.
\<close>

section \<open>State\<close>

record stream_chunk =
  ck_part :: a2a_part
  ck_content_key :: string
  ck_accumulate :: bool
  ck_append :: bool
  ck_block_type :: block_type
  ck_internal_source :: string
  ck_shared_source :: string
  ck_message_id :: "string option"
  ck_role :: "string option"

record pending_delta =
  pd_field :: string
  pd_delta :: string
  pd_message_id :: "string option"

record part_state =
  ps_block_type :: block_type
  ps_message_id :: "string option"
  ps_role :: "string option"
  ps_buffer :: string
  ps_saw_delta :: bool

record output_state =
  os_user_text :: string
  os_stable_message_id :: string
  os_event_id_namespace :: string
  os_content_buffers :: "(block_type, string) dict"
  os_progress_buffers :: "(string, string) dict"
  os_token_usage :: "pdict option"
  os_upstream_error :: "inband_error option"
  os_pending_interrupts :: "string set"
  os_saw_any_chunk :: bool
  os_emitted_stream_chunk :: bool
  os_sequence :: nat

definition new_output_state :: "string \<Rightarrow> string \<Rightarrow> string \<Rightarrow> output_state" where
  "new_output_state user_text stable_message_id event_id_namespace =
     \<lparr>os_user_text = user_text, os_stable_message_id = stable_message_id,
      os_event_id_namespace = event_id_namespace, os_content_buffers = [], os_progress_buffers = [],
      os_token_usage = None, os_upstream_error = None, os_pending_interrupts = {},
      os_saw_any_chunk = False, os_emitted_stream_chunk = False, os_sequence = 0\<rparr>"

section \<open>Token usage\<close>

definition merge_usage_entry :: "string \<times> pyval \<Rightarrow> pdict \<Rightarrow> pdict" where
  "merge_usage_entry = (\<lambda>(key, value) merged.
     if value = PNone then merged
     else case (key = ''raw'', value) of
            (True, PDict raw) \<Rightarrow>
              (case pget merged ''raw'' of
                 PDict existing \<Rightarrow> dict_set ''raw'' (PDict (fold (\<lambda>(k, v). dict_set k v) raw existing)) merged
               | _ \<Rightarrow> dict_set ''raw'' (PDict raw) merged)
          | _ \<Rightarrow> dict_set key value merged)"

definition merge_token_usage :: "pdict option \<Rightarrow> pdict option \<Rightarrow> pdict option" where
  "merge_token_usage base incoming =
     (if base = None \<and> incoming = None then None
      else
        let merged = fold merge_usage_entry (case incoming of None \<Rightarrow> [] | Some d \<Rightarrow> d)
                       (case base of None \<Rightarrow> [] | Some d \<Rightarrow> d)
        in if merged = [] then None else Some merged)"

section \<open>Operations\<close>

definition should_drop_initial_user_echo :: "string \<Rightarrow> block_type \<Rightarrow> string option \<Rightarrow> output_state \<Rightarrow> bool" where
  "should_drop_initial_user_echo text bt role st =
     (if role \<noteq> None then False
      else if bt \<noteq> TextBlock then False
      else if os_saw_any_chunk st then False
      else (let user_text = py_strip (os_user_text st)
            in user_text \<noteq> [] \<and> py_strip text = user_text))"

definition content_buffer :: "output_state \<Rightarrow> block_type \<Rightarrow> string" where
  "content_buffer st bt = (case dict_get (os_content_buffers st) bt of None \<Rightarrow> [] | Some s \<Rightarrow> s)"

definition register_chunk ::
  "block_type \<Rightarrow> string \<Rightarrow> bool \<Rightarrow> bool \<Rightarrow> output_state \<Rightarrow> (bool \<times> bool) \<times> output_state" where
  "register_chunk bt content_key appending accumulate st =
     (let previous = content_buffer st bt;
          next_value = (if appending \<and> accumulate then previous @ content_key else content_key)
      in if next_value = previous then ((False, False), st)
         else ((True, os_emitted_stream_chunk st),
               st\<lparr>os_content_buffers := dict_set bt next_value (os_content_buffers st),
                  os_saw_any_chunk := True, os_emitted_stream_chunk := True\<rparr>))"

definition register_progress :: "string \<Rightarrow> string \<Rightarrow> output_state \<Rightarrow> bool \<times> output_state" where
  "register_progress identity content_key st =
     (if dict_get (os_progress_buffers st) identity = Some content_key then (False, st)
      else (True, st\<lparr>os_progress_buffers := dict_set identity content_key (os_progress_buffers st)\<rparr>))"

definition should_emit_final_snapshot :: "string \<Rightarrow> output_state \<Rightarrow> bool \<times> output_state" where
  "should_emit_final_snapshot text st =
     (if py_strip text = [] then (False, st)
      else if py_strip (content_buffer st TextBlock) = py_strip text then (False, st)
      else (True, st\<lparr>os_content_buffers := dict_set TextBlock text (os_content_buffers st),
                     os_saw_any_chunk := True\<rparr>))"

definition next_sequence :: "output_state \<Rightarrow> nat \<times> output_state" where
  "next_sequence st = (os_sequence st + 1, st\<lparr>os_sequence := os_sequence st + 1\<rparr>)"

definition resolve_message_id :: "string option \<Rightarrow> output_state \<Rightarrow> string" where
  "resolve_message_id message_id st =
     (case message_id of
        Some m \<Rightarrow> (if py_strip m \<noteq> [] then py_strip m else os_stable_message_id st)
      | None \<Rightarrow> os_stable_message_id st)"

definition build_event_id :: "nat \<Rightarrow> output_state \<Rightarrow> string" where
  "build_event_id sequence st = os_event_id_namespace st @ '':'' @ nat_str sequence"

definition ingest_token_usage :: "pdict option \<Rightarrow> output_state \<Rightarrow> output_state" where
  "ingest_token_usage usage st = st\<lparr>os_token_usage := merge_token_usage (os_token_usage st) usage\<rparr>"

definition mark_interrupt_pending :: "string \<Rightarrow> output_state \<Rightarrow> bool \<times> output_state" where
  "mark_interrupt_pending request_id st =
     (let normalized = py_strip request_id
      in if normalized = [] then (False, st)
         else if normalized \<in> os_pending_interrupts st then (False, st)
         else (True, st\<lparr>os_pending_interrupts := insert normalized (os_pending_interrupts st)\<rparr>))"

definition clear_interrupt_pending :: "string \<Rightarrow> output_state \<Rightarrow> bool \<times> output_state" where
  "clear_interrupt_pending request_id st =
     (let normalized = py_strip request_id
      in if normalized = [] then (False, st)
         else if normalized \<notin> os_pending_interrupts st then (False, st)
         else (True, st\<lparr>os_pending_interrupts := os_pending_interrupts st - {normalized}\<rparr>))"

section \<open>Metadata\<close>

definition truthy_entry :: "string \<Rightarrow> string option \<Rightarrow> pdict" where
  "truthy_entry k v = (if truthy_str v then [(k, PStr (the v))] else [])"

definition build_stream_artifact_metadata ::
  "block_type \<Rightarrow> string \<Rightarrow> string option \<Rightarrow> string option \<Rightarrow> string option \<Rightarrow> nat option \<Rightarrow> pdict" where
  "build_stream_artifact_metadata bt shared_source message_id role event_id sequence =
     [(''shared'', PDict [(''stream'', PDict
        ([(''block_type'', PStr (block_value bt)), (''source'', PStr shared_source)]
         @ truthy_entry ''message_id'' message_id @ truthy_entry ''role'' role
         @ truthy_entry ''event_id'' event_id
         @ (case sequence of None \<Rightarrow> [] | Some n \<Rightarrow> [(''sequence'', PInt (int n))])))])]"

definition opt_entry :: "string \<Rightarrow> pdict option \<Rightarrow> pdict" where
  "opt_entry k d = (case d of None \<Rightarrow> [] | Some x \<Rightarrow> [(k, PDict x)])"

definition build_output_metadata ::
  "string option \<Rightarrow> string option \<Rightarrow> pdict option \<Rightarrow> pdict option \<Rightarrow> pdict option \<Rightarrow> pdict option \<Rightarrow>
   pdict option \<Rightarrow> pdict option" where
  "build_output_metadata session_id session_title usage stream progress interrupt opencode_private =
     (let session = (if truthy_str session_id
            then [(''session'', PDict ([(''id'', PStr (the session_id))] @
              (case session_title of None \<Rightarrow> [] | Some t \<Rightarrow> [(''title'', PStr t)])))] else []);
          shared = session @ opt_entry ''usage'' usage @ opt_entry ''stream'' stream
            @ opt_entry ''progress'' progress @ opt_entry ''interrupt'' interrupt;
          metadata = (if shared = [] then [] else [(''shared'', PDict shared)]) @
            (case opencode_private of
               None \<Rightarrow> [] | Some d \<Rightarrow> if d = [] then [] else [(''opencode'', PDict d)])
      in if metadata = [] then None else Some metadata)"

section \<open>Queued events\<close>

record artifact_update =
  au_task_id :: string
  au_context_id :: string
  au_artifact_id :: string
  au_part :: a2a_part
  au_append :: "bool option"
  au_last_chunk :: "bool option"
  au_artifact_metadata :: "pdict option"
  au_event_metadata :: "pdict option"

record status_update =
  su_task_id :: string
  su_context_id :: string
  su_state :: task_state
  su_final :: bool
  su_metadata :: "pdict option"

datatype queue_event = QArtifact artifact_update | QStatus status_update

text \<open>\<open>_enqueue_artifact_update\<close> of \<open>event_helpers.py\<close>: the event it enqueues.\<close>

definition artifact_update_event ::
  "string \<Rightarrow> string \<Rightarrow> string \<Rightarrow> a2a_part \<Rightarrow> bool option \<Rightarrow> bool option \<Rightarrow> pdict option \<Rightarrow> pdict option
     \<Rightarrow> queue_event" where
  "artifact_update_event task_id context_id artifact_id part appending last_chunk artifact_metadata event_metadata =
     QArtifact \<lparr>au_task_id = task_id, au_context_id = context_id, au_artifact_id = artifact_id,
       au_part = part, au_append = appending,
       au_last_chunk = (if last_chunk = Some True then Some True else None),
       au_artifact_metadata = (case artifact_metadata of None \<Rightarrow> None | Some d \<Rightarrow> if d = [] then None else Some d),
       au_event_metadata = (case event_metadata of None \<Rightarrow> None | Some d \<Rightarrow> if d = [] then None else Some d)\<rparr>"

end
