(* ===== verification/Stream_Runtime.thy ===== *)
theory Stream_Runtime
  imports Stream_State
begin

text \<open>
  \<open>StreamRuntime.consume\<close> of \<open>execution/stream_runtime.py\<close>: one upstream event stream becomes
  the queue events of one task.  The local variables of \<open>consume\<close>, the shared
  \<open>_StreamOutputState\<close>, the terminal signal, the stop event, and everything the method sends to
  the event queue, to the interrupt store of the client, to the metrics and to \<open>sleep\<close> are the
  fields of \<open>stream_sys\<close>.  The calls to the queue and to the interrupt store are taken to succeed.
\<close>

section \<open>State\<close>

record stream_ctx =
  cx_session_id :: string
  cx_identity :: string
  cx_task_id :: string
  cx_context_id :: string
  cx_artifact_id :: string
  cx_allow_structured_output :: bool
  cx_floats :: py_floats

datatype client_call =
    RememberInterrupt string string string string string string pdict
      \<comment> \<open>request, session, type, identity, task, context, details\<close>
  | DiscardInterrupt string

record stream_sys =
  sy_parts :: "(string, part_state) dict"
  sy_pending :: "(string, pending_delta list) dict"
  sy_out :: output_state
  sy_signal :: "terminal_signal option"
  sy_stop :: bool
  sy_queue :: "queue_event list"
  sy_client :: "client_call list"
  sy_metrics :: "string list"
  sy_sleeps :: "rat list"

definition new_stream_sys :: "output_state \<Rightarrow> stream_sys" where
  "new_stream_sys out =
     \<lparr>sy_parts = [], sy_pending = [], sy_out = out, sy_signal = None, sy_stop = False,
      sy_queue = [], sy_client = [], sy_metrics = [], sy_sleeps = []\<rparr>"

definition enqueue :: "queue_event \<Rightarrow> stream_sys \<Rightarrow> stream_sys" where
  "enqueue e sys = sys\<lparr>sy_queue := sy_queue sys @ [e]\<rparr>"

definition emit_metric :: "string \<Rightarrow> stream_sys \<Rightarrow> stream_sys" where
  "emit_metric m sys = sys\<lparr>sy_metrics := sy_metrics sys @ [m]\<rparr>"

section \<open>Emission\<close>

fun part_text :: "a2a_part \<Rightarrow> string" where
  "part_text (TextPart t) = t"
| "part_text _ = []"

text \<open>\<open>None\<close> when the chunk is skipped because a data part has no text form.\<close>

definition structured_fallback :: "stream_ctx \<Rightarrow> stream_chunk \<Rightarrow> stream_chunk option" where
  "structured_fallback cx ck =
     (case ck_part ck of
        DataPart d \<Rightarrow>
          (if cx_allow_structured_output cx then Some ck
           else (case part_text_fallback (cx_floats cx) (DataPart d) of
                   None \<Rightarrow> None
                 | Some t \<Rightarrow> Some (ck\<lparr>ck_part := TextPart t, ck_content_key := t, ck_accumulate := False\<rparr>)))
      | _ \<Rightarrow> Some ck)"

definition emit_chunk :: "stream_ctx \<Rightarrow> stream_chunk \<Rightarrow> stream_sys \<Rightarrow> stream_sys" where
  "emit_chunk cx chunk sys =
     (case structured_fallback cx chunk of
        None \<Rightarrow> sys
      | Some ck \<Rightarrow>
          (let resolved_message_id = resolve_message_id (ck_message_id ck) (sy_out sys)
           in if should_drop_initial_user_echo (part_text (ck_part ck)) (ck_block_type ck) (ck_role ck) (sy_out sys)
              then sys
              else
                let ((should_emit, effective_append), out1) =
                      register_chunk (ck_block_type ck) (ck_content_key ck) (ck_append ck) (ck_accumulate ck) (sy_out sys)
                in if \<not> should_emit then sys\<lparr>sy_out := out1\<rparr>
                   else
                     let (sequence, out2) = next_sequence out1;
                         event = artifact_update_event (cx_task_id cx) (cx_context_id cx) (cx_artifact_id cx)
                           (ck_part ck) (Some effective_append) (Some False)
                           (Some (build_stream_artifact_metadata (ck_block_type ck) (ck_shared_source ck)
                             (Some resolved_message_id) (ck_role ck) (Some (build_event_id sequence out2))
                             (Some sequence))) None;
                         sys' = enqueue event (sys\<lparr>sy_out := out2\<rparr>)
                     in if ck_block_type ck = ToolCallBlock
                        then emit_metric ''tool_call_chunks_emitted_total'' sys' else sys'))"

definition emit_chunks :: "stream_ctx \<Rightarrow> stream_chunk list \<Rightarrow> stream_sys \<Rightarrow> stream_sys" where
  "emit_chunks cx chunks sys = fold (emit_chunk cx) chunks sys"

definition stream_meta :: "string \<Rightarrow> string option \<Rightarrow> nat \<Rightarrow> output_state \<Rightarrow> pdict" where
  "stream_meta source message_id sequence out =
     [(''message_id'', PStr (resolve_message_id message_id out)),
      (''event_id'', PStr (build_event_id sequence out)),
      (''source'', PStr source), (''sequence'', PInt (int sequence))]"

definition emit_interrupt_status ::
  "stream_ctx \<Rightarrow> task_state \<Rightarrow> string \<Rightarrow> string \<Rightarrow> string \<Rightarrow> pdict option \<Rightarrow> string option \<Rightarrow>
   stream_sys \<Rightarrow> stream_sys" where
  "emit_interrupt_status cx st request_id interrupt_type phase details resolution sys =
     (let interrupt_metadata =
            [(''request_id'', PStr request_id), (''type'', PStr interrupt_type), (''phase'', PStr phase)]
            @ opt_entry ''details'' details
            @ (case resolution of None \<Rightarrow> [] | Some r \<Rightarrow> [(''resolution'', PStr r)]);
          (sequence, out) = next_sequence (sy_out sys);
          event = QStatus \<lparr>su_task_id = cx_task_id cx, su_context_id = cx_context_id cx, su_state = st,
            su_final = False, su_metadata = build_output_metadata (Some (cx_session_id cx)) None None
              (Some (stream_meta ''interrupt'' None sequence out)) None (Some interrupt_metadata) None\<rparr>;
          sys' = enqueue event (sys\<lparr>sy_out := out\<rparr>)
      in if phase = ''asked'' then emit_metric ''interrupt_requests_total'' sys'
         else if phase = ''resolved'' then emit_metric ''interrupt_resolved_total'' sys'
         else sys')"

definition emit_progress_status ::
  "stream_ctx \<Rightarrow> string option \<Rightarrow> pdict \<Rightarrow> stream_sys \<Rightarrow> stream_sys" where
  "emit_progress_status cx message_id progress sys =
     (let (sequence, out) = next_sequence (sy_out sys)
      in enqueue (QStatus \<lparr>su_task_id = cx_task_id cx, su_context_id = cx_context_id cx,
           su_state = working, su_final = False,
           su_metadata = build_output_metadata (Some (cx_session_id cx)) None None
             (Some (stream_meta ''progress'' message_id sequence out)) (Some progress) None None\<rparr>)
         (sys\<lparr>sy_out := out\<rparr>))"

section \<open>Chunks of a part\<close>

definition new_text_chunk ::
  "string \<Rightarrow> string \<Rightarrow> part_state \<Rightarrow> stream_chunk" where
  "new_text_chunk text internal_source ps =
     \<lparr>ck_part = TextPart text, ck_content_key = text, ck_accumulate = True, ck_append = True,
      ck_block_type = ps_block_type ps, ck_internal_source = internal_source,
      ck_shared_source = ''stream'', ck_message_id = ps_message_id ps, ck_role = ps_role ps\<rparr>"

definition set_message_id :: "string option \<Rightarrow> part_state \<Rightarrow> part_state" where
  "set_message_id message_id ps = (if truthy_str message_id then ps\<lparr>ps_message_id := message_id\<rparr> else ps)"

definition upsert_part_state ::
  "string \<Rightarrow> pdict \<Rightarrow> string option \<Rightarrow> string option \<Rightarrow> (string, part_state) dict
     \<Rightarrow> part_state option \<times> (string, part_state) dict" where
  "upsert_part_state part_id part role message_id parts =
     (case resolve_stream_block_type part of
        None \<Rightarrow> (None, parts)
      | Some bt \<Rightarrow>
          (let ps = (case dict_get parts part_id of
                 None \<Rightarrow> \<lparr>ps_block_type = bt, ps_message_id = message_id, ps_role = role,
                          ps_buffer = [], ps_saw_delta = False\<rparr>
               | Some old \<Rightarrow>
                   set_message_id message_id
                     (if role \<noteq> None then old\<lparr>ps_block_type := bt, ps_role := role\<rparr>
                      else old\<lparr>ps_block_type := bt\<rparr>))
           in (Some ps, dict_set part_id ps parts)))"

definition delta_chunks ::
  "string \<Rightarrow> string option \<Rightarrow> string \<Rightarrow> part_state \<Rightarrow> stream_chunk list \<times> part_state" where
  "delta_chunks delta_text message_id internal_source ps =
     (if delta_text = [] then ([], ps)
      else
        let ps' = (set_message_id message_id ps)\<lparr>ps_buffer := ps_buffer ps @ delta_text, ps_saw_delta := True\<rparr>
        in ([new_text_chunk delta_text internal_source ps'], ps'))"

definition snapshot_chunks ::
  "string \<Rightarrow> string option \<Rightarrow> part_state \<Rightarrow> stream_chunk list \<times> part_state" where
  "snapshot_chunks snapshot message_id ps =
     (let ps1 = set_message_id message_id ps;
          previous = ps_buffer ps1
      in if snapshot = previous then ([], ps1)
         else if prefix previous snapshot then
           let delta_text = drop (length previous) snapshot;
               ps2 = ps1\<lparr>ps_buffer := snapshot\<rparr>
           in if delta_text = [] then ([], ps2)
              else ([new_text_chunk delta_text ''part_text_diff'' ps2], ps2)
         else ([], ps1\<lparr>ps_buffer := snapshot\<rparr>))"

definition tool_chunks ::
  "py_floats \<Rightarrow> pdict \<Rightarrow> string option \<Rightarrow> part_state \<Rightarrow> stream_chunk list \<times> part_state" where
  "tool_chunks fl part message_id ps =
     (case extract_tool_part_payload part of
        None \<Rightarrow> ([], ps)
      | Some payload \<Rightarrow>
          (let content_key = json_text fl False (PDict payload);
               ps1 = set_message_id message_id ps;
               previous = ps_buffer ps1
           in if content_key = previous then ([], ps1)
              else
                let ps2 = ps1\<lparr>ps_buffer := content_key\<rparr>
                in ([\<lparr>ck_part = DataPart payload, ck_content_key = content_key, ck_accumulate = False,
                      ck_append = previous \<noteq> [], ck_block_type = ps_block_type ps2,
                      ck_internal_source = ''tool_part_update'', ck_shared_source = ''tool_part_update'',
                      ck_message_id = ps_message_id ps2, ck_role = ps_role ps2\<rparr>], ps2)))"

fun buffered_chunks :: "pending_delta list \<Rightarrow> part_state \<Rightarrow> stream_chunk list \<times> part_state" where
  "buffered_chunks [] ps = ([], ps)"
| "buffered_chunks (pd # pds) ps =
     (if pd_field pd \<noteq> ''text'' then buffered_chunks pds ps
      else
        let (cs, ps1) = delta_chunks (pd_delta pd) (pd_message_id pd) ''delta_event_buffered'' ps;
            (cs', ps2) = buffered_chunks pds ps1
        in (cs @ cs', ps2))"

section \<open>One event\<close>

definition progress_section :: "stream_ctx \<Rightarrow> pdict \<Rightarrow> stream_sys \<Rightarrow> stream_sys" where
  "progress_section cx props sys =
     (case pget props ''part'' of
        PDict part \<Rightarrow>
          (case extract_progress_metadata part props of
             None \<Rightarrow> sys
           | Some progress \<Rightarrow>
               (let (fresh, out) = register_progress (build_progress_identity part props)
                      (json_text (cx_floats cx) False (PDict progress)) (sy_out sys);
                    sys' = sys\<lparr>sy_out := out\<rparr>
                in if fresh then emit_progress_status cx (extract_stream_message_id part props) progress sys'
                   else sys'))
      | _ \<Rightarrow> sys)"

definition signal_section :: "stream_ctx \<Rightarrow> pdict \<Rightarrow> stream_sys \<Rightarrow> stream_sys" where
  "signal_section cx event sys =
     (let sys1 = (case extract_upstream_error_from_event event of
                    Some e \<Rightarrow> if os_upstream_error (sy_out sys) = None
                      then sys\<lparr>sy_out := (sy_out sys)\<lparr>os_upstream_error := Some e\<rparr>\<rparr> else sys
                  | None \<Rightarrow> sys);
          sys2 = (case extract_stream_terminal_signal event of
                    Some s \<Rightarrow> if sy_signal sys1 = None then sys1\<lparr>sy_signal := Some s, sy_stop := True\<rparr> else sys1
                  | None \<Rightarrow> sys1)
      in case extract_token_usage (cx_floats cx) (PDict event) of
           Some usage \<Rightarrow> sys2\<lparr>sy_out := ingest_token_usage (Some usage) (sy_out sys2)\<rparr>
         | None \<Rightarrow> sys2)"

definition asked_section :: "stream_ctx \<Rightarrow> pdict \<Rightarrow> stream_sys \<Rightarrow> stream_sys" where
  "asked_section cx event sys =
     (case extract_interrupt_asked_event event of
        None \<Rightarrow> sys
      | Some asked \<Rightarrow>
          (let (fresh, out) = mark_interrupt_pending (ae_request_id asked) (sy_out sys);
               sys' = sys\<lparr>sy_out := out\<rparr>
           in if \<not> fresh then sys'
              else emit_interrupt_status cx input_required (ae_request_id asked) (ae_interrupt_type asked)
                ''asked'' (Some (ae_details asked)) None
                (sys'\<lparr>sy_client := sy_client sys' @
                  [RememberInterrupt (ae_request_id asked) (cx_session_id cx) (ae_interrupt_type asked)
                    (cx_identity cx) (cx_task_id cx) (cx_context_id cx) (ae_details asked)]\<rparr>)))"

definition resolved_section :: "stream_ctx \<Rightarrow> pdict \<Rightarrow> stream_sys \<Rightarrow> stream_sys" where
  "resolved_section cx event sys =
     (case extract_interrupt_resolved_event event of
        None \<Rightarrow> sys
      | Some res \<Rightarrow>
          (let (cleared, out) = clear_interrupt_pending (re_request_id res) (sy_out sys);
               sys' = sys\<lparr>sy_out := out, sy_client := sy_client sys @ [DiscardInterrupt (re_request_id res)]\<rparr>
           in if cleared
              then emit_interrupt_status cx working (re_request_id res) (re_interrupt_type res) ''resolved''
                None (Some (re_resolution res)) sys'
              else sys'))"

definition delta_event :: "stream_ctx \<Rightarrow> pdict \<Rightarrow> string \<Rightarrow> string option \<Rightarrow> stream_sys \<Rightarrow> stream_sys" where
  "delta_event cx props part_id message_id sys =
     (case (pget props ''field'', pget props ''delta'') of
        (PStr field, PStr delta) \<Rightarrow>
          (if field \<noteq> ''text'' \<or> delta = [] then sys
           else case dict_get (sy_parts sys) part_id of
                  None \<Rightarrow>
                    sys\<lparr>sy_pending := dict_set part_id
                      ((case dict_get (sy_pending sys) part_id of None \<Rightarrow> [] | Some ds \<Rightarrow> ds)
                        @ [\<lparr>pd_field = field, pd_delta = delta, pd_message_id = message_id\<rparr>]) (sy_pending sys)\<rparr>
                | Some ps \<Rightarrow>
                    if ps_role ps \<in> {Some ''user'', Some ''system''} then sys
                    else
                      let (chunks, ps') = delta_chunks delta message_id ''delta_event'' ps
                      in emit_chunks cx chunks (sys\<lparr>sy_parts := dict_set part_id ps' (sy_parts sys)\<rparr>))
      | _ \<Rightarrow> sys)"

definition part_chunks ::
  "stream_ctx \<Rightarrow> pdict \<Rightarrow> pdict \<Rightarrow> string option \<Rightarrow> part_state \<Rightarrow> stream_chunk list \<times> part_state" where
  "part_chunks cx props part message_id ps =
     (case pget props ''delta'' of
        PStr (c # cs) \<Rightarrow> delta_chunks (c # cs) message_id ''delta'' ps
      | _ \<Rightarrow>
          if ps_block_type ps = ToolCallBlock then tool_chunks (cx_floats cx) part message_id ps
          else (case extract_stream_snapshot_text part of
                  Some snapshot \<Rightarrow> snapshot_chunks snapshot message_id ps
                | None \<Rightarrow> ([], ps)))"

definition updated_event ::
  "stream_ctx \<Rightarrow> pdict \<Rightarrow> pdict \<Rightarrow> string \<Rightarrow> string option \<Rightarrow> stream_sys \<Rightarrow> stream_sys" where
  "updated_event cx props part part_id message_id sys =
     (let role = extract_stream_role part props;
          (state, parts) = upsert_part_state part_id part role message_id (sy_parts sys);
          dropped = sys\<lparr>sy_parts := parts, sy_pending := dict_pop part_id (sy_pending sys)\<rparr>
      in case state of
           None \<Rightarrow> dropped
         | Some ps \<Rightarrow>
             if ps_role ps \<in> {Some ''user'', Some ''system''} then dropped
             else
               let pending = (case dict_get (sy_pending sys) part_id of None \<Rightarrow> [] | Some ds \<Rightarrow> ds);
                   (cs1, ps1) = buffered_chunks pending ps;
                   (cs2, ps2) = part_chunks cx props part message_id ps1
               in emit_chunks cx (cs1 @ cs2) (dropped\<lparr>sy_parts := dict_set part_id ps2 (sy_parts dropped)\<rparr>))"

definition message_section :: "stream_ctx \<Rightarrow> string \<Rightarrow> pdict \<Rightarrow> stream_sys \<Rightarrow> stream_sys" where
  "message_section cx event_type props sys =
     (if event_type \<notin> {''message.part.updated'', ''message.part.delta''} then sys
      else
        let part = mapping_or_empty (pget props ''part'')
        in if extract_stream_session_id part props \<noteq> Some (cx_session_id cx) then sys
           else
             let message_id = extract_stream_message_id part props
             in case extract_stream_part_id part props of
                  None \<Rightarrow> sys
                | Some part_id \<Rightarrow>
                    if event_type = ''message.part.delta'' then delta_event cx props part_id message_id sys
                    else updated_event cx props part part_id message_id sys)"

definition handle_event :: "stream_ctx \<Rightarrow> pdict \<Rightarrow> stream_sys \<Rightarrow> stream_sys" where
  "handle_event cx event sys =
     (case (pget event ''type'', pget event ''properties'') of
        (PStr event_type, PDict props) \<Rightarrow>
          message_section cx event_type props
            (if extract_event_session_id event = Some (cx_session_id cx)
             then resolved_section cx event (asked_section cx event (signal_section cx event
                    (progress_section cx props sys)))
             else sys)
      | _ \<Rightarrow> sys)"

section \<open>The subscription loop\<close>

text \<open>
  An item of one subscription: an event, or the stop event being set by another coroutine.
\<close>

datatype stream_item = Event pdict | StopSet

fun process_items :: "stream_ctx \<Rightarrow> stream_item list \<Rightarrow> stream_sys \<Rightarrow> stream_sys" where
  "process_items cx [] sys = sys"
| "process_items cx (StopSet # xs) sys = process_items cx xs (sys\<lparr>sy_stop := True\<rparr>)"
| "process_items cx (Event e # xs) sys =
     (if sy_stop sys then sys else process_items cx xs (handle_event cx e sys))"

text \<open>
  Each subscription delivers items and then ends, by itself or (\<open>True\<close>) with an exception, which
  is retried after a pause unless the stop event is set.
\<close>

fun consume_loop :: "stream_ctx \<Rightarrow> (stream_item list \<times> bool) list \<Rightarrow> rat \<Rightarrow> stream_sys \<Rightarrow> stream_sys" where
  "consume_loop cx [] backoff sys = sys"
| "consume_loop cx ((items, broken) # rest) backoff sys =
     (if sy_stop sys then sys
      else
        let sys1 = process_items cx items sys
        in if \<not> broken \<or> sy_stop sys1 then sys1
           else
             let sys2 = emit_metric ''opencode_stream_retries_total'' sys1;
                 sys3 = sys2\<lparr>sy_sleeps := sy_sleeps sys2 @ [backoff]\<rparr>
             in consume_loop cx rest (min (backoff * 2) 5) sys3)"

definition consume :: "stream_ctx \<Rightarrow> (stream_item list \<times> bool) list \<Rightarrow> output_state \<Rightarrow> stream_sys" where
  "consume cx attempts out = consume_loop cx attempts (1 / 2) (new_stream_sys out)"

end
