(* ===== verification/Stream_Properties.thy ===== *)
theory Stream_Properties
  imports Stream_Runtime
begin

text \<open>
  What a client of the stream can rely on, whatever OpenCode sends and however often the
  subscription breaks: numbered events without gaps, the append flags of one artifact, no text of
  the user or the system, no event of another session, one terminal signal, and alternating
  interrupt phases.
\<close>

section \<open>Reading the queue\<close>

definition stream_field :: "pdict option \<Rightarrow> string \<Rightarrow> pyval" where
  "stream_field md key =
     (case md of None \<Rightarrow> PNone | Some d \<Rightarrow> vget (vget (vget (PDict d) ''shared'') ''stream'') key)"

fun event_field :: "string \<Rightarrow> queue_event \<Rightarrow> pyval" where
  "event_field key (QArtifact a) = stream_field (au_artifact_metadata a) key"
| "event_field key (QStatus s) = stream_field (su_metadata s) key"

fun artifact_of :: "queue_event \<Rightarrow> artifact_update option" where
  "artifact_of (QArtifact a) = Some a"
| "artifact_of (QStatus s) = None"

definition artifacts :: "queue_event list \<Rightarrow> artifact_update list" where
  "artifacts q = List.map_filter artifact_of q"

definition append_flags :: "queue_event list \<Rightarrow> bool option list" where
  "append_flags q = map au_append (artifacts q)"

text \<open>The text of the artifacts of one block, in the order they were sent.\<close>

definition sent_text :: "block_type \<Rightarrow> queue_event list \<Rightarrow> string" where
  "sent_text bt q = concat (map (\<lambda>a.
     if stream_field (au_artifact_metadata a) ''block_type'' = PStr (block_value bt)
     then part_text (au_part a) else []) (artifacts q))"

fun final_status :: "queue_event \<Rightarrow> bool" where
  "final_status (QArtifact a) = False"
| "final_status (QStatus s) = su_final s"

definition foreign_role :: "string option \<Rightarrow> bool" where
  "foreign_role r \<longleftrightarrow> r = Some ''user'' \<or> r = Some ''system''"

section \<open>Invariant\<close>

definition flags_from :: "nat \<Rightarrow> bool option list" where
  "flags_from n = (case n of 0 \<Rightarrow> [] | Suc m \<Rightarrow> Some False # replicate m (Some True))"

definition stream_ok :: "stream_sys \<Rightarrow> bool" where
  "stream_ok sys \<longleftrightarrow>
     map (event_field ''sequence'') (sy_queue sys) =
       map (\<lambda>n. PInt (int n)) [1..<Suc (os_sequence (sy_out sys))] \<and>
     append_flags (sy_queue sys) = flags_from (length (artifacts (sy_queue sys))) \<and>
     (os_emitted_stream_chunk (sy_out sys) \<longleftrightarrow> artifacts (sy_queue sys) \<noteq> []) \<and>
     (\<forall>e \<in> set (sy_queue sys). event_field ''role'' e \<notin> {PStr ''user'', PStr ''system''} \<and> \<not> final_status e) \<and>
     (\<forall>bt \<in> {TextBlock, ReasoningBlock}. content_buffer (sy_out sys) bt = sent_text bt (sy_queue sys))"

definition chunk_ok :: "stream_chunk \<Rightarrow> bool" where
  "chunk_ok ck \<longleftrightarrow> \<not> foreign_role (ck_role ck) \<and>
     (ck_block_type ck \<noteq> ToolCallBlock \<longrightarrow>
        ck_part ck = TextPart (ck_content_key ck) \<and> ck_accumulate ck \<and> ck_append ck)"

lemma artifacts_simps [simp]:
  "artifacts [] = []" "artifacts (p @ q) = artifacts p @ artifacts q"
  "artifacts [QArtifact a] = [a]" "artifacts [QStatus s] = []"
  by (simp_all add: artifacts_def map_filter_def)

lemma sent_text_simps [simp]:
  "sent_text bt [] = []" "sent_text bt (p @ q) = sent_text bt p @ sent_text bt q"
  "sent_text bt [QStatus s] = []"
  by (simp_all add: sent_text_def)

lemma append_flags_simps [simp]:
  "append_flags [] = []" "append_flags (p @ q) = append_flags p @ append_flags q"
  "append_flags [QStatus s] = []" "append_flags [QArtifact a] = [au_append a]"
  by (simp_all add: append_flags_def)

lemma flags_from_Suc: "flags_from (Suc n) = flags_from n @ [Some (n \<noteq> 0)]"
  by (cases n) (simp_all add: flags_from_def replicate_append_same)

lemma enqueue_sel [simp]:
  "sy_queue (enqueue e sys) = sy_queue sys @ [e]" "sy_out (enqueue e sys) = sy_out sys"
  "sy_signal (enqueue e sys) = sy_signal sys" "sy_stop (enqueue e sys) = sy_stop sys"
  "sy_parts (enqueue e sys) = sy_parts sys" "sy_pending (enqueue e sys) = sy_pending sys"
  "sy_sleeps (enqueue e sys) = sy_sleeps sys" "sy_client (enqueue e sys) = sy_client sys"
  by (simp_all add: enqueue_def)

lemma emit_metric_sel [simp]:
  "sy_queue (emit_metric m sys) = sy_queue sys" "sy_out (emit_metric m sys) = sy_out sys"
  "sy_signal (emit_metric m sys) = sy_signal sys" "sy_stop (emit_metric m sys) = sy_stop sys"
  "sy_parts (emit_metric m sys) = sy_parts sys" "sy_pending (emit_metric m sys) = sy_pending sys"
  "sy_sleeps (emit_metric m sys) = sy_sleeps sys" "sy_client (emit_metric m sys) = sy_client sys"
  by (simp_all add: emit_metric_def)

lemma stream_ok_cong:
  "sy_queue sys' = sy_queue sys \<Longrightarrow> os_sequence (sy_out sys') = os_sequence (sy_out sys) \<Longrightarrow>
   os_emitted_stream_chunk (sy_out sys') = os_emitted_stream_chunk (sy_out sys) \<Longrightarrow>
   os_content_buffers (sy_out sys') = os_content_buffers (sy_out sys) \<Longrightarrow>
   stream_ok sys \<Longrightarrow> stream_ok sys'"
  by (simp add: stream_ok_def content_buffer_def)

section \<open>Emission keeps the invariant\<close>

lemma field_simps [simp]:
  "stream_field (Some (build_stream_artifact_metadata bt src mid role eid (Some n))) ''sequence'' = PInt (int n)"
  "stream_field (Some (build_stream_artifact_metadata bt src mid role eid sq)) ''block_type'' = PStr (block_value bt)"
  "stream_field (Some (build_stream_artifact_metadata bt src mid role eid sq)) ''role'' =
    (if truthy_str role then PStr (the role) else PNone)"
  by (auto simp: stream_field_def build_stream_artifact_metadata_def truthy_entry_def pget_def
      split: option.split)

lemma status_field [simp]:
  "stream_field (build_output_metadata sid None None (Some d) progress interrupt None) key = pget d key"
  by (auto simp: stream_field_def build_output_metadata_def opt_entry_def pget_def split: option.split)

lemma block_value_inject [simp]: "block_value a = block_value b \<longleftrightarrow> a = b"
  by (cases a; cases b) simp_all

lemma stream_ok_status:
  assumes "stream_ok sys"
    and "stream_field (su_metadata u) ''sequence'' = PInt (int (Suc (os_sequence (sy_out sys))))"
    and "stream_field (su_metadata u) ''role'' = PNone" and "\<not> su_final u"
  shows "stream_ok (enqueue (QStatus u)
    (sys\<lparr>sy_out := (sy_out sys)\<lparr>os_sequence := Suc (os_sequence (sy_out sys))\<rparr>\<rparr>))"
  using assms by (simp add: stream_ok_def content_buffer_def)

lemma stream_ok_metric: "stream_ok (emit_metric m sys) = stream_ok sys"
  by (simp add: stream_ok_def)

lemma stream_ok_progress:
  "stream_ok sys \<Longrightarrow> stream_ok (emit_progress_status cx mid progress sys)"
  by (simp add: emit_progress_status_def next_sequence_def stream_meta_def stream_ok_status)

lemma stream_ok_interrupt:
  "stream_ok sys \<Longrightarrow> stream_ok (emit_interrupt_status cx st rid ty phase details resolution sys)"
  by (simp add: emit_interrupt_status_def next_sequence_def stream_meta_def Let_def stream_ok_status
      stream_ok_metric)

lemma structured_fallback_ok:
  assumes "chunk_ok ck" and "structured_fallback cx ck = Some ck'"
  shows "chunk_ok ck'" and "ck_block_type ck' = ck_block_type ck" and "ck_role ck' = ck_role ck"
  using assms by (auto simp: structured_fallback_def chunk_ok_def split: a2a_part.splits if_splits option.splits)

text \<open>The queue event of a chunk.\<close>

definition chunk_event :: "stream_ctx \<Rightarrow> stream_chunk \<Rightarrow> output_state \<Rightarrow> queue_event" where
  "chunk_event cx ck st = QArtifact
     \<lparr>au_task_id = cx_task_id cx, au_context_id = cx_context_id cx, au_artifact_id = cx_artifact_id cx,
      au_part = ck_part ck, au_append = Some (os_emitted_stream_chunk st), au_last_chunk = None,
      au_artifact_metadata = Some (build_stream_artifact_metadata (ck_block_type ck) (ck_shared_source ck)
        (Some (resolve_message_id (ck_message_id ck) st)) (ck_role ck)
        (Some (build_event_id (Suc (os_sequence st)) st)) (Some (Suc (os_sequence st)))),
      au_event_metadata = None\<rparr>"

definition emitted_state :: "stream_chunk \<Rightarrow> output_state \<Rightarrow> output_state" where
  "emitted_state ck st = st\<lparr>os_content_buffers := dict_set (ck_block_type ck)
        (if ck_append ck \<and> ck_accumulate ck then content_buffer st (ck_block_type ck) @ ck_content_key ck
         else ck_content_key ck) (os_content_buffers st),
      os_saw_any_chunk := True, os_emitted_stream_chunk := True, os_sequence := Suc (os_sequence st)\<rparr>"

lemma emit_chunk_cases:
  obtains (skip) "emit_chunk cx chunk sys = sys"
  | (send) ck where "structured_fallback cx chunk = Some ck"
      "sy_queue (emit_chunk cx chunk sys) = sy_queue sys @ [chunk_event cx ck (sy_out sys)]"
      "sy_out (emit_chunk cx chunk sys) = emitted_state ck (sy_out sys)"
proof (cases "structured_fallback cx chunk")
  case None
  then show ?thesis using skip by (simp add: emit_chunk_def)
next
  case (Some ck)
  let ?sys' = "emit_chunk cx chunk sys"
  let ?next = "if ck_append ck \<and> ck_accumulate ck
    then content_buffer (sy_out sys) (ck_block_type ck) @ ck_content_key ck else ck_content_key ck"
  show ?thesis
  proof (cases "should_drop_initial_user_echo (part_text (ck_part ck)) (ck_block_type ck) (ck_role ck) (sy_out sys)
      \<or> ?next = content_buffer (sy_out sys) (ck_block_type ck)")
    case True
    then have "?sys' = sys" by (auto simp: emit_chunk_def register_chunk_def Let_def Some)
    then show ?thesis by (rule skip)
  next
    case False
    then have "sy_queue ?sys' = sy_queue sys @ [chunk_event cx ck (sy_out sys)]"
      "sy_out ?sys' = emitted_state ck (sy_out sys)"
      by (simp_all add: emit_chunk_def Some register_chunk_def next_sequence_def Let_def chunk_event_def
          emitted_state_def artifact_update_event_def resolve_message_id_def build_event_id_def
          build_stream_artifact_metadata_def)
    then show ?thesis by (rule send [OF Some])
  qed
qed

lemma stream_ok_send:
  assumes "stream_ok sys" "chunk_ok ck" "sy_queue sys' = sy_queue sys @ [chunk_event cx ck (sy_out sys)]"
    and "sy_out sys' = emitted_state ck (sy_out sys)"
  shows "stream_ok sys'"
  unfolding stream_ok_def
proof (intro conjI ballI)
  show "map (event_field ''sequence'') (sy_queue sys') =
      map (\<lambda>n. PInt (int n)) [1..<Suc (os_sequence (sy_out sys'))]"
    using assms(1,3,4) by (simp add: stream_ok_def chunk_event_def emitted_state_def)
  show "append_flags (sy_queue sys') = flags_from (length (artifacts (sy_queue sys')))"
    using assms(1,3) by (auto simp: stream_ok_def chunk_event_def flags_from_Suc)
  show "os_emitted_stream_chunk (sy_out sys') = (artifacts (sy_queue sys') \<noteq> [])"
    using assms(3,4) by (simp add: chunk_event_def emitted_state_def)
  fix e assume "e \<in> set (sy_queue sys')"
  then show "event_field ''role'' e \<notin> {PStr ''user'', PStr ''system''}" "\<not> final_status e"
    using assms(1-3)
    by (auto simp: stream_ok_def chunk_event_def chunk_ok_def foreign_role_def split: if_splits)
next
  fix bt assume "bt \<in> {TextBlock, ReasoningBlock}"
  then show "content_buffer (sy_out sys') bt = sent_text bt (sy_queue sys')"
    using assms by (auto simp: stream_ok_def chunk_event_def emitted_state_def chunk_ok_def
        content_buffer_def sent_text_def dict_simps)
qed

lemma stream_ok_chunk: "stream_ok sys \<Longrightarrow> chunk_ok ck \<Longrightarrow> stream_ok (emit_chunk cx ck sys)"
  by (rule emit_chunk_cases [of cx ck sys]) (auto intro: stream_ok_send structured_fallback_ok(1))

lemma stream_ok_chunks:
  "stream_ok sys \<Longrightarrow> \<forall>ck \<in> set cks. chunk_ok ck \<Longrightarrow> stream_ok (emit_chunks cx cks sys)"
  unfolding emit_chunks_def by (induction cks arbitrary: sys) (simp_all add: stream_ok_chunk)

section \<open>Chunks of a part are well formed\<close>

lemma set_message_id_sel [simp]:
  "ps_role (set_message_id mid ps) = ps_role ps" "ps_block_type (set_message_id mid ps) = ps_block_type ps"
  "ps_buffer (set_message_id mid ps) = ps_buffer ps" "ps_saw_delta (set_message_id mid ps) = ps_saw_delta ps"
  by (simp_all add: set_message_id_def)

lemma text_chunk_ok: "\<not> foreign_role (ps_role ps) \<Longrightarrow> chunk_ok (new_text_chunk t src ps)"
  by (simp add: chunk_ok_def new_text_chunk_def)

lemma delta_chunks_ok:
  assumes "delta_chunks t mid src ps = (cks, ps')" "\<not> foreign_role (ps_role ps)"
  shows "\<forall>ck \<in> set cks. chunk_ok ck" "ps_role ps' = ps_role ps"
  using assms by (auto simp: delta_chunks_def Let_def text_chunk_ok split: if_splits)

lemma snapshot_chunks_ok:
  assumes "snapshot_chunks t mid ps = (cks, ps')" "\<not> foreign_role (ps_role ps)"
  shows "\<forall>ck \<in> set cks. chunk_ok ck" "ps_role ps' = ps_role ps"
  using assms by (auto simp: snapshot_chunks_def Let_def text_chunk_ok split: if_splits)

lemma tool_chunks_ok:
  assumes "tool_chunks fl part mid ps = (cks, ps')" "\<not> foreign_role (ps_role ps)" "ps_block_type ps = ToolCallBlock"
  shows "\<forall>ck \<in> set cks. chunk_ok ck" "ps_role ps' = ps_role ps"
  using assms by (auto simp: tool_chunks_def Let_def chunk_ok_def split: if_splits option.splits)

lemma part_chunks_ok:
  assumes "part_chunks cx props part mid ps = (cks, ps')" "\<not> foreign_role (ps_role ps)"
  shows "\<forall>ck \<in> set cks. chunk_ok ck" "ps_role ps' = ps_role ps"
  using assms delta_chunks_ok [OF _ assms(2)] snapshot_chunks_ok [OF _ assms(2)] tool_chunks_ok [OF _ assms(2)]
  by (auto simp: part_chunks_def split: pyval.splits list.splits if_splits option.splits; blast)+

lemma buffered_chunks_ok:
  assumes "buffered_chunks pds ps = (cks, ps')" "\<not> foreign_role (ps_role ps)"
  shows "(\<forall>ck \<in> set cks. chunk_ok ck) \<and> ps_role ps' = ps_role ps"
  using assms
proof (induction pds arbitrary: ps cks ps')
  case (Cons pd pds)
  obtain cs ps1 where d: "delta_chunks (pd_delta pd) (pd_message_id pd) ''delta_event_buffered'' ps = (cs, ps1)"
    by fastforce
  obtain cs' ps2 where b: "buffered_chunks pds ps1 = (cs', ps2)" by fastforce
  show ?case
    using Cons.prems Cons.IH [OF b] Cons.IH [OF _ Cons.prems(2)] delta_chunks_ok [OF d] d b
    by (auto split: if_splits)
qed simp

section \<open>Every event keeps the invariant\<close>

lemma stream_ok_out:
  "stream_ok sys \<Longrightarrow> os_sequence out = os_sequence (sy_out sys) \<Longrightarrow>
   os_emitted_stream_chunk out = os_emitted_stream_chunk (sy_out sys) \<Longrightarrow>
   os_content_buffers out = os_content_buffers (sy_out sys) \<Longrightarrow> stream_ok (sys\<lparr>sy_out := out\<rparr>)"
  by (erule stream_ok_cong [rotated 4]) simp_all

lemma stream_ok_fields [simp]:
  "stream_ok (sys\<lparr>sy_parts := p\<rparr>) = stream_ok sys" "stream_ok (sys\<lparr>sy_pending := d\<rparr>) = stream_ok sys"
  "stream_ok (sys\<lparr>sy_client := c\<rparr>) = stream_ok sys" "stream_ok (sys\<lparr>sy_stop := b\<rparr>) = stream_ok sys"
  "stream_ok (sys\<lparr>sy_signal := g\<rparr>) = stream_ok sys" "stream_ok (sys\<lparr>sy_sleeps := z\<rparr>) = stream_ok sys"
  by (simp_all add: stream_ok_def)

lemma register_progress_keeps:
  "register_progress i k st = (b, st') \<Longrightarrow> os_sequence st' = os_sequence st \<and>
    os_emitted_stream_chunk st' = os_emitted_stream_chunk st \<and> os_content_buffers st' = os_content_buffers st"
  by (auto simp: register_progress_def split: if_splits)

lemma mark_interrupt_keeps:
  "mark_interrupt_pending i st = (b, st') \<Longrightarrow> os_sequence st' = os_sequence st \<and>
    os_emitted_stream_chunk st' = os_emitted_stream_chunk st \<and> os_content_buffers st' = os_content_buffers st"
  "clear_interrupt_pending i st = (b, st') \<Longrightarrow> os_sequence st' = os_sequence st \<and>
    os_emitted_stream_chunk st' = os_emitted_stream_chunk st \<and> os_content_buffers st' = os_content_buffers st"
  by (auto simp: mark_interrupt_pending_def clear_interrupt_pending_def Let_def split: if_splits)

lemma stream_ok_progress_section: "stream_ok sys \<Longrightarrow> stream_ok (progress_section cx props sys)"
  by (auto simp: progress_section_def Let_def stream_ok_progress stream_ok_out
      split: pyval.splits option.splits prod.splits dest!: register_progress_keeps)

lemma stream_ok_signal_section: "stream_ok sys \<Longrightarrow> stream_ok (signal_section cx event sys)"
  by (auto simp: signal_section_def Let_def ingest_token_usage_def stream_ok_out
      split: option.splits if_splits)

lemma stream_ok_asked_section: "stream_ok sys \<Longrightarrow> stream_ok (asked_section cx event sys)"
  by (auto simp: asked_section_def Let_def stream_ok_interrupt stream_ok_out
      split: option.splits prod.splits dest!: mark_interrupt_keeps)

lemma stream_ok_resolved_section: "stream_ok sys \<Longrightarrow> stream_ok (resolved_section cx event sys)"
  by (auto simp: resolved_section_def Let_def stream_ok_interrupt stream_ok_out
      split: option.splits prod.splits dest!: mark_interrupt_keeps)

lemma foreign_role_set: "(r \<in> {Some ''user'', Some ''system''}) = foreign_role r"
  by (auto simp: foreign_role_def)

lemma stream_ok_delta: "stream_ok sys \<Longrightarrow> stream_ok (delta_event cx props pid mid sys)"
  unfolding delta_event_def foreign_role_set
  by (auto simp: Let_def split: pyval.split option.split prod.split
      intro!: stream_ok_chunks dest: delta_chunks_ok(1))

lemma stream_ok_updated:
  assumes "stream_ok sys"
  shows "stream_ok (updated_event cx props part pid mid sys)"
proof -
  obtain state parts where u: "upsert_part_state pid part (extract_stream_role part props) mid (sy_parts sys) = (state, parts)"
    by fastforce
  have "stream_ok (updated_event cx props part pid mid sys)" if "state = Some ps" "\<not> foreign_role (ps_role ps)" for ps
  proof -
    obtain cs1 ps1 where b: "buffered_chunks (case dict_get (sy_pending sys) pid of None \<Rightarrow> [] | Some ds \<Rightarrow> ds) ps = (cs1, ps1)"
      by fastforce
    obtain cs2 ps2 where c: "part_chunks cx props part mid ps1 = (cs2, ps2)" by fastforce
    show ?thesis
      using assms u that buffered_chunks_ok [OF b that(2)] part_chunks_ok [OF c]
      by (auto simp: updated_event_def Let_def b c foreign_role_def intro!: stream_ok_chunks)
  qed
  then show ?thesis
    using assms u by (auto simp: updated_event_def Let_def foreign_role_def split: option.split)
qed

lemma stream_ok_event: "stream_ok sys \<Longrightarrow> stream_ok (handle_event cx event sys)"
  by (auto simp: handle_event_def message_section_def Let_def split: pyval.split option.split
      intro!: stream_ok_delta stream_ok_updated stream_ok_resolved_section stream_ok_asked_section
        stream_ok_signal_section stream_ok_progress_section)

lemma stream_ok_items: "stream_ok sys \<Longrightarrow> stream_ok (process_items cx items sys)"
  by (induction cx items sys rule: process_items.induct) (simp_all add: stream_ok_event)

lemma stream_ok_loop: "stream_ok sys \<Longrightarrow> stream_ok (consume_loop cx attempts backoff sys)"
  by (induction cx attempts backoff sys rule: consume_loop.induct)
    (auto simp: Let_def stream_ok_items stream_ok_metric)

lemma stream_ok_new: "stream_ok (new_stream_sys (new_output_state u m n))"
  by (simp add: stream_ok_def new_stream_sys_def new_output_state_def append_flags_def artifacts_def
      map_filter_def flags_from_def content_buffer_def sent_text_def)

lemma stream_ok_consume: "stream_ok (consume cx attempts (new_output_state u m n))"
  unfolding consume_def by (rule stream_ok_loop [OF stream_ok_new])

section \<open>Properties of the queue\<close>

text \<open>
  The events of a stream carry the sequence numbers 1, 2, 3 and so on without a gap or a
  repetition, across artifact updates, progress and interrupt statuses and across reconnections.
\<close>

theorem stream_events_are_numbered:
  "map (event_field ''sequence'') (sy_queue (consume cx attempts (new_output_state u m n))) =
    map (\<lambda>k. PInt (int k)) [1..<Suc (length (sy_queue (consume cx attempts (new_output_state u m n))))]"
proof -
  let ?sys = "consume cx attempts (new_output_state u m n)"
  have e: "map (event_field ''sequence'') (sy_queue ?sys) = map (\<lambda>k. PInt (int k)) [1..<Suc (os_sequence (sy_out ?sys))]"
    using stream_ok_consume by (simp add: stream_ok_def)
  then have "length (sy_queue ?sys) = os_sequence (sy_out ?sys)" by (metis length_map length_upt diff_Suc_1)
  with e show ?thesis by simp
qed

text \<open>
  Of the artifact updates of a stream the first one starts the artifact and every later one
  appends to it.
\<close>

theorem first_update_starts_artifact:
  "append_flags (sy_queue (consume cx attempts (new_output_state u m n))) =
    (case artifacts (sy_queue (consume cx attempts (new_output_state u m n))) of
       [] \<Rightarrow> [] | a # as \<Rightarrow> Some False # map (\<lambda>_. Some True) as)"
  using stream_ok_consume [of cx attempts u m n]
  by (auto simp: stream_ok_def flags_from_def map_replicate_const split: list.split nat.split)

text \<open>
  C15: no event of a stream carries the role of the user or of the system: their parts are never
  sent to the client.
\<close>

theorem foreign_parts_never_sent:
  "list_all (\<lambda>e. event_field ''role'' e \<noteq> PStr ''user'' \<and> event_field ''role'' e \<noteq> PStr ''system'')
    (sy_queue (consume cx attempts (new_output_state u m n)))"
  using stream_ok_consume [of cx attempts u m n] by (auto simp: stream_ok_def list_all_iff)

text \<open>
  The text buffer that the final snapshot is compared with is exactly the concatenation of the
  text sent so far: the final snapshot is sent if and only if it differs, up to surrounding white
  space, from what the client has received, and it is not blank.
\<close>

theorem final_snapshot_sent_iff_new:
  "fst (should_emit_final_snapshot text (sy_out (consume cx attempts (new_output_state u m n)))) \<longleftrightarrow>
    py_strip text \<noteq> [] \<and>
    py_strip text \<noteq> py_strip (sent_text TextBlock (sy_queue (consume cx attempts (new_output_state u m n))))"
  using stream_ok_consume [of cx attempts u m n]
  by (auto simp: stream_ok_def should_emit_final_snapshot_def)

section \<open>Frames\<close>

abbreviation same_control :: "stream_sys \<Rightarrow> stream_sys \<Rightarrow> bool" where
  "same_control sys sys' \<equiv> sy_signal sys' = sy_signal sys \<and> sy_stop sys' = sy_stop sys"

lemma control_chunk: "same_control sys (emit_chunk cx ck sys)"
  by (simp add: emit_chunk_def Let_def case_prod_unfold split: option.split)

lemma control_chunks: "same_control sys (emit_chunks cx cks sys)"
  unfolding emit_chunks_def by (induction cks arbitrary: sys) (simp_all add: control_chunk)

lemma control_interrupt: "same_control sys (emit_interrupt_status cx st rid ty ph d r sys)"
  by (simp add: emit_interrupt_status_def next_sequence_def Let_def)

lemma control_sections:
  "same_control sys (progress_section cx props sys)"
  "same_control sys (asked_section cx event sys)"
  "same_control sys (resolved_section cx event sys)"
  "same_control sys (message_section cx ty props sys)"
  by (simp_all add: progress_section_def asked_section_def resolved_section_def message_section_def
      delta_event_def updated_event_def emit_progress_status_def next_sequence_def Let_def case_prod_unfold
      control_chunks control_interrupt split: pyval.split option.split)

text \<open>The queue only grows.\<close>

abbreviation grows :: "stream_sys \<Rightarrow> stream_sys \<Rightarrow> bool" where
  "grows sys sys' \<equiv> prefix (sy_queue sys) (sy_queue sys')"

lemma grows_chunk: "grows sys (emit_chunk cx ck sys)"
  by (rule emit_chunk_cases [of cx ck sys]) simp_all

lemma grows_chunks: "grows sys (emit_chunks cx cks sys)"
  unfolding emit_chunks_def
  by (induction cks arbitrary: sys) (auto intro: prefix_order.trans grows_chunk)

lemma grows_interrupt: "grows sys (emit_interrupt_status cx st rid ty ph d r sys)"
  by (simp add: emit_interrupt_status_def next_sequence_def Let_def)

lemma grows_cong: "grows sys1 sys' \<Longrightarrow> sy_queue sys1 = sy_queue sys \<Longrightarrow> grows sys sys'"
  by simp

lemma grows_sections:
  "grows sys (progress_section cx props sys)" "grows sys (signal_section cx event sys)"
  "grows sys (asked_section cx event sys)" "grows sys (resolved_section cx event sys)"
  "grows sys (message_section cx ty props sys)"
  by (auto simp: progress_section_def signal_section_def asked_section_def resolved_section_def
      message_section_def delta_event_def updated_event_def emit_progress_status_def next_sequence_def
      Let_def case_prod_unfold intro!: grows_cong [OF grows_chunks] grows_cong [OF grows_interrupt]
      split: pyval.split option.split)

lemma grows_event: "grows sys (handle_event cx event sys)"
proof -
  have step: "grows sys sys1 \<Longrightarrow> grows sys1 sys2 \<Longrightarrow> grows sys sys2" for sys1 sys2
    by (rule prefix_order.trans)
  have "grows sys (message_section cx ty props (resolved_section cx event (asked_section cx event
      (signal_section cx event (progress_section cx props sys)))))" for ty props
    by (rule step [OF step [OF step [OF step]]]) (rule grows_sections)+
  then show ?thesis
    by (auto simp: handle_event_def grows_sections split: pyval.split)
qed

section \<open>The terminal signal\<close>

definition session_signal :: "stream_ctx \<Rightarrow> pdict \<Rightarrow> terminal_signal option" where
  "session_signal cx event =
     (if extract_event_session_id event = Some (cx_session_id cx) then extract_stream_terminal_signal event
      else None)"

fun first_signal :: "stream_ctx \<Rightarrow> stream_item list \<Rightarrow> terminal_signal option" where
  "first_signal cx [] = None"
| "first_signal cx (StopSet # xs) = None"
| "first_signal cx (Event e # xs) =
     (case session_signal cx e of Some s \<Rightarrow> Some s | None \<Rightarrow> first_signal cx xs)"

lemma event_session_needs_properties:
  "extract_event_session_id event = Some s \<Longrightarrow> \<exists>props. pget event ''properties'' = PDict props"
  by (auto simp: extract_event_session_id_def split: pyval.splits)

lemma signal_needs_type:
  "extract_stream_terminal_signal event = Some s \<Longrightarrow> \<exists>ty. pget event ''type'' = PStr ty"
  by (auto simp: extract_stream_terminal_signal_def split: if_splits)

lemma signal_section_control:
  "sy_signal sys = None \<Longrightarrow> sy_signal (signal_section cx event sys) = extract_stream_terminal_signal event"
  "sy_signal sys = None \<Longrightarrow> sy_stop (signal_section cx event sys) =
    (sy_stop sys \<or> extract_stream_terminal_signal event \<noteq> None)"
  by (simp_all add: signal_section_def Let_def split: option.split)

lemma handle_event_control:
  assumes "sy_signal sys = None"
  shows "sy_signal (handle_event cx event sys) = session_signal cx event"
    and "sy_stop (handle_event cx event sys) = (sy_stop sys \<or> session_signal cx event \<noteq> None)"
proof -
  have "session_signal cx event = None"
    if "\<not> (\<exists>ty props. pget event ''type'' = PStr ty \<and> pget event ''properties'' = PDict props)"
    using that event_session_needs_properties [of event] signal_needs_type [of event]
    by (cases "extract_stream_terminal_signal event") (auto simp: session_signal_def)
  then show "sy_signal (handle_event cx event sys) = session_signal cx event"
    "sy_stop (handle_event cx event sys) = (sy_stop sys \<or> session_signal cx event \<noteq> None)"
    using assms by (auto simp: handle_event_def control_sections signal_section_control session_signal_def
        split: pyval.split)
qed

lemma process_items_stopped: "sy_stop sys \<Longrightarrow> process_items cx items sys = sys"
  by (induction cx items sys rule: process_items.induct) simp_all

lemma process_items_signal:
  "sy_signal sys = None \<Longrightarrow> \<not> sy_stop sys \<Longrightarrow> sy_signal (process_items cx items sys) = first_signal cx items"
proof (induction cx items sys rule: process_items.induct)
  case (2 cx xs sys)
  then show ?case by (simp add: process_items_stopped)
next
  case (3 cx e xs sys)
  then show ?case
    by (cases "session_signal cx e") (simp_all add: handle_event_control process_items_stopped)
qed simp

lemma process_items_after_signal:
  "sy_signal sys = None \<Longrightarrow> \<not> sy_stop sys \<Longrightarrow> first_signal cx xs \<noteq> None \<Longrightarrow>
    process_items cx (xs @ ys) sys = process_items cx xs sys"
proof (induction cx xs sys rule: process_items.induct)
  case (3 cx e xs sys)
  then show ?case
    by (cases "session_signal cx e") (simp_all add: handle_event_control process_items_stopped)
qed simp_all

lemma new_stream_sys_sel [simp]:
  "sy_signal (new_stream_sys out) = None" "\<not> sy_stop (new_stream_sys out)" "sy_queue (new_stream_sys out) = []"
  "sy_sleeps (new_stream_sys out) = []" "sy_out (new_stream_sys out) = out"
  by (simp_all add: new_stream_sys_def)

text \<open>
  The terminal signal of a subscription is that of the first terminal event of the session,
  and nothing that arrives after that event has any effect.
\<close>

theorem first_terminal_event_wins:
  "sy_signal (consume cx [(items, b)] out) = first_signal cx items \<and>
   (first_signal cx items = None \<or> consume cx [(items @ later, b)] out = consume cx [(items, b)] out)"
proof (cases "first_signal cx items = None")
  case True
  then show ?thesis
    using process_items_signal [of "new_stream_sys out" cx items] by (simp add: consume_def Let_def)
next
  case False
  then have "process_items cx (items @ later) (new_stream_sys out) = process_items cx items (new_stream_sys out)"
    by (intro process_items_after_signal) simp_all
  then show ?thesis
    using process_items_signal [of "new_stream_sys out" cx items] by (simp add: consume_def Let_def)
qed

section \<open>Other sessions\<close>

definition other_session :: "stream_ctx \<Rightarrow> pdict \<Rightarrow> bool" where
  "other_session cx event \<longleftrightarrow> extract_event_session_id event \<noteq> Some (cx_session_id cx) \<and>
     (let props = mapping_or_empty (pget event ''properties'')
      in extract_stream_session_id (mapping_or_empty (pget props ''part'')) props \<noteq> Some (cx_session_id cx))"

fun keep_item :: "stream_ctx \<Rightarrow> stream_item \<Rightarrow> bool" where
  "keep_item cx (Event e) = (\<not> other_session cx e)"
| "keep_item cx StopSet = True"

lemma other_session_ignored: "other_session cx event \<Longrightarrow> handle_event cx event sys = sys"
  by (auto simp: other_session_def handle_event_def message_section_def Let_def split: pyval.split)

lemma process_items_filter:
  "process_items cx (filter (keep_item cx) items) sys = process_items cx items sys"
  by (induction cx items sys rule: process_items.induct)
    (auto simp: other_session_ignored process_items_stopped)

text \<open>
  Events of other sessions, which share the same upstream stream, have no effect: deleting
  them from every subscription changes neither the events sent nor any state.
\<close>

theorem other_sessions_have_no_effect:
  "consume cx (map (\<lambda>(items, b). (filter (keep_item cx) items, b)) attempts) out = consume cx attempts out"
proof -
  have "consume_loop cx (map (\<lambda>(items, b). (filter (keep_item cx) items, b)) attempts) backoff sys =
      consume_loop cx attempts backoff sys" for backoff sys
    by (induction cx attempts backoff sys rule: consume_loop.induct) (simp_all add: process_items_filter Let_def)
  then show ?thesis by (simp add: consume_def)
qed

section \<open>Interrupts\<close>

text \<open>The interrupt phases the queue reports for a request.\<close>

definition shared_field :: "pdict option \<Rightarrow> string \<Rightarrow> pyval" where
  "shared_field md key = (case md of None \<Rightarrow> PNone | Some d \<Rightarrow> vget (vget (PDict d) ''shared'') key)"

fun interrupt_phase :: "string \<Rightarrow> queue_event \<Rightarrow> pyval list" where
  "interrupt_phase rid (QArtifact a) = []"
| "interrupt_phase rid (QStatus s) =
     (let i = shared_field (su_metadata s) ''interrupt''
      in if vget i ''request_id'' = PStr rid then [vget i ''phase''] else [])"

definition interrupt_phases :: "string \<Rightarrow> queue_event list \<Rightarrow> pyval list" where
  "interrupt_phases rid q = concat (map (interrupt_phase rid) q)"

text \<open>Asked and resolved alternate, starting with asked; the result says whether the last is asked.\<close>

fun open_after :: "bool \<Rightarrow> pyval list \<Rightarrow> bool option" where
  "open_after b [] = Some b"
| "open_after b (x # xs) =
     (if x = PStr ''asked'' \<and> \<not> b then open_after True xs
      else if x = PStr ''resolved'' \<and> b then open_after False xs else None)"

definition interrupts_ok :: "stream_sys \<Rightarrow> bool" where
  "interrupts_ok sys \<longleftrightarrow> (\<forall>rid. open_after False (interrupt_phases rid (sy_queue sys)) =
     Some (rid \<in> os_pending_interrupts (sy_out sys)))"

lemma open_after_append:
  "open_after b (xs @ ys) = (case open_after b xs of None \<Rightarrow> None | Some b' \<Rightarrow> open_after b' ys)"
  by (induction b xs rule: open_after.induct) auto

lemma interrupt_phases_simps [simp]:
  "interrupt_phases rid [] = []"
  "interrupt_phases rid (p @ q) = interrupt_phases rid p @ interrupt_phases rid q"
  "interrupt_phases rid [e] = interrupt_phase rid e"
  by (simp_all add: interrupt_phases_def)

lemma interrupts_ok_quiet:
  assumes "interrupts_ok sys" and "sy_queue sys' = sy_queue sys @ es"
    and "\<forall>e \<in> set es. \<forall>rid. interrupt_phase rid e = []"
    and "os_pending_interrupts (sy_out sys') = os_pending_interrupts (sy_out sys)"
  shows "interrupts_ok sys'"
proof -
  have "interrupt_phases rid es = []" for rid using assms(3) by (simp add: interrupt_phases_def)
  then show ?thesis using assms(1,2,4) by (simp add: interrupts_ok_def)
qed

lemma interrupts_ok_chunk: "interrupts_ok sys \<Longrightarrow> interrupts_ok (emit_chunk cx ck sys)"
  by (rule emit_chunk_cases [of cx ck sys])
    (auto intro: interrupts_ok_quiet simp: chunk_event_def emitted_state_def)

lemma interrupts_ok_chunks: "interrupts_ok sys \<Longrightarrow> interrupts_ok (emit_chunks cx cks sys)"
  unfolding emit_chunks_def by (induction cks arbitrary: sys) (simp_all add: interrupts_ok_chunk)

lemma shared_interrupt [simp]:
  "shared_field (build_output_metadata sid None None (Some st) pr i None) ''interrupt'' =
    (case i of None \<Rightarrow> PNone | Some x \<Rightarrow> PDict x)"
  by (auto simp: shared_field_def build_output_metadata_def opt_entry_def pget_def split: option.split)

lemma interrupts_ok_progress: "interrupts_ok sys \<Longrightarrow> interrupts_ok (emit_progress_status cx mid pr sys)"
  by (simp add: interrupts_ok_def emit_progress_status_def next_sequence_def)

lemma interrupt_status_phase:
  "interrupt_phases rid (sy_queue (emit_interrupt_status cx st r ty phase details resolution sys)) =
    interrupt_phases rid (sy_queue sys) @ (if r = rid then [PStr phase] else [])"
  "os_pending_interrupts (sy_out (emit_interrupt_status cx st r ty phase details resolution sys)) =
    os_pending_interrupts (sy_out sys)"
  by (simp_all add: emit_interrupt_status_def next_sequence_def Let_def)

lemma first_nonempty_stripped:
  "first_nonempty_string d ks = Some s \<Longrightarrow> py_strip s = s \<and> s \<noteq> []"
  by (induction d ks rule: first_nonempty_string.induct)
    (auto simp: nonempty_def split: option.splits if_splits elim!: nonempty_strip.elims)

lemma asked_request_id:
  assumes "extract_interrupt_asked_event event = Some a"
  shows "py_strip (ae_request_id a) = ae_request_id a \<and> ae_request_id a \<noteq> []"
proof -
  obtain props where "first_nonempty_string props [''id''] = Some (ae_request_id a)"
  proof (cases "pget event ''properties''")
    case (PDict props)
    then have "first_nonempty_string props [''id''] = Some (ae_request_id a)"
      using assms unfolding extract_interrupt_asked_event_def
      by (cases "first_nonempty_string props [''id'']") (simp_all split: if_splits, auto)
    then show ?thesis by (rule that)
  qed (use assms in \<open>simp_all add: extract_interrupt_asked_event_def split: if_splits\<close>)
  then show ?thesis by (rule first_nonempty_stripped)
qed

lemma resolved_request_id:
  assumes "extract_interrupt_resolved_event event = Some a"
  shows "py_strip (re_request_id a) = re_request_id a \<and> re_request_id a \<noteq> []"
proof -
  obtain ty where ty: "pget event ''type'' = PStr ty"
    using assms by (cases "pget event ''type''") (simp_all add: extract_interrupt_resolved_event_def)
  obtain props where "first_nonempty_string props [''requestID''] = Some (re_request_id a)"
  proof (cases "pget event ''properties''")
    case (PDict props)
    then have "first_nonempty_string props [''requestID''] = Some (re_request_id a)"
      using assms ty unfolding extract_interrupt_resolved_event_def
      by (cases "first_nonempty_string props [''requestID'']") (simp_all split: if_splits, auto)
    then show ?thesis by (rule that)
  qed (use assms ty in \<open>simp_all add: extract_interrupt_resolved_event_def split: if_splits\<close>)
  then show ?thesis by (rule first_nonempty_stripped)
qed

lemma interrupts_ok_asked:
  assumes "interrupts_ok sys"
  shows "interrupts_ok (asked_section cx event sys)"
proof (cases "extract_interrupt_asked_event event")
  case None
  then show ?thesis using assms by (simp add: asked_section_def)
next
  case (Some a)
  then show ?thesis
    using assms asked_request_id [OF Some]
    by (simp add: asked_section_def mark_interrupt_pending_def Let_def interrupts_ok_def
        interrupt_status_phase open_after_append)
qed

lemma interrupts_ok_resolved:
  assumes "interrupts_ok sys"
  shows "interrupts_ok (resolved_section cx event sys)"
proof (cases "extract_interrupt_resolved_event event")
  case None
  then show ?thesis using assms by (simp add: resolved_section_def)
next
  case (Some a)
  then show ?thesis
    using assms resolved_request_id [OF Some]
    by (simp add: resolved_section_def clear_interrupt_pending_def Let_def interrupts_ok_def
        interrupt_status_phase open_after_append)
qed

lemma interrupts_ok_out:
  "interrupts_ok sys \<Longrightarrow> os_pending_interrupts out = os_pending_interrupts (sy_out sys) \<Longrightarrow>
    interrupts_ok (sys\<lparr>sy_out := out\<rparr>)"
  by (simp add: interrupts_ok_def)

lemma interrupts_ok_fields [simp]:
  "interrupts_ok (sys\<lparr>sy_parts := p\<rparr>) = interrupts_ok sys" "interrupts_ok (sys\<lparr>sy_pending := d\<rparr>) = interrupts_ok sys"
  "interrupts_ok (sys\<lparr>sy_stop := b\<rparr>) = interrupts_ok sys" "interrupts_ok (sys\<lparr>sy_signal := g\<rparr>) = interrupts_ok sys"
  "interrupts_ok (sys\<lparr>sy_sleeps := z\<rparr>) = interrupts_ok sys" "interrupts_ok (emit_metric m sys) = interrupts_ok sys"
  by (simp_all add: interrupts_ok_def)

lemma interrupts_ok_quiet_sections:
  assumes "interrupts_ok sys"
  shows "interrupts_ok (progress_section cx props sys)" "interrupts_ok (signal_section cx event sys)"
    "interrupts_ok (message_section cx ty props sys)"
proof -
  show "interrupts_ok (progress_section cx props sys)"
    using assms by (auto simp: progress_section_def register_progress_def Let_def interrupts_ok_progress
        interrupts_ok_out split: pyval.split option.split)
  show "interrupts_ok (signal_section cx event sys)"
    using assms by (auto simp: signal_section_def ingest_token_usage_def Let_def interrupts_ok_out
        split: option.split)
  show "interrupts_ok (message_section cx ty props sys)"
    using assms by (auto simp: message_section_def delta_event_def updated_event_def Let_def case_prod_unfold
        interrupts_ok_chunks split: pyval.split option.split)
qed

lemma interrupts_ok_event: "interrupts_ok sys \<Longrightarrow> interrupts_ok (handle_event cx event sys)"
  by (simp add: handle_event_def interrupts_ok_quiet_sections interrupts_ok_asked interrupts_ok_resolved
      split: pyval.split)

lemma interrupts_ok_items: "interrupts_ok sys \<Longrightarrow> interrupts_ok (process_items cx items sys)"
  by (induction cx items sys rule: process_items.induct) (simp_all add: interrupts_ok_event)

lemma interrupts_ok_consume: "interrupts_ok (consume cx attempts (new_output_state u m n))"
proof -
  have "interrupts_ok sys \<Longrightarrow> interrupts_ok (consume_loop cx attempts backoff sys)" for backoff sys
    by (induction cx attempts backoff sys rule: consume_loop.induct) (auto simp: Let_def interrupts_ok_items)
  moreover have "interrupts_ok (new_stream_sys (new_output_state u m n))"
    by (simp add: interrupts_ok_def new_output_state_def)
  ultimately show ?thesis by (simp add: consume_def)
qed


section \<open>Reconnection\<close>

lemma sleeps_chunks: "sy_sleeps (emit_chunks cx cks sys) = sy_sleeps sys"
proof -
  have "sy_sleeps (emit_chunk cx ck sys) = sy_sleeps sys" for ck sys
    by (simp add: emit_chunk_def Let_def case_prod_unfold split: option.split)
  then show ?thesis unfolding emit_chunks_def by (induction cks arbitrary: sys) simp_all
qed

lemma sleeps_interrupt: "sy_sleeps (emit_interrupt_status cx st rid ty ph d r sys) = sy_sleeps sys"
  by (simp add: emit_interrupt_status_def next_sequence_def Let_def)

lemma sleeps_sections:
  "sy_sleeps (progress_section cx props sys) = sy_sleeps sys"
  "sy_sleeps (asked_section cx event sys) = sy_sleeps sys"
  "sy_sleeps (resolved_section cx event sys) = sy_sleeps sys"
  "sy_sleeps (message_section cx ty props sys) = sy_sleeps sys"
  "sy_sleeps (signal_section cx event sys) = sy_sleeps sys"
  by (simp_all add: progress_section_def asked_section_def resolved_section_def message_section_def
      signal_section_def delta_event_def updated_event_def emit_progress_status_def next_sequence_def Let_def
      case_prod_unfold sleeps_chunks sleeps_interrupt split: pyval.split option.split)

lemma sleeps_event: "sy_sleeps (handle_event cx event sys) = sy_sleeps sys"
  by (simp add: handle_event_def sleeps_sections split: pyval.split)

lemma sleeps_items: "sy_sleeps (process_items cx items sys) = sy_sleeps sys"
  by (induction cx items sys rule: process_items.induct) (simp_all add: sleeps_event)

definition pause :: "nat \<Rightarrow> rat" where
  "pause k = min (2 ^ k / 2) 5"

lemma pause_Suc: "min (pause k * 2) 5 = pause (Suc k)"
  by (auto simp: pause_def min_def)

lemma sleeps_loop:
  "\<exists>j \<le> length attempts. sy_sleeps (consume_loop cx attempts (pause k) sys) =
    sy_sleeps sys @ map pause [k..<k + j]"
proof (induction attempts arbitrary: k sys)
  case Nil
  show ?case by simp
next
  case (Cons a attempts)
  obtain items broken where a: "a = (items, broken)" by fastforce
  let ?sys1 = "process_items cx items sys"
  show ?case
  proof (cases "sy_stop sys \<or> \<not> broken \<or> sy_stop ?sys1")
    case True
    then have "sy_sleeps (consume_loop cx (a # attempts) (pause k) sys) = sy_sleeps sys @ map pause [k..<k + 0]"
      by (auto simp: a sleeps_items Let_def)
    then show ?thesis by (intro exI [of _ 0]) simp
  next
    case False
    define sys2 where "sys2 = (emit_metric ''opencode_stream_retries_total'' ?sys1)
      \<lparr>sy_sleeps := sy_sleeps (emit_metric ''opencode_stream_retries_total'' ?sys1) @ [pause k]\<rparr>"
    have eq: "consume_loop cx (a # attempts) (pause k) sys = consume_loop cx attempts (pause (Suc k)) sys2"
      using False by (simp add: a Let_def pause_Suc sys2_def)
    obtain j where j: "j \<le> length attempts" "sy_sleeps (consume_loop cx attempts (pause (Suc k)) sys2) =
        sy_sleeps sys2 @ map pause [Suc k..<Suc k + j]"
      using Cons.IH by blast
    then show ?thesis
      by (intro exI [of _ "Suc j"])
        (simp add: eq sys2_def sleeps_items upt_rec [of k "Suc (k + j)"] del: upt_Suc)
  qed
qed

text \<open>
  The pauses between subscriptions are 0.5, 1, 2, 4 seconds and then 5 seconds each, at most
  one per broken subscription.
\<close>

theorem reconnection_pauses:
  "\<exists>j \<le> length attempts. sy_sleeps (consume cx attempts out) = map pause [0..<j]"
proof -
  have "pause 0 = 1 / 2" by (simp add: pause_def min_def)
  then show ?thesis
    using sleeps_loop [of attempts cx 0 "new_stream_sys out"]
    by (simp only: consume_def new_stream_sys_sel append_Nil add_0)
qed

section \<open>Rewritten snapshots\<close>

definition sample_ctx :: stream_ctx where
  "sample_ctx = \<lparr>cx_session_id = ''s1'', cx_identity = ''alice'', cx_task_id = ''t1'', cx_context_id = ''c1'',
     cx_artifact_id = ''a1'', cx_allow_structured_output = True,
     cx_floats = \<lparr>pf_repr = (\<lambda>_. []), pf_parse = (\<lambda>_. None)\<rparr>\<rparr>"

definition text_updated :: "string \<Rightarrow> stream_item" where
  "text_updated t = Event [(''type'', PStr ''message.part.updated''),
     (''properties'', PDict [(''part'', PDict [(''id'', PStr ''p1''), (''sessionID'', PStr ''s1''),
        (''messageID'', PStr ''m1''), (''type'', PStr ''text''), (''text'', PStr t)])])]"

definition text_delta :: "string \<Rightarrow> stream_item" where
  "text_delta t = Event [(''type'', PStr ''message.part.delta''),
     (''properties'', PDict [(''sessionID'', PStr ''s1''), (''messageID'', PStr ''m1''), (''partID'', PStr ''p1''),
        (''field'', PStr ''text''), (''delta'', PStr t)])]"

definition sent_for :: "stream_item list \<Rightarrow> string" where
  "sent_for items = sent_text TextBlock
     (sy_queue (consume sample_ctx [(items, False)] (new_output_state ''hi'' ''m0'' ''ns'')))"

text \<open>
  The text of a snapshot is stripped before it is compared with the text already sent, and a
  snapshot that is not an extension of it replaces the buffer without being sent.  So a snapshot
  that only repeats what was streamed, or an older one, makes the next snapshot be sent again in
  part: the client receives the line break twice, or the last letters twice.
\<close>

theorem rewritten_snapshot_duplicates_text:
  "sent_for [text_updated ''Hi'', text_delta [CHR 0x0A], text_updated (''Hi'' @ [CHR 0x0A]),
     text_updated (''Hi'' @ [CHR 0x0A] @ ''you'')] = ''Hi'' @ [CHR 0x0A, CHR 0x0A] @ ''you'' \<and>
   sent_for [text_updated ''Hello'', text_updated ''Hel'', text_updated ''Hello''] = ''Hellolo''"
  by code_simp

text \<open>
  As long as each snapshot of a text part extends what is in its buffer, the text sent for the
  part is exactly what brings the buffer up to the snapshot.
\<close>

theorem snapshot_sends_the_difference:
  assumes "prefix (ps_buffer ps) snapshot" and "snapshot_chunks snapshot mid ps = (cks, ps')"
  shows "ps_buffer ps @ concat (map (\<lambda>ck. part_text (ck_part ck)) cks) = snapshot \<and> ps_buffer ps' = snapshot"
  using assms by (auto simp: snapshot_chunks_def Let_def new_text_chunk_def prefix_def split: if_splits)

theorem snapshot_sends_the_difference_witness:
  "concat (map (\<lambda>ck. part_text (ck_part ck)) (fst (snapshot_chunks ''Hello'' None
     \<lparr>ps_block_type = TextBlock, ps_message_id = None, ps_role = None, ps_buffer = ''Hel'', ps_saw_delta = True\<rparr>)))
   = ''lo''"
  using snapshot_sends_the_difference [of
      "\<lparr>ps_block_type = TextBlock, ps_message_id = None, ps_role = None, ps_buffer = ''Hel'', ps_saw_delta = True\<rparr>"
      "''Hello''" None _ _, OF _ prod.collapse [symmetric]]
  by simp

end
