(* ===== verification/Request_Context.thy ===== *)
theory Request_Context
  imports Output_Modes
begin

text \<open>
  What one A2A request asks for: the namespaced metadata (\<open>metadata_access.py\<close>,
  \<open>execution/request_context.py\<close>), the input parts mapped to OpenCode's
  (\<open>parts/mapping.py\<close>, \<open>parts/text.py\<close>) and the directory the sandbox policy grants
  (\<open>sandbox_policy.py\<close>).
\<close>

section \<open>Namespaced metadata\<close>

fun walk_path :: "string list \<Rightarrow> pyval \<Rightarrow> pyval" where
  "walk_path [] current = current"
| "walk_path (key # path) current =
     (case current of PDict d \<Rightarrow> walk_path path (pget d key) | _ \<Rightarrow> PNone)"

definition extract_namespaced_value :: "pyval \<Rightarrow> string \<Rightarrow> string list \<Rightarrow> pyval" where
  "extract_namespaced_value source namespace path =
     (case source of
        PDict d \<Rightarrow> (case pget d namespace of PDict current \<Rightarrow> walk_path path (PDict current) | _ \<Rightarrow> PNone)
      | _ \<Rightarrow> PNone)"

fun extract_first_namespaced_string :: "pyval list \<Rightarrow> string \<Rightarrow> string list \<Rightarrow> string option" where
  "extract_first_namespaced_string [] namespace path = None"
| "extract_first_namespaced_string (source # sources) namespace path =
     (case extract_namespaced_value source namespace path of
        PStr s \<Rightarrow> (if py_strip s \<noteq> [] then Some (py_strip s)
                   else extract_first_namespaced_string sources namespace path)
      | _ \<Rightarrow> extract_first_namespaced_string sources namespace path)"

section \<open>Input parts\<close>

text \<open>
  An input part by its \<open>kind\<close>; a text part whose text is not a string is \<open>InText None\<close>.  The
  attributes of a file payload are the values \<open>getattr\<close> returns, \<open>None\<close> by default.
\<close>

record file_payload =
  fp_mime_type :: pyval
  fp_mimeType :: pyval
  fp_name :: pyval
  fp_bytes :: pyval
  fp_uri :: pyval

datatype input_part = InText "string option" | InFile "file_payload option" | InData | InOther

fun normalize_string :: "pyval \<Rightarrow> string option" where
  "normalize_string (PStr s) = nonempty (py_strip s)"
| "normalize_string _ = None"

fun text_of_part :: "input_part \<Rightarrow> string list" where
  "text_of_part (InText (Some t)) = [t]"
| "text_of_part _ = []"

text \<open>The argument is \<open>None\<close> when the parts are not a list.\<close>

definition extract_text_from_a2a_parts :: "input_part list option \<Rightarrow> string" where
  "extract_text_from_a2a_parts parts =
     (case parts of
        None \<Rightarrow> []
      | Some ps \<Rightarrow> py_strip (py_join [CHR 0x0A] (concat (map text_of_part ps))))"

fun filename_of_part :: "input_part \<Rightarrow> string list" where
  "filename_of_part (InFile file) =
     (case (case file of None \<Rightarrow> PNone | Some f \<Rightarrow> fp_name f) of
        PStr name \<Rightarrow> [if py_strip name \<noteq> [] then py_strip name else ''file'']
      | _ \<Rightarrow> [''file''])"
| "filename_of_part _ = []"

definition summarize_a2a_parts :: "input_part list option \<Rightarrow> string option" where
  "summarize_a2a_parts parts =
     (let text = extract_text_from_a2a_parts parts
      in if text \<noteq> [] then Some (take 80 text)
         else case parts of
                None \<Rightarrow> None
              | Some ps \<Rightarrow>
                  (case concat (map filename_of_part ps) of
                     [] \<Rightarrow> None
                   | [name] \<Rightarrow> Some name
                   | names \<Rightarrow> Some (take 80 (py_join '', '' (take 3 names)))))"

text \<open>The \<open>or\<close> of two attribute values, and the prefix of an error message.\<close>

definition py_or :: "pyval \<Rightarrow> pyval \<Rightarrow> pyval" where
  "py_or x y = (if truthy x then x else y)"

definition at_part :: "nat \<Rightarrow> string \<Rightarrow> string" where
  "at_part index text = ''request.parts['' @ nat_str index @ ''] '' @ text"

definition file_part :: "string \<Rightarrow> string \<Rightarrow> string option \<Rightarrow> pdict" where
  "file_part url mime name =
     [(''type'', PStr ''file''), (''url'', PStr url), (''mime'', PStr mime)]
     @ (case name of None \<Rightarrow> [] | Some n \<Rightarrow> [(''filename'', PStr n)])"

definition map_file_part :: "nat \<Rightarrow> file_payload option \<Rightarrow> string + pdict" where
  "map_file_part index file_value =
     (case file_value of
        None \<Rightarrow> Inl (at_part index ''FilePart is missing the file payload.'')
      | Some f \<Rightarrow>
          (let mime = (case normalize_string (py_or (fp_mime_type f) (fp_mimeType f)) of
                 Some m \<Rightarrow> m | None \<Rightarrow> ''application/octet-stream'');
               name = normalize_string (fp_name f)
           in case normalize_string (fp_bytes f) of
                Some b \<Rightarrow> Inr (file_part (''data:'' @ mime @ '';base64,'' @ b) mime name)
              | None \<Rightarrow>
                  (case normalize_string (fp_uri f) of
                     Some uri \<Rightarrow> Inr (file_part uri mime name)
                   | None \<Rightarrow> Inl (at_part index ''FilePart must contain either bytes or uri.''))))"

fun map_part :: "nat \<Rightarrow> input_part \<Rightarrow> string + pdict list" where
  "map_part index (InText t) =
     Inr (case t of None \<Rightarrow> [] | Some s \<Rightarrow> [[(''type'', PStr ''text''), (''text'', PStr s)]])"
| "map_part index (InFile f) = ebind (map_file_part index f) (\<lambda>d. Inr [d])"
| "map_part index InData =
     Inl (at_part index ''DataPart input is not supported; use TextPart or FilePart.'')"
| "map_part index InOther =
     Inl (at_part index ''is not supported; only TextPart and FilePart are accepted.'')"

fun map_parts_from :: "nat \<Rightarrow> input_part list \<Rightarrow> string + pdict list" where
  "map_parts_from index [] = Inr []"
| "map_parts_from index (p # ps) =
     ebind (map_part index p) (\<lambda>ds. ebind (map_parts_from (Suc index) ps) (\<lambda>es. Inr (ds @ es)))"

definition map_a2a_parts_to_opencode_parts :: "input_part list option \<Rightarrow> string + pdict list" where
  "map_a2a_parts_to_opencode_parts parts =
     (case parts of None \<Rightarrow> Inr [] | Some ps \<Rightarrow> map_parts_from 0 ps)"

text \<open>\<open>extract_text_from_parts\<close> of \<open>parts/text.py\<close>, on an OpenCode response.\<close>

fun response_text_of :: "pyval \<Rightarrow> string list" where
  "response_text_of (PDict d) =
     (if pget d ''type'' = PStr ''text'' then (case pget d ''text'' of PStr t \<Rightarrow> [t] | _ \<Rightarrow> []) else [])"
| "response_text_of _ = []"

definition extract_text_from_parts :: "pyval \<Rightarrow> string" where
  "extract_text_from_parts parts =
     (case parts of PList ps \<Rightarrow> py_strip (concat (concat (map response_text_of ps))) | _ \<Rightarrow> [])"

section \<open>The request\<close>

text \<open>
  \<open>RequestContext\<close>.  \<open>rq_call_state\<close> is \<open>call_context.state\<close> (\<open>None\<close> without a call context),
  \<open>rq_metadata\<close> the value of the \<open>metadata\<close> property, \<open>rq_parts\<close> and \<open>rq_message_metadata\<close> the
  message's parts and metadata (both \<open>None\<close> without a message), \<open>rq_message\<close> the message itself and
  \<open>rq_task_history\<close> the history of the current task (empty without one), \<open>rq_user_input\<close> what the
  SDK's \<open>get_user_input\<close> returns.
\<close>

record request =
  rq_task_id :: "string option"
  rq_context_id :: "string option"
  rq_call_state :: "pdict option"
  rq_metadata :: pyval
  rq_parts :: "input_part list option"
  rq_message_metadata :: "pyval option"
  rq_message :: "pyval option"
  rq_task_history :: "pyval list"
  rq_configuration :: modes_source
  rq_user_input :: string

definition build_history :: "request \<Rightarrow> pyval list" where
  "build_history rq =
     (if rq_task_history rq \<noteq> [] then rq_task_history rq
      else case rq_message rq of None \<Rightarrow> [] | Some m \<Rightarrow> [m])"

definition metadata_sources :: "request \<Rightarrow> pyval list" where
  "metadata_sources rq =
     (if is_dict (rq_metadata rq) then [rq_metadata rq] else []) @
     (case rq_message_metadata rq of
        None \<Rightarrow> []
      | Some m \<Rightarrow> (let msg_meta = (if truthy m then m else PDict [])
                   in if is_dict msg_meta then [msg_meta] else []))"

definition extract_shared_session_id :: "request \<Rightarrow> string option" where
  "extract_shared_session_id rq =
     extract_first_namespaced_string (metadata_sources rq) ''shared'' [''session'', ''id'']"

definition extract_shared_model :: "request \<Rightarrow> (string \<times> string) option" where
  "extract_shared_model rq =
     (let sources = metadata_sources rq
      in case (extract_first_namespaced_string sources ''shared'' [''model'', ''providerID''],
               extract_first_namespaced_string sources ''shared'' [''model'', ''modelID'']) of
           (Some provider_id, Some model_id) \<Rightarrow> Some (provider_id, model_id)
         | _ \<Rightarrow> None)"

definition extract_opencode_directory :: "request \<Rightarrow> string option" where
  "extract_opencode_directory rq =
     extract_first_namespaced_string (metadata_sources rq) ''opencode'' [''directory'']"

definition extract_opencode_workspace_id :: "request \<Rightarrow> string option" where
  "extract_opencode_workspace_id rq =
     extract_first_namespaced_string (metadata_sources rq) ''opencode'' [''workspace'', ''id'']"

end
