(* ===== verification/Sandbox_Policy.thy ===== *)
theory Sandbox_Policy
  imports Prelude
begin

text \<open>
  \<open>SandboxPolicy\<close> of \<open>sandbox_policy.py\<close>.  A path is \<open>pathlib\<close>'s: a flag for absolute paths
  and the components between slashes, without empty ones and single dots.  \<open>Path.resolve\<close>
  reads the file system, so it is a parameter: it maps a path to the components of an absolute
  path, or raises \<open>ValueError\<close> (a null character).
\<close>

section \<open>Paths\<close>

type_synonym resolver = "bool \<times> string list \<Rightarrow> string + string list"

fun split_slash :: "string \<Rightarrow> string list" where
  "split_slash [] = [[]]"
| "split_slash (c # cs) =
     (if c = CHR ''/'' then [] # split_slash cs
      else case split_slash cs of [] \<Rightarrow> [[c]] | w # ws \<Rightarrow> (c # w) # ws)"

definition parse_path :: "string \<Rightarrow> bool \<times> string list" where
  "parse_path s = (s \<noteq> [] \<and> hd s = CHR ''/'', filter (\<lambda>w. w \<noteq> [] \<and> w \<noteq> ''.'') (split_slash s))"

definition path_str :: "string list \<Rightarrow> string" where
  "path_str p = CHR ''/'' # py_join ''/'' p"

definition join_path :: "string list \<Rightarrow> bool \<times> string list \<Rightarrow> bool \<times> string list" where
  "join_path base p = (if fst p then p else (True, base @ snd p))"

section \<open>The policy\<close>

record sandbox_policy =
  workspace_root :: "string list"
  allow_directory_override :: bool
  sandbox_mode :: string
  filesystem_scope :: string
  writable_roots :: "string list list"
  write_access_scope :: string

record sandbox_settings =
  st_workspace_root :: "string option"
  st_allow_directory_override :: bool
  st_sandbox_mode :: string
  st_filesystem_scope :: string
  st_writable_roots :: "string list"
  st_write_access_scope :: string

definition from_settings ::
  "resolver \<Rightarrow> string \<Rightarrow> sandbox_settings \<Rightarrow> string option \<Rightarrow> string + sandbox_policy" where
  "from_settings rs cwd settings override =
     (let base = the (str_or override (str_or (st_workspace_root settings) (Some cwd)))
      in ebind (emap (\<lambda>r. rs (parse_path r)) (filter (\<lambda>r. py_strip r \<noteq> []) (st_writable_roots settings))) (\<lambda>roots.
         ebind (rs (parse_path base)) (\<lambda>root_path.
           Inr \<lparr>workspace_root = root_path,
             allow_directory_override = st_allow_directory_override settings,
             sandbox_mode = st_sandbox_mode settings, filesystem_scope = st_filesystem_scope settings,
             writable_roots = roots, write_access_scope = st_write_access_scope settings\<rparr>)))"

definition resolve_directory ::
  "resolver \<Rightarrow> sandbox_policy \<Rightarrow> string option \<Rightarrow> string option \<Rightarrow> string + string" where
  "resolve_directory rs pol req default_directory =
     ebind (if truthy_str default_directory then rs (parse_path (the default_directory))
            else Inr (workspace_root pol)) (\<lambda>base_path.
     (let requested = (case req of None \<Rightarrow> [] | Some r \<Rightarrow> py_strip r)
      in if requested = [] then Inr (path_str base_path)
         else ebind (rs (join_path base_path (parse_path requested))) (\<lambda>requested_path.
           if \<not> allow_directory_override pol then
             (if requested_path = base_path then Inr (path_str base_path)
              else Inl ''Directory override is disabled by service configuration'')
           else if prefix base_path requested_path then Inr (path_str requested_path)
           else Inl (''Directory '' @ requested @ '' is outside the allowed workspace '' @ path_str base_path))))"

definition is_session_shell_enabled :: "sandbox_policy \<Rightarrow> bool \<Rightarrow> bool" where
  "is_session_shell_enabled pol enabled_by_config =
     (if \<not> enabled_by_config then False
      else if sandbox_mode pol = ''read-only'' then False
      else if write_access_scope pol = ''none'' then False
      else True)"

definition is_workspace_mutations_enabled :: "sandbox_policy \<Rightarrow> bool \<Rightarrow> bool" where
  "is_workspace_mutations_enabled pol enabled_by_config =
     (if \<not> enabled_by_config then False
      else if sandbox_mode pol = ''read-only'' then False
      else if write_access_scope pol = ''none'' then False
      else True)"

definition is_within_workspace :: "string list \<Rightarrow> string list \<Rightarrow> bool" where
  "is_within_workspace path workspace = prefix workspace path"

definition validate_configuration :: "sandbox_policy \<Rightarrow> string + unit" where
  "validate_configuration pol =
     (if write_access_scope pol = ''none'' \<and> writable_roots pol \<noteq> [] then
        Inl ''Declared writable roots are incompatible with A2A_WRITE_ACCESS_SCOPE=none''
      else if write_access_scope pol = ''workspace_only'' \<or> filesystem_scope pol = ''workspace_only'' then
        (let outside = map path_str (filter (\<lambda>r. \<not> is_within_workspace r (workspace_root pol)) (writable_roots pol))
         in if outside \<noteq> [] then
              Inl (''Declared writable roots must stay within the workspace root when ''
                @ ''the configured scope is workspace_only: '' @ py_join '', '' outside)
            else Inr ())
      else Inr ())"

section \<open>Lemmas\<close>

text \<open>Components as \<open>resolve\<close> returns them: names without slashes that are no dots.\<close>

definition proper_name :: "string \<Rightarrow> bool" where
  "proper_name w \<longleftrightarrow> w \<noteq> [] \<and> w \<noteq> ''.'' \<and> w \<noteq> ''..'' \<and> CHR ''/'' \<notin> set w"

lemma split_slash_not_Nil [simp]: "split_slash s \<noteq> []"
  by (cases s) (auto split: list.splits)

lemma split_slash_name: "CHR ''/'' \<notin> set w \<Longrightarrow> split_slash w = [w]"
  by (induction w) auto

lemma split_slash_append: "CHR ''/'' \<notin> set w \<Longrightarrow> split_slash (w @ CHR ''/'' # s) = w # split_slash s"
  by (induction w) auto

lemma split_slash_join: "list_all proper_name p \<Longrightarrow> p \<noteq> [] \<Longrightarrow> split_slash (py_join ''/'' p) = p"
  by (induction p rule: induct_list012) (auto simp: proper_name_def split_slash_name split_slash_append)

lemma parse_path_str: "list_all proper_name p \<Longrightarrow> parse_path (path_str p) = (True, p)"
  by (cases "p = []")
    (auto simp: parse_path_def path_str_def split_slash_join list_all_iff proper_name_def intro!: filter_True)

section \<open>Properties\<close>

text \<open>
  What the documentation of \<open>Path.resolve\<close> promises: the result consists of proper names, and
  resolving it again changes nothing.
\<close>

definition resolver_ok :: "resolver \<Rightarrow> bool" where
  "resolver_ok rs \<longleftrightarrow> (\<forall>p q. rs p = Inr q \<longrightarrow> list_all proper_name q \<and> rs (True, q) = Inr q)"

lemma resolver_okD: "resolver_ok rs \<Longrightarrow> rs p = Inr q \<Longrightarrow> list_all proper_name q \<and> rs (True, q) = Inr q"
  unfolding resolver_ok_def by blast

lemma workspace_resolved:
  assumes "resolver_ok rs" "from_settings rs cwd st override = Inr pol"
  shows "list_all proper_name (workspace_root pol) \<and> rs (True, workspace_root pol) = Inr (workspace_root pol)"
  using assms(2) by (auto simp: from_settings_def ebind_Inr_iff Let_def dest: resolver_okD [OF assms(1)])

lemma base_path:
  assumes "resolver_ok rs" "from_settings rs cwd st override = Inr pol"
    and "(if truthy_str d then rs (parse_path (the d)) else Inr (workspace_root pol)) = Inr base"
  shows "list_all proper_name base" "rs (True, base) = Inr base"
  using assms(3) workspace_resolved [OF assms(1,2)]
  by (auto dest: resolver_okD [OF assms(1)] split: if_splits)

lemma join_absolute: "join_path base (True, q) = (True, q)"
  by (simp add: join_path_def)

lemma not_space_slash: "\<not> py_space (CHR ''/'')"
  by (simp add: py_space_def)

lemma strip_path_str_nonempty: "py_strip (path_str p) \<noteq> []"
  by (auto simp: py_strip_Nil_iff path_str_def not_space_slash)

text \<open>The shape of a granted directory.\<close>

lemma grantedE:
  assumes "resolver_ok rs" and "from_settings rs cwd st override = Inr pol"
    and "resolve_directory rs pol req def_dir = Inr d"
  obtains base p where
    "(if truthy_str def_dir then rs (parse_path (the def_dir)) else Inr (workspace_root pol)) = Inr base"
    "d = path_str p" "prefix base p" "list_all proper_name p" "rs (True, p) = Inr p"
    "allow_directory_override pol \<or> p = base"
proof -
  obtain base where base: "(if truthy_str def_dir then rs (parse_path (the def_dir))
      else Inr (workspace_root pol)) = Inr base"
    using assms(3) by (auto simp: resolve_directory_def ebind_Inr_iff)
  note proper = base_path [OF assms(1,2) base]
  have "\<exists>p. d = path_str p \<and> prefix base p \<and> list_all proper_name p \<and> rs (True, p) = Inr p \<and>
      (allow_directory_override pol \<or> p = base)"
  proof (cases "(case req of None \<Rightarrow> [] | Some r \<Rightarrow> py_strip r) = []")
    case True
    then show ?thesis
      using assms(3) proper unfolding resolve_directory_def base by auto
  next
    case False
    then obtain p where p: "rs (join_path base (parse_path (case req of None \<Rightarrow> [] | Some r \<Rightarrow> py_strip r))) = Inr p"
      using assms(3) unfolding resolve_directory_def base by (auto simp: ebind_Inr_iff Let_def)
    then have "d = path_str p" "prefix base p" "allow_directory_override pol \<or> p = base"
      using assms(3) False unfolding resolve_directory_def base by (auto simp: Let_def split: if_splits)
    then show ?thesis using resolver_okD [OF assms(1) p] by blast
  qed
  then show thesis using that base by blast
qed

text \<open>
  The directory of a request never escapes the sandbox: whatever string is requested
  (relative, absolute, with dots or symbolic links), the granted directory is a resolved path
  inside the base directory, and it is the base directory itself when overrides are disabled.
\<close>

theorem granted_directory_is_confined:
  assumes "resolver_ok rs" and "from_settings rs cwd st override = Inr pol"
    and "resolve_directory rs pol req def_dir = Inr d"
  shows "\<exists>base p. d = path_str p \<and> prefix base p \<and> list_all proper_name p \<and>
    (if truthy_str def_dir then rs (parse_path (the def_dir)) = Inr base else base = workspace_root pol) \<and>
    (allow_directory_override pol \<or> p = base)"
proof -
  from assms obtain base p where
    "(if truthy_str def_dir then rs (parse_path (the def_dir)) else Inr (workspace_root pol)) = Inr base"
    "d = path_str p" "prefix base p" "list_all proper_name p" "allow_directory_override pol \<or> p = base"
    by (rule grantedE)
  then show ?thesis by (intro exI [of _ base] exI [of _ p]) (auto split: if_splits)
qed

definition plain_resolver :: resolver where
  "plain_resolver p = (if list_all proper_name (snd p) then Inr (snd p) else Inl ''path'')"

definition demo_settings :: sandbox_settings where
  "demo_settings = \<lparr>st_workspace_root = Some ''/srv'', st_allow_directory_override = True,
     st_sandbox_mode = ''workspace-write'', st_filesystem_scope = ''workspace_only'',
     st_writable_roots = [], st_write_access_scope = ''workspace_only''\<rparr>"

definition demo_policy :: sandbox_policy where
  "demo_policy = \<lparr>workspace_root = [''srv''], allow_directory_override = True,
     sandbox_mode = ''workspace-write'', filesystem_scope = ''workspace_only'', writable_roots = [],
     write_access_scope = ''workspace_only''\<rparr>"

lemma plain_resolver_ok: "resolver_ok plain_resolver"
  by (simp add: resolver_ok_def plain_resolver_def)

lemma demo_from_settings: "from_settings plain_resolver ''/'' demo_settings None = Inr demo_policy"
  by code_simp

lemma demo_resolve:
  "resolve_directory plain_resolver demo_policy (Some ''app'') None = Inr ''/srv/app''"
  by code_simp

theorem granted_directory_is_confined_witness:
  "\<exists>base p. ''/srv/app'' = path_str p \<and> prefix base p \<and> list_all proper_name p \<and>
    (if truthy_str None then plain_resolver (parse_path (the None)) = Inr base
     else base = workspace_root demo_policy) \<and> (allow_directory_override demo_policy \<or> p = base)"
  by (rule granted_directory_is_confined [OF plain_resolver_ok demo_from_settings demo_resolve])

text \<open>
  Granting is idempotent: a granted directory without white space at its ends, requested
  again under the same policy and default directory, is granted unchanged.  So the directory
  stored for a session can be passed back to any later call.
\<close>

theorem granted_directory_is_granted_again:
  assumes "resolver_ok rs" and "from_settings rs cwd st override = Inr pol"
    and "resolve_directory rs pol req def_dir = Inr d" and "py_strip d = d"
  shows "resolve_directory rs pol (Some d) def_dir = Inr d"
proof -
  from assms(1-3) obtain base p where
    b: "(if truthy_str def_dir then rs (parse_path (the def_dir)) else Inr (workspace_root pol)) = Inr base"
    and p: "d = path_str p" "prefix base p" "list_all proper_name p" "rs (True, p) = Inr p"
      "allow_directory_override pol \<or> p = base"
    by (rule grantedE)
  have "d \<noteq> []" using strip_path_str_nonempty [of p] assms(4) p(1) by auto
  then show ?thesis
    using p assms(4) unfolding resolve_directory_def b
    by (auto simp: parse_path_str join_absolute Let_def)
qed

theorem granted_directory_is_granted_again_witness:
  "resolve_directory plain_resolver demo_policy (Some ''/srv/app'') None = Inr ''/srv/app''"
proof -
  have "py_strip ''/srv/app'' = ''/srv/app''" by code_simp
  then show ?thesis
    by (rule granted_directory_is_granted_again [OF plain_resolver_ok demo_from_settings demo_resolve])
qed

end
