(* ===== verification/Tool_Orchestration.thy ===== *)
theory Tool_Orchestration
  imports Stream_Events
begin

text \<open>
  Tool calls of a response that the service itself executes (\<open>execution/tool_orchestration.py\<close>)
  and the errors of the outbound A2A client (\<open>client/errors.py\<close>, \<open>client/error_mapping.py\<close>,
  \<open>execution/tool_error_mapping.py\<close>).  The remote peer is a parameter: what its client yields,
  and the exception it ends with.
\<close>

section \<open>Client errors\<close>

datatype client_class =
    ClientBase | AgentUnavailable | Authentication | PermissionRefused | ResetRequired | TimedOut
  | UnsupportedBinding | UnsupportedOperation | PeerProtocol

fun class_error_code :: "client_class \<Rightarrow> string" where
  "class_error_code ClientBase = ''client_error''"
| "class_error_code AgentUnavailable = ''agent_unavailable''"
| "class_error_code Authentication = ''authentication_failed''"
| "class_error_code PermissionRefused = ''permission_denied''"
| "class_error_code ResetRequired = ''reset_required''"
| "class_error_code TimedOut = ''timeout''"
| "class_error_code UnsupportedBinding = ''unsupported_binding''"
| "class_error_code UnsupportedOperation = ''unsupported_operation''"
| "class_error_code PeerProtocol = ''peer_protocol_error''"

record client_error =
  ce_class :: client_class
  ce_message :: string
  ce_error_code :: string
  ce_code :: "int option"
  ce_http_status :: "int option"
  ce_data :: pyval

definition client_error_of :: "client_class \<Rightarrow> string \<Rightarrow> client_error" where
  "client_error_of c msg =
     \<lparr>ce_class = c, ce_message = msg, ce_error_code = class_error_code c, ce_code = None,
      ce_http_status = None, ce_data = PNone\<rparr>"

definition peer_protocol_error :: "string \<Rightarrow> string \<Rightarrow> int option \<Rightarrow> pyval \<Rightarrow> client_error" where
  "peer_protocol_error msg error_code rpc_code err_data =
     \<lparr>ce_class = PeerProtocol, ce_message = msg, ce_error_code = error_code, ce_code = rpc_code,
      ce_http_status = None, ce_data = err_data\<rparr>"

text \<open>
  The exceptions of an outbound call: those of the SDK and of \<open>httpx\<close>, and our own.  A JSON-RPC
  error carries a code and data, or no error object.
\<close>

datatype peer_exception =
    HttpError int
  | JsonRpcError "(int option \<times> pyval) option"
  | JsonError
  | HttpxTimeout
  | HttpxTransport
  | ClientErr client_error
  | OtherException

definition extract_jsonrpc_error_payload :: "(int option \<times> pyval) option \<Rightarrow> int option \<times> pyval" where
  "extract_jsonrpc_error_payload err = (case err of None \<Rightarrow> (None, PNone) | Some e \<Rightarrow> e)"

definition map_jsonrpc_error :: "(int option \<times> pyval) option \<Rightarrow> client_error" where
  "map_jsonrpc_error err =
     (let (code, err_data) = extract_jsonrpc_error_payload err
      in if code = Some (- 32601) then
           (client_error_of UnsupportedOperation ''Remote A2A peer does not support the requested operation'')
             \<lparr>ce_error_code := ''method_not_supported'', ce_code := code, ce_data := err_data\<rparr>
         else if code = Some (- 32602) then
           peer_protocol_error ''Remote A2A peer rejected the request payload'' ''invalid_params'' code err_data
         else if code = Some (- 32603) then
           (client_error_of ResetRequired
              ''Remote A2A peer entered an unstable state and requires a fresh client session'')
             \<lparr>ce_code := code, ce_data := err_data\<rparr>
         else peer_protocol_error ''Remote A2A peer returned a protocol error'' ''peer_protocol_error'' code err_data)"

definition attach_http_status :: "client_error \<Rightarrow> int \<Rightarrow> client_error" where
  "attach_http_status e status = e\<lparr>ce_http_status := Some status\<rparr>"

definition map_http_error :: "string \<Rightarrow> int \<Rightarrow> client_error" where
  "map_http_error operation status =
     attach_http_status
      (if status = 401 then
         client_error_of Authentication (''Remote A2A peer rejected '' @ operation @ '' due to authentication failure'')
       else if status = 403 then
         client_error_of PermissionRefused (''Remote A2A peer rejected '' @ operation @ '' due to insufficient permissions'')
       else if status \<in> {404, 405, 409, 501} then
         client_error_of UnsupportedOperation (''Remote A2A peer does not support '' @ operation)
       else if status = 408 then
         client_error_of TimedOut (''Remote A2A peer timed out during '' @ operation)
       else if status \<in> {429, 502, 503, 504} then
         client_error_of ResetRequired (''Remote A2A peer is temporarily unstable during '' @ operation)
       else client_error_of AgentUnavailable (''Remote A2A peer is unavailable for '' @ operation)) status"

definition map_transport_error :: "string \<Rightarrow> bool \<Rightarrow> client_error" where
  "map_transport_error operation is_timeout =
     (if is_timeout then client_error_of TimedOut (''Remote A2A peer timed out during '' @ operation)
      else client_error_of AgentUnavailable (''Remote A2A peer is unreachable for '' @ operation))"

text \<open>\<open>map_operation_error\<close> and \<open>map_agent_card_error\<close>, on the exceptions their callers catch.\<close>

fun map_operation_error :: "string \<Rightarrow> peer_exception \<Rightarrow> client_error option" where
  "map_operation_error operation (HttpError status) = Some (map_http_error operation status)"
| "map_operation_error operation (JsonRpcError err) = Some (map_jsonrpc_error err)"
| "map_operation_error operation HttpxTimeout = Some (map_transport_error operation True)"
| "map_operation_error operation HttpxTransport = Some (map_transport_error operation False)"
| "map_operation_error operation _ = None"

fun map_agent_card_error :: "peer_exception \<Rightarrow> client_error option" where
  "map_agent_card_error (HttpError status) = Some (map_http_error ''agent-card/fetch'' status)"
| "map_agent_card_error JsonError = Some (peer_protocol_error
     ''Remote A2A peer returned an invalid agent card payload'' ''invalid_agent_card'' None PNone)"
| "map_agent_card_error HttpxTimeout = Some (map_transport_error ''agent-card/fetch'' True)"
| "map_agent_card_error HttpxTransport = Some (map_transport_error ''agent-card/fetch'' False)"
| "map_agent_card_error _ = None"

section \<open>Tool errors\<close>

definition build_tool_error :: "string \<Rightarrow> string \<Rightarrow> pdict \<Rightarrow> pdict" where
  "build_tool_error error_code error error_meta =
     [(''error'', PStr error), (''error_code'', PStr error_code)]
     @ (if error_meta = [] then [] else [(''error_meta'', PDict error_meta)])"

definition build_client_error_meta :: "client_error \<Rightarrow> pdict" where
  "build_client_error_meta e =
     (if ce_error_code e = [] then [] else [(''client_error_code'', PStr (ce_error_code e))])
     @ (case ce_http_status e of None \<Rightarrow> [] | Some s \<Rightarrow> [(''http_status'', PInt s)])
     @ (case ce_code e of None \<Rightarrow> [] | Some c \<Rightarrow> [(''rpc_code'', PInt c)])"

definition map_client_error :: "client_error \<Rightarrow> pdict" where
  "map_client_error e =
     (case ce_class e of
        Authentication \<Rightarrow> build_tool_error ''a2a_peer_auth_failed''
          ''Authentication failed when calling remote A2A peer'' (build_client_error_meta e)
      | PermissionRefused \<Rightarrow> build_tool_error ''a2a_peer_permission_denied''
          ''Permission denied when calling remote A2A peer'' (build_client_error_meta e)
      | TimedOut \<Rightarrow> build_tool_error ''a2a_timeout'' ''Remote A2A peer timed out'' []
      | UnsupportedOperation \<Rightarrow> build_tool_error ''a2a_unsupported_operation''
          ''Remote A2A peer does not support the requested operation'' (build_client_error_meta e)
      | ResetRequired \<Rightarrow> build_tool_error ''a2a_retryable_unavailable''
          ''Remote A2A peer is temporarily unavailable and should be retried with a fresh client''
          (build_client_error_meta e)
      | PeerProtocol \<Rightarrow>
          (if ce_error_code e = ''invalid_agent_card''
           then build_tool_error ''a2a_invalid_agent_card''
             ''Remote A2A peer returned an invalid agent card payload'' (build_client_error_meta e)
           else build_tool_error ''a2a_peer_protocol_error''
             ''Remote A2A peer returned an invalid protocol payload'' (build_client_error_meta e))
      | AgentUnavailable \<Rightarrow> build_tool_error ''a2a_unavailable'' ''Remote A2A peer is unavailable''
          (build_client_error_meta e)
      | _ \<Rightarrow> build_tool_error ''a2a_call_failed'' ''Remote A2A call failed'' [])"

fun map_a2a_tool_exception :: "peer_exception \<Rightarrow> pdict" where
  "map_a2a_tool_exception (HttpError status) = map_client_error (map_http_error ''message/send'' status)"
| "map_a2a_tool_exception (JsonRpcError err) = map_client_error (map_jsonrpc_error err)"
| "map_a2a_tool_exception (ClientErr e) = map_client_error e"
| "map_a2a_tool_exception HttpxTimeout = build_tool_error ''a2a_timeout'' ''Remote A2A peer timed out'' []"
| "map_a2a_tool_exception HttpxTransport =
     build_tool_error ''a2a_unavailable'' ''Remote A2A peer is unavailable'' []"
| "map_a2a_tool_exception _ = build_tool_error ''a2a_call_failed'' ''Remote A2A call failed'' []"

section \<open>Tool calls\<close>

definition ends_with_space :: "string \<Rightarrow> bool" where
  "ends_with_space s \<longleftrightarrow> s \<noteq> [] \<and> last s \<in> {CHR 0x0A, CHR '' '', CHR 0x09}"

definition starts_with_space :: "string \<Rightarrow> bool" where
  "starts_with_space s \<longleftrightarrow> s \<noteq> [] \<and> hd s \<in> {CHR 0x0A, CHR '' '', CHR 0x09}"

definition merge_streamed_tool_output :: "string \<Rightarrow> string \<Rightarrow> string" where
  "merge_streamed_tool_output current incoming =
     (if current = [] then incoming
      else if incoming = current \<or> sublist incoming current then current
      else if prefix current incoming then incoming
      else if prefix incoming current then current
      else current @ (if ends_with_space current \<or> starts_with_space incoming then [] else [CHR 0x0A]) @ incoming)"

text \<open>
  What the peer's client yields: a task with the texts of its status message, a pair whose first
  component is a task, or another object with its type's name; each with the text the client
  extracts from it.
\<close>

datatype peer_event = PeerTask "string list" | PeerTaskUpdate | PeerOther string

type_synonym peer = "pyval \<Rightarrow> pyval \<Rightarrow> (peer_event \<times> string option) list \<times> peer_exception option"

definition merge_extracted :: "(peer_event \<times> string option) list \<Rightarrow> string" where
  "merge_extracted events =
     fold (\<lambda>(_, extracted) result.
       if truthy_str extracted then merge_streamed_tool_output result (the extracted) else result) events []"

definition tool_result :: "pyval \<Rightarrow> pyval \<Rightarrow> pdict \<Rightarrow> pdict" where
  "tool_result call_id tool rest = [(''call_id'', call_id), (''tool'', tool)] @ rest"

definition handle_a2a_call_tool :: "peer option \<Rightarrow> string \<Rightarrow> pdict \<Rightarrow> pdict" where
  "handle_a2a_call_tool manager fresh_id part =
     (let call_id = (if truthy (pget part ''callID'') then pget part ''callID'' else PStr fresh_id);
          tool_name = (if truthy (pget part ''tool'') then pget part ''tool'' else PStr ''a2a_call'')
      in tool_result call_id tool_name
        (case (case map_of (mapping_or_empty (pget part ''state'')) ''input'' of
                 None \<Rightarrow> PDict [] | Some v \<Rightarrow> v) of
           PDict inputs \<Rightarrow>
             (let agent_url = pget inputs ''url''; message = pget inputs ''message''
              in if \<not> truthy agent_url \<or> \<not> truthy message then
                   build_tool_error ''a2a_missing_required_input'' ''Missing required a2a_call url or message'' []
                 else case manager of
                   None \<Rightarrow> build_tool_error ''a2a_client_manager_unavailable''
                     ''A2A client manager is not available'' []
                 | Some peer \<Rightarrow>
                     (case peer agent_url message of
                        (_, Some exc) \<Rightarrow> map_a2a_tool_exception exc
                      | (events, None) \<Rightarrow>
                          (let result_text = merge_extracted events
                           in if result_text \<noteq> [] then [(''output'', PStr result_text)]
                              else if events = [] then
                                build_tool_error ''a2a_unexpected_response''
                                  ''Remote A2A peer returned an unexpected response type''
                                  [(''response_type'', PStr ''NoneType'')]
                              else case fst (last events) of
                                PeerTask texts \<Rightarrow> [(''output'', PStr
                                  (if concat texts \<noteq> [] then concat texts else ''Task completed.''))]
                              | PeerTaskUpdate \<Rightarrow> [(''output'', PStr ''Task completed (streaming).'')]
                              | PeerOther type_name \<Rightarrow>
                                  build_tool_error ''a2a_unexpected_response''
                                    ''Remote A2A peer returned an unexpected response type''
                                    [(''response_type'', PStr type_name)])))
         | _ \<Rightarrow> build_tool_error ''a2a_invalid_input'' ''Invalid a2a_call input payload'' []))"

text \<open>A part that asks for the tool: \<open>fresh\<close> supplies the random identifiers.\<close>

definition calls_a2a :: "pyval \<Rightarrow> bool" where
  "calls_a2a part =
     (case part of
        PDict d \<Rightarrow> pget d ''type'' = PStr ''tool'' \<and>
          (case pget d ''state'' of PDict st \<Rightarrow> pget st ''status'' = PStr ''calling'' | _ \<Rightarrow> False) \<and>
          pget d ''tool'' = PStr ''a2a_call''
      | _ \<Rightarrow> False)"

fun tool_results :: "peer option \<Rightarrow> (nat \<Rightarrow> string) \<Rightarrow> nat \<Rightarrow> pyval list \<Rightarrow> pdict list" where
  "tool_results manager fresh n [] = []"
| "tool_results manager fresh n (p # ps) =
     (if calls_a2a p
      then handle_a2a_call_tool manager (fresh n) (mapping_or_empty p) # tool_results manager fresh (Suc n) ps
      else tool_results manager fresh (Suc n) ps)"

definition maybe_handle_tools :: "peer option \<Rightarrow> (nat \<Rightarrow> string) \<Rightarrow> pdict \<Rightarrow> pdict list option" where
  "maybe_handle_tools manager fresh raw_response =
     (case (case map_of raw_response ''parts'' of None \<Rightarrow> PList [] | Some v \<Rightarrow> v) of
        PList parts \<Rightarrow> (case tool_results manager fresh 0 parts of [] \<Rightarrow> None | rs \<Rightarrow> Some rs)
      | _ \<Rightarrow> None)"

section \<open>Properties\<close>

definition response_parts :: "pdict \<Rightarrow> pyval list" where
  "response_parts raw = (case pget raw ''parts'' of PList ps \<Rightarrow> ps | _ \<Rightarrow> [])"

definition handled :: "pdict list option \<Rightarrow> pdict list" where
  "handled rs = (case rs of None \<Rightarrow> [] | Some xs \<Rightarrow> xs)"

text \<open>A result is an output or an error with its code, never both.\<close>

definition answered :: "pdict \<Rightarrow> bool" where
  "answered r \<longleftrightarrow> (is_str (pget r ''output'') \<and> pget r ''error'' = PNone) \<or>
     (pget r ''output'' = PNone \<and> is_str (pget r ''error'') \<and> is_str (pget r ''error_code''))"

lemma answered_output [simp]: "answered (tool_result c t [(''output'', PStr x)])"
  by (simp add: answered_def tool_result_def)

lemma answered_error [simp]: "answered (tool_result c t (build_tool_error code msg meta))"
  by (simp add: answered_def tool_result_def build_tool_error_def)

lemma answered_client_error [simp]: "answered (tool_result c t (map_client_error e))"
  by (cases "ce_class e") (simp_all add: map_client_error_def)

lemma answered_exception [simp]: "answered (tool_result c t (map_a2a_tool_exception exc))"
  by (cases exc) simp_all

lemma answered_call: "answered (handle_a2a_call_tool manager fresh_id part)"
  unfolding handle_a2a_call_tool_def Let_def
  by (simp split: pyval.split option.split prod.split peer_event.split)

lemma call_id_result:
  "pget (handle_a2a_call_tool manager fresh_id part) ''call_id'' =
     (if truthy (pget part ''callID'') then pget part ''callID'' else PStr fresh_id)"
  by (simp add: handle_a2a_call_tool_def tool_result_def Let_def)

definition call_id_of :: "(nat \<Rightarrow> string) \<Rightarrow> nat \<times> pyval \<Rightarrow> pyval" where
  "call_id_of fresh = (\<lambda>(n, part).
     if truthy (vget part ''callID'') then vget part ''callID'' else PStr (fresh n))"

lemma calls_a2aE: "calls_a2a p \<Longrightarrow> \<exists>d. p = PDict d"
  by (cases p) (auto simp: calls_a2a_def)

lemma tool_results_ids:
  "map (\<lambda>r. pget r ''call_id'') (tool_results manager fresh n ps) =
     map (call_id_of fresh) (filter (\<lambda>x. calls_a2a (snd x)) (enumerate n ps))"
  by (induction ps arbitrary: n) (auto simp: call_id_result call_id_of_def dest!: calls_a2aE)

lemma tool_results_answered: "list_all answered (tool_results manager fresh n ps)"
  by (induction ps arbitrary: n) (auto simp: answered_call)

lemma handled_results:
  "handled (maybe_handle_tools manager fresh raw) = tool_results manager fresh 0 (response_parts raw)"
  by (auto simp: handled_def maybe_handle_tools_def response_parts_def pget_def
      split: option.splits pyval.splits list.splits)

text \<open>
  Every call of the tool in a response is answered once, in the order of the calls, under the
  call's own identifier, with an output or with an error and its code, whatever the remote peer
  sends or raises.
\<close>

theorem tool_calls_are_answered:
  "map (\<lambda>r. pget r ''call_id'') (handled (maybe_handle_tools manager fresh raw)) =
     map (call_id_of fresh) (filter (\<lambda>x. calls_a2a (snd x)) (enumerate 0 (response_parts raw))) \<and>
   list_all answered (handled (maybe_handle_tools manager fresh raw))"
  by (simp add: handled_results tool_results_ids tool_results_answered)

lemma merge_extension: "prefix current incoming \<Longrightarrow> merge_streamed_tool_output current incoming = incoming"
  by (auto simp: merge_streamed_tool_output_def prefix_def dest: sublist_length_le)

lemma fold_merge_extensions:
  "sorted_wrt prefix (s # ss) \<Longrightarrow> fold (\<lambda>t acc. merge_streamed_tool_output acc t) ss s = last (s # ss)"
  by (induction ss arbitrary: s) (auto simp: merge_extension)

text \<open>
  A peer that streams growing snapshots of its answer is reported with its last snapshot.
\<close>

theorem growing_snapshots_merge_to_the_last:
  assumes "sorted_wrt prefix ss" and "ss \<noteq> []" and "list_all (\<lambda>s. s \<noteq> []) ss"
  shows "merge_extracted (map (\<lambda>s. (e, Some s)) ss) = last ss"
proof -
  obtain s rest where ss: "ss = s # rest" using assms(2) by (cases ss) auto
  have "merge_extracted (map (\<lambda>s. (e, Some s)) xs) = fold (\<lambda>t acc. merge_streamed_tool_output acc t) xs []"
    if "list_all (\<lambda>s. s \<noteq> []) xs" for xs
  proof -
    have "fold (\<lambda>(_, extracted) result.
        if truthy_str extracted then merge_streamed_tool_output result (the extracted) else result)
        (map (\<lambda>s. (e, Some s)) xs) acc = fold (\<lambda>t acc. merge_streamed_tool_output acc t) xs acc" for acc
      using that by (induction xs arbitrary: acc) auto
    then show ?thesis by (simp add: merge_extracted_def)
  qed
  from this [OF assms(3)] show ?thesis
    using assms(1) fold_merge_extensions [of s rest]
    by (simp add: ss merge_streamed_tool_output_def)
qed

theorem growing_snapshots_merge_to_the_last_witness:
  "merge_extracted (map (\<lambda>s. (PeerTaskUpdate, Some s)) [''a'', ''ab'']) = ''ab''"
  using growing_snapshots_merge_to_the_last [of "[''a'', ''ab'']" PeerTaskUpdate] by simp

text \<open>
  A peer that streams the pieces of its answer is misreported: a piece that occurs anywhere in
  the text so far is dropped, and other pieces are put on lines of their own.
\<close>

theorem streamed_pieces_are_lost:
  "merge_extracted (map (\<lambda>s. (PeerTaskUpdate, Some s)) [''10'', ''0'', '' USD'']) = ''10 USD'' \<and>
   merge_extracted (map (\<lambda>s. (PeerTaskUpdate, Some s)) [''Hel'', ''lo'']) = ''Hel'' @ [CHR 0x0A] @ ''lo''"
  by code_simp

end
