(* ===== verification/Execution.thy ===== *)
theory Execution
  imports Stream_Properties Request_Context Sandbox_Policy Tool_Orchestration
begin

text \<open>
  One message of a client from its validation to its terminal event:
  \<open>OpencodeAgentExecutor.execute\<close> and \<open>_emit_error\<close> (\<open>execution/executor.py\<close>) and
  \<open>ExecutionCoordinator.run\<close> (\<open>execution/coordinator.py\<close>).

  The environment of a run is a script: what binding the session yields, how each call of
  \<open>send_message\<close> ends, and what the concurrently running stream task does while the coordinator
  waits.  The event queue holds the events of both in the order they are enqueued.
\<close>

section \<open>The executor and the prepared request\<close>

record executor =
  ex_streaming_enabled :: bool
  ex_policy :: sandbox_policy
  ex_resolver :: resolver
  ex_client_directory :: "string option"
  ex_peer :: "peer option"
  ex_floats :: py_floats

record prepared_execution =
  pe_identity :: string
  pe_streaming_request :: bool
  pe_request_parts :: "pdict list"
  pe_user_text :: string
  pe_session_title :: string
  pe_use_structured_parts :: bool
  pe_bound_session_id :: "string option"
  pe_model_override :: "(string \<times> string) option"
  pe_directory :: "string option"
  pe_workspace_id :: "string option"
  pe_session_binding_context_id :: string
  pe_allow_structured_output :: bool

definition build_session_binding_context_id ::
  "string \<Rightarrow> string option \<Rightarrow> string option \<Rightarrow> bool \<Rightarrow> string" where
  "build_session_binding_context_id context_id directory workspace_id use_directory_binding =
     (case (case workspace_id of None \<Rightarrow> [] | Some w \<Rightarrow> py_strip w) of
        c # cs \<Rightarrow> context_id @ ''::workspace:'' @ c # cs
      | [] \<Rightarrow>
          (case (if use_directory_binding then (case directory of None \<Rightarrow> [] | Some d \<Rightarrow> py_strip d) else []) of
             c # cs \<Rightarrow> context_id @ ''::directory:'' @ c # cs
           | [] \<Rightarrow> context_id))"

text \<open>The identity the authentication middleware put into the call context, a string.\<close>

definition request_identity :: "request \<Rightarrow> string" where
  "request_identity rq =
     (case (case rq_call_state rq of None \<Rightarrow> PNone | Some st \<Rightarrow> pget st ''identity'') of
        PStr (c # cs) \<Rightarrow> c # cs
      | _ \<Rightarrow> ''anonymous'')"

definition should_stream :: "executor \<Rightarrow> request \<Rightarrow> bool" where
  "should_stream ex rq =
     (if \<not> ex_streaming_enabled ex then False
      else case rq_call_state rq of
             None \<Rightarrow> False
           | Some st \<Rightarrow> truthy (pget st ''a2a_streaming_request'') \<or> pget st ''method'' = PStr ''message/stream'')"

section \<open>Events\<close>

text \<open>
  An event of the queue: from the stream task, or from the coordinator or the executor, either an
  update or a whole task.  A message identifier that the code draws at random is \<open>None\<close>.
\<close>

record agent_message =
  am_message_id :: "string option"
  am_text :: string
  am_task_id :: string
  am_context_id :: string

datatype history_entry = ContextMessage pyval | AgentMessage agent_message

record task_event =
  te_task_id :: string
  te_context_id :: string
  te_state :: task_state
  te_message :: agent_message
  te_history :: "history_entry list"
  te_artifact_text :: "string option"
  te_metadata :: "pdict option"

datatype agent_event = Streamed queue_event | Queued queue_event | QueuedTask task_event

fun status_value :: "py_status \<Rightarrow> pyval" where
  "status_value (StatusInt n) = PInt n"
| "status_value (StatusBool b) = PBool b"

definition error_metadata :: "string option \<Rightarrow> py_status option \<Rightarrow> pdict option" where
  "error_metadata error_type upstream_status =
     (if truthy_str error_type \<or> upstream_status \<noteq> None
      then Some [(''opencode'', PDict [(''error'', PDict
        (truthy_entry ''type'' error_type
         @ (case upstream_status of None \<Rightarrow> [] | Some s \<Rightarrow> [(''upstream_status'', status_value s)])))])]
      else None)"

definition emit_error ::
  "string \<Rightarrow> string \<Rightarrow> string \<Rightarrow> task_state \<Rightarrow> string option \<Rightarrow> py_status option \<Rightarrow> bool \<Rightarrow> agent_event list" where
  "emit_error task_id context_id text state error_type upstream_status streaming_request =
     (let error_message = \<lparr>am_message_id = None, am_text = text, am_task_id = task_id,
            am_context_id = context_id\<rparr>
      in if streaming_request then
           [Queued (artifact_update_event task_id context_id (task_id @ '':error'') (TextPart text)
              (Some False) (Some True) None None),
            Queued (QStatus \<lparr>su_task_id = task_id, su_context_id = context_id, su_state = state,
              su_final = True, su_metadata = error_metadata error_type upstream_status\<rparr>)]
         else
           [QueuedTask \<lparr>te_task_id = task_id, te_context_id = context_id, te_state = state,
              te_message = error_message, te_history = [AgentMessage error_message],
              te_artifact_text = None, te_metadata = error_metadata error_type upstream_status\<rparr>])"

section \<open>Validation\<close>

text \<open>\<open>execute\<close> up to the coordinator: a rejected request yields its error events.\<close>

definition is_text_only :: "pdict list \<Rightarrow> string \<Rightarrow> bool" where
  "is_text_only request_parts user_text =
     (case request_parts of
        [d] \<Rightarrow> pget d ''type'' = PStr ''text'' \<and> pget d ''text'' = PStr user_text
      | _ \<Rightarrow> False)"

definition reject :: "executor \<Rightarrow> request \<Rightarrow> string \<Rightarrow> string \<Rightarrow> string \<Rightarrow> agent_event list" where
  "reject ex rq task_id context_id text =
     emit_error task_id context_id text failed None None (should_stream ex rq)"

definition granted_directory :: "executor \<Rightarrow> request \<Rightarrow> string + string option" where
  "granted_directory ex rq =
     (case extract_opencode_workspace_id rq of
        Some _ \<Rightarrow> Inr None
      | None \<Rightarrow> ebind (resolve_directory (ex_resolver ex) (ex_policy ex) (extract_opencode_directory rq)
                        (ex_client_directory ex)) (\<lambda>d. Inr (Some d)))"

definition prepare :: "executor \<Rightarrow> request \<Rightarrow> string \<Rightarrow> string + prepared_execution" where
  "prepare ex rq context_id =
     ebind (map_a2a_parts_to_opencode_parts (rq_parts rq)) (\<lambda>request_parts.
     (let accepted = normalize_accepted_output_modes (rq_configuration rq);
          user_text = (case extract_text_from_a2a_parts (rq_parts rq) of
                         [] \<Rightarrow> py_strip (rq_user_input rq) | c # cs \<Rightarrow> c # cs);
          session_title = (if user_text \<noteq> [] then Some user_text else summarize_a2a_parts (rq_parts rq))
      in if rq_metadata rq \<noteq> PNone \<and> \<not> is_dict (rq_metadata rq) then
           Inl ''Invalid metadata: expected an object/map.''
         else ebind (granted_directory ex rq) (\<lambda>directory.
           if user_text = [] \<and> request_parts = [] then Inl ''Only text and file input are supported.''
           else if \<not> accepts_output_mode accepted ''text/plain'' then
             Inl ''acceptedOutputModes must include text/plain for OpenCode chat responses.''
           else Inr
             \<lparr>pe_identity = request_identity rq, pe_streaming_request = should_stream ex rq,
              pe_request_parts = request_parts, pe_user_text = user_text,
              pe_session_title = (case session_title of None \<Rightarrow> user_text | Some [] \<Rightarrow> user_text | Some t \<Rightarrow> t),
              pe_use_structured_parts = (request_parts \<noteq> [] \<and> \<not> is_text_only request_parts user_text),
              pe_bound_session_id = extract_shared_session_id rq,
              pe_model_override = extract_shared_model rq, pe_directory = directory,
              pe_workspace_id = extract_opencode_workspace_id rq,
              pe_session_binding_context_id = build_session_binding_context_id context_id directory
                (extract_opencode_workspace_id rq) (extract_opencode_directory rq \<noteq> None),
              pe_allow_structured_output = accepts_output_mode accepted ''application/json''\<rparr>)))"

section \<open>The stream task\<close>

text \<open>
  The loop of \<open>StreamRuntime.consume\<close>, one step at a time: an event arrives, the subscription
  breaks, or it ends.
\<close>

datatype stream_step = Deliver pdict | Break | End

record stream_task =
  tk_sys :: stream_sys
  tk_backoff :: rat
  tk_done :: bool

definition new_stream_task :: "output_state \<Rightarrow> stream_task" where
  "new_stream_task out = \<lparr>tk_sys = new_stream_sys out, tk_backoff = 1 / 2, tk_done = False\<rparr>"

definition stream_advance :: "stream_ctx \<Rightarrow> stream_step \<Rightarrow> stream_task \<Rightarrow> stream_task" where
  "stream_advance cx step t =
     (if tk_done t then t
      else if sy_stop (tk_sys t) then t\<lparr>tk_done := True\<rparr>
      else case step of
             Deliver event \<Rightarrow> t\<lparr>tk_sys := handle_event cx event (tk_sys t)\<rparr>
           | Break \<Rightarrow>
               (let sys = emit_metric ''opencode_stream_retries_total'' (tk_sys t)
                in t\<lparr>tk_sys := sys\<lparr>sy_sleeps := sy_sleeps sys @ [tk_backoff t]\<rparr>,
                     tk_backoff := min (tk_backoff t * 2) 5\<rparr>)
           | End \<Rightarrow> t\<lparr>tk_done := True\<rparr>)"

section \<open>The run\<close>

datatype run_error =
    HttpStatusError http_response
  | HttpTimeout string
  | PayloadMismatch string
  | ConcurrencyLimit string
  | OtherError string
  | CancelledRun  \<comment> \<open>\<open>CancelledError\<close>, which is no \<open>Exception\<close>\<close>

record send_response =
  sr_text :: string
  sr_session_id :: string
  sr_message_id :: "string option"
  sr_raw :: pdict

record upstream_call =
  uc_session_id :: string
  uc_text :: "string option"
  uc_parts :: "pdict list option"
  uc_directory :: "string option"
  uc_workspace_id :: "string option"
  uc_model_override :: "(string \<times> string) option"

datatype manager_call = FinalizeBinding bool | ReleaseClaim
  \<comment> \<open>whether the finalization succeeded\<close>

text \<open>
  One turn of the loop: what the stream task does meanwhile, how \<open>send_message\<close> ends, whether
  finalizing the claim raises, and the random identifiers of tool calls without one.
\<close>

record turn =
  tu_steps :: "stream_step list"
  tu_result :: "run_error + send_response"
  tu_finalize :: "run_error option"
  tu_fresh :: "nat \<Rightarrow> string"

record run_env =
  re_bind :: "run_error + string \<times> bool"
  re_start :: "stream_step list"  \<comment> \<open>before the working status is enqueued\<close>
  re_turns :: "turn list"
  re_wait :: "stream_step list"  \<comment> \<open>while the coordinator waits for the terminal signal\<close>
  re_wait_cancelled :: bool      \<comment> \<open>it is cancelled there\<close>
  re_tail :: "stream_step list"  \<comment> \<open>before the stream task is cancelled\<close>

record run_state =
  ru_queue :: "agent_event list"
  ru_stream :: "stream_task option"
  ru_calls :: "upstream_call list"
  ru_manager :: "manager_call list"
  ru_session_id :: string
  ru_pending :: bool

record run_cfg =
  rc_ex :: executor
  rc_rq :: request
  rc_task_id :: string
  rc_context_id :: string
  rc_pe :: prepared_execution

definition stream_artifact_id :: "run_cfg \<Rightarrow> string" where
  "stream_artifact_id c = rc_task_id c @ '':stream''"

definition initial_output_state :: "run_cfg \<Rightarrow> output_state" where
  "initial_output_state c = new_output_state (pe_user_text (rc_pe c))
     (rc_task_id c @ '':'' @ rc_context_id c @ '':assistant'')
     (rc_task_id c @ '':'' @ rc_context_id c @ '':'' @ stream_artifact_id c)"

definition run_stream_ctx :: "run_cfg \<Rightarrow> string \<Rightarrow> stream_ctx" where
  "run_stream_ctx c session_id =
     \<lparr>cx_session_id = session_id, cx_identity = pe_identity (rc_pe c), cx_task_id = rc_task_id c,
      cx_context_id = rc_context_id c, cx_artifact_id = stream_artifact_id c,
      cx_allow_structured_output = pe_allow_structured_output (rc_pe c), cx_floats = ex_floats (rc_ex c)\<rparr>"

definition run_init :: run_state where
  "run_init = \<lparr>ru_queue = [], ru_stream = None, ru_calls = [], ru_manager = [], ru_session_id = [],
     ru_pending = False\<rparr>"

definition put_events :: "agent_event list \<Rightarrow> run_state \<Rightarrow> run_state" where
  "put_events es st = st\<lparr>ru_queue := ru_queue st @ es\<rparr>"

text \<open>The stream task runs for a while; what it enqueues is appended to the queue.\<close>

definition set_stream :: "stream_task \<Rightarrow> stream_task \<Rightarrow> run_state \<Rightarrow> run_state" where
  "set_stream t t' st = st\<lparr>ru_stream := Some t', ru_queue := ru_queue st @
     map Streamed (drop (length (sy_queue (tk_sys t))) (sy_queue (tk_sys t')))\<rparr>"

definition let_stream :: "run_cfg \<Rightarrow> stream_step list \<Rightarrow> run_state \<Rightarrow> run_state" where
  "let_stream c steps st =
     (case ru_stream st of
        None \<Rightarrow> st
      | Some t \<Rightarrow> set_stream t (fold (stream_advance (run_stream_ctx c (ru_session_id st))) steps t) st)"

definition bind_session :: "run_cfg \<Rightarrow> string \<times> bool \<Rightarrow> run_state \<Rightarrow> run_state" where
  "bind_session c bound st =
     st\<lparr>ru_session_id := fst bound, ru_pending := snd bound,
        ru_stream := (if pe_streaming_request (rc_pe c)
                      then Some (new_stream_task (initial_output_state c)) else None)\<rparr>"

definition working_status :: "run_cfg \<Rightarrow> agent_event" where
  "working_status c = Queued (QStatus \<lparr>su_task_id = rc_task_id c, su_context_id = rc_context_id c,
     su_state = working, su_final = False, su_metadata = None\<rparr>)"

definition send_call :: "run_cfg \<Rightarrow> string \<Rightarrow> pdict list \<Rightarrow> run_state \<Rightarrow> upstream_call" where
  "send_call c user_text parts st =
     (let pe = rc_pe c; plain = (\<not> pe_use_structured_parts pe \<and> parts = [])
      in \<lparr>uc_session_id = ru_session_id st,
          uc_text = (if plain then Some user_text else nonempty user_text),
          uc_parts = (if plain then None else Some parts), uc_directory = pe_directory pe,
          uc_workspace_id = pe_workspace_id pe, uc_model_override = pe_model_override pe\<rparr>)"

definition tool_part :: "pdict \<Rightarrow> pdict" where
  "tool_part res =
     [(''type'', PStr ''tool''), (''tool'', pget res ''tool''), (''call_id'', pget res ''call_id''),
      (''output'', pget res ''output''), (''error'', pget res ''error'')]"

text \<open>The claim of a preferred session is finalized after the first answered call.\<close>

definition finalize_pending :: "turn \<Rightarrow> run_state \<Rightarrow> run_error option \<times> run_state" where
  "finalize_pending t st =
     (if \<not> ru_pending st then (None, st)
      else case tu_finalize t of
             Some e \<Rightarrow> (Some e, st\<lparr>ru_manager := ru_manager st @ [FinalizeBinding False]\<rparr>)
           | None \<Rightarrow> (None, st\<lparr>ru_manager := ru_manager st @ [FinalizeBinding True], ru_pending := False\<rparr>))"

text \<open>\<open>None\<close> when the script ends before the loop does.\<close>

fun run_turns :: "run_cfg \<Rightarrow> turn list \<Rightarrow> string \<Rightarrow> pdict list \<Rightarrow> run_state
    \<Rightarrow> (run_error + send_response) option \<times> run_state" where
  "run_turns c [] user_text parts st = (None, st)"
| "run_turns c (t # ts) user_text parts st =
     (let st1 = st\<lparr>ru_calls := ru_calls st @ [send_call c user_text parts st]\<rparr>;
          st2 = let_stream c (tu_steps t) st1
      in case tu_result t of
           Inl e \<Rightarrow> (Some (Inl e), st2)
         | Inr response \<Rightarrow>
             (case finalize_pending t st2 of
                (Some e, st3) \<Rightarrow> (Some (Inl e), st3)
              | (None, st3) \<Rightarrow>
                  (case maybe_handle_tools (ex_peer (rc_ex c)) (tu_fresh t) (sr_raw response) of
                     Some results \<Rightarrow> run_turns c ts [] (map tool_part results) st3
                   | None \<Rightarrow> (Some (Inr response), st3))))"

section \<open>The answer\<close>

text \<open>\<open>run_emit_error\<close> is \<open>_emit_error\<close> with the identifiers of the run.\<close>

definition run_emit_error ::
  "run_cfg \<Rightarrow> string \<Rightarrow> task_state \<Rightarrow> string option \<Rightarrow> py_status option \<Rightarrow> run_state \<Rightarrow> run_state" where
  "run_emit_error c text state error_type upstream_status st =
     put_events (emit_error (rc_task_id c) (rc_context_id c) text state error_type upstream_status
       (pe_streaming_request (rc_pe c))) st"

fun wait_signal :: "stream_ctx \<Rightarrow> stream_step list \<Rightarrow> stream_task \<Rightarrow> stream_task" where
  "wait_signal cx [] t = t"
| "wait_signal cx (s # ss) t =
     (if sy_signal (tk_sys t) \<noteq> None \<or> tk_done t then t else wait_signal cx ss (stream_advance cx s t))"

definition final_snapshot_event :: "run_cfg \<Rightarrow> string \<Rightarrow> string \<Rightarrow> nat \<Rightarrow> output_state \<Rightarrow> agent_event" where
  "final_snapshot_event c text message_id sequence out =
     Queued (artifact_update_event (rc_task_id c) (rc_context_id c) (stream_artifact_id c) (TextPart text)
       (Some (os_emitted_stream_chunk out)) (Some True)
       (Some (build_stream_artifact_metadata TextBlock ''final_snapshot'' (Some message_id) None
         (Some (build_event_id sequence out)) (Some sequence))) None)"

definition completed_status :: "run_cfg \<Rightarrow> string \<Rightarrow> string \<Rightarrow> pdict option \<Rightarrow> output_state \<Rightarrow> agent_event" where
  "completed_status c session_id message_id usage out =
     Queued (QStatus \<lparr>su_task_id = rc_task_id c, su_context_id = rc_context_id c, su_state = completed,
       su_final = True, su_metadata = build_output_metadata (Some session_id) None usage
         (Some [(''message_id'', PStr message_id),
                (''event_id'', PStr (os_event_id_namespace out @ '':status'')),
                (''source'', PStr ''status'')]) None None None\<rparr>)"

definition finish_stream ::
  "run_cfg \<Rightarrow> string \<Rightarrow> string \<Rightarrow> pdict option \<Rightarrow> stream_task \<Rightarrow> run_state \<Rightarrow> run_state" where
  "finish_stream c text message_id usage t st =
     (let (fresh, out1) = should_emit_final_snapshot text (sy_out (tk_sys t));
          (events, out2) =
            (if fresh then
               let (sequence, out) = next_sequence out1
               in ([final_snapshot_event c text message_id sequence out], out)
             else ([], out1))
      in put_events (events @ [completed_status c (ru_session_id st) message_id usage out2])
           (st\<lparr>ru_stream := Some (t\<lparr>tk_sys := (tk_sys t)\<lparr>sy_out := out2\<rparr>\<rparr>)\<rparr>))"

definition handle_streaming_response ::
  "run_cfg \<Rightarrow> run_env \<Rightarrow> string \<Rightarrow> string \<Rightarrow> pdict option \<Rightarrow> run_state
     \<Rightarrow> (run_error + unit) option \<times> run_state" where
  "handle_streaming_response c env text message_id usage st =
     (case ru_stream st of
        None \<Rightarrow> (Some (Inl (OtherError ''Streaming terminal signal was not initialized'')), st)
      | Some t \<Rightarrow>
          (let t' = wait_signal (run_stream_ctx c (ru_session_id st)) (re_wait env) t;
               st' = set_stream t t' st
           in if sy_signal (tk_sys t') = None \<and> \<not> tk_done t'
              then (if re_wait_cancelled env then Some (Inl CancelledRun) else None, st')
              else case await_stream_terminal_signal (ru_session_id st) True (sy_signal (tk_sys t'))
                     (StreamEnds (sy_signal (tk_sys t'))) of
                     ContractError e \<Rightarrow> (Some (Inl (PayloadMismatch e)), st')
                   | NotInitialized \<Rightarrow> (Some (Inl (OtherError ''Streaming task was not initialized'')), st')
                   | Signal sig \<Rightarrow>
                       if ts_state sig \<noteq> completed then
                         (Some (Inr ()), run_emit_error c
                            (case ts_message sig of Some (m # ms) \<Rightarrow> m # ms | _ \<Rightarrow> ''OpenCode execution failed.'')
                            (ts_state sig) (ts_error_type sig) (ts_upstream_status sig) st')
                       else case os_upstream_error (sy_out (tk_sys t')) of
                              Some e \<Rightarrow> (Some (Inr ()), run_emit_error c (ie_message e) (ie_state e)
                                (Some (ie_error_type e)) (ie_upstream_status e) st')
                            | None \<Rightarrow> (Some (Inr ()), finish_stream c text message_id usage t' st')))"

definition handle_non_streaming_response ::
  "run_cfg \<Rightarrow> send_response \<Rightarrow> string \<Rightarrow> string \<Rightarrow> pdict option \<Rightarrow> run_state \<Rightarrow> run_state" where
  "handle_non_streaming_response c response text message_id usage st =
     (let response_text = (if text = [] then ''(No text content returned by OpenCode.)'' else text)
      in put_events
           [QueuedTask \<lparr>te_task_id = rc_task_id c, te_context_id = rc_context_id c, te_state = completed,
              te_message = \<lparr>am_message_id = nonempty message_id, am_text = response_text,
                am_task_id = rc_task_id c, am_context_id = rc_context_id c\<rparr>,
              te_history = map ContextMessage (build_history (rc_rq c)),
              te_artifact_text = Some response_text,
              te_metadata = build_output_metadata (Some (sr_session_id response)) None usage None None None None\<rparr>] st)"

definition stream_out :: "run_cfg \<Rightarrow> run_state \<Rightarrow> output_state" where
  "stream_out c st = (case ru_stream st of None \<Rightarrow> initial_output_state c | Some t \<Rightarrow> sy_out (tk_sys t))"

definition handle_response ::
  "run_cfg \<Rightarrow> run_env \<Rightarrow> send_response \<Rightarrow> run_state \<Rightarrow> (run_error + unit) option \<times> run_state" where
  "handle_response c env response st =
     (let message_id = resolve_message_id (sr_message_id response) (stream_out c st);
          usage = merge_token_usage (extract_token_usage (ex_floats (rc_ex c)) (PDict (sr_raw response)))
                    (os_token_usage (stream_out c st))
      in case extract_upstream_error_from_response (PDict (sr_raw response)) of
           Some e \<Rightarrow> (Some (Inr ()), run_emit_error c (ie_message e) (ie_state e) (Some (ie_error_type e))
                       (ie_upstream_status e) st)
         | None \<Rightarrow>
             if pe_streaming_request (rc_pe c)
             then handle_streaming_response c env (sr_text response) message_id usage st
             else (Some (Inr ()), handle_non_streaming_response c response (sr_text response) message_id usage st))"

fun handle_run_error :: "run_cfg \<Rightarrow> run_error \<Rightarrow> run_state \<Rightarrow> run_state" where
  "handle_run_error c (HttpStatusError r) st =
     (case format_upstream_error r ''send_message'' of
        (error_type, state, message) \<Rightarrow>
          run_emit_error c message state (Some error_type) (Some (StatusInt (hr_status r))) st)"
| "handle_run_error c (HttpTimeout e) st =
     run_emit_error c (''OpenCode request timed out: '' @ e) failed (Some ''UPSTREAM_TIMEOUT'') None st"
| "handle_run_error c (PayloadMismatch e) st =
     run_emit_error c (''OpenCode payload mismatch: '' @ e) failed (Some ''UPSTREAM_PAYLOAD_ERROR'') None st"
| "handle_run_error c (ConcurrencyLimit e) st =
     run_emit_error c e failed (Some ''UPSTREAM_BACKPRESSURE'') None st"
| "handle_run_error c (OtherError e) st =
     run_emit_error c (''OpenCode error: '' @ e) failed None None st"
| "handle_run_error c CancelledRun st = st"

definition cleanup :: "run_cfg \<Rightarrow> run_env \<Rightarrow> run_state \<Rightarrow> run_state" where
  "cleanup c env st =
     let_stream c (re_tail env)
       (if ru_pending st \<and> ru_session_id st \<noteq> []
        then st\<lparr>ru_manager := ru_manager st @ [ReleaseClaim]\<rparr> else st)"

text \<open>The body of the \<open>try\<close>, and the whole of \<open>run\<close>.\<close>

definition run_body :: "run_cfg \<Rightarrow> run_env \<Rightarrow> (run_error + unit) option \<times> run_state" where
  "run_body c env =
     (case re_bind env of
        Inl e \<Rightarrow> (Some (Inl e), run_init)
      | Inr bound \<Rightarrow>
          (case run_turns c (re_turns env) (pe_user_text (rc_pe c)) (pe_request_parts (rc_pe c))
                  (put_events [working_status c] (let_stream c (re_start env) (bind_session c bound run_init))) of
             (None, st) \<Rightarrow> (None, st)
           | (Some (Inl e), st) \<Rightarrow> (Some (Inl e), st)
           | (Some (Inr response), st) \<Rightarrow> handle_response c env response st))"

datatype run_outcome = Returned | CancelRaised | Unfinished

definition run :: "run_cfg \<Rightarrow> run_env \<Rightarrow> run_outcome \<times> run_state" where
  "run c env =
     (case run_body c env of
        (None, st) \<Rightarrow> (Unfinished, st)
      | (Some (Inr _), st) \<Rightarrow> (Returned, cleanup c env st)
      | (Some (Inl e), st) \<Rightarrow>
          (if e = CancelledRun then CancelRaised else Returned, cleanup c env (handle_run_error c e st)))"

definition execute :: "executor \<Rightarrow> request \<Rightarrow> run_env \<Rightarrow> run_outcome \<times> run_state" where
  "execute ex rq env =
     (case (str_or (rq_task_id rq) None, str_or (rq_context_id rq) None) of
        (Some (t # ts), Some (x # xs)) \<Rightarrow>
          (case prepare ex rq (x # xs) of
             Inl message \<Rightarrow> (Returned, put_events (reject ex rq (t # ts) (x # xs) message) run_init)
           | Inr pe \<Rightarrow> run \<lparr>rc_ex = ex, rc_rq = rq, rc_task_id = t # ts, rc_context_id = x # xs, rc_pe = pe\<rparr> env)
      | _ \<Rightarrow> (Returned, put_events
          (reject ex rq (the (str_or (rq_task_id rq) (Some ''unknown'')))
            (the (str_or (rq_context_id rq) (Some ''unknown'')))
            ''Missing task_id or context_id in request context'') run_init))"

end
