(* ===== verification/Execution_Properties.thy ===== *)
theory Execution_Properties
  imports Execution
begin

text \<open>
  What a client and the other components can rely on when a message is executed: one terminal
  event, one numbering over the events of the stream task and of the coordinator, no completion
  after a failure, and no pending claim left behind.
\<close>

section \<open>Reading the queue\<close>

fun terminal_event :: "agent_event \<Rightarrow> bool" where
  "terminal_event (Streamed e) = final_status e"
| "terminal_event (Queued e) = final_status e"
| "terminal_event (QueuedTask t) = True"

text \<open>The events with a sequence number, whoever enqueued them.\<close>

fun numbered_event :: "agent_event \<Rightarrow> queue_event list" where
  "numbered_event (Streamed e) = [e]"
| "numbered_event (Queued e) = (if event_field ''sequence'' e = PNone then [] else [e])"
| "numbered_event (QueuedTask t) = []"

definition numbered :: "agent_event list \<Rightarrow> queue_event list" where
  "numbered q = concat (map numbered_event q)"

lemma numbered_simps [simp]:
  "numbered [] = []" "numbered (p @ q) = numbered p @ numbered q"
  "numbered (e # q) = numbered_event e @ numbered q" "numbered (map Streamed es) = es"
  by (simp_all add: numbered_def map_concat comp_def)

lemma no_stream_field [simp]: "stream_field None key = PNone"
  by (simp add: stream_field_def)

lemma numbered_emit_error [simp]: "numbered (emit_error tid cid text st ty up streaming) = []"
  by (auto simp: emit_error_def Let_def artifact_update_event_def error_metadata_def stream_field_def)

section \<open>The stream task\<close>

definition task_ok :: "stream_task \<Rightarrow> bool" where
  "task_ok t \<longleftrightarrow> stream_ok (tk_sys t) \<and> (sy_signal (tk_sys t) \<noteq> None \<longrightarrow> sy_stop (tk_sys t))"

abbreviation task_grows :: "stream_task \<Rightarrow> stream_task \<Rightarrow> bool" where
  "task_grows t t' \<equiv> grows (tk_sys t) (tk_sys t')"

lemma signal_stops:
  "(sy_signal sys \<noteq> None \<longrightarrow> sy_stop sys) \<Longrightarrow>
   (sy_signal (handle_event cx event sys) \<noteq> None \<longrightarrow> sy_stop (handle_event cx event sys))"
proof (cases "sy_signal sys = None")
  case True
  then show ?thesis by (simp add: handle_event_control)
next
  case False
  moreover assume "sy_signal sys \<noteq> None \<longrightarrow> sy_stop sys"
  ultimately have "sy_stop (signal_section cx event sys1)" if "sy_stop sys1" for sys1
    using that by (simp add: signal_section_def Let_def split: option.split)
  moreover have "sy_stop sys" using False \<open>sy_signal sys \<noteq> None \<longrightarrow> sy_stop sys\<close> by simp
  ultimately show ?thesis
    by (auto simp: handle_event_def control_sections split: pyval.split)
qed

lemma advance_ok:
  assumes "task_ok t"
  shows "task_ok (stream_advance cx step t)" "task_grows t (stream_advance cx step t)"
  using assms signal_stops [of "tk_sys t" cx]
  by (auto simp: task_ok_def stream_advance_def stream_ok_event grows_event stream_ok_metric Let_def
      split: stream_step.split)

lemma fold_advance_ok:
  "task_ok t \<Longrightarrow> task_ok (fold (stream_advance cx) steps t) \<and> task_grows t (fold (stream_advance cx) steps t)"
proof (induction steps arbitrary: t)
  case (Cons s steps)
  show ?case
    using Cons.IH [OF advance_ok(1) [OF Cons.prems, of cx s]] advance_ok(2) [OF Cons.prems, of cx s]
    by (auto intro: prefix_order.trans)
qed simp

lemma wait_ok: "task_ok t \<Longrightarrow> task_ok (wait_signal cx steps t) \<and> task_grows t (wait_signal cx steps t)"
proof (induction steps arbitrary: t)
  case (Cons s steps)
  show ?case
    using Cons.prems Cons.IH [OF advance_ok(1) [OF Cons.prems, of cx s]] advance_ok(2) [OF Cons.prems, of cx s]
    by (auto intro: prefix_order.trans)
qed simp

lemma new_task_ok: "task_ok (new_stream_task (new_output_state u m n))"
  by (simp add: task_ok_def new_stream_task_def stream_ok_new)

text \<open>Once the stop event is set, the task enqueues nothing more.\<close>

lemma stopped_advance:
  "tk_done t \<or> sy_stop (tk_sys t) \<Longrightarrow> tk_sys (stream_advance cx s t) = tk_sys t \<and>
    (tk_done (stream_advance cx s t) \<or> sy_stop (tk_sys (stream_advance cx s t)))"
  by (auto simp: stream_advance_def)

lemma stopped_fold:
  "tk_done t \<or> sy_stop (tk_sys t) \<Longrightarrow> tk_sys (fold (stream_advance cx) steps t) = tk_sys t"
proof (induction steps arbitrary: t)
  case (Cons s steps)
  show ?case
    using stopped_advance [OF Cons.prems, of cx s] Cons.IH [of "stream_advance cx s t"] by (metis fold_simps(2))
qed simp

section \<open>The run keeps the stream's events\<close>

definition run_ok :: "run_state \<Rightarrow> bool" where
  "run_ok st \<longleftrightarrow> (case ru_stream st of
      None \<Rightarrow> numbered (ru_queue st) = []
    | Some t \<Rightarrow> task_ok t \<and> numbered (ru_queue st) = sy_queue (tk_sys t)) \<and>
   list_all (\<lambda>e. \<not> terminal_event e) (ru_queue st)"

lemma stream_ok_not_final: "stream_ok sys \<Longrightarrow> e \<in> set (sy_queue sys) \<Longrightarrow> \<not> final_status e"
  by (simp add: stream_ok_def)

lemma set_stream_ok:
  assumes "run_ok st" "ru_stream st = Some t" "task_ok t'" "task_grows t t'"
  shows "run_ok (set_stream t t' st)"
proof -
  obtain es where es: "sy_queue (tk_sys t') = sy_queue (tk_sys t) @ es" using assms(4) by (auto simp: prefix_def)
  moreover have "\<forall>e \<in> set es. \<not> final_status e"
    using assms(3) es stream_ok_not_final by (fastforce simp: task_ok_def)
  ultimately show ?thesis
    using assms(1-3) by (auto simp: run_ok_def set_stream_def list_all_iff)
qed

lemma let_stream_ok: "run_ok st \<Longrightarrow> run_ok (let_stream c steps st)"
  using fold_advance_ok
  by (auto simp: let_stream_def intro!: set_stream_ok split: option.split) (simp add: run_ok_def)+

lemma run_ok_cong:
  "ru_queue st' = ru_queue st \<Longrightarrow> ru_stream st' = ru_stream st \<Longrightarrow> run_ok st \<Longrightarrow> run_ok st'"
  by (simp add: run_ok_def split: option.splits)

lemma run_ok_fields [simp]:
  "run_ok (st\<lparr>ru_calls := cs\<rparr>) = run_ok st" "run_ok (st\<lparr>ru_manager := m\<rparr>) = run_ok st"
  "run_ok (st\<lparr>ru_pending := b\<rparr>) = run_ok st"
  by (simp_all add: run_ok_def split: option.split)

lemma finalize_ok: "finalize_pending t st = (r, st') \<Longrightarrow> run_ok st \<Longrightarrow> run_ok st'"
  by (auto simp: finalize_pending_def split: if_splits option.splits)

lemma run_turns_ok: "run_turns c ts user_text parts st = (r, st') \<Longrightarrow> run_ok st \<Longrightarrow> run_ok st'"
proof (induction c ts user_text parts st arbitrary: r st' rule: run_turns.induct)
  case (2 c t ts user_text parts st)
  let ?st2 = "let_stream c (tu_steps t) (st\<lparr>ru_calls := ru_calls st @ [send_call c user_text parts st]\<rparr>)"
  have ok: "run_ok ?st2" using 2(3) by (simp add: let_stream_ok)
  obtain f st3 where f: "finalize_pending t ?st2 = (f, st3)" by fastforce
  note ok3 = finalize_ok [OF f ok]
  show ?case
    using 2(2) 2(1) [OF refl refl] ok ok3 f
    by (auto simp: Let_def split: sum.splits option.splits prod.splits)
qed simp

lemma bind_ok: "run_ok (bind_session c bound run_init)"
  using new_task_ok by (simp add: bind_session_def run_init_def run_ok_def initial_output_state_def
      new_stream_task_def)

lemma working_ok: "run_ok st \<Longrightarrow> run_ok (put_events [working_status c] st)"
  by (simp add: run_ok_def put_events_def working_status_def split: option.splits)

section \<open>The answer\<close>

definition numbering_ok :: "queue_event list \<Rightarrow> bool" where
  "numbering_ok es \<longleftrightarrow>
     map (event_field ''sequence'') es = map (\<lambda>k. PInt (int k)) [1..<Suc (length es)] \<and>
     append_flags es = flags_from (length (artifacts es))"

lemma stream_ok_numbering:
  "stream_ok sys \<Longrightarrow> numbering_ok (sy_queue sys) \<and> length (sy_queue sys) = os_sequence (sy_out sys)"
proof -
  assume ok: "stream_ok sys"
  then have "map (event_field ''sequence'') (sy_queue sys) =
      map (\<lambda>k. PInt (int k)) [1..<Suc (os_sequence (sy_out sys))]" by (simp add: stream_ok_def)
  then have "length (sy_queue sys) = os_sequence (sy_out sys)" by (metis length_map length_upt diff_Suc_1)
  with ok show ?thesis by (simp add: stream_ok_def numbering_ok_def)
qed

lemma numbering_ok_Nil: "numbering_ok []"
  by (simp add: numbering_ok_def flags_from_def)

text \<open>The queue ends with its only terminal event.\<close>

definition closed :: "agent_event list \<Rightarrow> bool" where
  "closed q \<longleftrightarrow> (\<exists>pre e. q = pre @ [e] \<and> terminal_event e \<and> list_all (\<lambda>x. \<not> terminal_event x) pre)"

definition stream_settled :: "run_state \<Rightarrow> bool" where
  "stream_settled st \<longleftrightarrow> (case ru_stream st of
      None \<Rightarrow> numbered (ru_queue st) = []
    | Some t \<Rightarrow> task_ok t \<and> numbered (ru_queue st) = sy_queue (tk_sys t) \<or>
                sy_stop (tk_sys t) \<and> numbering_ok (numbered (ru_queue st)))"

definition answered_ok :: "run_state \<Rightarrow> bool" where
  "answered_ok st \<longleftrightarrow> closed (ru_queue st) \<and> stream_settled st"

lemma closed_error: "list_all (\<lambda>x. \<not> terminal_event x) q \<Longrightarrow>
    closed (q @ emit_error tid cid text st ty up streaming)"
proof -
  assume q: "list_all (\<lambda>x. \<not> terminal_event x) q"
  obtain pre e where "emit_error tid cid text st ty up streaming = pre @ [e]" "terminal_event e"
      "list_all (\<lambda>x. \<not> terminal_event x) pre"
    by (cases streaming) (auto simp: emit_error_def Let_def artifact_update_event_def
        intro: that [of "[_]"] that [of "[]"])
  then show ?thesis unfolding closed_def
    by (intro exI [of _ "q @ pre"] exI [of _ e]) (use q in simp)
qed

lemma run_ok_settled: "run_ok st \<Longrightarrow> stream_settled st"
  by (auto simp: run_ok_def stream_settled_def split: option.splits)

lemma answer_error: "run_ok st \<Longrightarrow> answered_ok (run_emit_error c text state ty up st)"
  by (auto simp: answered_ok_def run_emit_error_def put_events_def run_ok_def stream_settled_def
      closed_error split: option.splits)

lemma answer_run_error: "run_ok st \<Longrightarrow> e \<noteq> CancelledRun \<Longrightarrow> answered_ok (handle_run_error c e st)"
  by (cases e) (auto simp: answer_error split: prod.split)

lemma output_metadata_sequence [simp]:
  "stream_field (build_output_metadata sid None usage (Some d) None None None) key = pget d key"
  by (auto simp: stream_field_def build_output_metadata_def opt_entry_def pget_def split: option.split)

lemma completed_status_numbered [simp]: "numbered_event (completed_status c sid mid usage out) = []"
  by (simp add: completed_status_def)

lemma snapshot_numbered [simp]:
  "numbered_event (final_snapshot_event c text mid n out) =
     [QArtifact \<lparr>au_task_id = rc_task_id c, au_context_id = rc_context_id c,
        au_artifact_id = stream_artifact_id c, au_part = TextPart text,
        au_append = Some (os_emitted_stream_chunk out), au_last_chunk = Some True,
        au_artifact_metadata = Some (build_stream_artifact_metadata TextBlock ''final_snapshot'' (Some mid) None
          (Some (build_event_id n out)) (Some n)), au_event_metadata = None\<rparr>]"
  "\<not> terminal_event (final_snapshot_event c text mid n out)"
  by (auto simp: final_snapshot_event_def artifact_update_event_def build_stream_artifact_metadata_def
      stream_field_def truthy_entry_def)

lemma snapshot_keeps:
  "should_emit_final_snapshot text out = (b, out') \<Longrightarrow> os_sequence out' = os_sequence out \<and>
    os_emitted_stream_chunk out' = os_emitted_stream_chunk out"
  by (auto simp: should_emit_final_snapshot_def split: if_splits)

lemma numbering_snoc:
  assumes "numbering_ok es" "event_field ''sequence'' e = PInt (int (Suc (length es)))"
    and "artifact_of e = Some a" "au_append a = Some (artifacts es \<noteq> [])"
  shows "numbering_ok (es @ [e])"
proof -
  have "artifacts [e] = [a]" using assms(3) by (simp add: artifacts_def map_filter_def)
  then show ?thesis using assms by (simp add: numbering_ok_def append_flags_def flags_from_Suc)
qed

lemma answer_finish:
  assumes ok: "run_ok st" and t: "ru_stream st = Some t" and sig: "sy_signal (tk_sys t) \<noteq> None"
  shows "answered_ok (finish_stream c text mid usage t st)"
proof -
  obtain b out1 where b: "should_emit_final_snapshot text (sy_out (tk_sys t)) = (b, out1)" by fastforce
  have so: "stream_ok (tk_sys t)" and stop: "sy_stop (tk_sys t)" and q: "numbered (ru_queue st) = sy_queue (tk_sys t)"
    using ok t sig by (auto simp: run_ok_def task_ok_def)
  note nk = stream_ok_numbering [OF so] and sk = snapshot_keeps [OF b]
  have em: "os_emitted_stream_chunk (sy_out (tk_sys t)) \<longleftrightarrow> artifacts (sy_queue (tk_sys t)) \<noteq> []"
    using so by (simp add: stream_ok_def)
  have nt: "list_all (\<lambda>x. \<not> terminal_event x) (ru_queue st)" using ok by (simp add: run_ok_def)
  have "numbering_ok (numbered (ru_queue (finish_stream c text mid usage t st)))"
    using nk sk em by (auto simp: finish_stream_def b next_sequence_def put_events_def q
        intro!: numbering_snoc)
  moreover have "closed (ru_queue (finish_stream c text mid usage t st))"
    using nt unfolding closed_def
    by (auto simp: finish_stream_def b next_sequence_def put_events_def completed_status_def)
  ultimately show ?thesis
    using stop by (auto simp: answered_ok_def stream_settled_def finish_stream_def b next_sequence_def put_events_def)
qed

lemma streaming_answer:
  assumes "handle_streaming_response c env text mid usage st = (r, st')" "run_ok st"
  shows "r = Some (Inr ()) \<and> answered_ok st' \<or> r \<noteq> Some (Inr ()) \<and> run_ok st'"
proof (cases "ru_stream st")
  case None
  then show ?thesis using assms by (auto simp: handle_streaming_response_def)
next
  case (Some t)
  let ?t = "wait_signal (run_stream_ctx c (ru_session_id st)) (re_wait env) t"
  have "task_ok t" using assms(2) Some by (simp add: run_ok_def)
  from wait_ok [OF this] have ok: "run_ok (set_stream t ?t st)"
    by (intro set_stream_ok [OF assms(2) Some]) simp_all
  have str: "ru_stream (set_stream t ?t st) = Some ?t" by (simp add: set_stream_def)
  show ?thesis
    using assms(1) ok answer_error [OF ok] answer_finish [OF ok str]
    by (auto simp: handle_streaming_response_def Some Let_def await_stream_terminal_signal_def
        split: if_splits option.splits list.splits)
qed

lemma response_answer:
  assumes "handle_response c env response st = (r, st')" "run_ok st"
  shows "r = Some (Inr ()) \<and> answered_ok st' \<or> r \<noteq> Some (Inr ()) \<and> run_ok st'"
proof -
  have "answered_ok (handle_non_streaming_response c response w mid usage st)" for w mid usage
    using assms(2) unfolding answered_ok_def closed_def
    by (auto simp: handle_non_streaming_response_def put_events_def run_ok_def stream_settled_def Let_def
        split: option.splits)
  then show ?thesis
    using assms streaming_answer
    by (auto simp: handle_response_def Let_def answer_error split: option.splits if_splits)
qed

lemma body_answer:
  assumes "run_body c env = (r, st)"
  shows "r = Some (Inr ()) \<and> answered_ok st \<or> r \<noteq> Some (Inr ()) \<and> run_ok st"
proof (cases "re_bind env")
  case (Inl e)
  then show ?thesis using assms by (auto simp: run_body_def run_ok_def run_init_def)
next
  case (Inr bound)
  obtain r' st' where turns: "run_turns c (re_turns env) (pe_user_text (rc_pe c)) (pe_request_parts (rc_pe c))
      (put_events [working_status c] (let_stream c (re_start env) (bind_session c bound run_init))) = (r', st')"
    by fastforce
  have "run_ok st'" by (rule run_turns_ok [OF turns]) (simp add: working_ok let_stream_ok bind_ok)
  then show ?thesis
    using assms turns response_answer
    by (auto simp: run_body_def Inr split: option.splits sum.splits)
qed

lemma settled_cleanup:
  assumes "stream_settled st"
  shows "stream_settled (cleanup c env st)"
    and "\<exists>es. ru_queue (cleanup c env st) = ru_queue st @ map Streamed es \<and> list_all (\<lambda>e. \<not> final_status e) es"
proof -
  define st1 where "st1 = (if ru_pending st \<and> ru_session_id st \<noteq> []
      then st\<lparr>ru_manager := ru_manager st @ [ReleaseClaim]\<rparr> else st)"
  have st1: "ru_stream st1 = ru_stream st" "ru_queue st1 = ru_queue st" by (simp_all add: st1_def)
  have c: "cleanup c env st = let_stream c (re_tail env) st1" by (simp add: cleanup_def st1_def)
  have "stream_settled (let_stream c (re_tail env) st1) \<and>
    (\<exists>es. ru_queue (let_stream c (re_tail env) st1) = ru_queue st @ map Streamed es \<and>
      list_all (\<lambda>e. \<not> final_status e) es)"
  proof (cases "ru_stream st")
    case None
    then show ?thesis using assms st1 by (auto simp: let_stream_def stream_settled_def)
  next
    case (Some t)
    let ?t = "fold (stream_advance (run_stream_ctx c (ru_session_id st1))) (re_tail env) t"
    from assms Some consider "task_ok t" "numbered (ru_queue st) = sy_queue (tk_sys t)"
      | "sy_stop (tk_sys t)" "numbering_ok (numbered (ru_queue st))"
      by (auto simp: stream_settled_def)
    then show ?thesis
    proof cases
      case 1
      note fold_advance_ok [OF 1(1), of "run_stream_ctx c (ru_session_id st1)" "re_tail env"]
      moreover from this obtain es where es: "sy_queue (tk_sys ?t) = sy_queue (tk_sys t) @ es"
        by (auto simp: prefix_def)
      moreover have "list_all (\<lambda>e. \<not> final_status e) es"
        using calculation stream_ok_not_final by (fastforce simp: task_ok_def list_all_iff)
      ultimately show ?thesis
        using Some st1 1(2) by (auto simp: let_stream_def set_stream_def stream_settled_def)
    next
      case 2
      then have "tk_sys ?t = tk_sys t" by (simp add: stopped_fold)
      then show ?thesis
        using Some st1 2 by (auto simp: let_stream_def set_stream_def stream_settled_def)
    qed
  qed
  then show "stream_settled (cleanup c env st)"
    "\<exists>es. ru_queue (cleanup c env st) = ru_queue st @ map Streamed es \<and> list_all (\<lambda>e. \<not> final_status e) es"
    by (simp_all add: c)
qed

lemma settled_numbering: "stream_settled st \<Longrightarrow> numbering_ok (numbered (ru_queue st))"
  using stream_ok_numbering
  by (auto simp: stream_settled_def task_ok_def numbering_ok_Nil split: option.splits)

definition only_terminal :: "agent_event list \<Rightarrow> bool" where
  "only_terminal q \<longleftrightarrow> length (filter terminal_event q) = 1 \<and>
     (\<exists>es. tl (dropWhile (\<lambda>e. \<not> terminal_event e) q) = map Streamed es)"

lemma closed_then_streamed:
  assumes "closed q" "list_all (\<lambda>e. \<not> final_status e) es"
  shows "only_terminal (q @ map Streamed es)"
proof -
  obtain pre e where q: "q = pre @ [e]" "terminal_event e" "\<forall>x \<in> set pre. \<not> terminal_event x"
    using assms(1) by (auto simp: closed_def list_all_iff)
  have "filter terminal_event (map Streamed es) = []"
    using assms(2) by (auto simp: filter_empty_conv list_all_iff)
  moreover have "filter terminal_event pre = []" using q(3) by (simp add: filter_empty_conv)
  ultimately show ?thesis using q by (auto simp: only_terminal_def)
qed

lemma run_returned:
  assumes "run c env = (Returned, st)"
  obtains st0 where "answered_ok st0" "st = cleanup c env st0"
proof -
  obtain r s where b: "run_body c env = (r, s)" by fastforce
  show thesis
    using assms b body_answer [OF b] that answer_run_error
    by (auto simp: run_def split: option.splits sum.splits if_splits)
qed

lemma run_settled: "stream_settled (snd (run c env)) \<or> run_ok (snd (run c env))"
proof -
  obtain r s where b: "run_body c env = (r, s)" by fastforce
  show ?thesis
    using body_answer [OF b] b answer_run_error run_ok_settled settled_cleanup(1)
    by (cases r rule: option.exhaust; auto simp: run_def answered_ok_def split: sum.splits)
      (metis handle_run_error.simps(6))+
qed

section \<open>Properties\<close>


definition demo_floats :: py_floats where
  "demo_floats = \<lparr>pf_repr = (\<lambda>_. ''0.0''), pf_parse = (\<lambda>_. None)\<rparr>"

definition demo_executor :: executor where
  "demo_executor = \<lparr>ex_streaming_enabled = True, ex_policy = demo_policy, ex_resolver = plain_resolver,
     ex_client_directory = None, ex_peer = None, ex_floats = demo_floats\<rparr>"

definition demo_request :: request where
  "demo_request = \<lparr>rq_task_id = Some ''t'', rq_context_id = Some ''c'',
     rq_call_state = Some [(''method'', PStr ''message/stream'')], rq_metadata = PNone,
     rq_parts = Some [InText (Some ''Hi'')], rq_message_metadata = None, rq_message = None,
     rq_task_history = [], rq_configuration = ModesConfig PNone, rq_user_input = ''Hi''\<rparr>"

definition idle_event :: "string \<Rightarrow> pdict" where
  "idle_event sid = [(''type'', PStr ''session.idle''), (''properties'', PDict [(''sessionID'', PStr sid)])]"

definition demo_env :: run_env where
  "demo_env = \<lparr>re_bind = Inr (''s'', True), re_start = [],
     re_turns = [\<lparr>tu_steps = [], tu_result = Inr \<lparr>sr_text = ''Hello'', sr_session_id = ''s'',
       sr_message_id = None, sr_raw = []\<rparr>, tu_finalize = None, tu_fresh = (\<lambda>_. ''id'')\<rparr>],
     re_wait = [Deliver (idle_event ''s'')], re_wait_cancelled = False, re_tail = []\<rparr>"

lemma demo_returns: "fst (execute demo_executor demo_request demo_env) = Returned"
  by code_simp


text \<open>
  C25: over a whole run, the events of the stream task and of the coordinator that carry a sequence
  number carry 1, 2, 3 and so on in the order of the queue, and of their artifact updates the first
  starts the artifact and the others append to it: the final snapshot continues the stream.
\<close>

theorem run_events_are_numbered:
  "numbering_ok (numbered (ru_queue (snd (run c env))))"
  using run_settled [of c env] settled_numbering run_ok_settled by blast

section \<open>Claims\<close>

definition claim_settled :: "run_state \<Rightarrow> bool" where
  "claim_settled st \<longleftrightarrow> (ru_pending st \<and> ru_manager st = []) \<or>
     (\<not> ru_pending st \<and> ru_manager st = [FinalizeBinding True])"

definition claim_known :: "run_state \<Rightarrow> bool" where
  "claim_known st \<longleftrightarrow> claim_settled st \<or> (ru_pending st \<and> ru_manager st = [FinalizeBinding False])"

abbreviation same_claim :: "run_state \<Rightarrow> run_state \<Rightarrow> bool" where
  "same_claim st st' \<equiv> ru_pending st' = ru_pending st \<and> ru_manager st' = ru_manager st \<and>
     ru_session_id st' = ru_session_id st \<and> ru_calls st' = ru_calls st"

lemma claim_let_stream [simp]: "same_claim st (let_stream c steps st)"
  by (simp add: let_stream_def set_stream_def split: option.split)

lemma claim_set_stream [simp]: "same_claim st (set_stream t t' st)"
  by (simp add: set_stream_def)

lemma claim_put_events [simp]: "same_claim st (put_events es st)"
  by (simp add: put_events_def)

lemma claim_run_error [simp]: "same_claim st (handle_run_error c e st)"
  by (cases e) (simp_all add: run_emit_error_def split: prod.split)

lemma claim_response: "handle_response c env response st = (r, st') \<Longrightarrow> same_claim st st'"
  by (auto simp: handle_response_def Let_def run_emit_error_def handle_streaming_response_def
      handle_non_streaming_response_def finish_stream_def case_prod_unfold
      split: option.splits if_splits await_outcome.splits)

lemma claim_turns:
  "run_turns c ts user_text parts st = (r, st') \<Longrightarrow> claim_settled st \<Longrightarrow>
     claim_known st' \<and> ru_session_id st' = ru_session_id st"
proof (induction c ts user_text parts st arbitrary: r st' rule: run_turns.induct)
  case (2 c t ts user_text parts st)
  let ?st2 = "let_stream c (tu_steps t) (st\<lparr>ru_calls := ru_calls st @ [send_call c user_text parts st]\<rparr>)"
  have st2: "claim_settled ?st2" using 2(3) by (simp add: claim_settled_def)
  obtain f st3 where f: "finalize_pending t ?st2 = (f, st3)" by fastforce
  then have st3: "claim_known st3" "f = None \<Longrightarrow> claim_settled st3" "ru_session_id st3 = ru_session_id st"
    using st2 by (auto simp: finalize_pending_def claim_known_def claim_settled_def
        split: if_splits option.splits)
  show ?case
    using 2(2) 2(1) [OF refl refl] st2 st3 f
    by (auto simp: Let_def claim_known_def split: sum.splits option.splits prod.splits)
qed (simp add: claim_known_def)

lemma no_claim_turns:
  "run_turns c ts user_text parts st = (r, st') \<Longrightarrow> \<not> ru_pending st \<Longrightarrow> ru_manager st = [] \<Longrightarrow>
     \<not> ru_pending st' \<and> ru_manager st' = []"
proof (induction c ts user_text parts st arbitrary: r st' rule: run_turns.induct)
  case (2 c t ts user_text parts st)
  let ?st2 = "let_stream c (tu_steps t) (st\<lparr>ru_calls := ru_calls st @ [send_call c user_text parts st]\<rparr>)"
  have st2: "\<not> ru_pending ?st2" "ru_manager ?st2 = []" using 2(3,4) by simp_all
  then have f: "finalize_pending t ?st2 = (None, ?st2)" by (simp add: finalize_pending_def)
  show ?case
    using 2(2) 2(1) [OF refl refl _ f [symmetric] refl _ _ st2] st2 f
    by (auto simp: Let_def split: sum.splits option.splits)
qed simp

text \<open>
  C13: a run that took a pending claim of a preferred session settles it: when the run ends, also by
  an error or a cancellation, the claim has been finalized once successfully, or it is released by
  the last call to the session manager; and a run without a pending claim touches no claim.
\<close>

theorem pending_claim_is_settled:
  assumes "re_bind env = Inr (sid, pending)" and "run c env = (outcome, st)"
    and "outcome \<noteq> Unfinished" and "sid \<noteq> []"
  shows "ru_manager st \<in> (if pending
    then {[FinalizeBinding True], [FinalizeBinding False, ReleaseClaim], [ReleaseClaim]} else {[]})"
proof -
  let ?st0 = "put_events [working_status c] (let_stream c (re_start env) (bind_session c (sid, pending) run_init))"
  obtain r1 st1 where turns: "run_turns c (re_turns env) (pe_user_text (rc_pe c)) (pe_request_parts (rc_pe c)) ?st0
      = (r1, st1)" by fastforce
  obtain r2 st2 where body: "run_body c env = (r2, st2)" by fastforce
  have same: "same_claim st1 st2"
    using body turns assms(1) claim_response
    by (auto simp: run_body_def split: option.splits sum.splits)
  have st: "\<exists>st3. same_claim st2 st3 \<and> st = cleanup c env st3"
  proof (cases r2)
    case None
    then show ?thesis using assms(2,3) body by (simp add: run_def)
  next
    case (Some r)
    then have "st = cleanup c env st2 \<or> (\<exists>e. st = cleanup c env (handle_run_error c e st2))"
      using assms(2) body by (cases r) (auto simp: run_def)
    then show ?thesis by (metis claim_run_error)
  qed
  show ?thesis
  proof (cases pending)
    case True
    then have "claim_settled ?st0" by (simp add: claim_settled_def bind_session_def run_init_def)
    from claim_turns [OF turns this] have "claim_known st1" "ru_session_id st1 = sid"
      by (simp_all add: bind_session_def)
    then show ?thesis
      using True st same assms(4) by (auto simp: cleanup_def claim_known_def claim_settled_def)
  next
    case False
    have "\<not> ru_pending st1 \<and> ru_manager st1 = []"
      by (rule no_claim_turns [OF turns]) (simp_all add: False bind_session_def run_init_def)
    then show ?thesis using False st same by (auto simp: cleanup_def)
  qed
qed

definition demo_cfg :: run_cfg where
  "demo_cfg = \<lparr>rc_ex = demo_executor, rc_rq = demo_request, rc_task_id = ''t'', rc_context_id = ''c'',
     rc_pe = projr (prepare demo_executor demo_request ''c'')\<rparr>"

lemma demo_run: "fst (run demo_cfg demo_env) = Returned" "re_bind demo_env = Inr (''s'', True)"
  by code_simp+

theorem pending_claim_is_settled_witness:
  "ru_manager (snd (run demo_cfg demo_env)) \<in> (if True
    then {[FinalizeBinding True], [FinalizeBinding False, ReleaseClaim], [ReleaseClaim]} else {[]})"
  by (rule pending_claim_is_settled [OF demo_run(2), of demo_cfg Returned])
    (use demo_run(1) in \<open>cases "run demo_cfg demo_env"; simp\<close>)+

section \<open>Completion\<close>

definition error_fails :: "output_state \<Rightarrow> bool" where
  "error_fails out \<longleftrightarrow> (\<forall>e. os_upstream_error out = Some e \<longrightarrow> ie_state e \<noteq> completed)"

lemma profile_not_completed [simp]: "ep_state (resolve_upstream_http_error_profile status) \<noteq> completed"
  by (auto simp: resolve_upstream_http_error_profile_def upstream_http_error_profile_by_status_def
      split: if_splits)

lemma inband_not_completed [simp]: "ie_state (format_inband_upstream_error src det status name) \<noteq> completed"
  by (auto simp: format_inband_upstream_error_def Let_def split: option.split)

lemma payload_error_fails: "extract_upstream_error_from_payload v src = Some e \<Longrightarrow> ie_state e \<noteq> completed"
  by (auto simp: extract_upstream_error_from_payload_def Let_def split: pyval.splits if_splits option.splits prod.splits)

lemma event_error_fails: "extract_upstream_error_from_event event = Some e \<Longrightarrow> ie_state e \<noteq> completed"
  by (auto simp: extract_upstream_error_from_event_def Let_def dest!: payload_error_fails
      split: pyval.splits if_splits option.splits)

lemma response_error_fails: "extract_upstream_error_from_response raw = Some e \<Longrightarrow> ie_state e \<noteq> completed"
  by (auto simp: extract_upstream_error_from_response_def Let_def dest!: payload_error_fails
      split: pyval.splits if_splits option.splits)

abbreviation same_error :: "stream_sys \<Rightarrow> stream_sys \<Rightarrow> bool" where
  "same_error sys sys' \<equiv> os_upstream_error (sy_out sys') = os_upstream_error (sy_out sys)"

lemma error_chunk: "same_error sys (emit_chunk cx ck sys)"
  by (rule emit_chunk_cases [of cx ck sys]) (simp_all add: emitted_state_def)

lemma error_chunks: "same_error sys (emit_chunks cx cks sys)"
  unfolding emit_chunks_def by (induction cks arbitrary: sys) (simp_all add: error_chunk)

lemma error_interrupt: "same_error sys (emit_interrupt_status cx st rid ty ph d r sys)"
  by (simp add: emit_interrupt_status_def next_sequence_def Let_def)

lemma error_sections:
  "same_error sys (progress_section cx props sys)"
  "same_error sys (asked_section cx event sys)"
  "same_error sys (resolved_section cx event sys)"
  "same_error sys (message_section cx ty props sys)"
  by (auto simp: progress_section_def asked_section_def resolved_section_def message_section_def
      delta_event_def updated_event_def emit_progress_status_def next_sequence_def Let_def case_prod_unfold
      error_chunks error_interrupt register_progress_def mark_interrupt_pending_def clear_interrupt_pending_def
      split: pyval.split option.split)

lemma error_fails_signal: "error_fails (sy_out sys) \<Longrightarrow> error_fails (sy_out (signal_section cx event sys))"
  by (auto simp: signal_section_def Let_def error_fails_def ingest_token_usage_def dest: event_error_fails
      split: option.splits)

lemma error_fails_cong: "same_error sys sys' \<Longrightarrow> error_fails (sy_out sys) \<Longrightarrow> error_fails (sy_out sys')"
  by (simp add: error_fails_def)

lemma error_fails_event: "error_fails (sy_out sys) \<Longrightarrow> error_fails (sy_out (handle_event cx event sys))"
proof -
  assume a: "error_fails (sy_out sys)"
  have "error_fails (sy_out (message_section cx ty props (resolved_section cx event (asked_section cx event
      (signal_section cx event (progress_section cx props sys))))))" for ty props
    by (rule error_fails_cong [OF error_sections(4)], rule error_fails_cong [OF error_sections(3)],
        rule error_fails_cong [OF error_sections(2)], rule error_fails_signal,
        rule error_fails_cong [OF error_sections(1) a])
  moreover have "error_fails (sy_out (message_section cx ty props sys))" for ty props
    by (rule error_fails_cong [OF error_sections(4) a])
  ultimately show ?thesis using a by (auto simp: handle_event_def split: pyval.split)
qed

abbreviation task_fails :: "stream_task \<Rightarrow> bool" where
  "task_fails t \<equiv> error_fails (sy_out (tk_sys t))"

lemma fails_advance: "task_fails t \<Longrightarrow> task_fails (stream_advance cx s t)"
  by (auto simp: stream_advance_def Let_def error_fails_event split: stream_step.split)

lemma fails_fold: "task_fails t \<Longrightarrow> task_fails (fold (stream_advance cx) steps t)"
  by (induction steps arbitrary: t) (simp_all add: fails_advance)

lemma fails_wait: "task_fails t \<Longrightarrow> task_fails (wait_signal cx steps t)"
  by (induction steps arbitrary: t) (simp_all add: fails_advance)

definition stream_fails :: "run_state \<Rightarrow> bool" where
  "stream_fails st \<longleftrightarrow> (\<forall>t. ru_stream st = Some t \<longrightarrow> task_fails t)"

lemma stream_fails_let: "stream_fails st \<Longrightarrow> stream_fails (let_stream c steps st)"
  by (auto simp: stream_fails_def let_stream_def set_stream_def fails_fold split: option.splits)

lemma stream_fails_turns: "run_turns c ts user_text parts st = (r, st') \<Longrightarrow> stream_fails st \<Longrightarrow> stream_fails st'"
proof (induction c ts user_text parts st arbitrary: r st' rule: run_turns.induct)
  case (2 c t ts user_text parts st)
  let ?st2 = "let_stream c (tu_steps t) (st\<lparr>ru_calls := ru_calls st @ [send_call c user_text parts st]\<rparr>)"
  have st2: "stream_fails ?st2" using 2(3) by (intro stream_fails_let) (simp add: stream_fails_def)
  obtain f st3 where f: "finalize_pending t ?st2 = (f, st3)" by fastforce
  then have st3: "stream_fails st3"
    using st2 by (auto simp: finalize_pending_def stream_fails_def split: if_splits option.splits)
  show ?case
    using 2(2) 2(1) [OF refl refl] st2 st3 f by (auto simp: Let_def split: sum.splits option.splits prod.splits)
qed simp

fun event_state :: "agent_event \<Rightarrow> task_state option" where
  "event_state (Streamed e) = None"
| "event_state (Queued (QArtifact a)) = None"
| "event_state (Queued (QStatus s)) = (if su_final s then Some (su_state s) else None)"
| "event_state (QueuedTask t) = Some (te_state t)"

definition claims_completion :: "run_state \<Rightarrow> bool" where
  "claims_completion st \<longleftrightarrow> Some completed \<in> event_state ` set (ru_queue st)"

lemma event_state_terminal: "event_state e \<noteq> None \<Longrightarrow> terminal_event e"
  by (cases e rule: event_state.cases) (auto split: if_splits)

lemma open_run: "run_ok st \<Longrightarrow> \<not> claims_completion st"
  using event_state_terminal by (force simp: run_ok_def list_all_iff claims_completion_def)

lemma error_not_completed [simp]: "state \<noteq> completed \<Longrightarrow>
    Some completed \<notin> event_state ` set (emit_error tid cid w state ty up streaming)"
  by (auto simp: emit_error_def Let_def artifact_update_event_def)

lemma completion_error [simp]: "state \<noteq> completed \<Longrightarrow>
    claims_completion (run_emit_error c w state ty up st) = claims_completion st"
  using error_not_completed [of state] by (auto simp: run_emit_error_def put_events_def image_Un claims_completion_def)

lemma completion_run_error: "claims_completion (handle_run_error c e st) = claims_completion st"
  by (cases e) (auto simp: format_upstream_error_def Let_def split: option.split list.split)

lemma completion_let_stream: "claims_completion (let_stream c steps st) = claims_completion st"
  by (auto simp: let_stream_def set_stream_def image_Un claims_completion_def split: option.split)

lemma completion_cleanup: "claims_completion (cleanup c env st) = claims_completion st"
  by (simp add: cleanup_def completion_let_stream) (simp add: claims_completion_def)

definition clean_stream :: "run_state \<Rightarrow> bool" where
  "clean_stream st \<longleftrightarrow> (case ru_stream st of
      None \<Rightarrow> False
    | Some t \<Rightarrow> sy_stop (tk_sys t) \<and> os_upstream_error (sy_out (tk_sys t)) = None \<and>
        (case sy_signal (tk_sys t) of None \<Rightarrow> False | Some sig \<Rightarrow> ts_state sig = completed))"

lemma clean_finish:
  assumes "task_ok t" "sy_signal (tk_sys t) = Some sig" "ts_state sig = completed"
    and "os_upstream_error (sy_out (tk_sys t)) = None"
  shows "clean_stream (finish_stream c w mid usage t st)"
  using assms
  by (auto simp: clean_stream_def finish_stream_def put_events_def next_sequence_def task_ok_def
      should_emit_final_snapshot_def)

lemma clean_cleanup: "clean_stream st \<Longrightarrow> clean_stream (cleanup c env st)"
proof (cases "ru_stream st")
  case (Some t)
  assume "clean_stream st"
  then have stop: "sy_stop (tk_sys t)" using Some by (simp add: clean_stream_def)
  have "tk_sys (fold (stream_advance cx) steps t) = tk_sys t" for cx steps
    using stop by (simp add: stopped_fold)
  then show ?thesis
    using \<open>clean_stream st\<close> Some by (simp add: clean_stream_def cleanup_def let_stream_def set_stream_def)
qed (simp add: clean_stream_def)

lemma streaming_completion:
  assumes "handle_streaming_response c env w mid usage st = (r, st')" "run_ok st" "stream_fails st"
    and "claims_completion st'"
  shows "clean_stream st'"
proof (cases "ru_stream st")
  case None
  then show ?thesis using assms open_run by (auto simp: handle_streaming_response_def)
next
  case (Some t)
  define t' where "t' = wait_signal (run_stream_ctx c (ru_session_id st)) (re_wait env) t"
  have t: "task_ok t" "task_fails t" using assms(2,3) Some by (simp_all add: run_ok_def stream_fails_def)
  have t': "task_ok t'" "task_grows t t'" "task_fails t'"
    using wait_ok [OF t(1)] fails_wait [OF t(2)] by (simp_all add: t'_def)
  have no: "\<not> claims_completion (set_stream t t' st)"
    by (rule open_run [OF set_stream_ok [OF assms(2) Some t'(1,2)]])
  have fails: "os_upstream_error (sy_out (tk_sys t')) = Some e \<Longrightarrow> ie_state e \<noteq> completed" for e
    using t'(3) by (simp add: error_fails_def)
  show ?thesis
    using assms(1,4) no fails clean_finish [OF t'(1)]
    by (auto simp: handle_streaming_response_def Some Let_def await_stream_terminal_signal_def t'_def [symmetric]
        split: if_splits option.splits)
qed

abbreviation run_start :: "run_cfg \<Rightarrow> run_env \<Rightarrow> string \<times> bool \<Rightarrow> run_state" where
  "run_start c env bound \<equiv>
     put_events [working_status c] (let_stream c (re_start env) (bind_session c bound run_init))"

lemma run_start_ok: "run_ok (run_start c env bound)"
  by (simp add: working_ok let_stream_ok bind_ok)

lemma run_start_fails: "stream_fails (run_start c env bound)"
proof -
  have "stream_fails (bind_session c bound run_init)"
    by (simp add: stream_fails_def bind_session_def new_stream_task_def initial_output_state_def
        error_fails_def new_output_state_def)
  from stream_fails_let [OF this] show ?thesis by (simp add: stream_fails_def put_events_def)
qed

lemma body_completion:
  assumes "run_body c env = (r, st)" "claims_completion st"
  shows "\<exists>bound response. re_bind env = Inr bound \<and>
    fst (run_turns c (re_turns env) (pe_user_text (rc_pe c)) (pe_request_parts (rc_pe c))
      (run_start c env bound)) = Some (Inr response) \<and>
    extract_upstream_error_from_response (PDict (sr_raw response)) = None \<and>
    (pe_streaming_request (rc_pe c) \<longrightarrow> clean_stream st)"
proof (cases "re_bind env")
  case (Inl e)
  then show ?thesis using assms by (auto simp: run_body_def run_init_def claims_completion_def)
next
  case (Inr bound)
  obtain r' st' where turns: "run_turns c (re_turns env) (pe_user_text (rc_pe c)) (pe_request_parts (rc_pe c))
      (run_start c env bound) = (r', st')" by fastforce
  note ok = run_turns_ok [OF turns run_start_ok] and fails = stream_fails_turns [OF turns run_start_fails]
  obtain response where r': "r' = Some (Inr response)" and resp: "handle_response c env response st' = (r, st)"
    using assms turns open_run [OF ok] by (auto simp: run_body_def Inr split: option.splits sum.splits)
  have "extract_upstream_error_from_response (PDict (sr_raw response)) = None \<and>
      (pe_streaming_request (rc_pe c) \<longrightarrow> clean_stream st)"
    using resp assms(2) open_run [OF ok] response_error_fails streaming_completion [OF _ ok fails]
    by (auto simp: handle_response_def Let_def split: option.splits if_splits)
  then show ?thesis using turns r' Inr by auto
qed

text \<open>
  C12: completion is never claimed after a failure: when the queue holds an event of a finished run
  that reports the state \<open>completed\<close>, the session was bound, the last call was answered by a
  response without an in-band error, and for a streaming request the stream's terminal signal is
  \<open>completed\<close> and no error was seen on the stream.
\<close>

theorem completion_needs_clean_answer:
  assumes "claims_completion (snd (run c env))"
  shows "\<exists>bound response. re_bind env = Inr bound \<and>
    fst (run_turns c (re_turns env) (pe_user_text (rc_pe c)) (pe_request_parts (rc_pe c))
      (run_start c env bound)) = Some (Inr response) \<and>
    extract_upstream_error_from_response (PDict (sr_raw response)) = None \<and>
    (pe_streaming_request (rc_pe c) \<longrightarrow> clean_stream (snd (run c env)))"
proof -
  obtain r s where b: "run_body c env = (r, s)" by fastforce
  have r: "r = Some (Inr ()) \<and> snd (run c env) = cleanup c env s \<or> r \<noteq> Some (Inr ())"
    using b by (auto simp: run_def)
  have "claims_completion s"
    using assms b by (auto simp: run_def completion_cleanup completion_run_error split: option.splits sum.splits)
  moreover from this have "r = Some (Inr ())"
    using body_answer [OF b] open_run by blast
  ultimately show ?thesis
    using body_completion [OF b] r clean_cleanup by auto
qed

theorem completion_needs_clean_answer_witness:
  "\<exists>bound response. re_bind demo_env = Inr bound \<and>
    fst (run_turns demo_cfg (re_turns demo_env) (pe_user_text (rc_pe demo_cfg)) (pe_request_parts (rc_pe demo_cfg))
      (run_start demo_cfg demo_env bound)) = Some (Inr response) \<and>
    extract_upstream_error_from_response (PDict (sr_raw response)) = None \<and>
    (pe_streaming_request (rc_pe demo_cfg) \<longrightarrow> clean_stream (snd (run demo_cfg demo_env)))"
proof (rule completion_needs_clean_answer)
  have "list_ex (\<lambda>e. event_state e = Some completed) (ru_queue (snd (run demo_cfg demo_env)))" by code_simp
  then show "claims_completion (snd (run demo_cfg demo_env))" by (force simp: list_ex_iff claims_completion_def)
qed

section \<open>Progress\<close>

definition turn_ends :: "run_cfg \<Rightarrow> turn \<Rightarrow> bool" where
  "turn_ends c t \<longleftrightarrow> (case tu_result t of
      Inl e \<Rightarrow> True
    | Inr response \<Rightarrow> maybe_handle_tools (ex_peer (rc_ex c)) (tu_fresh t) (sr_raw response) = None)"

lemma turns_end:
  "list_ex (turn_ends c) ts \<Longrightarrow> fst (run_turns c ts user_text parts st) \<noteq> None"
proof (induction c ts user_text parts st rule: run_turns.induct)
  case (2 c t ts user_text parts st)
  obtain f st3 where f: "finalize_pending t (let_stream c (tu_steps t)
      (st\<lparr>ru_calls := ru_calls st @ [send_call c user_text parts st]\<rparr>)) = (f, st3)" by fastforce
  show ?case
    using 2(2) 2(1) [OF refl refl] f
    by (auto simp: Let_def turn_ends_def split: sum.split option.split)
qed simp

lemma advance_End: "tk_done (stream_advance cx End t)"
  by (simp add: stream_advance_def)

lemma wait_ends:
  "End \<in> set steps \<Longrightarrow> sy_signal (tk_sys (wait_signal cx steps t)) \<noteq> None \<or> tk_done (wait_signal cx steps t)"
proof (induction steps arbitrary: t)
  case (Cons s steps)
  have "wait_signal cx xs u = u" if "tk_done u" for xs u
    using that by (cases xs) simp_all
  then show ?case using Cons by (auto simp: advance_End)
qed simp

text \<open>
  A run ends, with a result or by raising the cancellation: it suffices that some turn of the
  loop ends it (its call fails, or its response calls no tool) and that the wait for the terminal
  signal is not endless (the stream ends, or the run is cancelled there).  The number of turns is
  not bounded by the code: as long as every response calls the tool, the loop goes on.
\<close>

theorem run_ends:
  assumes "list_ex (turn_ends c) (re_turns env)" and "End \<in> set (re_wait env) \<or> re_wait_cancelled env"
  shows "fst (run c env) \<noteq> Unfinished"
proof -
  have "fst (handle_streaming_response c env w mid usage st) \<noteq> None" for w mid usage st
  proof (cases "ru_stream st")
    case (Some t)
    let ?t = "wait_signal (run_stream_ctx c (ru_session_id st)) (re_wait env) t"
    have "\<not> (sy_signal (tk_sys ?t) = None \<and> \<not> tk_done ?t) \<or> re_wait_cancelled env"
      using assms(2) wait_ends by blast
    then show ?thesis
      by (auto simp: handle_streaming_response_def Some Let_def await_stream_terminal_signal_def split: option.split)
  qed (simp add: handle_streaming_response_def)
  then have "fst (handle_response c env response st) \<noteq> None" for response st
    by (auto simp: handle_response_def Let_def split: option.split)
  moreover have "fst (run_turns c (re_turns env) w parts st) \<noteq> None" for w parts st
    by (rule turns_end [OF assms(1)])
  ultimately have "fst (run_body c env) \<noteq> None"
    by (auto simp: run_body_def split: sum.split prod.split option.split) (metis fst_conv option.distinct(1))+
  then show ?thesis
    by (auto simp: run_def split: prod.split option.split sum.split)
qed

theorem run_ends_witness:
  "fst (run demo_cfg (demo_env\<lparr>re_wait := [End]\<rparr>)) \<noteq> Unfinished"
proof (rule run_ends)
  show "list_ex (turn_ends demo_cfg) (re_turns (demo_env\<lparr>re_wait := [End]\<rparr>))" by code_simp
qed simp

section \<open>Calls\<close>

definition call_as_prepared :: "run_cfg \<Rightarrow> upstream_call \<Rightarrow> bool" where
  "call_as_prepared c u \<longleftrightarrow> uc_directory u = pe_directory (rc_pe c) \<and> uc_workspace_id u = pe_workspace_id (rc_pe c)"

lemma calls_turns:
  "run_turns c ts user_text parts st = (r, st') \<Longrightarrow> list_all (call_as_prepared c) (ru_calls st) \<Longrightarrow>
     list_all (call_as_prepared c) (ru_calls st')"
proof (induction c ts user_text parts st arbitrary: r st' rule: run_turns.induct)
  case (2 c t ts user_text parts st)
  let ?st2 = "let_stream c (tu_steps t) (st\<lparr>ru_calls := ru_calls st @ [send_call c user_text parts st]\<rparr>)"
  have st2: "list_all (call_as_prepared c) (ru_calls ?st2)"
  proof -
    have "call_as_prepared c (send_call c user_text parts st)"
      by (simp add: call_as_prepared_def send_call_def Let_def)
    then show ?thesis using 2(3) by simp
  qed
  obtain f st3 where f: "finalize_pending t ?st2 = (f, st3)" by fastforce
  then have st3: "list_all (call_as_prepared c) (ru_calls st3)"
    using st2 by (auto simp: finalize_pending_def split: if_splits option.splits)
  show ?case
    using 2(2) 2(1) [OF refl refl] st2 st3 f by (auto simp: Let_def split: sum.splits option.splits prod.splits)
qed simp

lemma calls_cleanup [simp]: "ru_calls (cleanup c env st) = ru_calls st"
  by (simp add: cleanup_def)

lemma calls_run: "list_all (call_as_prepared c) (ru_calls (snd (run c env)))"
proof -
  obtain r s where b: "run_body c env = (r, s)" by fastforce
  have "list_all (call_as_prepared c) (ru_calls s)"
  proof (cases "re_bind env")
    case (Inl e)
    then show ?thesis using b by (auto simp: run_body_def run_init_def)
  next
    case (Inr bound)
    obtain r' st' where turns: "run_turns c (re_turns env) (pe_user_text (rc_pe c)) (pe_request_parts (rc_pe c))
        (run_start c env bound) = (r', st')" by fastforce
    have "list_all (call_as_prepared c) (ru_calls st')"
      by (rule calls_turns [OF turns]) (simp add: bind_session_def run_init_def)
    then show ?thesis
      using b turns claim_response by (auto simp: run_body_def Inr split: option.splits sum.splits)
  qed
  then show ?thesis using b by (auto simp: run_def split: option.split sum.split)
qed

lemma prepared_directory:
  "prepare ex rq ctx = Inr pe \<Longrightarrow> granted_directory ex rq = Inr (pe_directory pe) \<and>
     pe_workspace_id pe = extract_opencode_workspace_id rq"
  by (auto simp: prepare_def ebind_Inr_iff Let_def split: if_splits)


definition demo_call :: upstream_call where
  "demo_call = hd (ru_calls (snd (execute demo_executor demo_request demo_env)))"


end
