(* ===== verification/Execution_Cancel.thy ===== *)
theory Execution_Cancel
  imports Execution Session_Manager
begin

text \<open>
  The tables of running requests of \<open>OpencodeAgentExecutor\<close>, the coordinator's accesses to them
  (\<open>_register_running_request\<close>, \<open>_bind_session\<close>, \<open>_cleanup\<close>) and \<open>cancel\<close>.
\<close>

section \<open>State\<close>

type_synonym run_key = "string \<times> string"

text \<open>Requests and stop events are identified by numbers.\<close>

record running_tables =
  running_requests :: "(run_key, nat) dict"
  running_stop_events :: "(run_key, nat) dict"
  running_identities :: "(run_key, string) dict"
  running_session_ids :: "(run_key, string) dict"
  running_directories :: "(run_key, string option) dict"
  running_workspace_ids :: "(run_key, string option) dict"
  running_binding_context_ids :: "(run_key, string) dict"

definition no_running :: running_tables where
  "no_running = \<lparr>running_requests = [], running_stop_events = [], running_identities = [],
     running_session_ids = [], running_directories = [], running_workspace_ids = [],
     running_binding_context_ids = []\<rparr>"

definition register_running_request ::
  "run_key \<Rightarrow> nat \<Rightarrow> nat \<Rightarrow> string \<Rightarrow> running_tables \<Rightarrow> running_tables" where
  "register_running_request key task stop identity rr =
     rr\<lparr>running_requests := dict_set key task (running_requests rr),
        running_stop_events := dict_set key stop (running_stop_events rr),
        running_identities := dict_set key identity (running_identities rr)\<rparr>"

definition bind_running_request ::
  "run_key \<Rightarrow> string \<Rightarrow> prepared_execution \<Rightarrow> running_tables \<Rightarrow> running_tables" where
  "bind_running_request key session_id pe rr =
     rr\<lparr>running_session_ids := dict_set key session_id (running_session_ids rr),
        running_directories := dict_set key (pe_directory pe) (running_directories rr),
        running_workspace_ids := dict_set key (pe_workspace_id pe) (running_workspace_ids rr),
        running_binding_context_ids :=
          dict_set key (pe_session_binding_context_id pe) (running_binding_context_ids rr)\<rparr>"

definition forget_running_request :: "run_key \<Rightarrow> running_tables \<Rightarrow> running_tables" where
  "forget_running_request key rr =
     \<lparr>running_requests = dict_pop key (running_requests rr),
      running_stop_events = dict_pop key (running_stop_events rr),
      running_identities = dict_pop key (running_identities rr),
      running_session_ids = dict_pop key (running_session_ids rr),
      running_directories = dict_pop key (running_directories rr),
      running_workspace_ids = dict_pop key (running_workspace_ids rr),
      running_binding_context_ids = dict_pop key (running_binding_context_ids rr)\<rparr>"

section \<open>Cancellation\<close>

text \<open>How the best-effort call of \<open>abort_session\<close> ends; \<open>AbortRaises\<close> is any other exception.\<close>

datatype abort_result = AbortOk | AbortTimeout | AbortError | AbortRaises string

datatype cancel_effect =
    Enqueued agent_event
  | StopEventSet nat
  | AbortCalled string "string option" "string option"  \<comment> \<open>session, directory, workspace\<close>
  | RequestCancelled nat
  | CreationCancelled nat

text \<open>
  \<open>alive\<close> says which running requests are neither finished nor the task that executes \<open>cancel\<close>.
  The result is the abort outcome reported with the metrics, the effects in order, and the
  session manager.
\<close>

definition cancel_running ::
  "'s session_repo \<Rightarrow> (nat \<Rightarrow> bool) \<Rightarrow> abort_result \<Rightarrow> run_key \<Rightarrow> string \<Rightarrow> running_tables \<Rightarrow> 's session_mgr
     \<Rightarrow> string \<times> cancel_effect list \<times> 's session_mgr" where
  "cancel_running R alive abort key identity rr mgr =
     (let running_identity = (case dict_get (running_identities rr) key of None \<Rightarrow> identity | Some i \<Rightarrow> i);
          binding_context = (case dict_get (running_binding_context_ids rr) key of
            None \<Rightarrow> snd key | Some b \<Rightarrow> b);
          (inflight, mgr') = pop_cached_session R running_identity binding_context mgr;
          canceled_event = Queued (QStatus \<lparr>su_task_id = fst key, su_context_id = snd key,
            su_state = canceled, su_final = True, su_metadata = None\<rparr>);
          stops = (case dict_get (running_stop_events rr) key of None \<Rightarrow> [] | Some s \<Rightarrow> [StopEventSet s]);
          task = (case dict_get (running_requests rr) key of
            None \<Rightarrow> None | Some t \<Rightarrow> if alive t then Some t else None);
          directory = (case dict_get (running_directories rr) key of None \<Rightarrow> None | Some d \<Rightarrow> d);
          workspace = (case dict_get (running_workspace_ids rr) key of None \<Rightarrow> None | Some w \<Rightarrow> w);
          cancels = (case task of None \<Rightarrow> [] | Some t \<Rightarrow> [RequestCancelled t])
            @ (case inflight of None \<Rightarrow> [] | Some i \<Rightarrow> [CreationCancelled i])
      in case (task, str_or (dict_get (running_session_ids rr) key) None) of
           (Some t, Some (s # sid)) \<Rightarrow>
             (let called = [Enqueued canceled_event] @ stops @ [AbortCalled (s # sid) directory workspace]
              in case abort of
                   AbortOk \<Rightarrow> (''success'', called @ cancels, mgr')
                 | AbortTimeout \<Rightarrow> (''timeout'', called @ cancels, mgr')
                 | AbortError \<Rightarrow> (''error'', called @ cancels, mgr')
                 | AbortRaises e \<Rightarrow> (''cancel_error'', called @ map Enqueued
                     (emit_error (fst key) (snd key) (''Cancel failed: '' @ e) failed None None False), mgr'))
         | (Some t, _) \<Rightarrow> (''no_session_binding'', [Enqueued canceled_event] @ stops @ cancels, mgr')
         | (None, _) \<Rightarrow> (''no_running_task'', [Enqueued canceled_event] @ stops @ cancels, mgr'))"

definition cancel_request ::
  "'s session_repo \<Rightarrow> (nat \<Rightarrow> bool) \<Rightarrow> abort_result \<Rightarrow> request \<Rightarrow> running_tables \<Rightarrow> 's session_mgr
     \<Rightarrow> string \<times> cancel_effect list \<times> 's session_mgr" where
  "cancel_request R alive abort rq rr mgr =
     (case (str_or (rq_task_id rq) None, str_or (rq_context_id rq) None) of
        (Some (t # ts), Some (x # xs)) \<Rightarrow>
          cancel_running R alive abort (t # ts, x # xs) (request_identity rq) rr mgr
      | _ \<Rightarrow> (''invalid_request_context'', map Enqueued
          (emit_error (the (str_or (rq_task_id rq) (Some ''unknown''))) (the (str_or (rq_context_id rq) (Some ''unknown'')))
             ''Missing task_id or context_id in request context'' failed None None False), mgr))"

section \<open>Properties\<close>

text \<open>The tables have entries for a key exactly from its registration to its cleanup.\<close>

definition untracked :: "run_key \<Rightarrow> running_tables \<Rightarrow> bool" where
  "untracked key rr \<longleftrightarrow>
     dict_get (running_requests rr) key = None \<and> dict_get (running_stop_events rr) key = None \<and>
     dict_get (running_identities rr) key = None \<and> dict_get (running_session_ids rr) key = None \<and>
     dict_get (running_directories rr) key = None \<and> dict_get (running_workspace_ids rr) key = None \<and>
     dict_get (running_binding_context_ids rr) key = None"

lemma forget_untracks: "untracked key (forget_running_request key rr)"
  by (simp add: untracked_def forget_running_request_def dict_simps)

text \<open>
  Cancelling a request that is bound to a session reports the task as canceled, stops its
  stream, drops the cached binding that this request uses, and cancels the request itself, also
  when aborting the upstream session times out or fails.
\<close>

theorem cancel_stops_a_bound_request:
  assumes "abort \<in> {AbortOk, AbortTimeout, AbortError}" and "alive task" and "session_id \<noteq> []"
    and "cancel_running R alive abort key identity
      (bind_running_request key session_id pe (register_running_request key task stop owner rr)) mgr
      = (outcome, effects, mgr')"
  shows "state_repository mgr' = pop_session R owner (pe_session_binding_context_id pe) (state_repository mgr) \<and>
    dict_get (inflight_creates mgr') (owner, pe_session_binding_context_id pe) = None \<and>
    hd effects = Enqueued (Queued (QStatus \<lparr>su_task_id = fst key, su_context_id = snd key,
      su_state = canceled, su_final = True, su_metadata = None\<rparr>)) \<and>
    {StopEventSet stop, AbortCalled session_id (pe_directory pe) (pe_workspace_id pe), RequestCancelled task}
      \<subseteq> set effects"
proof -
  obtain c cs where sid: "session_id = c # cs" using assms(3) by (cases session_id) auto
  show ?thesis
    using assms(1,2,4)
    by (auto simp: cancel_running_def bind_running_request_def register_running_request_def
        pop_cached_session_def dict_simps sid Let_def)
qed

definition workspace_prepared :: prepared_execution where
  "workspace_prepared = \<lparr>pe_identity = ''alice'', pe_streaming_request = True, pe_request_parts = [],
     pe_user_text = ''Hi'', pe_session_title = ''Hi'', pe_use_structured_parts = False,
     pe_bound_session_id = None, pe_model_override = None, pe_directory = None,
     pe_workspace_id = Some ''w1'', pe_session_binding_context_id =
       build_session_binding_context_id ''c'' None (Some ''w1'') False,
     pe_allow_structured_output = True\<rparr>"

definition creating :: "nat \<Rightarrow> db_sessions session_mgr" where
  "creating n = \<lparr>state_repository = db_new 30,
     inflight_creates = [((''alice'', pe_session_binding_context_id workspace_prepared), n)]\<rparr>"

definition bound_tables :: running_tables where
  "bound_tables = bind_running_request (''t'', ''c'') ''s'' workspace_prepared
     (register_running_request (''t'', ''c'') 1 2 ''alice'' no_running)"

theorem cancel_stops_a_bound_request_witness:
  "{StopEventSet 2, AbortCalled ''s'' (pe_directory workspace_prepared) (pe_workspace_id workspace_prepared),
     RequestCancelled 1}
   \<subseteq> set (fst (snd (cancel_running database_repo (\<lambda>_. True) AbortTimeout (''t'', ''c'') ''alice''
        bound_tables (creating 0))))"
  using cancel_stops_a_bound_request [of AbortTimeout "\<lambda>_. True" 1 "''s''" database_repo "(''t'', ''c'')" "''alice''"
      workspace_prepared 2 "''alice''" no_running "creating 0"]
  unfolding bound_tables_def by (metis insertI1 insertI2 list.distinct(1) prod.collapse)

text \<open>
  A request cancelled before its session is bound is not cleaned up when it uses a workspace or
  a directory: until the binding is recorded, \<open>cancel\<close> looks for the session under the plain
  context identifier, so the creation in flight for the request's own binding stays in the table,
  and, cancelled together with the request, fails every later request of that binding.
\<close>

theorem cancel_before_binding_misses_creation:
  assumes "dict_get (inflight_creates mgr) (owner, pe_session_binding_context_id pe) = Some n"
    and "pe_session_binding_context_id pe \<noteq> snd key"
    and "untracked key rr"
    and "cancel_running R alive abort key identity (register_running_request key task stop owner rr) mgr
      = (outcome, effects, mgr')"
  shows "dict_get (inflight_creates mgr') (owner, pe_session_binding_context_id pe) = Some n \<and>
    await_create R t1 t2 t3 owner (pe_session_binding_context_id pe) n CancelledTask mgr'
      = (Inl CreateCancelled, mgr')"
  using assms
  by (auto simp: cancel_running_def register_running_request_def untracked_def pop_cached_session_def
      dict_simps await_create_def Let_def split: if_splits)

theorem cancel_before_binding_misses_creation_witness:
  "dict_get (inflight_creates (snd (snd (cancel_running database_repo (\<lambda>_. True) AbortOk (''t'', ''c'') ''alice''
      (register_running_request (''t'', ''c'') 1 2 ''alice'' no_running) (creating 0)))))
    (''alice'', pe_session_binding_context_id workspace_prepared) = Some 0"
proof -
  have "dict_get (inflight_creates (creating 0)) (''alice'', pe_session_binding_context_id workspace_prepared) = Some 0"
    by code_simp
  moreover have "pe_session_binding_context_id workspace_prepared \<noteq> snd (''t'', ''c'')" by code_simp
  moreover have "untracked (''t'', ''c'') no_running" by (simp add: untracked_def no_running_def)
  ultimately show ?thesis
    using cancel_before_binding_misses_creation [of "creating 0" "''alice''" workspace_prepared 0 "(''t'', ''c'')"
        no_running database_repo "\<lambda>_. True" AbortOk "''alice''" 1 2] by (metis prod.collapse)
qed

definition binding_target :: "string option \<Rightarrow> string option \<Rightarrow> bool \<Rightarrow> (bool \<times> string) option" where
  "binding_target directory workspace_id use_directory =
     (case (case workspace_id of None \<Rightarrow> [] | Some w \<Rightarrow> py_strip w) of
        c # cs \<Rightarrow> Some (True, c # cs)
      | [] \<Rightarrow>
          (case (if use_directory then (case directory of None \<Rightarrow> [] | Some d \<Rightarrow> py_strip d) else []) of
             c # cs \<Rightarrow> Some (False, c # cs)
           | [] \<Rightarrow> None))"

text \<open>
  Within one context, the binding identifier tells the workspaces and directories apart: two
  requests of the same context share a binding only if they name the same workspace, or the same
  directory, or neither.
\<close>

theorem binding_context_is_injective:
  "build_session_binding_context_id ctx d1 w1 u1 = build_session_binding_context_id ctx d2 w2 u2 \<longleftrightarrow>
   binding_target d1 w1 u1 = binding_target d2 w2 u2"
proof -
  have "build_session_binding_context_id ctx d w u = ctx @ (case binding_target d w u of
      None \<Rightarrow> [] | Some (True, x) \<Rightarrow> ''::workspace:'' @ x | Some (False, x) \<Rightarrow> ''::directory:'' @ x)" for d w u
    by (auto simp: build_session_binding_context_id_def binding_target_def split: list.split)
  then show ?thesis
    by (auto split: option.splits bool.splits)
qed

end
