(* ===== verification/Text_Codec.thy ===== *)
theory Text_Codec
  imports Prelude
begin

text \<open>
  What the program uses of Python's \<open>base64\<close> and UTF-8 codecs.  A byte and a code point are naturals;
  a string of the model has code points below 256, a decoded one is a list of code points.
  \<open>b64decode\<close> is the one with \<open>validate=True\<close>, whose \<open>binascii.Error\<close> is \<open>None\<close>.
\<close>

section \<open>Code points\<close>

definition codes :: "string \<Rightarrow> nat list" where
  "codes s = map of_char s"

definition is_ascii :: "string \<Rightarrow> bool" where
  "is_ascii s \<longleftrightarrow> (\<forall>c \<in> set s. (of_char c :: nat) < 128)"

lemma codes_simps [simp]: "codes [] = []" "codes (c # s) = of_char c # codes s" "codes (s @ t) = codes s @ codes t"
  by (simp_all add: codes_def)

lemma codes_inject [simp]: "codes s = codes t \<longleftrightarrow> s = t"
  by (simp add: codes_def inj_map_eq_map inj_def)

lemma of_char_less: "(of_char c :: nat) < 256"
  by simp

section \<open>UTF-8\<close>

fun utf8_char :: "nat \<Rightarrow> nat list" where
  "utf8_char c = (if c < 128 then [c] else [192 + c div 64, 128 + c mod 64])"

definition utf8_encode :: "string \<Rightarrow> nat list" where
  "utf8_encode s = concat (map utf8_char (codes s))"

definition continuation :: "nat \<Rightarrow> bool" where
  "continuation b \<longleftrightarrow> 128 \<le> b \<and> b < 192"

text \<open>The number of continuation bytes of a lead byte, and the range of the first of them.\<close>

definition second_ok :: "nat \<Rightarrow> nat \<Rightarrow> bool" where
  "second_ok b b1 \<longleftrightarrow> continuation b1 \<and> (b = 224 \<longrightarrow> 160 \<le> b1) \<and> (b = 237 \<longrightarrow> b1 < 160)
     \<and> (b = 240 \<longrightarrow> 144 \<le> b1) \<and> (b = 244 \<longrightarrow> b1 < 144)"

fun utf8_decode :: "nat list \<Rightarrow> nat list option" where
  "utf8_decode [] = Some []"
| "utf8_decode (b # bs) =
     (if b < 128 then map_option (\<lambda>cs. b # cs) (utf8_decode bs)
      else if 194 \<le> b \<and> b < 224 then
        (case bs of
           b1 # r \<Rightarrow> (if second_ok b b1
             then map_option (\<lambda>cs. ((b - 192) * 64 + (b1 - 128)) # cs) (utf8_decode r) else None)
         | _ \<Rightarrow> None)
      else if 224 \<le> b \<and> b < 240 then
        (case bs of
           b1 # b2 # r \<Rightarrow> (if second_ok b b1 \<and> continuation b2
             then map_option (\<lambda>cs. ((b - 224) * 4096 + (b1 - 128) * 64 + (b2 - 128)) # cs) (utf8_decode r) else None)
         | _ \<Rightarrow> None)
      else if 240 \<le> b \<and> b < 245 then
        (case bs of
           b1 # b2 # b3 # r \<Rightarrow> (if second_ok b b1 \<and> continuation b2 \<and> continuation b3
             then map_option (\<lambda>cs. ((b - 240) * 262144 + (b1 - 128) * 4096 + (b2 - 128) * 64 + (b3 - 128)) # cs)
               (utf8_decode r) else None)
         | _ \<Rightarrow> None)
      else None)"

declare utf8_decode.simps(2) [simp del]

lemma utf8_decode_char:
  assumes "c < 256"
  shows "utf8_decode (utf8_char c @ r) = map_option (\<lambda>cs. c # cs) (utf8_decode r)"
proof (cases "c < 128")
  case False
  define q r' where "q = c div 64" and "r' = c mod 64"
  have c: "c = q * 64 + r'" "r' < 64" by (simp_all add: q_def r'_def)
  then have "2 \<le> q" "q < 4" using False assms by linarith+
  then show ?thesis
    using False c by (simp add: utf8_decode.simps(2) second_ok_def continuation_def flip: q_def r'_def)
qed (simp add: utf8_decode.simps(2))

lemma utf8_roundtrip: "utf8_decode (utf8_encode s) = Some (codes s)"
  by (induction s) (simp_all add: utf8_encode_def utf8_decode_char del: utf8_char.simps)

lemma utf8_encode_bytes: "b \<in> set (utf8_encode s) \<Longrightarrow> b < 256"
proof -
  have "b < 256" if "b \<in> set (utf8_char c)" "c < 256" for c
    using that mod_less_divisor [of 64 c] by (auto split: if_splits simp: div_less_iff_less_mult)
  then show "b \<in> set (utf8_encode s) \<Longrightarrow> b < 256"
    by (auto simp: utf8_encode_def codes_def simp del: utf8_char.simps)
qed

section \<open>Base64\<close>

definition b64_alphabet :: string where
  "b64_alphabet = ''ABCDEFGHIJKLMNOPQRSTUVWXYZabcdefghijklmnopqrstuvwxyz0123456789+/''"

definition b64_char :: "nat \<Rightarrow> char" where
  "b64_char v = b64_alphabet ! v"

fun index_of :: "'a \<Rightarrow> 'a list \<Rightarrow> nat option" where
  "index_of x [] = None"
| "index_of x (y # ys) = (if x = y then Some 0 else map_option Suc (index_of x ys))"

definition b64_value :: "char \<Rightarrow> nat option" where
  "b64_value c = index_of c b64_alphabet"

fun b64encode :: "nat list \<Rightarrow> string" where
  "b64encode [] = []"
| "b64encode [a] = [b64_char (a div 4), b64_char (a mod 4 * 16), CHR ''='', CHR ''='']"
| "b64encode [a, b] =
     [b64_char (a div 4), b64_char (a mod 4 * 16 + b div 16), b64_char (b mod 16 * 4), CHR ''='']"
| "b64encode (a # b # c # r) =
     [b64_char (a div 4), b64_char (a mod 4 * 16 + b div 16), b64_char (b mod 16 * 4 + c div 64), b64_char (c mod 64)]
     @ b64encode r"

fun join_sextets :: "nat list \<Rightarrow> nat list" where
  "join_sextets (p # q # r # s # rest) =
     [p * 4 + q div 16, q mod 16 * 16 + r div 4, r mod 4 * 64 + s] @ join_sextets rest"
| "join_sextets [p, q, r] = [p * 4 + q div 16, q mod 16 * 16 + r div 4]"
| "join_sextets [p, q] = [p * 4 + q div 16]"
| "join_sextets _ = []"

definition padding_ok :: "nat \<Rightarrow> string \<Rightarrow> bool" where
  "padding_ok n pad \<longleftrightarrow>
     (n mod 4 = 0 \<and> (\<forall>c \<in> set pad. c = CHR ''='') \<and> (n = 0 \<longrightarrow> pad = []))
     \<or> (n mod 4 = 2 \<and> pad = ''=='') \<or> (n mod 4 = 3 \<and> pad = ''='')"

definition b64decode :: "string \<Rightarrow> nat list option" where
  "b64decode s =
     (let sextets = map b64_value (takeWhile (\<lambda>c. c \<noteq> CHR ''='') s);
          pad = dropWhile (\<lambda>c. c \<noteq> CHR ''='') s
      in if None \<in> set sextets \<or> \<not> padding_ok (length sextets) pad then None
         else Some (join_sextets (map the sextets)))"

lemma index_of_nth: "distinct xs \<Longrightarrow> i < length xs \<Longrightarrow> index_of (xs ! i) xs = Some i"
proof (induction xs arbitrary: i)
  case (Cons x xs)
  then show ?case by (cases i) (auto simp: nth_mem)
qed simp

lemma alphabet_facts: "distinct b64_alphabet" "length b64_alphabet = 64" "CHR ''='' \<notin> set b64_alphabet"
    "CHR '':'' \<notin> set b64_alphabet" "\<forall>c \<in> set b64_alphabet. (of_char c :: nat) < 128"
  by code_simp+

lemma b64_char_facts:
  assumes "v < 64"
  shows "b64_value (b64_char v) = Some v" "b64_char v \<noteq> CHR ''=''" "b64_char v \<noteq> CHR '':''"
    "(of_char (b64_char v) :: nat) < 128"
proof -
  have "b64_char v \<in> set b64_alphabet" using assms by (simp add: b64_char_def alphabet_facts(2))
  then show "b64_char v \<noteq> CHR ''=''" "b64_char v \<noteq> CHR '':''" "(of_char (b64_char v) :: nat) < 128"
    using alphabet_facts(3-5) by auto
  show "b64_value (b64_char v) = Some v"
    using assms by (simp add: b64_value_def b64_char_def index_of_nth alphabet_facts(1,2))
qed

lemma sextet_bounds:
  fixes a b c :: nat
  assumes "a < 256" "b < 256" "c < 256"
  shows "a div 4 < 64" "a mod 4 * 16 < 64" "a mod 4 * 16 + b div 16 < 64" "b mod 16 * 4 < 64"
    "b mod 16 * 4 + c div 64 < 64" "c mod 64 < 64"
proof -
  have m: "a mod 4 < 4" "b mod 16 < 16" "b div 16 < 16" "c div 64 < 4"
    using assms by (simp_all add: div_less_iff_less_mult)
  show "a div 4 < 64" "c mod 64 < 64" using assms by (simp_all add: div_less_iff_less_mult)
  show "a mod 4 * 16 < 64" "a mod 4 * 16 + b div 16 < 64" "b mod 16 * 4 < 64" "b mod 16 * 4 + c div 64 < 64"
    using m by linarith+
qed

lemma join_back:
  fixes a b c :: nat
  assumes "a < 256" "b < 256" "c < 256"
  shows "a div 4 * 4 + (a mod 4 * 16 + b div 16) div 16 = a" "a div 4 * 4 + a mod 4 * 16 div 16 = a"
    "(a mod 4 * 16 + b div 16) mod 16 * 16 + (b mod 16 * 4 + c div 64) div 4 = b"
    "(a mod 4 * 16 + b div 16) mod 16 * 16 + b mod 16 * 4 div 4 = b"
    "(b mod 16 * 4 + c div 64) mod 4 * 64 + c mod 64 = c"
proof -
  have "b div 16 < 16" "c div 64 < 4" using assms by (simp_all add: div_less_iff_less_mult)
  then show "a div 4 * 4 + (a mod 4 * 16 + b div 16) div 16 = a" "a div 4 * 4 + a mod 4 * 16 div 16 = a"
    "(a mod 4 * 16 + b div 16) mod 16 * 16 + (b mod 16 * 4 + c div 64) div 4 = b"
    "(a mod 4 * 16 + b div 16) mod 16 * 16 + b mod 16 * 4 div 4 = b"
    "(b mod 16 * 4 + c div 64) mod 4 * 64 + c mod 64 = c"
    by (simp_all add: div_add1_eq mod_add_left_eq)
qed

lemma padding_ok_add: "padding_ok n pad \<Longrightarrow> padding_ok (n + 4) pad"
  unfolding padding_ok_def mod_add_self2 by linarith

text \<open>The sextets and the padding that encoding produces.\<close>

definition b64_shape :: "nat list \<Rightarrow> nat list \<Rightarrow> string \<Rightarrow> bool" where
  "b64_shape bs vs pad \<longleftrightarrow> b64encode bs = map b64_char vs @ pad \<and> (\<forall>v \<in> set vs. v < 64) \<and>
     join_sextets vs = bs \<and> padding_ok (length vs) pad \<and> set pad \<subseteq> {CHR ''=''} \<and>
     (length vs + length pad) mod 4 = 0"

lemma b64_shape_step:
  assumes "a < 256" "b < 256" "c < 256" "b64_shape r vs pad"
  shows "b64_shape (a # b # c # r)
    (a div 4 # (a mod 4 * 16 + b div 16) # (b mod 16 * 4 + c div 64) # c mod 64 # vs) pad"
proof -
  have "length vs + 4 + length pad = length vs + length pad + 4" by simp
  then have "padding_ok (length vs + 4) pad" "(length vs + 4 + length pad) mod 4 = 0"
    using assms(4) padding_ok_add by (simp_all only: b64_shape_def mod_add_self2)
  moreover have "length vs + 4 = Suc (Suc (Suc (Suc (length vs))))" by simp
  ultimately have "padding_ok (Suc (Suc (Suc (Suc (length vs))))) pad" "(length vs + 4 + length pad) mod 4 = 0"
    by (simp_all only:)
  then show ?thesis
    using assms(4) join_back [OF assms(1-3)] sextet_bounds [OF assms(1-3)] by (simp add: b64_shape_def)
qed

lemma b64encode_shape: "\<forall>b \<in> set bs. b < 256 \<Longrightarrow> \<exists>vs pad. b64_shape bs vs pad"
proof (induction bs rule: b64encode.induct)
  case 1
  have "b64_shape [] [] []" by (simp add: b64_shape_def padding_ok_def)
  then show ?case by blast
next
  case (2 a)
  then have "b64_shape [a] [a div 4, a mod 4 * 16] ''==''"
    using sextet_bounds [of a a a] join_back [of a a a] by (simp add: b64_shape_def padding_ok_def)
  then show ?case by blast
next
  case (3 a b)
  then have "b64_shape [a, b] [a div 4, a mod 4 * 16 + b div 16, b mod 16 * 4] ''=''"
    using sextet_bounds [of a b b] join_back [of a b b] by (simp add: b64_shape_def padding_ok_def)
  then show ?case by blast
next
  case (4 a b c r)
  then obtain vs pad where "b64_shape r vs pad" by auto
  moreover have "a < 256" "b < 256" "c < 256" using 4 by simp_all
  ultimately show ?case using b64_shape_step by blast
qed

lemma b64_roundtrip:
  assumes "\<forall>b \<in> set bs. b < 256"
  shows "b64decode (b64encode bs) = Some bs"
proof -
  obtain vs pad where "b64_shape bs vs pad" using b64encode_shape [OF assms] by blast
  then have v: "b64encode bs = map b64_char vs @ pad" "\<forall>v \<in> set vs. v < 64" "join_sextets vs = bs"
    "padding_ok (length vs) pad" "set pad \<subseteq> {CHR ''=''}"
    by (simp_all add: b64_shape_def)
  have tw: "takeWhile (\<lambda>c. c \<noteq> CHR ''='') (map b64_char vs @ pad) = map b64_char vs"
    "dropWhile (\<lambda>c. c \<noteq> CHR ''='') (map b64_char vs @ pad) = pad"
    using v(2,5) b64_char_facts(2) by (cases pad; simp add: takeWhile_append dropWhile_append)+
  have vals: "map b64_value (map b64_char vs) = map Some vs" using v(2) b64_char_facts(1) by simp
  show ?thesis unfolding b64decode_def v(1) Let_def tw vals using v(3,4) by (simp add: comp_def)
qed

lemma b64encode_chars:
  assumes "\<forall>b \<in> set bs. b < 256"
  shows "CHR '':'' \<notin> set (b64encode bs)" "is_ascii (b64encode bs)" "length (b64encode bs) mod 4 = 0"
proof -
  obtain vs pad where "b64_shape bs vs pad" using b64encode_shape [OF assms] by blast
  then have v: "b64encode bs = map b64_char vs @ pad" "\<forall>v \<in> set vs. v < 64" "set pad \<subseteq> {CHR ''=''}"
    "(length vs + length pad) mod 4 = 0"
    by (simp_all add: b64_shape_def)
  have c: "c \<noteq> CHR '':'' \<and> (of_char c :: nat) < 128" if "c \<in> set (b64encode bs)" for c
  proof (cases "c \<in> set pad")
    case True
    then have "c = CHR ''=''" using v(3) by blast
    then show ?thesis by simp
  next
    case False
    then have "c \<in> b64_char ` set vs" using that v(1) by simp
    then obtain x where x: "x < 64" "c = b64_char x" using v(2) by auto
    show ?thesis unfolding x(2) using b64_char_facts(3,4) [OF x(1)] by simp
  qed
  show "CHR '':'' \<notin> set (b64encode bs)" using c by blast
  show "is_ascii (b64encode bs)" using c by (simp add: is_ascii_def)
  show "length (b64encode bs) mod 4 = 0" unfolding v(1) using v(4) by simp
qed

end
