(* ===== verification/Auth.thy ===== *)
theory Auth
  imports Text_Codec
begin

text \<open>
  Authentication of requests: the configured credentials (\<open>config.py\<close>), their lookup (\<open>auth.py\<close>), the
  middleware that guards every request (\<open>server/middleware.py\<close>), and the credentials that the client
  of the repository sends (\<open>client/auth.py\<close>).
\<close>

section \<open>Configured credentials\<close>

record auth_entry =
  en_credential_id :: "string option"
  en_scheme :: string
  en_principal :: "string option"
  en_token :: "string option"
  en_username :: "string option"
  en_password :: "string option"
  en_capabilities :: "string list"
  en_enabled :: bool

definition stripped_truthy :: "string option \<Rightarrow> string option" where
  "stripped_truthy v = (case v of Some (c # cs) \<Rightarrow> Some (py_strip (c # cs)) | _ \<Rightarrow> None)"

text \<open>\<open>_validate_shape\<close>; the error is the text of its \<open>ValueError\<close>.\<close>

definition normalized_entry :: "auth_entry \<Rightarrow> auth_entry" where
  "normalized_entry e = e\<lparr>en_credential_id := stripped_truthy (en_credential_id e),
     en_principal := stripped_truthy (en_principal e), en_token := stripped_truthy (en_token e),
     en_username := stripped_truthy (en_username e), en_password := stripped_truthy (en_password e),
     en_capabilities := filter (\<lambda>c. c \<noteq> []) (map py_strip (en_capabilities e))\<rparr>"

definition validate_shape :: "auth_entry \<Rightarrow> string + auth_entry" where
  "validate_shape entry =
     (let e = normalized_entry entry
      in if en_scheme e = ''bearer'' then
           if \<not> truthy_str (en_token e) then Inl ''Static bearer credential requires token.''
           else if truthy_str (en_username e) \<or> truthy_str (en_password e) then
             Inl ''Static bearer credential does not accept username/password.''
           else if en_principal e = None then
             Inl (''Static bearer credential requires explicit principal; ''
               @ ''registry bearer principals must not default to automation.'')
           else Inr e
         else
           if \<not> truthy_str (en_username e) \<or> \<not> truthy_str (en_password e) then
             Inl ''Static basic credential requires username/password.''
           else if truthy_str (en_token e) then Inl ''Static basic credential does not accept token.''
           else if en_principal e \<noteq> None then
             Inl (''Static basic credential does not accept principal; ''
               @ ''principal defaults to username.'')
           else Inr (e\<lparr>en_principal := en_username e\<rparr>))"

record principal =
  pr_identity :: string
  pr_auth_scheme :: string
  pr_capabilities :: "string list"
  pr_credential_id :: "string option"

record credential =
  cr_auth_scheme :: string
  cr_principal :: string
  cr_capabilities :: "string list"
  cr_token :: "string option"
  cr_username :: "string option"
  cr_password :: "string option"
  cr_credential_id :: "string option"

definition default_capabilities_for_scheme :: "string \<Rightarrow> string list" where
  "default_capabilities_for_scheme scheme =
     (if scheme = ''basic'' then [''session_shell'', ''workspace_mutation''] else [])"

definition str_or_default :: "string option \<Rightarrow> string \<Rightarrow> string" where
  "str_or_default v d = (if truthy_str v then the v else d)"

definition credential_of :: "auth_entry \<Rightarrow> credential" where
  "credential_of e =
     \<lparr>cr_auth_scheme = en_scheme e,
      cr_principal = (if en_scheme e = ''basic'' then str_or_default (en_username e) []
                      else str_or_default (en_principal e) ''automation''),
      cr_capabilities = (if en_capabilities e \<noteq> [] then en_capabilities e
                         else default_capabilities_for_scheme (en_scheme e)),
      cr_token = en_token e, cr_username = en_username e, cr_password = en_password e,
      cr_credential_id = en_credential_id e\<rparr>"

fun build_static_auth_credentials :: "auth_entry list \<Rightarrow> credential list" where
  "build_static_auth_credentials [] = []"
| "build_static_auth_credentials (e # es) =
     (if \<not> en_enabled e then build_static_auth_credentials es
      else credential_of e # build_static_auth_credentials es)"

section \<open>Lookup\<close>

text \<open>
  \<open>decode_basic_credentials\<close>: \<open>Inl ()\<close> is the \<open>ValueError\<close> of \<open>b64decode\<close> for a string that is not
  ASCII, which the function does not catch.  User name and password are lists of code points.
\<close>

definition decode_basic_credentials :: "string \<Rightarrow> unit + (nat list \<times> nat list) option" where
  "decode_basic_credentials value =
     (if \<not> is_ascii value then Inl ()
      else Inr (case b64decode value of
        None \<Rightarrow> None
      | Some bytes \<Rightarrow>
          (case utf8_decode bytes of
             None \<Rightarrow> None
           | Some decoded \<Rightarrow>
               (if 58 \<notin> set decoded then None
                else let username = takeWhile (\<lambda>c. c \<noteq> 58) decoded;
                         password = tl (dropWhile (\<lambda>c. c \<noteq> 58) decoded)
                     in if username = [] \<or> password = [] then None else Some (username, password)))))"

definition principal_of :: "credential \<Rightarrow> string \<Rightarrow> principal" where
  "principal_of c scheme = \<lparr>pr_identity = cr_principal c, pr_auth_scheme = scheme,
     pr_capabilities = cr_capabilities c, pr_credential_id = cr_credential_id c\<rparr>"

fun find_bearer :: "string \<Rightarrow> credential list \<Rightarrow> principal option" where
  "find_bearer auth_value [] = None"
| "find_bearer auth_value (c # cs) =
     (if cr_auth_scheme c \<noteq> ''bearer'' \<or> cr_token c = None then find_bearer auth_value cs
      else if cr_token c = Some auth_value then Some (principal_of c ''bearer'')
      else find_bearer auth_value cs)"

fun find_basic :: "nat list \<Rightarrow> nat list \<Rightarrow> credential list \<Rightarrow> principal option" where
  "find_basic username password [] = None"
| "find_basic username password (c # cs) =
     (if cr_auth_scheme c \<noteq> ''basic'' then find_basic username password cs
      else if map_option codes (cr_username c) = Some username \<and> map_option codes (cr_password c) = Some password
        then Some (principal_of c ''basic'')
      else find_basic username password cs)"

definition authenticate_static_credential :: "credential list \<Rightarrow> string \<Rightarrow> string \<Rightarrow> unit + principal option" where
  "authenticate_static_credential credentials auth_scheme auth_value =
     (if py_lower auth_scheme = ''bearer'' then Inr (find_bearer auth_value credentials)
      else if py_lower auth_scheme \<noteq> ''basic'' then Inr None
      else ebind (decode_basic_credentials auth_value) (\<lambda>parsed.
        Inr (case parsed of None \<Rightarrow> None | Some (u, p) \<Rightarrow> find_basic u p credentials)))"

section \<open>The middleware\<close>

record auth_request =
  hr_method :: string
  hr_path :: string
  hr_authorization :: "string option"

datatype auth_outcome = Public | Unauthorized string | Authenticated principal | AuthCrash

text \<open>\<open>public_paths\<close> are the two agent card paths, constants of the SDK.\<close>

definition public_request :: "string list \<Rightarrow> auth_request \<Rightarrow> bool" where
  "public_request public_paths r \<longleftrightarrow> hr_method r = ''OPTIONS'' \<or> hr_path r \<in> set public_paths"

definition challenges :: "credential list \<Rightarrow> string" where
  "challenges cs =
     (let schemes = map cr_auth_scheme cs
      in py_join '', '' ((if ''bearer'' \<in> set schemes then [''Bearer''] else [])
           @ (if ''basic'' \<in> set schemes then [''Basic realm='' @ [CHR 0x22] @ ''opencode-a2a'' @ [CHR 0x22]] else [])))"

definition header_auth :: "credential list \<Rightarrow> string \<Rightarrow> auth_outcome" where
  "header_auth credentials auth_header =
     (if CHR '' '' \<notin> set auth_header then Unauthorized (challenges credentials)
      else let auth_scheme = takeWhile (\<lambda>c. c \<noteq> CHR '' '') auth_header;
               auth_value = tl (dropWhile (\<lambda>c. c \<noteq> CHR '' '') auth_header)
           in case authenticate_static_credential credentials auth_scheme (py_strip auth_value) of
                Inl _ \<Rightarrow> AuthCrash
              | Inr None \<Rightarrow> Unauthorized (challenges credentials)
              | Inr (Some p) \<Rightarrow> Authenticated p)"

definition bearer_auth :: "string list \<Rightarrow> credential list \<Rightarrow> auth_request \<Rightarrow> auth_outcome" where
  "bearer_auth public_paths credentials r =
     (if public_request public_paths r then Public
      else header_auth credentials (case hr_authorization r of None \<Rightarrow> [] | Some h \<Rightarrow> h))"

section \<open>The client's credentials\<close>

definition basic_auth_format_error :: string where
  "basic_auth_format_error =
     ''A2A_CLIENT_BASIC_AUTH must be '' @ [CHR 0x27] @ ''username:password'' @ [CHR 0x27]
     @ '' or a base64-encoded '' @ [CHR 0x27] @ ''username:password'' @ [CHR 0x27] @ '' value''"

definition decode_basic_auth :: "string \<Rightarrow> string + nat list" where
  "decode_basic_auth value =
     (let padded_value = value @ replicate ((4 - length value mod 4) mod 4) (CHR ''='')
      in if \<not> is_ascii padded_value then Inl basic_auth_format_error
         else case b64decode padded_value of None \<Rightarrow> Inl basic_auth_format_error | Some bytes \<Rightarrow> Inr bytes)"

definition validate_basic_auth :: "string \<Rightarrow> string + unit" where
  "validate_basic_auth value =
     (if CHR '':'' \<in> set value then Inr ()
      else ebind (decode_basic_auth value) (\<lambda>decoded.
        if 58 \<notin> set decoded then Inl basic_auth_format_error else Inr ()))"

definition encode_basic_auth :: "string \<Rightarrow> string + string" where
  "encode_basic_auth value =
     (if CHR '':'' \<in> set value then Inr (b64encode (utf8_encode value))
      else ebind (decode_basic_auth value) (\<lambda>decoded.
        if 58 \<notin> set decoded then Inl basic_auth_format_error else Inr (b64encode decoded)))"

section \<open>Correctness of the lookup\<close>

text \<open>The secret of a credential is presented with the scheme and the value.\<close>

definition presents :: "string \<Rightarrow> string \<Rightarrow> credential \<Rightarrow> bool" where
  "presents auth_scheme auth_value c \<longleftrightarrow>
     (if py_lower auth_scheme = ''bearer'' then cr_auth_scheme c = ''bearer'' \<and> cr_token c = Some auth_value
      else py_lower auth_scheme = ''basic'' \<and> cr_auth_scheme c = ''basic'' \<and>
        (\<exists>u p. cr_username c = Some u \<and> cr_password c = Some p \<and>
           decode_basic_credentials auth_value = Inr (Some (codes u, codes p))))"

lemma find_bearer_first:
  "find_bearer v cs = map_option (\<lambda>c. principal_of c ''bearer'')
     (find (\<lambda>c. cr_auth_scheme c = ''bearer'' \<and> cr_token c = Some v) cs)"
  by (induction cs) auto

lemma find_basic_first:
  "find_basic x y cs = map_option (\<lambda>c. principal_of c ''basic'')
     (find (\<lambda>c. cr_auth_scheme c = ''basic'' \<and>
        (\<exists>u p. cr_username c = Some u \<and> cr_password c = Some p \<and> x = codes u \<and> y = codes p)) cs)"
  by (induction cs) auto

lemma authenticated_first:
  assumes "is_ascii auth_value"
  shows "authenticate_static_credential cs auth_scheme auth_value =
    Inr (map_option (\<lambda>c. principal_of c (py_lower auth_scheme)) (find (presents auth_scheme auth_value) cs))"
proof (cases "py_lower auth_scheme = ''bearer''")
  case True
  then have "presents auth_scheme auth_value = (\<lambda>c. cr_auth_scheme c = ''bearer'' \<and> cr_token c = Some auth_value)"
    by (simp add: presents_def fun_eq_iff)
  then show ?thesis using True by (simp add: authenticate_static_credential_def find_bearer_first)
next
  case nb: False
  obtain parsed where d: "decode_basic_credentials auth_value = Inr parsed"
    using assms by (simp add: decode_basic_credentials_def)
  show ?thesis
  proof (cases "py_lower auth_scheme = ''basic''")
    case False
    then have "presents auth_scheme auth_value = (\<lambda>_. False)" using nb by (simp add: presents_def fun_eq_iff)
    moreover have "find (\<lambda>_. False) cs = None" by (induction cs) simp_all
    ultimately show ?thesis using False nb by (simp add: authenticate_static_credential_def)
  next
    case True
    show ?thesis
    proof (cases parsed)
      case None
      have "presents auth_scheme auth_value = (\<lambda>_. False)" using True by (simp add: presents_def fun_eq_iff d None)
      moreover have "find (\<lambda>_. False) cs = None" by (induction cs) simp_all
      ultimately show ?thesis using True by (simp add: authenticate_static_credential_def d None)
    next
      case (Some up)
      obtain x y where up: "up = (x, y)" by (cases up)
      have "presents auth_scheme auth_value = (\<lambda>c. cr_auth_scheme c = ''basic'' \<and>
          (\<exists>u p. cr_username c = Some u \<and> cr_password c = Some p \<and> x = codes u \<and> y = codes p))"
        using True by (simp add: presents_def fun_eq_iff d Some up)
      then show ?thesis using True by (simp add: authenticate_static_credential_def d Some up find_basic_first)
    qed
  qed
qed

text \<open>
  A scheme and a value authenticate exactly the first configured credential whose secret they
  present, with the identity, the capabilities and the identifier of that credential; nothing else
  is authenticated.
\<close>

theorem authentication_finds_first_credential:
  assumes "is_ascii auth_value"
  shows "authenticate_static_credential cs auth_scheme auth_value =
    Inr (map_option (\<lambda>c. principal_of c (py_lower auth_scheme)) (find (presents auth_scheme auth_value) cs))"
  using assms by (rule authenticated_first)

theorem authentication_finds_first_credential_witness:
  "authenticate_static_credential
     [credential_of \<lparr>en_credential_id = Some ''ci'', en_scheme = ''bearer'', en_principal = Some ''ops'',
        en_token = Some ''t0ken'', en_username = None, en_password = None, en_capabilities = [], en_enabled = True\<rparr>]
     ''Bearer'' ''t0ken'' =
   Inr (Some \<lparr>pr_identity = ''ops'', pr_auth_scheme = ''bearer'', pr_capabilities = [], pr_credential_id = Some ''ci''\<rparr>)"
proof -
  have a: "is_ascii ''t0ken''" by code_simp
  have l: "py_lower ''Bearer'' = ''bearer''" by code_simp
  show ?thesis
    unfolding authentication_finds_first_credential [OF a]
    by (simp add: l presents_def credential_of_def principal_of_def str_or_default_def default_capabilities_for_scheme_def)
qed

lemma built_credentials:
  "c \<in> set (build_static_auth_credentials es) \<longleftrightarrow> (\<exists>e \<in> set es. en_enabled e \<and> c = credential_of e)"
  by (induction es) auto

lemma split_header:
  assumes "CHR '' '' \<in> set h"
  shows "h = takeWhile (\<lambda>c. c \<noteq> CHR '' '') h @ '' '' @ tl (dropWhile (\<lambda>c. c \<noteq> CHR '' '') h)"
proof -
  have d: "dropWhile (\<lambda>c. c \<noteq> CHR '' '') h \<noteq> []" using assms by (simp add: dropWhile_eq_Nil_conv)
  then have "hd (dropWhile (\<lambda>c. c \<noteq> CHR '' '') h) = CHR '' ''" using hd_dropWhile [OF d] by simp
  then show ?thesis using d by (metis append_Cons append_Nil list.collapse takeWhile_dropWhile_id)
qed

lemma authenticated_presents:
  assumes "authenticate_static_credential cs scheme v = Inr (Some p)"
  shows "\<exists>c \<in> set cs. presents scheme v c \<and> p = principal_of c (py_lower scheme)"
proof (cases "py_lower scheme = ''bearer''")
  case True
  then obtain c where "find (\<lambda>c. cr_auth_scheme c = ''bearer'' \<and> cr_token c = Some v) cs = Some c"
      "p = principal_of c ''bearer''"
    using assms by (auto simp: authenticate_static_credential_def find_bearer_first)
  then show ?thesis using True by (auto simp: find_Some_iff presents_def)
next
  case False
  then have "is_ascii v"
    using assms by (auto simp: authenticate_static_credential_def decode_basic_credentials_def split: if_splits)
  then have "authenticate_static_credential cs scheme v =
      Inr (map_option (\<lambda>c. principal_of c (py_lower scheme)) (find (presents scheme v) cs))"
    by (rule authenticated_first)
  then obtain c where "find (presents scheme v) cs = Some c" "p = principal_of c (py_lower scheme)"
    using assms by (cases "find (presents scheme v) cs") auto
  then show ?thesis by (auto simp: find_Some_iff)
qed

lemma header_authenticates:
  assumes "header_auth cs h = Authenticated p"
  shows "\<exists>c \<in> set cs. \<exists>scheme rest. h = scheme @ '' '' @ rest \<and> presents scheme (py_strip rest) c \<and>
    p = principal_of c (py_lower scheme)"
proof -
  let ?s = "takeWhile (\<lambda>c. c \<noteq> CHR '' '') h" and ?v = "tl (dropWhile (\<lambda>c. c \<noteq> CHR '' '') h)"
  have h: "CHR '' '' \<in> set h" by (rule ccontr) (use assms in \<open>simp add: header_auth_def\<close>)
  obtain x where x: "x = authenticate_static_credential cs ?s (py_strip ?v)" by simp
  have "x = Inr (Some p)"
    using assms h unfolding header_auth_def Let_def x [symmetric] by (simp split: sum.split_asm option.split_asm)
  then show ?thesis using authenticated_presents split_header [OF h] unfolding x by blast
qed

lemma header_not_public: "header_auth cs h \<noteq> Public"
  by (simp add: header_auth_def Let_def split: sum.split option.split)


section \<open>Basic credentials of the client\<close>

text \<open>
  The header value that the client derives from \<open>user:password\<close> is decoded by the server into
  that user name and that password, and a value that is already encoded is left as it is.
\<close>

theorem basic_credentials_roundtrip:
  assumes "CHR '':'' \<notin> set u" "u \<noteq> []" "p \<noteq> []"
  shows "\<exists>v. encode_basic_auth (u @ '':'' @ p) = Inr v \<and> decode_basic_credentials v = Inr (Some (codes u, codes p)) \<and>
    encode_basic_auth v = Inr v"
proof -
  define b where "b = utf8_encode (u @ '':'' @ p)"
  have b: "\<forall>x \<in> set b. x < 256" unfolding b_def using utf8_encode_bytes by blast
  note c = b64encode_chars [OF b]
  have "x = CHR '':''" if "of_char x = (58::nat)" for x
    using that of_char_eq_iff [of x "CHR '':''", where 'a = nat] by simp
  then have n: "58 \<notin> set (codes u)" using assms(1) by (auto simp: codes_def)
  have dec: "utf8_decode b = Some (codes u @ 58 # codes p)" by (simp add: b_def utf8_roundtrip)
  have tw: "takeWhile (\<lambda>c. c \<noteq> 58) (codes u @ 58 # codes p) = codes u"
    "dropWhile (\<lambda>c. c \<noteq> 58) (codes u @ 58 # codes p) = 58 # codes p"
    using n by (auto simp: takeWhile_append dropWhile_append)
  have ne: "codes u \<noteq> []" "codes p \<noteq> []" using assms(2,3) by (simp_all add: codes_def)
  have d: "decode_basic_credentials (b64encode b) = Inr (Some (codes u, codes p))"
    using c(2) ne by (simp add: decode_basic_credentials_def b64_roundtrip [OF b] dec Let_def tw)
  have "58 \<in> set b" by (simp add: b_def utf8_encode_def)
  then have "encode_basic_auth (b64encode b) = Inr (b64encode b)"
    using c by (simp add: encode_basic_auth_def decode_basic_auth_def b64_roundtrip [OF b])
  moreover have "encode_basic_auth (u @ '':'' @ p) = Inr (b64encode b)" by (simp add: encode_basic_auth_def b_def)
  ultimately show ?thesis using d by blast
qed

theorem basic_credentials_roundtrip_witness:
  "\<exists>v. encode_basic_auth ''alice:pw:1'' = Inr v \<and>
     decode_basic_credentials v = Inr (Some (codes ''alice'', codes ''pw:1'')) \<and> encode_basic_auth v = Inr v"
  using basic_credentials_roundtrip [of "''alice''" "''pw:1''"] by simp

text \<open>
  A basic value with a character outside ASCII makes \<open>b64decode\<close> raise a \<open>ValueError\<close> that neither the
  lookup nor the middleware catches: the request fails in the server and is not answered with 401.
\<close>

theorem non_ascii_basic_value_crashes:
  "bearer_auth [] (build_static_auth_credentials entries)
     \<lparr>hr_method = ''POST'', hr_path = ''/'', hr_authorization = Some (''Basic '' @ [CHR 0xE9])\<rparr> = AuthCrash"
proof -
  have "py_lower ''Basic'' = ''basic''" "py_strip [CHR 0xE9] = [CHR 0xE9]" "\<not> is_ascii [CHR 0xE9]" by code_simp+
  then show ?thesis
    by (simp add: bearer_auth_def header_auth_def public_request_def authenticate_static_credential_def decode_basic_credentials_def)
qed

end
