(* ===== verification/Upstream_Client.thy ===== *)
theory Upstream_Client
  imports Request_Context Tool_Orchestration
begin

text \<open>
  \<open>OpencodeUpstreamClient\<close> of \<open>opencode_upstream_client.py\<close>: the concurrency budgets, the
  query parameters, the HTTP call of every method, the reading of the event stream and of the
  responses.  \<open>httpx\<close> is not modelled: a call is the arguments it receives, a response what the
  code reads of it.
\<close>

section \<open>Concurrency budgets\<close>

record budget =
  bu_category :: string
  bu_limit :: int
  bu_inflight :: nat

record limit_error =
  le_category :: string
  le_operation :: string
  le_limit :: int

definition new_budget :: "string \<Rightarrow> int \<Rightarrow> budget" where
  "new_budget category limit = \<lparr>bu_category = category, bu_limit = max 0 limit, bu_inflight = 0\<rparr>"

text \<open>The entry and the exit of \<open>reserve\<close>.\<close>

definition reserve_enter :: "string \<Rightarrow> budget \<Rightarrow> (limit_error + unit) \<times> budget" where
  "reserve_enter operation b =
     (if bu_limit b \<le> 0 then (Inr (), b)
      else if bu_limit b \<le> int (bu_inflight b) then
        (Inl \<lparr>le_category = bu_category b, le_operation = operation, le_limit = bu_limit b\<rparr>, b)
      else (Inr (), b\<lparr>bu_inflight := bu_inflight b + 1\<rparr>))"

definition reserve_exit :: "budget \<Rightarrow> budget" where
  "reserve_exit b =
     (if bu_limit b \<le> 0 then b
      else if 0 < bu_inflight b then b\<lparr>bu_inflight := bu_inflight b - 1\<rparr> else b)"

text \<open>\<open>str(exc)\<close> of \<open>UpstreamConcurrencyLimitError\<close>.\<close>

definition limit_error_text :: "limit_error \<Rightarrow> string" where
  "limit_error_text e =
     ''OpenCode upstream '' @ le_category e @ '' concurrency limit exceeded while calling '' @ le_operation e
     @ '' (limit='' @ int_str (le_limit e) @ '')''"

text \<open>
  Concurrent calls: each enters the block at most once and leaves it once, however its body ends.
  The set holds the calls inside the block.
\<close>

inductive budget_step :: "budget \<times> nat set \<Rightarrow> budget \<times> nat set \<Rightarrow> bool" where
  admit: "c \<notin> S \<Longrightarrow> reserve_enter operation b = (Inr (), b') \<Longrightarrow> budget_step (b, S) (b', insert c S)"
| refuse: "c \<notin> S \<Longrightarrow> reserve_enter operation b = (Inl e, b') \<Longrightarrow> budget_step (b, S) (b', S)"
| leave: "c \<in> S \<Longrightarrow> budget_step (b, S) (reserve_exit b, S - {c})"

inductive budget_reachable :: "string \<Rightarrow> int \<Rightarrow> budget \<times> nat set \<Rightarrow> bool" for category limit where
  budget_start: "budget_reachable category limit (new_budget category limit, {})"
| budget_next: "budget_reachable category limit w \<Longrightarrow> budget_step w w' \<Longrightarrow> budget_reachable category limit w'"

definition budget_ok :: "int \<Rightarrow> budget \<times> nat set \<Rightarrow> bool" where
  "budget_ok limit = (\<lambda>(b, S). finite S \<and> bu_limit b = max 0 limit \<and>
     (0 < limit \<longrightarrow> bu_inflight b = card S \<and> int (card S) \<le> limit))"

lemma budget_ok_step: "budget_step w w' \<Longrightarrow> budget_ok limit w \<Longrightarrow> budget_ok limit w'"
  by (induction rule: budget_step.induct)
    (auto simp: budget_ok_def reserve_enter_def reserve_exit_def card_gt_0_iff split: if_splits)

lemma budget_ok_reachable: "budget_reachable category limit w \<Longrightarrow> budget_ok limit w"
proof (induction rule: budget_reachable.induct)
  case budget_start
  show ?case by (simp add: budget_ok_def new_budget_def)
qed (rule budget_ok_step)

text \<open>
  With a positive limit, never more than that many upstream calls are in progress, however calls
  start, fail and end, and a call is refused exactly when that many are in progress; without a
  positive limit none is refused.
\<close>

theorem budget_limits_calls:
  assumes "budget_reachable category limit (b, S)"
  shows "(0 < limit \<longrightarrow> int (card S) \<le> limit) \<and>
    ((\<exists>e. fst (reserve_enter operation b) = Inl e) \<longleftrightarrow> 0 < limit \<and> int (card S) = limit)"
  using budget_ok_reachable [OF assms] by (auto simp: budget_ok_def reserve_enter_def)

lemma one_admitted: "budget_reachable ''request'' 1 (\<lparr>bu_category = ''request'', bu_limit = 1, bu_inflight = 1\<rparr>, {0})"
proof -
  have "reserve_enter ''/session'' (new_budget ''request'' 1) =
      (Inr (), \<lparr>bu_category = ''request'', bu_limit = 1, bu_inflight = 1\<rparr>)" by code_simp
  from budget_next [OF budget_start admit [OF _ this, of 0]] show ?thesis by simp
qed

theorem budget_limits_calls_witness:
  "\<exists>e. fst (reserve_enter ''/session'' \<lparr>bu_category = ''request'', bu_limit = 1, bu_inflight = 1\<rparr>) = Inl e"
  using budget_limits_calls [OF one_admitted, of "''/session''"] by simp

section \<open>Query parameters\<close>

text \<open>\<open>str(value)\<close> of a query value that is not a string; a value that is no scalar is not modelled
further, its text is a parameter.\<close>

record upstream =
  us_directory :: "string option"
  us_agent :: "string option"
  us_system :: "string option"
  us_variant :: "string option"
  us_str :: "pyval \<Rightarrow> string"

definition query_params :: "upstream \<Rightarrow> string option \<Rightarrow> string option \<Rightarrow> (string, string) dict" where
  "query_params us directory workspace_id =
     (case (case workspace_id of None \<Rightarrow> [] | Some w \<Rightarrow> py_strip w) of
        c # cs \<Rightarrow> [(''workspace'', c # cs)]
      | [] \<Rightarrow> (case str_or directory (us_directory us) of
                 Some (c # cs) \<Rightarrow> [(''directory'', c # cs)]
               | _ \<Rightarrow> []))"

definition query_text :: "upstream \<Rightarrow> pyval \<Rightarrow> string" where
  "query_text us v = (case v of PStr s \<Rightarrow> s | _ \<Rightarrow> us_str us v)"

definition merge_entry :: "upstream \<Rightarrow> string \<times> pyval \<Rightarrow> (string, string) dict \<Rightarrow> (string, string) dict" where
  "merge_entry us = (\<lambda>(key, value) params.
     if value = PNone then params
     else if key \<in> {''directory'', ''workspace''} then params
     else dict_set key (query_text us value) params)"

definition merge_params ::
  "upstream \<Rightarrow> pdict \<Rightarrow> string option \<Rightarrow> string option \<Rightarrow> (string, string) dict" where
  "merge_params us extra directory workspace_id =
     fold (merge_entry us) extra (query_params us directory workspace_id)"

lemma merge_keeps_routing:
  "key \<in> {''directory'', ''workspace''} \<Longrightarrow> dict_get (fold (merge_entry us) extra params) key = dict_get params key"
  by (induction extra arbitrary: params) (auto simp: merge_entry_def dict_simps split: prod.splits)

lemma merge_value:
  "wf_dict extra \<Longrightarrow> key \<notin> {''directory'', ''workspace''} \<Longrightarrow>
   dict_get (fold (merge_entry us) extra params) key =
     (case dict_get extra key of
        None \<Rightarrow> dict_get params key
      | Some v \<Rightarrow> if v = PNone then dict_get params key
                  else Some (query_text us v))"
proof (induction extra arbitrary: params)
  case (Cons kv extra)
  obtain k v where kv: "kv = (k, v)" by fastforce
  have "k = key \<Longrightarrow> dict_get extra key = None"
    using Cons.prems(1) by (auto simp: kv map_of_eq_None_iff)
  then show ?case
    using Cons by (auto simp: kv merge_entry_def dict_simps split: option.split)
qed simp

text \<open>
  The query of a client never chooses the directory or the workspace of an upstream request:
  these come from the request's routing alone, and every other parameter of the client is passed on.
\<close>

theorem client_query_keeps_routing:
  assumes "wf_dict extra"
  shows "dict_get (merge_params us extra directory workspace_id) key =
    (if key \<in> {''directory'', ''workspace''} \<or> pget extra key = PNone
     then dict_get (query_params us directory workspace_id) key
     else Some (query_text us (pget extra key)))"
proof (cases "key \<in> {''directory'', ''workspace''}")
  case True
  then show ?thesis by (simp add: merge_params_def merge_keeps_routing)
next
  case False
  then show ?thesis
    by (cases "dict_get extra key") (auto simp: merge_params_def merge_value [OF assms] pget_def)
qed

theorem client_query_keeps_routing_witness:
  "dict_get (merge_params \<lparr>us_directory = Some ''/srv'', us_agent = None, us_system = None,
     us_variant = None, us_str = (\<lambda>_. [])\<rparr> [(''directory'', PStr ''/etc'')] None None) ''directory'' = Some ''/srv''"
proof -
  have "wf_dict [(''directory'', PStr ''/etc'')]" by simp
  from client_query_keeps_routing [OF this] show ?thesis by (simp add: query_params_def)
qed

section \<open>Calls\<close>

text \<open>
  The public methods, with the arguments they put into the path, the query or the body; all but the
  workspace and project methods also take a directory and a workspace.
\<close>

datatype up_op =
    CreateSession "string option"
  | SessionStatus
  | GetSession string
  | ListChildren string
  | GetTodo string
  | GetDiff string pdict
  | AbortSession string
  | ListSessions pdict
  | ListMessages string pdict
  | GetMessage string string
  | PromptAsync string pdict
  | SessionCommand string pdict
  | SessionShell string pdict
  | ForkSession string "pdict option"
  | ShareSession string
  | UnshareSession string
  | SummarizeSession string "pdict option"
  | RevertSession string pdict
  | UnrevertSession string
  | SendMessage string pdict
  | ListProviders
  | ListProjects
  | CurrentProject
  | ListWorkspaces
  | CreateWorkspace pdict
  | RemoveWorkspace string
  | ListWorktrees
  | CreateWorktree pdict
  | RemoveWorktree pdict
  | ResetWorktree pdict
  | PermissionReply string string "string option"
  | QuestionReply string "string list list"
  | QuestionReject string

record http_call =
  hc_method :: string
  hc_path :: string
  hc_params :: "(string, string) dict"
  hc_body :: "pyval option"
  hc_operation :: string

definition session_path :: "string \<Rightarrow> string \<Rightarrow> string" where
  "session_path session_id tail = ''/session/'' @ session_id @ tail"

definition http_get :: "string \<Rightarrow> string \<Rightarrow> (string, string) dict \<Rightarrow> http_call" where
  "http_get path operation params =
     \<lparr>hc_method = ''GET'', hc_path = path, hc_params = params, hc_body = None, hc_operation = operation\<rparr>"

definition http_post :: "string \<Rightarrow> string \<Rightarrow> (string, string) dict \<Rightarrow> pyval option \<Rightarrow> http_call" where
  "http_post path operation params body =
     \<lparr>hc_method = ''POST'', hc_path = path, hc_params = params, hc_body = body, hc_operation = operation\<rparr>"

definition http_delete :: "string \<Rightarrow> string \<Rightarrow> (string, string) dict \<Rightarrow> pyval option \<Rightarrow> http_call" where
  "http_delete path operation params body =
     \<lparr>hc_method = ''DELETE'', hc_path = path, hc_params = params, hc_body = body, hc_operation = operation\<rparr>"

definition str_entry :: "string \<Rightarrow> string option \<Rightarrow> pdict" where
  "str_entry key value = (if truthy_str value then [(key, PStr (the value))] else [])"

definition or_empty :: "pdict option \<Rightarrow> pdict" where
  "or_empty d = (case d of None \<Rightarrow> [] | Some x \<Rightarrow> x)"

definition create_session_call :: "upstream \<Rightarrow> string option \<Rightarrow> string option \<Rightarrow> string option \<Rightarrow> http_call" where
  "create_session_call us title d w =
     http_post ''/session'' ''/session'' (query_params us d w)
     (Some (PDict (str_entry ''title'' title)))"

definition session_status_call :: "upstream \<Rightarrow> string option \<Rightarrow> string option \<Rightarrow> http_call" where
  "session_status_call us d w =
     http_get ''/session/status'' ''/session/status'' (query_params us d w)"

definition get_session_call :: "upstream \<Rightarrow> string \<Rightarrow> string option \<Rightarrow> string option \<Rightarrow> http_call" where
  "get_session_call us sid d w =
     http_get (session_path sid []) ''/session/{sessionID}'' (query_params us d w)"

definition list_child_sessions_call :: "upstream \<Rightarrow> string \<Rightarrow> string option \<Rightarrow> string option \<Rightarrow> http_call" where
  "list_child_sessions_call us sid d w =
     http_get (session_path sid ''/children'') ''/session/{sessionID}/children'' (query_params us d w)"

definition get_session_todo_call :: "upstream \<Rightarrow> string \<Rightarrow> string option \<Rightarrow> string option \<Rightarrow> http_call" where
  "get_session_todo_call us sid d w =
     http_get (session_path sid ''/todo'') ''/session/{sessionID}/todo'' (query_params us d w)"

definition get_session_diff_call :: "upstream \<Rightarrow> string \<Rightarrow> pdict \<Rightarrow> string option \<Rightarrow> string option \<Rightarrow> http_call" where
  "get_session_diff_call us sid params d w =
     http_get (session_path sid ''/diff'') ''/session/{sessionID}/diff'' (merge_params us params d w)"

definition abort_session_call :: "upstream \<Rightarrow> string \<Rightarrow> string option \<Rightarrow> string option \<Rightarrow> http_call" where
  "abort_session_call us sid d w =
     http_post (session_path sid ''/abort'') ''/session/{sessionID}/abort'' (query_params us d w) None"

definition list_sessions_call :: "upstream \<Rightarrow> pdict \<Rightarrow> string option \<Rightarrow> string option \<Rightarrow> http_call" where
  "list_sessions_call us params d w =
     http_get ''/session'' ''/session'' (merge_params us params d w)"

definition list_messages_call :: "upstream \<Rightarrow> string \<Rightarrow> pdict \<Rightarrow> string option \<Rightarrow> http_call" where
  "list_messages_call us sid params w =
     http_get (session_path sid ''/message'') ''/session/{sessionID}/message'' (merge_params us params None w)"

definition get_message_call :: "upstream \<Rightarrow> string \<Rightarrow> string \<Rightarrow> string option \<Rightarrow> string option \<Rightarrow> http_call" where
  "get_message_call us sid mid d w =
     http_get (session_path sid (''/message/'' @ mid)) ''/session/{sessionID}/message/{messageID}'' (query_params us d w)"

definition session_prompt_async_call :: "upstream \<Rightarrow> string \<Rightarrow> pdict \<Rightarrow> string option \<Rightarrow> string option \<Rightarrow> http_call" where
  "session_prompt_async_call us sid req d w =
     http_post (session_path sid ''/prompt_async'') ''/session/{sessionID}/prompt_async'' (query_params us d w) (Some (PDict req))"

definition session_command_call :: "upstream \<Rightarrow> string \<Rightarrow> pdict \<Rightarrow> string option \<Rightarrow> string option \<Rightarrow> http_call" where
  "session_command_call us sid req d w =
     http_post (session_path sid ''/command'') ''/session/{sessionID}/command'' (query_params us d w) (Some (PDict req))"

definition session_shell_call :: "upstream \<Rightarrow> string \<Rightarrow> pdict \<Rightarrow> string option \<Rightarrow> string option \<Rightarrow> http_call" where
  "session_shell_call us sid req d w =
     http_post (session_path sid ''/shell'') ''/session/{sessionID}/shell'' (query_params us d w) (Some (PDict req))"

definition fork_session_call :: "upstream \<Rightarrow> string \<Rightarrow> pdict option \<Rightarrow> string option \<Rightarrow> string option \<Rightarrow> http_call" where
  "fork_session_call us sid req d w =
     http_post (session_path sid ''/fork'') ''/session/{sessionID}/fork'' (query_params us d w) (Some (PDict (or_empty req)))"

definition share_session_call :: "upstream \<Rightarrow> string \<Rightarrow> string option \<Rightarrow> string option \<Rightarrow> http_call" where
  "share_session_call us sid d w =
     http_post (session_path sid ''/share'') ''/session/{sessionID}/share'' (query_params us d w) None"

definition unshare_session_call :: "upstream \<Rightarrow> string \<Rightarrow> string option \<Rightarrow> string option \<Rightarrow> http_call" where
  "unshare_session_call us sid d w =
     http_delete (session_path sid ''/share'') ''/session/{sessionID}/share'' (query_params us d w) None"

definition summarize_session_call :: "upstream \<Rightarrow> string \<Rightarrow> pdict option \<Rightarrow> string option \<Rightarrow> string option \<Rightarrow> http_call" where
  "summarize_session_call us sid req d w =
     http_post (session_path sid ''/summarize'') ''/session/{sessionID}/summarize'' (query_params us d w) (map_option PDict req)"

definition revert_session_call :: "upstream \<Rightarrow> string \<Rightarrow> pdict \<Rightarrow> string option \<Rightarrow> string option \<Rightarrow> http_call" where
  "revert_session_call us sid req d w =
     http_post (session_path sid ''/revert'') ''/session/{sessionID}/revert'' (query_params us d w) (Some (PDict req))"

definition unrevert_session_call :: "upstream \<Rightarrow> string \<Rightarrow> string option \<Rightarrow> string option \<Rightarrow> http_call" where
  "unrevert_session_call us sid d w =
     http_post (session_path sid ''/unrevert'') ''/session/{sessionID}/unrevert'' (query_params us d w) None"

definition send_message_call :: "upstream \<Rightarrow> string \<Rightarrow> pdict \<Rightarrow> string option \<Rightarrow> string option \<Rightarrow> http_call" where
  "send_message_call us sid payload d w =
     http_post (session_path sid ''/message'') ''/session/{sessionID}/message'' (query_params us d w) (Some (PDict payload))"

definition list_provider_catalog_call :: "upstream \<Rightarrow> string option \<Rightarrow> string option \<Rightarrow> http_call" where
  "list_provider_catalog_call us d w =
     http_get ''/provider'' ''/provider'' (query_params us d w)"

definition list_projects_call :: "http_call" where
  "list_projects_call =
     http_get ''/project'' ''/project'' []"

definition get_current_project_call :: "http_call" where
  "get_current_project_call =
     http_get ''/project/current'' ''/project/current'' []"

definition list_workspaces_call :: "http_call" where
  "list_workspaces_call =
     http_get ''/experimental/workspace'' ''/experimental/workspace'' []"

definition create_workspace_call :: "pdict \<Rightarrow> http_call" where
  "create_workspace_call req =
     http_post ''/experimental/workspace'' ''/experimental/workspace'' [] (Some (PDict req))"

definition remove_workspace_call :: "string \<Rightarrow> http_call" where
  "remove_workspace_call wid =
     http_delete (''/experimental/workspace/'' @ wid) ''/experimental/workspace/{id}'' [] None"

definition list_worktrees_call :: "http_call" where
  "list_worktrees_call =
     http_get ''/experimental/worktree'' ''/experimental/worktree'' []"

definition create_worktree_call :: "pdict \<Rightarrow> http_call" where
  "create_worktree_call req =
     http_post ''/experimental/worktree'' ''/experimental/worktree'' [] (Some (PDict req))"

definition remove_worktree_call :: "pdict \<Rightarrow> http_call" where
  "remove_worktree_call req =
     http_delete ''/experimental/worktree'' ''/experimental/worktree'' [] (Some (PDict req))"

definition reset_worktree_call :: "pdict \<Rightarrow> http_call" where
  "reset_worktree_call req =
     http_post ''/experimental/worktree/reset'' ''/experimental/worktree/reset'' [] (Some (PDict req))"

definition permission_reply_call :: "upstream \<Rightarrow> string \<Rightarrow> string \<Rightarrow> string option \<Rightarrow> string option \<Rightarrow> string option \<Rightarrow> http_call" where
  "permission_reply_call us rid reply message d w =
     http_post (''/permission/'' @ rid @ ''/reply'') ''/permission/{requestID}/reply'' (query_params us d w)
       (Some (PDict ((''reply'', PStr reply) # str_entry ''message'' message)))"

definition question_reply_call :: "upstream \<Rightarrow> string \<Rightarrow> string list list \<Rightarrow> string option \<Rightarrow> string option \<Rightarrow> http_call" where
  "question_reply_call us rid answers d w =
     http_post (''/question/'' @ rid @ ''/reply'') ''/question/{requestID}/reply'' (query_params us d w)
       (Some (PDict [(''answers'', PList (map (\<lambda>g. PList (map PStr g)) answers))]))"

definition question_reject_call :: "upstream \<Rightarrow> string \<Rightarrow> string option \<Rightarrow> string option \<Rightarrow> http_call" where
  "question_reject_call us rid d w =
     http_post (''/question/'' @ rid @ ''/reject'') ''/question/{requestID}/reject'' (query_params us d w) None"

text \<open>The call of a method.\<close>

fun up_call :: "upstream \<Rightarrow> up_op \<Rightarrow> string option \<Rightarrow> string option \<Rightarrow> http_call" where
  "up_call us (CreateSession title) d w = create_session_call us title d w"
| "up_call us SessionStatus d w = session_status_call us d w"
| "up_call us (GetSession sid) d w = get_session_call us sid d w"
| "up_call us (ListChildren sid) d w = list_child_sessions_call us sid d w"
| "up_call us (GetTodo sid) d w = get_session_todo_call us sid d w"
| "up_call us (GetDiff sid params) d w = get_session_diff_call us sid params d w"
| "up_call us (AbortSession sid) d w = abort_session_call us sid d w"
| "up_call us (ListSessions params) d w = list_sessions_call us params d w"
| "up_call us (ListMessages sid params) d w = list_messages_call us sid params w"
| "up_call us (GetMessage sid mid) d w = get_message_call us sid mid d w"
| "up_call us (PromptAsync sid req) d w = session_prompt_async_call us sid req d w"
| "up_call us (SessionCommand sid req) d w = session_command_call us sid req d w"
| "up_call us (SessionShell sid req) d w = session_shell_call us sid req d w"
| "up_call us (ForkSession sid req) d w = fork_session_call us sid req d w"
| "up_call us (ShareSession sid) d w = share_session_call us sid d w"
| "up_call us (UnshareSession sid) d w = unshare_session_call us sid d w"
| "up_call us (SummarizeSession sid req) d w = summarize_session_call us sid req d w"
| "up_call us (RevertSession sid req) d w = revert_session_call us sid req d w"
| "up_call us (UnrevertSession sid) d w = unrevert_session_call us sid d w"
| "up_call us (SendMessage sid payload) d w = send_message_call us sid payload d w"
| "up_call us ListProviders d w = list_provider_catalog_call us d w"
| "up_call us ListProjects d w = list_projects_call"
| "up_call us CurrentProject d w = get_current_project_call"
| "up_call us ListWorkspaces d w = list_workspaces_call"
| "up_call us (CreateWorkspace req) d w = create_workspace_call req"
| "up_call us (RemoveWorkspace wid) d w = remove_workspace_call wid"
| "up_call us ListWorktrees d w = list_worktrees_call"
| "up_call us (CreateWorktree req) d w = create_worktree_call req"
| "up_call us (RemoveWorktree req) d w = remove_worktree_call req"
| "up_call us (ResetWorktree req) d w = reset_worktree_call req"
| "up_call us (PermissionReply rid reply message) d w = permission_reply_call us rid reply message d w"
| "up_call us (QuestionReply rid answers) d w = question_reply_call us rid answers d w"
| "up_call us (QuestionReject rid) d w = question_reject_call us rid d w"

lemmas call_defs = create_session_call_def session_status_call_def get_session_call_def list_child_sessions_call_def get_session_todo_call_def get_session_diff_call_def abort_session_call_def list_sessions_call_def list_messages_call_def get_message_call_def session_prompt_async_call_def session_command_call_def session_shell_call_def fork_session_call_def share_session_call_def unshare_session_call_def summarize_session_call_def revert_session_call_def unrevert_session_call_def send_message_call_def list_provider_catalog_call_def list_projects_call_def get_current_project_call_def list_workspaces_call_def create_workspace_call_def remove_workspace_call_def list_worktrees_call_def create_worktree_call_def remove_worktree_call_def reset_worktree_call_def permission_reply_call_def question_reply_call_def question_reject_call_def

text \<open>The payload of \<open>send_message\<close>; the error is its \<open>ValueError\<close>.\<close>

fun normalize_model_ref :: "pyval \<Rightarrow> (string \<times> string) option" where
  "normalize_model_ref (PDict value) =
     (case (pget value ''providerID'', pget value ''modelID'') of
        (PStr provider, PStr model) \<Rightarrow>
          (if py_strip provider = [] \<or> py_strip model = [] then None
           else Some (py_strip provider, py_strip model))
      | _ \<Rightarrow> None)"
| "normalize_model_ref _ = None"

definition send_message_payload ::
  "upstream \<Rightarrow> string option \<Rightarrow> pdict list option \<Rightarrow> pyval \<Rightarrow> string + pdict" where
  "send_message_payload us text parts model_override =
     ebind (case (parts, text) of
              (Some ps, _) \<Rightarrow> Inr ps
            | (None, Some t) \<Rightarrow> Inr [[(''type'', PStr ''text''), (''text'', PStr t)]]
            | (None, None) \<Rightarrow> Inl ''send_message requires either text or parts'') (\<lambda>payload_parts.
     if payload_parts = [] then Inl ''send_message parts must not be empty''
     else Inr ((''parts'', PList (map PDict payload_parts))
       # str_entry ''agent'' (us_agent us) @ str_entry ''system'' (us_system us)
       @ str_entry ''variant'' (us_variant us)
       @ (case normalize_model_ref model_override of
            None \<Rightarrow> []
          | Some (p, m) \<Rightarrow> [(''model'', PDict [(''providerID'', PStr p), (''modelID'', PStr m)])])))"

section \<open>Responses\<close>

record up_response =
  up_status :: int
  up_json :: "pyval option"  \<comment> \<open>\<open>None\<close> when the body is not JSON\<close>
  up_text :: string
  up_content_type :: string
  up_next_cursor :: "string option"  \<comment> \<open>the header \<open>X-Next-Cursor\<close>\<close>

datatype up_error = UpStatus int | UpContract string | UpRuntime string | UpAttribute

fun type_name :: "pyval \<Rightarrow> string" where
  "type_name PNone = ''NoneType''"
| "type_name (PBool _) = ''bool''"
| "type_name (PInt _) = ''int''"
| "type_name (PFloat _) = ''float''"
| "type_name (PStr _) = ''str''"
| "type_name (PList _) = ''list''"
| "type_name (PDict _) = ''dict''"

function py_split :: "string \<Rightarrow> string list" where
  "py_split s =
     (let t = dropWhile py_space s
      in if t = [] then [] else takeWhile (\<lambda>c. \<not> py_space c) t # py_split (dropWhile (\<lambda>c. \<not> py_space c) t))"
  by pat_completeness auto

termination
proof (relation "measure length")
  fix s t
  assume "t = dropWhile py_space s" "t \<noteq> []"
  then have "\<not> py_space (hd t)" "t \<noteq> []" using hd_dropWhile by blast+
  then have "length (dropWhile (\<lambda>c. \<not> py_space c) t) < length t"
    by (cases t) (auto simp: less_Suc_eq_le length_dropWhile_le)
  also have "\<dots> \<le> length s" using \<open>t = dropWhile py_space s\<close> by (simp add: length_dropWhile_le)
  finally show "(dropWhile (\<lambda>c. \<not> py_space c) t, s) \<in> measure length" by simp
qed simp

declare py_split.simps [simp del]

definition response_body_preview :: "string \<Rightarrow> nat \<Rightarrow> string" where
  "response_body_preview body limit =
     (if py_strip body = [] then ''<empty>''
      else let compact = py_join '' '' (py_split (py_strip body))
           in if length compact \<le> limit then compact else take (limit - 3) compact @ ''...'')"

definition decode_json_response :: "up_response \<Rightarrow> string \<Rightarrow> up_error + pyval" where
  "decode_json_response r endpoint =
     (case up_json r of
        Some v \<Rightarrow> Inr v
      | None \<Rightarrow>
          (let content_type = py_strip (takeWhile (\<lambda>c. c \<noteq> CHR '';'') (up_content_type r))
           in Inl (UpContract (''OpenCode '' @ endpoint @ '' returned non-JSON response (status=''
             @ int_str (up_status r) @ '', content-type='' @ (if content_type = [] then ''unknown'' else content_type)
             @ '', body='' @ response_body_preview (up_text r) 200 @ '')''))))"

definition require_boolean_response :: "string \<Rightarrow> pyval \<Rightarrow> up_error + pyval" where
  "require_boolean_response endpoint payload =
     (case payload of
        PBool b \<Rightarrow> Inr (PBool b)
      | _ \<Rightarrow> Inl (UpRuntime (''OpenCode '' @ endpoint @ '' response must be boolean; got '' @ type_name payload)))"

fun boolean_op :: "up_op \<Rightarrow> bool" where
  "boolean_op (AbortSession _) = True"
| "boolean_op (SummarizeSession _ _) = True"
| "boolean_op (RemoveWorktree _) = True"
| "boolean_op (ResetWorktree _) = True"
| "boolean_op (PermissionReply _ _ _) = True"
| "boolean_op (QuestionReply _ _) = True"
| "boolean_op (QuestionReject _) = True"
| "boolean_op _ = False"

text \<open>\<open>raise_for_status\<close> accepts the statuses 200 to 299.\<close>

definition up_result :: "upstream \<Rightarrow> up_op \<Rightarrow> up_response \<Rightarrow> up_error + pyval" where
  "up_result us op r =
     (let endpoint = hc_operation (up_call us op None None)
      in if \<not> (200 \<le> up_status r \<and> up_status r < 300) then Inl (UpStatus (up_status r))
         else case op of
           PromptAsync _ _ \<Rightarrow>
             (if up_status r \<noteq> 204
              then Inl (UpContract (''OpenCode '' @ endpoint @ '' must return 204; got '' @ int_str (up_status r)))
              else Inr PNone)
         | CreateSession _ \<Rightarrow>
             ebind (decode_json_response r endpoint) (\<lambda>v.
               case v of
                 PDict payload \<Rightarrow>
                   (case pget payload ''id'' of
                      PStr (c # cs) \<Rightarrow> Inr (PStr (c # cs))
                    | _ \<Rightarrow> Inl (UpRuntime ''OpenCode session response missing id''))
               | _ \<Rightarrow> Inl UpAttribute)
         | _ \<Rightarrow> ebind (decode_json_response r endpoint) (\<lambda>v.
                  if boolean_op op then require_boolean_response endpoint v else Inr v))"

text \<open>The page of \<open>list_messages\<close>: the payload and the cursor from the header \<open>X-Next-Cursor\<close>.\<close>

record message_page =
  pg_payload :: pyval
  pg_next_cursor :: "string option"

definition list_messages_page :: "pyval \<Rightarrow> string option \<Rightarrow> message_page" where
  "list_messages_page payload raw_next_cursor =
     \<lparr>pg_payload = payload,
      pg_next_cursor = (case raw_next_cursor of None \<Rightarrow> None | Some c \<Rightarrow> nonempty (py_strip c))\<rparr>"

text \<open>The message that \<open>send_message\<close> returns; a response that is no object has no \<open>get\<close>.\<close>

record opencode_message =
  om_text :: string
  om_session_id :: string
  om_message_id :: pyval
  om_raw :: pdict

definition send_message_result :: "string \<Rightarrow> pyval \<Rightarrow> up_error + opencode_message" where
  "send_message_result session_id response =
     (case response of
        PDict d \<Rightarrow>
          Inr \<lparr>om_text = extract_text_from_parts (pget d ''parts''), om_session_id = session_id,
               om_message_id = (case pget d ''info'' of PDict info \<Rightarrow> pget info ''id'' | _ \<Rightarrow> PNone), om_raw = d\<rparr>
      | _ \<Rightarrow> Inl UpAttribute)"

section \<open>The event stream\<close>

text \<open>
  The loop of \<open>stream_events\<close> over the lines read before the stop event is set: \<open>loads\<close> is
  \<open>json.loads\<close>, with \<open>None\<close> for its exception.
\<close>

fun sse_events :: "(string \<Rightarrow> pyval option) \<Rightarrow> string list \<Rightarrow> string list \<Rightarrow> pdict list" where
  "sse_events loads data_lines [] = []"
| "sse_events loads data_lines (line # lines) =
     (if line = [] then
        (if data_lines = [] then sse_events loads [] lines
         else
           let payload = py_strip (py_join [CHR 0x0A] data_lines)
           in if payload = [] then sse_events loads [] lines
              else case loads payload of
                     Some (PDict event) \<Rightarrow> event # sse_events loads [] lines
                   | _ \<Rightarrow> sse_events loads [] lines)
      else if hd line = CHR '':'' then sse_events loads data_lines lines
      else if prefix ''data:'' line then sse_events loads (data_lines @ [dropWhile py_space (drop 5 line)]) lines
      else sse_events loads data_lines lines)"

text \<open>An event as a server sends it: comments, one data line, and an empty line.\<close>

definition sse_frame :: "(pdict \<Rightarrow> string) \<Rightarrow> string list \<times> pdict \<Rightarrow> string list" where
  "sse_frame dumps = (\<lambda>(comments, event).
     map (\<lambda>c. CHR '':'' # c) comments @ [''data: '' @ dumps event, []])"

definition json_line_ok :: "(string \<Rightarrow> pyval option) \<Rightarrow> (pdict \<Rightarrow> string) \<Rightarrow> pdict \<Rightarrow> bool" where
  "json_line_ok loads dumps event \<longleftrightarrow>
     loads (dumps event) = Some (PDict event) \<and> dumps event \<noteq> [] \<and> py_strip (dumps event) = dumps event"

lemma strip_head: "py_strip s = s \<Longrightarrow> dropWhile py_space s = s"
proof -
  assume s: "py_strip s = s"
  show ?thesis
  proof (rule ccontr)
    assume "dropWhile py_space s \<noteq> s"
    then have "length (dropWhile py_space s) < length s"
      by (metis append_self_conv2 length_dropWhile_le nat_less_le takeWhile_dropWhile_id append_eq_append_conv)
    moreover have "length (py_strip s) \<le> length (dropWhile py_space s)"
      unfolding py_strip_def by (metis length_dropWhile_le length_rev)
    ultimately show False using s by simp
  qed
qed

lemma sse_comments: "sse_events loads ds (map (\<lambda>c. CHR '':'' # c) cs @ lines) = sse_events loads ds lines"
  by (induction cs) simp_all

lemma sse_one:
  assumes "json_line_ok loads dumps event"
  shows "sse_events loads [] (sse_frame dumps (cs, event) @ lines) = event # sse_events loads [] lines"
proof -
  have d: "dumps event \<noteq> []" "py_strip (dumps event) = dumps event" "loads (dumps event) = Some (PDict event)"
    using assms by (simp_all add: json_line_ok_def)
  have "dropWhile py_space (CHR '' '' # dumps event) = dumps event"
    using strip_head [OF d(2)] by (simp add: py_space_def)
  then show ?thesis using d by (simp add: sse_frame_def sse_comments)
qed

text \<open>
  The event stream is read as it was sent: every event that a server sends as one data line,
  with any comments in between, is delivered once and in order.
\<close>

theorem event_stream_roundtrip:
  assumes "list_all (\<lambda>x. json_line_ok loads dumps (snd x)) frames"
  shows "sse_events loads [] (concat (map (sse_frame dumps) frames)) = map snd frames"
  using assms by (induction frames) (auto simp: sse_one)

theorem event_stream_roundtrip_witness:
  "sse_events (\<lambda>s. if s = ''{}'' then Some (PDict []) else None) []
     (concat (map (sse_frame (\<lambda>_. ''{}'')) [([''ping''], []), ([], [])])) = [[], []]"
proof -
  have "json_line_ok (\<lambda>s. if s = ''{}'' then Some (PDict []) else None) (\<lambda>_. ''{}'') []" by code_simp
  then have "list_all (\<lambda>x. json_line_ok (\<lambda>s. if s = ''{}'' then Some (PDict []) else None) (\<lambda>_. ''{}'') (snd x))
      [([''ping''], []), ([], [])]" by simp
  from event_stream_roundtrip [OF this] show ?thesis by simp
qed

end
