(* ===== verification/Rpc_Requests.thy ===== *)
theory Rpc_Requests
  imports Request_Context
begin

text \<open>
  The request payloads of the JSON-RPC extension methods (\<open>jsonrpc/methods.py\<close>): their
  validation, the replies to interrupts, and the conversion of sessions and messages.  A validator
  returns the field and the message of the first \<open>_PromptAsyncValidationError\<close>.
\<close>

type_synonym field_error = "string \<times> string"

text \<open>\<open>a; b\<close> of two validators.\<close>

definition check_then :: "field_error + unit \<Rightarrow> field_error + unit \<Rightarrow> field_error + unit" where
  "check_then a b = (case a of Inl e \<Rightarrow> Inl e | Inr _ \<Rightarrow> b)"

definition check_that :: "bool \<Rightarrow> string \<Rightarrow> string \<Rightarrow> field_error + unit" where
  "check_that ok field message = (if ok then Inr () else Inl (field, message))"

fun check_all :: "(field_error + unit) list \<Rightarrow> field_error + unit" where
  "check_all [] = Inr ()"
| "check_all (c # cs) = check_then c (check_all cs)"

definition quoted :: "string \<Rightarrow> string" where
  "quoted s = [CHR 0x27] @ s @ [CHR 0x27]"

section \<open>Replies to interrupts\<close>

definition normalize_permission_reply :: "pyval \<Rightarrow> string + string" where
  "normalize_permission_reply value =
     (case value of
        PStr s \<Rightarrow>
          (let normalized = py_lower (py_strip s)
           in if normalized \<in> {''once'', ''always'', ''reject''} then Inr normalized
              else Inl ''reply must be one of: once, always, reject'')
      | _ \<Rightarrow> Inl ''reply must be a string'')"

fun parse_answer_group :: "nat \<Rightarrow> pyval list \<Rightarrow> string + string list" where
  "parse_answer_group index [] = Inr []"
| "parse_answer_group index (option # options) =
     (case option of
        PStr s \<Rightarrow> ebind (parse_answer_group index options) (\<lambda>rest.
                    Inr (if py_strip s \<noteq> [] then py_strip s # rest else rest))
      | _ \<Rightarrow> Inl (''answers['' @ nat_str index @ ''] must contain only strings''))"

fun parse_answer_groups :: "nat \<Rightarrow> pyval list \<Rightarrow> string + string list list" where
  "parse_answer_groups index [] = Inr []"
| "parse_answer_groups index (item # items) =
     (case item of
        PList options \<Rightarrow> ebind (parse_answer_group index options) (\<lambda>group.
                           ebind (parse_answer_groups (Suc index) items) (\<lambda>groups. Inr (group # groups)))
      | _ \<Rightarrow> Inl (''answers['' @ nat_str index @ ''] must be an array of strings''))"

definition parse_question_answers :: "pyval \<Rightarrow> string + string list list" where
  "parse_question_answers value =
     (case value of PList items \<Rightarrow> parse_answer_groups 0 items | _ \<Rightarrow> Inl ''answers must be an array'')"

section \<open>Request validation\<close>

definition prompt_async_request_allowed_fields :: "string list" where
  "prompt_async_request_allowed_fields =
     [''parts'', ''messageID'', ''model'', ''agent'', ''noReply'', ''tools'', ''format'', ''system'', ''variant'']"

definition command_request_allowed_fields :: "string list" where
  "command_request_allowed_fields =
     [''command'', ''arguments'', ''messageID'', ''agent'', ''model'', ''variant'', ''parts'']"

definition shell_request_allowed_fields :: "string list" where
  "shell_request_allowed_fields = [''agent'', ''command'', ''model'']"

definition unknown_fields :: "string list \<Rightarrow> pdict \<Rightarrow> string list" where
  "unknown_fields allowed value = sort (remdups (filter (\<lambda>k. k \<notin> set allowed) (map fst value)))"

definition validate_allowed_request_fields :: "string list \<Rightarrow> pdict \<Rightarrow> field_error + unit" where
  "validate_allowed_request_fields allowed value =
     check_that (unknown_fields allowed value = []) ''request''
       (''Unsupported fields: '' @ py_join '', '' (map (\<lambda>k. ''request.'' @ k) (unknown_fields allowed value)))"

definition validate_optional_message_id :: "pyval \<Rightarrow> string \<Rightarrow> field_error + unit" where
  "validate_optional_message_id value field =
     check_that (value = PNone \<or> (case value of PStr s \<Rightarrow> prefix ''msg'' s | _ \<Rightarrow> False)) field
       (field @ '' must be a string starting with '' @ quoted ''msg'')"

definition validate_optional_string_fields :: "pdict \<Rightarrow> string list \<Rightarrow> field_error + unit" where
  "validate_optional_string_fields value names =
     check_all (map (\<lambda>k. check_that (pget value k = PNone \<or> is_str (pget value k)) (''request.'' @ k)
       (''request.'' @ k @ '' must be a string'')) names)"

fun nonblank :: "pyval \<Rightarrow> bool" where
  "nonblank (PStr s) = (py_strip s \<noteq> [])"
| "nonblank _ = False"

definition validate_required_non_empty_string_fields :: "pdict \<Rightarrow> string list \<Rightarrow> field_error + unit" where
  "validate_required_non_empty_string_fields value names =
     check_all (map (\<lambda>k. check_that (nonblank (pget value k)) (''request.'' @ k)
       (''request.'' @ k @ '' must be a non-empty string'')) names)"

fun indexed_checks :: "(pyval \<Rightarrow> string \<Rightarrow> field_error + unit) \<Rightarrow> string \<Rightarrow> nat \<Rightarrow> pyval list \<Rightarrow> field_error + unit" where
  "indexed_checks v field index [] = Inr ()"
| "indexed_checks v field index (p # ps) =
     check_then (v p (field @ ''['' @ nat_str index @ '']'')) (indexed_checks v field (Suc index) ps)"

definition validate_parts_array ::
  "(pyval \<Rightarrow> string \<Rightarrow> field_error + unit) \<Rightarrow> pyval \<Rightarrow> string \<Rightarrow> field_error + unit" where
  "validate_parts_array v value field =
     (case value of PList ps \<Rightarrow> indexed_checks v field 0 ps | _ \<Rightarrow> Inl (field, field @ '' must be an array''))"

definition validate_model_ref :: "pyval \<Rightarrow> string \<Rightarrow> field_error + unit" where
  "validate_model_ref value field =
     (case value of
        PDict d \<Rightarrow> check_then
          (check_that (nonblank (pget d ''providerID'')) (field @ ''.providerID'')
             (field @ ''.providerID must be a non-empty string''))
          (check_that (nonblank (pget d ''modelID'')) (field @ ''.modelID'')
             (field @ ''.modelID must be a non-empty string''))
      | _ \<Rightarrow> Inl (field, field @ '' must be an object''))"

definition validate_optional_model :: "pdict \<Rightarrow> string \<Rightarrow> field_error + unit" where
  "validate_optional_model d field =
     (if pget d ''model'' = PNone then Inr () else validate_model_ref (pget d ''model'') field)"

text \<open>A boolean is an \<open>int\<close>.\<close>

fun non_negative_int :: "pyval \<Rightarrow> bool" where
  "non_negative_int (PInt n) = (0 \<le> n)"
| "non_negative_int (PBool _) = True"
| "non_negative_int _ = False"

definition validate_prompt_async_format :: "pyval \<Rightarrow> string \<Rightarrow> field_error + unit" where
  "validate_prompt_async_format value field =
     (case value of
        PDict d \<Rightarrow>
          (if pget d ''type'' = PStr ''text'' then Inr ()
           else if pget d ''type'' = PStr ''json_schema'' then
             check_then
               (check_that (is_dict (pget d ''schema'')) (field @ ''.schema'')
                  (field @ ''.schema must be an object for type=json_schema''))
               (check_that (pget d ''retryCount'' = PNone \<or> non_negative_int (pget d ''retryCount''))
                  (field @ ''.retryCount'') (field @ ''.retryCount must be an integer >= 0''))
           else Inl (field @ ''.type'', field @ ''.type must be '' @ quoted ''text'' @ '' or '' @ quoted ''json_schema''))
      | _ \<Rightarrow> Inl (field, field @ '' must be an object''))"

definition string_fields :: "pdict \<Rightarrow> string \<Rightarrow> string list \<Rightarrow> field_error + unit" where
  "string_fields d field names =
     check_all (map (\<lambda>k. check_that (is_str (pget d k)) (field @ ''.'' @ k)
       (field @ ''.'' @ k @ '' must be a string'')) names)"

definition validate_prompt_async_part :: "pyval \<Rightarrow> string \<Rightarrow> field_error + unit" where
  "validate_prompt_async_part value field =
     (case value of
        PDict d \<Rightarrow>
          (case pget d ''type'' of
             PStr part_type \<Rightarrow>
               (if part_type = ''text'' then string_fields d field [''text'']
                else if part_type = ''file'' then string_fields d field [''mime'', ''url'']
                else if part_type = ''agent'' then string_fields d field [''name'']
                else if part_type = ''subtask'' then
                  check_then (string_fields d field [''prompt'', ''description'', ''agent''])
                 (check_then (validate_optional_model d (field @ ''.model''))
                    (check_that (pget d ''command'' = PNone \<or> is_str (pget d ''command'')) (field @ ''.command'')
                       (field @ ''.command must be a string'')))
                else Inl (field @ ''.type'', field @ ''.type must be one of: text, file, agent, subtask''))
           | _ \<Rightarrow> Inl (field @ ''.type'', field @ ''.type must be a string''))
      | _ \<Rightarrow> Inl (field, field @ '' must be an object''))"

fun is_bool :: "pyval \<Rightarrow> bool" where
  "is_bool (PBool _) = True"
| "is_bool _ = False"

definition validate_tools :: "pyval \<Rightarrow> field_error + unit" where
  "validate_tools tools =
     (case tools of
        PNone \<Rightarrow> Inr ()
      | PDict d \<Rightarrow> check_all (map (\<lambda>(k, v). check_that (is_bool v) (''request.tools.'' @ k)
          (''request.tools.'' @ k @ '' must be a boolean'')) d)
      | _ \<Rightarrow> Inl (''request.tools'', ''request.tools must be an object''))"

definition validate_prompt_async_request_payload :: "pdict \<Rightarrow> field_error + unit" where
  "validate_prompt_async_request_payload value = check_all
     [validate_allowed_request_fields prompt_async_request_allowed_fields value,
      validate_optional_message_id (pget value ''messageID'') ''request.messageID'',
      validate_optional_model value ''request.model'',
      validate_optional_string_fields value [''agent'', ''system'', ''variant''],
      check_that (pget value ''noReply'' = PNone \<or> is_bool (pget value ''noReply'')) ''request.noReply''
        ''request.noReply must be a boolean'',
      validate_tools (pget value ''tools''),
      (if pget value ''format'' = PNone then Inr ()
       else validate_prompt_async_format (pget value ''format'') ''request.format''),
      validate_parts_array validate_prompt_async_part (pget value ''parts'') ''request.parts'']"

definition validate_command_part :: "pyval \<Rightarrow> string \<Rightarrow> field_error + unit" where
  "validate_command_part value field =
     (case value of
        PDict d \<Rightarrow> check_then
          (check_that (pget d ''type'' = PStr ''file'') (field @ ''.type'') (field @ ''.type must be '' @ quoted ''file''))
          (check_all (map (\<lambda>k. check_that (nonblank (pget d k)) (field @ ''.'' @ k)
             (field @ ''.'' @ k @ '' must be a non-empty string'')) [''mime'', ''url'']))
      | _ \<Rightarrow> Inl (field, field @ '' must be an object''))"

definition validate_command_request_payload :: "pdict \<Rightarrow> field_error + unit" where
  "validate_command_request_payload value = check_all
     [validate_allowed_request_fields command_request_allowed_fields value,
      validate_required_non_empty_string_fields value [''command'', ''arguments''],
      validate_optional_message_id (pget value ''messageID'') ''request.messageID'',
      validate_optional_model value ''request.model'',
      validate_optional_string_fields value [''agent'', ''variant''],
      (if pget value ''parts'' = PNone then Inr ()
       else validate_parts_array validate_command_part (pget value ''parts'') ''request.parts'')]"

definition validate_shell_request_payload :: "pdict \<Rightarrow> field_error + unit" where
  "validate_shell_request_payload value = check_all
     [validate_allowed_request_fields shell_request_allowed_fields value,
      validate_required_non_empty_string_fields value [''agent'', ''command''],
      validate_optional_model value ''request.model'']"

section \<open>Sessions and messages\<close>

definition session_context_id :: "string \<Rightarrow> string" where
  "session_context_id session_id = ''ctx:opencode-session:'' @ session_id"

definition extract_session_title :: "pdict \<Rightarrow> string" where
  "extract_session_title session = (case pget session ''title'' of PStr t \<Rightarrow> py_strip t | _ \<Rightarrow> [])"

definition extract_session_id :: "pdict \<Rightarrow> string option" where
  "extract_session_id session = (case pget session ''id'' of PStr s \<Rightarrow> nonempty (py_strip s) | _ \<Rightarrow> None)"

record session_task =
  sk_id :: string
  sk_context_id :: string
  sk_title :: string

definition as_a2a_session_task :: "pyval \<Rightarrow> session_task option" where
  "as_a2a_session_task session =
     (case session of
        PDict d \<Rightarrow> (case extract_session_id d of
          None \<Rightarrow> None
        | Some sid \<Rightarrow> Some \<lparr>sk_id = sid, sk_context_id = session_context_id sid, sk_title = extract_session_title d\<rparr>)
      | _ \<Rightarrow> None)"

record session_message =
  sg_message_id :: string
  sg_from_user :: bool
  sg_text :: string
  sg_context_id :: string
  sg_session_id :: string

definition as_a2a_message :: "string \<Rightarrow> pyval \<Rightarrow> session_message option" where
  "as_a2a_message session_id item =
     (case item of
        PDict d \<Rightarrow>
          (let info = (case pget d ''info'' of PDict i \<Rightarrow> i | _ \<Rightarrow> d)
           in case pget info ''id'' of
                PStr raw_id \<Rightarrow>
                  (if py_strip raw_id = [] then None
                   else Some \<lparr>sg_message_id = py_strip raw_id,
                     sg_from_user = (case pget info ''role'' of
                       PStr r \<Rightarrow> py_lower (py_strip r) = ''user'' | _ \<Rightarrow> False),
                     sg_text = extract_text_from_parts (pget d ''parts''),
                     sg_context_id = session_context_id session_id, sg_session_id = session_id\<rparr>)
              | _ \<Rightarrow> None)
      | _ \<Rightarrow> None)"

end
