(* ===== verification/Method_Contracts.thy ===== *)
theory Method_Contracts
  imports Py_Values
begin

text \<open>
  The contracts of the JSON-RPC extension methods and the methods a deployment enables
  (\<open>contracts/extensions.py\<close>).  A contract lists the parameters of its method as paths.
\<close>

section \<open>Contracts\<close>

record method_contract =
  mc_method :: string
  mc_required :: "string list"
  mc_optional :: "string list"
  mc_unsupported :: "string list"
  mc_result :: "string list"
  mc_items_type :: "string option"
  mc_notification_status :: "int option"
  mc_paginated :: bool

text \<open>Every contract of the source answers a notification with the status 204.\<close>

definition contract ::
  "string \<Rightarrow> string list \<Rightarrow> string list \<Rightarrow> string list \<Rightarrow> string option \<Rightarrow> method_contract" where
  "contract m required optional result items_type =
     \<lparr>mc_method = m, mc_required = required, mc_optional = optional, mc_unsupported = [], mc_result = result,
      mc_items_type = items_type, mc_notification_status = Some 204, mc_paginated = False\<rparr>"

definition directory_field :: string where "directory_field = ''metadata.opencode.directory''"

definition workspace_field :: string where "workspace_field = ''metadata.opencode.workspace.id''"

definition session_query_contracts :: "(string, method_contract) dict" where
  "session_query_contracts =
     [(''status'', contract ''opencode.sessions.status'' []
         [''directory'', workspace_field]
         [''items''] (Some ''SessionStatusSummary[]'')),
      (''list_sessions'', (contract ''opencode.sessions.list'' []
         [''limit'', ''directory'', workspace_field, ''roots'', ''start'', ''search'', ''query.limit'', ''query.directory'', ''query.roots'', ''query.start'', ''query.search'']
         [''items''] (Some ''Task[]''))\<lparr>mc_unsupported := [''cursor'', ''page'', ''size''], mc_paginated := True\<rparr>),
      (''get_session_messages'', (contract ''opencode.sessions.messages.list'' [''session_id'']
         [''limit'', ''before'', workspace_field, ''query.limit'', ''query.before'']
         [''items'', ''next_cursor''] (Some ''Message[]''))\<lparr>mc_unsupported := [''cursor'', ''page'', ''size''], mc_paginated := True\<rparr>),
      (''get_session'', contract ''opencode.sessions.get'' [''session_id'']
         [''directory'', directory_field, workspace_field]
         [''item''] (Some ''Task'')),
      (''get_session_children'', contract ''opencode.sessions.children'' [''session_id'']
         [''directory'', directory_field, workspace_field]
         [''items''] (Some ''Task[]'')),
      (''get_session_todo'', contract ''opencode.sessions.todo'' [''session_id'']
         [''directory'', directory_field, workspace_field]
         [''items''] (Some ''Todo[]'')),
      (''get_session_diff'', contract ''opencode.sessions.diff'' [''session_id'']
         [''message_id'', ''directory'', directory_field, workspace_field]
         [''items''] (Some ''FileDiff[]'')),
      (''get_session_message'', contract ''opencode.sessions.messages.get'' [''session_id'', ''message_id'']
         [''directory'', directory_field, workspace_field]
         [''item''] (Some ''Message''))]"

definition session_command_contracts :: "(string, method_contract) dict" where
  "session_command_contracts =
     [(''prompt_async'', contract ''opencode.sessions.prompt_async'' [''session_id'', ''request.parts'']
         [''request.messageID'', ''request.model'', ''request.agent'', ''request.noReply'', ''request.tools'', ''request.format'', ''request.system'', ''request.variant'', directory_field, workspace_field]
         [''ok'', ''session_id''] None),
      (''command'', contract ''opencode.sessions.command'' [''session_id'', ''request.command'', ''request.arguments'']
         [''request.messageID'', ''request.agent'', ''request.model'', ''request.variant'', ''request.parts'', directory_field, workspace_field]
         [''item''] None),
      (''fork'', contract ''opencode.sessions.fork'' [''session_id'']
         [''request.messageID'', ''directory'', directory_field, workspace_field]
         [''item''] (Some ''SessionSummary'')),
      (''share'', contract ''opencode.sessions.share'' [''session_id'']
         [''directory'', directory_field, workspace_field]
         [''item''] (Some ''SessionSummary'')),
      (''unshare'', contract ''opencode.sessions.unshare'' [''session_id'']
         [''directory'', directory_field, workspace_field]
         [''item''] (Some ''SessionSummary'')),
      (''summarize'', contract ''opencode.sessions.summarize'' [''session_id'']
         [''request.providerID'', ''request.modelID'', ''request.auto'', ''directory'', directory_field, workspace_field]
         [''ok'', ''session_id''] None),
      (''revert'', contract ''opencode.sessions.revert'' [''session_id'', ''request.messageID'']
         [''request.partID'', ''directory'', directory_field, workspace_field]
         [''item''] (Some ''SessionSummary'')),
      (''unrevert'', contract ''opencode.sessions.unrevert'' [''session_id'']
         [''directory'', directory_field, workspace_field]
         [''item''] (Some ''SessionSummary'')),
      (''shell'', contract ''opencode.sessions.shell'' [''session_id'', ''request.agent'', ''request.command'']
         [''request.model'', directory_field, workspace_field]
         [''item''] None)]"

text \<open>The contracts of the session methods, in the order of the source.\<close>

definition session_method_contracts :: "(string, method_contract) dict" where
  "session_method_contracts = session_query_contracts @ session_command_contracts"

definition interrupt_callback_method_contracts :: "(string, method_contract) dict" where
  "interrupt_callback_method_contracts =
     [(''reply_permission'', contract ''a2a.interrupt.permission.reply'' [''request_id'', ''reply'']
         [''message'', ''metadata'']
         [] None),
      (''reply_question'', contract ''a2a.interrupt.question.reply'' [''request_id'', ''answers'']
         [''metadata'']
         [] None),
      (''reject_question'', contract ''a2a.interrupt.question.reject'' [''request_id'']
         [''metadata'']
         [] None)]"

definition provider_discovery_method_contracts :: "(string, method_contract) dict" where
  "provider_discovery_method_contracts =
     [(''list_providers'', contract ''opencode.providers.list'' []
         []
         [''items'', ''default_by_provider'', ''connected''] (Some ''ProviderSummary[]'')),
      (''list_models'', contract ''opencode.models.list'' []
         [''provider_id'']
         [''items'', ''default_by_provider'', ''connected''] (Some ''ModelSummary[]''))]"

definition interrupt_recovery_method_contracts :: "(string, method_contract) dict" where
  "interrupt_recovery_method_contracts =
     [(''list_permissions'', contract ''opencode.permissions.list'' []
         []
         [''items''] (Some ''InterruptRequest[]'')),
      (''list_questions'', contract ''opencode.questions.list'' []
         []
         [''items''] (Some ''InterruptRequest[]''))]"

definition workspace_control_method_contracts :: "(string, method_contract) dict" where
  "workspace_control_method_contracts =
     [(''list_projects'', contract ''opencode.projects.list'' []
         []
         [''items''] (Some ''Project[]'')),
      (''get_current_project'', contract ''opencode.projects.current'' []
         []
         [''item''] (Some ''Project'')),
      (''list_workspaces'', contract ''opencode.workspaces.list'' []
         []
         [''items''] (Some ''Workspace[]'')),
      (''create_workspace'', contract ''opencode.workspaces.create'' [''request.type'']
         [''request.id'', ''request.branch'', ''request.extra'']
         [''item''] (Some ''Workspace'')),
      (''remove_workspace'', contract ''opencode.workspaces.remove'' [''workspace_id'']
         []
         [''item''] (Some ''Workspace|null'')),
      (''list_worktrees'', contract ''opencode.worktrees.list'' []
         []
         [''items''] (Some ''string[]'')),
      (''create_worktree'', contract ''opencode.worktrees.create'' []
         [''request.name'', ''request.startCommand'']
         [''item''] (Some ''Worktree'')),
      (''remove_worktree'', contract ''opencode.worktrees.remove'' [''request.directory'']
         []
         [''ok''] (Some ''boolean'')),
      (''reset_worktree'', contract ''opencode.worktrees.reset'' [''request.directory'']
         []
         [''ok''] (Some ''boolean''))]"

section \<open>Methods\<close>

definition methods_of :: "(string, method_contract) dict \<Rightarrow> (string, string) dict" where
  "methods_of contracts = map (\<lambda>(key, c). (key, mc_method c)) contracts"

definition pick :: "string list \<Rightarrow> (string, string) dict \<Rightarrow> (string, string) dict" where
  "pick keys methods = map (\<lambda>key. (key, the (dict_get methods key))) keys"

definition session_methods :: "(string, string) dict" where
  "session_methods = methods_of session_method_contracts"

definition session_control_methods :: "(string, string) dict" where
  "session_control_methods = pick [''prompt_async'', ''command'', ''shell''] session_methods"

definition interrupt_callback_methods :: "(string, string) dict" where
  "interrupt_callback_methods = methods_of interrupt_callback_method_contracts"

definition provider_discovery_methods :: "(string, string) dict" where
  "provider_discovery_methods = methods_of provider_discovery_method_contracts"

definition interrupt_recovery_methods :: "(string, string) dict" where
  "interrupt_recovery_methods = methods_of interrupt_recovery_method_contracts"

definition workspace_methods :: "(string, string) dict" where
  "workspace_methods = methods_of workspace_control_method_contracts"

definition workspace_discovery_methods :: "(string, string) dict" where
  "workspace_discovery_methods =
     pick [''list_projects'', ''get_current_project'', ''list_workspaces'', ''list_worktrees''] workspace_methods"

definition workspace_mutation_methods :: "(string, string) dict" where
  "workspace_mutation_methods =
     pick [''create_workspace'', ''remove_workspace'', ''create_worktree'', ''remove_worktree'', ''reset_worktree'']
       workspace_methods"

section \<open>Capability snapshots\<close>

text \<open>A method that a deployment can switch off; the toggle is the name of its setting.\<close>

record conditional_method =
  cm_enabled :: bool
  cm_toggle :: string

type_synonym capability_snapshot = "(string, conditional_method) dict"

definition build_capability_snapshot :: "bool \<Rightarrow> bool \<Rightarrow> capability_snapshot" where
  "build_capability_snapshot session_shell workspace_mutations =
     (the (dict_get session_control_methods ''shell''),
        \<lparr>cm_enabled = session_shell, cm_toggle = ''A2A_ENABLE_SESSION_SHELL''\<rparr>)
     # map (\<lambda>(key, m). (m, \<lparr>cm_enabled = workspace_mutations, cm_toggle = ''A2A_ENABLE_WORKSPACE_MUTATIONS''\<rparr>))
         workspace_mutation_methods"

definition is_method_enabled :: "capability_snapshot \<Rightarrow> string \<Rightarrow> bool" where
  "is_method_enabled snapshot m = (case dict_get snapshot m of None \<Rightarrow> True | Some c \<Rightarrow> cm_enabled c)"

definition session_management_methods :: "capability_snapshot \<Rightarrow> (string, string) dict" where
  "session_management_methods snapshot =
     (if \<not> is_method_enabled snapshot (the (dict_get session_methods ''shell'')) then dict_pop ''shell'' session_methods
      else session_methods)"

definition workspace_control_methods :: "capability_snapshot \<Rightarrow> (string, string) dict" where
  "workspace_control_methods snapshot =
     workspace_discovery_methods @ filter (\<lambda>(key, m). is_method_enabled snapshot m) workspace_mutation_methods"

definition extension_jsonrpc_methods :: "capability_snapshot \<Rightarrow> string list" where
  "extension_jsonrpc_methods snapshot =
     map snd (filter (\<lambda>(key, m). key \<noteq> ''shell'') session_methods) @ map snd provider_discovery_methods
     @ map snd (workspace_control_methods snapshot) @ map snd interrupt_recovery_methods
     @ map snd interrupt_callback_methods
     @ (let shell = the (dict_get session_control_methods ''shell'')
        in if is_method_enabled snapshot shell then [shell] else [])"

text \<open>\<open>core\<close> are the methods of the SDK's application.\<close>

definition supported_jsonrpc_methods :: "string list \<Rightarrow> capability_snapshot \<Rightarrow> string list" where
  "supported_jsonrpc_methods core snapshot = core @ extension_jsonrpc_methods snapshot"

definition conditionally_available_methods :: "capability_snapshot \<Rightarrow> (string, string \<times> string) dict" where
  "conditionally_available_methods snapshot =
     List.map_filter (\<lambda>(m, c). if cm_enabled c then None else Some (m, (''disabled_by_configuration'', cm_toggle c))) snapshot"

definition control_method_flags :: "capability_snapshot \<Rightarrow> (string, string) dict" where
  "control_method_flags snapshot =
     map (\<lambda>(m, c). (m, cm_toggle c)) (filter (\<lambda>(m, c). m \<in> snd ` set session_control_methods) snapshot)"

definition workspace_mutation_method_flags :: "capability_snapshot \<Rightarrow> (string, string) dict" where
  "workspace_mutation_method_flags snapshot =
     map (\<lambda>(m, c). (m, cm_toggle c)) (filter (\<lambda>(m, c). m \<in> snd ` set workspace_mutation_methods) snapshot)"

end
