(* ===== verification/Rpc_Common.thy ===== *)
theory Rpc_Common
  imports Upstream_Client Rpc_Requests Session_Manager Method_Contracts
begin

text \<open>
  What the JSON-RPC extension handlers share: the errors (\<open>jsonrpc/error_responses.py\<close>), the
  checks of fields and metadata, the routing to a workspace or a directory, and the translation of
  exceptions (\<open>jsonrpc/handlers/common.py\<close>), including the guard of a session claim.
\<close>

section \<open>Responses and errors\<close>

record rpc_error =
  er_code :: int
  er_message :: string
  er_data :: "pdict option"

text \<open>
  \<open>HandlerCancelled\<close> and \<open>HandlerFailed\<close>: the handler ends with \<open>CancelledError\<close> or with a failed
  assertion, and builds no response.
\<close>

datatype 'r rpc_response = RpcError rpc_error | RpcResult 'r | NoContent | HandlerCancelled | HandlerFailed

definition rpc_error_of :: "int \<Rightarrow> string \<Rightarrow> pdict \<Rightarrow> rpc_error" where
  "rpc_error_of code message info = \<lparr>er_code = code, er_message = message, er_data = Some info\<rparr>"

definition invalid_params_error :: "string \<Rightarrow> pdict \<Rightarrow> rpc_error" where
  "invalid_params_error message info = rpc_error_of (- 32602) message info"

definition invalid_field :: "string \<Rightarrow> string \<Rightarrow> rpc_error" where
  "invalid_field message field =
     invalid_params_error message [(''type'', PStr ''INVALID_FIELD''), (''field'', PStr field)]"

definition missing_field :: "string \<Rightarrow> string \<Rightarrow> rpc_error" where
  "missing_field message field =
     invalid_params_error message [(''type'', PStr ''MISSING_FIELD''), (''field'', PStr field)]"

definition internal_error :: "string \<Rightarrow> rpc_error" where
  "internal_error message = \<lparr>er_code = - 32603, er_message = message, er_data = None\<rparr>"

definition method_not_supported_error :: "string \<Rightarrow> string list \<Rightarrow> string \<Rightarrow> rpc_error" where
  "method_not_supported_error meth supported_methods protocol_version =
     rpc_error_of (- 32601) (''Unsupported method: '' @ meth)
       [(''type'', PStr ''METHOD_NOT_SUPPORTED''), (''method'', PStr meth),
        (''supported_methods'', PList (map PStr supported_methods)), (''protocol_version'', PStr protocol_version)]"

definition version_not_supported_error :: "string \<Rightarrow> string list \<Rightarrow> string \<Rightarrow> rpc_error" where
  "version_not_supported_error requested supported default_version =
     rpc_error_of (- 32001) (''Unsupported A2A version: '' @ requested)
       [(''type'', PStr ''VERSION_NOT_SUPPORTED''), (''requested_version'', PStr requested),
        (''supported_protocol_versions'', PList (map PStr supported)),
        (''default_protocol_version'', PStr default_version)]"

definition session_forbidden_error :: "int \<Rightarrow> string \<Rightarrow> rpc_error" where
  "session_forbidden_error code session_id = rpc_error_of code ''Session forbidden''
     [(''type'', PStr ''SESSION_FORBIDDEN''), (''session_id'', PStr session_id)]"

definition authorization_forbidden_error :: "int \<Rightarrow> string \<Rightarrow> string \<Rightarrow> string option \<Rightarrow> rpc_error" where
  "authorization_forbidden_error code meth capability credential_id =
     rpc_error_of code ''Authorization forbidden''
       ([(''type'', PStr ''AUTHORIZATION_FORBIDDEN''), (''method'', PStr meth), (''capability'', PStr capability)]
        @ (case credential_id of None \<Rightarrow> [] | Some c \<Rightarrow> [(''credential_id'', PStr c)]))"

definition session_not_found_error :: "int \<Rightarrow> string \<Rightarrow> rpc_error" where
  "session_not_found_error code session_id = rpc_error_of code ''Session not found''
     [(''type'', PStr ''SESSION_NOT_FOUND''), (''session_id'', PStr session_id)]"

definition interrupt_not_found_error :: "int \<Rightarrow> string \<Rightarrow> bool \<Rightarrow> rpc_error" where
  "interrupt_not_found_error code request_id expired =
     rpc_error_of code (if expired then ''Interrupt request expired'' else ''Interrupt request not found'')
       [(''type'', PStr (if expired then ''INTERRUPT_REQUEST_EXPIRED'' else ''INTERRUPT_REQUEST_NOT_FOUND'')),
        (''request_id'', PStr request_id)]"

definition interrupt_type_mismatch_error :: "int \<Rightarrow> string \<Rightarrow> string \<Rightarrow> string option \<Rightarrow> rpc_error" where
  "interrupt_type_mismatch_error code request_id expected actual =
     rpc_error_of code ''Interrupt callback type mismatch''
       [(''type'', PStr ''INTERRUPT_TYPE_MISMATCH''), (''request_id'', PStr request_id),
        (''expected_interrupt_type'', PStr expected),
        (''actual_interrupt_type'', case actual of None \<Rightarrow> PNone | Some a \<Rightarrow> PStr a)]"

text \<open>The optional fields that say which call failed.\<close>

record failed_call =
  fc_method :: "string option"
  fc_session_id :: "string option"
  fc_request_id :: "string option"
  fc_detail :: "string option"

definition call_fields :: "failed_call \<Rightarrow> pdict" where
  "call_fields fc =
     (case fc_method fc of None \<Rightarrow> [] | Some m \<Rightarrow> [(''method'', PStr m)])
     @ (case fc_session_id fc of None \<Rightarrow> [] | Some s \<Rightarrow> [(''session_id'', PStr s)])
     @ (case fc_request_id fc of None \<Rightarrow> [] | Some r \<Rightarrow> [(''request_id'', PStr r)])"

definition detail_field :: "failed_call \<Rightarrow> pdict" where
  "detail_field fc = (case fc_detail fc of None \<Rightarrow> [] | Some d \<Rightarrow> [(''detail'', PStr d)])"

definition upstream_http_error :: "int \<Rightarrow> int \<Rightarrow> failed_call \<Rightarrow> rpc_error" where
  "upstream_http_error code upstream_status fc = rpc_error_of code ''Upstream OpenCode error''
     ([(''type'', PStr ''UPSTREAM_HTTP_ERROR''), (''upstream_status'', PInt upstream_status)]
      @ call_fields fc @ detail_field fc)"

definition upstream_unreachable_error :: "int \<Rightarrow> failed_call \<Rightarrow> rpc_error" where
  "upstream_unreachable_error code fc = rpc_error_of code ''Upstream OpenCode unreachable''
     ([(''type'', PStr ''UPSTREAM_UNREACHABLE'')] @ call_fields fc @ detail_field fc)"

definition upstream_payload_error :: "int \<Rightarrow> string \<Rightarrow> failed_call \<Rightarrow> rpc_error" where
  "upstream_payload_error code detail fc = rpc_error_of code ''Upstream OpenCode payload mismatch''
     ([(''type'', PStr ''UPSTREAM_PAYLOAD_ERROR''), (''detail'', PStr detail)] @ call_fields fc)"

definition build_success_response :: "bool \<Rightarrow> 'r \<Rightarrow> 'r rpc_response" where
  "build_success_response has_id result = (if has_id then RpcResult result else NoContent)"

section \<open>Exceptions of an upstream call\<close>

datatype call_exception =
    StatusException int
  | HttpException          \<comment> \<open>any other \<open>httpx.HTTPError\<close>\<close>
  | BudgetException limit_error
  | ContractException string
  | ValueException string
  | PermissionException
  | OtherException string
  | Cancellation           \<comment> \<open>\<open>CancelledError\<close>: no handler catches it\<close>

text \<open>
  \<open>build_upstream_exception_response\<close>: \<open>payload_code\<close>, \<open>not_found\<close> and \<open>forbidden\<close> are the
  optional arguments.
\<close>

definition build_upstream_exception_response ::
  "call_exception \<Rightarrow> int \<Rightarrow> int \<Rightarrow> int option \<Rightarrow> rpc_error option \<Rightarrow> rpc_error option \<Rightarrow> failed_call \<Rightarrow> rpc_error" where
  "build_upstream_exception_response exc http_code unreachable_code payload_code not_found forbidden fc =
     (case exc of
        StatusException status \<Rightarrow>
          (case not_found of
             Some e \<Rightarrow> if status = 404 then e else upstream_http_error http_code status fc
           | None \<Rightarrow> upstream_http_error http_code status fc)
      | HttpException \<Rightarrow> upstream_unreachable_error unreachable_code fc
      | BudgetException e \<Rightarrow> upstream_unreachable_error unreachable_code (fc\<lparr>fc_detail := Some (limit_error_text e)\<rparr>)
      | ContractException m \<Rightarrow>
          (case payload_code of Some c \<Rightarrow> upstream_payload_error c m fc | None \<Rightarrow> internal_error m)
      | ValueException m \<Rightarrow>
          (case payload_code of Some c \<Rightarrow> upstream_payload_error c m fc | None \<Rightarrow> internal_error m)
      | PermissionException \<Rightarrow> (case forbidden of Some e \<Rightarrow> e | None \<Rightarrow> internal_error [])
      | OtherException m \<Rightarrow> internal_error m
      | Cancellation \<Rightarrow> internal_error [])"

text \<open>The error response of \<open>invoke_upstream_or_error\<close>.\<close>

definition upstream_failure ::
  "call_exception \<Rightarrow> rpc_error option \<Rightarrow> failed_call \<Rightarrow> 'r rpc_response" where
  "upstream_failure exc not_found fc =
     (if exc = Cancellation then HandlerCancelled
      else RpcError (build_upstream_exception_response exc (- 32003) (- 32002) None not_found None fc))"

section \<open>Fields and metadata\<close>

definition reject_fields_as :: "string \<Rightarrow> string \<Rightarrow> string list \<Rightarrow> pdict \<Rightarrow> rpc_error option" where
  "reject_fields_as field_prefix message_prefix allowed payload =
     (let unknown = map (\<lambda>k. field_prefix @ k) (unknown_fields allowed payload)
      in if unknown = [] then None
         else Some (invalid_params_error (message_prefix @ '': '' @ py_join '', '' unknown)
           [(''type'', PStr ''INVALID_FIELD''), (''fields'', PList (map PStr unknown))]))"

abbreviation reject_unknown_fields :: "string list \<Rightarrow> pdict \<Rightarrow> rpc_error option" where
  "reject_unknown_fields \<equiv> reject_fields_as [] ''Unsupported fields''"

definition parse_metadata_objects :: "pdict \<Rightarrow> bool \<Rightarrow> bool \<Rightarrow> rpc_error + pdict option" where
  "parse_metadata_objects params strict_top_level validate_shared =
     (case pget params ''metadata'' of
        PNone \<Rightarrow> Inr None
      | PDict metadata \<Rightarrow>
          (let unknown = map (\<lambda>k. ''metadata.'' @ k) (unknown_fields [''opencode'', ''shared''] metadata);
               opencode = pget metadata ''opencode''; shared = pget metadata ''shared''
           in if strict_top_level \<and> unknown \<noteq> [] then
                Inl (invalid_params_error (''Unsupported metadata fields: '' @ py_join '', '' unknown)
                  [(''type'', PStr ''INVALID_FIELD''), (''fields'', PList (map PStr unknown))])
              else if opencode \<noteq> PNone \<and> \<not> is_dict opencode then
                Inl (invalid_field ''metadata.opencode must be an object'' ''metadata.opencode'')
              else if validate_shared \<and> shared \<noteq> PNone \<and> \<not> is_dict shared then
                Inl (invalid_field ''metadata.shared must be an object'' ''metadata.shared'')
              else Inr (case opencode of PDict d \<Rightarrow> Some d | _ \<Rightarrow> None))
      | _ \<Rightarrow> Inl (invalid_field ''metadata must be an object'' ''metadata''))"

definition extract_directory_from_metadata :: "pdict \<Rightarrow> rpc_error + string option" where
  "extract_directory_from_metadata params =
     ebind (parse_metadata_objects params True True) (\<lambda>opencode.
       case (case opencode of None \<Rightarrow> PNone | Some d \<Rightarrow>
               extract_namespaced_value (PDict [(''opencode'', PDict d)]) ''opencode'' [''directory'']) of
         PNone \<Rightarrow> Inr None
       | PStr s \<Rightarrow> Inr (Some s)
       | _ \<Rightarrow> Inl (invalid_field ''metadata.opencode.directory must be a string'' ''metadata.opencode.directory''))"

definition extract_workspace_id_from_metadata :: "pdict \<Rightarrow> rpc_error + string option" where
  "extract_workspace_id_from_metadata params =
     ebind (parse_metadata_objects params False False) (\<lambda>opencode.
       case opencode of
         None \<Rightarrow> Inr None
       | Some d \<Rightarrow>
           (case extract_namespaced_value (PDict [(''opencode'', PDict d)]) ''opencode'' [''workspace''] of
              PNone \<Rightarrow> Inr None
            | PDict workspace \<Rightarrow>
                (case extract_namespaced_value (PDict [(''workspace'', PDict workspace)]) ''workspace'' [''id''] of
                   PNone \<Rightarrow> Inr None
                 | PStr s \<Rightarrow> Inr (nonempty (py_strip s))
                 | _ \<Rightarrow> Inl (invalid_field ''metadata.opencode.workspace.id must be a string''
                          ''metadata.opencode.workspace.id''))
            | _ \<Rightarrow> Inl (invalid_field ''metadata.opencode.workspace must be an object''
                     ''metadata.opencode.workspace'')))"

text \<open>The directory resolver of the application; its error is a \<open>ValueError\<close>.\<close>

type_synonym directory_resolver = "string option \<Rightarrow> string + string option"

definition resolve_metadata_directory :: "directory_resolver \<Rightarrow> pdict \<Rightarrow> rpc_error + string option" where
  "resolve_metadata_directory rs params =
     ebind (extract_directory_from_metadata params) (\<lambda>directory.
       case rs directory of
         Inr d \<Rightarrow> Inr d
       | Inl e \<Rightarrow> Inl (invalid_field e ''metadata.opencode.directory''))"

definition resolve_routing_context ::
  "directory_resolver \<Rightarrow> pdict \<Rightarrow> string option \<Rightarrow> rpc_error + string option \<times> string option" where
  "resolve_routing_context rs params requested_directory =
     ebind (extract_workspace_id_from_metadata params) (\<lambda>workspace_id.
       case (workspace_id, requested_directory) of
         (Some w, _) \<Rightarrow> Inr (None, Some w)
       | (None, Some r) \<Rightarrow> (case rs (Some r) of Inr d \<Rightarrow> Inr (d, None) | Inl e \<Rightarrow> Inl (invalid_field e ''directory''))
       | (None, None) \<Rightarrow> ebind (resolve_metadata_directory rs params) (\<lambda>d. Inr (d, None)))"

section \<open>The handler's context and its request\<close>

text \<open>
  What a handler uses of \<open>ExtensionHandlerContext\<close> and of the request's state.  \<open>cx_send\<close> is what
  sending one HTTP request leads to: an exception of the budget or of \<open>httpx\<close>, or a response.
\<close>

record handler_context =
  cx_up :: upstream
  cx_send :: "http_call \<Rightarrow> call_exception + up_response"
  cx_directory_resolver :: directory_resolver
  cx_supported_methods :: "string list"
  cx_session_status :: string
  cx_list_sessions :: string
  cx_get_session :: string
  cx_get_session_children :: string
  cx_get_session_todo :: string
  cx_get_session_diff :: string
  cx_get_session_message :: string
  cx_get_session_messages :: string
  cx_prompt_async :: string
  cx_command :: string
  cx_fork_session :: string
  cx_share_session :: string
  cx_unshare_session :: string
  cx_summarize_session :: string
  cx_revert_session :: string
  cx_unrevert_session :: string
  cx_list_providers :: string
  cx_list_models :: string
  cx_list_projects :: string
  cx_get_current_project :: string
  cx_list_workspaces :: string
  cx_list_worktrees :: string
  cx_list_permissions :: string
  cx_list_questions :: string
  cx_reply_permission :: string
  cx_reply_question :: string
  cx_reject_question :: string
  cx_shell :: "string option"
  cx_create_workspace :: "string option"
  cx_remove_workspace :: "string option"
  cx_create_worktree :: "string option"
  cx_remove_worktree :: "string option"
  cx_reset_worktree :: "string option"

text \<open>
  The context that the application builds from its table of methods; a missing required method is a
  \<open>KeyError\<close>.
\<close>

definition required_method_keys :: "string list" where
  "required_method_keys =
     [''status'', ''list_sessions'', ''get_session'', ''get_session_children'', ''get_session_todo'',
      ''get_session_diff'', ''get_session_message'', ''get_session_messages'', ''prompt_async'', ''command'',
      ''fork'', ''share'', ''unshare'', ''summarize'', ''revert'', ''unrevert'', ''list_providers'',
      ''list_models'', ''list_projects'', ''get_current_project'', ''list_workspaces'', ''list_worktrees'',
      ''list_permissions'', ''list_questions'', ''reply_permission'', ''reply_question'', ''reject_question'']"

definition application_context ::
  "upstream \<Rightarrow> (http_call \<Rightarrow> call_exception + up_response) \<Rightarrow> directory_resolver \<Rightarrow> string list
     \<Rightarrow> (string, string) dict \<Rightarrow> handler_context option" where
  "application_context us send rs supported methods =
     (if list_ex (\<lambda>k. dict_get methods k = None) required_method_keys then None
      else Some \<lparr>cx_up = us, cx_send = send, cx_directory_resolver = rs, cx_supported_methods = supported,
       cx_session_status = the (dict_get methods ''status''),
       cx_list_sessions = the (dict_get methods ''list_sessions''),
       cx_get_session = the (dict_get methods ''get_session''),
       cx_get_session_children = the (dict_get methods ''get_session_children''),
       cx_get_session_todo = the (dict_get methods ''get_session_todo''),
       cx_get_session_diff = the (dict_get methods ''get_session_diff''),
       cx_get_session_message = the (dict_get methods ''get_session_message''),
       cx_get_session_messages = the (dict_get methods ''get_session_messages''),
       cx_prompt_async = the (dict_get methods ''prompt_async''),
       cx_command = the (dict_get methods ''command''), cx_fork_session = the (dict_get methods ''fork''),
       cx_share_session = the (dict_get methods ''share''),
       cx_unshare_session = the (dict_get methods ''unshare''),
       cx_summarize_session = the (dict_get methods ''summarize''),
       cx_revert_session = the (dict_get methods ''revert''),
       cx_unrevert_session = the (dict_get methods ''unrevert''),
       cx_list_providers = the (dict_get methods ''list_providers''),
       cx_list_models = the (dict_get methods ''list_models''),
       cx_list_projects = the (dict_get methods ''list_projects''),
       cx_get_current_project = the (dict_get methods ''get_current_project''),
       cx_list_workspaces = the (dict_get methods ''list_workspaces''),
       cx_list_worktrees = the (dict_get methods ''list_worktrees''),
       cx_list_permissions = the (dict_get methods ''list_permissions''),
       cx_list_questions = the (dict_get methods ''list_questions''),
       cx_reply_permission = the (dict_get methods ''reply_permission''),
       cx_reply_question = the (dict_get methods ''reply_question''),
       cx_reject_question = the (dict_get methods ''reject_question''), cx_shell = dict_get methods ''shell'',
       cx_create_workspace = dict_get methods ''create_workspace'',
       cx_remove_workspace = dict_get methods ''remove_workspace'',
       cx_create_worktree = dict_get methods ''create_worktree'',
       cx_remove_worktree = dict_get methods ''remove_worktree'',
       cx_reset_worktree = dict_get methods ''reset_worktree''\<rparr>)"

text \<open>The table of methods of a deployment (\<open>create_app\<close>).\<close>

definition jsonrpc_methods :: "capability_snapshot \<Rightarrow> (string, string) dict" where
  "jsonrpc_methods snapshot =
     session_management_methods snapshot @ provider_discovery_methods @ workspace_control_methods snapshot
     @ interrupt_recovery_methods @ interrupt_callback_methods"

definition deployed_context ::
  "string list \<Rightarrow> capability_snapshot \<Rightarrow> upstream \<Rightarrow> (http_call \<Rightarrow> call_exception + up_response)
     \<Rightarrow> directory_resolver \<Rightarrow> handler_context option" where
  "deployed_context core snapshot us send rs =
     application_context us send rs (supported_jsonrpc_methods core snapshot) (jsonrpc_methods snapshot)"

record rpc_request =
  rq_method :: string
  rq_has_id :: bool
  rq_identity :: "string option"
  rq_credential_id :: "string option"
  rq_capabilities :: "string list option"  \<comment> \<open>of the authenticated principal\<close>

definition request_has_capability :: "rpc_request \<Rightarrow> string \<Rightarrow> bool" where
  "request_has_capability rq capability =
     (case rq_capabilities rq of None \<Rightarrow> False | Some cs \<Rightarrow> capability \<in> set cs)"

fun up_exception :: "up_error \<Rightarrow> call_exception" where
  "up_exception (UpStatus status) = StatusException status"
| "up_exception (UpContract m) = ContractException m"
| "up_exception (UpRuntime m) = OtherException m"
| "up_exception UpAttribute = OtherException []"

definition call_upstream ::
  "handler_context \<Rightarrow> up_op \<Rightarrow> string option \<Rightarrow> string option \<Rightarrow> call_exception + pyval" where
  "call_upstream cx op directory workspace_id =
     ebind (cx_send cx (up_call (cx_up cx) op directory workspace_id)) (\<lambda>r.
       case up_result (cx_up cx) op r of Inl e \<Rightarrow> Inl (up_exception e) | Inr v \<Rightarrow> Inr v)"

section \<open>The claim of a session\<close>

text \<open>
  \<open>async with claim_session(...) as session_claim: body; await session_claim.finalize()\<close> over the
  session manager's state: \<open>body\<close> is how the body ends before \<open>finalize\<close> and the HTTP calls it makes.
  The clock readings of claiming are \<open>clk 0\<close> to \<open>clk 2\<close>, those of finalizing \<open>clk 3\<close> to \<open>clk 5\<close>.
\<close>

definition claim_enter ::
  "'s session_repo \<Rightarrow> (nat \<Rightarrow> time) \<Rightarrow> string option \<Rightarrow> string \<Rightarrow> 's \<Rightarrow> (call_exception + bool) \<times> 's" where
  "claim_enter R clk identity session_id s =
     (if \<not> truthy_str identity \<or> session_id = [] then (Inr False, s)
      else case claim_preferred_session R (clk 0) (clk 1) (clk 2) (the identity) session_id s of
             (Inr pending, s') \<Rightarrow> (Inr pending, s')
           | (Inl _, s') \<Rightarrow> (Inl PermissionException, s'))"

text \<open>\<open>__aexit__\<close> of a claim that is not finalized.\<close>

definition claim_release :: "'s session_repo \<Rightarrow> bool \<Rightarrow> string option \<Rightarrow> string \<Rightarrow> 's \<Rightarrow> 's" where
  "claim_release R pending identity session_id s =
     (if pending then release_preferred_session_claim R (the identity) session_id s else s)"

definition with_claim ::
  "'s session_repo \<Rightarrow> (nat \<Rightarrow> time) \<Rightarrow> string option \<Rightarrow> string \<Rightarrow> (call_exception + 'a) \<times> 'c list \<Rightarrow> 's
     \<Rightarrow> ((call_exception + 'a) \<times> 'c list) \<times> 's" where
  "with_claim R clk identity session_id body s =
     (case claim_enter R clk identity session_id s of
        (Inl e, s1) \<Rightarrow> ((Inl e, []), s1)
      | (Inr pending, s1) \<Rightarrow>
          (case fst body of
             Inl e \<Rightarrow> ((Inl e, snd body), claim_release R pending identity session_id s1)
           | Inr x \<Rightarrow>
               (if \<not> pending then ((Inr x, snd body), s1)
                else case finalize_session_claim R (clk 3) (clk 4) (clk 5) (the identity) session_id s1 of
                       (Inr _, s2) \<Rightarrow> ((Inr x, snd body), s2)
                     | (Inl _, s2) \<Rightarrow>
                         ((Inl PermissionException, snd body), claim_release R pending identity session_id s2))))"

section \<open>A sample deployment\<close>

text \<open>The context of a deployment that enables every method, whose upstream client is configured with
nothing and which accepts directories as they are.\<close>

definition sample_upstream :: upstream where
  "sample_upstream = \<lparr>us_directory = None, us_agent = None, us_system = None, us_variant = None, us_str = (\<lambda>_. [])\<rparr>"

definition sample_context :: "(http_call \<Rightarrow> call_exception + up_response) \<Rightarrow> handler_context" where
  "sample_context send = \<lparr>cx_up = sample_upstream, cx_send = send, cx_directory_resolver = (\<lambda>d. Inr d),
     cx_supported_methods =
       [''message/send'', ''opencode.sessions.status'', ''opencode.sessions.list'',
        ''opencode.sessions.messages.list'', ''opencode.sessions.get'', ''opencode.sessions.children'',
        ''opencode.sessions.todo'', ''opencode.sessions.diff'', ''opencode.sessions.messages.get'',
        ''opencode.sessions.prompt_async'', ''opencode.sessions.command'', ''opencode.sessions.fork'',
        ''opencode.sessions.share'', ''opencode.sessions.unshare'', ''opencode.sessions.summarize'',
        ''opencode.sessions.revert'', ''opencode.sessions.unrevert'', ''opencode.providers.list'',
        ''opencode.models.list'', ''opencode.projects.list'', ''opencode.projects.current'',
        ''opencode.workspaces.list'', ''opencode.worktrees.list'', ''opencode.workspaces.create'',
        ''opencode.workspaces.remove'', ''opencode.worktrees.create'', ''opencode.worktrees.remove'',
        ''opencode.worktrees.reset'', ''opencode.permissions.list'', ''opencode.questions.list'',
        ''a2a.interrupt.permission.reply'', ''a2a.interrupt.question.reply'',
        ''a2a.interrupt.question.reject'', ''opencode.sessions.shell''],
     cx_session_status = ''opencode.sessions.status'', cx_list_sessions = ''opencode.sessions.list'',
     cx_get_session = ''opencode.sessions.get'',
     cx_get_session_children = ''opencode.sessions.children'',
     cx_get_session_todo = ''opencode.sessions.todo'', cx_get_session_diff = ''opencode.sessions.diff'',
     cx_get_session_message = ''opencode.sessions.messages.get'',
     cx_get_session_messages = ''opencode.sessions.messages.list'',
     cx_prompt_async = ''opencode.sessions.prompt_async'', cx_command = ''opencode.sessions.command'',
     cx_fork_session = ''opencode.sessions.fork'', cx_share_session = ''opencode.sessions.share'',
     cx_unshare_session = ''opencode.sessions.unshare'',
     cx_summarize_session = ''opencode.sessions.summarize'',
     cx_revert_session = ''opencode.sessions.revert'',
     cx_unrevert_session = ''opencode.sessions.unrevert'',
     cx_list_providers = ''opencode.providers.list'', cx_list_models = ''opencode.models.list'',
     cx_list_projects = ''opencode.projects.list'',
     cx_get_current_project = ''opencode.projects.current'',
     cx_list_workspaces = ''opencode.workspaces.list'', cx_list_worktrees = ''opencode.worktrees.list'',
     cx_list_permissions = ''opencode.permissions.list'',
     cx_list_questions = ''opencode.questions.list'',
     cx_reply_permission = ''a2a.interrupt.permission.reply'',
     cx_reply_question = ''a2a.interrupt.question.reply'',
     cx_reject_question = ''a2a.interrupt.question.reject'',
     cx_shell = Some ''opencode.sessions.shell'',
     cx_create_workspace = Some ''opencode.workspaces.create'',
     cx_remove_workspace = Some ''opencode.workspaces.remove'',
     cx_create_worktree = Some ''opencode.worktrees.create'',
     cx_remove_worktree = Some ''opencode.worktrees.remove'',
     cx_reset_worktree = Some ''opencode.worktrees.reset''\<rparr>"

definition answers :: "int \<Rightarrow> pyval option \<Rightarrow> http_call \<Rightarrow> call_exception + up_response" where
  "answers status json = (\<lambda>_. Inr \<lparr>up_status = status, up_json = json, up_text = [], up_content_type = [],
     up_next_cursor = None\<rparr>)"

definition sample_request :: "string \<Rightarrow> string \<Rightarrow> string list \<Rightarrow> rpc_request" where
  "sample_request m identity capabilities = \<lparr>rq_method = m, rq_has_id = True, rq_identity = Some identity,
     rq_credential_id = None, rq_capabilities = Some capabilities\<rparr>"

end
