(* ===== verification/Claim_Guard.thy ===== *)
theory Claim_Guard
  imports Rpc_Common
begin

text \<open>
  What the guard of a session claim (\<open>SessionClaimGuard\<close> in \<open>jsonrpc/handlers/common.py\<close>) gives to the
  handlers that use it, over any session repository.
\<close>

definition free_for :: "string option \<Rightarrow> string \<Rightarrow> bool" where
  "free_for holder identity \<longleftrightarrow> \<not> truthy_str holder \<or> holder = Some identity"

lemma with_claim_nobody: "with_claim R clk None sid body s = (body, s)"
  by (cases body) (simp add: with_claim_def claim_enter_def claim_release_def split: sum.split)

lemma with_claim_success:
  "with_claim R clk identity sid body s = ((Inr x, calls), s') \<Longrightarrow> body = (Inr x, calls)"
  by (cases body) (auto simp: with_claim_def split: sum.splits prod.splits if_splits)

lemma with_claim_enter:
  assumes "with_claim R clk (Some i) sid body s = ((r, calls), s')" "calls \<noteq> []" "i \<noteq> []" "sid \<noteq> []"
  obtains pending s1 where "claim_preferred_session R (clk 0) (clk 1) (clk 2) i sid s = (Inr pending, s1)"
    "calls = snd body"
  using assms by (cases body)
    (auto simp: with_claim_def claim_enter_def split: sum.splits prod.splits if_splits)

context session_repository
begin

lemma claim_granted:
  assumes "inv t1 s" "t1 \<le> t2" "claim_preferred_session R t1 t2 t3 i sid s = (Inr pending, s')"
  shows "free_for (owner_at t1 s sid) i \<and> free_for (claim_at t2 s sid) i"
  using claim_result [OF assms(1,2), of t3 i sid] assms(3) by (auto simp: free_for_def split: if_splits)

text \<open>The body of a guard calls OpenCode only when the session is free for the caller.\<close>

lemma with_claim_calls:
  assumes "inv (clk 0) s" "clk 0 \<le> clk 1" "i \<noteq> []" "sid \<noteq> []"
    and "with_claim R clk (Some i) sid body s = ((r, calls), s')" "calls \<noteq> []"
  shows "calls = snd body \<and> free_for (owner_at (clk 0) s sid) i \<and> free_for (claim_at (clk 1) s sid) i"
  using with_claim_enter [OF assms(5,6,3,4)] claim_granted [OF assms(1,2)] by metis

lemma inv_enter:
  assumes "inv (clk 0) s" "clk 0 \<le> clk 1" "clk 1 \<le> clk 2"
  shows "inv (clk 2) (snd (claim_enter R clk identity sid s))"
  using inv_claim [OF assms, of "the identity" sid] inv_later [OF assms(1)] assms(2,3)
  by (auto simp: claim_enter_def split: sum.split prod.split)

lemma inv_with_claim:
  assumes "inv (clk 0) s" "mono clk"
  shows "inv (clk 5) (snd (with_claim R clk identity sid body s))"
proof -
  have le: "clk 0 \<le> clk 1" "clk 1 \<le> clk 2" "clk 2 \<le> clk 3" "clk 3 \<le> clk 4" "clk 4 \<le> clk 5" "clk 2 \<le> clk 5"
    using assms(2) by (simp_all add: monoD)
  obtain r s1 where e: "claim_enter R clk identity sid s = (r, s1)" by (cases "claim_enter R clk identity sid s")
  have i1: "inv (clk 2) s1" using inv_enter [OF assms(1) le(1,2), of identity sid] e by simp
  have i3: "inv (clk 3) s1" and i5: "inv (clk 5) s1" using inv_later [OF i1] le by blast+
  have "inv (clk 5) (snd (finalize_session_claim R (clk 3) (clk 4) (clk 5) (the identity) sid s1))"
    by (rule inv_finalize [OF i3 le(4,5)])
  then show ?thesis
    using e i5 by (auto simp: with_claim_def claim_release_def release_preferred_session_claim_def
        inv_clear_claim split: sum.split prod.split)
qed

end

end
