(* ===== verification/Session_Control.thy ===== *)
theory Session_Control
  imports Claim_Guard
begin

text \<open>
  The session-control methods of the JSON-RPC interface (\<open>jsonrpc/handlers/session_control.py\<close>):
  they send a prompt, a command or a shell command to an OpenCode session that the caller names.
\<close>

section \<open>The handler\<close>

datatype control_result = Submitted string | CommandItem session_message

text \<open>Everything before the claim: the call to make, its directory and its workspace.\<close>

definition control_session :: "pdict \<Rightarrow> rpc_error + string" where
  "control_session params =
     (case pget params ''session_id'' of
        PStr raw \<Rightarrow>
          (if py_strip raw = [] then Inl (missing_field ''Missing required params.session_id'' ''session_id'')
           else Inr (py_strip raw))
      | _ \<Rightarrow> Inl (missing_field ''Missing required params.session_id'' ''session_id''))"

definition control_request :: "pdict \<Rightarrow> rpc_error + pdict" where
  "control_request params =
     (case pget params ''request'' of
        PNone \<Rightarrow> Inl (missing_field ''Missing required params.request'' ''request'')
      | PDict raw_request \<Rightarrow> Inr raw_request
      | _ \<Rightarrow> Inl (invalid_field ''params.request must be an object'' ''request''))"

definition control_op :: "handler_context \<Rightarrow> rpc_request \<Rightarrow> string \<Rightarrow> pdict \<Rightarrow> field_error + up_op" where
  "control_op cx rq session_id raw_request =
     (if rq_method rq = cx_prompt_async cx then
        ebind (validate_prompt_async_request_payload raw_request) (\<lambda>_. Inr (PromptAsync session_id raw_request))
      else if rq_method rq = cx_command cx then
        ebind (validate_command_request_payload raw_request) (\<lambda>_. Inr (SessionCommand session_id raw_request))
      else if Some (rq_method rq) = cx_shell cx then
        ebind (validate_shell_request_payload raw_request) (\<lambda>_. Inr (SessionShell session_id raw_request))
      else Inl (''method'', ''Unsupported method: '' @ rq_method rq))"

definition control_checks ::
  "handler_context \<Rightarrow> rpc_request \<Rightarrow> pdict \<Rightarrow> rpc_error + string \<times> up_op \<times> string option \<times> string option" where
  "control_checks cx rq params =
     (case reject_unknown_fields [''session_id'', ''request'', ''metadata''] params of
        Some e \<Rightarrow> Inl e
      | None \<Rightarrow>
          ebind (control_session params) (\<lambda>session_id.
          ebind (control_request params) (\<lambda>raw_request.
            if Some (rq_method rq) = cx_shell cx \<and> \<not> request_has_capability rq ''session_shell'' then
              Inl (authorization_forbidden_error (- 32007) (rq_method rq) ''session_shell'' (rq_credential_id rq))
            else case control_op cx rq session_id raw_request of
              Inl (field, message) \<Rightarrow> Inl (invalid_field message field)
            | Inr op \<Rightarrow>
                ebind (resolve_routing_context (cx_directory_resolver cx) params None) (\<lambda>(directory, workspace_id).
                Inr (session_id, op, directory, workspace_id)))))"

text \<open>The body of the claim.\<close>

definition control_body ::
  "handler_context \<Rightarrow> string \<Rightarrow> up_op \<Rightarrow> string option \<Rightarrow> string option \<Rightarrow> call_exception + control_result" where
  "control_body cx session_id op directory workspace_id =
     ebind (call_upstream cx op directory workspace_id) (\<lambda>raw_result.
       case op of
         PromptAsync _ _ \<Rightarrow> Inr (Submitted session_id)
       | _ \<Rightarrow> (case as_a2a_message session_id raw_result of
                 Some item \<Rightarrow> Inr (CommandItem item)
               | None \<Rightarrow> Inl (ContractException (''OpenCode ''
                   @ hc_operation (up_call (cx_up cx) op directory workspace_id)
                   @ '' response could not be mapped to A2A Message''))))"

definition control_answer ::
  "rpc_request \<Rightarrow> string \<Rightarrow> call_exception + control_result \<Rightarrow> control_result rpc_response" where
  "control_answer rq session_id r =
     (case r of
        Inr result \<Rightarrow> build_success_response (rq_has_id rq) result
      | Inl exc \<Rightarrow>
          (if exc = Cancellation then HandlerCancelled
           else RpcError (build_upstream_exception_response exc (- 32003) (- 32002) (Some (- 32005))
             (Some (session_not_found_error (- 32001) session_id))
             (Some (session_forbidden_error (- 32006) session_id))
             \<lparr>fc_method = Some (rq_method rq), fc_session_id = Some session_id, fc_request_id = None,
              fc_detail = None\<rparr>)))"

definition handle_session_control ::
  "handler_context \<Rightarrow> 's session_repo \<Rightarrow> (nat \<Rightarrow> time) \<Rightarrow> rpc_request \<Rightarrow> pdict \<Rightarrow> 's
     \<Rightarrow> (control_result rpc_response \<times> http_call list) \<times> 's" where
  "handle_session_control cx R clk rq params s =
     (case control_checks cx rq params of
        Inl e \<Rightarrow> ((RpcError e, []), s)
      | Inr (session_id, op, directory, workspace_id) \<Rightarrow>
          (let ((r, calls), s') = with_claim R clk (rq_identity rq) session_id
                 (control_body cx session_id op directory workspace_id,
                  [up_call (cx_up cx) op directory workspace_id]) s
           in ((control_answer rq session_id r, calls), s')))"

section \<open>Authorisation\<close>

text \<open>
  What must hold for the HTTP calls of a request: there is at most one, it is the call of the
  validated payload for the named session, a shell command needs its capability, and nobody else
  owns or has claimed the session (\<open>owner\<close> and \<open>claim\<close> are the tables when the request came in).
\<close>

definition control_authorised ::
  "handler_context \<Rightarrow> rpc_request \<Rightarrow> pdict \<Rightarrow> string \<Rightarrow> (string \<Rightarrow> string option) \<Rightarrow> (string \<Rightarrow> string option)
     \<Rightarrow> http_call list \<Rightarrow> bool" where
  "control_authorised cx rq params identity owner claim calls \<longleftrightarrow> calls = [] \<or>
     (case (control_session params, control_request params) of
        (Inr session_id, Inr raw_request) \<Rightarrow>
          (case (control_op cx rq session_id raw_request,
                 resolve_routing_context (cx_directory_resolver cx) params None) of
             (Inr op, Inr (directory, workspace_id)) \<Rightarrow>
               calls = [up_call (cx_up cx) op directory workspace_id] \<and>
               (Some (rq_method rq) = cx_shell cx \<longrightarrow> request_has_capability rq ''session_shell'') \<and>
               free_for (owner session_id) identity \<and> free_for (claim session_id) identity
           | _ \<Rightarrow> False)
      | _ \<Rightarrow> False)"

lemma checks_cases:
  assumes "control_checks cx rq params = Inr (session_id, op, directory, workspace_id)"
  obtains raw_request where "control_session params = Inr session_id" "control_request params = Inr raw_request"
    "control_op cx rq session_id raw_request = Inr op"
    "resolve_routing_context (cx_directory_resolver cx) params None = Inr (directory, workspace_id)"
    "Some (rq_method rq) = cx_shell cx \<longrightarrow> request_has_capability rq ''session_shell''"
proof -
  obtain raw where a: "control_session params = Inr session_id" "control_request params = Inr raw"
    "\<not> (Some (rq_method rq) = cx_shell cx \<and> \<not> request_has_capability rq ''session_shell'')"
    "(case control_op cx rq session_id raw of
        Inl (field, message) \<Rightarrow> Inl (invalid_field message field)
      | Inr op \<Rightarrow> ebind (resolve_routing_context (cx_directory_resolver cx) params None)
          (\<lambda>(directory, workspace_id). Inr (session_id, op, directory, workspace_id))) =
     Inr (session_id, op, directory, workspace_id)"
    using assms
    by (auto simp: control_checks_def ebind_Inr_iff split: option.splits if_splits sum.split_asm prod.split_asm)
  then show thesis
    by (cases "control_op cx rq session_id raw") (auto simp: ebind_Inr_iff intro: that split: prod.split_asm)
qed

lemma session_nonblank: "control_session params = Inr session_id \<Longrightarrow> session_id \<noteq> []"
  by (auto simp: control_session_def split: pyval.splits if_splits)

context session_repository
begin

lemma calls_authorised:
  assumes "clk 0 \<le> clk 1" "inv (clk 0) s" "rq_identity rq = Some i" "i \<noteq> []"
    and h: "handle_session_control cx R clk rq params s = ((res, calls), s')"
  shows "control_authorised cx rq params i (owner_at (clk 0) s) (claim_at (clk 1) s) calls"
proof (cases "control_checks cx rq params")
  case (Inr c)
  obtain sid op d w where c: "c = (sid, op, d, w)" by (cases c)
  obtain raw where ck: "control_session params = Inr sid" "control_request params = Inr raw"
    "control_op cx rq sid raw = Inr op" "resolve_routing_context (cx_directory_resolver cx) params None = Inr (d, w)"
    "Some (rq_method rq) = cx_shell cx \<longrightarrow> request_has_capability rq ''session_shell''"
    using checks_cases [OF Inr [unfolded c]] .
  have sid: "sid \<noteq> []" using ck(1) by (rule session_nonblank)
  obtain r where w: "with_claim R clk (Some i) sid
      (control_body cx sid op d w, [up_call (cx_up cx) op d w]) s = ((r, calls), s')"
    using h assms(3) by (auto simp: handle_session_control_def Inr c Let_def split: prod.splits)
  show ?thesis
  proof (cases "calls = []")
    case False
    from with_claim_calls [OF assms(2,1,4) sid w False] show ?thesis
      using ck by (simp add: control_authorised_def)
  qed (simp add: control_authorised_def)
next
  case (Inl e)
  then show ?thesis using h by (simp add: handle_session_control_def control_authorised_def)
qed

end

text \<open>
  A prompt, a command or a shell command reaches OpenCode only for a validated payload, with the
  capability that a shell command needs, and only when no other identity owns the named session or
  holds a pending claim on it, for both repositories.
\<close>

theorem session_commands_are_authorised:
  assumes "clk 0 \<le> clk 1" "rq_identity rq = Some i" "i \<noteq> []"
  shows "(mem_inv (clk 0) m \<longrightarrow> control_authorised cx rq params i (mem_owner_at (clk 0) m) (mem_claim_at (clk 1) m)
      (snd (fst (handle_session_control cx memory_repo clk rq params m)))) \<and>
    (db_inv (clk 0) s \<longrightarrow> control_authorised cx rq params i (dict_get (db_owners s)) (db_claim_at (clk 1) s)
      (snd (fst (handle_session_control cx database_repo clk rq params s))))"
  using mem.calls_authorised [OF assms(1) _ assms(2,3)] db.calls_authorised [OF assms(1) _ assms(2,3)]
  unfolding db_owner_at_def by (metis prod.collapse)

section \<open>The claim after a request\<close>

lemma db_claim_free:
  assumes "db_inv t1 s" "dict_get (db_owners s) sid = None" "db_claim_at t2 s sid = None"
  shows "claim_preferred_session database_repo t1 t2 t3 i sid s =
    (Inr True, db_set_pending_claim t3 sid i (db_prune_expired_pending_claims t2 s))"
  using assms by (simp add: claim_preferred_session_def db_get_owner_def db_get_claim_eq)

lemma db_claim_set_owner: "db_claim_at t (db_set_owner u sid j s) x = db_claim_at t s x"
  by (simp add: db_claim_at_def db_set_owner_def split: option.split)


section \<open>Concrete requests\<close>

text \<open>A request of the identity \<open>bob\<close> for the session \<open>sid\<close>.\<close>

definition prompt_params :: "string \<Rightarrow> pdict" where
  "prompt_params sid = [(''session_id'', PStr sid), (''request'', PDict [(''parts'', PList [])])]"

definition prompt_context :: handler_context where
  "prompt_context = sample_context (answers 204 None)"

abbreviation bob_prompts :: rpc_request where
  "bob_prompts \<equiv> sample_request ''opencode.sessions.prompt_async'' ''bob'' []"

definition owned_by_alice :: db_sessions where
  "owned_by_alice = db_set_owner 0 ''s1'' ''alice'' (db_new 30)"

lemma db_inv_owned: "db_inv t owned_by_alice"
  unfolding owned_by_alice_def by (rule db_inv_later [OF db_inv_ops(3) [OF db_inv_new]])

theorem session_commands_are_authorised_witness:
  "control_authorised prompt_context bob_prompts (prompt_params ''s1'') ''bob''
     (dict_get (db_owners owned_by_alice)) (db_claim_at 0 owned_by_alice)
     (snd (fst (handle_session_control prompt_context database_repo (\<lambda>_. 0) bob_prompts
        (prompt_params ''s1'') owned_by_alice)))"
proof -
  have a: "(0::rat) \<le> 0" "rq_identity bob_prompts = Some ''bob''" "''bob'' \<noteq> []"
    by (simp_all add: sample_request_def)
  from session_commands_are_authorised [of "\<lambda>_. 0", OF a, where s = owned_by_alice] show ?thesis
    using db_inv_owned by blast
qed

lemma prompt_checks:
  "control_checks prompt_context bob_prompts (prompt_params ''s1'') =
    Inr (''s1'', PromptAsync ''s1'' [(''parts'', PList [])], None, None)"
  by code_simp


text \<open>
  The owner check compares whole session ids, but the id is pasted into the path of the upstream
  request without escaping.  The owner check refuses \<open>bob\<close> the session \<open>s1\<close> of \<open>alice\<close>, and it
  admits him with the id \<open>s1/prompt_async?x=\<close>, for which the client calls the path of \<open>s1\<close>.
\<close>

theorem crafted_session_id_reaches_foreign_session:
  "fst (handle_session_control prompt_context database_repo (\<lambda>_. 0) bob_prompts
     (prompt_params ''s1'') owned_by_alice) = (RpcError (session_forbidden_error (- 32006) ''s1''), []) \<and>
   fst (fst (handle_session_control prompt_context database_repo (\<lambda>_. 0) bob_prompts
     (prompt_params ''s1/prompt_async?x='') owned_by_alice)) = RpcResult (Submitted ''s1/prompt_async?x='') \<and>
   map hc_path (snd (fst (handle_session_control prompt_context database_repo (\<lambda>_. 0) bob_prompts
     (prompt_params ''s1/prompt_async?x='') owned_by_alice))) = [''/session/s1/prompt_async?x=/prompt_async'']"
  unfolding owned_by_alice_def by code_simp

end
