(* ===== verification/Upstream_Payloads.thy ===== *)
theory Upstream_Payloads
  imports Upstream_Client Rpc_Requests
begin

text \<open>
  The normalization of OpenCode's payloads before they are returned to a client (the second half of
  \<open>jsonrpc/methods.py\<close>).  Errors are the texts of the \<open>ValueError\<close>s.
\<close>

section \<open>Shapes\<close>

definition extract_raw_items :: "pyval \<Rightarrow> string \<Rightarrow> string + pyval list" where
  "extract_raw_items raw_result kind =
     (case raw_result of
        PList xs \<Rightarrow> Inr xs
      | _ \<Rightarrow> Inl (''OpenCode '' @ kind @ '' payload must be an array; got '' @ type_name raw_result))"

definition extract_raw_object :: "pyval \<Rightarrow> string \<Rightarrow> string + pdict" where
  "extract_raw_object raw_result kind =
     (case raw_result of
        PDict d \<Rightarrow> Inr d
      | _ \<Rightarrow> Inl (''OpenCode '' @ kind @ '' payload must be an object; got '' @ type_name raw_result))"

definition apply_session_query_limit :: "'a list \<Rightarrow> int \<Rightarrow> 'a list" where
  "apply_session_query_limit items limit =
     (if int (length items) \<le> limit then items else take (nat limit) items)"

text \<open>A trimmed, non-empty text; an \<open>int\<close> (a boolean is one); an \<open>int\<close> or a \<open>float\<close>.\<close>

fun text_value :: "pyval \<Rightarrow> string option" where
  "text_value (PStr s) = nonempty (py_strip s)"
| "text_value _ = None"

fun is_int :: "pyval \<Rightarrow> bool" where
  "is_int (PInt _) = True"
| "is_int (PBool _) = True"
| "is_int _ = False"

fun is_number :: "pyval \<Rightarrow> bool" where
  "is_number (PFloat _) = True"
| "is_number v = is_int v"

definition text_entry :: "string \<Rightarrow> pyval \<Rightarrow> pdict" where
  "text_entry key v = (case text_value v of None \<Rightarrow> [] | Some s \<Rightarrow> [(key, PStr s)])"

definition entry_if :: "(pyval \<Rightarrow> bool) \<Rightarrow> string \<Rightarrow> pyval \<Rightarrow> pdict" where
  "entry_if ok key v = (if ok v then [(key, v)] else [])"

section \<open>Sessions\<close>

definition session_status_item :: "string \<times> pyval \<Rightarrow> pdict option" where
  "session_status_item = (\<lambda>(raw_session_id, raw_status).
     case raw_status of
       PDict d \<Rightarrow>
         (if py_strip raw_session_id = [] then None
          else case text_value (pget d ''type'') of
            None \<Rightarrow> None
          | Some ty \<Rightarrow> Some ([(''session_id'', PStr (py_strip raw_session_id)), (''type'', PStr ty)]
              @ entry_if is_int ''attempt'' (pget d ''attempt'') @ text_entry ''message'' (pget d ''message'')
              @ entry_if is_number ''next'' (pget d ''next'')))
     | _ \<Rightarrow> None)"

definition normalize_session_status_items :: "pyval \<Rightarrow> string + pdict list" where
  "normalize_session_status_items raw_result =
     ebind (extract_raw_object raw_result ''session status'') (\<lambda>m.
     Inr (List.map_filter session_status_item (sort_key fst m)))"

definition todo_item :: "pyval \<Rightarrow> pdict option" where
  "todo_item item =
     (case item of
        PDict d \<Rightarrow>
          (case (text_value (pget d ''id''), text_value (pget d ''content''),
                 text_value (pget d ''status''), text_value (pget d ''priority'')) of
             (Some i, Some c, Some s, Some p) \<Rightarrow>
               Some [(''id'', PStr i), (''content'', PStr c), (''status'', PStr s), (''priority'', PStr p)]
           | _ \<Rightarrow> None)
      | _ \<Rightarrow> None)"

definition normalize_todo_items :: "pyval \<Rightarrow> string + pdict list" where
  "normalize_todo_items raw_result =
     ebind (extract_raw_items raw_result ''session todo'') (\<lambda>xs. Inr (List.map_filter todo_item xs))"

definition diff_item :: "pyval \<Rightarrow> pdict option" where
  "diff_item item =
     (case item of
        PDict d \<Rightarrow>
          (case text_value (pget d ''file'') of
             None \<Rightarrow> None
           | Some f \<Rightarrow> Some ([(''file'', PStr f)] @ entry_if is_str ''before'' (pget d ''before'')
               @ entry_if is_str ''after'' (pget d ''after'') @ entry_if is_int ''additions'' (pget d ''additions'')
               @ entry_if is_int ''deletions'' (pget d ''deletions'')))
      | _ \<Rightarrow> None)"

definition normalize_diff_items :: "pyval \<Rightarrow> string + pdict list" where
  "normalize_diff_items raw_result =
     ebind (extract_raw_items raw_result ''session diff'') (\<lambda>xs. Inr (List.map_filter diff_item xs))"

definition share_entry :: "pdict \<Rightarrow> pdict" where
  "share_entry session =
     (case pget session ''share'' of PDict share \<Rightarrow> text_entry ''share_url'' (pget share ''url'') | _ \<Rightarrow> [])"

definition revert_entry :: "pdict \<Rightarrow> pdict" where
  "revert_entry session =
     (case pget session ''revert'' of
        PDict r \<Rightarrow>
          (let item = text_entry ''message_id'' (pget r ''messageID'') @ text_entry ''part_id'' (pget r ''partID'')
                 @ text_entry ''snapshot'' (pget r ''snapshot'') @ text_entry ''diff'' (pget r ''diff'')
           in if item = [] then [] else [(''revert'', PDict item)])
      | _ \<Rightarrow> [])"

definition normalize_session_summary :: "pyval \<Rightarrow> string + pdict" where
  "normalize_session_summary raw_result =
     ebind (extract_raw_object raw_result ''session'') (\<lambda>session.
       case extract_session_id session of
         None \<Rightarrow> Inl (''OpenCode session payload is missing string field '' @ quoted ''id'')
       | Some sid \<Rightarrow> Inr ([(''id'', PStr sid), (''title'', PStr (extract_session_title session))]
           @ text_entry ''project_id'' (pget session ''projectID'') @ text_entry ''directory'' (pget session ''directory'')
           @ text_entry ''parent_id'' (pget session ''parentID'') @ text_entry ''version'' (pget session ''version'')
           @ share_entry session @ revert_entry session))"

section \<open>Providers\<close>

record provider_catalog =
  ca_providers :: "pdict list"
  ca_default_by_provider :: "(string, string) dict"
  ca_connected :: "string list"

fun dict_items :: "string \<Rightarrow> pyval list \<Rightarrow> string + pdict list" where
  "dict_items message [] = Inr []"
| "dict_items message (PDict d # xs) = ebind (dict_items message xs) (\<lambda>ds. Inr (d # ds))"
| "dict_items message (_ # xs) = Inl message"

fun default_entries :: "pdict \<Rightarrow> (string, string) dict \<Rightarrow> string + (string, string) dict" where
  "default_entries [] acc = Inr acc"
| "default_entries ((k, PStr v) # d) acc =
     default_entries d (if py_strip k \<noteq> [] \<and> py_strip v \<noteq> [] then dict_set (py_strip k) (py_strip v) acc else acc)"
| "default_entries (_ # d) acc = Inl ''OpenCode provider catalog default entries must be string:string''"

fun connected_entries :: "pyval list \<Rightarrow> string + string list" where
  "connected_entries [] = Inr []"
| "connected_entries (PStr s # xs) =
     ebind (connected_entries xs) (\<lambda>ys. Inr (if py_strip s \<noteq> [] then py_strip s # ys else ys))"
| "connected_entries (_ # xs) = Inl ''OpenCode provider catalog connected entries must be strings''"

definition extract_provider_catalog :: "pyval \<Rightarrow> string + provider_catalog" where
  "extract_provider_catalog raw_result =
     (case raw_result of
        PDict d \<Rightarrow>
          (case pget d ''all'' of
             PList raw_providers \<Rightarrow>
               (case pget d ''default'' of
                  PDict raw_defaults \<Rightarrow>
                    (case pget d ''connected'' of
                       PList raw_connected \<Rightarrow>
                         ebind (dict_items ''OpenCode provider catalog items must be objects'' raw_providers) (\<lambda>ps.
                         ebind (default_entries raw_defaults []) (\<lambda>ds.
                         ebind (connected_entries raw_connected) (\<lambda>cs.
                         Inr \<lparr>ca_providers = ps, ca_default_by_provider = ds, ca_connected = cs\<rparr>)))
                     | _ \<Rightarrow> Inl (''OpenCode provider catalog payload field '' @ quoted ''connected'' @ '' must be an array''))
                | _ \<Rightarrow> Inl (''OpenCode provider catalog payload field '' @ quoted ''default'' @ '' must be an object''))
           | _ \<Rightarrow> Inl (''OpenCode provider catalog payload field '' @ quoted ''all'' @ '' must be an array''))
      | _ \<Rightarrow> Inl (''OpenCode provider catalog payload must be an object; got '' @ type_name raw_result))"

definition name_or :: "pyval \<Rightarrow> string \<Rightarrow> pyval" where
  "name_or v d = (if is_str v then v else PStr d)"

definition provider_summary :: "provider_catalog \<Rightarrow> pdict \<Rightarrow> pdict option" where
  "provider_summary c provider =
     (case text_value (pget provider ''id'') of
        None \<Rightarrow> None
      | Some pid \<Rightarrow> Some ([(''provider_id'', PStr pid), (''name'', name_or (pget provider ''name'') pid),
            (''connected'', PBool (pid \<in> set (ca_connected c))),
            (''model_count'', PInt (case pget provider ''models'' of PDict m \<Rightarrow> int (length m) | _ \<Rightarrow> 0))]
          @ text_entry ''source'' (pget provider ''source'')
          @ str_entry ''default_model_id'' (dict_get (ca_default_by_provider c) pid)))"

definition normalize_provider_summaries :: "provider_catalog \<Rightarrow> pdict list" where
  "normalize_provider_summaries c = List.map_filter (provider_summary c) (ca_providers c)"

definition capability_entries :: "pyval \<Rightarrow> pdict" where
  "capability_entries capabilities =
     (case capabilities of
        PDict d \<Rightarrow> entry_if is_bool ''supports_reasoning'' (pget d ''reasoning'')
          @ entry_if is_bool ''supports_tool_call'' (pget d ''toolcall'')
          @ entry_if is_bool ''supports_attachments'' (pget d ''attachment'')
      | _ \<Rightarrow> [])"

definition model_item :: "provider_catalog \<Rightarrow> string \<Rightarrow> string \<times> pyval \<Rightarrow> pdict option" where
  "model_item c pid = (\<lambda>(raw_model_id, raw_model).
     case raw_model of
       PDict m \<Rightarrow>
         (if py_strip raw_model_id = [] then None
          else let model_id = py_strip raw_model_id
               in Some ([(''provider_id'', PStr pid), (''model_id'', PStr model_id),
                   (''name'', name_or (pget m ''name'') model_id),
                   (''default'', PBool (Some model_id = dict_get (ca_default_by_provider c) pid)),
                   (''connected'', PBool (pid \<in> set (ca_connected c)))]
                 @ text_entry ''status'' (pget m ''status'')
                 @ (case pget m ''limit'' of
                      PDict l \<Rightarrow> entry_if is_int ''context_window'' (pget l ''context'')
                        @ entry_if is_int ''max_output_tokens'' (pget l ''output'')
                    | _ \<Rightarrow> [])
                 @ capability_entries (pget m ''capabilities'')))
     | _ \<Rightarrow> None)"

definition provider_models :: "provider_catalog \<Rightarrow> string option \<Rightarrow> pdict \<Rightarrow> pdict list" where
  "provider_models c provider_id provider =
     (case text_value (pget provider ''id'') of
        None \<Rightarrow> []
      | Some pid \<Rightarrow>
          (if provider_id \<noteq> None \<and> provider_id \<noteq> Some pid then []
           else case pget provider ''models'' of
             PDict models \<Rightarrow> List.map_filter (model_item c pid) models
           | _ \<Rightarrow> []))"

definition normalize_model_summaries :: "provider_catalog \<Rightarrow> string option \<Rightarrow> pdict list" where
  "normalize_model_summaries c provider_id = concat (map (provider_models c provider_id) (ca_providers c))"

end
