(* ===== verification/Session_Lifecycle.thy ===== *)
theory Session_Lifecycle
  imports Session_Control Upstream_Payloads
begin

text \<open>
  The session lifecycle methods of the JSON-RPC interface (\<open>jsonrpc/handlers/session_lifecycle.py\<close>):
  status, reads of one session, and fork, share, unshare, summarize, revert and unrevert.  Who a
  session belongs to matters for the six that change it; a fork belongs to its caller.
\<close>

section \<open>Parameters\<close>

definition parse_directory_hint :: "pdict \<Rightarrow> rpc_error + string option" where
  "parse_directory_hint params =
     (case pget params ''directory'' of
        PNone \<Rightarrow> Inr None
      | PStr raw \<Rightarrow> Inr (nonempty (py_strip raw))
      | _ \<Rightarrow> Inl (invalid_field ''directory must be a string'' ''directory''))"

definition parse_required_string :: "string \<Rightarrow> pdict \<Rightarrow> rpc_error + string" where
  "parse_required_string field params =
     (case text_value (pget params field) of
        Some s \<Rightarrow> Inr s
      | None \<Rightarrow> Inl (missing_field (''Missing required params.'' @ field) field))"

definition parse_optional_string :: "string \<Rightarrow> pdict \<Rightarrow> rpc_error + string option" where
  "parse_optional_string field params =
     (case pget params field of
        PNone \<Rightarrow> Inr None
      | PStr raw \<Rightarrow> Inr (nonempty (py_strip raw))
      | _ \<Rightarrow> Inl (invalid_field (field @ '' must be a string'') field))"

text \<open>A trimmed text of the request object, under the name that the error reports.\<close>

definition request_string :: "string \<Rightarrow> pyval \<Rightarrow> rpc_error + pyval" where
  "request_string field value =
     (case text_value value of
        Some s \<Rightarrow> Inr (PStr s)
      | None \<Rightarrow> Inl (invalid_field (''request.'' @ field @ '' must be a string'') (''request.'' @ field)))"

definition request_fields :: "string list \<Rightarrow> pdict \<Rightarrow> rpc_error + unit" where
  "request_fields allowed raw_request =
     (case reject_fields_as ''request.'' ''Unsupported fields'' allowed raw_request of
        Some e \<Rightarrow> Inl e
      | None \<Rightarrow> Inr ())"

abbreviation request_not_object :: rpc_error where
  "request_not_object \<equiv> invalid_field ''params.request must be an object'' ''request''"

definition parse_fork_request :: "pdict \<Rightarrow> rpc_error + pdict" where
  "parse_fork_request params =
     (case pget params ''request'' of
        PNone \<Rightarrow> Inr []
      | PDict raw_request \<Rightarrow>
          ebind (request_fields [''messageID''] raw_request) (\<lambda>_.
          if pget raw_request ''messageID'' = PNone then Inr []
          else ebind (request_string ''messageID'' (pget raw_request ''messageID'')) (\<lambda>v.
            Inr [(''messageID'', v)]))
      | _ \<Rightarrow> Inl request_not_object)"

definition parse_summarize_request :: "pdict \<Rightarrow> rpc_error + pdict option" where
  "parse_summarize_request params =
     (case pget params ''request'' of
        PNone \<Rightarrow> Inr None
      | PDict raw_request \<Rightarrow>
          (let provider_id = pget raw_request ''providerID''; model_id = pget raw_request ''modelID'';
               auto = pget raw_request ''auto''
           in ebind (request_fields [''providerID'', ''modelID'', ''auto''] raw_request) (\<lambda>_.
              if provider_id = PNone \<and> model_id = PNone \<and> auto = PNone then Inr None
              else ebind (request_string ''providerID'' provider_id) (\<lambda>p.
                ebind (request_string ''modelID'' model_id) (\<lambda>m.
                if auto = PNone then Inr (Some [(''providerID'', p), (''modelID'', m)])
                else if is_bool auto then Inr (Some [(''providerID'', p), (''modelID'', m), (''auto'', auto)])
                else Inl (invalid_field ''request.auto must be a boolean'' ''request.auto'')))))
      | _ \<Rightarrow> Inl request_not_object)"

definition parse_revert_request :: "pdict \<Rightarrow> rpc_error + pdict" where
  "parse_revert_request params =
     (case pget params ''request'' of
        PDict raw_request \<Rightarrow>
          ebind (request_fields [''messageID'', ''partID''] raw_request) (\<lambda>_.
          ebind (request_string ''messageID'' (pget raw_request ''messageID'')) (\<lambda>m.
          if pget raw_request ''partID'' = PNone then Inr [(''messageID'', m)]
          else ebind (request_string ''partID'' (pget raw_request ''partID'')) (\<lambda>p.
            Inr [(''messageID'', m), (''partID'', p)])))
      | _ \<Rightarrow> Inl request_not_object)"

section \<open>The operation of a request\<close>

definition takes_session :: "handler_context \<Rightarrow> string \<Rightarrow> bool" where
  "takes_session cx m \<longleftrightarrow> m \<in> {cx_get_session cx, cx_get_session_children cx, cx_get_session_todo cx,
     cx_get_session_diff cx, cx_get_session_message cx, cx_fork_session cx, cx_share_session cx,
     cx_unshare_session cx, cx_summarize_session cx, cx_revert_session cx, cx_unrevert_session cx}"

definition lifecycle_fields :: "handler_context \<Rightarrow> string \<Rightarrow> string list" where
  "lifecycle_fields cx m =
     [''metadata'', ''directory''] @ (if takes_session cx m then [''session_id''] else [])
     @ (if m = cx_get_session_diff cx \<or> m = cx_get_session_message cx then [''message_id''] else [])
     @ (if m \<in> {cx_fork_session cx, cx_summarize_session cx, cx_revert_session cx} then [''request''] else [])"

definition mutating :: "handler_context \<Rightarrow> string \<Rightarrow> bool" where
  "mutating cx m \<longleftrightarrow> m \<in> {cx_fork_session cx, cx_share_session cx, cx_unshare_session cx,
     cx_summarize_session cx, cx_revert_session cx, cx_unrevert_session cx}"

definition lifecycle_message :: "handler_context \<Rightarrow> string \<Rightarrow> pdict \<Rightarrow> rpc_error + string option" where
  "lifecycle_message cx m params =
     (if m = cx_get_session_diff cx \<or> m = cx_get_session_message cx then
        ebind (parse_optional_string ''message_id'' params) (\<lambda>message_id.
        if m = cx_get_session_message cx \<and> message_id = None then
          Inl (missing_field ''Missing required params.message_id'' ''message_id'')
        else Inr message_id)
      else Inr None)"

text \<open>The parsed \<open>request\<close> object; \<open>None\<close> for a method without one.\<close>

definition lifecycle_request :: "handler_context \<Rightarrow> string \<Rightarrow> pdict \<Rightarrow> rpc_error + pdict option" where
  "lifecycle_request cx m params =
     (if m = cx_fork_session cx then ebind (parse_fork_request params) (\<lambda>r. Inr (Some r))
      else if m = cx_summarize_session cx then parse_summarize_request params
      else if m = cx_revert_session cx then ebind (parse_revert_request params) (\<lambda>r. Inr (Some r))
      else Inr None)"

text \<open>
  The client call that the method makes; \<open>None\<close> is the failed assertion of the last branch, for a
  method the registry does not send here.
\<close>

definition lifecycle_op ::
  "handler_context \<Rightarrow> string \<Rightarrow> string \<Rightarrow> string option \<Rightarrow> pdict option \<Rightarrow> up_op option" where
  "lifecycle_op cx m sid message_id req =
     (if m = cx_session_status cx then Some SessionStatus
      else if m = cx_get_session cx then Some (GetSession sid)
      else if m = cx_get_session_children cx then Some (ListChildren sid)
      else if m = cx_get_session_todo cx then Some (GetTodo sid)
      else if m = cx_get_session_diff cx then
        Some (GetDiff sid (case message_id of None \<Rightarrow> [] | Some i \<Rightarrow> [(''messageID'', PStr i)]))
      else if m = cx_get_session_message cx then Some (GetMessage sid (the message_id))
      else if m = cx_fork_session cx then Some (ForkSession sid req)
      else if m = cx_share_session cx then Some (ShareSession sid)
      else if m = cx_summarize_session cx then Some (SummarizeSession sid req)
      else if m = cx_revert_session cx then Some (RevertSession sid (or_empty req))
      else if m = cx_unrevert_session cx then Some (UnrevertSession sid)
      else if m = cx_unshare_session cx then Some (UnshareSession sid)
      else None)"

definition lifecycle_checks ::
  "handler_context \<Rightarrow> string \<Rightarrow> pdict
     \<Rightarrow> rpc_error + string option \<times> up_op option \<times> string option \<times> string option" where
  "lifecycle_checks cx m params =
     (case reject_unknown_fields (lifecycle_fields cx m) params of
        Some e \<Rightarrow> Inl e
      | None \<Rightarrow>
          ebind (parse_directory_hint params) (\<lambda>directory.
          ebind (if takes_session cx m
                 then ebind (parse_required_string ''session_id'' params) (\<lambda>sid. Inr (Some sid))
                 else Inr None) (\<lambda>session_id.
          ebind (lifecycle_message cx m params) (\<lambda>message_id.
          ebind (lifecycle_request cx m params) (\<lambda>req.
          ebind (resolve_routing_context (cx_directory_resolver cx) params directory) (\<lambda>(d, w).
          Inr (session_id, lifecycle_op cx m (case session_id of None \<Rightarrow> [] | Some sid \<Rightarrow> sid) message_id req,
               d, w)))))))"

section \<open>The result of a call\<close>

datatype lifecycle_result =
    Items "pdict list"
  | TaskItem session_task
  | TaskItems "session_task list"
  | MessageItem session_message
  | SummaryItem pdict
  | Summarized bool string

definition value_error :: "string + 'a \<Rightarrow> call_exception + 'a" where
  "value_error r = (case r of Inl e \<Rightarrow> Inl (ValueException e) | Inr x \<Rightarrow> Inr x)"

fun lifecycle_result_of :: "up_op \<Rightarrow> pyval \<Rightarrow> call_exception + lifecycle_result" where
  "lifecycle_result_of SessionStatus raw =
     ebind (value_error (normalize_session_status_items raw)) (\<lambda>xs. Inr (Items xs))"
| "lifecycle_result_of (GetSession sid) raw =
     (case as_a2a_session_task raw of
        Some item \<Rightarrow> Inr (TaskItem item)
      | None \<Rightarrow> Inl (ContractException ''OpenCode /session/{sessionID} response could not be mapped to A2A Task''))"
| "lifecycle_result_of (ListChildren sid) raw =
     ebind (value_error (extract_raw_items raw ''child sessions'')) (\<lambda>xs.
     Inr (TaskItems (List.map_filter as_a2a_session_task xs)))"
| "lifecycle_result_of (GetTodo sid) raw =
     ebind (value_error (normalize_todo_items raw)) (\<lambda>xs. Inr (Items xs))"
| "lifecycle_result_of (GetDiff sid query) raw =
     ebind (value_error (normalize_diff_items raw)) (\<lambda>xs. Inr (Items xs))"
| "lifecycle_result_of (GetMessage sid mid) raw =
     (case as_a2a_message sid raw of
        Some item \<Rightarrow> Inr (MessageItem item)
      | None \<Rightarrow> Inl (ContractException
          ''OpenCode /session/{sessionID}/message/{messageID} response could not be mapped to A2A Message''))"
| "lifecycle_result_of (SummarizeSession sid req) raw =
     (case raw of
        PBool b \<Rightarrow> Inr (Summarized b sid)
      | _ \<Rightarrow> Inl (ValueException ''Upstream summarize response must be a boolean''))"
| "lifecycle_result_of op raw =
     ebind (value_error (normalize_session_summary raw)) (\<lambda>item. Inr (SummaryItem item))"

definition lifecycle_body ::
  "handler_context \<Rightarrow> up_op option \<Rightarrow> string option \<Rightarrow> string option
     \<Rightarrow> (call_exception + lifecycle_result) \<times> http_call list" where
  "lifecycle_body cx op d w =
     (case op of
        None \<Rightarrow> (Inl (OtherException []), [])
      | Some p \<Rightarrow> (ebind (call_upstream cx p d w) (lifecycle_result_of p), [up_call (cx_up cx) p d w]))"

text \<open>The session that a successful fork created.\<close>

definition forked_session :: "up_op option \<Rightarrow> call_exception + lifecycle_result \<Rightarrow> string option" where
  "forked_session op r =
     (case (op, r) of
        (Some (ForkSession _ _), Inr (SummaryItem item)) \<Rightarrow>
          (case pget item ''id'' of PStr i \<Rightarrow> Some i | _ \<Rightarrow> None)
      | _ \<Rightarrow> None)"

section \<open>The handler\<close>

definition lifecycle_answer ::
  "rpc_request \<Rightarrow> string option \<Rightarrow> call_exception + lifecycle_result \<Rightarrow> lifecycle_result rpc_response" where
  "lifecycle_answer rq session_id r =
     (case r of
        Inr result \<Rightarrow> build_success_response (rq_has_id rq) result
      | Inl exc \<Rightarrow>
          (if exc = Cancellation then HandlerCancelled
           else RpcError (build_upstream_exception_response exc (- 32003) (- 32002) (Some (- 32005))
             (map_option (session_not_found_error (- 32001)) session_id)
             (map_option (session_forbidden_error (- 32006)) session_id)
             \<lparr>fc_method = Some (rq_method rq), fc_session_id = session_id, fc_request_id = None,
              fc_detail = None\<rparr>)))"

text \<open>
  The claim of the forked session is finalized inside the guard, after the claim of its origin; its
  clock readings are \<open>clk 6\<close> to \<open>clk 8\<close>.
\<close>

definition claim_fork ::
  "'s session_repo \<Rightarrow> (nat \<Rightarrow> time) \<Rightarrow> string option \<Rightarrow> string option
     \<Rightarrow> call_exception + lifecycle_result \<Rightarrow> 's \<Rightarrow> (call_exception + lifecycle_result) \<times> 's" where
  "claim_fork R clk identity forked r s =
     (case forked of
        None \<Rightarrow> (r, s)
      | Some fsid \<Rightarrow>
          (if \<not> truthy_str identity then (r, s)
           else case finalize_session_claim R (clk 6) (clk 7) (clk 8) (the identity) fsid s of
                  (Inr _, s') \<Rightarrow> (r, s')
                | (Inl _, s') \<Rightarrow> (Inl PermissionException, s')))"

definition handle_session_lifecycle ::
  "handler_context \<Rightarrow> 's session_repo \<Rightarrow> (nat \<Rightarrow> time) \<Rightarrow> rpc_request \<Rightarrow> pdict \<Rightarrow> 's
     \<Rightarrow> (lifecycle_result rpc_response \<times> http_call list) \<times> 's" where
  "handle_session_lifecycle cx R clk rq params s =
     (case lifecycle_checks cx (rq_method rq) params of
        Inl e \<Rightarrow> ((RpcError e, []), s)
      | Inr (session_id, op, d, w) \<Rightarrow>
          (let ((r, calls), s1) = with_claim R clk (if mutating cx (rq_method rq) then rq_identity rq else None)
                 (case session_id of None \<Rightarrow> [] | Some sid \<Rightarrow> sid) (lifecycle_body cx op d w) s;
               (r', s2) = claim_fork R clk (rq_identity rq) (forked_session op r) r s1
           in ((lifecycle_answer rq session_id r', calls), s2)))"

section \<open>Who may change a session\<close>

text \<open>
  What must hold for the HTTP calls of a request that changes a session (\<open>owner\<close> and \<open>claim\<close> are the
  tables when the request came in): there is at most one, it is the call of the checked parameters,
  and nobody else owns or has claimed the session that the parameters name.
\<close>

definition lifecycle_authorised ::
  "handler_context \<Rightarrow> string \<Rightarrow> pdict \<Rightarrow> string \<Rightarrow> (string \<Rightarrow> string option) \<Rightarrow> (string \<Rightarrow> string option)
     \<Rightarrow> http_call list \<Rightarrow> bool" where
  "lifecycle_authorised cx m params identity owner claim calls \<longleftrightarrow> calls = [] \<or>
     (case lifecycle_checks cx m params of
        Inr (Some sid, Some op, d, w) \<Rightarrow>
          parse_required_string ''session_id'' params = Inr sid \<and> calls = [up_call (cx_up cx) op d w] \<and>
          free_for (owner sid) identity \<and> free_for (claim sid) identity
      | _ \<Rightarrow> False)"

lemma mutating_takes_session: "mutating cx m \<Longrightarrow> takes_session cx m"
  by (auto simp: mutating_def takes_session_def)

lemma text_value_nonblank: "text_value v = Some sid \<Longrightarrow> sid \<noteq> []"
  by (cases v) (auto simp: nonempty_def split: if_splits)

lemma required_nonblank: "parse_required_string field params = Inr sid \<Longrightarrow> sid \<noteq> []"
  by (auto simp: parse_required_string_def text_value_nonblank split: option.splits)

lemma lifecycle_checks_session:
  assumes "lifecycle_checks cx m params = Inr (session_id, op, d, w)" "takes_session cx m"
  obtains sid where "session_id = Some sid" "parse_required_string ''session_id'' params = Inr sid" "sid \<noteq> []"
proof -
  from assms obtain sid where "session_id = Some sid" "parse_required_string ''session_id'' params = Inr sid"
    by (auto simp: lifecycle_checks_def ebind_Inr_iff split: option.split_asm)
  then show thesis using that required_nonblank by blast
qed

lemma lifecycle_run:
  assumes "handle_session_lifecycle cx R clk rq params s = ((res, calls), s')"
    and "lifecycle_checks cx (rq_method rq) params = Inr (session_id, op, d, w)"
  obtains r s1 r' where
    "with_claim R clk (if mutating cx (rq_method rq) then rq_identity rq else None)
       (case session_id of None \<Rightarrow> [] | Some sid \<Rightarrow> sid) (lifecycle_body cx op d w) s = ((r, calls), s1)"
    "claim_fork R clk (rq_identity rq) (forked_session op r) r s1 = (r', s')"
    "res = lifecycle_answer rq session_id r'"
  using assms by (auto simp: handle_session_lifecycle_def Let_def split: prod.splits)

lemma lifecycle_body_calls:
  "snd (lifecycle_body cx op d w) = (case op of None \<Rightarrow> [] | Some p \<Rightarrow> [up_call (cx_up cx) p d w])"
  by (simp add: lifecycle_body_def split: option.split)

lemma value_error_Inr [simp]: "value_error r = Inr x \<longleftrightarrow> r = Inr x"
  by (simp add: value_error_def split: sum.split)

lemma summary_id: "normalize_session_summary raw = Inr item \<Longrightarrow> \<exists>sid. pget item ''id'' = PStr sid"
  by (auto simp: normalize_session_summary_def ebind_Inr_iff pget_def split: option.split_asm)

context session_repository
begin

lemma mutations_authorised:
  assumes "inv (clk 0) s" "clk 0 \<le> clk 1" "rq_identity rq = Some i" "i \<noteq> []" "mutating cx (rq_method rq)"
    and h: "handle_session_lifecycle cx R clk rq params s = ((res, calls), s')"
  shows "lifecycle_authorised cx (rq_method rq) params i (owner_at (clk 0) s) (claim_at (clk 1) s) calls"
proof (cases "lifecycle_checks cx (rq_method rq) params")
  case (Inr c)
  obtain session_id op d w where c: "c = (session_id, op, d, w)" by (cases c)
  note ck = Inr [unfolded c]
  obtain sid where sid: "session_id = Some sid" "parse_required_string ''session_id'' params = Inr sid" "sid \<noteq> []"
    using lifecycle_checks_session [OF ck mutating_takes_session [OF assms(5)]] .
  obtain r s1 where w: "with_claim R clk (Some i) sid (lifecycle_body cx op d w) s = ((r, calls), s1)"
    by (rule lifecycle_run [OF h ck]) (use assms(3,5) sid(1) in simp)
  show ?thesis
  proof (cases "calls = []")
    case False
    from with_claim_calls [OF assms(1,2,4) sid(3) w False] show ?thesis
      using False ck sid by (auto simp: lifecycle_authorised_def lifecycle_body_calls split: option.splits)
  qed (simp add: lifecycle_authorised_def)
next
  case (Inl e)
  then show ?thesis using h by (simp add: handle_session_lifecycle_def lifecycle_authorised_def)
qed

text \<open>A successful fork: the origin is free for the caller, and the fork belongs to him afterwards.\<close>

lemma fork_owned:
  assumes "inv (clk 0) s" "mono clk" "rq_identity rq = Some i" "i \<noteq> []"
    and ck: "lifecycle_checks cx (rq_method rq) params = Inr (Some sid, Some (ForkSession sid req), d, w)"
    and h: "handle_session_lifecycle cx R clk rq params s = ((RpcResult (SummaryItem item), calls), s')"
  shows "\<exists>fsid. pget item ''id'' = PStr fsid \<and> owner_at (clk 8) s' fsid = Some i"
proof -
  let ?b = "lifecycle_body cx (Some (ForkSession sid req)) d w"
  obtain r s1 r' where run: "with_claim R clk (if mutating cx (rq_method rq) then rq_identity rq else None)
       sid ?b s = ((r, calls), s1)"
    "claim_fork R clk (rq_identity rq) (forked_session (Some (ForkSession sid req)) r) r s1 = (r', s')"
    "RpcResult (SummaryItem item) = lifecycle_answer rq (Some sid) r'"
    using lifecycle_run [OF h ck] by auto
  have r': "r' = Inr (SummaryItem item)"
    using run(3) by (auto simp: lifecycle_answer_def build_success_response_def split: sum.splits if_splits)
  then have r: "r = Inr (SummaryItem item)"
    using run(2) by (auto simp: claim_fork_def split: option.splits if_splits sum.splits prod.splits)
  have "fst ?b = Inr (SummaryItem item)"
    using with_claim_success [OF run(1) [unfolded r]] by simp
  then obtain raw where "normalize_session_summary raw = Inr item"
    by (auto simp: lifecycle_body_def ebind_Inr_iff)
  then obtain fsid where f: "pget item ''id'' = PStr fsid" using summary_id by blast
  have fin: "fst (finalize_session_claim R (clk 6) (clk 7) (clk 8) i fsid s1) = Inr ()"
    "s' = snd (finalize_session_claim R (clk 6) (clk 7) (clk 8) i fsid s1)"
    using run(2) r r' f assms(3,4)
    by (auto simp: claim_fork_def forked_session_def split: sum.splits prod.splits)
  have "inv (clk 5) s1" using inv_with_claim [OF assms(1,2)] run(1) by (metis snd_conv)
  then have "inv (clk 6) s1" using inv_later assms(2) by (simp add: monoD)
  from finalize_owner [OF this _ _ fin(1)] show ?thesis
    using f fin(2) assms(2) by (simp add: monoD)
qed

end

text \<open>
  Fork, share, unshare, summarize, revert and unrevert reach OpenCode with the checked parameters
  only, and only when no other identity owns the named session or holds a pending claim on it, for
  both repositories.
\<close>

theorem session_mutations_are_authorised:
  assumes "clk 0 \<le> clk 1" "rq_identity rq = Some i" "i \<noteq> []" "mutating cx (rq_method rq)"
  shows "(mem_inv (clk 0) m \<longrightarrow> lifecycle_authorised cx (rq_method rq) params i
      (mem_owner_at (clk 0) m) (mem_claim_at (clk 1) m)
      (snd (fst (handle_session_lifecycle cx memory_repo clk rq params m)))) \<and>
    (db_inv (clk 0) s \<longrightarrow> lifecycle_authorised cx (rq_method rq) params i
      (dict_get (db_owners s)) (db_claim_at (clk 1) s)
      (snd (fst (handle_session_lifecycle cx database_repo clk rq params s))))"
  using mem.mutations_authorised [OF _ assms] db.mutations_authorised [OF _ assms]
  unfolding db_owner_at_def by (metis prod.collapse)

text \<open>
  C10: when a fork is answered with the new session, that session belongs to the caller from then on,
  for both repositories (the memory one until the entry expires).
\<close>

theorem forked_session_belongs_to_caller:
  assumes "mono clk" "rq_identity rq = Some i" "i \<noteq> []"
    and "lifecycle_checks cx (rq_method rq) params = Inr (Some sid, Some (ForkSession sid req), d, w)"
  shows "(mem_inv (clk 0) m \<and>
      handle_session_lifecycle cx memory_repo clk rq params m = ((RpcResult (SummaryItem item), calls), m') \<longrightarrow>
      (\<exists>fsid. pget item ''id'' = PStr fsid \<and> mem_owner_at (clk 8) m' fsid = Some i)) \<and>
    (db_inv (clk 0) s \<and>
      handle_session_lifecycle cx database_repo clk rq params s = ((RpcResult (SummaryItem item), calls), s') \<longrightarrow>
      (\<exists>fsid. pget item ''id'' = PStr fsid \<and> dict_get (db_owners s') fsid = Some i))"
  using mem.fork_owned [OF _ assms] db.fork_owned [OF _ assms] unfolding db_owner_at_def by blast

text \<open>A status query or a read of one session leaves the repository as it is.\<close>

theorem lifecycle_reads_change_nothing:
  assumes "\<not> mutating cx (rq_method rq)"
    and "handle_session_lifecycle cx R clk rq params s = ((res, calls), s')"
  shows "s' = s"
proof (cases "lifecycle_checks cx (rq_method rq) params")
  case (Inr c)
  obtain session_id op d w where c: "c = (session_id, op, d, w)" by (cases c)
  note ck = Inr [unfolded c]
  obtain req sid mid where op: "op = lifecycle_op cx (rq_method rq) sid mid req"
    using ck by (auto simp: lifecycle_checks_def ebind_Inr_iff split: option.split_asm)
  have "forked_session op r = None" for r
    using assms(1) unfolding op by (auto simp: lifecycle_op_def mutating_def forked_session_def)
  then show ?thesis
    using lifecycle_run [OF assms(2) ck] assms(1) by (auto simp: with_claim_nobody claim_fork_def)
next
  case (Inl e)
  then show ?thesis using assms(2) by (simp add: handle_session_lifecycle_def)
qed

section \<open>Concrete requests\<close>

definition fork_params :: "string \<Rightarrow> pdict" where
  "fork_params sid = [(''session_id'', PStr sid)]"

definition fork_context :: handler_context where
  "fork_context = sample_context (answers 200 (Some (PDict [(''id'', PStr ''s2''), (''title'', PStr ''Fork'')])))"

abbreviation bob_forks :: rpc_request where
  "bob_forks \<equiv> sample_request ''opencode.sessions.fork'' ''bob'' []"

lemma fork_checks:
  "lifecycle_checks fork_context (rq_method bob_forks) (fork_params ''s1'') =
    Inr (Some ''s1'', Some (ForkSession ''s1'' (Some [])), None, None)"
  by code_simp

lemma bob_facts: "rq_identity bob_forks = Some ''bob''" "''bob'' \<noteq> []" "mutating fork_context (rq_method bob_forks)"
  by code_simp+

theorem session_mutations_are_authorised_witness:
  "lifecycle_authorised fork_context (rq_method bob_forks) (fork_params ''s1'') ''bob''
     (dict_get (db_owners owned_by_alice)) (db_claim_at 0 owned_by_alice)
     (snd (fst (handle_session_lifecycle fork_context database_repo (\<lambda>_. 0) bob_forks (fork_params ''s1'') owned_by_alice)))"
  using session_mutations_are_authorised [of "\<lambda>_. 0", OF _ bob_facts, where s = owned_by_alice] db_inv_owned
  by blast

theorem forked_session_belongs_to_caller_witness:
  "dict_get (db_owners (snd (handle_session_lifecycle fork_context database_repo (\<lambda>_. 0) bob_forks
     (fork_params ''s1'') (db_new 30)))) ''s2'' = Some ''bob''"
proof -
  let ?h = "handle_session_lifecycle fork_context database_repo (\<lambda>_. 0) bob_forks (fork_params ''s1'') (db_new 30)"
  have "fst (fst ?h) = RpcResult (SummaryItem [(''id'', PStr ''s2''), (''title'', PStr ''Fork'')])" by code_simp
  then have "?h = ((RpcResult (SummaryItem [(''id'', PStr ''s2''), (''title'', PStr ''Fork'')]), snd (fst ?h)), snd ?h)"
    by (metis prod.collapse)
  moreover have "mono (\<lambda>_::nat. 0 :: rat)" by (simp add: mono_def)
  ultimately show ?thesis
    using forked_session_belongs_to_caller [OF _ bob_facts(1,2) fork_checks] db_inv_new by fastforce
qed

end
