(* ===== verification/Rpc_Params.thy ===== *)
theory Rpc_Params
  imports Rpc_Common
begin

text \<open>
  The parameters of the session queries (\<open>jsonrpc/params.py\<close>) and the shared field parsers
  (\<open>parsing.py\<close>).  A \<open>JsonRpcParamsValidationError\<close> is the error the handler makes of it.
\<close>

section \<open>Field parsers\<close>

definition parse_int_field ::
  "(string \<Rightarrow> string \<Rightarrow> 'e) \<Rightarrow> int option \<Rightarrow> string \<Rightarrow> pyval \<Rightarrow> 'e + int option" where
  "parse_int_field error_factory minimum field value =
     (let check = (\<lambda>parsed.
            case minimum of
              Some m \<Rightarrow> if parsed < m then Inl (error_factory field (field @ '' must be >= '' @ int_str m))
                        else Inr (Some parsed)
            | None \<Rightarrow> Inr (Some parsed));
          bad = Inl (error_factory field (field @ '' must be an integer''))
      in case value of
           PNone \<Rightarrow> Inr None
         | PInt n \<Rightarrow> check n
         | PStr s \<Rightarrow> (case py_int s of None \<Rightarrow> bad | Some n \<Rightarrow> check n)
         | _ \<Rightarrow> bad)"

definition parse_string_field :: "(string \<Rightarrow> string \<Rightarrow> 'e) \<Rightarrow> string \<Rightarrow> pyval \<Rightarrow> 'e + string option" where
  "parse_string_field error_factory field value =
     (case value of
        PNone \<Rightarrow> Inr None
      | PStr s \<Rightarrow> Inr (nonempty (py_strip s))
      | _ \<Rightarrow> Inl (error_factory field (field @ '' must be a string'')))"

definition parse_bool_field ::
  "(string \<Rightarrow> string \<Rightarrow> 'e) \<Rightarrow> string list \<Rightarrow> string list \<Rightarrow> string \<Rightarrow> pyval \<Rightarrow> 'e + bool option" where
  "parse_bool_field error_factory true_values false_values field value =
     (let bad = Inl (error_factory field (field @ '' must be a boolean''))
      in case value of
           PNone \<Rightarrow> Inr None
         | PBool b \<Rightarrow> Inr (Some b)
         | PStr s \<Rightarrow>
             (let normalized = py_lower (py_strip s)
              in if normalized \<in> set true_values then Inr (Some True)
                 else if normalized \<in> set false_values then Inr (Some False)
                 else bad)
         | _ \<Rightarrow> bad)"

text \<open>The default words of \<open>parse_bool_field\<close>.\<close>

definition default_true_values :: "string list" where
  "default_true_values = [''true'', ''1'', ''yes'', ''on'']"

definition default_false_values :: "string list" where
  "default_false_values = [''false'', ''0'', ''no'', ''off'']"

section \<open>Query parameters\<close>

definition validation_error :: "string \<Rightarrow> string \<Rightarrow> rpc_error" where
  "validation_error field message = invalid_field message field"

definition parse_query_object :: "pdict \<Rightarrow> rpc_error + pdict" where
  "parse_query_object params =
     (case pget params ''query'' of
        PNone \<Rightarrow> Inr []
      | PDict q \<Rightarrow> Inr q
      | _ \<Rightarrow> Inl (invalid_field ''query must be an object'' ''query''))"

definition pagination_unsupported :: "string list" where
  "pagination_unsupported = [''cursor'', ''page'', ''size'']"

definition validate_pagination_fields :: "pdict \<Rightarrow> pdict \<Rightarrow> rpc_error + unit" where
  "validate_pagination_fields params query =
     (if list_ex (\<lambda>f. f \<in> fst ` set params) pagination_unsupported
         \<or> list_ex (\<lambda>f. f \<in> fst ` set query) pagination_unsupported
      then Inl (invalid_params_error ''Only limit pagination is supported''
        [(''type'', PStr ''INVALID_PAGINATION_MODE''), (''supported'', PList [PStr ''limit'']),
         (''unsupported'', PList (map PStr pagination_unsupported))])
      else Inr ())"

definition normalize_alias_field ::
  "(string \<Rightarrow> pyval \<Rightarrow> rpc_error + 'a option) \<Rightarrow> pdict \<Rightarrow> pdict \<Rightarrow> string \<Rightarrow> rpc_error + 'a option" where
  "normalize_alias_field parser params query field =
     ebind (parser field (pget params field)) (\<lambda>top_level_value.
     ebind (parser field (pget query field)) (\<lambda>query_value.
       if top_level_value \<noteq> None \<and> query_value \<noteq> None \<and> top_level_value \<noteq> query_value then
         Inl (invalid_field (field @ '' is ambiguous between params.'' @ field @ '' and params.query.'' @ field) field)
       else Inr (case top_level_value of None \<Rightarrow> query_value | Some v \<Rightarrow> Some v)))"

definition session_query_default_limit :: int where "session_query_default_limit = 20"

definition session_query_max_limit :: int where "session_query_max_limit = 100"

definition normalize_session_query_limit :: "pdict \<Rightarrow> pdict \<Rightarrow> rpc_error + pdict" where
  "normalize_session_query_limit params query =
     ebind (normalize_alias_field (parse_int_field validation_error (Some 1)) params query ''limit'') (\<lambda>limit.
       case limit of
         None \<Rightarrow> Inr (dict_set ''limit'' (PInt session_query_default_limit) query)
       | Some n \<Rightarrow>
           (if session_query_max_limit < n then
              Inl (invalid_params_error (''limit must be <= '' @ int_str session_query_max_limit)
                [(''type'', PStr ''INVALID_FIELD''), (''field'', PStr ''limit''), (''max'', PInt session_query_max_limit)])
            else Inr (dict_set ''limit'' (PInt n) query)))"

definition put_field :: "string \<Rightarrow> pyval option \<Rightarrow> pdict \<Rightarrow> pdict" where
  "put_field key v query = (case v of None \<Rightarrow> dict_pop key query | Some x \<Rightarrow> dict_set key x query)"

definition string_alias :: "pdict \<Rightarrow> pdict \<Rightarrow> string \<Rightarrow> rpc_error + pyval option" where
  "string_alias params query field =
     ebind (normalize_alias_field (parse_string_field validation_error) params query field) (\<lambda>v. Inr (map_option PStr v))"

definition bool_alias :: "pdict \<Rightarrow> pdict \<Rightarrow> string \<Rightarrow> rpc_error + pyval option" where
  "bool_alias params query field =
     ebind (normalize_alias_field (parse_bool_field validation_error default_true_values default_false_values) params query field) (\<lambda>v. Inr (map_option PBool v))"

definition non_negative_alias :: "pdict \<Rightarrow> pdict \<Rightarrow> string \<Rightarrow> rpc_error + pyval option" where
  "non_negative_alias params query field =
     ebind (normalize_alias_field (parse_int_field validation_error (Some 0)) params query field) (\<lambda>v.
       Inr (map_option PInt v))"

definition parse_list_sessions_params :: "pdict \<Rightarrow> rpc_error + pdict" where
  "parse_list_sessions_params params =
     ebind (parse_query_object params) (\<lambda>query.
     ebind (validate_pagination_fields params query) (\<lambda>_.
     ebind (normalize_session_query_limit params query) (\<lambda>normalized.
     ebind (string_alias params query ''directory'') (\<lambda>directory.
     ebind (bool_alias params query ''roots'') (\<lambda>roots.
     ebind (non_negative_alias params query ''start'') (\<lambda>start.
     ebind (string_alias params query ''search'') (\<lambda>search.
     Inr (put_field ''search'' search (put_field ''start'' start (put_field ''roots'' roots
            (put_field ''directory'' directory normalized)))))))))))"

definition parse_get_session_messages_params :: "pdict \<Rightarrow> rpc_error + string \<times> pdict" where
  "parse_get_session_messages_params params =
     (case pget params ''session_id'' of
        PStr raw_session_id \<Rightarrow>
          (if py_strip raw_session_id = [] then
             Inl (missing_field ''Missing required params.session_id'' ''session_id'')
           else
             ebind (parse_query_object params) (\<lambda>query.
             ebind (validate_pagination_fields params query) (\<lambda>_.
             ebind (normalize_session_query_limit params query) (\<lambda>normalized.
             ebind (string_alias params query ''before'') (\<lambda>before.
             Inr (py_strip raw_session_id, put_field ''before'' before normalized))))))
      | _ \<Rightarrow> Inl (missing_field ''Missing required params.session_id'' ''session_id''))"

section \<open>What a parsed query holds\<close>

text \<open>The type of a normalized query of \<open>list_sessions\<close>; \<open>before\<close> is a field of the messages query.\<close>

definition limit_typed :: "pyval option \<Rightarrow> bool" where
  "limit_typed v \<longleftrightarrow> (case v of Some (PInt n) \<Rightarrow> 1 \<le> n \<and> n \<le> 100 | _ \<Rightarrow> False)"

definition string_typed :: "pyval option \<Rightarrow> bool" where
  "string_typed v \<longleftrightarrow> (case v of None \<Rightarrow> True | Some (PStr s) \<Rightarrow> s \<noteq> [] \<and> py_strip s = s | _ \<Rightarrow> False)"

definition bool_typed :: "pyval option \<Rightarrow> bool" where
  "bool_typed v \<longleftrightarrow> (case v of None \<Rightarrow> True | Some (PBool _) \<Rightarrow> True | _ \<Rightarrow> False)"

definition non_negative_typed :: "pyval option \<Rightarrow> bool" where
  "non_negative_typed v \<longleftrightarrow> (case v of None \<Rightarrow> True | Some (PInt n) \<Rightarrow> 0 \<le> n | _ \<Rightarrow> False)"

definition sessions_query_typed :: "pdict \<Rightarrow> bool" where
  "sessions_query_typed q \<longleftrightarrow> limit_typed (dict_get q ''limit'') \<and> string_typed (dict_get q ''directory'') \<and>
     bool_typed (dict_get q ''roots'') \<and> non_negative_typed (dict_get q ''start'') \<and>
     string_typed (dict_get q ''search'') \<and>
     list_all (\<lambda>f. dict_get q f = None) pagination_unsupported"

lemma dict_get_put: "dict_get (put_field k v q) x = (if x = k then v else dict_get q x)"
  by (auto simp: put_field_def dict_simps split: option.split)

lemma alias_value:
  assumes "normalize_alias_field parser params query field = Inr (Some v)"
  shows "\<exists>value. parser field value = Inr (Some v)"
proof -
  obtain a b where ab: "parser field (pget params field) = Inr a" "parser field (pget query field) = Inr b"
    "(case a of None \<Rightarrow> b | Some v \<Rightarrow> Some v) = Some v"
    using assms by (auto simp: normalize_alias_field_def ebind_Inr_iff split: if_split_asm)
  show ?thesis
  proof (cases a)
    case None
    then have "b = Some v" using ab(3) by simp
    then show ?thesis using ab(2) by blast
  next
    case (Some w)
    then have "a = Some v" using ab(3) by simp
    then show ?thesis using ab(1) by blast
  qed
qed

lemma string_field_value: "parse_string_field ef field value = Inr (Some s) \<Longrightarrow> s \<noteq> [] \<and> py_strip s = s"
  by (auto simp: parse_string_field_def split: pyval.split_asm)

lemma int_field_min: "parse_int_field ef (Some m) field value = Inr (Some n) \<Longrightarrow> m \<le> n"
  by (auto simp: parse_int_field_def Let_def split: pyval.split_asm option.split_asm if_split_asm)

lemma alias_string: "string_alias params query field = Inr v \<Longrightarrow> string_typed v"
  unfolding string_alias_def ebind_Inr_iff
  by (auto simp: string_typed_def dest!: alias_value string_field_value split: option.split)

lemma alias_bool: "bool_alias params query field = Inr v \<Longrightarrow> bool_typed v"
  unfolding bool_alias_def ebind_Inr_iff by (auto simp: bool_typed_def split: option.split)

lemma alias_non_negative: "non_negative_alias params query field = Inr v \<Longrightarrow> non_negative_typed v"
  unfolding non_negative_alias_def ebind_Inr_iff
  by (auto simp: non_negative_typed_def dest!: alias_value int_field_min split: option.split)

lemma normalized_limit:
  assumes "normalize_session_query_limit params query = Inr q"
  shows "limit_typed (dict_get q ''limit'')" and "x \<noteq> ''limit'' \<Longrightarrow> dict_get q x = dict_get query x"
proof -
  obtain limit where l: "normalize_alias_field (parse_int_field validation_error (Some 1)) params query ''limit'' = Inr limit"
    using assms by (auto simp: normalize_session_query_limit_def ebind_Inr_iff)
  obtain n where n: "q = dict_set ''limit'' (PInt n) query" "1 \<le> n" "n \<le> 100"
  proof (cases limit)
    case None
    then show thesis using assms l that [of 20]
      by (simp add: normalize_session_query_limit_def session_query_default_limit_def)
  next
    case (Some n)
    then have "1 \<le> n" using l by (auto dest: alias_value int_field_min)
    then show thesis using assms l that [of n] Some
      by (auto simp: normalize_session_query_limit_def session_query_max_limit_def split: if_splits)
  qed
  then show "limit_typed (dict_get q ''limit'')" "x \<noteq> ''limit'' \<Longrightarrow> dict_get q x = dict_get query x"
    by (simp_all add: limit_typed_def dict_simps)
qed

lemma not_paginated:
  "validate_pagination_fields params query = Inr u \<Longrightarrow> f \<in> set pagination_unsupported \<Longrightarrow> dict_get query f = None"
  by (auto simp: validate_pagination_fields_def list_ex_iff map_of_eq_None_iff split: if_splits)

lemma list_sessions_cases:
  assumes "parse_list_sessions_params params = Inr q"
  obtains query normalized directory roots start search where "parse_query_object params = Inr query"
    "validate_pagination_fields params query = Inr ()" "normalize_session_query_limit params query = Inr normalized"
    "string_alias params query ''directory'' = Inr directory" "bool_alias params query ''roots'' = Inr roots"
    "non_negative_alias params query ''start'' = Inr start" "string_alias params query ''search'' = Inr search"
    "q = put_field ''search'' search (put_field ''start'' start (put_field ''roots'' roots
            (put_field ''directory'' directory normalized)))"
  using assms unfolding parse_list_sessions_params_def by (auto simp: ebind_Inr_iff)

lemma list_sessions_typed:
  assumes "parse_list_sessions_params params = Inr q"
  shows "sessions_query_typed q"
proof (rule list_sessions_cases [OF assms])
  fix query normalized directory roots start search
  assume a: "validate_pagination_fields params query = Inr ()"
    "normalize_session_query_limit params query = Inr normalized"
    "string_alias params query ''directory'' = Inr directory" "bool_alias params query ''roots'' = Inr roots"
    "non_negative_alias params query ''start'' = Inr start" "string_alias params query ''search'' = Inr search"
    "q = put_field ''search'' search (put_field ''start'' start (put_field ''roots'' roots
            (put_field ''directory'' directory normalized)))"
  show "sessions_query_typed q"
    using normalized_limit [OF a(2)] alias_string [OF a(3)] alias_bool [OF a(4)] alias_non_negative [OF a(5)]
      alias_string [OF a(6)] not_paginated [OF a(1)]
    by (simp add: a(7) sessions_query_typed_def dict_get_put list_all_iff pagination_unsupported_def)
qed

text \<open>A typed query is its own normal form.\<close>

lemma alias_of_query:
  assumes "field \<noteq> ''query''" "\<And>f. parser f PNone = Inr None"
  shows "normalize_alias_field parser [(''query'', x)] q field = parser field (pget q field)"
  using assms by (cases "parser field (pget q field)") (auto simp: normalize_alias_field_def pget_def split: option.split)

lemma absent_parsers:
  "parse_string_field ef f PNone = Inr None" "parse_bool_field ef ts fs f PNone = Inr None"
  "parse_int_field ef m f PNone = Inr None"
  by (simp_all add: parse_string_field_def parse_bool_field_def parse_int_field_def)

lemma string_alias_typed:
  "field \<noteq> ''query'' \<Longrightarrow> string_typed (dict_get q field) \<Longrightarrow> string_alias [(''query'', x)] q field = Inr (dict_get q field)"
  by (auto simp: string_alias_def alias_of_query absent_parsers parse_string_field_def pget_def string_typed_def
      nonempty_def split: option.splits pyval.splits)

lemma bool_alias_typed:
  "field \<noteq> ''query'' \<Longrightarrow> bool_typed (dict_get q field) \<Longrightarrow> bool_alias [(''query'', x)] q field = Inr (dict_get q field)"
  by (auto simp: bool_alias_def alias_of_query absent_parsers parse_bool_field_def pget_def bool_typed_def
      split: option.splits pyval.splits)

lemma non_negative_alias_typed:
  "field \<noteq> ''query'' \<Longrightarrow> non_negative_typed (dict_get q field) \<Longrightarrow>
   non_negative_alias [(''query'', x)] q field = Inr (dict_get q field)"
  by (auto simp: non_negative_alias_def alias_of_query absent_parsers parse_int_field_def pget_def non_negative_typed_def
      split: option.splits pyval.splits)

lemma limit_of_typed:
  assumes "limit_typed (dict_get q ''limit'')"
  shows "normalize_session_query_limit [(''query'', x)] q = Inr q"
proof -
  obtain n where n: "dict_get q ''limit'' = Some (PInt n)" "1 \<le> n" "n \<le> 100"
    using assms by (auto simp: limit_typed_def split: option.splits pyval.splits)
  have "dict_set ''limit'' (PInt n) q = q" using n(1) by (simp add: update_triv)
  then show ?thesis
    using n by (simp add: normalize_session_query_limit_def alias_of_query absent_parsers pget_def parse_int_field_def
        session_query_max_limit_def)
qed

lemma put_own: "put_field k (dict_get q k) q = q"
  by (auto simp: put_field_def update_triv delete_idem map_of_eq_None_iff split: option.split)

lemma typed_parses:
  assumes "sessions_query_typed q"
  shows "parse_list_sessions_params [(''query'', PDict q)] = Inr q"
proof -
  have q: "parse_query_object [(''query'', PDict q)] = Inr q" by (simp add: parse_query_object_def pget_def)
  have p: "validate_pagination_fields [(''query'', PDict q)] q = Inr ()"
    using assms by (auto simp: validate_pagination_fields_def sessions_query_typed_def list_ex_iff list_all_iff
        pagination_unsupported_def map_of_eq_None_iff)
  show ?thesis
    using assms unfolding sessions_query_typed_def
    by (simp add: parse_list_sessions_params_def q p limit_of_typed string_alias_typed bool_alias_typed
        non_negative_alias_typed put_own)
qed

text \<open>
  C20: a query accepted by \<open>list_sessions\<close> is well-typed: it has an integer limit from 1 to 100, its
  directory and search text are non-empty and trimmed, \<open>roots\<close> is a boolean and \<open>start\<close> a non-negative
  integer when present, and no other pagination field is left; parsing it again gives it back.
\<close>

theorem session_queries_are_typed:
  assumes "parse_list_sessions_params params = Inr q"
  shows "sessions_query_typed q \<and> parse_list_sessions_params [(''query'', PDict q)] = Inr q"
  using list_sessions_typed [OF assms] typed_parses by blast

theorem session_queries_are_typed_witness:
  "parse_list_sessions_params [(''limit'', PStr '' 7 ''), (''query'', PDict [(''search'', PStr '' bug '')])] =
     Inr [(''search'', PStr ''bug''), (''limit'', PInt 7)] \<and>
   sessions_query_typed [(''search'', PStr ''bug''), (''limit'', PInt 7)]"
proof -
  have "parse_list_sessions_params [(''limit'', PStr '' 7 ''), (''query'', PDict [(''search'', PStr '' bug '')])] =
     Inr [(''search'', PStr ''bug''), (''limit'', PInt 7)]" by code_simp
  from session_queries_are_typed [OF this] this show ?thesis by simp
qed

end
