(* ===== verification/Rpc_Queries.thy ===== *)
theory Rpc_Queries
  imports Rpc_Params Upstream_Payloads
begin

text \<open>
  The handlers that only read: the session queries (\<open>jsonrpc/handlers/session_queries.py\<close>) and the
  provider discovery (\<open>jsonrpc/handlers/provider_discovery.py\<close>).  A handler returns its response and
  the HTTP calls it makes.
\<close>

section \<open>Session queries\<close>

datatype query_result =
    SessionPage "session_task list"
  | MessagePage "session_message list" "string option"

text \<open>The session, the query and where to look: everything before the call.\<close>

definition query_checks ::
  "handler_context \<Rightarrow> rpc_request \<Rightarrow> pdict \<Rightarrow> rpc_error + string option \<times> pdict \<times> string option \<times> string option" where
  "query_checks cx rq params =
     (if rq_method rq = cx_list_sessions cx then
        ebind (parse_list_sessions_params params) (\<lambda>query.
        case pget query ''directory'' of
          PStr directory \<Rightarrow>
            ebind (resolve_routing_context (cx_directory_resolver cx) params (Some directory)) (\<lambda>(d, w).
            Inr (None, dict_pop ''directory'' query, d, w))
        | PNone \<Rightarrow>
            ebind (resolve_routing_context (cx_directory_resolver cx) params None) (\<lambda>(d, w).
            Inr (None, dict_pop ''directory'' query, d, w))
        | _ \<Rightarrow> Inl (invalid_field ''directory must be a string'' ''directory''))
      else
        ebind (parse_get_session_messages_params params) (\<lambda>(session_id, query).
        ebind (resolve_routing_context (cx_directory_resolver cx) params None) (\<lambda>(d, w).
        Inr (Some session_id, query, d, w))))"

definition query_op :: "string option \<Rightarrow> pdict \<Rightarrow> up_op" where
  "query_op session_id query =
     (case session_id of None \<Rightarrow> ListSessions query | Some sid \<Rightarrow> ListMessages sid query)"

definition query_limit :: "pdict \<Rightarrow> int" where
  "query_limit query = (case pget query ''limit'' of PInt n \<Rightarrow> n | _ \<Rightarrow> 0)"

text \<open>The page of a response; \<open>Inl\<close> is the text of the \<open>ValueError\<close> of a payload that is no array.\<close>

definition query_page :: "string option \<Rightarrow> pdict \<Rightarrow> up_response \<Rightarrow> pyval \<Rightarrow> string + query_result" where
  "query_page session_id query response raw_result =
     (case session_id of
        None \<Rightarrow>
          ebind (extract_raw_items raw_result ''sessions'') (\<lambda>xs.
          Inr (SessionPage (apply_session_query_limit (List.map_filter as_a2a_session_task xs) (query_limit query))))
      | Some sid \<Rightarrow>
          (let page = list_messages_page raw_result (up_next_cursor response)
           in ebind (extract_raw_items (pg_payload page) ''messages'') (\<lambda>xs.
              Inr (MessagePage (List.map_filter (as_a2a_message sid) xs) (pg_next_cursor page)))))"

text \<open>
  A session listing whose body is \<open>null\<close> fails the handler's assertion; the page of a message listing
  is an object for every body.
\<close>

definition query_answer ::
  "handler_context \<Rightarrow> rpc_request \<Rightarrow> string option \<Rightarrow> pdict \<Rightarrow> call_exception + up_response \<Rightarrow> query_result rpc_response" where
  "query_answer cx rq session_id query sent =
     (let fc = \<lparr>fc_method = None, fc_session_id = None, fc_request_id = None, fc_detail = None\<rparr>;
          failed = (\<lambda>exc. upstream_failure exc (map_option (session_not_found_error (- 32001)) session_id) fc)
      in case sent of
           Inl exc \<Rightarrow> failed exc
         | Inr response \<Rightarrow>
             (case up_result (cx_up cx) (query_op session_id query) response of
                Inl e \<Rightarrow> failed (up_exception e)
              | Inr raw_result \<Rightarrow>
                  (if session_id = None \<and> raw_result = PNone then HandlerFailed
                   else case query_page session_id query response raw_result of
                     Inl detail \<Rightarrow> RpcError (upstream_payload_error (- 32005) detail fc)
                   | Inr result \<Rightarrow> build_success_response (rq_has_id rq) result)))"

definition handle_session_query ::
  "handler_context \<Rightarrow> rpc_request \<Rightarrow> pdict \<Rightarrow> query_result rpc_response \<times> http_call list" where
  "handle_session_query cx rq params =
     (case query_checks cx rq params of
        Inl e \<Rightarrow> (RpcError e, [])
      | Inr (session_id, query, d, w) \<Rightarrow>
          (let call = up_call (cx_up cx) (query_op session_id query) d w
           in (query_answer cx rq session_id query (cx_send cx call), [call])))"

section \<open>Provider discovery\<close>

record provider_listing =
  li_items :: "pdict list"
  li_default_by_provider :: "(string, string) dict"
  li_connected :: "string list"

definition discovery_checks ::
  "handler_context \<Rightarrow> rpc_request \<Rightarrow> pdict \<Rightarrow> rpc_error + string option \<times> string option \<times> string option" where
  "discovery_checks cx rq params =
     (let models = rq_method rq = cx_list_models cx
      in case reject_fields_as ''params.'' ''Unsupported params fields''
               (''metadata'' # (if models then [''provider_id''] else [])) params of
           Some e \<Rightarrow> Inl e
         | None \<Rightarrow>
             ebind (if models \<and> pget params ''provider_id'' \<noteq> PNone then
                      (case text_value (pget params ''provider_id'') of
                         Some p \<Rightarrow> Inr (Some p)
                       | None \<Rightarrow> Inl (invalid_field ''provider_id must be a non-empty string'' ''provider_id''))
                    else Inr None) (\<lambda>provider_id.
             ebind (resolve_routing_context (cx_directory_resolver cx) params None) (\<lambda>(d, w).
             Inr (provider_id, d, w))))"

definition discovery_listing ::
  "handler_context \<Rightarrow> rpc_request \<Rightarrow> string option \<Rightarrow> pyval \<Rightarrow> string + provider_listing" where
  "discovery_listing cx rq provider_id raw_result =
     ebind (extract_provider_catalog raw_result) (\<lambda>c.
     Inr \<lparr>li_items = (if rq_method rq = cx_list_providers cx then normalize_provider_summaries c
                      else normalize_model_summaries c provider_id),
          li_default_by_provider = ca_default_by_provider c, li_connected = ca_connected c\<rparr>)"

definition handle_provider_discovery ::
  "handler_context \<Rightarrow> rpc_request \<Rightarrow> pdict \<Rightarrow> provider_listing rpc_response \<times> http_call list" where
  "handle_provider_discovery cx rq params =
     (case discovery_checks cx rq params of
        Inl e \<Rightarrow> (RpcError e, [])
      | Inr (provider_id, d, w) \<Rightarrow>
          (let fc = \<lparr>fc_method = Some (rq_method rq), fc_session_id = None, fc_request_id = None, fc_detail = None\<rparr>
           in (case call_upstream cx ListProviders d w of
                 Inl exc \<Rightarrow> upstream_failure exc None fc
               | Inr PNone \<Rightarrow> HandlerFailed
               | Inr raw_result \<Rightarrow>
                   (case discovery_listing cx rq provider_id raw_result of
                      Inl detail \<Rightarrow> RpcError (upstream_payload_error (- 32005) detail fc)
                    | Inr listing \<Rightarrow> build_success_response (rq_has_id rq) listing),
               [up_call (cx_up cx) ListProviders d w])))"

section \<open>Bounds and filters\<close>

lemma query_limit_typed:
  assumes "parse_list_sessions_params params = Inr q"
  shows "1 \<le> query_limit (dict_pop ''directory'' q) \<and> query_limit (dict_pop ''directory'' q) \<le> 100"
  using list_sessions_typed [OF assms]
  by (auto simp: sessions_query_typed_def limit_typed_def query_limit_def pget_def dict_simps
      split: option.splits pyval.splits)

lemma query_checks_list:
  assumes "query_checks cx rq params = Inr (None, query, d, w)"
  obtains q where "parse_list_sessions_params params = Inr q" "query = dict_pop ''directory'' q"
proof (cases "rq_method rq = cx_list_sessions cx")
  case True
  with assms obtain q where "parse_list_sessions_params params = Inr q"
    by (auto simp: query_checks_def ebind_Inr_iff)
  then show thesis
    using assms True by (cases "pget q ''directory''") (auto simp: query_checks_def ebind_Inr_iff intro: that)
next
  case False
  then show thesis using assms by (auto simp: query_checks_def ebind_Inr_iff)
qed

lemma limited: "0 \<le> n \<Longrightarrow> int (length (apply_session_query_limit xs n)) \<le> n"
  by (auto simp: apply_session_query_limit_def)

text \<open>
  A session listing asks OpenCode for between 1 and 100 sessions and returns at most as many as
  it asked for, whatever OpenCode sends.
\<close>

theorem session_listings_are_bounded:
  assumes "handle_session_query cx rq params = (RpcResult (SessionPage items), calls)"
  shows "\<exists>query d w. calls = [list_sessions_call (cx_up cx) query d w] \<and>
    1 \<le> query_limit query \<and> query_limit query \<le> 100 \<and> int (length items) \<le> query_limit query"
proof -
  obtain sid query d w where ck: "query_checks cx rq params = Inr (sid, query, d, w)"
    and a: "query_answer cx rq sid query (cx_send cx (up_call (cx_up cx) (query_op sid query) d w)) =
      RpcResult (SessionPage items)" "calls = [up_call (cx_up cx) (query_op sid query) d w]"
    using assms by (auto simp: handle_session_query_def Let_def split: sum.split_asm prod.split_asm)
  obtain r raw where "query_page sid query r raw = Inr (SessionPage items)"
    using a(1) by (auto simp: query_answer_def Let_def upstream_failure_def build_success_response_def
        split: sum.split_asm if_split_asm)
  then have sid: "sid = None" and "\<exists>xs. items = apply_session_query_limit xs (query_limit query)"
    by (auto simp: query_page_def ebind_Inr_iff Let_def split: option.split_asm)
  then obtain xs :: "session_task list" where items: "items = apply_session_query_limit xs (query_limit query)" by blast
  obtain q where q: "parse_list_sessions_params params = Inr q" "query = dict_pop ''directory'' q"
    using query_checks_list ck unfolding sid by blast
  have lim: "1 \<le> query_limit query \<and> query_limit query \<le> 100" using query_limit_typed [OF q(1)] q(2) by simp
  moreover have "int (length items) \<le> query_limit query" using lim by (simp add: items limited)
  moreover have "calls = [list_sessions_call (cx_up cx) query d w]"
    using a(2) by (simp add: sid query_op_def)
  ultimately show ?thesis by blast
qed

lemma filter_map_filter:
  "filter P (List.map_filter f xs) = List.map_filter (\<lambda>x. case f x of None \<Rightarrow> None | Some y \<Rightarrow> if P y then Some y else None) xs"
  by (induction xs) (auto simp: List.map_filter_simps split: option.split)

lemma model_item_provider: "model_item c pid e = Some m \<Longrightarrow> pget m ''provider_id'' = PStr pid"
  by (cases e) (auto simp: model_item_def Let_def split: pyval.split_asm if_split_asm)

lemma models_of_provider:
  "filter (\<lambda>m. pget m ''provider_id'' = PStr p) (provider_models c None provider) = provider_models c (Some p) provider"
proof (cases "text_value (pget provider ''id'')")
  case (Some pid)
  have "filter (\<lambda>m. pget m ''provider_id'' = PStr p) (List.map_filter (model_item c pid) models) =
      (if p = pid then List.map_filter (model_item c pid) models else [])" for models
    by (induction models) (auto simp: List.map_filter_simps dest: model_item_provider split: option.split)
  then show ?thesis
    by (auto simp: provider_models_def Some split: pyval.split)
qed (simp add: provider_models_def)

text \<open>
  Listing the models of one provider gives exactly the models of the full listing that carry this
  provider's id, in the same order.
\<close>

theorem models_of_one_provider:
  "normalize_model_summaries c (Some p) =
     filter (\<lambda>m. pget m ''provider_id'' = PStr p) (normalize_model_summaries c None)"
  by (simp add: normalize_model_summaries_def filter_concat o_def models_of_provider)

section \<open>Concrete requests\<close>

definition listing_context :: handler_context where
  "listing_context = sample_context (answers 200 (Some (PList
     [PDict [(''id'', PStr ''s1'')], PDict [(''id'', PStr ''s2'')], PDict [(''id'', PStr ''s3'')]])))"

theorem session_listings_are_bounded_witness:
  "\<exists>items calls query. handle_session_query listing_context (sample_request ''opencode.sessions.list'' ''bob'' [])
     [(''limit'', PInt 2)] = (RpcResult (SessionPage items), calls) \<and> int (length items) \<le> query_limit query"
proof -
  let ?h = "handle_session_query listing_context (sample_request ''opencode.sessions.list'' ''bob'' []) [(''limit'', PInt 2)]"
  have "(case fst ?h of RpcResult (SessionPage items) \<Rightarrow> True | _ \<Rightarrow> False)" by code_simp
  then obtain items where i: "fst ?h = RpcResult (SessionPage items)"
    by (auto split: rpc_response.split_asm query_result.split_asm)
  then have "?h = (RpcResult (SessionPage items), snd ?h)" by (metis prod.collapse)
  with session_listings_are_bounded [OF this] show ?thesis by blast
qed

end
