(* ===== verification/Workspace_Control.thy ===== *)
theory Workspace_Control
  imports Rpc_Common Upstream_Payloads
begin

text \<open>
  The workspace and worktree methods (\<open>jsonrpc/handlers/workspace_control.py\<close>): four of them list, five
  change workspaces and need a capability.
\<close>

section \<open>Methods\<close>

datatype workspace_key =
    List_Projects | Get_Current_Project | List_Workspaces | List_Worktrees
  | Create_Workspace | Remove_Workspace | Create_Worktree | Remove_Worktree | Reset_Worktree

text \<open>\<open>method_map\<close>: a later entry replaces an earlier one with the same name.\<close>

definition workspace_method_map :: "handler_context \<Rightarrow> (string, workspace_key) dict" where
  "workspace_method_map cx =
     (let optional = (\<lambda>name key d. case name of None \<Rightarrow> d | Some n \<Rightarrow> dict_set n key d);
          listed = dict_set (cx_list_worktrees cx) List_Worktrees
            (dict_set (cx_list_workspaces cx) List_Workspaces
            (dict_set (cx_get_current_project cx) Get_Current_Project
            (dict_set (cx_list_projects cx) List_Projects [])))
      in optional (cx_reset_worktree cx) Reset_Worktree (optional (cx_remove_worktree cx) Remove_Worktree
           (optional (cx_create_worktree cx) Create_Worktree (optional (cx_remove_workspace cx) Remove_Workspace
           (optional (cx_create_workspace cx) Create_Workspace listed)))))"

definition workspace_mutation :: "workspace_key \<Rightarrow> bool" where
  "workspace_mutation key \<longleftrightarrow>
     key \<in> {Create_Workspace, Remove_Workspace, Create_Worktree, Remove_Worktree, Reset_Worktree}"

definition takes_request :: "workspace_key \<Rightarrow> bool" where
  "takes_request key \<longleftrightarrow> key \<in> {Create_Workspace, Create_Worktree, Remove_Worktree, Reset_Worktree}"

section \<open>Parameters\<close>

definition workspace_fields :: "workspace_key \<Rightarrow> string list" where
  "workspace_fields key = [''metadata''] @ (if takes_request key then [''request''] else [])
     @ (if key = Remove_Workspace then [''workspace_id''] else [])"

definition parse_required_request_object :: "pdict \<Rightarrow> rpc_error + pdict" where
  "parse_required_request_object params =
     (case pget params ''request'' of
        PNone \<Rightarrow> Inl (missing_field ''Missing required params.request'' ''request'')
      | PDict value \<Rightarrow> Inr value
      | _ \<Rightarrow> Inl (invalid_field ''params.request must be an object'' ''request''))"

definition parse_workspace_id :: "pdict \<Rightarrow> rpc_error + string" where
  "parse_workspace_id params =
     (case text_value (pget params ''workspace_id'') of
        Some w \<Rightarrow> Inr w
      | None \<Rightarrow> Inl (missing_field ''Missing required params.workspace_id'' ''workspace_id''))"

text \<open>The check of the method's own field, and the fields that its request object may have.\<close>

definition workspace_request_shape :: "workspace_key \<Rightarrow> pdict \<Rightarrow> rpc_error + string list" where
  "workspace_request_shape key request =
     (if key = Create_Workspace then
        (if dict_get request ''type'' = None then
           Inl (missing_field ''Missing required params.request.type'' ''request'')
         else if text_value (pget request ''type'') = None then
           Inl (invalid_field ''params.request.type must be a non-empty string'' ''request.type'')
         else Inr [''id'', ''type'', ''branch'', ''extra''])
      else if key = Create_Worktree then Inr [''name'', ''startCommand'']
      else if key = Remove_Worktree \<or> key = Reset_Worktree then
        (if text_value (pget request ''directory'') = None then
           Inl (invalid_field ''params.request.directory must be a non-empty string'' ''request.directory'')
         else Inr [''directory''])
      else Inr [])"

fun workspace_string_fields :: "pdict \<Rightarrow> string list \<Rightarrow> rpc_error + unit" where
  "workspace_string_fields request [] = Inr ()"
| "workspace_string_fields request (field # names) =
     (case dict_get request field of
        None \<Rightarrow> workspace_string_fields request names
      | Some v \<Rightarrow>
          (if v = PNone \<or> is_str v then workspace_string_fields request names
           else Inl (invalid_field (''params.request.'' @ field @ '' must be a string'') (''request.'' @ field))))"

definition validate_workspace_request :: "workspace_key \<Rightarrow> pdict \<Rightarrow> rpc_error + unit" where
  "validate_workspace_request key request =
     ebind (workspace_request_shape key request) (\<lambda>allowed.
     case reject_fields_as ''request.'' ''Unsupported request fields'' allowed request of
       Some e \<Rightarrow> Inl e
     | None \<Rightarrow> workspace_string_fields request
         [''id'', ''type'', ''branch'', ''name'', ''startCommand'', ''directory''])"

definition workspace_op :: "workspace_key \<Rightarrow> pdict \<Rightarrow> rpc_error + up_op" where
  "workspace_op key params =
     (let with_request = (\<lambda>f. ebind (parse_required_request_object params) (\<lambda>request.
            ebind (validate_workspace_request key request) (\<lambda>_. Inr (f request))))
      in case key of
           List_Projects \<Rightarrow> Inr ListProjects
         | Get_Current_Project \<Rightarrow> Inr CurrentProject
         | List_Workspaces \<Rightarrow> Inr ListWorkspaces
         | List_Worktrees \<Rightarrow> Inr ListWorktrees
         | Remove_Workspace \<Rightarrow> ebind (parse_workspace_id params) (\<lambda>w. Inr (RemoveWorkspace w))
         | Create_Workspace \<Rightarrow> with_request CreateWorkspace
         | Create_Worktree \<Rightarrow> with_request CreateWorktree
         | Remove_Worktree \<Rightarrow> with_request RemoveWorktree
         | Reset_Worktree \<Rightarrow> with_request ResetWorktree)"

definition workspace_checks :: "handler_context \<Rightarrow> rpc_request \<Rightarrow> pdict \<Rightarrow> rpc_error + workspace_key \<times> up_op" where
  "workspace_checks cx rq params =
     (case dict_get (workspace_method_map cx) (rq_method rq) of
        None \<Rightarrow> Inl (invalid_field (''Unsupported method: '' @ rq_method rq) ''method'')
      | Some key \<Rightarrow>
          (if workspace_mutation key \<and> \<not> request_has_capability rq ''workspace_mutation'' then
             Inl (authorization_forbidden_error (- 32007) (rq_method rq) ''workspace_mutation'' (rq_credential_id rq))
           else case reject_unknown_fields (workspace_fields key) params of
             Some e \<Rightarrow> Inl e
           | None \<Rightarrow> ebind (workspace_op key params) (\<lambda>op. Inr (key, op))))"

section \<open>The handler\<close>

datatype workspace_result = WorkspaceItems "pyval list" | WorkspaceItem pyval | WorkspaceOk bool

definition validate_response_payload :: "workspace_key \<Rightarrow> pyval \<Rightarrow> string + workspace_result" where
  "validate_response_payload key payload =
     (if key \<in> {List_Projects, List_Workspaces, List_Worktrees} then
        (case payload of
           PList xs \<Rightarrow> Inr (WorkspaceItems xs)
         | _ \<Rightarrow> Inl ''Upstream list response must be an array'')
      else if key \<in> {Get_Current_Project, Create_Workspace, Remove_Workspace, Create_Worktree} then
        (if payload = PNone \<or> is_dict payload then Inr (WorkspaceItem payload)
         else Inl ''Upstream item response must be an object or null'')
      else
        (case payload of
           PBool b \<Rightarrow> Inr (WorkspaceOk b)
         | _ \<Rightarrow> Inl ''Upstream boolean response must be a boolean''))"

definition workspace_answer ::
  "rpc_request \<Rightarrow> workspace_key \<Rightarrow> call_exception + pyval \<Rightarrow> workspace_result rpc_response" where
  "workspace_answer rq key r =
     (let fc = \<lparr>fc_method = Some (rq_method rq), fc_session_id = None, fc_request_id = None, fc_detail = None\<rparr>
      in case r of
           Inl exc \<Rightarrow> upstream_failure exc None fc
         | Inr raw_result \<Rightarrow>
             (if raw_result = PNone then HandlerFailed
              else case validate_response_payload key raw_result of
                Inl detail \<Rightarrow> RpcError (upstream_payload_error (- 32005) detail fc)
              | Inr result \<Rightarrow> build_success_response (rq_has_id rq) result))"

definition handle_workspace_control ::
  "handler_context \<Rightarrow> rpc_request \<Rightarrow> pdict \<Rightarrow> workspace_result rpc_response \<times> http_call list" where
  "handle_workspace_control cx rq params =
     (case workspace_checks cx rq params of
        Inl e \<Rightarrow> (RpcError e, [])
      | Inr (key, op) \<Rightarrow>
          (workspace_answer rq key (call_upstream cx op None None), [up_call (cx_up cx) op None None]))"

section \<open>Who may change workspaces\<close>

definition changes_upstream :: "http_call \<Rightarrow> bool" where
  "changes_upstream call \<longleftrightarrow> hc_method call \<noteq> ''GET''"

lemma workspace_op_changes:
  "workspace_op key params = Inr op \<Longrightarrow> changes_upstream (up_call us op d w) \<Longrightarrow> workspace_mutation key"
  by (cases key) (auto simp: workspace_op_def workspace_mutation_def changes_upstream_def call_defs http_get_def)

lemma workspace_calls:
  assumes "call \<in> set (snd (handle_workspace_control cx rq params))"
  obtains key op where "workspace_op key params = Inr op" "call = up_call (cx_up cx) op None None"
    "hc_method call = ''GET'' \<or> workspace_mutation key \<and> request_has_capability rq ''workspace_mutation''"
proof (cases "workspace_checks cx rq params")
  case (Inr c)
  obtain key op where c: "c = (key, op)" by (cases c)
  have "workspace_op key params = Inr op" "workspace_mutation key \<longrightarrow> request_has_capability rq ''workspace_mutation''"
    using Inr by (auto simp: c workspace_checks_def ebind_Inr_iff split: option.splits if_splits)
  moreover have "call = up_call (cx_up cx) op None None"
    using assms by (simp add: handle_workspace_control_def Inr c)
  ultimately show thesis
    using workspace_op_changes [of key params op "cx_up cx" None None] that by (auto simp: changes_upstream_def)
qed (use assms in \<open>simp add: handle_workspace_control_def\<close>)

text \<open>
  Without the capability \<open>workspace_mutation\<close> a caller reaches OpenCode through these methods only
  with a \<open>GET\<close>; a method that changes workspaces is answered with the authorization error and makes no
  call at all.
\<close>

theorem workspace_changes_need_capability:
  assumes "\<not> request_has_capability rq ''workspace_mutation''"
  shows "(\<forall>call \<in> set (snd (handle_workspace_control cx rq params)). hc_method call = ''GET'') \<and>
    (\<forall>key. dict_get (workspace_method_map cx) (rq_method rq) = Some key \<and> workspace_mutation key \<longrightarrow>
      handle_workspace_control cx rq params =
        (RpcError (authorization_forbidden_error (- 32007) (rq_method rq) ''workspace_mutation'' (rq_credential_id rq)), []))"
  using assms workspace_calls [of _ cx rq params]
  by (auto simp: handle_workspace_control_def workspace_checks_def)

text \<open>
  The contract of \<open>remove_workspace\<close> allows \<open>null\<close> for the item, and so does the check of the payload,
  but the handler asserts before that the body is not \<open>null\<close>.
\<close>

theorem null_workspace_crashes:
  "validate_response_payload Remove_Workspace PNone = Inr (WorkspaceItem PNone) \<and>
   fst (handle_workspace_control (sample_context (answers 200 (Some PNone)))
     (sample_request ''opencode.workspaces.remove'' ''bob'' [''workspace_mutation''])
     [(''workspace_id'', PStr ''w1'')]) = HandlerFailed"
  by code_simp

theorem workspace_changes_need_capability_witness:
  "handle_workspace_control (sample_context (answers 200 (Some PNone)))
     (sample_request ''opencode.workspaces.remove'' ''bob'' []) [(''workspace_id'', PStr ''w1'')] =
   (RpcError (authorization_forbidden_error (- 32007) ''opencode.workspaces.remove'' ''workspace_mutation'' None), [])"
proof -
  let ?rq = "sample_request ''opencode.workspaces.remove'' ''bob'' []"
  let ?cx = "sample_context (answers 200 (Some PNone))"
  have a: "\<not> request_has_capability ?rq ''workspace_mutation''" by code_simp
  have k: "dict_get (workspace_method_map ?cx) (rq_method ?rq) = Some Remove_Workspace"
    "workspace_mutation Remove_Workspace" by code_simp+
  show ?thesis
    using workspace_changes_need_capability [OF a, of ?cx "[(''workspace_id'', PStr ''w1'')]"] k
    by (simp add: sample_request_def)
qed

end
