(* ===== verification/Interrupt_Callbacks.thy ===== *)
theory Interrupt_Callbacks
  imports Rpc_Common Interrupt_Contract
begin

text \<open>
  The interrupt requests as clients see them: the wrappers of the upstream client around the
  repository (\<open>opencode_upstream_client.py\<close>), the callbacks that answer a permission or a question
  request (\<open>jsonrpc/handlers/interrupt_callbacks.py\<close>) and the listings
  (\<open>jsonrpc/handlers/interrupt_queries.py\<close>).
\<close>

section \<open>The wrappers of the client\<close>

definition stripped :: "string option \<Rightarrow> string option" where
  "stripped v = (case v of None \<Rightarrow> None | Some s \<Rightarrow> nonempty (py_strip s))"

definition remember_interrupt_request :: "'s interrupt_repo \<Rightarrow> time \<Rightarrow> remember_args \<Rightarrow> 's \<Rightarrow> 's" where
  "remember_interrupt_request R t a s =
     (let kind = py_strip (ra_type a)
      in if py_strip (ra_request_id a) = [] \<or> py_strip (ra_session_id a) = []
            \<or> kind \<notin> {''permission'', ''question''} then s
         else ir_remember R t (a\<lparr>ra_request_id := py_strip (ra_request_id a),
           ra_session_id := py_strip (ra_session_id a), ra_type := kind,
           ra_identity := stripped (ra_identity a), ra_credential_id := stripped (ra_credential_id a),
           ra_task_id := stripped (ra_task_id a), ra_context_id := stripped (ra_context_id a)\<rparr>) s)"

definition resolve_interrupt_request ::
  "'s interrupt_repo \<Rightarrow> time \<Rightarrow> string \<Rightarrow> 's \<Rightarrow> (interrupt_status \<times> interrupt_binding option) \<times> 's" where
  "resolve_interrupt_request R t request_id s =
     (if py_strip request_id = [] then ((Missing, None), s) else ir_resolve R t (py_strip request_id) s)"

definition resolve_interrupt_session :: "'s interrupt_repo \<Rightarrow> time \<Rightarrow> string \<Rightarrow> 's \<Rightarrow> string option \<times> 's" where
  "resolve_interrupt_session R t request_id s =
     (case resolve_interrupt_request R t request_id s of
        ((Active, Some b), s') \<Rightarrow> (ib_session_id b, s')
      | (_, s') \<Rightarrow> (None, s'))"

definition discard_interrupt_request :: "'s interrupt_repo \<Rightarrow> string \<Rightarrow> 's \<Rightarrow> 's" where
  "discard_interrupt_request R request_id s =
     (if py_strip request_id = [] then s else ir_discard R (py_strip request_id) s)"

definition list_interrupt_requests ::
  "'s interrupt_repo \<Rightarrow> time \<Rightarrow> string \<Rightarrow> string option \<Rightarrow> 's \<Rightarrow> interrupt_binding list \<times> 's" where
  "list_interrupt_requests R t identity interrupt_type s =
     (if py_strip identity = [] then ([], s) else ir_list_pending R t (py_strip identity) interrupt_type s)"

section \<open>Callbacks\<close>

definition callback_request_id :: "pdict \<Rightarrow> rpc_error + string" where
  "callback_request_id params =
     (case pget params ''request_id'' of
        PStr raw \<Rightarrow>
          (if py_strip raw = [] then Inl (missing_field ''Missing required params.request_id'' ''request_id'')
           else Inr (py_strip raw))
      | _ \<Rightarrow> Inl (missing_field ''Missing required params.request_id'' ''request_id''))"

definition expected_type :: "handler_context \<Rightarrow> rpc_request \<Rightarrow> string" where
  "expected_type cx rq = (if rq_method rq = cx_reply_permission cx then ''permission'' else ''question'')"

definition foreign :: "string option \<Rightarrow> string option \<Rightarrow> bool" where
  "foreign caller bound \<longleftrightarrow> truthy_str caller \<and> truthy_str bound \<and> bound \<noteq> caller"

text \<open>The checks of the resolved binding; the result is the error of the first that fails.\<close>

definition binding_error ::
  "handler_context \<Rightarrow> rpc_request \<Rightarrow> string \<Rightarrow> interrupt_status \<times> interrupt_binding option \<Rightarrow> rpc_error option" where
  "binding_error cx rq request_id resolved =
     (case resolved of
        (Active, Some b) \<Rightarrow>
          (if ib_type b \<noteq> Some (expected_type cx rq) then
             Some (interrupt_type_mismatch_error (- 32008) request_id (expected_type cx rq) (ib_type b))
           else if foreign (rq_identity rq) (ib_identity b) \<or> foreign (rq_credential_id rq) (ib_credential_id b) then
             Some (interrupt_not_found_error (- 32004) request_id False)
           else None)
      | (Expired, _) \<Rightarrow> Some (interrupt_not_found_error (- 32007) request_id True)
      | _ \<Rightarrow> Some (interrupt_not_found_error (- 32004) request_id False))"

definition callback_fields :: "handler_context \<Rightarrow> rpc_request \<Rightarrow> string list" where
  "callback_fields cx rq =
     (if rq_method rq = cx_reply_permission cx then [''request_id'', ''reply'', ''message'', ''metadata'']
      else if rq_method rq = cx_reply_question cx then [''request_id'', ''answers'', ''metadata'']
      else [''request_id'', ''metadata''])"

text \<open>The reply to send; the error is the text of a \<open>ValueError\<close>.\<close>

definition callback_op :: "handler_context \<Rightarrow> rpc_request \<Rightarrow> string \<Rightarrow> pdict \<Rightarrow> string + up_op" where
  "callback_op cx rq request_id params =
     (if rq_method rq = cx_reply_permission cx then
        ebind (normalize_permission_reply (pget params ''reply'')) (\<lambda>reply.
          case pget params ''message'' of
            PNone \<Rightarrow> Inr (PermissionReply request_id reply None)
          | PStr m \<Rightarrow> Inr (PermissionReply request_id reply (Some m))
          | _ \<Rightarrow> Inl ''message must be a string'')
      else if rq_method rq = cx_reply_question cx then
        ebind (parse_question_answers (pget params ''answers'')) (\<lambda>answers. Inr (QuestionReply request_id answers))
      else Inr (QuestionReject request_id))"

text \<open>The response to an exception, and whether the request is discarded.\<close>

definition callback_exception :: "string \<Rightarrow> call_exception \<Rightarrow> string rpc_response \<times> bool" where
  "callback_exception request_id exc =
     (let fc = \<lparr>fc_method = None, fc_session_id = None, fc_request_id = Some request_id, fc_detail = None\<rparr>
      in case exc of
           ValueException m \<Rightarrow> (RpcError (invalid_params_error m [(''type'', PStr ''INVALID_FIELD'')]), False)
         | StatusException status \<Rightarrow>
             (if status = 404 then (RpcError (interrupt_not_found_error (- 32004) request_id False), True)
              else (RpcError (upstream_http_error (- 32003) status fc), False))
         | HttpException \<Rightarrow> (RpcError (upstream_unreachable_error (- 32002) fc), False)
         | BudgetException e \<Rightarrow>
             (RpcError (upstream_unreachable_error (- 32002) (fc\<lparr>fc_detail := Some (limit_error_text e)\<rparr>)), False)
         | Cancellation \<Rightarrow> (HandlerCancelled, False)
         | PermissionException \<Rightarrow> (RpcError (internal_error []), False)
         | ContractException m \<Rightarrow> (RpcError (internal_error m), False)
         | OtherException m \<Rightarrow> (RpcError (internal_error m), False))"

definition callback_target :: "pdict \<Rightarrow> rpc_error + string \<times> string option \<times> string option" where
  "callback_target params =
     ebind (callback_request_id params) (\<lambda>request_id.
     ebind (extract_directory_from_metadata params) (\<lambda>directory.
     ebind (extract_workspace_id_from_metadata params) (\<lambda>workspace_id.
     Inr (request_id, directory, workspace_id))))"

definition send_callback ::
  "handler_context \<Rightarrow> 's interrupt_repo \<Rightarrow> rpc_request \<Rightarrow> string \<Rightarrow> up_op \<Rightarrow> string option \<Rightarrow> string option \<Rightarrow> 's
     \<Rightarrow> string rpc_response \<times> 's" where
  "send_callback cx R rq request_id op directory workspace_id s =
     (case call_upstream cx op directory workspace_id of
        Inr _ \<Rightarrow> (build_success_response (rq_has_id rq) request_id, discard_interrupt_request R request_id s)
      | Inl exc \<Rightarrow>
          (let (response, gone) = callback_exception request_id exc
           in (response, if gone then discard_interrupt_request R request_id s else s)))"

definition handle_interrupt_callback ::
  "handler_context \<Rightarrow> 's interrupt_repo \<Rightarrow> time \<Rightarrow> rpc_request \<Rightarrow> pdict \<Rightarrow> 's
     \<Rightarrow> (string rpc_response \<times> http_call list) \<times> 's" where
  "handle_interrupt_callback cx R t rq params s =
     (case callback_target params of
        Inl e \<Rightarrow> ((RpcError e, []), s)
      | Inr (request_id, directory, workspace_id) \<Rightarrow>
          (let (resolved, s1) = resolve_interrupt_request R t request_id s
           in case binding_error cx rq request_id resolved of
                Some e \<Rightarrow> ((RpcError e, []), s1)
              | None \<Rightarrow>
                  (case reject_unknown_fields (callback_fields cx rq) params of
                     Some e \<Rightarrow> ((RpcError e, []), s1)
                   | None \<Rightarrow>
                       (case callback_op cx rq request_id params of
                          Inl m \<Rightarrow> ((fst (callback_exception request_id (ValueException m)), []), s1)
                        | Inr op \<Rightarrow>
                            (let (response, s2) = send_callback cx R rq request_id op directory workspace_id s1
                             in ((response, [up_call (cx_up cx) op directory workspace_id]), s2))))))"

section \<open>Listings\<close>

definition binding_to_result_item :: "interrupt_binding \<Rightarrow> pdict" where
  "binding_to_result_item b =
     (let opt = (\<lambda>v. case v of None \<Rightarrow> PNone | Some s \<Rightarrow> PStr s)
      in [(''request_id'', PStr (ib_request_id b)), (''session_id'', opt (ib_session_id b)),
          (''interrupt_type'', opt (ib_type b)), (''task_id'', opt (ib_task_id b)),
          (''context_id'', opt (ib_context_id b)),
          (''details'', case ib_details b of None \<Rightarrow> PNone | Some d \<Rightarrow> PDict d),
          (''expires_at'', PFloat (ib_expires_at b))])"

definition handle_interrupt_query ::
  "handler_context \<Rightarrow> 's interrupt_repo \<Rightarrow> time \<Rightarrow> rpc_request \<Rightarrow> pdict \<Rightarrow> 's \<Rightarrow> pdict list rpc_response \<times> 's" where
  "handle_interrupt_query cx R t rq params s =
     (case reject_unknown_fields [] params of
        Some e \<Rightarrow> (RpcError e, s)
      | None \<Rightarrow>
          (case stripped (rq_identity rq) of
             None \<Rightarrow> (build_success_response (rq_has_id rq) [], s)
           | Some identity \<Rightarrow>
               (let (items, s') = list_interrupt_requests R t identity
                      (Some (if rq_method rq = cx_list_permissions cx then ''permission'' else ''question'')) s
                in (build_success_response (rq_has_id rq) (map binding_to_result_item items), s'))))"

section \<open>Safety of the callbacks\<close>

text \<open>
  What must hold for the calls of a callback, where \<open>pending\<close> are the pending requests: at most one
  call, a valid reply to a pending request of the right type that belongs to no other caller.
\<close>

definition callback_authorised ::
  "handler_context \<Rightarrow> rpc_request \<Rightarrow> pdict \<Rightarrow> (string \<Rightarrow> interrupt_binding option) \<Rightarrow> http_call list \<Rightarrow> bool" where
  "callback_authorised cx rq params pending calls \<longleftrightarrow> calls = [] \<or>
     (case callback_request_id params of
        Inl _ \<Rightarrow> False
      | Inr request_id \<Rightarrow>
          (case (pending request_id, callback_op cx rq request_id params,
                 extract_directory_from_metadata params, extract_workspace_id_from_metadata params) of
             (Some b, Inr op, Inr directory, Inr workspace_id) \<Rightarrow>
               calls = [up_call (cx_up cx) op directory workspace_id] \<and>
               ib_type b = Some (expected_type cx rq) \<and>
               \<not> foreign (rq_identity rq) (ib_identity b) \<and>
               \<not> foreign (rq_credential_id rq) (ib_credential_id b)
           | _ \<Rightarrow> False))"

text \<open>The requests a callback removes: its own, when it was answered or OpenCode does not know it.\<close>

definition callback_settles :: "string rpc_response \<Rightarrow> http_call list \<Rightarrow> string \<Rightarrow> bool" where
  "callback_settles res calls request_id \<longleftrightarrow> calls \<noteq> [] \<and>
     (res = NoContent \<or> res = RpcResult request_id \<or>
      res = RpcError (interrupt_not_found_error (- 32004) request_id False))"

lemma request_id_strip: "callback_request_id params = Inr rid \<Longrightarrow> py_strip rid = rid \<and> rid \<noteq> []"
  by (auto simp: callback_request_id_def split: pyval.splits if_splits)

lemma binding_ok:
  "binding_error cx rq rid resolved = None \<longleftrightarrow>
    (\<exists>b. resolved = (Active, Some b) \<and> ib_type b = Some (expected_type cx rq) \<and>
      \<not> foreign (rq_identity rq) (ib_identity b) \<and> \<not> foreign (rq_credential_id rq) (ib_credential_id b))"
  by (auto simp: binding_error_def split: interrupt_status.splits option.splits prod.splits)

lemma target_cases:
  "callback_target params = Inr (rid, d, w) \<longleftrightarrow> callback_request_id params = Inr rid \<and>
    extract_directory_from_metadata params = Inr d \<and> extract_workspace_id_from_metadata params = Inr w"
  by (auto simp: callback_target_def ebind_Inr_iff)

text \<open>A callback that sends nothing only resolves.\<close>

lemma callback_silent:
  assumes "handle_interrupt_callback cx R t rq params s = ((res, []), s')"
  shows "s' = s \<or> (\<exists>rid. s' = snd (resolve_interrupt_request R t rid s))"
proof (cases "callback_target params")
  case (Inr c)
  obtain rid d w where c: "c = (rid, d, w)" by (cases c)
  obtain resolved s1 where r: "resolve_interrupt_request R t rid s = (resolved, s1)" by fastforce
  have "s' = s1"
    using assms by (auto simp: handle_interrupt_callback_def Inr c r split: option.splits sum.splits prod.splits)
  then have "s' = snd (resolve_interrupt_request R t rid s)" by (simp add: r)
  then show ?thesis by blast
qed (use assms in \<open>simp add: handle_interrupt_callback_def\<close>)

lemma callback_cases:
  assumes "handle_interrupt_callback cx R t rq params s = ((res, calls), s')" "calls \<noteq> []"
  obtains rid d w op b s1 where "callback_target params = Inr (rid, d, w)"
    "callback_op cx rq rid params = Inr op" "resolve_interrupt_request R t rid s = ((Active, Some b), s1)"
    "ib_type b = Some (expected_type cx rq)" "\<not> foreign (rq_identity rq) (ib_identity b)"
    "\<not> foreign (rq_credential_id rq) (ib_credential_id b)"
    "calls = [up_call (cx_up cx) op d w]" "send_callback cx R rq rid op d w s1 = (res, s')"
proof -
  obtain rid d w where a: "callback_target params = Inr (rid, d, w)"
    using assms by (auto simp: handle_interrupt_callback_def split: sum.split_asm)
  obtain resolved s1 where r: "resolve_interrupt_request R t rid s = (resolved, s1)" by fastforce
  have n: "binding_error cx rq rid resolved = None"
    using assms by (auto simp: handle_interrupt_callback_def a r split: option.split_asm)
  then obtain b where b: "resolved = (Active, Some b)" "ib_type b = Some (expected_type cx rq)"
    "\<not> foreign (rq_identity rq) (ib_identity b)" "\<not> foreign (rq_credential_id rq) (ib_credential_id b)"
    unfolding binding_ok by blast
  have u: "reject_unknown_fields (callback_fields cx rq) params = None"
    using assms n by (auto simp: handle_interrupt_callback_def a r split: option.split_asm)
  obtain op where op: "callback_op cx rq rid params = Inr op"
    using assms n u by (cases "callback_op cx rq rid params") (auto simp: handle_interrupt_callback_def a r)
  have "calls = [up_call (cx_up cx) op d w]" "send_callback cx R rq rid op d w s1 = (res, s')"
    using assms(1) n u op by (simp_all add: handle_interrupt_callback_def a r case_prod_unfold Let_def prod_eq_iff)
  then show thesis using that [OF a op r [unfolded b(1)] b(2-4)] by blast
qed

context interrupt_repository
begin

lemma callback_call_authorised:
  assumes "inv s" and h: "handle_interrupt_callback cx R t rq params s = ((res, calls), s')"
  shows "callback_authorised cx rq params (pending_at t s) calls"
proof (cases "calls = []")
  case False
  show ?thesis
  proof (rule callback_cases [OF h False])
    fix rid d w op b s1
    assume c: "callback_target params = Inr (rid, d, w)"
      "callback_op cx rq rid params = Inr op" "resolve_interrupt_request R t rid s = ((Active, Some b), s1)"
      "ib_type b = Some (expected_type cx rq)" "\<not> foreign (rq_identity rq) (ib_identity b)"
      "\<not> foreign (rq_credential_id rq) (ib_credential_id b)" "calls = [up_call (cx_up cx) op d w]"
    have r: "callback_request_id params = Inr rid" using c(1) by (simp add: target_cases)
    have "pending_at t s rid = Some b"
      using c(3) request_id_strip [OF r] resolve_binding [OF assms(1), of rid t]
      by (simp add: resolve_interrupt_request_def)
    then show "callback_authorised cx rq params (pending_at t s) calls"
      using c by (simp add: callback_authorised_def target_cases)
  qed
qed (simp add: callback_authorised_def)

lemma pending_after_resolve:
  "inv s \<Longrightarrow> t \<le> t' \<Longrightarrow> pending_at t' (snd (resolve_interrupt_request R t rid s)) x = pending_at t' s x"
  by (simp add: resolve_interrupt_request_def pending_resolve)

lemma inv_after_resolve: "inv s \<Longrightarrow> inv (snd (resolve_interrupt_request R t rid s))"
  by (simp add: resolve_interrupt_request_def inv_resolve)

lemma callback_pending:
  assumes "inv s" "t \<le> t'" and h: "handle_interrupt_callback cx R t rq params s = ((res, calls), s')"
  shows "pending_at t' s' x =
    (if callback_settles res calls x \<and> callback_request_id params = Inr x then None else pending_at t' s x)"
proof (cases "calls = []")
  case True
  then show ?thesis
    using callback_silent [OF h [unfolded True]] pending_after_resolve [OF assms(1,2)]
    by (auto simp: callback_settles_def)
next
  case False
  show ?thesis
  proof (rule callback_cases [OF h False])
    fix rid d w op b s1
    assume c: "callback_target params = Inr (rid, d, w)"
      "resolve_interrupt_request R t rid s = ((Active, Some b), s1)"
      and f: "send_callback cx R rq rid op d w s1 = (res, s')"
    have r: "callback_request_id params = Inr rid" using c(1) by (simp add: target_cases)
    have s1: "inv s1" "pending_at t' s1 x = pending_at t' s x"
      using c(2) pending_after_resolve [OF assms(1,2), of rid x] inv_after_resolve [OF assms(1), of t rid] by simp_all
    have "s' = (if callback_settles res calls rid then ir_discard R rid s1 else s1)"
      using f False request_id_strip [OF r]
      by (auto simp: send_callback_def callback_settles_def build_success_response_def callback_exception_def
          discard_interrupt_request_def Let_def interrupt_not_found_error_def upstream_http_error_def
          upstream_unreachable_error_def rpc_error_of_def internal_error_def invalid_params_error_def
          split: sum.splits if_splits call_exception.splits)
    then show ?thesis using s1 r by (auto simp: pending_discard)
  qed
qed

end

text \<open>
  A reply reaches OpenCode only for a request that is pending at that time, has the type the
  method answers, and is bound to no other identity or credential; the reply is the validated one,
  for both repositories.
\<close>

theorem callbacks_answer_own_interrupts:
  "(mi_inv m \<longrightarrow> callback_authorised cx rq params (mi_pending_at t m)
      (snd (fst (handle_interrupt_callback cx memory_interrupt_repo t rq params m)))) \<and>
   (di_inv s \<longrightarrow> callback_authorised cx rq params (di_pending_at t s)
      (snd (fst (handle_interrupt_callback cx database_interrupt_repo t rq params s))))"
  using mem_interrupt.callback_call_authorised db_interrupt.callback_call_authorised by (metis prod.collapse)

text \<open>
  A callback removes exactly the request it answered (or that OpenCode no longer knows): such a
  request is not pending afterwards, and every other request, and every request after a failed
  callback, stays as it was.
\<close>

theorem answered_interrupt_is_removed:
  assumes "t \<le> t'"
  shows "(mi_inv m \<and> handle_interrupt_callback cx memory_interrupt_repo t rq params m = ((res, calls), m') \<longrightarrow>
      mi_pending_at t' m' x =
        (if callback_settles res calls x \<and> callback_request_id params = Inr x then None else mi_pending_at t' m x)) \<and>
    (di_inv s \<and> handle_interrupt_callback cx database_interrupt_repo t rq params s = ((res, calls), s') \<longrightarrow>
      di_pending_at t' s' x =
        (if callback_settles res calls x \<and> callback_request_id params = Inr x then None else di_pending_at t' s x))"
  using mem_interrupt.callback_pending [OF _ assms] db_interrupt.callback_pending [OF _ assms] by blast

definition callback_context :: handler_context where
  "callback_context = sample_context (answers 200 (Some (PBool True)))"

definition alice_reply :: rpc_request where
  "alice_reply = sample_request ''a2a.interrupt.permission.reply'' ''alice'' []"

definition alice_asked :: db_interrupts where
  "alice_asked = di_remember 0 \<lparr>ra_request_id = ''r1'', ra_session_id = ''s1'', ra_type = ''permission'',
     ra_identity = Some ''alice'', ra_credential_id = None, ra_task_id = None, ra_context_id = None,
     ra_details = None, ra_ttl_seconds = None\<rparr> (di_new 100 100)"

definition once_params :: pdict where
  "once_params = [(''request_id'', PStr ''r1''), (''reply'', PStr ''Once'')]"

lemma di_inv_asked: "di_inv alice_asked"
  unfolding alice_asked_def
  using db_interrupt.inv_remember [unfolded database_interrupt_repo_def interrupt_repo.simps] di_inv_new by blast

theorem callbacks_answer_own_interrupts_witness:
  "map hc_path (snd (fst (handle_interrupt_callback callback_context database_interrupt_repo 5 alice_reply once_params
      alice_asked))) = [''/permission/r1/reply''] \<and>
   callback_authorised callback_context alice_reply once_params (di_pending_at 5 alice_asked)
     (snd (fst (handle_interrupt_callback callback_context database_interrupt_repo 5 alice_reply once_params alice_asked)))"
proof
  show "map hc_path (snd (fst (handle_interrupt_callback callback_context database_interrupt_repo 5 alice_reply once_params
      alice_asked))) = [''/permission/r1/reply'']" by code_simp
qed (use callbacks_answer_own_interrupts [where s = alice_asked] di_inv_asked in blast)

theorem answered_interrupt_is_removed_witness:
  "di_pending_at 6 (snd (handle_interrupt_callback callback_context database_interrupt_repo 5 alice_reply once_params
     alice_asked)) ''r1'' = None"
proof -
  obtain res calls s' where h: "handle_interrupt_callback callback_context database_interrupt_repo 5 alice_reply
      once_params alice_asked = ((res, calls), s')" by (metis prod.collapse)
  have "callback_settles (fst (fst (handle_interrupt_callback callback_context database_interrupt_repo 5 alice_reply
      once_params alice_asked))) (snd (fst (handle_interrupt_callback callback_context database_interrupt_repo 5
      alice_reply once_params alice_asked))) ''r1''" by code_simp
  moreover have "callback_request_id once_params = Inr ''r1''" by code_simp
  moreover have "(5::rat) \<le> 6" by simp
  ultimately show ?thesis
    using answered_interrupt_is_removed [of 5 6, where s = alice_asked and s' = s'] h di_inv_asked by simp
qed

section \<open>Privacy of the listings\<close>

context interrupt_repository
begin

lemma listed_items:
  assumes "inv s" and "handle_interrupt_query cx R t rq params s = (RpcResult items, s')"
  shows "set items = (case stripped (rq_identity rq) of
      None \<Rightarrow> {}
    | Some i \<Rightarrow> binding_to_result_item ` {b. \<exists>rid. pending_at t s rid = Some b \<and> ib_identity b = Some i \<and>
        ib_type b = Some (if rq_method rq = cx_list_permissions cx then ''permission'' else ''question'')})"
proof (cases "stripped (rq_identity rq)")
  case None
  then show ?thesis
    using assms(2) by (auto simp: handle_interrupt_query_def build_success_response_def split: option.splits if_splits)
next
  case (Some i)
  then have i: "py_strip i = i" "i \<noteq> []" by (auto simp: stripped_def nonempty_def split: option.splits if_splits)
  let ?ty = "if rq_method rq = cx_list_permissions cx then ''permission'' else ''question''"
  have ty: "py_strip ?ty = ?ty" by (auto simp: py_strip_fixed py_space_def)
  have "items = map binding_to_result_item (fst (ir_list_pending R t i (Some ?ty) s))"
    using assms(2) Some i
    by (auto simp: handle_interrupt_query_def build_success_response_def list_interrupt_requests_def
        split: option.splits if_splits prod.splits)
  then show ?thesis
    by (simp only: set_map list_set [OF assms(1)] Some option.simps) (auto simp: matches_def ty)
qed

end

text \<open>
  C16: a listing shows a caller exactly the pending requests of the asked type that are bound to the
  caller's own identity, and a caller without an identity sees none, for both repositories.
\<close>

theorem listings_are_private:
  "(mi_inv m \<and> handle_interrupt_query cx memory_interrupt_repo t rq params m = (RpcResult items, m') \<longrightarrow>
      set items = (case stripped (rq_identity rq) of
          None \<Rightarrow> {}
        | Some i \<Rightarrow> binding_to_result_item ` {b. \<exists>rid. mi_pending_at t m rid = Some b \<and> ib_identity b = Some i \<and>
            ib_type b = Some (if rq_method rq = cx_list_permissions cx then ''permission'' else ''question'')})) \<and>
   (di_inv s \<and> handle_interrupt_query cx database_interrupt_repo t rq params s = (RpcResult items, s') \<longrightarrow>
      set items = (case stripped (rq_identity rq) of
          None \<Rightarrow> {}
        | Some i \<Rightarrow> binding_to_result_item ` {b. \<exists>rid. di_pending_at t s rid = Some b \<and> ib_identity b = Some i \<and>
            ib_type b = Some (if rq_method rq = cx_list_permissions cx then ''permission'' else ''question'')}))"
  using mem_interrupt.listed_items db_interrupt.listed_items by blast

theorem listings_are_private_witness:
  "\<exists>items. fst (handle_interrupt_query callback_context database_interrupt_repo 5
       (alice_reply\<lparr>rq_method := ''opencode.permissions.list''\<rparr>) [] alice_asked) = RpcResult items \<and> length items = 1 \<and>
     set items = binding_to_result_item ` {b. \<exists>rid. di_pending_at 5 alice_asked rid = Some b \<and>
       ib_identity b = Some ''alice'' \<and> ib_type b = Some ''permission''}"
proof -
  let ?rq = "alice_reply\<lparr>rq_method := ''opencode.permissions.list''\<rparr>"
  obtain r s' where h: "handle_interrupt_query callback_context database_interrupt_repo 5 ?rq [] alice_asked = (r, s')"
    by fastforce
  have "(case fst (handle_interrupt_query callback_context database_interrupt_repo 5 ?rq [] alice_asked) of
      RpcResult items \<Rightarrow> length items = 1 | _ \<Rightarrow> False)" by code_simp
  then obtain items where r: "r = RpcResult items" "length items = 1" using h by (cases r) simp_all
  have "stripped (rq_identity ?rq) = Some ''alice''" "rq_method ?rq = cx_list_permissions callback_context" by code_simp+
  then show ?thesis
    using listings_are_private [where s = alice_asked and rq = ?rq and items = items] h r di_inv_asked by simp
qed

end
