(* ===== verification/Protocol_Versions.thy ===== *)
theory Protocol_Versions
  imports Py_Values
begin

text \<open>
  The negotiation of the A2A protocol version (\<open>protocol_versions.py\<close>).  An \<open>Inl\<close> of the
  normalization is the text of its \<open>ValueError\<close>.
\<close>

section \<open>Normalization\<close>

fun split_at :: "char \<Rightarrow> string \<Rightarrow> string list" where
  "split_at c [] = [[]]"
| "split_at c (x # xs) =
     (if x = c then [] # split_at c xs
      else case split_at c xs of [] \<Rightarrow> [[x]] | p # ps \<Rightarrow> (x # p) # ps)"

definition digits :: "string \<Rightarrow> bool" where
  "digits s \<longleftrightarrow> s \<noteq> [] \<and> list_all is_digit s"

text \<open>A full match of the pattern: two or three runs of digits, separated by dots.\<close>

definition normalize_protocol_version :: "string \<Rightarrow> string + string" where
  "normalize_protocol_version value =
     (let normalized = py_strip value; parts = split_at (CHR ''.'') normalized
      in if normalized = [] then Inl ''Protocol version must be a non-empty string.''
         else if (length parts = 2 \<or> length parts = 3) \<and> list_all digits parts
         then Inr (parts ! 0 @ ''.'' @ parts ! 1)
         else Inl ''Protocol version must use Major.Minor or Major.Minor.Patch format.'')"

definition normalize_protocol_versions :: "string list \<Rightarrow> string + string list" where
  "normalize_protocol_versions values =
     ebind (emap normalize_protocol_version values) (\<lambda>vs.
     let normalized = rev (remdups (rev vs))
     in if normalized = [] then Inl ''At least one supported protocol version must be declared.''
        else Inr normalized)"

section \<open>Negotiation\<close>

record negotiated_version =
  nv_requested :: string
  nv_negotiated :: string
  nv_explicit :: bool

text \<open>The other \<open>ValueError\<close>s are those of a badly configured server.\<close>

datatype version_error =
    UnsupportedVersion string "string list" string
  | BadConfiguration string

definition or_blank :: "string option \<Rightarrow> string" where
  "or_blank v = (case v of None \<Rightarrow> [] | Some s \<Rightarrow> py_strip s)"

definition requested_version :: "string option \<Rightarrow> string option \<Rightarrow> string \<Rightarrow> string" where
  "requested_version header_value query_value default_version =
     (if or_blank header_value \<noteq> [] then or_blank header_value
      else if or_blank query_value \<noteq> [] then or_blank query_value
      else default_version)"

definition negotiate_protocol_version ::
  "string option \<Rightarrow> string option \<Rightarrow> string \<Rightarrow> string list \<Rightarrow> version_error + negotiated_version" where
  "negotiate_protocol_version header_value query_value default_version supported =
     (case normalize_protocol_version default_version of
        Inl e \<Rightarrow> Inl (BadConfiguration e)
      | Inr normalized_default \<Rightarrow>
          (case normalize_protocol_versions supported of
             Inl e \<Rightarrow> Inl (BadConfiguration e)
           | Inr normalized_supported \<Rightarrow>
               (let raw_requested = requested_version header_value query_value normalized_default
                in case normalize_protocol_version raw_requested of
                     Inl e \<Rightarrow> Inl (UnsupportedVersion raw_requested normalized_supported normalized_default)
                   | Inr v \<Rightarrow>
                       (if v \<notin> set normalized_supported then
                          Inl (UnsupportedVersion v normalized_supported normalized_default)
                        else Inr \<lparr>nv_requested = v, nv_negotiated = v,
                          nv_explicit = (or_blank header_value \<noteq> [] \<or> or_blank query_value \<noteq> [])\<rparr>))))"

section \<open>Normal forms\<close>

lemma split_at_none: "c \<notin> set s \<Longrightarrow> split_at c s = [s]"
  by (induction s) auto

lemma split_at_append: "c \<notin> set s \<Longrightarrow> split_at c (s @ c # t) = s # split_at c t"
  by (induction s) (auto split: list.split)

lemma digits_no_dot: "digits s \<Longrightarrow> CHR ''.'' \<notin> set s"
  by (auto simp: digits_def list_all_iff is_digit_def Let_def dest!: bspec)

lemma digits_no_space: "digits s \<Longrightarrow> list_all (\<lambda>c. \<not> py_space c) s"
  by (auto simp: digits_def list_all_iff is_digit_def py_space_def Let_def)

lemma strip_unspaced: "list_all (\<lambda>c. \<not> py_space c) s \<Longrightarrow> py_strip s = s"
  by (simp add: py_strip_fixed list_all_iff)

lemma normal_form:
  assumes "digits a" "digits b"
  shows "normalize_protocol_version (a @ ''.'' @ b) = Inr (a @ ''.'' @ b)"
proof -
  have sp: "split_at (CHR ''.'') (a @ ''.'' @ b) = [a, b]"
    using split_at_append [OF digits_no_dot [OF assms(1)], of b] split_at_none [OF digits_no_dot [OF assms(2)]] by simp
  have "list_all (\<lambda>c. \<not> py_space c) (a @ ''.'' @ b)"
    using digits_no_space [OF assms(1)] digits_no_space [OF assms(2)] by (simp add: py_space_def)
  then show ?thesis
    using assms sp by (simp add: normalize_protocol_version_def strip_unspaced Let_def)
qed

lemma normalized_form:
  assumes "normalize_protocol_version s = Inr v"
  obtains a b where "digits a" "digits b" "v = a @ ''.'' @ b"
proof -
  let ?p = "split_at (CHR ''.'') (py_strip s)"
  have p: "length ?p = 2 \<or> length ?p = 3" "list_all digits ?p" "v = ?p ! 0 @ ''.'' @ ?p ! 1"
    using assms by (auto simp: normalize_protocol_version_def Let_def split: if_splits)
  then have "digits (?p ! 0)" "digits (?p ! 1)" by (auto simp: list_all_length)
  then show thesis using p(3) that by blast
qed

lemma normalize_idem: "normalize_protocol_version s = Inr v \<Longrightarrow> normalize_protocol_version v = Inr v"
  by (rule normalized_form) (auto simp: normal_form simp del: append_Cons)

lemma emap_set: "emap f xs = Inr ys \<Longrightarrow> set ys = {y. \<exists>x \<in> set xs. f x = Inr y}"
proof (induction xs arbitrary: ys)
  case (Cons x xs)
  then show ?case by (auto simp: ebind_Inr_iff)
qed simp



end
