(* ===== verification/Error_Adaptation.thy ===== *)
theory Error_Adaptation
  imports Rpc_Common Protocol_Versions
begin

text \<open>
  The error format of protocol version 1 (the first half of \<open>jsonrpc/error_responses.py\<close>): JSON-RPC
  errors and HTTP error bodies are rewritten for clients that negotiated a version \<open>1.x\<close>.  The names
  that are converted (error types, field names) are ASCII; \<open>value_text\<close> is the text that \<open>str\<close> or
  \<open>json.dumps\<close> gives for a value that is no string.
\<close>

section \<open>Names\<close>

text \<open>The error is the text of the \<open>ValueError\<close> for a version that is not well formed.\<close>

definition protocol_uses_v1_error_format :: "string \<Rightarrow> string + bool" where
  "protocol_uses_v1_error_format version =
     ebind (normalize_protocol_version version) (\<lambda>v. Inr (take 2 v = ''1.''))"

definition is_upper :: "char \<Rightarrow> bool" where
  "is_upper c = (let n = (of_char c :: nat) in 65 \<le> n \<and> n \<le> 90)"

definition is_lower :: "char \<Rightarrow> bool" where
  "is_lower c = (let n = (of_char c :: nat) in 97 \<le> n \<and> n \<le> 122)"

definition upper_char :: "char \<Rightarrow> char" where
  "upper_char c = (if is_lower c then char_of ((of_char c :: nat) - 32) else c)"

fun snake_chars :: "bool \<Rightarrow> string \<Rightarrow> string" where
  "snake_chars previous_was_lower [] = []"
| "snake_chars previous_was_lower (c # cs) =
     (if is_upper c \<and> previous_was_lower then [CHR ''_''] else [])
     @ (if c = CHR '' '' \<or> c = CHR ''-'' then CHR ''_'' # snake_chars False cs
        else upper_char c # snake_chars (is_lower c) cs)"

definition strip_underscores :: "string \<Rightarrow> string" where
  "strip_underscores s = rev (dropWhile (\<lambda>c. c = CHR ''_'') (rev (dropWhile (\<lambda>c. c = CHR ''_'') s)))"

definition to_upper_snake_case :: "string \<Rightarrow> string" where
  "to_upper_snake_case name = strip_underscores (snake_chars False name)"

definition capitalized :: "string \<Rightarrow> string" where
  "capitalized part = (case part of [] \<Rightarrow> [] | c # cs \<Rightarrow> upper_char c # cs)"

text \<open>A name of underscores only has no head to unpack; no field has such a name.\<close>

definition to_lower_camel_case :: "string \<Rightarrow> string" where
  "to_lower_camel_case name =
     (if CHR ''_'' \<notin> set name then name
      else case filter (\<lambda>part. part \<noteq> []) (split_at (CHR ''_'') name) of
        [] \<Rightarrow> []
      | head # tail \<Rightarrow> head @ concat (map capitalized tail))"

text \<open>A dictionary built from entries in order: a later entry of a key replaces the earlier one.\<close>

definition dict_of_entries :: "(string \<times> 'a) list \<Rightarrow> (string, 'a) dict" where
  "dict_of_entries es = fold (\<lambda>(k, v) d. dict_set k v d) es []"

primrec camelize :: "pyval \<Rightarrow> pyval" where
  "camelize PNone = PNone"
| "camelize (PBool b) = PBool b"
| "camelize (PInt n) = PInt n"
| "camelize (PFloat r) = PFloat r"
| "camelize (PStr s) = PStr s"
| "camelize (PList xs) = PList (map camelize xs)"
| "camelize (PDict d) = PDict (dict_of_entries (map (map_prod to_lower_camel_case camelize) d))"

section \<open>Details\<close>

fun stringify_metadata_value :: "(pyval \<Rightarrow> string) \<Rightarrow> pyval \<Rightarrow> string" where
  "stringify_metadata_value value_text (PStr s) = s"
| "stringify_metadata_value value_text v = value_text v"

definition build_error_info_detail :: "(pyval \<Rightarrow> string) \<Rightarrow> string \<Rightarrow> pdict \<Rightarrow> pdict" where
  "build_error_info_detail value_text why metadata =
     [(''@type'', PStr ''type.googleapis.com/google.rpc.ErrorInfo''),
      (''reason'', PStr (to_upper_snake_case why)), (''domain'', PStr ''a2a-protocol.org'')]
     @ (if metadata = [] then []
        else [(''metadata'', PDict (dict_of_entries
               (map (\<lambda>(k, v). (to_lower_camel_case k, PStr (stringify_metadata_value value_text v)))
                 (filter (\<lambda>(k, v). v \<noteq> PNone) metadata))))])"

definition build_context_detail :: "string \<Rightarrow> pdict \<Rightarrow> pdict" where
  "build_context_detail kind payload =
     dict_of_entries ((''@type'', PStr (''type.googleapis.com/opencode_a2a.'' @ kind))
       # dict_of_entries (map (map_prod to_lower_camel_case camelize) payload))"

section \<open>JSON-RPC errors\<close>

definition standard_jsonrpc_error_messages :: "(int, string) dict" where
  "standard_jsonrpc_error_messages =
     [(- 32700, ''Invalid JSON payload''), (- 32600, ''Request payload validation error''),
      (- 32601, ''Method not found''), (- 32602, ''Invalid parameters''), (- 32603, ''Internal error'')]"

record wire_error =
  we_code :: int
  we_message :: string
  we_data :: "pyval option"

definition plain_error :: "rpc_error \<Rightarrow> wire_error" where
  "plain_error e = \<lparr>we_code = er_code e, we_message = er_message e, we_data = map_option PDict (er_data e)\<rparr>"

definition metadata_from_error :: "rpc_error \<Rightarrow> pdict" where
  "metadata_from_error e = (case er_data e of None \<Rightarrow> [] | Some d \<Rightarrow> filter (\<lambda>(k, v). k \<noteq> ''type'') d)"

text \<open>\<open>class_name\<close> is the class of the error object, the source of a reason when the data has none.\<close>

definition reason_from_error :: "string \<Rightarrow> rpc_error \<Rightarrow> string option" where
  "reason_from_error class_name e =
     (let class_reason =
        (if suffix ''Error'' class_name \<and> class_name \<noteq> ''JSONRPCError''
         then Some (take (length class_name - 5) class_name) else None)
      in case er_data e of
           None \<Rightarrow> class_reason
         | Some d \<Rightarrow>
             (case pget d ''type'' of
                PStr t \<Rightarrow> if py_strip t \<noteq> [] then Some t else class_reason
              | _ \<Rightarrow> class_reason))"

definition v1_error :: "(pyval \<Rightarrow> string) \<Rightarrow> string \<Rightarrow> rpc_error \<Rightarrow> wire_error" where
  "v1_error value_text class_name e =
     (case dict_get standard_jsonrpc_error_messages (er_code e) of
        Some message \<Rightarrow>
          \<lparr>we_code = er_code e, we_message = message,
           we_data = (case er_data e of None \<Rightarrow> None | Some d \<Rightarrow> Some (camelize (PDict (metadata_from_error e))))\<rparr>
      | None \<Rightarrow>
          (let metadata = metadata_from_error e;
               details = (case reason_from_error class_name e of
                            None \<Rightarrow> [] | Some r \<Rightarrow> [build_error_info_detail value_text r metadata])
                 @ (if metadata = [] then [] else [build_context_detail ''ErrorContext'' metadata])
           in \<lparr>we_code = er_code e, we_message = er_message e,
               we_data = (if details = [] then None else Some (PList (map PDict details)))\<rparr>))"

definition adapt_jsonrpc_error_for_protocol ::
  "(pyval \<Rightarrow> string) \<Rightarrow> string \<Rightarrow> string \<Rightarrow> rpc_error \<Rightarrow> string + wire_error" where
  "adapt_jsonrpc_error_for_protocol value_text version class_name e =
     ebind (protocol_uses_v1_error_format version) (\<lambda>v1.
     Inr (if v1 then v1_error value_text class_name e else plain_error e))"

section \<open>HTTP errors\<close>

definition v1_http_error ::
  "(pyval \<Rightarrow> string) \<Rightarrow> int \<Rightarrow> string \<Rightarrow> string \<Rightarrow> string option \<Rightarrow> pdict \<Rightarrow> pdict" where
  "v1_http_error value_text status_code status message why metadata =
     (let details = (case why of None \<Rightarrow> [] | Some r \<Rightarrow> [build_error_info_detail value_text r metadata])
            @ (if metadata = [] then [] else [build_context_detail ''HttpErrorContext'' metadata])
      in [(''error'', PDict ([(''code'', PInt status_code), (''status'', PStr status), (''message'', PStr message)]
           @ (if details = [] then [] else [(''details'', PList (map PDict details))])))])"

definition build_http_error_body ::
  "(pyval \<Rightarrow> string) \<Rightarrow> string \<Rightarrow> int \<Rightarrow> string \<Rightarrow> string \<Rightarrow> pdict \<Rightarrow> string option \<Rightarrow> pdict \<Rightarrow> string + pdict" where
  "build_http_error_body value_text version status_code status message legacy_payload why metadata =
     ebind (protocol_uses_v1_error_format version) (\<lambda>v1.
     Inr (if v1 then v1_http_error value_text status_code status message why metadata else legacy_payload))"

section \<open>What a client sees\<close>

text \<open>A name in upper snake case: no lower case letter, blank or hyphen, and no underscore at an end.\<close>

definition upper_snake :: "string \<Rightarrow> bool" where
  "upper_snake s \<longleftrightarrow> s \<noteq> [] \<and> list_all (\<lambda>c. \<not> is_lower c \<and> c \<noteq> CHR '' '' \<and> c \<noteq> CHR ''-'' \<and> \<not> py_space c) s \<and>
     hd s \<noteq> CHR ''_'' \<and> last s \<noteq> CHR ''_''"

lemma snake_chars_upper:
  "list_all (\<lambda>c. \<not> is_lower c \<and> c \<noteq> CHR '' '' \<and> c \<noteq> CHR ''-'' \<and> \<not> py_space c) s \<Longrightarrow> snake_chars False s = s"
  by (induction s) (simp_all add: upper_char_def)

lemma upper_snake_fixed:
  assumes "upper_snake s"
  shows "to_upper_snake_case s = s"
proof -
  have "dropWhile (\<lambda>c. c = CHR ''_'') s = s" using assms by (cases s) (auto simp: upper_snake_def)
  moreover have "dropWhile (\<lambda>c. c = CHR ''_'') (rev s) = rev s"
    using assms by (cases s rule: rev_cases) (auto simp: upper_snake_def)
  ultimately show ?thesis
    using assms snake_chars_upper [of s] by (simp add: to_upper_snake_case_def strip_underscores_def upper_snake_def)
qed

lemma upper_snake_strip: "upper_snake s \<Longrightarrow> py_strip s = s \<and> s \<noteq> []"
  by (auto simp: upper_snake_def list_all_iff intro: py_strip_fixed)



end
