(* ===== verification/Rpc_Dispatch.thy ===== *)
theory Rpc_Dispatch
  imports Session_Lifecycle Rpc_Queries Workspace_Control Interrupt_Callbacks Error_Adaptation
begin

text \<open>
  The registry of the extension methods (\<open>jsonrpc/dispatch.py\<close>), the routing of a JSON-RPC request
  to a handler, to the SDK or to an error (\<open>jsonrpc/application.py\<close>), and the whole extension
  interface over the states of the sessions and of the interrupt requests.
\<close>

section \<open>The registry\<close>

datatype handler_id =
    Lifecycle_Handler | Listing_Handler | Discovery_Handler | Interrupt_Query_Handler
  | Workspace_Handler | Control_Handler | Callback_Handler

record method_spec =
  ms_name :: string
  ms_methods :: "string list"  \<comment> \<open>a set: without duplicates\<close>
  ms_handler :: handler_id

fun register_methods ::
  "method_spec \<Rightarrow> string list \<Rightarrow> (string, method_spec) dict \<Rightarrow> string + (string, method_spec) dict" where
  "register_methods spec [] d = Inr d"
| "register_methods spec (m # ms) d =
     (case dict_get d m of
        Some existing \<Rightarrow>
          Inl (''Extension method '' @ quoted m @ '' registered by both '' @ quoted (ms_name existing) @ '' and ''
            @ quoted (ms_name spec))
      | None \<Rightarrow> register_methods spec ms (dict_set m spec d))"

fun register_specs :: "method_spec list \<Rightarrow> (string, method_spec) dict \<Rightarrow> string + (string, method_spec) dict" where
  "register_specs [] d = Inr d"
| "register_specs (spec # specs) d =
     ebind (register_methods spec (ms_methods spec) d) (\<lambda>d'. register_specs specs d')"

definition spec_of :: "string \<Rightarrow> string list \<Rightarrow> handler_id \<Rightarrow> method_spec" where
  "spec_of name methods handler = \<lparr>ms_name = name, ms_methods = remdups methods, ms_handler = handler\<rparr>"

definition optional_methods :: "string option list \<Rightarrow> string list" where
  "optional_methods ms = List.map_filter (\<lambda>m. m) ms"

definition extension_method_specs :: "handler_context \<Rightarrow> method_spec list" where
  "extension_method_specs cx =
     [spec_of ''session_lifecycle''
        [cx_session_status cx, cx_get_session cx, cx_get_session_children cx, cx_get_session_todo cx,
         cx_get_session_diff cx, cx_get_session_message cx, cx_fork_session cx, cx_share_session cx,
         cx_unshare_session cx, cx_summarize_session cx, cx_revert_session cx, cx_unrevert_session cx]
        Lifecycle_Handler,
      spec_of ''session_listing'' [cx_list_sessions cx, cx_get_session_messages cx] Listing_Handler,
      spec_of ''provider_discovery'' [cx_list_providers cx, cx_list_models cx] Discovery_Handler,
      spec_of ''interrupt_query'' [cx_list_permissions cx, cx_list_questions cx] Interrupt_Query_Handler,
      spec_of ''workspace_control''
        ([cx_list_projects cx, cx_get_current_project cx, cx_list_workspaces cx, cx_list_worktrees cx]
         @ optional_methods [cx_create_workspace cx, cx_remove_workspace cx, cx_create_worktree cx,
             cx_remove_worktree cx, cx_reset_worktree cx])
        Workspace_Handler,
      spec_of ''session_control'' ([cx_prompt_async cx, cx_command cx] @ optional_methods [cx_shell cx]) Control_Handler,
      spec_of ''interrupt_callback'' [cx_reply_permission cx, cx_reply_question cx, cx_reject_question cx]
        Callback_Handler]"

definition build_extension_method_registry :: "handler_context \<Rightarrow> string + (string, method_spec) dict" where
  "build_extension_method_registry cx = register_specs (extension_method_specs cx) []"

section \<open>Routing a request\<close>

text \<open>What the SDK's request model makes of a body.\<close>

record jsonrpc_request =
  jr_method :: string
  jr_has_id :: bool
  jr_params :: pyval

datatype routed =
    Delegated           \<comment> \<open>to the SDK's application\<close>
  | Refused rpc_error
  | Dropped             \<comment> \<open>status 204\<close>
  | Dispatched handler_id pdict

definition route_parsed ::
  "(string, method_spec) dict \<Rightarrow> string list \<Rightarrow> string list \<Rightarrow> string \<Rightarrow> jsonrpc_request \<Rightarrow> routed" where
  "route_parsed registry core supported version rq =
     (case dict_get registry (jr_method rq) of
        None \<Rightarrow>
          (if jr_method rq \<in> set core then Delegated
           else if \<not> jr_has_id rq then Dropped
           else Refused (method_not_supported_error (jr_method rq) supported version))
      | Some spec \<Rightarrow>
          (let params = (if truthy (jr_params rq) then jr_params rq else PDict [])
           in case params of
                PDict d \<Rightarrow> Dispatched (ms_handler spec) d
              | _ \<Rightarrow> Refused \<lparr>er_code = - 32602, er_message = ''params must be an object'', er_data = None\<rparr>))"

text \<open>
  \<open>body\<close> is the decoded JSON, \<open>None\<close> when reading or decoding fails; \<open>validate\<close> is the SDK's model, and
  \<open>length_ok\<close> the SDK's check of the content length.
\<close>

definition route_request ::
  "(string, method_spec) dict \<Rightarrow> string list \<Rightarrow> string list \<Rightarrow> string \<Rightarrow> (pyval \<Rightarrow> jsonrpc_request option) \<Rightarrow> bool
     \<Rightarrow> pyval option \<Rightarrow> routed" where
  "route_request registry core supported version validate length_ok body =
     (case body of
        None \<Rightarrow> Delegated
      | Some v \<Rightarrow>
          (if \<not> length_ok then
             Refused \<lparr>er_code = - 32600, er_message = ''Payload too large'', er_data = None\<rparr>
           else case validate v of
             None \<Rightarrow> Delegated
           | Some rq \<Rightarrow> route_parsed registry core supported version rq))"

section \<open>The extension interface\<close>

datatype reply =
    Lifecycle_Reply "lifecycle_result rpc_response"
  | Listing_Reply "query_result rpc_response"
  | Discovery_Reply "provider_listing rpc_response"
  | Interrupts_Reply "pdict list rpc_response"
  | Workspace_Reply "workspace_result rpc_response"
  | Control_Reply "control_result rpc_response"
  | Callback_Reply "string rpc_response"

text \<open>
  The call of the handler: \<open>s\<close> is the state of the sessions and \<open>i\<close> that of the interrupt requests;
  \<open>clk 0\<close> is also the time at which a callback or an interrupt query reads its repository.
\<close>

definition run_handler ::
  "handler_context \<Rightarrow> 's session_repo \<Rightarrow> 'i interrupt_repo \<Rightarrow> (nat \<Rightarrow> time) \<Rightarrow> handler_id \<Rightarrow> rpc_request \<Rightarrow> pdict
     \<Rightarrow> 's \<times> 'i \<Rightarrow> (reply \<times> http_call list) \<times> 's \<times> 'i" where
  "run_handler cx R Q clk h rq params = (\<lambda>(s, i).
     case h of
       Lifecycle_Handler \<Rightarrow>
         (let ((r, calls), s') = handle_session_lifecycle cx R clk rq params s in ((Lifecycle_Reply r, calls), s', i))
     | Listing_Handler \<Rightarrow>
         (let (r, calls) = handle_session_query cx rq params in ((Listing_Reply r, calls), s, i))
     | Discovery_Handler \<Rightarrow>
         (let (r, calls) = handle_provider_discovery cx rq params in ((Discovery_Reply r, calls), s, i))
     | Interrupt_Query_Handler \<Rightarrow>
         (let (r, i') = handle_interrupt_query cx Q (clk 0) rq params i in ((Interrupts_Reply r, []), s, i'))
     | Workspace_Handler \<Rightarrow>
         (let (r, calls) = handle_workspace_control cx rq params in ((Workspace_Reply r, calls), s, i))
     | Control_Handler \<Rightarrow>
         (let ((r, calls), s') = handle_session_control cx R clk rq params s in ((Control_Reply r, calls), s', i))
     | Callback_Handler \<Rightarrow>
         (let ((r, calls), i') = handle_interrupt_callback cx Q (clk 0) rq params i
          in ((Callback_Reply r, calls), s, i')))"

text \<open>
  A request for a method of the registry, as an authenticated caller sends it.  \<open>None\<close>: the request
  reaches no handler.
\<close>

definition serve_extension ::
  "handler_context \<Rightarrow> (string, method_spec) dict \<Rightarrow> 's session_repo \<Rightarrow> 'i interrupt_repo \<Rightarrow> (nat \<Rightarrow> time) \<Rightarrow> rpc_request
     \<Rightarrow> pdict \<Rightarrow> 's \<times> 'i \<Rightarrow> ((reply \<times> http_call list) \<times> 's \<times> 'i) option" where
  "serve_extension cx registry R Q clk rq params st =
     (case dict_get registry (rq_method rq) of
        None \<Rightarrow> None
      | Some spec \<Rightarrow> Some (run_handler cx R Q clk (ms_handler spec) rq params st))"

section \<open>The registry maps every method once\<close>

lemma register_methods_get:
  assumes "register_methods spec ms d = Inr d'" "distinct ms"
  shows "dict_get d' x = (if x \<in> set ms then Some spec else dict_get d x) \<and> (\<forall>m \<in> set ms. dict_get d m = None)"
  using assms
proof (induction ms arbitrary: d)
  case (Cons m ms)
  then have n: "dict_get d m = None" "register_methods spec ms (dict_set m spec d) = Inr d'"
    by (auto split: option.splits)
  have "dict_get d y = None" if "y \<in> set ms" for y
    using Cons.IH [OF n(2)] Cons.prems(2) that by (auto simp: dict_simps split: if_split_asm)
  then show ?case using Cons.IH [OF n(2)] Cons.prems(2) n(1) by (auto simp: dict_simps)
qed simp

lemma register_specs_get:
  assumes "register_specs specs d = Inr d'" "list_all (\<lambda>s. distinct (ms_methods s)) specs"
  shows "dict_get d' x = Some spec \<longleftrightarrow>
    dict_get d x = Some spec \<or> (spec \<in> set specs \<and> x \<in> set (ms_methods spec))"
  using assms
proof (induction specs arbitrary: d)
  case (Cons s specs)
  then obtain d1 where d1: "register_methods s (ms_methods s) d = Inr d1" "register_specs specs d1 = Inr d'"
    by (auto simp: ebind_Inr_iff)
  have get: "dict_get d1 y = (if y \<in> set (ms_methods s) then Some s else dict_get d y)"
    "y \<in> set (ms_methods s) \<Longrightarrow> dict_get d y = None" for y
    using register_methods_get [OF d1(1), of y] Cons.prems(2) by auto
  have ih: "dict_get d' x = Some spec \<longleftrightarrow> dict_get d1 x = Some spec \<or> (spec \<in> set specs \<and> x \<in> set (ms_methods spec))"
    by (rule Cons.IH [OF d1(2)]) (use Cons.prems(2) in simp)
  show ?case
  proof (cases "x \<in> set (ms_methods s)")
    case True
    then show ?thesis unfolding ih using get [of x] by simp blast
  next
    case False
    then show ?thesis unfolding ih using get(1) [of x] by auto
  qed
qed simp

lemma spec_of_sel [simp]:
  "distinct (ms_methods (spec_of name ms h))" "set (ms_methods (spec_of name ms h)) = set ms"
  "ms_handler (spec_of name ms h) = h" "ms_name (spec_of name ms h) = name"
  by (simp_all add: spec_of_def)

lemma specs_distinct: "list_all (\<lambda>s. distinct (ms_methods s)) (extension_method_specs cx)"
  by (simp add: extension_method_specs_def)

lemma registry_get:
  assumes "build_extension_method_registry cx = Inr registry"
  shows "dict_get registry m = Some spec \<longleftrightarrow> spec \<in> set (extension_method_specs cx) \<and> m \<in> set (ms_methods spec)"
  using register_specs_get [OF assms [unfolded build_extension_method_registry_def] specs_distinct] by simp

definition method_names :: "handler_context \<Rightarrow> string list" where
  "method_names cx = concat (map ms_methods (extension_method_specs cx))"

lemma register_methods_ok:
  "distinct ms \<Longrightarrow> \<forall>m \<in> set ms. dict_get d m = None \<Longrightarrow> \<exists>d'. register_methods spec ms d = Inr d'"
proof (induction ms arbitrary: d)
  case (Cons m ms)
  have "\<forall>x \<in> set ms. dict_get (dict_set m spec d) x = None" using Cons.prems by (auto simp: dict_simps)
  then show ?case using Cons.IH [of "dict_set m spec d"] Cons.prems by auto
qed simp

lemma register_specs_ok:
  "distinct (concat (map ms_methods specs)) \<Longrightarrow> \<forall>s \<in> set specs. \<forall>m \<in> set (ms_methods s). dict_get d m = None \<Longrightarrow>
    \<exists>d'. register_specs specs d = Inr d'"
proof (induction specs arbitrary: d)
  case (Cons s specs)
  obtain d1 where d1: "register_methods s (ms_methods s) d = Inr d1"
    using register_methods_ok [of "ms_methods s" d s] Cons.prems by auto
  have "dict_get d1 m = None" if "s' \<in> set specs" "m \<in> set (ms_methods s')" for s' m
    using register_methods_get [OF d1, of m] Cons.prems that by auto
  then show ?case using Cons.IH [of d1] Cons.prems(1) d1 by auto
qed simp

section \<open>The methods of a deployment\<close>

text \<open>The keys of the methods that each handler serves.\<close>

definition key_groups :: "string list list" where
  "key_groups =
     [[''status'', ''get_session'', ''get_session_children'', ''get_session_todo'', ''get_session_diff'',
       ''get_session_message'', ''fork'', ''share'', ''unshare'', ''summarize'', ''revert'', ''unrevert''],
      [''list_sessions'', ''get_session_messages''], [''list_providers'', ''list_models''],
      [''list_permissions'', ''list_questions''],
      [''list_projects'', ''get_current_project'', ''list_workspaces'', ''list_worktrees'', ''create_workspace'',
       ''remove_workspace'', ''create_worktree'', ''remove_worktree'', ''reset_worktree''],
      [''prompt_async'', ''command'', ''shell''],
      [''reply_permission'', ''reply_question'', ''reject_question'']]"

definition grouped_methods :: "(string, string) dict \<Rightarrow> string list list" where
  "grouped_methods methods = map (List.map_filter (dict_get methods)) key_groups"

text \<open>The names that a deployment serves are its declared ones, each by one handler.\<close>

definition names_ok :: "bool \<Rightarrow> bool \<Rightarrow> bool" where
  "names_ok ss wm \<longleftrightarrow>
     (let snapshot = build_capability_snapshot ss wm; methods = jsonrpc_methods snapshot;
          names = concat (grouped_methods methods); declared = extension_jsonrpc_methods snapshot
      in list_all (\<lambda>k. dict_get methods k \<noteq> None) required_method_keys \<and> distinct names \<and>
         list_all (\<lambda>m. List.member names m) declared \<and> list_all (\<lambda>m. List.member declared m) names)"

lemma names_ok_TT: "names_ok True True" by code_simp

lemma names_ok_TF: "names_ok True False" by code_simp

lemma names_ok_FT: "names_ok False True" by code_simp

lemma names_ok_FF: "names_ok False False" by code_simp

lemma names_ok_all: "names_ok ss wm"
  using names_ok_TT names_ok_TF names_ok_FT names_ok_FF by (cases ss; cases wm) simp_all

lemma context_methods:
  assumes "application_context us send rs supported methods = Some cx"
  shows "list_all (\<lambda>k. dict_get methods k \<noteq> None) required_method_keys"
    "cx_supported_methods cx = supported" "cx_up cx = us"
    "cx_session_status cx = the (dict_get methods ''status'')"
    "cx_list_sessions cx = the (dict_get methods ''list_sessions'')"
    "cx_get_session cx = the (dict_get methods ''get_session'')"
    "cx_get_session_children cx = the (dict_get methods ''get_session_children'')"
    "cx_get_session_todo cx = the (dict_get methods ''get_session_todo'')"
    "cx_get_session_diff cx = the (dict_get methods ''get_session_diff'')"
    "cx_get_session_message cx = the (dict_get methods ''get_session_message'')"
    "cx_get_session_messages cx = the (dict_get methods ''get_session_messages'')"
    "cx_prompt_async cx = the (dict_get methods ''prompt_async'')"
    "cx_command cx = the (dict_get methods ''command'')"
    "cx_fork_session cx = the (dict_get methods ''fork'')"
    "cx_share_session cx = the (dict_get methods ''share'')"
    "cx_unshare_session cx = the (dict_get methods ''unshare'')"
    "cx_summarize_session cx = the (dict_get methods ''summarize'')"
    "cx_revert_session cx = the (dict_get methods ''revert'')"
    "cx_unrevert_session cx = the (dict_get methods ''unrevert'')"
    "cx_list_providers cx = the (dict_get methods ''list_providers'')"
    "cx_list_models cx = the (dict_get methods ''list_models'')"
    "cx_list_projects cx = the (dict_get methods ''list_projects'')"
    "cx_get_current_project cx = the (dict_get methods ''get_current_project'')"
    "cx_list_workspaces cx = the (dict_get methods ''list_workspaces'')"
    "cx_list_worktrees cx = the (dict_get methods ''list_worktrees'')"
    "cx_list_permissions cx = the (dict_get methods ''list_permissions'')"
    "cx_list_questions cx = the (dict_get methods ''list_questions'')"
    "cx_reply_permission cx = the (dict_get methods ''reply_permission'')"
    "cx_reply_question cx = the (dict_get methods ''reply_question'')"
    "cx_reject_question cx = the (dict_get methods ''reject_question'')"
    "cx_shell cx = dict_get methods ''shell''"
    "cx_create_workspace cx = dict_get methods ''create_workspace''"
    "cx_remove_workspace cx = dict_get methods ''remove_workspace''"
    "cx_create_worktree cx = dict_get methods ''create_worktree''"
    "cx_remove_worktree cx = dict_get methods ''remove_worktree''"
    "cx_reset_worktree cx = dict_get methods ''reset_worktree''"
  using assms by (auto simp: application_context_def list_all_iff list_ex_iff split: if_split_asm)

lemma map_filter_present:
  "list_all (\<lambda>k. f k \<noteq> None) ks \<Longrightarrow> List.map_filter f ks = map (\<lambda>k. the (f k)) ks"
  by (induction ks) (auto simp: List.map_filter_simps)

lemma map_filter_append: "List.map_filter f (xs @ ys) = List.map_filter f xs @ List.map_filter f ys"
  by (simp add: List.map_filter_def)

lemma optional_map: "optional_methods (map f ks) = List.map_filter f ks"
  by (simp add: optional_methods_def List.map_filter_def filter_map o_def)

lemma context_groups:
  assumes "application_context us send rs supported methods = Some cx"
  shows "map ms_methods (extension_method_specs cx) = map remdups (grouped_methods methods)"
proof -
  let ?g = "dict_get methods"
  note c = context_methods [OF assms]
  have present: "set ks \<subseteq> set required_method_keys \<Longrightarrow> List.map_filter ?g ks = map (\<lambda>k. the (?g k)) ks" for ks
    by (rule map_filter_present) (use c(1) in \<open>auto simp: list_all_iff\<close>)
  have part: "set ks \<subseteq> set required_method_keys \<Longrightarrow>
      List.map_filter ?g (ks @ os) = map (\<lambda>k. the (?g k)) ks @ optional_methods (map ?g os)" for ks os
    by (simp add: map_filter_append present optional_map)
  have ws: "List.map_filter ?g ([''list_projects'', ''get_current_project'', ''list_workspaces'', ''list_worktrees'']
      @ [''create_workspace'', ''remove_workspace'', ''create_worktree'', ''remove_worktree'', ''reset_worktree'']) =
    map (\<lambda>k. the (?g k)) [''list_projects'', ''get_current_project'', ''list_workspaces'', ''list_worktrees'']
      @ optional_methods (map ?g [''create_workspace'', ''remove_workspace'', ''create_worktree'', ''remove_worktree'', ''reset_worktree''])"
    by (rule part) (simp add: required_method_keys_def)
  have ct: "List.map_filter ?g ([''prompt_async'', ''command''] @ [''shell'']) =
    map (\<lambda>k. the (?g k)) [''prompt_async'', ''command''] @ optional_methods (map ?g [''shell''])"
    by (rule part) (simp add: required_method_keys_def)
  show ?thesis
    using ws ct
    by (simp add: extension_method_specs_def grouped_methods_def key_groups_def spec_of_def present
        required_method_keys_def c(2-) del: remdups.simps List.map_filter_simps)
qed

definition served :: "routed \<Rightarrow> bool" where
  "served r \<longleftrightarrow> (case r of Delegated \<Rightarrow> True | Dispatched _ _ \<Rightarrow> True | _ \<Rightarrow> False)"

lemma deployment:
  obtains cx registry where
    "deployed_context core (build_capability_snapshot ss wm) us send rs = Some cx"
    "build_extension_method_registry cx = Inr registry"
    "\<And>m. dict_get registry m \<noteq> None \<longleftrightarrow> m \<in> set (extension_jsonrpc_methods (build_capability_snapshot ss wm))"
    "cx_supported_methods cx = supported_jsonrpc_methods core (build_capability_snapshot ss wm)"
proof -
  let ?sn = "build_capability_snapshot ss wm"
  let ?ms = "jsonrpc_methods ?sn"
  have ok: "list_all (\<lambda>k. dict_get ?ms k \<noteq> None) required_method_keys" "distinct (concat (grouped_methods ?ms))"
    "set (concat (grouped_methods ?ms)) = set (extension_jsonrpc_methods ?sn)"
    using names_ok_all [of ss wm] by (auto simp: names_ok_def Let_def list_all_iff)
  obtain cx where cx: "application_context us send rs (supported_jsonrpc_methods core ?sn) ?ms = Some cx"
    using ok(1) by (auto simp: application_context_def list_all_iff list_ex_iff)
  have groups: "map ms_methods (extension_method_specs cx) = map remdups (grouped_methods ?ms)"
    by (rule context_groups [OF cx])
  have "map remdups (grouped_methods ?ms) = grouped_methods ?ms"
    using ok(2) by (intro map_idI) (simp add: distinct_concat_iff)
  with groups have same: "map ms_methods (extension_method_specs cx) = grouped_methods ?ms" by simp
  obtain registry where reg: "build_extension_method_registry cx = Inr registry"
    using register_specs_ok [of "extension_method_specs cx" "[]"] ok(2)
    by (auto simp: build_extension_method_registry_def same)
  have "set (concat (map ms_methods (extension_method_specs cx))) = set (extension_jsonrpc_methods ?sn)"
    by (simp only: same ok(3))
  then have dom: "dict_get registry m \<noteq> None \<longleftrightarrow> m \<in> set (extension_jsonrpc_methods ?sn)" for m
    using registry_get [OF reg, of m] by fastforce
  show thesis
    using that [OF _ reg dom context_methods(2) [OF cx]] cx by (simp add: deployed_context_def)
qed

text \<open>
  C6: in every deployment the registry of the extension methods is built without a conflict, and a
  request with object parameters is served (by a handler or by the SDK) exactly when its method is one
  of the methods that the deployment declares; any other request is refused with the error that
  lists the declared methods, or dropped when it is a notification.
\<close>

theorem declared_methods_are_served:
  "\<exists>cx registry. deployed_context core (build_capability_snapshot ss wm) us send rs = Some cx \<and>
     build_extension_method_registry cx = Inr registry \<and>
     (\<forall>version rq. is_dict (jr_params rq) \<longrightarrow>
        (served (route_parsed registry core (cx_supported_methods cx) version rq) \<longleftrightarrow>
           jr_method rq \<in> set (supported_jsonrpc_methods core (build_capability_snapshot ss wm))) \<and>
        (\<not> served (route_parsed registry core (cx_supported_methods cx) version rq) \<longrightarrow>
           route_parsed registry core (cx_supported_methods cx) version rq =
             (if jr_has_id rq then Refused (method_not_supported_error (jr_method rq) (cx_supported_methods cx) version)
              else Dropped)))"
proof (rule deployment)
  fix cx registry
  assume a: "deployed_context core (build_capability_snapshot ss wm) us send rs = Some cx"
    "build_extension_method_registry cx = Inr registry"
    "\<And>m. dict_get registry m \<noteq> None \<longleftrightarrow> m \<in> set (extension_jsonrpc_methods (build_capability_snapshot ss wm))"
    "cx_supported_methods cx = supported_jsonrpc_methods core (build_capability_snapshot ss wm)"
  have "is_dict (jr_params rq) \<longrightarrow>
        (served (route_parsed registry core (cx_supported_methods cx) version rq) \<longleftrightarrow>
           jr_method rq \<in> set (supported_jsonrpc_methods core (build_capability_snapshot ss wm))) \<and>
        (\<not> served (route_parsed registry core (cx_supported_methods cx) version rq) \<longrightarrow>
           route_parsed registry core (cx_supported_methods cx) version rq =
             (if jr_has_id rq then Refused (method_not_supported_error (jr_method rq) (cx_supported_methods cx) version)
              else Dropped))" for version rq
    using a(3) [of "jr_method rq"]
    by (cases "jr_params rq"; cases "dict_get registry (jr_method rq)")
      (auto simp: served_def route_parsed_def supported_jsonrpc_methods_def Let_def a(4))
  then show ?thesis using a(1,2) by blast
qed

definition request_to :: "string \<Rightarrow> jsonrpc_request" where
  "request_to m = \<lparr>jr_method = m, jr_has_id = True, jr_params = PDict []\<rparr>"

theorem declared_methods_are_served_witness:
  "\<exists>cx registry. deployed_context [''message/send''] (build_capability_snapshot False False) sample_upstream
       (answers 200 None) Inr = Some cx \<and> build_extension_method_registry cx = Inr registry \<and>
     served (route_parsed registry [''message/send''] (cx_supported_methods cx) ''1.0''
       (request_to ''opencode.sessions.fork'')) \<and>
     route_parsed registry [''message/send''] (cx_supported_methods cx) ''1.0'' (request_to ''opencode.sessions.shell'') =
       Refused (method_not_supported_error ''opencode.sessions.shell'' (cx_supported_methods cx) ''1.0'')"
proof -
  let ?supported = "supported_jsonrpc_methods [''message/send''] (build_capability_snapshot False False)"
  have m: "''opencode.sessions.fork'' \<in> set ?supported" "''opencode.sessions.shell'' \<notin> set ?supported"
    by code_simp+
  have r: "is_dict (jr_params (request_to m))" "jr_method (request_to m) = m" "jr_has_id (request_to m)" for m
    by (simp_all add: request_to_def)
  show ?thesis
    using declared_methods_are_served [of "[''message/send'']" False False sample_upstream "answers 200 None" Inr]
    by (metis m r)
qed

section \<open>Every change is authorised\<close>

text \<open>The session that a call changes, and the interrupt request that it answers.\<close>

fun changed_session :: "up_op \<Rightarrow> string option" where
  "changed_session (PromptAsync sid _) = Some sid"
| "changed_session (SessionCommand sid _) = Some sid"
| "changed_session (SessionShell sid _) = Some sid"
| "changed_session (ForkSession sid _) = Some sid"
| "changed_session (ShareSession sid) = Some sid"
| "changed_session (UnshareSession sid) = Some sid"
| "changed_session (SummarizeSession sid _) = Some sid"
| "changed_session (RevertSession sid _) = Some sid"
| "changed_session (UnrevertSession sid) = Some sid"
| "changed_session _ = None"

fun answered_request :: "up_op \<Rightarrow> string option" where
  "answered_request (PermissionReply rid _ _) = Some rid"
| "answered_request (QuestionReply rid _) = Some rid"
| "answered_request (QuestionReject rid) = Some rid"
| "answered_request _ = None"

fun changes_workspace :: "up_op \<Rightarrow> bool" where
  "changes_workspace (CreateWorkspace _) = True"
| "changes_workspace (RemoveWorkspace _) = True"
| "changes_workspace (CreateWorktree _) = True"
| "changes_workspace (RemoveWorktree _) = True"
| "changes_workspace (ResetWorktree _) = True"
| "changes_workspace _ = False"

text \<open>
  A call that is not a \<open>GET\<close> changes a session that is free for the caller, changes a workspace with
  the capability for it, or answers a pending request that is bound to no other caller.
\<close>

definition change_authorised ::
  "upstream \<Rightarrow> rpc_request \<Rightarrow> string \<Rightarrow> (string \<Rightarrow> string option) \<Rightarrow> (string \<Rightarrow> string option)
     \<Rightarrow> (string \<Rightarrow> interrupt_binding option) \<Rightarrow> http_call \<Rightarrow> bool" where
  "change_authorised us rq identity owner claim pending call \<longleftrightarrow> hc_method call = ''GET'' \<or>
     (\<exists>op d w. call = up_call us op d w \<and>
       ((\<exists>sid. changed_session op = Some sid \<and> free_for (owner sid) identity \<and> free_for (claim sid) identity) \<or>
        (changes_workspace op \<and> request_has_capability rq ''workspace_mutation'') \<or>
        (\<exists>rid b. answered_request op = Some rid \<and> pending rid = Some b \<and>
           \<not> foreign (rq_identity rq) (ib_identity b) \<and> \<not> foreign (rq_credential_id rq) (ib_credential_id b))))"

lemma control_changes:
  "control_op cx rq sid raw = Inr op \<Longrightarrow> changed_session op = Some sid"
  by (auto simp: control_op_def ebind_Inr_iff split: if_split_asm)

lemma callback_answers: "callback_op cx rq rid params = Inr op \<Longrightarrow> answered_request op = Some rid"
  by (cases "pget params ''message''") (auto simp: callback_op_def ebind_Inr_iff split: if_split_asm)

lemma lifecycle_changes:
  "lifecycle_op cx m sid mid req = Some op \<Longrightarrow>
    changed_session op = Some sid \<or> hc_method (up_call us op d w) = ''GET''"
  by (auto simp: lifecycle_op_def call_defs http_get_def split: if_split_asm)

lemma lifecycle_checks_op:
  assumes "lifecycle_checks cx m params = Inr (session_id, Some op, d, w)"
  obtains mid req where "lifecycle_op cx m (case session_id of None \<Rightarrow> [] | Some sid \<Rightarrow> sid) mid req = Some op"
  using assms by (cases session_id) (auto simp: lifecycle_checks_def ebind_Inr_iff intro: that split: option.split_asm)

lemma get_call_ok: "hc_method call = ''GET'' \<Longrightarrow> change_authorised us rq i owner claim pending call"
  by (simp add: change_authorised_def)

lemma query_calls_get:
  assumes "call \<in> set (snd (handle_session_query cx rq params))"
  shows "hc_method call = ''GET''"
  using assms by (auto simp: handle_session_query_def query_op_def call_defs http_get_def Let_def
      split: sum.split_asm prod.split_asm option.split_asm)

lemma discovery_calls_get:
  assumes "call \<in> set (snd (handle_provider_discovery cx rq params))"
  shows "hc_method call = ''GET''"
  using assms by (auto simp: handle_provider_discovery_def call_defs http_get_def Let_def
      split: sum.split_asm prod.split_asm)

lemma workspace_call_ok:
  assumes "call \<in> set (snd (handle_workspace_control cx rq params))"
  shows "change_authorised (cx_up cx) rq i owner claim pending call"
proof (rule workspace_calls [OF assms])
  fix key op
  assume a: "workspace_op key params = Inr op" "call = up_call (cx_up cx) op None None"
    "hc_method call = ''GET'' \<or> workspace_mutation key \<and> request_has_capability rq ''workspace_mutation''"
  have "workspace_mutation key \<Longrightarrow> changes_workspace op"
    using a(1) by (cases key) (auto simp: workspace_op_def workspace_mutation_def ebind_Inr_iff)
  then show ?thesis using a(2,3) by (auto simp: change_authorised_def)
qed

lemma lifecycle_calls_ok:
  assumes h: "handle_session_lifecycle cx R clk rq params s = ((res, calls), s')"
    and a: "mutating cx (rq_method rq) \<Longrightarrow> lifecycle_authorised cx (rq_method rq) params i owner claim calls"
    and c: "call \<in> set calls"
  shows "change_authorised (cx_up cx) rq i owner claim pending call"
proof (cases "lifecycle_checks cx (rq_method rq) params")
  case (Inr k)
  obtain session_id op d w where k: "k = (session_id, op, d, w)" by (cases k)
  note ck = Inr [unfolded k]
  obtain r s1 where run: "with_claim R clk (if mutating cx (rq_method rq) then rq_identity rq else None)
       (case session_id of None \<Rightarrow> [] | Some sid \<Rightarrow> sid) (lifecycle_body cx op d w) s = ((r, calls), s1)"
    using lifecycle_run [OF h ck] by metis
  have "set calls \<subseteq> set (snd (lifecycle_body cx op d w))"
    using run by (cases "lifecycle_body cx op d w")
      (auto simp: with_claim_def split: sum.splits prod.splits if_splits)
  then obtain p where p: "op = Some p" "call = up_call (cx_up cx) p d w"
    using c by (auto simp: lifecycle_body_calls split: option.splits)
  obtain mid req where op: "lifecycle_op cx (rq_method rq) (case session_id of None \<Rightarrow> [] | Some sid \<Rightarrow> sid) mid req = Some p"
    using lifecycle_checks_op ck unfolding p(1) by blast
  show ?thesis
  proof (cases "mutating cx (rq_method rq)")
    case True
    then obtain sid where sid: "session_id = Some sid" "free_for (owner sid) i" "free_for (claim sid) i"
      using a c ck p(1) by (auto simp: lifecycle_authorised_def split: option.splits)
    then show ?thesis
      using lifecycle_changes [OF op, of "cx_up cx" d w] p(2) by (auto simp: change_authorised_def)
  next
    case False
    have "hc_method call = ''GET''"
      using op False unfolding p(2) by (auto simp: lifecycle_op_def mutating_def call_defs http_get_def split: if_split_asm)
    then show ?thesis by (rule get_call_ok)
  qed
qed (use h c in \<open>simp add: handle_session_lifecycle_def\<close>)

lemma control_calls_ok:
  assumes "control_authorised cx rq params i owner claim calls" "call \<in> set calls"
  shows "change_authorised (cx_up cx) rq i owner claim pending call"
  using assms control_changes
  by (fastforce simp: control_authorised_def change_authorised_def split: sum.splits)

lemma callback_calls_ok:
  assumes "callback_authorised cx rq params pending calls" "call \<in> set calls"
  shows "change_authorised (cx_up cx) rq i owner claim pending call"
proof -
  note simps = callback_authorised_def
  obtain rid where r: "callback_request_id params = Inr rid"
    using assms by (cases "callback_request_id params") (auto simp: simps)
  obtain b where b: "pending rid = Some b" using assms r by (cases "pending rid") (auto simp: simps)
  obtain op where op: "callback_op cx rq rid params = Inr op"
    using assms r b by (cases "callback_op cx rq rid params") (auto simp: simps)
  obtain d where d: "extract_directory_from_metadata params = Inr d"
    using assms r b op by (cases "extract_directory_from_metadata params") (auto simp: simps)
  obtain w where w: "extract_workspace_id_from_metadata params = Inr w"
    using assms r b op d by (cases "extract_workspace_id_from_metadata params") (auto simp: simps)
  have c: "pending rid = Some b" "callback_op cx rq rid params = Inr op" "call = up_call (cx_up cx) op d w"
    "\<not> foreign (rq_identity rq) (ib_identity b)" "\<not> foreign (rq_credential_id rq) (ib_credential_id b)"
    using assms r b op d w by (auto simp: simps)
  from callback_answers [OF c(2)] c show ?thesis unfolding change_authorised_def by blast
qed

text \<open>The state behind the interface: a repository of sessions and one of interrupt requests.\<close>

locale extension_state =
  session_repository R inv session_at owner_at claim_at claim_ttl +
  interrupts: interrupt_repository Q q_inv pending_at default_ttl stored
  for R :: "'s session_repo" and inv session_at owner_at claim_at claim_ttl
    and Q :: "'i interrupt_repo" and q_inv pending_at default_ttl stored
begin

lemma handler_calls_ok:
  assumes "clk 0 \<le> clk 1" "inv (clk 0) s" "q_inv q" "rq_identity rq = Some i" "i \<noteq> []"
    and run: "run_handler cx R Q clk h rq params (s, q) = ((reply, calls), st')"
    and c: "call \<in> set calls"
  shows "change_authorised (cx_up cx) rq i (owner_at (clk 0) s) (claim_at (clk 1) s) (pending_at (clk 0) q) call"
proof (cases h)
  case Lifecycle_Handler
  then obtain res s' where l: "handle_session_lifecycle cx R clk rq params s = ((res, calls), s')"
    using run by (auto simp: run_handler_def split: prod.splits)
  show ?thesis
    by (rule lifecycle_calls_ok [OF l _ c])
      (rule mutations_authorised [OF assms(2,1,4,5) _ l])
next
  case Listing_Handler
  then show ?thesis
    using run c query_calls_get [of call cx rq params] by (auto simp: run_handler_def intro: get_call_ok split: prod.splits)
next
  case Discovery_Handler
  then show ?thesis
    using run c discovery_calls_get [of call cx rq params] by (auto simp: run_handler_def intro: get_call_ok split: prod.splits)
next
  case Interrupt_Query_Handler
  then show ?thesis using run c by (auto simp: run_handler_def split: prod.splits)
next
  case Workspace_Handler
  then show ?thesis
    using run c workspace_call_ok [of call cx rq params] by (auto simp: run_handler_def split: prod.splits)
next
  case Control_Handler
  then obtain res s' where l: "handle_session_control cx R clk rq params s = ((res, calls), s')"
    using run by (auto simp: run_handler_def split: prod.splits)
  show ?thesis
    by (rule control_calls_ok [OF calls_authorised [OF assms(1,2,4,5) l] c])
next
  case Callback_Handler
  then obtain res q' where l: "handle_interrupt_callback cx Q (clk 0) rq params q = ((res, calls), q')"
    using run by (auto simp: run_handler_def split: prod.splits)
  show ?thesis
    by (rule callback_calls_ok [OF interrupts.callback_call_authorised [OF assms(3) l] c])
qed

lemma served_calls_ok:
  assumes "clk 0 \<le> clk 1" "inv (clk 0) s" "q_inv q" "rq_identity rq = Some i" "i \<noteq> []"
    and "serve_extension cx registry R Q clk rq params (s, q) = Some ((reply, calls), st')"
    and "call \<in> set calls"
  shows "change_authorised (cx_up cx) rq i (owner_at (clk 0) s) (claim_at (clk 1) s) (pending_at (clk 0) q) call"
  using assms(6) handler_calls_ok [OF assms(1-5) _ assms(7)]
  by (auto simp: serve_extension_def split: option.splits)

end

interpretation memory_state: extension_state memory_repo mem_inv mem_session_at mem_owner_at mem_claim_at
  mem_pending_ttl memory_interrupt_repo mi_inv mi_pending_at mi_request_ttl id ..

interpretation database_state: extension_state database_repo db_inv db_session_at db_owner_at db_claim_at
  db_pending_ttl database_interrupt_repo di_inv di_pending_at di_request_ttl stored_details ..


definition fork_registry :: "(string, method_spec) dict" where
  "fork_registry = [(''opencode.sessions.fork'', spec_of ''session_lifecycle'' [''opencode.sessions.fork''] Lifecycle_Handler)]"


end
