(* ===== verification/Request_Pipeline.thy ===== *)
theory Request_Pipeline
  imports Error_Adaptation
begin

text \<open>
  The HTTP middlewares around the application (\<open>server/middleware.py\<close>) and the parsing they use
  (\<open>server/request_parsing.py\<close>): the body limit, the method aliases of protocol version 1, the
  negotiation of the version, the caching of agent cards, and what is logged of a request.  Bodies are
  lists of bytes of any type; decoding them is a parameter (\<open>json\<close>, \<open>None\<close> for its exception).
\<close>

section \<open>Parsing\<close>

text \<open>A body that is a JSON object.\<close>

definition parse_json_body :: "('b list \<Rightarrow> pyval option) \<Rightarrow> 'b list \<Rightarrow> pdict option" where
  "parse_json_body json body = (case json body of Some (PDict d) \<Rightarrow> Some d | _ \<Rightarrow> None)"

definition sensitive_methods :: "string list" where
  "sensitive_methods = map snd session_methods @ map snd interrupt_callback_methods
     @ map snd interrupt_recovery_methods @ map snd workspace_methods"

definition detect_sensitive_extension_method :: "pdict option \<Rightarrow> string option" where
  "detect_sensitive_extension_method payload =
     (case payload of
        None \<Rightarrow> None
      | Some d \<Rightarrow>
          (case pget d ''method'' of
             PStr m \<Rightarrow> if List.member sensitive_methods m then Some m else None
           | _ \<Rightarrow> None))"

definition parse_content_length :: "string option \<Rightarrow> int option" where
  "parse_content_length value =
     (case value of
        None \<Rightarrow> None
      | Some s \<Rightarrow> (case py_int s of None \<Rightarrow> None | Some n \<Rightarrow> if 0 \<le> n then Some n else None))"

definition normalize_content_type :: "string option \<Rightarrow> string" where
  "normalize_content_type value =
     (if truthy_str value then py_lower (py_strip (takeWhile (\<lambda>c. c \<noteq> CHR '';'') (the value))) else [])"

definition is_json_content_type :: "string \<Rightarrow> bool" where
  "is_json_content_type content_type \<longleftrightarrow>
     content_type \<noteq> [] \<and> (content_type = ''application/json'' \<or> suffix ''+json'' content_type)"

definition decode_payload_preview :: "('b list \<Rightarrow> string) \<Rightarrow> int \<Rightarrow> 'b list \<Rightarrow> string" where
  "decode_payload_preview decode limit body =
     (if 0 < limit \<and> limit < int (length body) then decode (take (nat limit) body) @ ''...[truncated]''
      else decode body)"

definition looks_like_jsonrpc_message_payload :: "pdict option \<Rightarrow> bool" where
  "looks_like_jsonrpc_message_payload payload =
     (case payload of
        None \<Rightarrow> False
      | Some d \<Rightarrow>
          (case pget d ''message'' of
             PDict m \<Rightarrow> dict_get m ''parts'' \<noteq> None \<or> pget m ''role'' = PStr ''user'' \<or> pget m ''role'' = PStr ''agent''
           | _ \<Rightarrow> False))"

definition looks_like_jsonrpc_envelope :: "pdict option \<Rightarrow> bool" where
  "looks_like_jsonrpc_envelope payload =
     (case payload of None \<Rightarrow> False | Some d \<Rightarrow> is_str (pget d ''method'') \<and> is_str (pget d ''jsonrpc''))"

definition v1_jsonrpc_method_aliases :: "(string, string) dict" where
  "v1_jsonrpc_method_aliases =
     [(''CancelTask'', ''tasks/cancel''),
      (''CreateTaskPushNotificationConfig'', ''tasks/pushNotificationConfig/set''),
      (''DeleteTaskPushNotificationConfig'', ''tasks/pushNotificationConfig/delete''),
      (''GetExtendedAgentCard'', ''agent/getAuthenticatedExtendedCard''),
      (''GetTask'', ''tasks/get''),
      (''GetTaskPushNotificationConfig'', ''tasks/pushNotificationConfig/get''),
      (''ListTaskPushNotificationConfigs'', ''tasks/pushNotificationConfig/list''),
      (''SendMessage'', ''message/send''),
      (''SendStreamingMessage'', ''message/stream'')]"

definition normalize_v1_jsonrpc_method_alias :: "string \<Rightarrow> pdict option \<Rightarrow> pdict option" where
  "normalize_v1_jsonrpc_method_alias version payload =
     (case payload of
        None \<Rightarrow> None
      | Some d \<Rightarrow>
          (if version \<noteq> ''1.0'' then Some d
           else case pget d ''method'' of
             PStr m \<Rightarrow>
               (case dict_get v1_jsonrpc_method_aliases m of
                  None \<Rightarrow> Some d
                | Some canonical \<Rightarrow> if canonical = m then Some d else Some (dict_set ''method'' (PStr canonical) d))
           | _ \<Rightarrow> Some d))"

section \<open>Requests\<close>

record 'b http_request =
  hq_method :: string
  hq_path :: string
  hq_version_header :: "string option"
  hq_version_query :: "string option"
  hq_content_type :: "string option"
  hq_content_length :: "string option"
  hq_if_none_match :: "string option"
  hq_buffered :: "'b list option"   \<comment> \<open>\<open>request._body\<close>\<close>
  hq_chunks :: "'b list list"       \<comment> \<open>the stream of the request\<close>
  hq_negotiated :: "string option"  \<comment> \<open>\<open>request.state.a2a_protocol_version\<close>\<close>

record server_settings =
  st_protocol_version :: string
  st_supported_versions :: "string list"
  st_max_request_body_bytes :: int
  st_log_body_limit :: int
  st_public_card_etag :: string
  st_extended_card_etag :: string

section \<open>The body limit\<close>

record body_too_large =
  tl_limit :: int
  tl_actual_size :: int

fun read_chunks :: "int \<Rightarrow> int \<Rightarrow> 'b list list \<Rightarrow> body_too_large + 'b list" where
  "read_chunks limit seen [] = Inr []"
| "read_chunks limit seen (chunk # chunks) =
     (let seen' = seen + int (length chunk)
      in if limit < seen' then Inl \<lparr>tl_limit = limit, tl_actual_size = seen'\<rparr>
         else ebind (read_chunks limit seen' chunks) (\<lambda>body. Inr (chunk @ body)))"

text \<open>\<open>_get_request_body\<close>: \<open>cached\<close> is the context variable.\<close>

definition get_request_body ::
  "server_settings \<Rightarrow> 'b list option \<Rightarrow> 'b http_request \<Rightarrow> body_too_large + 'b list" where
  "get_request_body st cached q =
     (let limit = st_max_request_body_bytes st
      in case cached of
           Some body \<Rightarrow> Inr body
         | None \<Rightarrow>
             (case (if 0 < limit then parse_content_length (hq_content_length q) else None) of
                Some n \<Rightarrow>
                  (if limit < n then Inl \<lparr>tl_limit = limit, tl_actual_size = n\<rparr>
                   else case hq_buffered q of
                     Some body \<Rightarrow>
                       (if limit < int (length body) then Inl \<lparr>tl_limit = limit, tl_actual_size = int (length body)\<rparr>
                        else Inr body)
                   | None \<Rightarrow> read_chunks limit 0 (hq_chunks q))
              | None \<Rightarrow>
                  (case hq_buffered q of
                     Some body \<Rightarrow>
                       (if 0 < limit \<and> limit < int (length body) then
                          Inl \<lparr>tl_limit = limit, tl_actual_size = int (length body)\<rparr>
                        else Inr body)
                   | None \<Rightarrow>
                       (if limit \<le> 0 then Inr (concat (hq_chunks q)) else read_chunks limit 0 (hq_chunks q)))))"

text \<open>The version for an error outside the negotiation; a malformed one is passed on as it is.\<close>

definition raw_version :: "'b http_request \<Rightarrow> string option" where
  "raw_version q = str_or (hq_version_header q) (hq_version_query q)"

definition error_protocol_version :: "server_settings \<Rightarrow> 'b http_request \<Rightarrow> string" where
  "error_protocol_version st q =
     (if or_blank (hq_negotiated q) \<noteq> [] then the (hq_negotiated q)
      else if or_blank (raw_version q) \<noteq> [] then
        (case normalize_protocol_version (the (raw_version q)) of
           Inr v \<Rightarrow> v
         | Inl _ \<Rightarrow> or_blank (raw_version q))
      else st_protocol_version st)"

text \<open>A response, or the text of an exception that leaves the middleware.\<close>

datatype 'r outcome = Respond int pdict | Continue 'r | Crashed string

fun respond :: "int \<Rightarrow> string + pdict \<Rightarrow> 'r outcome" where
  "respond status (Inl e) = Crashed e"
| "respond status (Inr body) = Respond status body"

lemma respond_answers [simp]: "respond status r \<noteq> Continue x"
  by (cases r) simp_all

definition request_body_too_large_response ::
  "(pyval \<Rightarrow> string) \<Rightarrow> string \<Rightarrow> body_too_large \<Rightarrow> 'r outcome" where
  "request_body_too_large_response value_text version e =
     respond 413 (build_http_error_body value_text version 413 ''RESOURCE_EXHAUSTED'' ''Request body too large''
       [(''error'', PStr ''Request body too large''), (''max_bytes'', PInt (tl_limit e))]
       (Some ''REQUEST_BODY_TOO_LARGE'')
       [(''max_bytes'', PInt (tl_limit e)), (''actual_size'', PInt (tl_actual_size e))])"

text \<open>\<open>enforce_request_body_limit\<close>: the next stage gets the body that was read, if it was.\<close>

definition enforce_request_body_limit ::
  "(pyval \<Rightarrow> string) \<Rightarrow> server_settings \<Rightarrow> 'b list option \<Rightarrow> 'b http_request \<Rightarrow> 'b list option outcome" where
  "enforce_request_body_limit value_text st cached q =
     (if st_max_request_body_bytes st \<le> 0 \<or> hq_method q \<notin> {''POST'', ''PUT'', ''PATCH''} then Continue cached
      else case get_request_body st cached q of
        Inl e \<Rightarrow> request_body_too_large_response value_text (error_protocol_version st q) e
      | Inr body \<Rightarrow> Continue (Some body))"

section \<open>The shape of REST payloads\<close>

definition rest_payload_message :: string where
  "rest_payload_message = ''Invalid HTTP+JSON payload for REST endpoint. Use message.content with ROLE_* role values, or call POST / with method=message/send or method=message/stream.''"

definition guard_rest_payload_shape ::
  "(pyval \<Rightarrow> string) \<Rightarrow> ('b list \<Rightarrow> pyval option) \<Rightarrow> server_settings \<Rightarrow> 'b list option \<Rightarrow> 'b http_request \<Rightarrow> unit outcome" where
  "guard_rest_payload_shape value_text json st cached q =
     (if hq_method q \<noteq> ''POST'' \<or> hq_path q \<notin> {''/v1/message:send'', ''/v1/message:stream''} then Continue ()
      else case get_request_body st cached q of
        Inl e \<Rightarrow> request_body_too_large_response value_text (error_protocol_version st q) e
      | Inr body \<Rightarrow>
          (let payload = parse_json_body json body
           in if looks_like_jsonrpc_envelope payload \<or> looks_like_jsonrpc_message_payload payload then
                respond 400 (build_http_error_body value_text (error_protocol_version st q) 400 ''INVALID_ARGUMENT''
                  rest_payload_message [(''error'', PStr rest_payload_message)] (Some ''INVALID_HTTP_JSON_PAYLOAD'')
                  [(''path'', PStr (hq_path q))])
              else Continue ()))"

section \<open>Method aliases\<close>

definition uses_v1_jsonrpc_aliases :: "'b http_request \<Rightarrow> bool" where
  "uses_v1_jsonrpc_aliases q \<longleftrightarrow> hq_negotiated q = Some ''1.0'' \<or>
     (or_blank (raw_version q) \<noteq> [] \<and> normalize_protocol_version (the (raw_version q)) = Inr ''1.0'')"

text \<open>\<open>dumps\<close> encodes the rewritten payload; the next stage gets the body to use.\<close>

definition normalize_v1_jsonrpc_method_aliases ::
  "(pyval \<Rightarrow> string) \<Rightarrow> ('b list \<Rightarrow> pyval option) \<Rightarrow> (pdict \<Rightarrow> 'b list) \<Rightarrow> server_settings \<Rightarrow> 'b list option
     \<Rightarrow> 'b http_request \<Rightarrow> 'b list option outcome" where
  "normalize_v1_jsonrpc_method_aliases value_text json dumps st cached q =
     (if hq_method q \<noteq> ''POST'' \<or> hq_path q \<noteq> ''/'' \<or> \<not> uses_v1_jsonrpc_aliases q then Continue cached
      else case get_request_body st cached q of
        Inl e \<Rightarrow> request_body_too_large_response value_text (error_protocol_version st q) e
      | Inr body \<Rightarrow>
          (let payload = parse_json_body json body;
               normalized = normalize_v1_jsonrpc_method_alias ''1.0'' payload
           in Continue (Some (if normalized \<noteq> None \<and> normalized \<noteq> payload then dumps (the normalized) else body))))"

section \<open>Negotiation\<close>

definition requires_protocol_negotiation :: "'b http_request \<Rightarrow> bool" where
  "requires_protocol_negotiation q \<longleftrightarrow> (hq_path q = ''/'' \<and> hq_method q = ''POST'') \<or> prefix ''/v1/'' (hq_path q)"

fun is_request_id :: "pyval \<Rightarrow> bool" where
  "is_request_id (PStr _) = True"
| "is_request_id (PInt _) = True"
| "is_request_id (PBool _) = True"
| "is_request_id _ = False"

definition extract_jsonrpc_request_id :: "pdict option \<Rightarrow> pyval" where
  "extract_jsonrpc_request_id payload =
     (case payload of
        None \<Rightarrow> PNone
      | Some d \<Rightarrow> if is_request_id (pget d ''id'') then pget d ''id'' else PNone)"

definition dump_error :: "wire_error \<Rightarrow> pyval" where
  "dump_error e = PDict ([(''code'', PInt (we_code e)), (''message'', PStr (we_message e))]
     @ (case we_data e of None \<Rightarrow> [] | Some v \<Rightarrow> [(''data'', v)]))"

definition version_error_fields :: "string \<Rightarrow> string list \<Rightarrow> string \<Rightarrow> pdict" where
  "version_error_fields requested supported default_version =
     [(''requested_version'', PStr requested), (''supported_protocol_versions'', PList (map PStr supported)),
      (''default_protocol_version'', PStr default_version)]"

definition unsupported_version_rest ::
  "(pyval \<Rightarrow> string) \<Rightarrow> string \<Rightarrow> string list \<Rightarrow> string \<Rightarrow> string + pdict" where
  "unsupported_version_rest value_text requested supported default_version =
     build_http_error_body value_text requested 400 ''INVALID_ARGUMENT'' ''Unsupported A2A version''
       ([(''error'', PStr ''Unsupported A2A version''), (''type'', PStr ''VERSION_NOT_SUPPORTED'')]
         @ version_error_fields requested supported default_version)
       (Some ''VERSION_NOT_SUPPORTED'') (version_error_fields requested supported default_version)"

definition unsupported_version_jsonrpc ::
  "(pyval \<Rightarrow> string) \<Rightarrow> pdict option \<Rightarrow> string \<Rightarrow> string list \<Rightarrow> string \<Rightarrow> string + pdict" where
  "unsupported_version_jsonrpc value_text payload requested supported default_version =
     ebind (adapt_jsonrpc_error_for_protocol value_text requested ''JSONRPCError''
              (version_not_supported_error requested supported default_version)) (\<lambda>e.
     Inr [(''jsonrpc'', PStr ''2.0''), (''id'', extract_jsonrpc_request_id payload), (''error'', dump_error e)])"

text \<open>
  \<open>negotiate_a2a_protocol_version\<close>; \<open>None\<close> continues without a version.  The text of the exception for a
  badly configured server is its \<open>ValueError\<close>.
\<close>

definition negotiate_a2a_protocol_version ::
  "(pyval \<Rightarrow> string) \<Rightarrow> ('b list \<Rightarrow> pyval option) \<Rightarrow> server_settings \<Rightarrow> 'b list option \<Rightarrow> 'b http_request
     \<Rightarrow> negotiated_version option outcome" where
  "negotiate_a2a_protocol_version value_text json st cached q =
     (if \<not> requires_protocol_negotiation q then Continue None
      else case negotiate_protocol_version (hq_version_header q) (hq_version_query q) (st_protocol_version st)
                  (st_supported_versions st) of
        Inr nv \<Rightarrow> Continue (Some nv)
      | Inl (BadConfiguration e) \<Rightarrow> Crashed e
      | Inl (UnsupportedVersion requested supported default_version) \<Rightarrow>
          (if hq_path q = ''/'' \<and> hq_method q = ''POST'' then
             (case get_request_body st cached q of
                Inl e \<Rightarrow> request_body_too_large_response value_text (error_protocol_version st q) e
              | Inr body \<Rightarrow>
                  respond 200 (unsupported_version_jsonrpc value_text (parse_json_body json body) requested supported
                    default_version))
           else respond 400 (unsupported_version_rest value_text requested supported default_version)))"

section \<open>Agent cards\<close>

definition etag_matches :: "string option \<Rightarrow> string \<Rightarrow> bool" where
  "etag_matches if_none_match etag \<longleftrightarrow>
     truthy_str if_none_match \<and>
     (let candidates = filter (\<lambda>s. s \<noteq> []) (map py_strip (split_at (CHR '','') (the if_none_match)))
      in ''*'' \<in> set candidates \<or> etag \<in> set candidates)"

fun first_of_each :: "string list \<Rightarrow> string list \<Rightarrow> string list" where
  "first_of_each seen [] = []"
| "first_of_each seen (item # items) =
     (if py_lower item \<in> set seen then first_of_each seen items
      else item # first_of_each (py_lower item # seen) items)"

definition merge_vary :: "string list \<Rightarrow> string" where
  "merge_vary values = py_join '', '' (first_of_each []
     (filter (\<lambda>s. s \<noteq> []) (map py_strip (concat (map (split_at (CHR '','')) values)))))"

text \<open>The headers of a card response; \<open>vary\<close> is the header that the application set.\<close>

record card_response =
  cr_status :: int
  cr_etag :: "string option"
  cr_cache_control :: "string option"
  cr_vary :: "string option"

definition card_headers :: "int \<Rightarrow> string \<Rightarrow> string \<Rightarrow> string \<Rightarrow> card_response" where
  "card_headers status etag cache_control vary =
     \<lparr>cr_status = status, cr_etag = Some etag, cr_cache_control = Some cache_control, cr_vary = Some vary\<rparr>"

text \<open>
  \<open>cache_agent_card_responses\<close>: \<open>public_paths\<close> and \<open>extended_path\<close> are constants of the SDK, \<open>inner\<close> is
  the response of the application.
\<close>

definition cache_agent_card_responses ::
  "string list \<Rightarrow> string \<Rightarrow> server_settings \<Rightarrow> 'b http_request \<Rightarrow> card_response \<Rightarrow> card_response" where
  "cache_agent_card_responses public_paths extended_path st q inner =
     (let is_public = hq_path q \<in> set public_paths; is_extended = hq_path q = extended_path;
          vary = (case cr_vary inner of None \<Rightarrow> [] | Some v \<Rightarrow> v)
      in if hq_method q \<noteq> ''GET'' \<or> \<not> is_public \<and> \<not> is_extended then inner
         else if is_public \<and> etag_matches (hq_if_none_match q) (st_public_card_etag st) then
           card_headers 304 (st_public_card_etag st) ''public, max-age=300'' ''Accept-Encoding''
         else if cr_status inner \<noteq> 200 then inner
         else if is_public then
           card_headers 200 (st_public_card_etag st) ''public, max-age=300'' (merge_vary [vary, ''Accept-Encoding''])
         else
           card_headers (if etag_matches (hq_if_none_match q) (st_extended_card_etag st) then 304 else 200)
             (st_extended_card_etag st) ''private, max-age=300''
             (merge_vary [vary, ''Authorization'', ''Accept-Encoding'']))"

section \<open>Payload logging\<close>

datatype log_line =
    Request_Method string
  | Request_Body string
  | Request_Omitted string
  | Response_Streaming "string option"
  | Response_Size "string option" nat   \<comment> \<open>with the method, or without a body for an omitted request\<close>
  | Response_Omitted string
  | Response_Body string

record 'b logged_response =
  hs_streaming :: bool
  hs_body :: "'b list"
  hs_content_type :: "string option"

text \<open>The sensitive method, the reason to omit the body, and the line for the request.\<close>

definition log_request ::
  "('b list \<Rightarrow> pyval option) \<Rightarrow> ('b list \<Rightarrow> string) \<Rightarrow> server_settings \<Rightarrow> 'b list option \<Rightarrow> 'b http_request
     \<Rightarrow> body_too_large + string option \<times> string option \<times> log_line" where
  "log_request json decode st cached q =
     (let limit = st_log_body_limit st; content_type = normalize_content_type (hq_content_type q);
          content_length = parse_content_length (hq_content_length q);
          omit = (\<lambda>why. Inr (None, Some why, Request_Omitted why))
      in if \<not> is_json_content_type content_type then
           omit (''non-json content-type='' @ (if content_type = [] then ''unknown'' else content_type))
         else case (0 < limit, content_length) of
           (True, None) \<Rightarrow> omit (''missing content-length with limit='' @ int_str limit)
         | (True, Some n) \<Rightarrow>
             (if limit < n then
                omit (''content-length='' @ int_str n @ '' exceeds limit='' @ int_str limit)
              else ebind (get_request_body st cached q) (\<lambda>body.
                case detect_sensitive_extension_method (parse_json_body json body) of
                  Some m \<Rightarrow> Inr (Some m, None, Request_Method m)
                | None \<Rightarrow> Inr (None, None, Request_Body (decode_payload_preview decode limit body))))
         | (False, _) \<Rightarrow>
             ebind (get_request_body st cached q) (\<lambda>body.
             case detect_sensitive_extension_method (parse_json_body json body) of
               Some m \<Rightarrow> Inr (Some m, None, Request_Method m)
             | None \<Rightarrow> Inr (None, None, Request_Body (decode_payload_preview decode limit body))))"

definition log_response ::
  "('b list \<Rightarrow> string) \<Rightarrow> server_settings \<Rightarrow> string option \<Rightarrow> string option \<Rightarrow> 'b logged_response \<Rightarrow> log_line" where
  "log_response decode st sensitive omitted r =
     (let content_type = normalize_content_type (hs_content_type r)
      in if hs_streaming r then Response_Streaming sensitive
         else if sensitive \<noteq> None then Response_Size sensitive (length (hs_body r))
         else if omitted \<noteq> None then Response_Size None (length (hs_body r))
         else if \<not> is_json_content_type content_type then
           Response_Omitted (''non-json content-type='' @ (if content_type = [] then ''unknown'' else content_type))
         else Response_Body (decode_payload_preview decode (st_log_body_limit st) (hs_body r)))"

text \<open>The two lines of \<open>log_payloads\<close>, when the payloads are logged.\<close>

definition log_payloads ::
  "('b list \<Rightarrow> pyval option) \<Rightarrow> ('b list \<Rightarrow> string) \<Rightarrow> server_settings \<Rightarrow> 'b list option \<Rightarrow> 'b http_request
     \<Rightarrow> 'b logged_response \<Rightarrow> body_too_large + log_line list" where
  "log_payloads json decode st cached q r =
     ebind (log_request json decode st cached q) (\<lambda>(sensitive, omitted, line).
     Inr [line, log_response decode st sensitive omitted r])"

section \<open>What the limit guarantees\<close>

lemma read_chunks_value:
  "0 \<le> seen \<Longrightarrow> seen \<le> limit \<Longrightarrow> read_chunks limit seen chunks = Inr body \<longleftrightarrow>
    body = concat chunks \<and> seen + int (length (concat chunks)) \<le> limit"
proof (induction chunks arbitrary: seen body)
  case (Cons c cs)
  show ?case
  proof (cases "limit < seen + int (length c)")
    case False
    let ?n = "seen + int (length c)"
    have le: "0 \<le> ?n" "?n \<le> limit" using Cons.prems False by simp_all
    have "read_chunks limit seen (c # cs) = Inr body \<longleftrightarrow> (\<exists>b. read_chunks limit ?n cs = Inr b \<and> c @ b = body)"
      using False by (simp add: Let_def ebind_Inr_iff)
    also have "\<dots> \<longleftrightarrow> (\<exists>b. b = concat cs \<and> ?n + int (length (concat cs)) \<le> limit \<and> c @ b = body)"
      using Cons.IH [OF le] by simp
    finally show ?thesis by auto
  qed (simp add: Let_def)
qed auto

lemma read_chunks_refused: "read_chunks limit seen chunks = Inl e \<Longrightarrow> tl_limit e = limit \<and> limit < tl_actual_size e"
  by (induction chunks arbitrary: seen) (auto simp: Let_def ebind_Inl_iff split: if_split_asm)

text \<open>The whole body of a request, however it arrives, and the length its header declares.\<close>

definition full_body :: "'b http_request \<Rightarrow> 'b list" where
  "full_body q = (case hq_buffered q of Some body \<Rightarrow> body | None \<Rightarrow> concat (hq_chunks q))"

definition declared_within :: "int \<Rightarrow> 'b http_request \<Rightarrow> bool" where
  "declared_within limit q \<longleftrightarrow> (case parse_content_length (hq_content_length q) of None \<Rightarrow> True | Some n \<Rightarrow> n \<le> limit)"

text \<open>
  C17: with a limit, a body is handed on exactly when neither its declared nor its real length exceeds
  the limit, and then it is the whole body; a refusal reports the limit and a length above it.
\<close>

theorem request_bodies_are_bounded:
  assumes "0 < st_max_request_body_bytes st"
  shows "(get_request_body st None q = Inr body \<longleftrightarrow>
      body = full_body q \<and> int (length body) \<le> st_max_request_body_bytes st \<and>
      declared_within (st_max_request_body_bytes st) q) \<and>
    (get_request_body st None q = Inl e \<longrightarrow>
      tl_limit e = st_max_request_body_bytes st \<and> tl_limit e < tl_actual_size e)"
proof -
  let ?l = "st_max_request_body_bytes st"
  have r: "read_chunks ?l 0 (hq_chunks q) = Inr body \<longleftrightarrow>
      body = concat (hq_chunks q) \<and> int (length (concat (hq_chunks q))) \<le> ?l"
    using read_chunks_value [of 0 ?l "hq_chunks q" body] assms by simp
  show ?thesis
    using assms r read_chunks_refused [of ?l 0 "hq_chunks q" e]
    by (cases "parse_content_length (hq_content_length q)"; cases "hq_buffered q")
      (auto simp: get_request_body_def full_body_def declared_within_def Let_def)
qed

section \<open>What is logged\<close>

definition logs_body :: "log_line list \<Rightarrow> bool" where
  "logs_body ls \<longleftrightarrow> list_ex (\<lambda>l. case l of Request_Body _ \<Rightarrow> True | Response_Body _ \<Rightarrow> True | _ \<Rightarrow> False) ls"


section \<open>Versions in the pipeline\<close>

text \<open>
  For a request that names a version in its header, the method aliases of version 1 apply exactly
  when version \<open>1.0\<close> is negotiated afterwards.
\<close>

theorem aliases_follow_the_negotiated_version:
  assumes "hq_negotiated q = None" "or_blank (hq_version_header q) \<noteq> []" "requires_protocol_negotiation q"
    and "negotiate_a2a_protocol_version value_text json st cached q = Continue (Some nv)"
  shows "uses_v1_jsonrpc_aliases q \<longleftrightarrow> nv_negotiated nv = ''1.0''"
proof -
  obtain h where h: "hq_version_header q = Some h" "py_strip h \<noteq> []"
    using assms(2) by (auto simp: or_blank_def split: option.splits)
  then have raw: "raw_version q = Some h" by (cases h) (simp_all add: raw_version_def)
  have "negotiate_protocol_version (hq_version_header q) (hq_version_query q) (st_protocol_version st)
      (st_supported_versions st) = Inr nv"
    using assms(3,4) h
    by (auto simp: negotiate_a2a_protocol_version_def request_body_too_large_response_def
        split: sum.split_asm version_error.split_asm if_split_asm)
  then have "normalize_protocol_version (py_strip h) = Inr (nv_negotiated nv)"
    using h by (auto simp: negotiate_protocol_version_def requested_version_def or_blank_def Let_def
        split: sum.split_asm if_split_asm)
  moreover have "normalize_protocol_version (py_strip h) = normalize_protocol_version h"
    by (simp add: normalize_protocol_version_def Let_def)
  ultimately show ?thesis
    using h by (simp add: uses_v1_jsonrpc_aliases_def assms(1) raw or_blank_def)
qed

text \<open>
  A request whose version header is malformed is not answered with the error for unsupported
  versions: building that error fails on the malformed version.
\<close>

theorem malformed_version_crashes:
  assumes "requires_protocol_negotiation q" "normalize_protocol_version (or_blank (hq_version_header q)) = Inl e"
    and "or_blank (hq_version_header q) \<noteq> []"
    and "normalize_protocol_version (st_protocol_version st) = Inr d"
    and "normalize_protocol_versions (st_supported_versions st) = Inr versions"
    and "get_request_body st cached q = Inr body"
  shows "negotiate_a2a_protocol_version value_text json st cached q = Crashed e"
  using assms(1-3,6)
  by (auto simp: negotiate_a2a_protocol_version_def negotiate_protocol_version_def assms(4,5) requested_version_def
      Let_def unsupported_version_jsonrpc_def unsupported_version_rest_def adapt_jsonrpc_error_for_protocol_def
      build_http_error_body_def protocol_uses_v1_error_format_def)

text \<open>
  A server whose default version is \<open>1.0\<close> serves a request without a version under \<open>1.0\<close>, but does not
  apply the aliases of that version: they are looked up before the version is negotiated.
\<close>

theorem default_version_skips_aliases:
  assumes "hq_negotiated q = None" "hq_version_header q = None" "hq_version_query q = None"
    and "normalize_protocol_version (st_protocol_version st) = Inr ''1.0''"
    and "normalize_protocol_versions (st_supported_versions st) = Inr versions" "''1.0'' \<in> set versions"
    and "requires_protocol_negotiation q"
  shows "normalize_v1_jsonrpc_method_aliases value_text json dumps st cached q = Continue cached \<and>
    negotiate_a2a_protocol_version value_text json st cached q =
      Continue (Some \<lparr>nv_requested = ''1.0'', nv_negotiated = ''1.0'', nv_explicit = False\<rparr>)"
proof -
  have n: "normalize_protocol_version ''1.0'' = Inr ''1.0''" by code_simp
  have "\<not> uses_v1_jsonrpc_aliases q"
    using assms(1-3) by (simp add: uses_v1_jsonrpc_aliases_def raw_version_def or_blank_def)
  then show ?thesis
    using assms n
    by (simp add: normalize_v1_jsonrpc_method_aliases_def negotiate_a2a_protocol_version_def
        negotiate_protocol_version_def requested_version_def or_blank_def Let_def)
qed

section \<open>Concrete requests\<close>

definition sample_settings :: server_settings where
  "sample_settings = \<lparr>st_protocol_version = ''0.3'', st_supported_versions = [''0.3'', ''1.0''],
     st_max_request_body_bytes = 4, st_log_body_limit = 0, st_public_card_etag = ''p'', st_extended_card_etag = ''x''\<rparr>"

definition posted :: "string option \<Rightarrow> nat list list \<Rightarrow> nat http_request" where
  "posted version chunks = \<lparr>hq_method = ''POST'', hq_path = ''/'', hq_version_header = version, hq_version_query = None,
     hq_content_type = Some ''application/json'', hq_content_length = None, hq_if_none_match = None, hq_buffered = None,
     hq_chunks = chunks, hq_negotiated = None\<rparr>"

theorem request_bodies_are_bounded_witness:
  "get_request_body sample_settings None (posted None [[1, 2], [], [3]]) = Inr [1, 2, 3] \<and>
   get_request_body sample_settings None (posted None [[1, 2], [3, 4, 5]]) \<noteq> Inr [1, 2, 3, 4, 5]"
proof -
  have "0 < st_max_request_body_bytes sample_settings" by (simp add: sample_settings_def)
  note b = request_bodies_are_bounded [OF this, THEN conjunct1]
  show ?thesis
    unfolding b by (simp add: posted_def sample_settings_def full_body_def declared_within_def parse_content_length_def)
qed

definition sample_json :: "nat list \<Rightarrow> pyval option" where
  "sample_json body = Some (PDict [(''method'', PStr (if body = [1] then ''message/send'' else ''opencode.sessions.get''))])"


theorem aliases_follow_the_negotiated_version_witness:
  "uses_v1_jsonrpc_aliases (posted (Some ''1.0.7'') [])"
proof -
  let ?q = "posted (Some ''1.0.7'') []"
  have n: "negotiate_a2a_protocol_version (\<lambda>_. []) sample_json sample_settings None ?q =
    Continue (Some \<lparr>nv_requested = ''1.0'', nv_negotiated = ''1.0'', nv_explicit = True\<rparr>)" by code_simp
  have "hq_negotiated ?q = None" "or_blank (hq_version_header ?q) \<noteq> []" "requires_protocol_negotiation ?q"
    by code_simp+
  from aliases_follow_the_negotiated_version [OF this n] show ?thesis by simp
qed

theorem malformed_version_crashes_witness:
  "negotiate_a2a_protocol_version (\<lambda>_. []) sample_json sample_settings None (posted (Some ''latest'') []) =
     Crashed ''Protocol version must use Major.Minor or Major.Minor.Patch format.''"
proof -
  let ?q = "posted (Some ''latest'') []"
  have "requires_protocol_negotiation ?q" "normalize_protocol_version (or_blank (hq_version_header ?q)) =
      Inl ''Protocol version must use Major.Minor or Major.Minor.Patch format.''"
    "or_blank (hq_version_header ?q) \<noteq> []"
    "normalize_protocol_version (st_protocol_version sample_settings) = Inr ''0.3''"
    "normalize_protocol_versions (st_supported_versions sample_settings) = Inr [''0.3'', ''1.0'']"
    "get_request_body sample_settings None ?q = Inr []" by code_simp+
  then show ?thesis by (rule malformed_version_crashes)
qed

end
