(* ===== verification/Client_Manager.thy ===== *)
theory Client_Manager
  imports Prelude "HOL-Library.Multiset"
begin

text \<open>
  The cache of outgoing clients, \<open>A2AClientManager\<close> of \<open>server/client_manager.py\<close>.  An entry is known
  by its client, a number that counts the clients the manager has created.  Whether a client is busy
  (\<open>is_busy\<close>) is a predicate at the time of a section.  A section under \<open>self._lock\<close> is one definition;
  \<open>manager_step\<close> interleaves the sections of all borrowers with the closing of clients.
\<close>

declare map_of_eq_Some_iff [simp del]

section \<open>The manager\<close>

record cache_entry =
  ce_client :: nat
  ce_last_used :: time
  ce_expires_at :: "time option"
  ce_borrow_count :: nat
  ce_pending_eviction :: bool

record client_manager =
  cm_ttl :: time
  cm_maxsize :: int
  cm_clients :: "(string, cache_entry) dict"
  cm_created :: nat

definition new_manager :: "time \<Rightarrow> int \<Rightarrow> client_manager" where
  "new_manager ttl maxsize = \<lparr>cm_ttl = ttl, cm_maxsize = maxsize, cm_clients = [], cm_created = 0\<rparr>"

text \<open>\<open>A2AClient.__init__\<close> refuses a blank URL.\<close>

definition valid_agent_url :: "string \<Rightarrow> bool" where
  "valid_agent_url url \<longleftrightarrow> url \<noteq> [] \<and> py_strip url \<noteq> []"

definition entry_expired :: "time \<Rightarrow> cache_entry \<Rightarrow> bool" where
  "entry_expired now e = (case ce_expires_at e of None \<Rightarrow> False | Some t \<Rightarrow> t \<le> now)"

definition in_use :: "(nat \<Rightarrow> bool) \<Rightarrow> cache_entry \<Rightarrow> bool" where
  "in_use busy e \<longleftrightarrow> 0 < ce_borrow_count e \<or> busy (ce_client e)"

definition new_expiry :: "time \<Rightarrow> time \<Rightarrow> time option" where
  "new_expiry ttl now = (if ttl \<le> 0 then None else Some (now + ttl))"

section \<open>Eviction\<close>

text \<open>The first loop of \<open>_evict_locked\<close>, over the expired and the pending entries.\<close>

fun evict_expired ::
  "time \<Rightarrow> string list \<Rightarrow> (nat \<Rightarrow> bool) \<Rightarrow> (string, cache_entry) dict \<Rightarrow> nat list \<times> (string, cache_entry) dict" where
  "evict_expired now protected busy [] = ([], [])"
| "evict_expired now protected busy ((key, e) # r) =
     (let (closing, kept) = evict_expired now protected busy r
      in if \<not> entry_expired now e \<and> \<not> ce_pending_eviction e then (closing, (key, e) # kept)
         else if key \<in> set protected \<or> in_use busy e
           then (closing, (key, e\<lparr>ce_pending_eviction := True\<rparr>) # kept)
         else (ce_client e # closing, kept))"

text \<open>The second loop, over the entries by their last use, until the cache is small enough.\<close>

fun evict_oldest ::
  "int \<Rightarrow> string list \<Rightarrow> (nat \<Rightarrow> bool) \<Rightarrow> (string \<times> cache_entry) list \<Rightarrow> (string, cache_entry) dict
     \<Rightarrow> nat list \<times> (string, cache_entry) dict" where
  "evict_oldest maxsize protected busy [] clients = ([], clients)"
| "evict_oldest maxsize protected busy ((key, e) # r) clients =
     (if int (length clients) \<le> maxsize then ([], clients)
      else if key \<in> set protected then evict_oldest maxsize protected busy r clients
      else if in_use busy e
        then evict_oldest maxsize protected busy r (dict_set key (e\<lparr>ce_pending_eviction := True\<rparr>) clients)
      else apfst (\<lambda>closing. ce_client e # closing)
             (evict_oldest maxsize protected busy r (dict_pop key clients)))"

definition evict_locked ::
  "time \<Rightarrow> string list \<Rightarrow> (nat \<Rightarrow> bool) \<Rightarrow> client_manager \<Rightarrow> nat list \<times> client_manager" where
  "evict_locked now protected busy m =
     (let (closing, clients) = evict_expired now protected busy (cm_clients m)
      in if cm_maxsize m \<le> 0 \<or> int (length clients) \<le> cm_maxsize m then (closing, m\<lparr>cm_clients := clients\<rparr>)
         else if list_ex (\<lambda>(key, e). ce_pending_eviction e) clients then (closing, m\<lparr>cm_clients := clients\<rparr>)
         else
           let (closing', clients') =
             evict_oldest (cm_maxsize m) protected busy (sort_key (\<lambda>(key, e). ce_last_used e) clients) clients
           in (closing @ closing', m\<lparr>cm_clients := clients'\<rparr>))"

section \<open>Borrowing and returning\<close>

text \<open>
  The section before the client is used.  It gives the clients to close and, unless the construction
  of a client fails, the borrowed one.  \<open>Inl\<close> is the failure: the clients that were taken out of the
  cache for closing are then lost.
\<close>

definition take_expired ::
  "time \<Rightarrow> (nat \<Rightarrow> bool) \<Rightarrow> string \<Rightarrow> client_manager \<Rightarrow> nat list \<times> client_manager" where
  "take_expired now busy url m =
     (case dict_get (cm_clients m) url of
        None \<Rightarrow> ([], m)
      | Some e \<Rightarrow>
          if \<not> entry_expired now e then ([], m)
          else if in_use busy e
            then ([], m\<lparr>cm_clients := dict_set url (e\<lparr>ce_pending_eviction := True\<rparr>) (cm_clients m)\<rparr>)
          else ([ce_client e], m\<lparr>cm_clients := dict_pop url (cm_clients m)\<rparr>))"

definition enter_client :: "time \<Rightarrow> string \<Rightarrow> client_manager \<Rightarrow> nat \<times> client_manager" where
  "enter_client now url m =
     (case dict_get (cm_clients m) url of
        None \<Rightarrow>
          (cm_created m,
           m\<lparr>cm_clients := dict_set url \<lparr>ce_client = cm_created m, ce_last_used = now,
               ce_expires_at = new_expiry (cm_ttl m) now, ce_borrow_count = 1, ce_pending_eviction = False\<rparr>
               (cm_clients m),
             cm_created := Suc (cm_created m)\<rparr>)
      | Some e \<Rightarrow>
          (ce_client e,
           m\<lparr>cm_clients := dict_set url (e\<lparr>ce_last_used := now, ce_expires_at := new_expiry (cm_ttl m) now,
               ce_pending_eviction := False, ce_borrow_count := Suc (ce_borrow_count e)\<rparr>) (cm_clients m)\<rparr>))"

definition borrow_client ::
  "time \<Rightarrow> (nat \<Rightarrow> bool) \<Rightarrow> string \<Rightarrow> client_manager \<Rightarrow> (nat list + nat \<times> nat list) \<times> client_manager" where
  "borrow_client now busy url m =
     (let (c1, m1) = take_expired now busy url m;
          (c2, m2) = evict_locked now [url] busy m1
      in if dict_get (cm_clients m2) url = None \<and> \<not> valid_agent_url url then (Inl (c1 @ c2), m2)
         else
           let (client, m3) = enter_client now url m2;
               (c3, m4) = evict_locked now [url] busy m3
           in (Inr (client, c1 @ c2 @ c3), m4))"

definition return_client ::
  "time \<Rightarrow> (nat \<Rightarrow> bool) \<Rightarrow> string \<Rightarrow> nat \<Rightarrow> client_manager \<Rightarrow> nat list \<times> client_manager" where
  "return_client now busy url client m =
     evict_locked now [] busy
       (case dict_get (cm_clients m) url of
          None \<Rightarrow> m
        | Some e \<Rightarrow>
            (if ce_client e \<noteq> client then m
             else m\<lparr>cm_clients := dict_set url (e\<lparr>ce_borrow_count := ce_borrow_count e - 1,
               ce_last_used := now, ce_expires_at := new_expiry (cm_ttl m) now\<rparr>) (cm_clients m)\<rparr>))"

definition close_all :: "client_manager \<Rightarrow> nat list \<times> client_manager" where
  "close_all m = (map (\<lambda>(key, e). ce_client e) (cm_clients m), m\<lparr>cm_clients := []\<rparr>)"

section \<open>Steps\<close>

text \<open>
  A borrower first closes the clients its section took out of the cache (\<open>u_closing\<close>), then uses its
  own, then returns it and closes what that section took out.  With \<open>interrupts\<close> closing may fail or be
  cancelled: before the client is used this ends the borrower, and its client is never returned.
  \<open>ms_lost\<close> are the clients nobody is left to close, \<open>ms_dropped\<close> those that \<open>close_all\<close> took.
\<close>

record use =
  u_url :: string
  u_client :: nat
  u_closing :: "nat list"

record manager_sys =
  ms_manager :: client_manager
  ms_uses :: "use list"
  ms_closing :: "nat list"
  ms_closed :: "nat list"
  ms_lost :: "nat list"
  ms_dropped :: "nat list"

definition manager_init :: "time \<Rightarrow> int \<Rightarrow> manager_sys" where
  "manager_init ttl maxsize = \<lparr>ms_manager = new_manager ttl maxsize, ms_uses = [], ms_closing = [],
     ms_closed = [], ms_lost = [], ms_dropped = []\<rparr>"

inductive manager_step :: "bool \<Rightarrow> manager_sys \<Rightarrow> manager_sys \<Rightarrow> bool" for interrupts where
  borrow: "0 < cm_maxsize (ms_manager s) \<Longrightarrow>
    borrow_client now busy (rstrip_slash agent_url) (ms_manager s) = (Inr (client, closing), m) \<Longrightarrow>
    manager_step interrupts s (s\<lparr>ms_manager := m,
      ms_uses := \<lparr>u_url = rstrip_slash agent_url, u_client = client, u_closing = closing\<rparr> # ms_uses s\<rparr>)"
| borrow_invalid: "0 < cm_maxsize (ms_manager s) \<Longrightarrow>
    borrow_client now busy (rstrip_slash agent_url) (ms_manager s) = (Inl closing, m) \<Longrightarrow>
    manager_step interrupts s (s\<lparr>ms_manager := m, ms_lost := closing @ ms_lost s\<rparr>)"
| borrow_uncached: "cm_maxsize (ms_manager s) \<le> 0 \<Longrightarrow> valid_agent_url (rstrip_slash agent_url) \<Longrightarrow>
    manager_step interrupts s (s\<lparr>ms_manager := (ms_manager s)\<lparr>cm_created := Suc (cm_created (ms_manager s))\<rparr>,
      ms_uses := \<lparr>u_url = rstrip_slash agent_url, u_client = cm_created (ms_manager s), u_closing = []\<rparr> # ms_uses s\<rparr>)"
| close_evicted: "ms_uses s = us @ u # vs \<Longrightarrow> u_closing u = c # cs \<Longrightarrow>
    manager_step interrupts s (s\<lparr>ms_uses := us @ u\<lparr>u_closing := cs\<rparr> # vs, ms_closed := c # ms_closed s\<rparr>)"
| interrupted: "interrupts \<Longrightarrow> 0 < cm_maxsize (ms_manager s) \<Longrightarrow> ms_uses s = us @ u # vs \<Longrightarrow> u_closing u = c # cs \<Longrightarrow>
    manager_step interrupts s (s\<lparr>ms_uses := us @ vs, ms_lost := (c # cs) @ ms_lost s\<rparr>)"
| give_back: "0 < cm_maxsize (ms_manager s) \<Longrightarrow> ms_uses s = us @ u # vs \<Longrightarrow> u_closing u = [] \<Longrightarrow>
    return_client now busy (u_url u) (u_client u) (ms_manager s) = (closing, m) \<Longrightarrow>
    manager_step interrupts s (s\<lparr>ms_manager := m, ms_uses := us @ vs, ms_closing := ms_closing s @ closing\<rparr>)"
| give_back_uncached: "cm_maxsize (ms_manager s) \<le> 0 \<Longrightarrow> ms_uses s = us @ u # vs \<Longrightarrow> u_closing u = [] \<Longrightarrow>
    manager_step interrupts s (s\<lparr>ms_uses := us @ vs, ms_closing := ms_closing s @ [u_client u]\<rparr>)"
| close_client: "ms_closing s = xs @ c # ys \<Longrightarrow>
    manager_step interrupts s (s\<lparr>ms_closing := xs @ ys, ms_closed := c # ms_closed s\<rparr>)"
| shut_down: "close_all (ms_manager s) = (closing, m) \<Longrightarrow>
    manager_step interrupts s (s\<lparr>ms_manager := m, ms_closing := ms_closing s @ closing,
      ms_dropped := closing @ ms_dropped s\<rparr>)"

inductive manager_reachable :: "bool \<Rightarrow> time \<Rightarrow> int \<Rightarrow> manager_sys \<Rightarrow> bool" for interrupts ttl maxsize where
  start: "manager_reachable interrupts ttl maxsize (manager_init ttl maxsize)"
| step: "manager_reachable interrupts ttl maxsize s \<Longrightarrow> manager_step interrupts s s' \<Longrightarrow>
    manager_reachable interrupts ttl maxsize s'"

section \<open>What eviction keeps\<close>

definition clients_of :: "(string, cache_entry) dict \<Rightarrow> nat multiset" where
  "clients_of cl = mset (map (\<lambda>(key, e). ce_client e) cl)"

lemma clients_of_simps [simp]:
  "clients_of [] = {#}" "clients_of ((k, e) # cl) = add_mset (ce_client e) (clients_of cl)"
  by (simp_all add: clients_of_def)

definition same_entry :: "cache_entry \<Rightarrow> cache_entry \<Rightarrow> bool" where
  "same_entry e e' \<longleftrightarrow> ce_client e' = ce_client e \<and> ce_borrow_count e' = ce_borrow_count e"

lemma same_entry_refl [simp]: "same_entry e e" "same_entry e (e\<lparr>ce_pending_eviction := b\<rparr>)"
  by (simp_all add: same_entry_def)

lemma same_entry_trans: "same_entry e e' \<Longrightarrow> same_entry e' e'' \<Longrightarrow> same_entry e e''"
  by (simp add: same_entry_def)

definition evicts ::
  "string list \<Rightarrow> (string, cache_entry) dict \<Rightarrow> nat list \<Rightarrow> (string, cache_entry) dict \<Rightarrow> bool" where
  "evicts protected cl closing cl' \<longleftrightarrow> wf_dict cl' \<and> clients_of cl = mset closing + clients_of cl' \<and>
     (\<forall>k e'. dict_get cl' k = Some e' \<longrightarrow> (\<exists>e. dict_get cl k = Some e \<and> same_entry e e')) \<and>
     (\<forall>k e. dict_get cl k = Some e \<and> (k \<in> set protected \<or> 0 < ce_borrow_count e) \<longrightarrow>
        (\<exists>e'. dict_get cl' k = Some e' \<and> same_entry e e'))"

lemma evicts_refl: "wf_dict cl \<Longrightarrow> evicts protected cl [] cl"
  by (auto simp: evicts_def intro: same_entry_refl)

lemma evicts_trans:
  assumes "evicts protected cl a cl'" "evicts protected cl' b cl''"
  shows "evicts protected cl (a @ b) cl''"
proof -
  have "\<exists>e. dict_get cl k = Some e \<and> same_entry e e''" if "dict_get cl'' k = Some e''" for k e''
    using assms that unfolding evicts_def by (meson same_entry_trans)
  moreover have "\<exists>e''. dict_get cl'' k = Some e'' \<and> same_entry e e''"
    if p: "dict_get cl k = Some e" "k \<in> set protected \<or> 0 < ce_borrow_count e" for k e
  proof -
    obtain e' where e': "dict_get cl' k = Some e'" "same_entry e e'"
      using assms(1) p unfolding evicts_def by blast
    then have "k \<in> set protected \<or> 0 < ce_borrow_count e'" using p(2) by (simp add: same_entry_def)
    then obtain e'' where "dict_get cl'' k = Some e''" "same_entry e' e''"
      using assms(2) e'(1) unfolding evicts_def by blast
    then show ?thesis using e'(2) same_entry_trans by blast
  qed
  ultimately show ?thesis using assms by (simp add: evicts_def ac_simps)
qed

lemma clients_of_pop:
  "wf_dict cl \<Longrightarrow> dict_get cl k = Some e \<Longrightarrow> clients_of cl = add_mset (ce_client e) (clients_of (dict_pop k cl))"
proof (induction cl)
  case (Cons p cl)
  obtain k' e' where p: "p = (k', e')" by (cases p)
  show ?case
  proof (cases "k' = k")
    case True
    then have "k \<notin> fst ` set cl" using Cons.prems(1) p by simp
    then have "dict_pop k cl = cl" by (simp add: delete_idem)
    then show ?thesis using True Cons.prems(2) p by simp
  qed (use Cons p in auto)
qed simp

lemma clients_of_same:
  "wf_dict cl \<Longrightarrow> dict_get cl k = Some e \<Longrightarrow> ce_client e' = ce_client e \<Longrightarrow> clients_of (dict_set k e' cl) = clients_of cl"
  by (induction cl) (auto split: if_splits)

lemma clients_of_fresh: "dict_get cl k = None \<Longrightarrow> clients_of (dict_set k e cl) = add_mset (ce_client e) (clients_of cl)"
  by (induction cl) (auto split: if_splits)

lemma evicts_mark:
  "wf_dict cl \<Longrightarrow> dict_get cl k = Some e \<Longrightarrow> evicts protected cl [] (dict_set k (e\<lparr>ce_pending_eviction := b\<rparr>) cl)"
  by (auto simp: evicts_def dict_get_set clients_of_same)

lemma evicts_pop:
  "wf_dict cl \<Longrightarrow> dict_get cl k = Some e \<Longrightarrow> k \<notin> set protected \<Longrightarrow> ce_borrow_count e = 0 \<Longrightarrow>
    evicts protected cl [ce_client e] (dict_pop k cl)"
  by (auto simp: evicts_def dict_get_pop clients_of_pop split: if_splits)

lemma evict_expired_keys: "fst ` set (snd (evict_expired now protected busy cl)) \<subseteq> fst ` set cl"
proof (induction now protected busy cl rule: evict_expired.induct)
  case (2 now protected busy key e r)
  then show ?case by (cases "evict_expired now protected busy r") (simp add: subset_insertI2)
qed simp

lemma evict_expired_evicts:
  "wf_dict cl \<Longrightarrow> evict_expired now protected busy cl = (closing, cl') \<Longrightarrow> evicts protected cl closing cl'"
proof (induction now protected busy cl arbitrary: closing cl' rule: evict_expired.induct)
  case (1 now protected busy)
  then show ?case using evicts_refl [of "[]" protected] by simp
next
  case (2 now protected busy key e r)
  obtain c kept where rec: "evict_expired now protected busy r = (c, kept)" by (cases "evict_expired now protected busy r")
  have ih: "evicts protected r c kept" using 2 rec by simp
  have fresh: "key \<notin> fst ` set kept" "key \<notin> fst ` set r"
    using evict_expired_keys [of now protected busy r] 2(2) rec by auto
  then have nk: "dict_get kept key = None" "dict_get r key = None" by (simp_all add: map_of_eq_None_iff)
  show ?case
    using 2(3) ih fresh nk unfolding evict_expired.simps rec
    by (auto simp: evicts_def in_use_def same_entry_def split: if_splits)
qed

lemma evict_oldest_evicts:
  "wf_dict cl \<Longrightarrow> distinct (map fst es) \<Longrightarrow> \<forall>(k, e) \<in> set es. dict_get cl k = Some e \<Longrightarrow>
    evict_oldest maxsize protected busy es cl = (closing, cl') \<Longrightarrow> evicts protected cl closing cl'"
proof (induction maxsize protected busy es cl arbitrary: closing cl' rule: evict_oldest.induct)
  case (2 maxsize protected busy key e r clients)
  have es: "distinct (map fst r)" "\<forall>(k, e) \<in> set r. dict_get clients k = Some e" "dict_get clients key = Some e"
    "\<forall>(k, e) \<in> set r. k \<noteq> key"
    using "2.prems"(2,3) by (auto simp: rev_image_eqI)
  consider (enough) "int (length clients) \<le> maxsize"
    | (protected) "\<not> int (length clients) \<le> maxsize" "key \<in> set protected"
    | (used) "\<not> int (length clients) \<le> maxsize" "key \<notin> set protected" "in_use busy e"
    | (idle) "\<not> int (length clients) \<le> maxsize" "key \<notin> set protected" "\<not> in_use busy e"
    by blast
  then show ?case
  proof cases
    case enough
    then show ?thesis using "2.prems" evicts_refl by simp
  next
    case protected
    then show ?thesis using 2 es by simp
  next
    case used
    let ?cl = "dict_set key (e\<lparr>ce_pending_eviction := True\<rparr>) clients"
    have "\<forall>(k, e) \<in> set r. dict_get ?cl k = Some e" using es by (auto simp: dict_get_set)
    then have "evicts protected ?cl closing cl'" using 2 used es by simp
    with evicts_mark [OF "2.prems"(1) es(3)] show ?thesis using evicts_trans by fastforce
  next
    case idle
    let ?cl = "dict_pop key clients"
    have "\<forall>(k, e) \<in> set r. dict_get ?cl k = Some e" using es by (auto simp: dict_get_pop)
    then have "evicts protected ?cl (tl closing) cl' \<and> closing = ce_client e # tl closing"
      using 2 idle es by (cases "evict_oldest maxsize protected busy r ?cl") auto
    moreover have "ce_borrow_count e = 0" using idle(3) by (simp add: in_use_def)
    ultimately show ?thesis
      using evicts_trans [OF evicts_pop [OF "2.prems"(1) es(3) idle(2)]] by (metis append_Cons append_Nil)
  qed
qed (simp add: evicts_refl)

lemma evict_locked_evicts:
  assumes "wf_dict (cm_clients m)" "evict_locked now protected busy m = (closing, m')"
  shows "evicts protected (cm_clients m) closing (cm_clients m')"
    "cm_created m' = cm_created m" "cm_maxsize m' = cm_maxsize m" "cm_ttl m' = cm_ttl m"
proof -
  obtain c cl where e: "evict_expired now protected busy (cm_clients m) = (c, cl)" by (cases "evict_expired now protected busy (cm_clients m)")
  have first: "evicts protected (cm_clients m) c cl" using evict_expired_evicts [OF assms(1) e] .
  let ?es = "sort_key (\<lambda>(key, e). ce_last_used e) cl"
  obtain c' cl' where o: "evict_oldest (cm_maxsize m) protected busy ?es cl = (c', cl')"
    by (cases "evict_oldest (cm_maxsize m) protected busy ?es cl")
  have wf: "wf_dict cl" using first by (simp add: evicts_def)
  then have "mset (map fst ?es) = mset (map fst cl)" by simp
  then have "distinct (map fst ?es)" using wf mset_eq_imp_distinct_iff by blast
  moreover have "\<forall>(k, e) \<in> set ?es. dict_get cl k = Some e" using wf by (auto simp: map_of_eq_Some_iff)
  ultimately have "evicts protected cl c' cl'" using evict_oldest_evicts [OF wf _ _ o] by blast
  with first have second: "evicts protected (cm_clients m) (c @ c') cl'" by (rule evicts_trans)
  show "evicts protected (cm_clients m) closing (cm_clients m')"
    "cm_created m' = cm_created m" "cm_maxsize m' = cm_maxsize m" "cm_ttl m' = cm_ttl m"
    using assms(2) first second unfolding evict_locked_def e Let_def prod.case o by (auto split: if_splits)
qed

section \<open>What borrowing and returning do\<close>

lemma evicts_weaken: "evicts protected cl a cl' \<Longrightarrow> evicts [] cl a cl'"
  by (simp add: evicts_def)

lemma take_expired_evicts:
  assumes "wf_dict (cm_clients m)" "take_expired now busy url m = (closing, m')"
  shows "evicts [] (cm_clients m) closing (cm_clients m')"
    "cm_created m' = cm_created m" "cm_maxsize m' = cm_maxsize m"
proof -
  consider "closing = []" "m' = m"
    | e where "dict_get (cm_clients m) url = Some e" "closing = []"
        "m' = m\<lparr>cm_clients := dict_set url (e\<lparr>ce_pending_eviction := True\<rparr>) (cm_clients m)\<rparr>"
    | e where "dict_get (cm_clients m) url = Some e" "\<not> in_use busy e" "closing = [ce_client e]"
        "m' = m\<lparr>cm_clients := dict_pop url (cm_clients m)\<rparr>"
    using assms(2) by (auto simp: take_expired_def split: option.splits if_splits)
  then have "evicts [] (cm_clients m) closing (cm_clients m') \<and> cm_created m' = cm_created m \<and>
      cm_maxsize m' = cm_maxsize m"
    by cases (use evicts_refl [OF assms(1)] evicts_mark [OF assms(1)] evicts_pop [OF assms(1)] in
      \<open>simp_all add: in_use_def\<close>)
  then show "evicts [] (cm_clients m) closing (cm_clients m')"
    "cm_created m' = cm_created m" "cm_maxsize m' = cm_maxsize m" by simp_all
qed

text \<open>The change that borrowing makes to the entries, up to evictions.\<close>

definition borrowed ::
  "string \<Rightarrow> nat \<Rightarrow> nat list \<Rightarrow> client_manager \<Rightarrow> client_manager \<Rightarrow> bool" where
  "borrowed url client closing m m' \<longleftrightarrow> wf_dict (cm_clients m') \<and> cm_maxsize m' = cm_maxsize m \<and>
     clients_of (cm_clients m) + mset [cm_created m ..< cm_created m'] = mset closing + clients_of (cm_clients m') \<and>
     cm_created m \<le> cm_created m' \<and>
     (\<exists>e'. dict_get (cm_clients m') url = Some e' \<and> ce_client e' = client \<and> 0 < ce_borrow_count e' \<and>
        ((\<exists>e. dict_get (cm_clients m) url = Some e \<and> ce_client e = client \<and> ce_borrow_count e' = Suc (ce_borrow_count e))
         \<or> client = cm_created m \<and> cm_created m < cm_created m' \<and> ce_borrow_count e' = 1)) \<and>
     (\<forall>k e'. k \<noteq> url \<and> dict_get (cm_clients m') k = Some e' \<longrightarrow>
        (\<exists>e. dict_get (cm_clients m) k = Some e \<and> same_entry e e')) \<and>
     (\<forall>k e. dict_get (cm_clients m) k = Some e \<and> 0 < ce_borrow_count e \<longrightarrow>
        (\<exists>e'. dict_get (cm_clients m') k = Some e' \<and> ce_client e' = ce_client e \<and> 0 < ce_borrow_count e'))"

lemma borrowed_enter:
  assumes "wf_dict (cm_clients m)" "enter_client now url m = (client, m')"
  shows "borrowed url client [] m m'"
proof (cases "dict_get (cm_clients m) url")
  case None
  then show ?thesis
    using assms by (auto simp: enter_client_def borrowed_def dict_get_set clients_of_fresh same_entry_def)
next
  case (Some e)
  then show ?thesis
    using assms by (auto simp: enter_client_def borrowed_def dict_get_set clients_of_same same_entry_def)
qed

lemma borrowed_evict_before:
  assumes "evicts [] (cm_clients m) a (cm_clients m1)" "cm_created m1 = cm_created m" "cm_maxsize m1 = cm_maxsize m"
    and "borrowed url client b m1 m'"
  shows "borrowed url client (a @ b) m m'"
proof -
  have old: "\<exists>e0. dict_get (cm_clients m) k = Some e0 \<and> same_entry e0 e" if "dict_get (cm_clients m1) k = Some e" for k e
    using assms(1) that by (auto simp: evicts_def)
  have kept: "\<exists>e'. dict_get (cm_clients m') k = Some e' \<and> ce_client e' = ce_client e \<and> 0 < ce_borrow_count e'"
    if k: "dict_get (cm_clients m) k = Some e" "0 < ce_borrow_count e" for k e
  proof -
    obtain e1 where e1: "dict_get (cm_clients m1) k = Some e1" "same_entry e e1"
      using assms(1) k unfolding evicts_def by blast
    then have "0 < ce_borrow_count e1" using k(2) by (simp add: same_entry_def)
    then obtain e' where "dict_get (cm_clients m') k = Some e'" "ce_client e' = ce_client e1" "0 < ce_borrow_count e'"
      using assms(4) e1(1) unfolding borrowed_def by blast
    then show ?thesis using e1(2) by (auto simp: same_entry_def)
  qed
  obtain e' where e': "dict_get (cm_clients m') url = Some e'" "ce_client e' = client" "0 < ce_borrow_count e'"
    "(\<exists>e. dict_get (cm_clients m1) url = Some e \<and> ce_client e = client \<and> ce_borrow_count e' = Suc (ce_borrow_count e))
       \<or> client = cm_created m1 \<and> cm_created m1 < cm_created m' \<and> ce_borrow_count e' = 1"
    using assms(4) unfolding borrowed_def by blast
  then have "(\<exists>e. dict_get (cm_clients m) url = Some e \<and> ce_client e = client \<and> ce_borrow_count e' = Suc (ce_borrow_count e))
       \<or> client = cm_created m \<and> cm_created m < cm_created m' \<and> ce_borrow_count e' = 1"
    using old assms(2) by (fastforce simp: same_entry_def)
  moreover have "\<exists>e. dict_get (cm_clients m) k = Some e \<and> same_entry e e2"
    if "k \<noteq> url" "dict_get (cm_clients m') k = Some e2" for k e2
    using assms(4) that old unfolding borrowed_def by (meson same_entry_trans)
  ultimately show ?thesis
    using assms e'(1-3) kept unfolding borrowed_def by (auto simp: evicts_def ac_simps)
qed

lemma borrowed_evict_after:
  assumes "borrowed url client a m m1" "evicts [url] (cm_clients m1) b (cm_clients m')"
    and "cm_created m' = cm_created m1" "cm_maxsize m' = cm_maxsize m1"
  shows "borrowed url client (a @ b) m m'"
proof -
  have kept: "\<exists>e'. dict_get (cm_clients m') k = Some e' \<and> same_entry e e'"
    if "dict_get (cm_clients m1) k = Some e" "k = url \<or> 0 < ce_borrow_count e" for k e
    using assms(2) that by (auto simp: evicts_def)
  obtain e1 where e1: "dict_get (cm_clients m1) url = Some e1" "ce_client e1 = client" "0 < ce_borrow_count e1"
    "(\<exists>e. dict_get (cm_clients m) url = Some e \<and> ce_client e = client \<and> ce_borrow_count e1 = Suc (ce_borrow_count e))
       \<or> client = cm_created m \<and> cm_created m < cm_created m1 \<and> ce_borrow_count e1 = 1"
    using assms(1) unfolding borrowed_def by blast
  obtain e' where e': "dict_get (cm_clients m') url = Some e'" "same_entry e1 e'" using kept e1(1) by blast
  have "\<exists>e. dict_get (cm_clients m) k = Some e \<and> same_entry e e2"
    if "k \<noteq> url" "dict_get (cm_clients m') k = Some e2" for k e2
    using assms(1,2) that unfolding borrowed_def evicts_def by (meson same_entry_trans)
  moreover have "\<exists>e'. dict_get (cm_clients m') k = Some e' \<and> ce_client e' = ce_client e \<and> 0 < ce_borrow_count e'"
    if k: "dict_get (cm_clients m) k = Some e" "0 < ce_borrow_count e" for k e
  proof -
    obtain e1 where "dict_get (cm_clients m1) k = Some e1" "ce_client e1 = ce_client e" "0 < ce_borrow_count e1"
      using assms(1) k unfolding borrowed_def by blast
    with kept show ?thesis by (fastforce simp: same_entry_def)
  qed
  ultimately show ?thesis
    using assms e1 e' unfolding borrowed_def by (auto simp: evicts_def same_entry_def)
qed

lemma borrow_client_borrows:
  assumes "wf_dict (cm_clients m)" "borrow_client now busy url m = (Inr (client, closing), m')"
  shows "borrowed url client closing m m'"
proof -
  obtain c1 m1 where 1: "take_expired now busy url m = (c1, m1)" by (cases "take_expired now busy url m")
  obtain c2 m2 where 2: "evict_locked now [url] busy m1 = (c2, m2)" by (cases "evict_locked now [url] busy m1")
  obtain c m3 where 3: "enter_client now url m2 = (c, m3)" by (cases "enter_client now url m2")
  obtain c3 m4 where 4: "evict_locked now [url] busy m3 = (c3, m4)" by (cases "evict_locked now [url] busy m3")
  have r: "c = client" "closing = c1 @ c2 @ c3" "m4 = m'"
    using assms(2) unfolding borrow_client_def 1 Let_def prod.case 2 3 4 by (auto split: if_splits)
  note t = take_expired_evicts [OF assms(1) 1]
  then have w1: "wf_dict (cm_clients m1)" by (simp add: evicts_def)
  note e = evict_locked_evicts [OF w1 2]
  then have w2: "wf_dict (cm_clients m2)" by (simp add: evicts_def)
  note b = borrowed_enter [OF w2 3]
  then have w3: "wf_dict (cm_clients m3)" by (simp add: borrowed_def)
  have "borrowed url c ([] @ c3) m2 m4"
    using borrowed_evict_after [OF b] evict_locked_evicts [OF w3 4] by blast
  then have "borrowed url c (c2 @ [] @ c3) m1 m4"
    using borrowed_evict_before evicts_weaken [OF e(1)] e(2,3) by blast
  then show ?thesis using borrowed_evict_before t r by fastforce
qed

lemma borrow_invalid_evicts:
  assumes "wf_dict (cm_clients m)" "borrow_client now busy url m = (Inl closing, m')"
  shows "evicts [] (cm_clients m) closing (cm_clients m')" "cm_created m' = cm_created m" "cm_maxsize m' = cm_maxsize m"
proof -
  obtain c1 m1 where 1: "take_expired now busy url m = (c1, m1)" by (cases "take_expired now busy url m")
  obtain c2 m2 where 2: "evict_locked now [url] busy m1 = (c2, m2)" by (cases "evict_locked now [url] busy m1")
  have r: "closing = c1 @ c2" "m2 = m'"
    using assms(2) unfolding borrow_client_def 1 Let_def prod.case 2 by (auto split: if_splits prod.splits)
  note t = take_expired_evicts [OF assms(1) 1]
  then have w1: "wf_dict (cm_clients m1)" by (simp add: evicts_def)
  note e = evict_locked_evicts [OF w1 2]
  show "evicts [] (cm_clients m) closing (cm_clients m')" "cm_created m' = cm_created m" "cm_maxsize m' = cm_maxsize m"
    using evicts_trans [OF t(1) evicts_weaken [OF e(1)]] t(2,3) e(2,3) unfolding r by simp_all
qed

text \<open>The manager just after the borrower has given its client back, before the eviction.\<close>

definition released :: "time \<Rightarrow> string \<Rightarrow> nat \<Rightarrow> client_manager \<Rightarrow> client_manager" where
  "released now url client m =
     (case dict_get (cm_clients m) url of
        None \<Rightarrow> m
      | Some e \<Rightarrow>
          (if ce_client e \<noteq> client then m
           else m\<lparr>cm_clients := dict_set url (e\<lparr>ce_borrow_count := ce_borrow_count e - 1,
             ce_last_used := now, ce_expires_at := new_expiry (cm_ttl m) now\<rparr>) (cm_clients m)\<rparr>))"

lemma return_client_eq: "return_client now busy url client m = evict_locked now [] busy (released now url client m)"
  by (simp add: return_client_def released_def)

definition given_back :: "time \<Rightarrow> client_manager \<Rightarrow> cache_entry \<Rightarrow> cache_entry" where
  "given_back now m e =
     e\<lparr>ce_borrow_count := ce_borrow_count e - 1, ce_last_used := now, ce_expires_at := new_expiry (cm_ttl m) now\<rparr>"

lemma given_back_simps [simp]:
  "ce_client (given_back now m e) = ce_client e" "ce_borrow_count (given_back now m e) = ce_borrow_count e - 1"
  by (simp_all add: given_back_def)

lemma released_cases:
  obtains (other) "released now url client m = m" "\<forall>e. dict_get (cm_clients m) url = Some e \<longrightarrow> ce_client e \<noteq> client"
    | (given) e where "dict_get (cm_clients m) url = Some e" "ce_client e = client"
        "released now url client m = m\<lparr>cm_clients := dict_set url (given_back now m e) (cm_clients m)\<rparr>"
proof (cases "dict_get (cm_clients m) url")
  case (Some e)
  then show ?thesis using that by (cases "ce_client e = client") (simp_all add: released_def given_back_def)
qed (use that in \<open>simp add: released_def\<close>)

lemma released_facts:
  assumes "wf_dict (cm_clients m)"
  shows "wf_dict (cm_clients (released now url client m))" "cm_created (released now url client m) = cm_created m"
    "cm_maxsize (released now url client m) = cm_maxsize m"
    "clients_of (cm_clients (released now url client m)) = clients_of (cm_clients m)"
  by (cases rule: released_cases [of now url client m]; simp add: assms clients_of_same)+

lemma released_get:
  assumes "dict_get (cm_clients (released now url client m)) k = Some e'"
  shows "\<exists>e. dict_get (cm_clients m) k = Some e \<and> ce_client e' = ce_client e \<and>
    ce_borrow_count e' = (if k = url \<and> ce_client e = client then ce_borrow_count e - 1 else ce_borrow_count e)"
  using assms by (cases rule: released_cases [of now url client m]) (auto simp: dict_get_set split: if_splits)

lemma released_get_back:
  assumes "dict_get (cm_clients m) k = Some e"
  shows "\<exists>e'. dict_get (cm_clients (released now url client m)) k = Some e' \<and> ce_client e' = ce_client e"
  using assms by (cases rule: released_cases [of now url client m]) (auto simp: dict_get_set)

section \<open>The invariant\<close>

abbreviation holders :: "nat \<Rightarrow> use list \<Rightarrow> nat" where
  "holders client us \<equiv> length (filter (\<lambda>u. u_client u = client) us)"

text \<open>Where the clients that were created are.\<close>

definition population :: "manager_sys \<Rightarrow> nat multiset" where
  "population s = clients_of (cm_clients (ms_manager s)) + mset (concat (map u_closing (ms_uses s)))
     + (if cm_maxsize (ms_manager s) \<le> 0 then mset (map u_client (ms_uses s)) else {#})
     + mset (ms_closing s) + mset (ms_closed s) + mset (ms_lost s)"

definition count_ok :: "bool \<Rightarrow> nat \<Rightarrow> nat \<Rightarrow> bool" where
  "count_ok interrupts h n \<longleftrightarrow> h \<le> n \<and> (interrupts \<or> h = n)"

definition counts_ok :: "bool \<Rightarrow> (string, cache_entry) dict \<Rightarrow> use list \<Rightarrow> bool" where
  "counts_ok interrupts cl us \<longleftrightarrow>
     (\<forall>k e. dict_get cl k = Some e \<longrightarrow> count_ok interrupts (holders (ce_client e) us) (ce_borrow_count e))"

definition cached_or :: "nat set \<Rightarrow> (string, cache_entry) dict \<Rightarrow> use \<Rightarrow> bool" where
  "cached_or dropped cl u \<longleftrightarrow>
     u_client u \<in> dropped \<or> (\<exists>e. dict_get cl (u_url u) = Some e \<and> ce_client e = u_client u)"

definition manager_inv :: "bool \<Rightarrow> manager_sys \<Rightarrow> bool" where
  "manager_inv interrupts s \<longleftrightarrow> wf_dict (cm_clients (ms_manager s)) \<and> population s = mset [0 ..< cm_created (ms_manager s)] \<and>
     (\<forall>u \<in> set (ms_uses s). u_client u < cm_created (ms_manager s)) \<and>
     set (ms_dropped s) \<subseteq> set (ms_closing s) \<union> set (ms_closed s) \<and>
     (if 0 < cm_maxsize (ms_manager s)
      then counts_ok interrupts (cm_clients (ms_manager s)) (ms_uses s) \<and>
        (\<forall>u \<in> set (ms_uses s). cached_or (set (ms_dropped s)) (cm_clients (ms_manager s)) u)
      else cm_clients (ms_manager s) = [])"

lemma counts_ok_evict: "counts_ok b cl us \<Longrightarrow> evicts protected cl closing cl' \<Longrightarrow> counts_ok b cl' us"
  unfolding counts_ok_def evicts_def same_entry_def by metis

lemma holders_pos: "u \<in> set us \<Longrightarrow> 0 < holders (u_client u) us"
  by (metis (mono_tags, lifting) filter_empty_conv length_greater_0_conv)

lemma count_ok_trans: "count_ok b i j \<Longrightarrow> count_ok b j k \<Longrightarrow> count_ok b i k"
  by (auto simp: count_ok_def)

lemma counts_ok_uses:
  assumes "counts_ok b cl us" "\<And>c. count_ok b (holders c us') (holders c us)"
  shows "counts_ok b cl us'"
  unfolding counts_ok_def
proof (intro allI impI)
  fix k e assume "dict_get cl k = Some e"
  then have "count_ok b (holders (ce_client e) us) (ce_borrow_count e)" using assms(1) by (simp add: counts_ok_def)
  with assms(2) show "count_ok b (holders (ce_client e) us') (ce_borrow_count e)" by (rule count_ok_trans)
qed

lemma counts_ok_pos:
  "counts_ok b cl us \<Longrightarrow> u \<in> set us \<Longrightarrow> dict_get cl k = Some e \<Longrightarrow> ce_client e = u_client u \<Longrightarrow> 0 < ce_borrow_count e"
  using holders_pos [of u us] unfolding counts_ok_def count_ok_def by (metis order_less_le_trans)

lemma cached_or_evict:
  assumes "evicts protected cl closing cl'" "cached_or D cl u" "counts_ok b cl us" "u \<in> set us"
  shows "cached_or D cl' u"
proof (cases "u_client u \<in> D")
  case False
  then obtain e where e: "dict_get cl (u_url u) = Some e" "ce_client e = u_client u"
    using assms(2) by (auto simp: cached_or_def)
  have "0 < ce_borrow_count e" by (rule counts_ok_pos [OF assms(3,4) e])
  then show ?thesis using assms(1) e unfolding cached_or_def evicts_def same_entry_def by metis
qed (simp add: cached_or_def)

text \<open>Two entries of the cache never share a client.\<close>

lemma distinct_clients:
  assumes "wf_dict cl" "\<And>c. count (clients_of cl) c \<le> 1" "dict_get cl k = Some e" "dict_get cl k' = Some e'"
    and "ce_client e = ce_client e'"
  shows "k = k'"
proof (rule ccontr)
  assume n: "k \<noteq> k'"
  then have g: "dict_get (dict_pop k cl) k' = Some e'" using assms(4) by (simp add: dict_get_pop)
  have "clients_of cl = add_mset (ce_client e) (add_mset (ce_client e') (clients_of (dict_pop k' (dict_pop k cl))))"
    using clients_of_pop [OF assms(1,3)] clients_of_pop [OF wf_dict_pop [OF assms(1)] g] by simp
  then show False using assms(2) [of "ce_client e"] assms(5) by simp
qed

lemma population_count:
  assumes "population s = mset [0 ..< n]"
  shows "count (population s) c \<le> 1" "count (clients_of (cm_clients (ms_manager s))) c \<le> 1"
    "c \<in># population s \<longleftrightarrow> c < n"
proof -
  show 1: "count (population s) c \<le> 1" unfolding assms using distinct_count_atmost_1 [of "[0 ..< n]"] by simp
  have "clients_of (cm_clients (ms_manager s)) \<subseteq># population s"
    unfolding population_def by (simp add: ac_simps)
  then have "count (clients_of (cm_clients (ms_manager s))) c \<le> count (population s) c"
    by (rule mset_subset_eq_count)
  with 1 show "count (clients_of (cm_clients (ms_manager s))) c \<le> 1" by (rule order_trans [rotated])
  show "c \<in># population s \<longleftrightarrow> c < n" unfolding assms by simp
qed

lemma manager_invD:
  assumes "manager_inv b s"
  shows "wf_dict (cm_clients (ms_manager s))" "population s = mset [0 ..< cm_created (ms_manager s)]"
    "\<forall>u \<in> set (ms_uses s). u_client u < cm_created (ms_manager s)"
    "0 < cm_maxsize (ms_manager s) \<Longrightarrow> counts_ok b (cm_clients (ms_manager s)) (ms_uses s)"
    "0 < cm_maxsize (ms_manager s) \<Longrightarrow> u \<in> set (ms_uses s) \<Longrightarrow>
       cached_or (set (ms_dropped s)) (cm_clients (ms_manager s)) u"
    "cm_maxsize (ms_manager s) \<le> 0 \<Longrightarrow> cm_clients (ms_manager s) = []"
    "set (ms_dropped s) \<subseteq> set (ms_closing s) \<union> set (ms_closed s)"
  using assms by (auto simp: manager_inv_def)

lemma mset_upt_split: "a \<le> b \<Longrightarrow> mset [0 ..< b] = mset [0 ..< a] + mset [a ..< b]"
  by (metis le_add_diff_inverse mset_append upt_add_eq_append zero_le)

lemma inv_borrow:
  assumes s: "manager_inv interrupts s" "0 < cm_maxsize (ms_manager s)"
    and b: "borrow_client now busy url (ms_manager s) = (Inr (client, closing), m)"
  shows "manager_inv interrupts (s\<lparr>ms_manager := m, ms_uses := \<lparr>u_url = url, u_client = client, u_closing = closing\<rparr> # ms_uses s\<rparr>)"
    (is "manager_inv _ ?s")
proof -
  note i = manager_invD [OF s(1)]
  note bo = borrow_client_borrows [OF i(1) b, unfolded borrowed_def]
  have pop: "population ?s = mset [0 ..< cm_created m]"
  proof -
    have "population ?s = population s + mset [cm_created (ms_manager s) ..< cm_created m]"
      using bo s(2) by (simp add: population_def ac_simps)
    also have "\<dots> = mset [0 ..< cm_created m]" using bo by (simp only: i(2) mset_upt_split [symmetric])
    finally show ?thesis .
  qed
  obtain e' where e': "dict_get (cm_clients m) url = Some e'" "ce_client e' = client" "0 < ce_borrow_count e'"
    "(\<exists>e. dict_get (cm_clients (ms_manager s)) url = Some e \<and> ce_client e = client \<and> ce_borrow_count e' = Suc (ce_borrow_count e))
       \<or> client = cm_created (ms_manager s) \<and> cm_created (ms_manager s) < cm_created m \<and> ce_borrow_count e' = 1"
    using bo by blast
  have le: "cm_created (ms_manager s) \<le> cm_created m" using bo by blast
  have "client \<in># population ?s"
    using clients_of_pop [of "cm_clients m" url e'] bo e'(1,2) by (simp add: population_def)
  then have lt: "client < cm_created m" unfolding pop by simp
  have counts: "count_ok interrupts (holders (ce_client e) (ms_uses ?s)) (ce_borrow_count e)" if k: "dict_get (cm_clients m) k = Some e" for k e
  proof (cases "k = url")
    case True
    have old: "count_ok interrupts (holders client (ms_uses s)) (ce_borrow_count e0)"
      if "dict_get (cm_clients (ms_manager s)) url = Some e0" "ce_client e0 = client" for e0
      using i(4) [OF s(2)] that by (auto simp: counts_ok_def)
    have "holders client (ms_uses s) = 0" if "client = cm_created (ms_manager s)"
      using i(3) that by (auto simp: filter_empty_conv)
    then show ?thesis using e' old k True by (auto simp: count_ok_def)
  next
    case False
    then obtain e0 where e0: "dict_get (cm_clients (ms_manager s)) k = Some e0" "same_entry e0 e" using bo k by blast
    have "ce_client e \<noteq> client"
    proof
      assume "ce_client e = client"
      moreover have "wf_dict (cm_clients m)" using bo by blast
      ultimately show False
        using distinct_clients [OF _ _ k e'(1)] population_count(2) [OF pop] e'(2) False by simp
    qed
    then show ?thesis using i(4) [OF s(2)] e0 by (auto simp: counts_ok_def same_entry_def)
  qed
  have "cached_or (set (ms_dropped s)) (cm_clients m) u" if u: "u \<in> set (ms_uses s)" for u
  proof (cases "u_client u \<in> set (ms_dropped s)")
    case False
    then obtain e where e: "dict_get (cm_clients (ms_manager s)) (u_url u) = Some e" "ce_client e = u_client u"
      using i(5) [OF s(2) u] by (auto simp: cached_or_def)
    then have "0 < ce_borrow_count e" using counts_ok_pos [OF i(4) [OF s(2)] u] by blast
    then show ?thesis using bo e unfolding cached_or_def by metis
  qed (simp add: cached_or_def)
  then show ?thesis
    using bo i(3,7) lt le counts pop e'(1,2) s(2) unfolding manager_inv_def
    by (auto simp: counts_ok_def cached_or_def)
qed

lemma entry_of_use:
  assumes "manager_inv b s" "0 < cm_maxsize (ms_manager s)" "u \<in> set (ms_uses s)"
    and "dict_get (cm_clients (ms_manager s)) k = Some e" "ce_client e = u_client u"
  shows "k = u_url u"
proof -
  note i = manager_invD [OF assms(1)]
  have cl: "clients_of (cm_clients (ms_manager s)) =
      add_mset (u_client u) (clients_of (dict_pop k (cm_clients (ms_manager s))))"
    using clients_of_pop [OF i(1) assms(4)] assms(5) by simp
  have "u_client u \<notin> set (ms_dropped s)"
    using population_count(1) [OF i(2), of "u_client u"] i(7) unfolding population_def cl
    by (auto simp: add_eq_0_iff_both_eq_0)
  then obtain e2 where "dict_get (cm_clients (ms_manager s)) (u_url u) = Some e2" "ce_client e2 = u_client u"
    using i(5) [OF assms(2,3)] by (auto simp: cached_or_def)
  then show ?thesis using distinct_clients [OF i(1) population_count(2) [OF i(2)] assms(4)] assms(5) by simp
qed

lemma inv_give_back:
  assumes s: "manager_inv interrupts s" "0 < cm_maxsize (ms_manager s)" "ms_uses s = us @ u # vs" "u_closing u = []"
    and r: "return_client now busy (u_url u) (u_client u) (ms_manager s) = (closing, m)"
  shows "manager_inv interrupts (s\<lparr>ms_manager := m, ms_uses := us @ vs, ms_closing := ms_closing s @ closing\<rparr>)"
    (is "manager_inv _ ?s")
proof -
  note i = manager_invD [OF s(1)]
  let ?r = "released now (u_url u) (u_client u) (ms_manager s)"
  note rf = released_facts [OF i(1), of now "u_url u" "u_client u"]
  note ev = evict_locked_evicts [OF rf(1) r [unfolded return_client_eq]]
  have pop: "population ?s = mset [0 ..< cm_created m]"
    using i(2) ev rf s(2-4) by (simp add: population_def evicts_def ac_simps)
  have counts: "counts_ok interrupts (cm_clients ?r) (us @ vs)"
    unfolding counts_ok_def
  proof (intro allI impI)
    fix k e' assume "dict_get (cm_clients ?r) k = Some e'"
    then obtain e where e: "dict_get (cm_clients (ms_manager s)) k = Some e" "ce_client e' = ce_client e"
      "ce_borrow_count e' = (if k = u_url u \<and> ce_client e = u_client u then ce_borrow_count e - 1 else ce_borrow_count e)"
      using released_get by blast
    have "count_ok interrupts (holders (ce_client e) (us @ u # vs)) (ce_borrow_count e)"
      using i(4) [OF s(2)] e(1) s(3) by (simp add: counts_ok_def)
    moreover have "k = u_url u" if "ce_client e = u_client u"
      using entry_of_use [OF s(1,2) _ e(1) that] s(3) by simp
    ultimately show "count_ok interrupts (holders (ce_client e') (us @ vs)) (ce_borrow_count e')"
      using e(2,3) by (auto simp: count_ok_def split: if_splits)
  qed
  have cached: "cached_or (set (ms_dropped s)) (cm_clients ?r) w" if "w \<in> set (us @ vs)" for w
    using i(5) [OF s(2), of w] that s(3) released_get_back unfolding cached_or_def by fastforce
  show ?thesis
    using pop ev rf i(3,7) s(2,3) counts_ok_evict [OF counts ev(1)] cached_or_evict [OF ev(1) cached counts]
    unfolding manager_inv_def by (auto simp: evicts_def)
qed

lemma inv_uses:
  assumes "manager_inv interrupts s" "ms_manager s' = ms_manager s" "ms_dropped s' = ms_dropped s" "population s' = population s"
    and "set (ms_closing s) \<union> set (ms_closed s) \<subseteq> set (ms_closing s') \<union> set (ms_closed s')"
    and "\<And>u. u \<in> set (ms_uses s') \<Longrightarrow> \<exists>w \<in> set (ms_uses s). u_url w = u_url u \<and> u_client w = u_client u"
    and "0 < cm_maxsize (ms_manager s) \<Longrightarrow>
      (\<And>c. count_ok interrupts (holders c (ms_uses s')) (holders c (ms_uses s)))"
  shows "manager_inv interrupts s'"
proof -
  have "cached_or D cl u" if "u \<in> set (ms_uses s')" "\<forall>w \<in> set (ms_uses s). cached_or D cl w" for D cl u
    using assms(6) [OF that(1)] that(2) by (auto simp: cached_or_def)
  moreover have "u_client u < n" if "u \<in> set (ms_uses s')" "\<forall>w \<in> set (ms_uses s). u_client w < n" for n u
    using assms(6) [OF that(1)] that(2) by auto
  moreover have "set (ms_dropped s) \<subseteq> set (ms_closing s') \<union> set (ms_closed s')"
    using manager_invD(7) [OF assms(1)] assms(5) by blast
  ultimately show ?thesis
    using assms(1-4) counts_ok_uses [OF _ assms(7)] unfolding manager_inv_def by (simp split: if_splits)
qed

lemma manager_inv_init: "manager_inv interrupts (manager_init ttl maxsize)"
  by (simp add: manager_inv_def manager_init_def new_manager_def population_def counts_ok_def)

lemma manager_inv_step:
  assumes "manager_step interrupts s s'" "manager_inv interrupts s"
  shows "manager_inv interrupts s'"
  using assms
proof cases
  case (borrow now busy agent_url client closing m)
  then show ?thesis using inv_borrow [OF assms(2)] by blast
next
  case (borrow_invalid now busy agent_url closing m)
  note i = manager_invD [OF assms(2)]
  note ev = borrow_invalid_evicts [OF i(1) borrow_invalid(3)]
  have "population s' = population s" using ev borrow_invalid(1,2) by (simp add: population_def evicts_def ac_simps)
  then show ?thesis
    using i(2,3,7) ev borrow_invalid(1,2) counts_ok_evict [OF i(4) ev(1)] cached_or_evict [OF ev(1) i(5) i(4)]
    unfolding manager_inv_def by (auto simp: evicts_def)
next
  case (borrow_uncached agent_url)
  note i = manager_invD [OF assms(2)]
  have "population s' = population s + {#cm_created (ms_manager s)#}"
    using borrow_uncached by (simp add: population_def)
  then show ?thesis using i borrow_uncached unfolding manager_inv_def by auto
next
  case (close_evicted us u vs c cs)
  show ?thesis
    by (rule inv_uses [OF assms(2)]) (use close_evicted in \<open>auto simp: population_def count_ok_def\<close>)
next
  case (interrupted us u vs c cs)
  show ?thesis
    by (rule inv_uses [OF assms(2)]) (use interrupted in \<open>auto simp: population_def count_ok_def\<close>)
next
  case (give_back us u vs now busy closing m)
  then show ?thesis using inv_give_back [OF assms(2)] by blast
next
  case (give_back_uncached us u vs)
  show ?thesis
    by (rule inv_uses [OF assms(2)]) (use give_back_uncached in \<open>auto simp: population_def count_ok_def\<close>)
next
  case (close_client xs c ys)
  show ?thesis
    by (rule inv_uses [OF assms(2)]) (use close_client in \<open>auto simp: population_def count_ok_def\<close>)
next
  case (shut_down closing m)
  note i = manager_invD [OF assms(2)]
  have cl: "closing = map (\<lambda>(key, e). ce_client e) (cm_clients (ms_manager s))" "cm_clients m = []"
    "cm_created m = cm_created (ms_manager s)" "cm_maxsize m = cm_maxsize (ms_manager s)"
    using shut_down(2) by (auto simp: close_all_def)
  have "population s' = population s" using cl shut_down(1) by (simp add: population_def clients_of_def ac_simps)
  moreover have "u_client u \<in> set closing" if "dict_get (cm_clients (ms_manager s)) (u_url u) = Some e" "ce_client e = u_client u" for u e
    using map_of_SomeD [OF that(1)] that(2) unfolding cl(1) by force
  ultimately show ?thesis
    using i shut_down(1) cl unfolding manager_inv_def by (fastforce simp: cached_or_def counts_ok_def)
qed

lemma manager_reachable_inv:
  assumes "manager_reachable interrupts ttl maxsize s"
  shows "manager_inv interrupts s \<and> cm_maxsize (ms_manager s) = maxsize"
  using assms
proof induction
  case start
  then show ?case by (simp add: manager_inv_init) (simp add: manager_init_def new_manager_def)
next
  case (step s s')
  have "cm_maxsize (ms_manager s') = cm_maxsize (ms_manager s)"
    using step(2)
  proof cases
    case (borrow now busy agent_url client closing m)
    have "wf_dict (cm_clients (ms_manager s))" using step(3) manager_invD(1) by blast
    then show ?thesis using borrow_client_borrows [OF _ borrow(3)] borrow(1) by (simp add: borrowed_def)
  next
    case (borrow_invalid now busy agent_url closing m)
    have "wf_dict (cm_clients (ms_manager s))" using step(3) manager_invD(1) by blast
    then show ?thesis using borrow_invalid_evicts(3) [OF _ borrow_invalid(3)] borrow_invalid(1) by simp
  next
    case (give_back us u vs now busy closing m)
    have "wf_dict (cm_clients (ms_manager s))" using step(3) manager_invD(1) by blast
    note rf = released_facts [OF this, of now "u_url u" "u_client u"]
    show ?thesis
      using evict_locked_evicts(3) [OF rf(1) give_back(5) [unfolded return_client_eq]] rf(3) give_back(1) by simp
  qed (auto simp: close_all_def)
  then show ?case using manager_inv_step [OF step(2)] step(3) by simp
qed

section \<open>Properties\<close>


text \<open>
  Every client the manager has created is at one place only: in the cache, about to be closed or closed once.
  When closing is not interrupted and every borrowed URL is valid, none is lost: after shutting down and
  closing what is left, every client has been closed exactly once.
\<close>

theorem clients_are_closed_once:
  assumes "manager_reachable interrupts ttl maxsize s"
  shows "distinct (ms_closed s) \<and> (\<forall>c \<in> set (ms_closed s). c < cm_created (ms_manager s)) \<and>
    (cm_clients (ms_manager s) = [] \<and> ms_uses s = [] \<and> ms_closing s = [] \<and> ms_lost s = [] \<longrightarrow>
      mset (ms_closed s) = mset [0 ..< cm_created (ms_manager s)])"
proof -
  note i = manager_invD [OF manager_reachable_inv [OF assms, THEN conjunct1]]
  have "count (mset (ms_closed s)) c \<le> 1" for c
    using population_count(1) [OF i(2), of c] by (simp add: population_def)
  then have "distinct (ms_closed s)"
    by (metis count_mset_0_iff distinct_count_atmost_1 le_less less_one)
  moreover have "c < cm_created (ms_manager s)" if "c \<in> set (ms_closed s)" for c
    using population_count(3) [OF i(2), of c] that by (simp add: population_def)
  ultimately show ?thesis using i(2) by (auto simp: population_def split: if_splits)
qed

section \<open>The size of the cache\<close>

lemma length_dict_pop:
  fixes cl :: "(string, cache_entry) dict"
  shows "wf_dict cl \<Longrightarrow> dict_get cl k = Some e \<Longrightarrow> Suc (length (dict_pop k cl)) = length cl"
  using clients_of_pop [of cl k e] unfolding clients_of_def by (metis length_map size_add_mset size_mset)

lemma evict_expired_idle:
  "\<forall>(k, e) \<in> set cl. \<not> in_use busy e \<Longrightarrow>
    snd (evict_expired now [] busy cl) = filter (\<lambda>(k, e). \<not> entry_expired now e \<and> \<not> ce_pending_eviction e) cl"
proof (induction cl)
  case (Cons p cl)
  then show ?case by (cases p; cases "evict_expired now [] busy cl") simp
qed simp

lemma evict_oldest_idle:
  "wf_dict cl \<Longrightarrow> distinct (map fst es) \<Longrightarrow> \<forall>(k, e) \<in> set es. dict_get cl k = Some e \<and> \<not> in_use busy e \<Longrightarrow>
    int (length cl) \<le> int (length es) + maxsize \<Longrightarrow> int (length (snd (evict_oldest maxsize [] busy es cl))) \<le> maxsize"
proof (induction es arbitrary: cl)
  case (Cons p es)
  obtain k e where p: "p = (k, e)" by (cases p)
  have h: "dict_get cl k = Some e" "\<not> in_use busy e" "k \<notin> fst ` set es" using Cons.prems(2,3) p by auto
  have "\<forall>(j, d) \<in> set es. dict_get (dict_pop k cl) j = Some d \<and> \<not> in_use busy d"
    using Cons.prems(3) h(3) p by (force simp: dict_get_pop)
  moreover have "int (length (dict_pop k cl)) \<le> int (length es) + maxsize"
    using Cons.prems(4) length_dict_pop [OF Cons.prems(1) h(1)] by simp
  ultimately have "int (length (snd (evict_oldest maxsize [] busy es (dict_pop k cl)))) \<le> maxsize"
    using Cons.IH [of "dict_pop k cl"] Cons.prems(1,2) by simp
  then show ?case using h p by (cases "evict_oldest maxsize [] busy es (dict_pop k cl)") simp
qed simp

lemma evict_locked_idle:
  assumes "wf_dict (cm_clients m)" "0 < cm_maxsize m" "\<forall>(k, e) \<in> set (cm_clients m). \<not> in_use busy e"
  shows "int (length (cm_clients (snd (evict_locked now [] busy m)))) \<le> cm_maxsize m"
proof -
  obtain c cl where e: "evict_expired now [] busy (cm_clients m) = (c, cl)" by (cases "evict_expired now [] busy (cm_clients m)")
  have cl: "cl = filter (\<lambda>(k, e). \<not> entry_expired now e \<and> \<not> ce_pending_eviction e) (cm_clients m)"
    using evict_expired_idle [OF assms(3), of now] e by simp
  have wf: "wf_dict cl" unfolding cl using assms(1) by simp
  have idle: "\<not> list_ex (\<lambda>(key, e). ce_pending_eviction e) cl" unfolding cl by (auto simp: list_ex_iff)
  let ?es = "sort_key (\<lambda>(key, e). ce_last_used e) cl"
  have "mset (map fst ?es) = mset (map fst cl)" by simp
  then have d: "distinct (map fst ?es)" using wf mset_eq_imp_distinct_iff by blast
  have g: "\<forall>(k, e) \<in> set ?es. dict_get cl k = Some e \<and> \<not> in_use busy e"
    using wf assms(3) unfolding cl by (auto simp: map_of_eq_Some_iff)
  have "int (length (snd (evict_oldest (cm_maxsize m) [] busy ?es cl))) \<le> cm_maxsize m"
    by (rule evict_oldest_idle [OF wf d g]) (use assms(2) in simp)
  then show ?thesis using idle assms(2) unfolding evict_locked_def e Let_def prod.case by (auto split: prod.splits)
qed

text \<open>
  When the last borrower gives its client back and no client is busy, the cache is within its maximum
  size again, provided no borrower was interrupted before.
\<close>

theorem cache_shrinks_when_idle:
  assumes "manager_reachable False ttl maxsize s" "0 < maxsize" "ms_uses s = [u]"
    and "return_client now (\<lambda>_. False) (u_url u) (u_client u) (ms_manager s) = (closing, m)"
  shows "int (length (cm_clients m)) \<le> maxsize"
proof -
  note r = manager_reachable_inv [OF assms(1)]
  note i = manager_invD [OF r [THEN conjunct1]]
  have mx: "0 < cm_maxsize (ms_manager s)" using r assms(2) by simp
  let ?r = "released now (u_url u) (u_client u) (ms_manager s)"
  note rf = released_facts [OF i(1), of now "u_url u" "u_client u"]
  have "ce_borrow_count e' = 0" if g: "dict_get (cm_clients ?r) k = Some e'" for k e'
  proof -
    obtain e where e: "dict_get (cm_clients (ms_manager s)) k = Some e" "ce_client e' = ce_client e"
      "ce_borrow_count e' = (if k = u_url u \<and> ce_client e = u_client u then ce_borrow_count e - 1 else ce_borrow_count e)"
      using released_get [OF g] by blast
    have "ce_borrow_count e = holders (ce_client e) [u]"
      using i(4) [OF mx] e(1) assms(3) by (simp add: counts_ok_def count_ok_def)
    moreover have "k = u_url u" if c: "ce_client e = u_client u"
      using entry_of_use [OF r [THEN conjunct1] mx _ e(1) c] assms(3) by simp
    ultimately show ?thesis using e(3) by (auto split: if_splits)
  qed
  then have "\<forall>(k, e) \<in> set (cm_clients ?r). \<not> in_use (\<lambda>_. False) e"
    using rf(1) by (auto simp: in_use_def map_of_eq_Some_iff)
  then show ?thesis
    using evict_locked_idle [OF rf(1)] rf(3) mx r assms(4) unfolding return_client_eq by (metis snd_conv)
qed

section \<open>An interrupted borrower\<close>

definition after_first :: manager_sys where
  "after_first = (manager_init 0 1)\<lparr>ms_manager := snd (borrow_client 0 (\<lambda>_. False) ''http://peer-1'' (new_manager 0 1)),
     ms_uses := [\<lparr>u_url = ''http://peer-1'', u_client = 0, u_closing = []\<rparr>]\<rparr>"

definition after_return :: manager_sys where
  "after_return = (manager_init 0 1)\<lparr>ms_manager :=
     snd (return_client 1 (\<lambda>_. False) ''http://peer-1'' 0 (ms_manager after_first))\<rparr>"

definition after_second :: manager_sys where
  "after_second = (manager_init 0 1)\<lparr>ms_manager :=
       snd (borrow_client 2 (\<lambda>_. False) ''http://peer-2'' (ms_manager after_return)),
     ms_uses := [\<lparr>u_url = ''http://peer-2'', u_client = 1, u_closing = [0]\<rparr>]\<rparr>"

definition after_interrupt :: manager_sys where
  "after_interrupt = after_second\<lparr>ms_uses := [], ms_lost := [0]\<rparr>"

lemma first_reachable: "manager_reachable interrupts 0 1 after_first"
proof -
  have b: "borrow_client 0 (\<lambda>_. False) (rstrip_slash ''http://peer-1/'') (new_manager 0 1) =
      (Inr (0, []), ms_manager after_first)" by code_simp
  have r: "rstrip_slash ''http://peer-1/'' = ''http://peer-1''" by code_simp
  have "manager_step interrupts (manager_init 0 1) after_first"
    using manager_step.borrow [of "manager_init 0 1" 0 "\<lambda>_. False" "''http://peer-1/''" 0 "[]" "ms_manager after_first" interrupts]
      b r by (simp add: manager_init_def after_first_def new_manager_def)
  then show ?thesis using manager_reachable.step [OF manager_reachable.start] by blast
qed

lemma return_reachable: "manager_reachable interrupts 0 1 after_return"
proof -
  have b: "return_client 1 (\<lambda>_. False) ''http://peer-1'' 0 (ms_manager after_first) = ([], ms_manager after_return)"
    "cm_maxsize (ms_manager after_first) = 1" by code_simp+
  have "manager_step interrupts after_first after_return"
    using manager_step.give_back [of after_first "[]" _ "[]" 1 "\<lambda>_. False" "[]" "ms_manager after_return" interrupts] b
    by (simp add: after_return_def after_first_def manager_init_def)
  then show ?thesis using manager_reachable.step [OF first_reachable] by blast
qed

lemma second_reachable: "manager_reachable interrupts 0 1 after_second"
proof -
  have b: "borrow_client 2 (\<lambda>_. False) (rstrip_slash ''http://peer-2'') (ms_manager after_return) =
      (Inr (1, [0]), ms_manager after_second)" "cm_maxsize (ms_manager after_return) = 1" by code_simp+
  have r: "rstrip_slash ''http://peer-2'' = ''http://peer-2''" by code_simp
  have "manager_step interrupts after_return after_second"
    using manager_step.borrow [of after_return 2 "\<lambda>_. False" "''http://peer-2''" 1 "[0]" "ms_manager after_second" interrupts]
      b r by (simp add: manager_init_def after_return_def after_second_def)
  then show ?thesis using manager_reachable.step [OF return_reachable] by blast
qed

text \<open>
  A request that is cancelled while it closes an evicted client, before it uses its own, never gives its
  client back: nobody holds the client of \<open>http://peer-2\<close> any more, but no eviction at any later time removes it.
\<close>

theorem interrupted_borrow_is_never_evicted:
  "manager_reachable True 0 1 after_interrupt \<and> ms_uses after_interrupt = [] \<and>
   (\<forall>now protected busy. \<exists>e. dict_get (cm_clients (snd (evict_locked now protected busy (ms_manager after_interrupt))))
      ''http://peer-2'' = Some e \<and> ce_borrow_count e = 1)"
proof -
  have "manager_step True after_second after_interrupt"
  proof -
    have m: "0 < cm_maxsize (ms_manager after_second)" by code_simp
    have u: "ms_uses after_second = [] @ \<lparr>u_url = ''http://peer-2'', u_client = 1, u_closing = [0]\<rparr> # []"
      by (simp add: after_second_def)
    show ?thesis
      using manager_step.interrupted [OF TrueI m u, of 0 "[]"]
      by (simp add: after_interrupt_def after_second_def manager_init_def)
  qed
  then have r: "manager_reachable True 0 1 after_interrupt" using manager_reachable.step [OF second_reachable] by blast
  have e: "map_option ce_borrow_count (dict_get (cm_clients (ms_manager after_interrupt)) ''http://peer-2'') = Some 1"
    by code_simp
  have "\<exists>e. dict_get (cm_clients (snd (evict_locked now protected busy (ms_manager after_interrupt))))
      ''http://peer-2'' = Some e \<and> ce_borrow_count e = 1" for now protected busy
  proof -
    have wf: "wf_dict (cm_clients (ms_manager after_interrupt))"
      using manager_reachable_inv [OF r] manager_invD(1) by blast
    have "evicts protected (cm_clients (ms_manager after_interrupt))
        (fst (evict_locked now protected busy (ms_manager after_interrupt)))
        (cm_clients (snd (evict_locked now protected busy (ms_manager after_interrupt))))"
      by (rule evict_locked_evicts(1) [OF wf]) simp
    then show ?thesis using e unfolding evicts_def by (force simp: same_entry_def)
  qed
  then show ?thesis using r by (simp add: after_interrupt_def)
qed

section \<open>Witnesses\<close>


theorem clients_are_closed_once_witness:
  "distinct (ms_closed after_return) \<and> (\<forall>c \<in> set (ms_closed after_return). c < 1)"
proof -
  have "cm_created (ms_manager after_return) = 1" by code_simp
  then show ?thesis using clients_are_closed_once [OF return_reachable] by simp
qed

theorem cache_shrinks_when_idle_witness:
  "int (length (cm_clients (ms_manager after_return))) \<le> 1"
proof -
  have r: "return_client 1 (\<lambda>_. False) ''http://peer-1'' 0 (ms_manager after_first) = ([], ms_manager after_return)"
    by code_simp
  have "ms_uses after_first = [\<lparr>u_url = ''http://peer-1'', u_client = 0, u_closing = []\<rparr>]" by (simp add: after_first_def)
  from cache_shrinks_when_idle [OF first_reachable _ this] r show ?thesis by simp
qed

end
