(* ===== verification/Timestamps.thy ===== *)
theory Timestamps
  imports Py_Values
begin

text \<open>
  Aware UTC values of \<open>datetime\<close> as the program uses them: compared, printed by \<open>isoformat\<close>, and read by
  \<open>parse_timestamp_field\<close> (\<open>parsing.py\<close>).  A value is its fields from the year to the microsecond, whose
  lexicographic order is the order of time.  \<open>fromisoformat\<close> is written out for the text that
  \<open>isoformat\<close> produces, with any offset in hours and minutes; its other formats (basic and week dates,
  other fractions) are the parameter \<open>iso_other\<close>, which is asked only about text that is not of this form.
  \<open>iso_wide\<close> is the field parser on text with code points beyond 255, \<open>None\<close> for its exceptions.
\<close>

type_synonym datetime = "int \<times> int \<times> int \<times> int \<times> int \<times> int \<times> int"

definition datetime_min :: datetime where
  "datetime_min = (1, 1, 1, 0, 0, 0, 0)"

section \<open>The calendar\<close>

definition leap_year :: "int \<Rightarrow> bool" where
  "leap_year y \<longleftrightarrow> y mod 4 = 0 \<and> (y mod 100 \<noteq> 0 \<or> y mod 400 = 0)"

definition days_in_month :: "int \<Rightarrow> int \<Rightarrow> int" where
  "days_in_month y m = (if m = 2 then (if leap_year y then 29 else 28)
     else if m \<in> {4, 6, 9, 11} then 30 else 31)"

definition valid_datetime :: "datetime \<Rightarrow> bool" where
  "valid_datetime t = (case t of (y, mo, d, h, mi, s, us) \<Rightarrow>
     1 \<le> y \<and> y \<le> 9999 \<and> 1 \<le> mo \<and> mo \<le> 12 \<and> 1 \<le> d \<and> d \<le> days_in_month y mo \<and>
     0 \<le> h \<and> h < 24 \<and> 0 \<le> mi \<and> mi < 60 \<and> 0 \<le> s \<and> s < 60 \<and> 0 \<le> us \<and> us < 1000000)"

definition days_before_month :: "int \<Rightarrow> int \<Rightarrow> int" where
  "days_before_month y m =
     [0, 31, 59, 90, 120, 151, 181, 212, 243, 273, 304, 334] ! nat (m - 1) + (if 2 < m \<and> leap_year y then 1 else 0)"

text \<open>The day number of a date, from 1 for the first day of the year 1, and its inverse as CPython computes it.\<close>

definition to_ordinal :: "int \<Rightarrow> int \<Rightarrow> int \<Rightarrow> int" where
  "to_ordinal y m d = (let p = y - 1 in p * 365 + p div 4 - p div 100 + p div 400 + days_before_month y m + d)"

definition of_ordinal :: "int \<Rightarrow> int \<times> int \<times> int" where
  "of_ordinal n0 =
     (let n = n0 - 1; n400 = n div 146097; a = n mod 146097; n100 = a div 36524; b = a mod 36524;
          n4 = b div 1461; c = b mod 1461; n1 = c div 365; k = c mod 365;
          year = n400 * 400 + 1 + n100 * 100 + n4 * 4 + n1
      in if n1 = 4 \<or> n100 = 4 then (year - 1, 12, 31)
         else let m = (k + 50) div 32;
                  month = (if k < days_before_month year m then m - 1 else m)
              in (year, month, k - days_before_month year month + 1))"

definition microseconds :: "datetime \<Rightarrow> int" where
  "microseconds t = (case t of (y, mo, d, h, mi, s, us) \<Rightarrow>
     (((to_ordinal y mo d * 24 + h) * 60 + mi) * 60 + s) * 1000000 + us)"

definition of_microseconds :: "int \<Rightarrow> datetime" where
  "of_microseconds t =
     (let us = t mod 1000000; s = t div 1000000; (y, mo, d) = of_ordinal (s div 86400); r = s mod 86400
      in (y, mo, d, r div 3600, r div 60 mod 60, r mod 60, us))"

text \<open>\<open>astimezone(UTC)\<close>: the offset is subtracted; outside the years 1 to 9999 it raises \<open>OverflowError\<close>.\<close>

definition to_utc :: "datetime \<Rightarrow> int \<Rightarrow> datetime option" where
  "to_utc t offset =
     (if offset = 0 then Some t
      else let u = microseconds t - offset
           in if u < microseconds datetime_min \<or> microseconds (9999, 12, 31, 23, 59, 59, 999999) < u then None
              else Some (of_microseconds u))"

section \<open>Text\<close>

fun pad_digits :: "nat \<Rightarrow> nat \<Rightarrow> string" where
  "pad_digits 0 n = []"
| "pad_digits (Suc w) n = pad_digits w (n div 10) @ [digit_char (n mod 10)]"

definition isoformat :: "datetime \<Rightarrow> string" where
  "isoformat t = (case t of (y, mo, d, h, mi, s, us) \<Rightarrow>
     pad_digits 4 (nat y) @ ''-'' @ pad_digits 2 (nat mo) @ ''-'' @ pad_digits 2 (nat d) @ ''T''
     @ pad_digits 2 (nat h) @ '':'' @ pad_digits 2 (nat mi) @ '':'' @ pad_digits 2 (nat s)
     @ (if us = 0 then [] else ''.'' @ pad_digits 6 (nat us)) @ ''+00:00'')"

definition take_digits :: "nat \<Rightarrow> string \<Rightarrow> (int \<times> string) option" where
  "take_digits w s =
     (if length (take w s) = w \<and> list_all is_digit (take w s)
      then Some (int (digits_value (take w s)), drop w s) else None)"

definition take_field :: "nat \<Rightarrow> char \<Rightarrow> string \<Rightarrow> (int \<times> string) option" where
  "take_field w sep s =
     (case take_digits w s of
        Some (v, c # r) \<Rightarrow> if c = sep then Some (v, r) else None
      | _ \<Rightarrow> None)"

definition take_fraction :: "string \<Rightarrow> (int \<times> string) option" where
  "take_fraction s = (case s of c # r \<Rightarrow> if c = CHR ''.'' then take_digits 6 r else Some (0, s) | [] \<Rightarrow> Some (0, s))"

text \<open>The offset in microseconds; no offset is a naive value.\<close>

definition take_offset :: "string \<Rightarrow> int option option" where
  "take_offset s =
     (case s of
        [] \<Rightarrow> Some None
      | c # r \<Rightarrow>
          if c \<noteq> CHR ''+'' \<and> c \<noteq> CHR ''-'' then None
          else (case take_field 2 (CHR '':'') r of
            None \<Rightarrow> None
          | Some (h, r') \<Rightarrow>
              (case take_digits 2 r' of
                 Some (m, []) \<Rightarrow>
                   if 24 \<le> h \<or> 60 \<le> m then None
                   else let v = (h * 60 + m) * 60000000 in Some (Some (if c = CHR ''-'' then - v else v))
               | _ \<Rightarrow> None)))"

definition take_date :: "string \<Rightarrow> ((int \<times> int \<times> int) \<times> string) option" where
  "take_date s =
     Option.bind (take_field 4 (CHR ''-'') s) (\<lambda>(y, s). Option.bind (take_field 2 (CHR ''-'') s) (\<lambda>(mo, s).
     Option.bind (take_field 2 (CHR ''T'') s) (\<lambda>(d, s). Some ((y, mo, d), s))))"

definition take_time :: "string \<Rightarrow> ((int \<times> int \<times> int \<times> int) \<times> string) option" where
  "take_time s =
     Option.bind (take_field 2 (CHR '':'') s) (\<lambda>(h, s). Option.bind (take_field 2 (CHR '':'') s) (\<lambda>(mi, s).
     Option.bind (take_digits 2 s) (\<lambda>(sec, s). Option.bind (take_fraction s) (\<lambda>(us, s).
     Some ((h, mi, sec, us), s)))))"

definition canonical_iso :: "string \<Rightarrow> (datetime \<times> int option) option" where
  "canonical_iso s =
     Option.bind (take_date s) (\<lambda>((y, mo, d), s). Option.bind (take_time s) (\<lambda>((h, mi, sec, us), s).
     Option.bind (take_offset s) (\<lambda>offset.
       let t = (y, mo, d, h, mi, sec, us) in if valid_datetime t then Some (t, offset) else None)))"

record iso_reader =
  iso_other :: "string \<Rightarrow> (datetime \<times> int option) option"
  iso_wide :: "nat list \<Rightarrow> datetime option"

definition fromisoformat :: "iso_reader \<Rightarrow> string \<Rightarrow> (datetime \<times> int option) option" where
  "fromisoformat other s = (case canonical_iso s of Some r \<Rightarrow> Some r | None \<Rightarrow> iso_other other s)"

section \<open>The field parser\<close>

datatype timestamp_error = InvalidTimestamp string | TimestampOverflow

definition ends_with :: "string \<Rightarrow> string \<Rightarrow> bool" where
  "ends_with s t \<longleftrightarrow> length t \<le> length s \<and> drop (length s - length t) s = t"

definition parse_timestamp_field :: "iso_reader \<Rightarrow> string \<Rightarrow> pyval \<Rightarrow> timestamp_error + datetime" where
  "parse_timestamp_field other field value =
     (case value of
        PStr v \<Rightarrow>
          (let s = py_strip v;
               s' = (if ends_with s ''Z'' then butlast s @ ''+00:00'' else s)
           in case fromisoformat other s' of
                None \<Rightarrow> Inl (InvalidTimestamp (field @ '' must be a valid ISO 8601 timestamp.''))
              | Some (t, None) \<Rightarrow> Inr t
              | Some (t, Some offset) \<Rightarrow>
                  (case to_utc t offset of None \<Rightarrow> Inl TimestampOverflow | Some u \<Rightarrow> Inr u))
      | _ \<Rightarrow> Inl (InvalidTimestamp (field @ '' must be a valid ISO 8601 timestamp.'')))"

section \<open>Reading what was printed\<close>

lemma length_pad_digits [simp]: "length (pad_digits w n) = w"
  by (induction w n rule: pad_digits.induct) auto

lemma is_digit_char: "d < 10 \<Longrightarrow> is_digit (digit_char d) \<and> digit_value (digit_char d) = d"
  by (simp add: is_digit_def digit_char_def digit_value_def)

lemma pad_digits_digits: "list_all is_digit (pad_digits w n)"
  by (induction w n rule: pad_digits.induct) (simp_all add: is_digit_char)

lemma digits_value_pad: "n < 10 ^ w \<Longrightarrow> digits_value (pad_digits w n) = n"
proof (induction w n rule: pad_digits.induct)
  case (2 w n)
  then have "n div 10 < 10 ^ w" by (simp add: less_mult_imp_div_less mult.commute)
  then have "digits_value (pad_digits w (n div 10)) = n div 10" using "2.IH" by blast
  then show ?case by (simp add: digits_value_def is_digit_char)
qed (simp add: digits_value_def)

lemma take_pad_digits:
  assumes "0 \<le> v" "v < 10 ^ w"
  shows "take_digits w (pad_digits w (nat v) @ r) = Some (v, r)"
proof -
  have "nat v < 10 ^ w" using assms by (simp add: nat_less_iff)
  then show ?thesis using assms by (simp add: take_digits_def pad_digits_digits digits_value_pad)
qed

lemma take_pad_field: "0 \<le> v \<Longrightarrow> v < 10 ^ w \<Longrightarrow> take_field w c (pad_digits w (nat v) @ c # r) = Some (v, r)"
  by (simp add: take_field_def take_pad_digits)

lemma take_fraction_iso:
  "0 \<le> us \<Longrightarrow> us < 1000000 \<Longrightarrow>
     take_fraction ((if us = 0 then [] else ''.'' @ pad_digits 6 (nat us)) @ ''+00:00'') = Some (us, ''+00:00'')"
  by (simp add: take_fraction_def take_pad_digits)

lemma days_in_month_le: "days_in_month y m \<le> 31"
  by (simp add: days_in_month_def)

lemma canonical_isoformat:
  assumes "valid_datetime t"
  shows "canonical_iso (isoformat t) = Some (t, Some 0)"
proof -
  obtain y mo d h mi s us where t: "t = (y, mo, d, h, mi, s, us)" by (cases t)
  have v: "0 \<le> y" "y < 10000" "0 \<le> mo" "mo < 100" "0 \<le> d" "d < 100" "0 \<le> h" "h < 100"
    "0 \<le> mi" "mi < 100" "0 \<le> s" "s < 100" "0 \<le> us" "us < 1000000"
    using assms days_in_month_le [of y mo] by (simp_all add: t valid_datetime_def)
  define tail where "tail = (if us = 0 then [] else ''.'' @ pad_digits 6 (nat us)) @ ''+00:00''"
  define time where "time = pad_digits 2 (nat h) @ CHR '':'' # pad_digits 2 (nat mi) @ CHR '':'' # pad_digits 2 (nat s) @ tail"
  have iso: "isoformat t = pad_digits 4 (nat y) @ CHR ''-'' # pad_digits 2 (nat mo) @ CHR ''-'' # pad_digits 2 (nat d)
      @ CHR ''T'' # time"
    by (simp add: isoformat_def t time_def tail_def)
  have date: "take_date (isoformat t) = Some ((y, mo, d), time)"
    unfolding iso take_date_def by (simp add: take_pad_field v)
  have tf: "take_fraction tail = Some (us, ''+00:00'')"
    unfolding tail_def by (rule take_fraction_iso) (use v in simp_all)
  have tm: "take_time time = Some ((h, mi, s, us), ''+00:00'')"
    unfolding time_def take_time_def
    by (simp add: take_pad_field take_pad_digits v tf)
  have off: "take_offset ''+00:00'' = Some (Some 0)" by code_simp
  have "valid_datetime (y, mo, d, h, mi, s, us)" using assms by (simp add: t)
  then show ?thesis unfolding canonical_iso_def date by (simp add: tm off Let_def) (simp add: t)
qed

lemma digit_not_space: "is_digit c \<Longrightarrow> \<not> py_space c"
  by (simp add: is_digit_def py_space_def Let_def)

lemma isoformat_plain: "\<forall>c \<in> set (isoformat t). \<not> py_space c"
proof -
  have "\<forall>c \<in> set (pad_digits w n). \<not> py_space c" for w n
    using pad_digits_digits [of w n] digit_not_space by (auto simp: list_all_iff)
  moreover have "\<forall>c \<in> set ''-T:.+0''. \<not> py_space c" by code_simp
  ultimately show ?thesis by (cases t) (auto simp: isoformat_def)
qed

lemma isoformat_ends: "\<not> ends_with (isoformat t) ''Z''"
proof -
  have "\<exists>u. isoformat t = u @ ''0''" by (cases t) (simp add: isoformat_def)
  then show ?thesis by (auto simp: ends_with_def)
qed

theorem timestamp_roundtrip:
  assumes "valid_datetime t"
  shows "parse_timestamp_field other field (PStr (isoformat t)) = Inr t"
  using canonical_isoformat [OF assms]
  by (simp add: parse_timestamp_field_def py_strip_fixed isoformat_plain isoformat_ends fromisoformat_def to_utc_def Let_def)

text \<open>
  A timestamp close to an end of the calendar with an offset beyond it is no \<open>ValueError\<close> of
  \<open>fromisoformat\<close>: the conversion to UTC after it raises.
\<close>

lemma offset_overflows:
  "parse_timestamp_field other field (PStr ''0001-01-01T00:00:00+01:00'') = Inl TimestampOverflow"
proof -
  have "py_strip ''0001-01-01T00:00:00+01:00'' = ''0001-01-01T00:00:00+01:00''"
    "\<not> ends_with ''0001-01-01T00:00:00+01:00'' ''Z''"
    "canonical_iso ''0001-01-01T00:00:00+01:00'' = Some ((1, 1, 1, 0, 0, 0, 0), Some 3600000000)"
    "to_utc (1, 1, 1, 0, 0, 0, 0) 3600000000 = None" by code_simp+
  then show ?thesis by (simp add: parse_timestamp_field_def fromisoformat_def)
qed

lemma offsets_shift:
  "parse_timestamp_field other field (PStr ''2024-03-01T00:30:00+01:00'') = Inr (2024, 2, 29, 23, 30, 0, 0)"
proof -
  have "py_strip ''2024-03-01T00:30:00+01:00'' = ''2024-03-01T00:30:00+01:00''"
    "\<not> ends_with ''2024-03-01T00:30:00+01:00'' ''Z''"
    "canonical_iso ''2024-03-01T00:30:00+01:00'' = Some ((2024, 3, 1, 0, 30, 0, 0), Some 3600000000)"
    "to_utc (2024, 3, 1, 0, 30, 0, 0) 3600000000 = Some (2024, 2, 29, 23, 30, 0, 0)" by code_simp+
  then show ?thesis by (simp add: parse_timestamp_field_def fromisoformat_def)
qed

end
