(* ===== verification/Json_Text.thy ===== *)
theory Json_Text
  imports Py_Values Text_Codec
begin

text \<open>
  \<open>json.loads\<close> of Python's standard library, on the code points of its text, and the lax Base64 decoder
  \<open>base64.urlsafe_b64decode\<close>, which skips what is not in its alphabet.  A number is kept as its text; a
  lone surrogate is a code point of its own, as in Python.  The limits on the depth of the nesting and
  on the length of integers are not modelled.
\<close>

section \<open>Documents\<close>

datatype json =
    JNull
  | JBool bool
  | JNumber "nat list"
  | JString "nat list"
  | JList "json list"
  | JObject "(nat list \<times> json) list"

text \<open>\<open>dict\<close> keeps the last value of a key.\<close>

definition json_get :: "(nat list \<times> json) list \<Rightarrow> string \<Rightarrow> json option" where
  "json_get members key = map_of (rev members) (codes key)"

section \<open>Tokens\<close>

definition json_space :: "nat \<Rightarrow> bool" where
  "json_space c \<longleftrightarrow> c = 32 \<or> c = 9 \<or> c = 10 \<or> c = 13"

definition skip_space :: "nat list \<Rightarrow> nat list" where
  "skip_space = dropWhile json_space"

definition hex_digit :: "nat \<Rightarrow> nat option" where
  "hex_digit c = (if 48 \<le> c \<and> c \<le> 57 then Some (c - 48)
     else if 97 \<le> c \<and> c \<le> 102 then Some (c - 87)
     else if 65 \<le> c \<and> c \<le> 70 then Some (c - 55) else None)"

fun hex_value :: "nat list \<Rightarrow> nat option" where
  "hex_value [] = Some 0"
| "hex_value (c # cs) =
     (case (hex_digit c, hex_value cs) of
        (Some d, Some v) \<Rightarrow> Some (d * 16 ^ length cs + v)
      | _ \<Rightarrow> None)"

definition simple_escape :: "nat \<Rightarrow> nat option" where
  "simple_escape c = (if c = 34 \<or> c = 92 \<or> c = 47 then Some c
     else if c = 98 then Some 8 else if c = 102 then Some 12 else if c = 110 then Some 10
     else if c = 114 then Some 13 else if c = 116 then Some 9 else None)"

definition high_surrogate :: "nat \<Rightarrow> bool" where
  "high_surrogate u \<longleftrightarrow> 0xD800 \<le> u \<and> u \<le> 0xDBFF"

definition low_surrogate :: "nat \<Rightarrow> bool" where
  "low_surrogate u \<longleftrightarrow> 0xDC00 \<le> u \<and> u \<le> 0xDFFF"

definition join_surrogates :: "nat \<Rightarrow> nat \<Rightarrow> nat" where
  "join_surrogates h l = 0x10000 + (h - 0xD800) * 0x400 + (l - 0xDC00)"

text \<open>The characters of a string up to its closing quote, and what follows it.\<close>

fun scan_string :: "nat list \<Rightarrow> (nat list \<times> nat list) option" where
  "scan_string [] = None"
| "scan_string (c # cs) =
     (if c = 34 then Some ([], cs)
      else if c < 32 then None
      else if c \<noteq> 92 then map_option (apfst ((#) c)) (scan_string cs)
      else (case cs of
        [] \<Rightarrow> None
      | e # r \<Rightarrow>
          if e \<noteq> 117 then
            (case simple_escape e of None \<Rightarrow> None | Some d \<Rightarrow> map_option (apfst ((#) d)) (scan_string r))
          else (case r of
            x1 # x2 # x3 # x4 # r1 \<Rightarrow>
              (case hex_value [x1, x2, x3, x4] of
                 None \<Rightarrow> None
               | Some u \<Rightarrow>
                   (case r1 of
                      b # e' # y1 # y2 # y3 # y4 # r2 \<Rightarrow>
                        if high_surrogate u \<and> b = 92 \<and> e' = 117 then
                          (case hex_value [y1, y2, y3, y4] of
                             None \<Rightarrow> None
                           | Some l \<Rightarrow>
                               if low_surrogate l
                               then map_option (apfst ((#) (join_surrogates u l))) (scan_string r2)
                               else map_option (apfst ((#) u)) (scan_string r1))
                        else map_option (apfst ((#) u)) (scan_string r1)
                    | _ \<Rightarrow> map_option (apfst ((#) u)) (scan_string r1)))
          | _ \<Rightarrow> None)))"

definition json_digit :: "nat \<Rightarrow> bool" where
  "json_digit c \<longleftrightarrow> 48 \<le> c \<and> c \<le> 57"

definition scan_digits :: "nat list \<Rightarrow> nat list \<times> nat list" where
  "scan_digits s = (takeWhile json_digit s, dropWhile json_digit s)"

definition scan_fraction :: "nat list \<Rightarrow> nat list \<times> nat list" where
  "scan_fraction s = (case s of
     c # d # r \<Rightarrow> if c = 46 \<and> json_digit d then apfst ((#) c) (scan_digits (d # r)) else ([], s)
   | _ \<Rightarrow> ([], s))"

definition scan_exponent :: "nat list \<Rightarrow> nat list \<times> nat list" where
  "scan_exponent s = (case s of
     c # d # r \<Rightarrow>
       if c \<noteq> 101 \<and> c \<noteq> 69 then ([], s)
       else if json_digit d then apfst ((#) c) (scan_digits (d # r))
       else (case r of
         f # r' \<Rightarrow> if (d = 43 \<or> d = 45) \<and> json_digit f then apfst (\<lambda>t. c # d # t) (scan_digits (f # r')) else ([], s)
       | [] \<Rightarrow> ([], s))
   | _ \<Rightarrow> ([], s))"

definition scan_natural :: "nat list \<Rightarrow> (nat list \<times> nat list) option" where
  "scan_natural s = (case s of
     c # r \<Rightarrow> if c = 48 then Some ([c], r) else if json_digit c then Some (scan_digits s) else None
   | [] \<Rightarrow> None)"

definition scan_number :: "nat list \<Rightarrow> (nat list \<times> nat list) option" where
  "scan_number s =
     (let (sign, body) = (case s of c # r \<Rightarrow> if c = 45 then ([c], r) else ([], s) | [] \<Rightarrow> ([], s))
      in case scan_natural body of
           None \<Rightarrow> None
         | Some (n, r) \<Rightarrow>
             let (f, r1) = scan_fraction r; (e, r2) = scan_exponent r1
             in Some (sign @ n @ f @ e, r2))"

definition scan_literal :: "string \<Rightarrow> json \<Rightarrow> nat list \<Rightarrow> (json \<times> nat list) option" where
  "scan_literal word v s =
     (if take (length word) s = codes word then Some (v, drop (length word) s) else None)"

text \<open>Literals and numbers, the values that start with neither a quote nor a bracket.\<close>

definition scan_atom :: "nat list \<Rightarrow> (json \<times> nat list) option" where
  "scan_atom s =
     (case scan_literal ''null'' JNull s of Some r \<Rightarrow> Some r | None \<Rightarrow>
      (case scan_literal ''true'' (JBool True) s of Some r \<Rightarrow> Some r | None \<Rightarrow>
      (case scan_literal ''false'' (JBool False) s of Some r \<Rightarrow> Some r | None \<Rightarrow>
      (case scan_number s of Some (n, r) \<Rightarrow> Some (JNumber n, r) | None \<Rightarrow>
      (case scan_literal ''NaN'' (JNumber (codes ''NaN'')) s of Some r \<Rightarrow> Some r | None \<Rightarrow>
      (case scan_literal ''Infinity'' (JNumber (codes ''Infinity'')) s of Some r \<Rightarrow> Some r | None \<Rightarrow>
       scan_literal ''-Infinity'' (JNumber (codes ''-Infinity'')) s))))))"

lemma length_skip_space: "length (skip_space s) \<le> length s"
  by (simp add: skip_space_def length_dropWhile_le)

lemma skip_space_shorter: "skip_space s = d # r \<Longrightarrow> length r < length s"
  using length_skip_space [of s] by simp

lemma length_skip_space_less: "length s < n \<Longrightarrow> length (skip_space s) < n"
  using length_skip_space [of s] by simp

lemma length_skip_space_double: "length s \<le> n \<Longrightarrow> 2 * length (skip_space s) < Suc (Suc (2 * n))"
  using length_skip_space [of s] by simp

declare scan_string.simps(2) [simp del]

lemma length_scan_string: "scan_string s = Some (t, r) \<Longrightarrow> length r < length s"
proof (induction s arbitrary: t rule: length_induct)
  case (1 s)
  obtain n where n: "length s \<le> n" "n \<le> length s" by blast
  have step: "length r < n" if "scan_string x = Some (t', r)" "length x < n" for x t'
  proof -
    have "length x < length s" using that(2) n(2) by (rule less_le_trans)
    then show ?thesis using 1(1) that less_trans by blast
  qed
  have "length r < n"
  proof (cases s)
    case (Cons c cs)
    note eq = 1(2) [unfolded Cons scan_string.simps(2)]
    show ?thesis
      using eq n(1) unfolding Cons
      by (auto split: if_splits option.splits list.splits intro: step)
  qed (use 1(2) in simp)
  then show ?case using n(2) by simp
qed

section \<open>Values\<close>

text \<open>
  A value, the members of an object from their opening quote, and the items of a list, each with what
  follows it.  The comparison of lengths never fails (\<open>scan_value_shorter\<close>); it makes the recursion well-founded.
\<close>

function (sequential) scan_value :: "nat list \<Rightarrow> (json \<times> nat list) option"
  and scan_members :: "nat list \<Rightarrow> (nat list \<times> json) list \<Rightarrow> (json \<times> nat list) option"
  and scan_items :: "nat list \<Rightarrow> json list \<Rightarrow> (json \<times> nat list) option" where
  "scan_value [] = None"
| "scan_value (c # r) =
     (if c = 34 then map_option (apfst JString) (scan_string r)
      else if c = 123 then
        (case skip_space r of
           [] \<Rightarrow> None
         | d # r' \<Rightarrow> if d = 125 then Some (JObject [], r') else scan_members (d # r') [])
      else if c = 91 then
        (case skip_space r of
           [] \<Rightarrow> None
         | d # r' \<Rightarrow> if d = 93 then Some (JList [], r') else scan_items (d # r') [])
      else scan_atom (c # r))"
| "scan_members [] acc = None"
| "scan_members (q # s) acc =
     (if q \<noteq> 34 then None
      else (case scan_string s of
        None \<Rightarrow> None
      | Some (key, s1) \<Rightarrow>
          (case skip_space s1 of
             [] \<Rightarrow> None
           | c # s2 \<Rightarrow>
               if c \<noteq> 58 then None
               else (case scan_value (skip_space s2) of
                 None \<Rightarrow> None
               | Some (v, s3) \<Rightarrow>
                   if length s2 < length s3 then None
                   else (case skip_space s3 of
                     [] \<Rightarrow> None
                   | d # s4 \<Rightarrow>
                       if d = 125 then Some (JObject (rev ((key, v) # acc)), s4)
                       else if d = 44 then scan_members (skip_space s4) ((key, v) # acc)
                       else None)))))"
| "scan_items s acc =
     (case scan_value s of
        None \<Rightarrow> None
      | Some (v, s1) \<Rightarrow>
          if length s < length s1 then None
          else (case skip_space s1 of
            [] \<Rightarrow> None
          | d # s2 \<Rightarrow>
              if d = 93 then Some (JList (rev (v # acc)), s2)
              else if d = 44 then scan_items (skip_space s2) (v # acc)
              else None))"
  by pat_completeness auto
termination
  by (relation "measure (\<lambda>x. case x of Inl s \<Rightarrow> 2 * length s
    | Inr (Inl (s, acc)) \<Rightarrow> 2 * length s | Inr (Inr (s, acc)) \<Rightarrow> 2 * length s + 1)")
    (auto dest!: skip_space_shorter length_scan_string intro!: length_skip_space_less length_skip_space_double)

declare scan_value.simps(2) [simp del] scan_members.simps(2) [simp del] scan_items.simps [simp del]

lemma length_scan_literal: "scan_literal w v s = Some (v', r) \<Longrightarrow> length r \<le> length s"
  by (auto simp: scan_literal_def split: if_splits)

lemma length_scan_digits: "length (snd (scan_digits s)) \<le> length s"
  by (simp add: scan_digits_def length_dropWhile_le)

lemma length_scan_fraction: "length (snd (scan_fraction s)) \<le> length s"
proof (cases s)
  case (Cons c cs)
  then show ?thesis using length_scan_digits [of cs]
    by (cases cs) (auto simp: scan_fraction_def apfst_def map_prod_def split: prod.splits)
qed (simp add: scan_fraction_def)

lemma length_scan_exponent: "length (snd (scan_exponent s)) \<le> length s"
proof (cases s)
  case (Cons c cs)
  then show ?thesis using length_scan_digits [of cs] length_scan_digits [of "tl cs"]
    by (cases cs; cases "tl cs") (auto simp: scan_exponent_def apfst_def map_prod_def split: prod.splits)
qed (simp add: scan_exponent_def)

lemma length_scan_natural: "scan_natural s = Some (n, r) \<Longrightarrow> length r \<le> length s"
  using length_scan_digits [of s] by (auto simp: scan_natural_def split: list.splits if_splits)

lemma length_scan_number:
  assumes "scan_number s = Some (n, r)"
  shows "length r \<le> length s"
proof -
  let ?body = "case s of c # r \<Rightarrow> if c = 45 then r else s | [] \<Rightarrow> s"
  obtain k r0 where k: "scan_natural ?body = Some (k, r0)" "r = snd (scan_exponent (snd (scan_fraction r0)))"
    using assms by (auto simp: scan_number_def Let_def split: list.splits if_splits option.splits prod.splits)
  have "length ?body \<le> length s" by (simp split: list.splits)
  then show ?thesis
    using length_scan_natural [OF k(1)] length_scan_fraction [of r0] length_scan_exponent [of "snd (scan_fraction r0)"] k(2)
    by simp
qed

lemma length_scan_atom: "scan_atom s = Some (v, r) \<Longrightarrow> length r \<le> length s"
  unfolding scan_atom_def
  by (auto split: option.splits prod.splits dest: length_scan_literal length_scan_number)

text \<open>What follows a value is not longer than the text it was read from.\<close>

lemma scan_value_shorter:
  "scan_value s = Some (v, r) \<Longrightarrow> length r \<le> length s"
  "scan_members s acc = Some (v, r) \<Longrightarrow> length r \<le> length s"
  "scan_items s items = Some (v, r) \<Longrightarrow> length r \<le> length s"
proof (induction s and s acc and s items arbitrary: v r and v r and v r
    rule: scan_value_scan_members_scan_items.induct)
  case (2 c s)
  show ?case
  proof (cases "c = 123 \<or> c = 91")
    case True
    then obtain d s' where s': "skip_space s = d # s'"
      using "2.prems" by (cases "skip_space s") (auto simp: scan_value.simps(2))
    then have "length (d # s') \<le> length s" using length_skip_space [of s] by simp
    then show ?thesis
      using "2.prems" "2.IH" s' True by (fastforce simp: scan_value.simps(2) split: if_splits)
  next
    case False
    then show ?thesis
      using "2.prems" length_scan_atom [of "c # s" v r]
      by (auto simp: scan_value.simps(2) apfst_def map_prod_def split: if_splits dest: length_scan_string)
  qed
next
  case (4 q s acc)
  obtain key s1 c s2 w s3 d s4 where h: "q = 34" "scan_string s = Some (key, s1)" "skip_space s1 = c # s2" "c = 58"
    "scan_value (skip_space s2) = Some (w, s3)" "\<not> length s2 < length s3" "skip_space s3 = d # s4"
    using "4.prems" by (auto simp: scan_members.simps(2) split: if_splits option.splits list.splits)
  then have l: "length s4 < length s"
    by (auto dest!: skip_space_shorter length_scan_string)
  consider "d = 125" | "d = 44" "scan_members (skip_space s4) ((key, w) # acc) = Some (v, r)"
    using "4.prems" h by (auto simp: scan_members.simps(2) split: if_splits)
  then show ?case
  proof cases
    case 1
    then show ?thesis using "4.prems" h l by (simp add: scan_members.simps(2))
  next
    case 2
    then have "length r \<le> length (skip_space s4)" using "4.IH"(2) h by simp
    then show ?thesis using l length_skip_space [of s4] by simp
  qed
next
  case (5 s acc)
  obtain w s1 d s2 where h: "scan_value s = Some (w, s1)" "\<not> length s < length s1" "skip_space s1 = d # s2"
    using "5.prems" by (auto simp: scan_items.simps split: if_splits option.splits list.splits)
  then have l: "length s2 < length s" by (auto dest!: skip_space_shorter)
  consider "d = 93" | "d = 44" "scan_items (skip_space s2) (w # acc) = Some (v, r)"
    using "5.prems" h by (auto simp: scan_items.simps split: if_splits)
  then show ?case
  proof cases
    case 1
    then show ?thesis using "5.prems" h l by (simp add: scan_items.simps)
  next
    case 2
    then have "length r \<le> length (skip_space s2)" using "5.IH"(2) h by simp
    then show ?thesis using l length_skip_space [of s2] by simp
  qed
qed auto

text \<open>\<open>json.loads\<close>; \<open>None\<close> is its \<open>JSONDecodeError\<close>.\<close>

definition json_loads :: "nat list \<Rightarrow> json option" where
  "json_loads s =
     (if take 1 s = [0xFEFF] then None
      else (case scan_value (skip_space s) of
        None \<Rightarrow> None
      | Some (v, r) \<Rightarrow> if skip_space r = [] then Some v else None))"

section \<open>Reading what \<open>json.dumps\<close> writes\<close>

lemma hex_digit_char: "d < 16 \<Longrightarrow> hex_digit (of_char (hex_char d)) = Some d"
  by (auto simp: hex_digit_def hex_char_def)

lemma scan_escaped_char:
  "scan_string (codes (json_escape_char True c) @ s) = map_option (apfst ((#) (of_char c))) (scan_string s)"
proof -
  let ?n = "of_char c :: nat"
  have n: "?n < 256" by simp
  have hex: "hex_value [48, 48, of_char (hex_char (?n div 16)), of_char (hex_char (?n mod 16))] = Some ?n"
  proof -
    have "?n div 16 < 16" "?n mod 16 < 16" using n by (simp_all add: div_less_iff_less_mult)
    then show ?thesis by (simp add: hex_digit_char) (simp add: hex_digit_def)
  qed
  have plain: "scan_string (?n # s) = map_option (apfst ((#) ?n)) (scan_string s)" if "32 \<le> ?n" "?n \<noteq> 34" "?n \<noteq> 92"
    using that by (simp add: scan_string.simps(2))
  have simple: "scan_string (92 # e # s) = map_option (apfst ((#) ?n)) (scan_string s)"
    if "simple_escape e = Some ?n" "e \<noteq> 117" for e
    using that by (simp add: scan_string.simps(2))
  have unicode: "scan_string (92 # 117 # 48 # 48 # of_char (hex_char (?n div 16)) # of_char (hex_char (?n mod 16)) # s) =
      map_option (apfst ((#) ?n)) (scan_string s)"
  proof -
    have "\<not> high_surrogate ?n" unfolding high_surrogate_def using n by linarith
    then show ?thesis using hex by (subst scan_string.simps(2)) (auto simp del: hex_value.simps split: list.splits)
  qed
  have q: "c = CHR 0x22 \<longleftrightarrow> ?n = 34" "c = CHR 0x5C \<longleftrightarrow> ?n = 92"
    using of_char_eq_iff [of c "CHR 0x22", where ?'a = nat] of_char_eq_iff [of c "CHR 0x5C", where ?'a = nat] by simp_all
  consider "?n = 34" | "?n = 92" | "?n = 10" | "?n = 13" | "?n = 9" | "?n = 8" | "?n = 12"
    | "?n < 32 \<or> 126 < ?n" "?n \<notin> {34, 92, 10, 13, 9, 8, 12}" | "32 \<le> ?n" "?n \<le> 126" "?n \<noteq> 34" "?n \<noteq> 92"
    by fastforce
  then show ?thesis
  proof cases
    case 8
    then show ?thesis using unicode by (simp add: json_escape_char_def Let_def q)
  next
    case 9
    then show ?thesis using plain by (simp add: json_escape_char_def Let_def q)
  qed (use simple in \<open>simp_all add: json_escape_char_def Let_def q simple_escape_def\<close>)
qed

lemma scan_json_str: "scan_string (codes (concat (map (json_escape_char True) t)) @ 34 # s) = Some (codes t, s)"
proof (induction t)
  case (Cons c t)
  then show ?case by (simp add: scan_escaped_char)
qed (simp add: scan_string.simps(2))

text \<open>Two string fields, the shape of the documents this program writes and reads back.\<close>

lemma skip_space_stop: "\<not> json_space c \<Longrightarrow> skip_space (c # s) = c # s"
  by (simp add: skip_space_def)

lemma scan_value_string:
  "scan_value (34 # codes (concat (map (json_escape_char True) t)) @ 34 # s) = Some (JString (codes t), s)"
  using scan_json_str [of t s] by (simp add: scan_value.simps(2))

lemma json_two_fields:
  "json_loads (codes (''{'' @ json_str True k @ '':'' @ json_str True a @ '','' @ json_str True l @ '':''
      @ json_str True b @ ''}'')) =
    Some (JObject [(codes k, JString (codes a)), (codes l, JString (codes b))])"
proof -
  have q: "codes [CHR 0x22] = [34]" by simp
  have sp: "skip_space (34 # s) = 34 # s" "skip_space (58 # s) = 58 # s" "skip_space (44 # s) = 44 # s"
    "skip_space (125 # s) = 125 # s" "skip_space (123 # s) = 123 # s" for s
    by (simp_all add: skip_space_stop json_space_def)
  have member: "scan_members (34 # codes (concat (map (json_escape_char True) k)) @ 34 # 58 # 34
        # codes (concat (map (json_escape_char True) a)) @ 34 # d # s) acc =
      (if d = 125 then Some (JObject (rev ((codes k, JString (codes a)) # acc)), s)
       else if d = 44 then scan_members (skip_space s) ((codes k, JString (codes a)) # acc) else None)"
    if "\<not> json_space d" for k a d s acc
    by (subst scan_members.simps(2)) (simp add: scan_json_str scan_value_string sp skip_space_stop [OF that])
  show ?thesis
    by (simp add: json_loads_def json_str_def sp scan_value.simps(2) member json_space_def)
      (simp add: skip_space_def)
qed

section \<open>URL-safe Base64\<close>

definition url_char :: "char \<Rightarrow> char" where
  "url_char c = (if c = CHR ''+'' then CHR ''-'' else if c = CHR ''/'' then CHR ''_'' else c)"

definition std_char :: "char \<Rightarrow> char" where
  "std_char c = (if c = CHR ''-'' then CHR ''+'' else if c = CHR ''_'' then CHR ''/'' else c)"

definition urlsafe_b64encode :: "nat list \<Rightarrow> string" where
  "urlsafe_b64encode bs = map url_char (b64encode bs)"

text \<open>
  \<open>binascii.a2b_base64\<close> without \<open>strict_mode\<close>: characters outside the alphabet are skipped, and enough
  padding ends the data.  \<open>q\<close> are the sextets of the unfinished group.
\<close>

fun lax_decode :: "nat \<Rightarrow> nat list \<Rightarrow> string \<Rightarrow> nat list option" where
  "lax_decode pads q [] = (if q = [] then Some [] else None)"
| "lax_decode pads q (c # cs) =
     (if c = CHR ''='' then
        (if 2 \<le> length q then
           (if 4 \<le> length q + Suc pads then Some (join_sextets q) else lax_decode (Suc pads) q cs)
         else lax_decode pads q cs)
      else (case b64_value c of
        None \<Rightarrow> lax_decode pads q cs
      | Some v \<Rightarrow>
          if length q = 3 then map_option (\<lambda>bs. join_sextets (q @ [v]) @ bs) (lax_decode 0 [] cs)
          else lax_decode 0 (q @ [v]) cs))"

definition urlsafe_b64decode :: "string \<Rightarrow> nat list option" where
  "urlsafe_b64decode s = (if is_ascii s then lax_decode 0 [] (map std_char s) else None)"

lemma lax_decode_encode: "\<forall>b \<in> set bs. b < 256 \<Longrightarrow> lax_decode 0 [] (b64encode bs) = Some bs"
proof (induction bs rule: b64encode.induct)
  case (2 a)
  then show ?case
    using sextet_bounds [of a a a] join_back [of a a a] by (simp add: b64_char_facts)
next
  case (3 a b)
  then show ?case
    using sextet_bounds [of a b b] join_back [of a b b] by (simp add: b64_char_facts)
next
  case (4 a b c r)
  then show ?case
    using sextet_bounds [of a b c] join_back [of a b c] by (simp add: b64_char_facts)
qed simp

lemma b64encode_alphabet:
  assumes "\<forall>b \<in> set bs. b < 256"
  shows "set (b64encode bs) \<subseteq> insert (CHR ''='') (set b64_alphabet)"
proof -
  obtain vs pad where "b64_shape bs vs pad" using b64encode_shape [OF assms] by blast
  moreover have "b64_char v \<in> set b64_alphabet" if "v < 64" for v
    using that alphabet_facts(2) by (simp add: b64_char_def)
  ultimately show ?thesis by (auto simp: b64_shape_def)
qed

text \<open>Without its padding the length of an encoding tells how much padding there was.\<close>

lemma b64encode_padding:
  "\<forall>b \<in> set bs. b < 256 \<Longrightarrow> \<exists>s k. b64encode bs = s @ replicate k (CHR ''='') \<and> CHR ''='' \<notin> set s \<and> k = (4 - length s mod 4) mod 4"
proof (induction bs rule: b64encode.induct)
  case (2 a)
  let ?s = "[b64_char (a div 4), b64_char (a mod 4 * 16)]"
  have "b64encode [a] = ?s @ replicate 2 (CHR ''='') \<and> CHR ''='' \<notin> set ?s \<and> 2 = (4 - length ?s mod 4) mod 4"
    using 2 sextet_bounds [of a a a] b64_char_facts(2) by (auto simp: numeral_2_eq_2 dest: sym)
  then show ?case by blast
next
  case (3 a b)
  let ?s = "[b64_char (a div 4), b64_char (a mod 4 * 16 + b div 16), b64_char (b mod 16 * 4)]"
  have "b64encode [a, b] = ?s @ replicate 1 (CHR ''='') \<and> CHR ''='' \<notin> set ?s \<and> 1 = (4 - length ?s mod 4) mod 4"
    using 3 sextet_bounds [of a b b] b64_char_facts(2) by (auto dest: sym)
  then show ?case by blast
next
  case (4 a b c r)
  then obtain s k where s: "b64encode r = s @ replicate k (CHR ''='')" "CHR ''='' \<notin> set s" "k = (4 - length s mod 4) mod 4"
    by auto
  let ?s = "[b64_char (a div 4), b64_char (a mod 4 * 16 + b div 16), b64_char (b mod 16 * 4 + c div 64), b64_char (c mod 64)] @ s"
  have "b64encode (a # b # c # r) = ?s @ replicate k (CHR ''='')" by (simp add: s(1))
  moreover have "CHR ''='' \<notin> set ?s"
    using 4(2) s(2) sextet_bounds [of a b c] b64_char_facts(2) by (auto dest: sym)
  moreover have "k = (4 - length ?s mod 4) mod 4" using s(3) by simp
  ultimately show ?case by blast
qed auto

end
