(* ===== verification/Rest_Tasks.thy ===== *)
theory Rest_Tasks
  imports Rpc_Params Error_Adaptation Output_Modes Timestamps Json_Text
    "HOL-Library.Multiset"
begin

text \<open>
  The REST listing of tasks, \<open>GET /v1/tasks\<close> (\<open>server/rest_tasks.py\<close>): its query, the filters and the
  order, the pages, and the tokens by which a client continues.  What the listing reads of an SDK task
  beyond \<open>task\<close> (its timestamp, its parts, \<open>model_dump\<close>) is the parameter \<open>task_view\<close>.
\<close>

section \<open>Queries\<close>

record task_cursor =
  cu_task_id :: "nat list"
  cu_timestamp :: datetime

record list_query =
  lq_cursor :: "task_cursor option"
  lq_context_id :: "string option"
  lq_include_artifacts :: bool
  lq_history_length :: int
  lq_page_size :: int
  lq_status :: "task_state option"
  lq_after :: "datetime option"

text \<open>A \<open>_ListTasksValidationError\<close>, or the \<open>OverflowError\<close> of a timestamp, which nothing catches.\<close>

datatype query_error = InvalidQuery string string | QueryCrash

fun timestamp_failure :: "string \<Rightarrow> timestamp_error \<Rightarrow> query_error" where
  "timestamp_failure field (InvalidTimestamp message) = InvalidQuery field message"
| "timestamp_failure field TimestampOverflow = QueryCrash"

fun map_error :: "('e \<Rightarrow> 'f) \<Rightarrow> 'e + 'a \<Rightarrow> 'f + 'a" where
  "map_error f (Inl e) = Inl (f e)"
| "map_error f (Inr x) = Inr x"

definition parse_int :: "string \<Rightarrow> string \<Rightarrow> query_error + int" where
  "parse_int field raw =
     ebind (parse_int_field (\<lambda>f _. InvalidQuery f (f @ '' must be an integer.'')) None field (PStr raw)) (\<lambda>v. Inr (the v))"

definition parse_bool :: "string \<Rightarrow> bool \<Rightarrow> string option \<Rightarrow> query_error + bool" where
  "parse_bool field dflt raw =
     ebind (parse_bool_field (\<lambda>f _. InvalidQuery f (f @ '' must be a boolean.'')) [''true'', ''1''] [''false'', ''0''] field
              (case raw of None \<Rightarrow> PNone | Some s \<Rightarrow> PStr s))
       (\<lambda>v. Inr (case v of None \<Rightarrow> dflt | Some b \<Rightarrow> b))"

definition parse_timestamp :: "iso_reader \<Rightarrow> string \<Rightarrow> string \<Rightarrow> query_error + datetime" where
  "parse_timestamp other field raw = map_error (timestamp_failure field) (parse_timestamp_field other field (PStr raw))"

text \<open>\<open>repr\<close> of a string of code points below 256.\<close>

definition repr_char :: "char \<Rightarrow> char \<Rightarrow> string" where
  "repr_char q c =
     (let n = (of_char c :: nat) in
      if c = q \<or> c = CHR 0x5C then [CHR 0x5C, c]
      else if n = 9 then [CHR 0x5C, CHR ''t''] else if n = 10 then [CHR 0x5C, CHR ''n'']
      else if n = 13 then [CHR 0x5C, CHR ''r'']
      else if n < 32 \<or> (127 \<le> n \<and> n \<le> 160) \<or> n = 173
        then [CHR 0x5C, CHR ''x'', hex_char (n div 16), hex_char (n mod 16)]
      else [c])"

definition py_repr :: "string \<Rightarrow> string" where
  "py_repr s =
     (let q = (if CHR 0x27 \<in> set s \<and> CHR 0x22 \<notin> set s then CHR 0x22 else CHR 0x27)
      in [q] @ concat (map (repr_char q) s) @ [q])"

definition all_states :: "task_state list" where
  "all_states = [submitted, working, input_required, completed, canceled, failed, rejected, auth_required, unknown]"

definition parse_status :: "string \<Rightarrow> query_error + task_state" where
  "parse_status v =
     (case find (\<lambda>st. state_value st = v) all_states of
        Some st \<Rightarrow> Inr st
      | None \<Rightarrow> Inl (InvalidQuery ''status'' (''Unsupported task status '' @ py_repr v @ ''.'')))"

section \<open>Page tokens\<close>

text \<open>The fields of a token's document; \<open>None\<close> is any exception on the way to them.\<close>

definition blank_codes :: "nat list \<Rightarrow> bool" where
  "blank_codes s \<longleftrightarrow> (\<forall>c \<in> set s. c < 256 \<and> py_space (char_of c)
     \<or> c \<in> {0x1680, 0x2028, 0x2029, 0x202F, 0x205F, 0x3000} \<or> (0x2000 \<le> c \<and> c \<le> 0x200A))"

definition token_fields :: "json \<Rightarrow> (nat list \<times> nat list) option" where
  "token_fields payload =
     (case payload of
        JObject members \<Rightarrow>
          (case (json_get members ''id'', json_get members ''timestamp'') of
             (Some (JString i), Some (JString t)) \<Rightarrow> if blank_codes i \<or> blank_codes t then None else Some (i, t)
           | _ \<Rightarrow> None)
      | _ \<Rightarrow> None)"

definition token_timestamp :: "iso_reader \<Rightarrow> nat list \<Rightarrow> datetime option" where
  "token_timestamp other t =
     (if list_ex (\<lambda>c. 256 \<le> c) t then iso_wide other t
      else (case parse_timestamp other ''pageToken.timestamp'' (map char_of t) of Inl e \<Rightarrow> None | Inr ts \<Rightarrow> Some ts))"

definition token_cursor :: "iso_reader \<Rightarrow> string \<Rightarrow> task_cursor option" where
  "token_cursor other normalized =
     Option.bind (urlsafe_b64decode (normalized @ replicate ((4 - length normalized mod 4) mod 4) (CHR ''=''))) (\<lambda>bytes.
     Option.bind (utf8_decode bytes) (\<lambda>text. Option.bind (json_loads text) (\<lambda>payload.
     Option.bind (token_fields payload) (\<lambda>(i, t). Option.bind (token_timestamp other t) (\<lambda>ts.
       Some \<lparr>cu_task_id = i, cu_timestamp = ts\<rparr>)))))"

definition decode_page_token :: "iso_reader \<Rightarrow> string option \<Rightarrow> query_error + task_cursor option" where
  "decode_page_token other raw =
     (case raw of
        None \<Rightarrow> Inr None
      | Some v \<Rightarrow>
          if py_strip v = [] then Inr None
          else (case token_cursor other (py_strip v) of
            None \<Rightarrow> Inl (InvalidQuery ''pageToken'' ''pageToken is invalid.'')
          | Some c \<Rightarrow> Inr (Some c)))"

definition rstrip_pad :: "string \<Rightarrow> string" where
  "rstrip_pad s = rev (dropWhile (\<lambda>c. c = CHR ''='') (rev s))"

definition page_token :: "string \<Rightarrow> datetime \<Rightarrow> string" where
  "page_token task_id timestamp =
     rstrip_pad (urlsafe_b64encode (utf8_encode
       (''{'' @ json_str True ''id'' @ '':'' @ json_str True task_id @ '','' @ json_str True ''timestamp'' @ '':''
          @ json_str True (isoformat timestamp) @ ''}'')))"

section \<open>The query of a request\<close>

definition page_size_of :: "(string, string) dict \<Rightarrow> query_error + int" where
  "page_size_of params =
     (case dict_get params ''pageSize'' of
        None \<Rightarrow> Inr 50
      | Some v \<Rightarrow> ebind (parse_int ''pageSize'' v) (\<lambda>n.
          if 1 \<le> n \<and> n \<le> 100 then Inr n
          else Inl (InvalidQuery ''pageSize'' ''pageSize must be between 1 and 100.'')))"

definition history_length_of :: "(string, string) dict \<Rightarrow> query_error + int" where
  "history_length_of params =
     (case dict_get params ''historyLength'' of
        None \<Rightarrow> Inr 0
      | Some v \<Rightarrow> ebind (parse_int ''historyLength'' v) (\<lambda>n.
          if n < 0 then Inl (InvalidQuery ''historyLength'' ''historyLength must be greater than or equal to 0.'')
          else Inr n))"

definition parse_list_tasks_query :: "iso_reader \<Rightarrow> (string, string) dict \<Rightarrow> query_error + list_query" where
  "parse_list_tasks_query other params =
     ebind (page_size_of params) (\<lambda>page_size.
     ebind (history_length_of params) (\<lambda>history_length.
     ebind (parse_bool ''includeArtifacts'' False (dict_get params ''includeArtifacts'')) (\<lambda>include_artifacts.
     ebind (decode_page_token other (dict_get params ''pageToken'')) (\<lambda>cursor.
     ebind (case dict_get params ''status'' of
              None \<Rightarrow> Inr None | Some v \<Rightarrow> ebind (parse_status v) (\<lambda>st. Inr (Some st))) (\<lambda>status.
     ebind (case dict_get params ''statusTimestampAfter'' of
              None \<Rightarrow> Inr None
            | Some v \<Rightarrow> ebind (parse_timestamp other ''statusTimestampAfter'' v) (\<lambda>ts. Inr (Some ts))) (\<lambda>after.
     Inr \<lparr>lq_cursor = cursor, lq_context_id = dict_get params ''contextId'', lq_include_artifacts = include_artifacts,
       lq_history_length = history_length, lq_page_size = page_size, lq_status = status, lq_after = after\<rparr>))))))"

section \<open>Filters, order and pages\<close>

record task_view =
  tv_timestamp :: "task \<Rightarrow> string option"
  tv_payload :: "task \<Rightarrow> a2a_task"
  tv_dump :: "task \<Rightarrow> a2a_task \<Rightarrow> pdict"

text \<open>An invalid timestamp of a task counts as the earliest; \<open>None\<close> is the \<open>OverflowError\<close>.\<close>

definition task_status_timestamp :: "iso_reader \<Rightarrow> task_view \<Rightarrow> task \<Rightarrow> datetime option" where
  "task_status_timestamp other V t =
     (case tv_timestamp V t of
        None \<Rightarrow> Some datetime_min
      | Some [] \<Rightarrow> Some datetime_min
      | Some s \<Rightarrow> (case parse_timestamp other ''status.timestamp'' s of
          Inr ts \<Rightarrow> Some ts
        | Inl (InvalidQuery f m) \<Rightarrow> Some datetime_min
        | Inl QueryCrash \<Rightarrow> None))"

type_synonym sort_key = "datetime \<times> nat list"

definition task_sort_key :: "iso_reader \<Rightarrow> task_view \<Rightarrow> task \<Rightarrow> sort_key option" where
  "task_sort_key other V t = map_option (\<lambda>ts. (ts, codes (tk_id t))) (task_status_timestamp other V t)"

definition cursor_sort_key :: "task_cursor \<Rightarrow> sort_key" where
  "cursor_sort_key c = (cu_timestamp c, cu_task_id c)"

text \<open>The listing computes the key of every task that passes the first two filters, so it fails when one fails.\<close>

definition matching :: "list_query \<Rightarrow> task list \<Rightarrow> task list" where
  "matching query tasks =
     filter (\<lambda>t. (case lq_context_id query of None \<Rightarrow> True | Some c \<Rightarrow> tk_context_id t = c) \<and>
                 (case lq_status query of None \<Rightarrow> True | Some st \<Rightarrow> tk_state t = st)) tasks"

definition filter_tasks :: "iso_reader \<Rightarrow> task_view \<Rightarrow> list_query \<Rightarrow> task list \<Rightarrow> (sort_key \<times> task) list option" where
  "filter_tasks other V query tasks =
     (let keyed = map (\<lambda>t. (task_sort_key other V t, t)) (matching query tasks)
      in if list_ex (\<lambda>(k, t). k = None) keyed then None
         else
           let ks = filter (\<lambda>(k, t). case lq_after query of None \<Rightarrow> True | Some after \<Rightarrow> after \<le> fst k)
                      (map (\<lambda>(k, t). (the k, t)) keyed)
           in Some (rev (sort_key fst (rev ks))))"

definition apply_cursor :: "task_cursor option \<Rightarrow> (sort_key \<times> task) list \<Rightarrow> (sort_key \<times> task) list" where
  "apply_cursor cursor tasks =
     (case cursor of None \<Rightarrow> tasks | Some c \<Rightarrow> filter (\<lambda>(k, t). k < cursor_sort_key c) tasks)"

text \<open>A page and the token of the next one.\<close>

definition page_of :: "list_query \<Rightarrow> (sort_key \<times> task) list \<Rightarrow> task list \<times> string" where
  "page_of query tasks =
     (let paged = apply_cursor (lq_cursor query) tasks;
          page = take (nat (lq_page_size query)) paged
      in (map snd page,
          if length page < length paged \<and> page \<noteq> []
          then (case last page of (k, t) \<Rightarrow> page_token (tk_id t) (fst k)) else []))"

section \<open>The route\<close>

definition serialize_task :: "py_floats \<Rightarrow> task_view \<Rightarrow> list_query \<Rightarrow> task \<Rightarrow> pdict" where
  "serialize_task fl V query t =
     (let accepted = extract_accepted_output_modes_from_metadata (at_metadata (tv_payload V t));
          negotiated = apply_accepted_output_modes fl
            (case accepted of None \<Rightarrow> ModesValue PNone | Some ms \<Rightarrow> modes_tuple ms) (PTask (tv_payload V t));
          p = tv_dump V t (case negotiated of Some (PTask t') \<Rightarrow> t' | _ \<Rightarrow> tv_payload V t);
          p' = (if lq_history_length query \<le> 0 then dict_pop ''history'' p
                else (case pget p ''history'' of
                  PList h \<Rightarrow> dict_set ''history'' (PList (drop (length h - nat (lq_history_length query)) h)) p
                | _ \<Rightarrow> p))
      in if lq_include_artifacts query then p' else dict_pop ''artifacts'' p')"

datatype http_reply = Reply int pdict | ReplyCrash

definition error_reply :: "int \<Rightarrow> string + pdict \<Rightarrow> http_reply" where
  "error_reply status body = (case body of Inr b \<Rightarrow> Reply status b | Inl e \<Rightarrow> ReplyCrash)"

definition invalid_argument_response :: "(pyval \<Rightarrow> string) \<Rightarrow> string \<Rightarrow> string \<Rightarrow> string \<Rightarrow> http_reply" where
  "invalid_argument_response value_text version field message =
     error_reply 400 (build_http_error_body value_text version 400 ''INVALID_ARGUMENT'' message
       [(''error'', PStr message), (''field'', PStr field)] (Some ''INVALID_LIST_TASKS_REQUEST'') [(''field'', PStr field)])"

definition store_error_response :: "(pyval \<Rightarrow> string) \<Rightarrow> string \<Rightarrow> string \<Rightarrow> http_reply" where
  "store_error_response value_text version operation =
     error_reply 500 (build_http_error_body value_text version 500 ''INTERNAL'' ''Task store unavailable while listing tasks.''
       [(''error'', PStr ''Task store unavailable while listing tasks.''), (''operation'', PStr operation)]
       (Some ''TASK_STORE_UNAVAILABLE'') [(''operation'', PStr operation)])"

definition list_tasks_route ::
  "(pyval \<Rightarrow> string) \<Rightarrow> py_floats \<Rightarrow> iso_reader \<Rightarrow> task_view \<Rightarrow> 's raw_store \<Rightarrow> store \<Rightarrow> string
     \<Rightarrow> (string, string) dict \<Rightarrow> 's \<Rightarrow> http_reply \<times> 's" where
  "list_tasks_route value_text fl other V R st version params s =
     (case parse_list_tasks_query other params of
        Inl (InvalidQuery field message) \<Rightarrow> (invalid_argument_response value_text version field message, s)
      | Inl QueryCrash \<Rightarrow> (ReplyCrash, s)
      | Inr query \<Rightarrow>
          (case list_stored_tasks R st s of
             (Inl (TaskStoreOperationError operation t), s') \<Rightarrow> (store_error_response value_text version operation, s')
           | (Inl (OtherError e), s') \<Rightarrow> (ReplyCrash, s')
           | (Inr tasks, s') \<Rightarrow>
               (case filter_tasks other V query tasks of
                  None \<Rightarrow> (ReplyCrash, s')
                | Some filtered \<Rightarrow>
                    (let (page, token) = page_of query filtered
                     in (Reply 200 [(''tasks'', PList (map (\<lambda>t. PDict (serialize_task fl V query t)) page)),
                           (''nextPageToken'', PStr token), (''pageSize'', PInt (int (length page))),
                           (''totalSize'', PInt (int (length filtered)))], s')))))"

section \<open>Tokens come back\<close>

lemma dropWhile_replicate: "CHR ''='' \<notin> set s \<Longrightarrow> rstrip_pad (s @ replicate k (CHR ''='')) = s"
proof -
  assume "CHR ''='' \<notin> set s"
  then have "dropWhile (\<lambda>c. c = CHR ''='') (rev s) = rev s"
    by (cases "rev s") (auto simp: dropWhile_eq_self_iff dest: arg_cong [of _ _ set])
  moreover have "dropWhile (\<lambda>c. c = CHR ''='') (replicate k (CHR ''='') @ rev s) = dropWhile (\<lambda>c. c = CHR ''='') (rev s)"
    by (induction k) auto
  ultimately show ?thesis by (simp add: rstrip_pad_def)
qed

lemma alphabet_char:
  assumes "c \<in> insert (CHR ''='') (set b64_alphabet)"
  shows "std_char (url_char c) = c" "(of_char (url_char c) :: nat) < 128" "\<not> py_space (url_char c)"
    "url_char c = CHR ''='' \<longleftrightarrow> c = CHR ''=''"
proof -
  have "\<forall>c \<in> set (CHR ''='' # b64_alphabet). std_char (url_char c) = c \<and> (of_char (url_char c) :: nat) < 128 \<and>
      \<not> py_space (url_char c) \<and> (url_char c = CHR ''='' \<longleftrightarrow> c = CHR ''='')" by code_simp
  then show "std_char (url_char c) = c" "(of_char (url_char c) :: nat) < 128" "\<not> py_space (url_char c)"
    "url_char c = CHR ''='' \<longleftrightarrow> c = CHR ''=''" using assms by auto
qed

lemma token_shape:
  assumes "\<forall>b \<in> set bs. b < 256"
  obtains s k where "urlsafe_b64encode bs = s @ replicate k (CHR ''='')" "rstrip_pad (urlsafe_b64encode bs) = s"
    "k = (4 - length s mod 4) mod 4" "\<forall>c \<in> set s. \<not> py_space c"
proof -
  obtain s k where s: "b64encode bs = s @ replicate k (CHR ''='')" "CHR ''='' \<notin> set s" "k = (4 - length s mod 4) mod 4"
    using b64encode_padding [OF assms] by blast
  have alph: "set s \<subseteq> insert (CHR ''='') (set b64_alphabet)" using b64encode_alphabet [OF assms] s(1) by auto
  have e: "urlsafe_b64encode bs = map url_char s @ replicate k (CHR ''='')"
    by (simp add: urlsafe_b64encode_def s(1) url_char_def)
  have n: "CHR ''='' \<notin> set (map url_char s)" using s(2) alph alphabet_char(4) by fastforce
  show thesis
  proof (rule that [OF e])
    show "rstrip_pad (urlsafe_b64encode bs) = map url_char s" unfolding e by (rule dropWhile_replicate [OF n])
    show "k = (4 - length (map url_char s) mod 4) mod 4" using s(3) by simp
    show "\<forall>c \<in> set (map url_char s). \<not> py_space c" using alph alphabet_char(3) by auto
  qed
qed

lemma urlsafe_roundtrip:
  assumes "\<forall>b \<in> set bs. b < 256"
  shows "urlsafe_b64decode (urlsafe_b64encode bs) = Some bs"
proof -
  have a: "c \<in> insert (CHR ''='') (set b64_alphabet)" if "c \<in> set (b64encode bs)" for c
    using b64encode_alphabet [OF assms] that by blast
  have "map std_char (urlsafe_b64encode bs) = b64encode bs"
    unfolding urlsafe_b64encode_def by (simp add: map_idI alphabet_char(1) [OF a])
  moreover have "is_ascii (urlsafe_b64encode bs)"
    by (auto simp: urlsafe_b64encode_def is_ascii_def alphabet_char(2) [OF a])
  ultimately show ?thesis using lax_decode_encode [OF assms] by (simp add: urlsafe_b64decode_def)
qed

lemma no_such_char:
  assumes "256 \<le> n"
  shows "of_char c \<noteq> (n::nat)" "\<not> n \<le> (of_char c :: nat)"
proof -
  have "(of_char c :: nat) < 256" by (rule of_char_less)
  then show "of_char c \<noteq> (n::nat)" "\<not> n \<le> (of_char c :: nat)" using assms by linarith+
qed

lemma blank_codes_iff: "blank_codes (codes s) \<longleftrightarrow> py_strip s = []"
proof -
  have "(of_char c < (256::nat) \<and> py_space (char_of (of_char c :: nat)) \<or>
      (of_char c :: nat) \<in> {0x1680, 0x2028, 0x2029, 0x202F, 0x205F, 0x3000} \<or>
      0x2000 \<le> (of_char c :: nat) \<and> (of_char c :: nat) \<le> 0x200A) \<longleftrightarrow> py_space c" for c
    by (simp add: no_such_char)
  then show ?thesis by (simp add: blank_codes_def codes_def py_strip_Nil_iff)
qed

lemma page_token_read:
  assumes "py_strip task_id \<noteq> []" "valid_datetime timestamp"
  shows "page_token task_id timestamp \<noteq> []" "py_strip (page_token task_id timestamp) = page_token task_id timestamp"
    "token_cursor other (page_token task_id timestamp) =
       Some \<lparr>cu_task_id = codes task_id, cu_timestamp = timestamp\<rparr>"
proof -
  let ?text = "''{'' @ json_str True ''id'' @ '':'' @ json_str True task_id @ '','' @ json_str True ''timestamp'' @ '':''
      @ json_str True (isoformat timestamp) @ ''}''"
  let ?bs = "utf8_encode ?text"
  have bytes: "\<forall>b \<in> set ?bs. b < 256" using utf8_encode_bytes by blast
  obtain s k where s: "urlsafe_b64encode ?bs = s @ replicate k (CHR ''='')" "rstrip_pad (urlsafe_b64encode ?bs) = s"
    "k = (4 - length s mod 4) mod 4" "\<forall>c \<in> set s. \<not> py_space c"
    using token_shape [OF bytes] .
  have token: "page_token task_id timestamp = s" using s(2) by (simp add: page_token_def)
  have dec: "urlsafe_b64decode (s @ replicate ((4 - length s mod 4) mod 4) (CHR ''='')) = Some ?bs"
    using urlsafe_roundtrip [OF bytes] unfolding s(1) s(3) .
  have doc: "json_loads (codes ?text) =
      Some (JObject [(codes ''id'', JString (codes task_id)), (codes ''timestamp'', JString (codes (isoformat timestamp)))])"
    by (rule json_two_fields)
  have "isoformat timestamp \<noteq> []" by (cases timestamp) (simp add: isoformat_def)
  then have nb: "\<not> blank_codes (codes task_id)" "\<not> blank_codes (codes (isoformat timestamp))"
    using assms(1) isoformat_plain by (simp_all add: blank_codes_iff py_strip_fixed)
  have fields: "token_fields (JObject [(codes ''id'', JString (codes task_id)), (codes ''timestamp'', JString (codes (isoformat timestamp)))])
      = Some (codes task_id, codes (isoformat timestamp))"
    using nb by (simp add: token_fields_def json_get_def)
  have ts: "token_timestamp other (codes (isoformat timestamp)) = Some timestamp"
  proof -
    have "\<not> list_ex (\<lambda>c. 256 \<le> c) (codes (isoformat timestamp))"
      by (auto simp: codes_def list_ex_iff no_such_char)
    moreover have "map char_of (codes (isoformat timestamp)) = isoformat timestamp"
      by (simp add: codes_def comp_def)
    ultimately show ?thesis
      using timestamp_roundtrip [OF assms(2)] by (simp add: token_timestamp_def parse_timestamp_def)
  qed
  show "token_cursor other (page_token task_id timestamp) = Some \<lparr>cu_task_id = codes task_id, cu_timestamp = timestamp\<rparr>"
    unfolding token token_cursor_def dec by (simp add: utf8_roundtrip doc fields ts del: append_assoc append_Cons codes_simps)
  show "page_token task_id timestamp \<noteq> []"
  proof
    assume "page_token task_id timestamp = []"
    then have "lax_decode 0 [] [] = Some ?bs" using dec token by (simp add: urlsafe_b64decode_def is_ascii_def)
    then have "?bs = []" by simp
    then show False by (simp add: utf8_encode_def)
  qed
  show "py_strip (page_token task_id timestamp) = page_token task_id timestamp"
    using s(4) token by (simp add: py_strip_fixed)
qed

text \<open>
  C28: the token of a page is read back as the position of the last task of the page, for every task whose
  id is not blank.
\<close>

theorem page_token_roundtrip:
  assumes "py_strip task_id \<noteq> []" "valid_datetime timestamp"
  shows "decode_page_token other (Some (page_token task_id timestamp)) =
    Inr (Some \<lparr>cu_task_id = codes task_id, cu_timestamp = timestamp\<rparr>)"
  using page_token_read [OF assms] by (simp add: decode_page_token_def)

section \<open>Following the pages\<close>

text \<open>A client that continues with the token of each page until it gets none; \<open>n\<close> bounds its requests.\<close>

fun follow_pages :: "iso_reader \<Rightarrow> list_query \<Rightarrow> (sort_key \<times> task) list \<Rightarrow> nat \<Rightarrow> task list list" where
  "follow_pages other query tasks 0 = []"
| "follow_pages other query tasks (Suc n) =
     (case page_of query tasks of
        (page, token) \<Rightarrow> page # (if token = [] then []
          else (case decode_page_token other (Some token) of
            Inr c \<Rightarrow> follow_pages other (query\<lparr>lq_cursor := c\<rparr>) tasks n
          | Inl e \<Rightarrow> [])))"

lemma sorted_after:
  assumes "sorted_wrt (\<lambda>a b. fst b < (fst a :: sort_key)) xs" "i < length xs"
  shows "filter (\<lambda>(k, t). k < fst (xs ! i)) xs = drop (Suc i) xs"
  using assms
proof (induction xs arbitrary: i)
  case (Cons x xs)
  show ?case
  proof (cases i)
    case 0
    then have "filter (\<lambda>(k, t). k < fst x) xs = xs" using Cons.prems(1) by (auto simp: filter_id_conv)
    then show ?thesis using 0 by (cases x) simp
  next
    case (Suc j)
    then have "xs ! j \<in> set xs" using Cons.prems(2) by simp
    then have "\<not> fst x < fst (xs ! j)" using Cons.prems(1) by (auto dest!: bspec)
    then show ?thesis using Cons Suc by (cases x) simp
  qed
qed simp

lemma follow_pages_rest:
  assumes "sorted_wrt (\<lambda>a b. fst b < fst a) xs" "1 \<le> lq_page_size query"
    and "\<forall>(k, t) \<in> set xs. snd k = codes (tk_id t) \<and> py_strip (tk_id t) \<noteq> [] \<and> valid_datetime (fst k)"
    and "apply_cursor (lq_cursor query) xs = drop i xs" "length xs - i < n"
  shows "concat (follow_pages other query xs n) = map snd (drop i xs)"
  using assms
proof (induction n arbitrary: query i)
  case (Suc n)
  let ?size = "nat (lq_page_size query)"
  let ?paged = "drop i xs"
  let ?page = "take ?size ?paged"
  have size: "0 < ?size" using Suc.prems(2) by simp
  show ?case
  proof (cases "length ?page < length ?paged")
    case False
    then have "?page = ?paged" by simp
    then show ?thesis using Suc.prems(4) by (simp add: page_of_def Let_def)
  next
    case True
    then have l: "i + ?size < length xs" by simp
    let ?j = "i + ?size - 1"
    have j: "?j < length xs" using l by simp
    obtain k t where kt: "xs ! ?j = (k, t)" by (cases "xs ! ?j")
    have "last ?page = xs ! ?j" and ne: "?page \<noteq> []"
      using l size by (auto simp: last_conv_nth)
    then have last: "last ?page = (k, t)" using kt by simp
    have "(k, t) \<in> set xs" using j kt nth_mem by metis
    then have k: "snd k = codes (tk_id t)" "py_strip (tk_id t) \<noteq> []" "valid_datetime (fst k)"
      using Suc.prems(3) by auto
    note token = page_token_read [OF k(2,3)]
    let ?c = "\<lparr>cu_task_id = codes (tk_id t), cu_timestamp = fst k\<rparr>"
    have page: "page_of query xs = (map snd ?page, page_token (tk_id t) (fst k))"
    proof -
      have "length ?page < length ?paged \<and> ?page \<noteq> []" using True ne by blast
      then show ?thesis unfolding page_of_def Let_def Suc.prems(4) last by (simp only: if_True prod.case simp_thms)
    qed
    have dec: "decode_page_token other (Some (page_token (tk_id t) (fst k))) = Inr (Some ?c)"
      using token by (simp add: decode_page_token_def)
    have "cursor_sort_key ?c = fst (xs ! ?j)" using kt k(1) by (simp add: cursor_sort_key_def prod_eq_iff)
    then have "apply_cursor (Some ?c) xs = drop (Suc ?j) xs"
      using sorted_after [OF Suc.prems(1) j] by (simp add: apply_cursor_def)
    moreover have "Suc ?j = i + ?size" using size by simp
    ultimately have cur: "apply_cursor (lq_cursor (query\<lparr>lq_cursor := Some ?c\<rparr>)) xs = drop (i + ?size) xs" by simp
    have "concat (follow_pages other (query\<lparr>lq_cursor := Some ?c\<rparr>) xs n) = map snd (drop (i + ?size) xs)"
      by (rule Suc.IH [OF Suc.prems(1) _ Suc.prems(3) cur]) (use Suc.prems(2,5) size l in simp_all)
    then have "concat (follow_pages other query xs (Suc n)) = map snd ?page @ map snd (drop (i + ?size) xs)"
      using token(1) by (simp add: page dec)
    also have "\<dots> = map snd (drop i xs)"
    proof -
      have "drop (i + ?size) xs = drop ?size ?paged" by (simp add: add.commute)
      then show ?thesis by (simp only: map_append [symmetric] append_take_drop_id)
    qed
    finally show ?thesis .
  qed
qed simp

lemma sorted_wrt_rev_sort:
  fixes f :: "'a \<Rightarrow> 'b::linorder"
  assumes "distinct (map f xs)"
  shows "sorted_wrt (\<lambda>a b. f b < f a) (rev (sort_key f (rev xs)))"
proof -
  have "mset (map f (sort_key f (rev xs))) = mset (map f xs)" by (simp only: mset_map mset_sort mset_rev)
  then have "distinct (map f (sort_key f (rev xs)))" using assms mset_eq_imp_distinct_iff by metis
  then have "sorted_wrt (\<lambda>a b. f a < f b) (sort_key f (rev xs))"
    using sorted_sort_key [of f "rev xs"] by (simp add: strict_sorted_iff flip: sorted_wrt_map)
  then show ?thesis by (simp add: sorted_wrt_rev)
qed

text \<open>What the filters keep, with the key of each task.\<close>

lemma filter_tasks_facts:
  assumes "filter_tasks other V query tasks = Some kept" "distinct (map tk_id tasks)"
  shows "sorted_wrt (\<lambda>a b. fst b < fst a) kept" "distinct (map (tk_id \<circ> snd) kept)"
    "set kept = {(k, t). t \<in> set (matching query tasks) \<and> task_sort_key other V t = Some k \<and>
       (case lq_after query of None \<Rightarrow> True | Some after \<Rightarrow> after \<le> fst k)}"
proof -
  let ?keyed = "map (\<lambda>t. (task_sort_key other V t, t)) (matching query tasks)"
  let ?ks = "filter (\<lambda>(k, t). case lq_after query of None \<Rightarrow> True | Some after \<Rightarrow> after \<le> fst k)
    (map (\<lambda>(k, t). (the k, t)) ?keyed)"
  have some: "\<forall>t \<in> set (matching query tasks). task_sort_key other V t \<noteq> None" and kept: "kept = rev (sort_key fst (rev ?ks))"
    using assms(1) by (auto simp: filter_tasks_def Let_def list_ex_iff split: if_splits)
  have key: "snd (the (task_sort_key other V t)) = codes (tk_id t)" if "t \<in> set (matching query tasks)" for t
    using some that by (auto simp: task_sort_key_def)
  have ids: "distinct (map tk_id (matching query tasks))"
    unfolding matching_def by (rule distinct_map_filter [OF assms(2)])
  have "map (snd \<circ> fst) (map (\<lambda>(k, t). (the k, t)) ?keyed) = map (codes \<circ> tk_id) (matching query tasks)"
    using key by simp
  moreover have "distinct (map (codes \<circ> tk_id) (matching query tasks))"
    using ids by (simp add: distinct_map inj_on_def)
  ultimately have "distinct (map (snd \<circ> fst) (map (\<lambda>(k, t). (the k, t)) ?keyed))" by (simp only:)
  then have "distinct (map (snd \<circ> fst) ?ks)" by (rule distinct_map_filter)
  then have "distinct (map snd (map fst ?ks))" by (simp only: list.map_comp)
  then have d: "distinct (map fst ?ks)" by (simp only: distinct_map)
  show "sorted_wrt (\<lambda>a b. fst b < fst a) kept" unfolding kept by (rule sorted_wrt_rev_sort [OF d])
  have "distinct (map (tk_id \<circ> snd) (map (\<lambda>(k, t). (the k, t)) ?keyed))" using ids by (simp add: comp_def)
  then have "distinct (map (tk_id \<circ> snd) ?ks)" by (rule distinct_map_filter)
  moreover have "mset (map (tk_id \<circ> snd) kept) = mset (map (tk_id \<circ> snd) ?ks)"
    unfolding kept by (simp only: mset_map mset_rev mset_sort)
  ultimately show "distinct (map (tk_id \<circ> snd) kept)" by (blast dest: mset_eq_imp_distinct_iff)
  have "set kept = set ?ks" unfolding kept by simp
  also have "\<dots> = {(k, t). t \<in> set (matching query tasks) \<and> task_sort_key other V t = Some k \<and>
       (case lq_after query of None \<Rightarrow> True | Some after \<Rightarrow> after \<le> fst k)}"
    using some by force
  finally show "set kept = {(k, t). t \<in> set (matching query tasks) \<and> task_sort_key other V t = Some k \<and>
       (case lq_after query of None \<Rightarrow> True | Some after \<Rightarrow> after \<le> fst k)}" .
qed

text \<open>
  C29: a client that follows the page tokens gets every task that matches its query exactly once, the newest
  first, when the tasks do not change meanwhile.
\<close>

theorem pages_cover_listing:
  assumes "filter_tasks other V query tasks = Some kept" "distinct (map tk_id tasks)"
    and "\<forall>t \<in> set tasks. py_strip (tk_id t) \<noteq> []" "\<forall>(k, t) \<in> set kept. valid_datetime (fst k)"
    and "1 \<le> lq_page_size query" "lq_cursor query = None" "length kept < n"
  shows "concat (follow_pages other query kept n) = map snd kept \<and>
    distinct (map tk_id (concat (follow_pages other query kept n))) \<and>
    set (concat (follow_pages other query kept n)) =
      {t \<in> set (matching query tasks). case lq_after query of None \<Rightarrow> True
         | Some after \<Rightarrow> (\<exists>ts. task_status_timestamp other V t = Some ts \<and> after \<le> ts)}"
proof -
  note f = filter_tasks_facts [OF assms(1,2)]
  have keys: "snd k = codes (tk_id t) \<and> py_strip (tk_id t) \<noteq> [] \<and> valid_datetime (fst k)" if "(k, t) \<in> set kept" for k t
  proof -
    have "t \<in> set tasks" "snd k = codes (tk_id t)"
      using that unfolding f(3) by (auto simp: task_sort_key_def matching_def)
    then show ?thesis using assms(3,4) that by auto
  qed
  have all: "concat (follow_pages other query kept n) = map snd kept"
  proof -
    have "\<forall>(k, t) \<in> set kept. snd k = codes (tk_id t) \<and> py_strip (tk_id t) \<noteq> [] \<and> valid_datetime (fst k)"
      using keys by blast
    from follow_pages_rest [OF f(1) assms(5) this, of 0 n other] show ?thesis
      using assms(6,7) by (simp add: apply_cursor_def)
  qed
  have some: "task_status_timestamp other V t \<noteq> None" if "t \<in> set (matching query tasks)" for t
    using assms(1) that by (auto simp: filter_tasks_def Let_def list_ex_iff task_sort_key_def split: if_splits)
  have "set (map snd kept) = {t \<in> set (matching query tasks). case lq_after query of None \<Rightarrow> True
         | Some after \<Rightarrow> (\<exists>ts. task_status_timestamp other V t = Some ts \<and> after \<le> ts)}"
    unfolding set_map f(3) using some by (cases "lq_after query") (force simp: task_sort_key_def image_iff)+
  then show ?thesis using all f(2) by simp
qed

section \<open>Replies\<close>

lemma parsed_query:
  assumes "parse_list_tasks_query other params = Inr query"
  shows "1 \<le> lq_page_size query" "lq_page_size query \<le> 100" "0 \<le> lq_history_length query"
  using assms
  by (auto simp: parse_list_tasks_query_def page_size_of_def history_length_of_def ebind_Inr_iff
      split: option.splits if_splits)

text \<open>
  A listing that succeeds returns at most 100 tasks, says how many, and never more than there are; it says
  that there are no more pages when it returns all of them.
\<close>

theorem task_listings_are_bounded:
  assumes "list_tasks_route value_text fl other V R st version params s = (Reply 200 body, s')"
  shows "\<exists>items total. pget body ''tasks'' = PList items \<and> length items \<le> 100 \<and>
    pget body ''pageSize'' = PInt (int (length items)) \<and> pget body ''totalSize'' = PInt total \<and> int (length items) \<le> total \<and>
    (int (length items) = total \<longrightarrow> pget body ''nextPageToken'' = PStr [])"
proof -
  obtain query where q: "parse_list_tasks_query other params = Inr query"
    using assms by (cases "parse_list_tasks_query other params")
      (auto simp: list_tasks_route_def invalid_argument_response_def error_reply_def split: query_error.splits sum.splits)
  obtain tasks where t: "list_stored_tasks R st s = (Inr tasks, s')"
    using assms q by (cases "list_stored_tasks R st s")
      (auto simp: list_tasks_route_def store_error_response_def error_reply_def split: sum.splits store_error.splits option.splits prod.splits)
  obtain kept where k: "filter_tasks other V query tasks = Some kept"
    using assms q t by (cases "filter_tasks other V query tasks") (auto simp: list_tasks_route_def)
  obtain page token where p: "page_of query kept = (page, token)" by (cases "page_of query kept")
  have body: "body = [(''tasks'', PList (map (\<lambda>t. PDict (serialize_task fl V query t)) page)),
       (''nextPageToken'', PStr token), (''pageSize'', PInt (int (length page))), (''totalSize'', PInt (int (length kept)))]"
    using assms q t k p by (simp add: list_tasks_route_def)
  let ?paged = "apply_cursor (lq_cursor query) kept"
  have page: "length page = min (length ?paged) (nat (lq_page_size query))"
    "token = [] \<or> length page < length ?paged"
    using p by (auto simp: page_of_def Let_def split: if_splits)
  have le: "length ?paged \<le> length kept" by (simp add: apply_cursor_def split: option.splits)
  have "length page \<le> 100" using page(1) parsed_query [OF q] by simp
  moreover have "token = []" if "length page = length kept" using page(2) le that by simp
  moreover have "length page \<le> length kept" using page(1) le by simp
  ultimately show ?thesis unfolding body by simp
qed

text \<open>
  The conversion of a timestamp to UTC can leave the calendar; nothing catches the \<open>OverflowError\<close>, so a
  client can make the listing fail in the server.
\<close>

theorem overflowing_timestamp_crashes:
  "list_tasks_route value_text fl other V R st version [(''statusTimestampAfter'', ''0001-01-01T00:00:00+01:00'')] s =
     (ReplyCrash, s)"
proof -
  have "parse_bool_field (\<lambda>f _. InvalidQuery f (f @ '' must be a boolean.'')) [''true'', ''1''] [''false'', ''0'']
      ''includeArtifacts'' PNone = Inr None"
    by (simp add: parse_bool_field_def)
  then have "parse_list_tasks_query other [(''statusTimestampAfter'', ''0001-01-01T00:00:00+01:00'')] = Inl QueryCrash"
    by (simp add: parse_list_tasks_query_def page_size_of_def history_length_of_def parse_bool_def
        decode_page_token_def parse_timestamp_def offset_overflows)
  then show ?thesis by (simp add: list_tasks_route_def)
qed

section \<open>Witnesses\<close>

definition sample_view :: task_view where
  "sample_view = \<lparr>tv_timestamp = (\<lambda>t. case tk_rest t of PStr s \<Rightarrow> Some s | _ \<Rightarrow> None),
     tv_payload = (\<lambda>t. \<lparr>at_state = tk_state t, at_status_message = None, at_history = None, at_artifacts = None,
       at_metadata = None, at_rest = PNone\<rparr>),
     tv_dump = (\<lambda>t p. [(''id'', PStr (tk_id t))])\<rparr>"

definition sample_reader :: iso_reader where
  "sample_reader = \<lparr>iso_other = (\<lambda>s. None), iso_wide = (\<lambda>s. None)\<rparr>"

definition sample_tasks :: "task list" where
  "sample_tasks = [\<lparr>tk_id = ''t1'', tk_context_id = ''c'', tk_state = working, tk_rest = PStr ''2024-03-01T00:30:00+00:00''\<rparr>,
     \<lparr>tk_id = ''t2'', tk_context_id = ''c'', tk_state = completed, tk_rest = PNone\<rparr>,
     \<lparr>tk_id = ''t3'', tk_context_id = ''c'', tk_state = working, tk_rest = PStr ''2024-03-02T00:30:00Z''\<rparr>]"

definition sample_query :: list_query where
  "sample_query = \<lparr>lq_cursor = None, lq_context_id = Some ''c'', lq_include_artifacts = False, lq_history_length = 0,
     lq_page_size = 2, lq_status = None, lq_after = None\<rparr>"

theorem page_token_roundtrip_witness:
  "decode_page_token sample_reader (Some (page_token ''t1'' (2024, 3, 1, 0, 30, 0, 0))) =
    Inr (Some \<lparr>cu_task_id = codes ''t1'', cu_timestamp = (2024, 3, 1, 0, 30, 0, 0)\<rparr>)"
proof -
  have "py_strip ''t1'' \<noteq> []" "valid_datetime (2024, 3, 1, 0, 30, 0, 0)" by code_simp+
  then show ?thesis by (rule page_token_roundtrip)
qed

theorem pages_cover_listing_witness:
  "\<exists>kept. filter_tasks sample_reader sample_view sample_query sample_tasks = Some kept \<and>
     map tk_id (concat (follow_pages sample_reader sample_query kept 4)) = [''t3'', ''t1'', ''t2'']"
proof -
  have k: "map_option (map (\<lambda>(k, t). (fst k, tk_id t))) (filter_tasks sample_reader sample_view sample_query sample_tasks) =
      Some [((2024, 3, 2, 0, 30, 0, 0), ''t3''), ((2024, 3, 1, 0, 30, 0, 0), ''t1''), (datetime_min, ''t2'')]"
    by code_simp
  then obtain kept where kept: "filter_tasks sample_reader sample_view sample_query sample_tasks = Some kept"
    "map (\<lambda>(k, t). (fst k, tk_id t)) kept =
      [((2024, 3, 2, 0, 30, 0, 0), ''t3''), ((2024, 3, 1, 0, 30, 0, 0), ''t1''), (datetime_min, ''t2'')]" by auto
  have v: "valid_datetime (2024, 3, 2, 0, 30, 0, 0)" "valid_datetime (2024, 3, 1, 0, 30, 0, 0)" "valid_datetime datetime_min"
    by code_simp+
  have "valid_datetime (fst k)" if "(k, t) \<in> set kept" for k t
  proof -
    have "(fst k, tk_id t) \<in> set (map (\<lambda>(k, t). (fst k, tk_id t)) kept)" using that by force
    then show ?thesis unfolding kept(2) using v by auto
  qed
  moreover have "distinct (map tk_id sample_tasks)" "\<forall>t \<in> set sample_tasks. py_strip (tk_id t) \<noteq> []"
    "1 \<le> lq_page_size sample_query" "lq_cursor sample_query = None" by code_simp+
  moreover have len: "length kept < 4" using arg_cong [OF kept(2), of length] by simp
  ultimately have "concat (follow_pages sample_reader sample_query kept 4) = map snd kept"
    using pages_cover_listing [OF kept(1)] by blast
  moreover have "map tk_id (map snd kept) = map snd (map (\<lambda>(k, t). (fst k, tk_id t)) kept)" by auto
  ultimately show ?thesis using kept by simp
qed

definition sample_raw :: "task list raw_store" where
  "sample_raw = \<lparr>raw_get = (\<lambda>i s. (Inr (find (\<lambda>t. tk_id t = i) s), s)), raw_save = (\<lambda>t s. (Inr (), t # s)),
     raw_delete = (\<lambda>i s. (Inr (), s)), raw_execute = (\<lambda>q s. (Inr None, s)), raw_list = (\<lambda>s. (Inr s, s))\<rparr>"

theorem task_listings_are_bounded_witness:
  "\<exists>body items. list_tasks_route (\<lambda>_. []) \<lparr>pf_repr = (\<lambda>_. []), pf_parse = (\<lambda>_. None)\<rparr> sample_reader sample_view sample_raw
       (guarded_task_store InMemory) ''0.3'' [(''pageSize'', ''1'')] sample_tasks = (Reply 200 body, sample_tasks) \<and>
     pget body ''tasks'' = PList items \<and> length items \<le> 100"
proof -
  let ?r = "list_tasks_route (\<lambda>_. []) \<lparr>pf_repr = (\<lambda>_. []), pf_parse = (\<lambda>_. None)\<rparr> sample_reader sample_view sample_raw
       (guarded_task_store InMemory) ''0.3'' [(''pageSize'', ''1'')] sample_tasks"
  have "(case ?r of (Reply n b, s) \<Rightarrow> n = 200 \<and> s = sample_tasks | _ \<Rightarrow> False)" by code_simp
  then obtain body where b: "?r = (Reply 200 body, sample_tasks)" by (auto split: prod.splits http_reply.splits)
  from task_listings_are_bounded [OF b] b show ?thesis by blast
qed

end
