(* ===== verification/Client_Settings.thy ===== *)
theory Client_Settings
  imports Protocol_Versions Auth Task_Store
begin

text \<open>
  The settings of the outgoing A2A client (\<open>client/config.py\<close>) and its polling policy
  (\<open>client/polling.py\<close>).  A float read from text may be an infinity or NaN, so floats are \<open>flt\<close> here,
  compared as IEEE 754 says; the finite ones are rationals, without rounding.
\<close>

section \<open>Floats\<close>

datatype flt = Fin rat | PosInf | NegInf | NaN

fun flt_less :: "flt \<Rightarrow> flt \<Rightarrow> bool" where
  "flt_less (Fin a) (Fin b) = (a < b)"
| "flt_less (Fin a) PosInf = True"
| "flt_less NegInf (Fin b) = True"
| "flt_less NegInf PosInf = True"
| "flt_less _ _ = False"

fun flt_le :: "flt \<Rightarrow> flt \<Rightarrow> bool" where
  "flt_le NaN y = False"
| "flt_le x NaN = False"
| "flt_le x y = (x = y \<or> flt_less x y)"

fun flt_add :: "flt \<Rightarrow> flt \<Rightarrow> flt" where
  "flt_add (Fin a) (Fin b) = Fin (a + b)"
| "flt_add (Fin a) y = y"
| "flt_add PosInf (Fin b) = PosInf"
| "flt_add PosInf PosInf = PosInf"
| "flt_add NegInf (Fin b) = NegInf"
| "flt_add NegInf NegInf = NegInf"
| "flt_add _ _ = NaN"

fun flt_neg :: "flt \<Rightarrow> flt" where
  "flt_neg (Fin a) = Fin (- a)"
| "flt_neg PosInf = NegInf"
| "flt_neg NegInf = PosInf"
| "flt_neg NaN = NaN"

definition flt_sub :: "flt \<Rightarrow> flt \<Rightarrow> flt" where
  "flt_sub x y = flt_add x (flt_neg y)"

definition flt_sign :: "flt \<Rightarrow> rat" where
  "flt_sign x = (case x of Fin a \<Rightarrow> sgn a | PosInf \<Rightarrow> 1 | NegInf \<Rightarrow> - 1 | NaN \<Rightarrow> 0)"

definition flt_mult :: "flt \<Rightarrow> flt \<Rightarrow> flt" where
  "flt_mult x y =
     (case (x, y) of
        (Fin a, Fin b) \<Rightarrow> Fin (a * b)
      | _ \<Rightarrow> (if x = NaN \<or> y = NaN \<or> flt_sign x * flt_sign y = 0 then NaN
             else if 0 < flt_sign x * flt_sign y then PosInf else NegInf))"

text \<open>\<open>min(x, y)\<close> and \<open>max(x, y)\<close> keep the first argument unless the second is strictly better.\<close>

definition py_min :: "flt \<Rightarrow> flt \<Rightarrow> flt" where
  "py_min x y = (if flt_less y x then y else x)"

definition py_max :: "flt \<Rightarrow> flt \<Rightarrow> flt" where
  "py_max x y = (if flt_less x y then y else x)"

section \<open>The polling policy\<close>

record polling_policy =
  pp_enabled :: bool
  pp_initial_interval :: flt
  pp_max_interval :: flt
  pp_backoff_multiplier :: flt
  pp_timeout :: flt

definition auto_polling_task_states :: "task_state list" where
  "auto_polling_task_states = [submitted, working, unknown]"

definition should_poll_state :: "task_state \<Rightarrow> bool" where
  "should_poll_state st \<longleftrightarrow> st \<in> set auto_polling_task_states"

definition is_terminal_state :: "task_state \<Rightarrow> bool" where
  "is_terminal_state st \<longleftrightarrow> st \<in> set terminal_task_states"

definition next_interval :: "polling_policy \<Rightarrow> flt \<Rightarrow> flt" where
  "next_interval p current = py_min (flt_mult (py_max current (Fin 0)) (pp_backoff_multiplier p)) (pp_max_interval p)"

text \<open>A \<open>ValueError\<close> with its text, or the \<open>OverflowError\<close> of converting a large integer.\<close>

datatype setting_error = BadSetting string | SettingOverflow

definition validate_polling_fallback_policy :: "polling_policy \<Rightarrow> setting_error + unit" where
  "validate_polling_fallback_policy p =
     (if flt_le (pp_initial_interval p) (Fin 0)
      then Inl (BadSetting ''A2A_CLIENT_POLLING_FALLBACK_INITIAL_INTERVAL_SECONDS must be positive'')
      else if flt_le (pp_max_interval p) (Fin 0)
      then Inl (BadSetting ''A2A_CLIENT_POLLING_FALLBACK_MAX_INTERVAL_SECONDS must be positive'')
      else if flt_less (pp_backoff_multiplier p) (Fin 1)
      then Inl (BadSetting ''A2A_CLIENT_POLLING_FALLBACK_BACKOFF_MULTIPLIER must be greater than or equal to 1'')
      else if flt_le (pp_timeout p) (Fin 0)
      then Inl (BadSetting ''A2A_CLIENT_POLLING_FALLBACK_TIMEOUT_SECONDS must be positive'')
      else if flt_less (pp_max_interval p) (pp_initial_interval p)
      then Inl (BadSetting (''A2A_CLIENT_POLLING_FALLBACK_MAX_INTERVAL_SECONDS must be greater than or ''
             @ ''equal to A2A_CLIENT_POLLING_FALLBACK_INITIAL_INTERVAL_SECONDS''))
      else Inr ())"

section \<open>Reading settings\<close>

text \<open>
  The settings come from nothing, a mapping, or an object with attributes.  \<open>repr\<close> and \<open>str\<close> of values,
  and \<open>float\<close> of a text that names no infinity and no NaN, are parameters.
\<close>

datatype settings_source = NoSource | MappingSource "(string \<times> pyval) list" | ObjectSource "(string \<times> pyval) list"

record py_texts =
  pt_repr :: "pyval \<Rightarrow> string"
  pt_str :: "pyval \<Rightarrow> string"
  pt_float :: "string \<Rightarrow> flt option"

fun first_present :: "(string \<times> pyval) list \<Rightarrow> string list \<Rightarrow> pyval \<Rightarrow> pyval" where
  "first_present d [] dflt = dflt"
| "first_present d (k # ks) dflt = (case dict_get d k of Some v \<Rightarrow> v | None \<Rightarrow> first_present d ks dflt)"

definition read_setting :: "settings_source \<Rightarrow> string list \<Rightarrow> pyval \<Rightarrow> pyval" where
  "read_setting src keys dflt =
     (case src of
        NoSource \<Rightarrow> dflt
      | MappingSource d \<Rightarrow> first_present d keys dflt
      | ObjectSource attributes \<Rightarrow> first_present attributes keys dflt)"

text \<open>\<open>str(value)\<close> of a value that may be a string already.\<close>

definition str_of :: "py_texts \<Rightarrow> pyval \<Rightarrow> string" where
  "str_of T v = (case v of PStr s \<Rightarrow> s | _ \<Rightarrow> pt_str T v)"

definition float_of_text :: "py_texts \<Rightarrow> string \<Rightarrow> flt option" where
  "float_of_text T text =
     (let t = py_lower text;
          (neg, body) = (case t of
             c # cs \<Rightarrow> if c = CHR ''-'' then (True, cs) else if c = CHR ''+'' then (False, cs) else (False, t)
           | [] \<Rightarrow> (False, t))
      in if body = ''inf'' \<or> body = ''infinity'' then Some (if neg then NegInf else PosInf)
         else if body = ''nan'' then Some NaN else pt_float T text)"

definition coerce_float :: "py_texts \<Rightarrow> string \<Rightarrow> pyval \<Rightarrow> flt \<Rightarrow> setting_error + flt" where
  "coerce_float T name value dflt =
     (let refused = Inl (BadSetting (name @ '' must be a number, got '' @ pt_repr T value))
      in case value of
           PNone \<Rightarrow> Inr dflt
         | PBool b \<Rightarrow> Inr (Fin (if b then 1 else 0))
         | PInt n \<Rightarrow> if 2 ^ 1024 - 2 ^ 970 \<le> \<bar>n\<bar> then Inl SettingOverflow else Inr (Fin (of_int n))
         | PFloat r \<Rightarrow> Inr (Fin r)
         | PStr s \<Rightarrow>
             (let normalized = py_strip s
              in if normalized = [] then Inr dflt
                 else case float_of_text T normalized of Some x \<Rightarrow> Inr x | None \<Rightarrow> refused)
         | _ \<Rightarrow> refused)"

definition coerce_bool :: "py_texts \<Rightarrow> string \<Rightarrow> pyval \<Rightarrow> bool \<Rightarrow> setting_error + bool" where
  "coerce_bool T name value dflt =
     (let refused = Inl (BadSetting (name @ '' must be a boolean-like value, got '' @ pt_repr T value))
      in case value of
           PNone \<Rightarrow> Inr dflt
         | PBool b \<Rightarrow> Inr b
         | PStr s \<Rightarrow>
             (let lowered = py_lower (py_strip s)
              in if lowered \<in> {''1'', ''true'', ''yes'', ''on''} then Inr True
                 else if lowered \<in> {''0'', ''false'', ''no'', ''off''} then Inr False
                 else if lowered \<in> {''t'', ''f''} then Inr (lowered = ''t'')
                 else refused)
         | _ \<Rightarrow> refused)"

definition coerce_optional_str :: "py_texts \<Rightarrow> string \<Rightarrow> pyval \<Rightarrow> setting_error + string option" where
  "coerce_optional_str T name value =
     (case value of
        PNone \<Rightarrow> Inr None
      | PStr s \<Rightarrow> Inr (nonempty (py_strip s))
      | _ \<Rightarrow> Inl (BadSetting (name @ '' must be a string, got '' @ pt_repr T value)))"

fun value_error :: "string + 'a \<Rightarrow> setting_error + 'a" where
  "value_error (Inl m) = Inl (BadSetting m)"
| "value_error (Inr x) = Inr x"

definition coerce_optional_protocol_version :: "py_texts \<Rightarrow> string \<Rightarrow> pyval \<Rightarrow> setting_error + string option" where
  "coerce_optional_protocol_version T name value =
     ebind (coerce_optional_str T name value) (\<lambda>normalized.
       case normalized of
         None \<Rightarrow> Inr None
       | Some v \<Rightarrow> ebind (value_error (normalize_protocol_version v)) (\<lambda>w. Inr (Some w)))"

definition normalize_transport :: "string \<Rightarrow> string" where
  "normalize_transport value =
     (let normalized = py_lower (py_strip value)
      in if normalized \<in> {''jsonrpc'', ''json-rpc'', ''json_rpc''} then ''JSONRPC''
         else if normalized \<in> {''http+json'', ''http_json'', ''http-json'', ''httpjson'', ''http+json+''} then ''HTTP+JSON''
         else if normalized = ''grpc'' then ''GRPC''
         else if normalized = [] then ''JSONRPC''
         else py_strip value)"

definition parse_transports :: "py_texts \<Rightarrow> pyval \<Rightarrow> string list \<Rightarrow> setting_error + string list" where
  "parse_transports T raw dflt =
     (let normal = (\<lambda>items. let ts = map normalize_transport (filter (\<lambda>item. py_strip item \<noteq> []) items)
                        in Inr (if ts = [] then dflt else ts))
      in case raw of
           PNone \<Rightarrow> Inr dflt
         | PStr s \<Rightarrow> normal (filter (\<lambda>part. py_strip part \<noteq> []) (split_at (CHR '','') s))
         | PList xs \<Rightarrow> normal (map (str_of T) xs)
         | _ \<Rightarrow> Inl (BadSetting ''supported_transports must be a comma-separated string or list''))"

record client_settings =
  cs_default_timeout :: flt
  cs_use_client_preference :: bool
  cs_card_fetch_timeout :: flt
  cs_bearer_token :: "string option"
  cs_basic_auth :: "string option"
  cs_protocol_version :: "string option"
  cs_supported_transports :: "string list"
  cs_polling :: polling_policy

definition both_cases :: "string \<Rightarrow> string list" where
  "both_cases name = [name, py_lower name]"

definition float_setting :: "py_texts \<Rightarrow> settings_source \<Rightarrow> string \<Rightarrow> rat \<Rightarrow> setting_error + flt" where
  "float_setting T src name dflt = coerce_float T name (read_setting src (both_cases name) (PFloat dflt)) (Fin dflt)"

definition bool_setting :: "py_texts \<Rightarrow> settings_source \<Rightarrow> string \<Rightarrow> setting_error + bool" where
  "bool_setting T src name = coerce_bool T name (read_setting src (both_cases name) (PBool False)) False"

definition text_setting :: "py_texts \<Rightarrow> settings_source \<Rightarrow> string \<Rightarrow> setting_error + string option" where
  "text_setting T src name = coerce_optional_str T name (read_setting src (both_cases name) PNone)"

definition polling_setting :: "py_texts \<Rightarrow> settings_source \<Rightarrow> setting_error + polling_policy" where
  "polling_setting T src =
     ebind (bool_setting T src ''A2A_CLIENT_POLLING_FALLBACK_ENABLED'') (\<lambda>enabled.
     ebind (float_setting T src ''A2A_CLIENT_POLLING_FALLBACK_INITIAL_INTERVAL_SECONDS'' (1 / 2)) (\<lambda>initial.
     ebind (float_setting T src ''A2A_CLIENT_POLLING_FALLBACK_MAX_INTERVAL_SECONDS'' 2) (\<lambda>max_interval.
     ebind (float_setting T src ''A2A_CLIENT_POLLING_FALLBACK_BACKOFF_MULTIPLIER'' 2) (\<lambda>multiplier.
     ebind (float_setting T src ''A2A_CLIENT_POLLING_FALLBACK_TIMEOUT_SECONDS'' 10) (\<lambda>timeout.
     Inr \<lparr>pp_enabled = enabled, pp_initial_interval = initial, pp_max_interval = max_interval,
       pp_backoff_multiplier = multiplier, pp_timeout = timeout\<rparr>)))))"

definition load_settings :: "py_texts \<Rightarrow> settings_source \<Rightarrow> setting_error + client_settings" where
  "load_settings T src =
     ebind (float_setting T src ''A2A_CLIENT_TIMEOUT_SECONDS'' 30) (\<lambda>default_timeout.
     ebind (float_setting T src ''A2A_CLIENT_CARD_FETCH_TIMEOUT_SECONDS'' 5) (\<lambda>card_fetch_timeout.
     ebind (bool_setting T src ''A2A_CLIENT_USE_CLIENT_PREFERENCE'') (\<lambda>use_client_preference.
     ebind (text_setting T src ''A2A_CLIENT_BEARER_TOKEN'') (\<lambda>bearer_token.
     ebind (text_setting T src ''A2A_CLIENT_BASIC_AUTH'') (\<lambda>basic_auth.
     ebind (case basic_auth of None \<Rightarrow> Inr () | Some b \<Rightarrow> value_error (validate_basic_auth b)) (\<lambda>_.
     ebind (coerce_optional_protocol_version T ''A2A_CLIENT_PROTOCOL_VERSION''
              (read_setting src (both_cases ''A2A_CLIENT_PROTOCOL_VERSION'' @ both_cases ''A2A_PROTOCOL_VERSION'') PNone))
       (\<lambda>protocol_version.
     ebind (parse_transports T
              (read_setting src (both_cases ''A2A_CLIENT_SUPPORTED_TRANSPORTS'') (PList [PStr ''JSONRPC'', PStr ''HTTP+JSON'']))
              [''JSONRPC'', ''HTTP+JSON'']) (\<lambda>supported_transports.
     ebind (polling_setting T src) (\<lambda>polling.
     ebind (validate_polling_fallback_policy polling) (\<lambda>_.
     Inr \<lparr>cs_default_timeout = default_timeout, cs_use_client_preference = use_client_preference,
       cs_card_fetch_timeout = card_fetch_timeout, cs_bearer_token = bearer_token, cs_basic_auth = basic_auth,
       cs_protocol_version = protocol_version, cs_supported_transports = supported_transports, cs_polling = polling\<rparr>))))))))))"

end
