(* ===== verification/Trace_Context.thy ===== *)
theory Trace_Context
  imports Prelude
begin

text \<open>
  The W3C trace context of a request (\<open>trace_context.py\<close>): the parsing of its headers, the context variable
  it is bound to while the request is handled (\<open>bind_trace_context\<close> of \<open>server/middleware.py\<close>), and the
  headers of the calls made meanwhile.  The random tokens of a new trace are arguments.
\<close>

section \<open>Headers\<close>

record trace_context =
  tc_traceparent :: string
  tc_trace_id :: string
  tc_tracestate :: "string option"

definition normalize_header_value :: "string option \<Rightarrow> string option" where
  "normalize_header_value value = (case value of None \<Rightarrow> None | Some v \<Rightarrow> nonempty (py_strip v))"

text \<open>The regular expression, applied to the lowered value with \<open>fullmatch\<close>.\<close>

definition lower_hex :: "char \<Rightarrow> bool" where
  "lower_hex c = (let n = (of_char c :: nat) in (48 \<le> n \<and> n \<le> 57) \<or> (97 \<le> n \<and> n \<le> 102))"

definition hex_run :: "nat \<Rightarrow> string \<Rightarrow> bool" where
  "hex_run n s \<longleftrightarrow> length s = n \<and> list_all lower_hex s"

definition match_traceparent :: "string \<Rightarrow> (string \<times> string \<times> string \<times> string) option" where
  "match_traceparent s =
     (let version = take 2 s; trace_id = take 32 (drop 3 s); parent_id = take 16 (drop 36 s); flags = drop 53 s
      in if hex_run 2 version \<and> hex_run 32 trace_id \<and> hex_run 16 parent_id \<and> hex_run 2 flags \<and>
            s = version @ ''-'' @ trace_id @ ''-'' @ parent_id @ ''-'' @ flags
         then Some (version, trace_id, parent_id, flags) else None)"

definition parse_traceparent :: "string option \<Rightarrow> (string \<times> string) option" where
  "parse_traceparent value =
     (case normalize_header_value value of
        None \<Rightarrow> None
      | Some normalized \<Rightarrow>
          (let lowered = py_lower normalized
           in case match_traceparent lowered of
                None \<Rightarrow> None
              | Some (version, trace_id, parent_id, flags) \<Rightarrow>
                  if version = ''ff'' \<or> trace_id = replicate 32 (CHR ''0'') \<or> parent_id = replicate 16 (CHR ''0'')
                  then None else Some (lowered, trace_id)))"

text \<open>\<open>secrets.token_hex\<close> gives the two random tokens.\<close>

definition generate_traceparent :: "string \<times> string \<Rightarrow> string \<times> string" where
  "generate_traceparent random = (case random of (trace_id, parent_id) \<Rightarrow>
     (''00-'' @ trace_id @ ''-'' @ parent_id @ ''-01'', trace_id))"

definition resolve_trace_context :: "string \<times> string \<Rightarrow> string option \<Rightarrow> string option \<Rightarrow> trace_context" where
  "resolve_trace_context random traceparent_header tracestate_header =
     (case parse_traceparent traceparent_header of
        None \<Rightarrow> (let (traceparent, trace_id) = generate_traceparent random
                 in \<lparr>tc_traceparent = traceparent, tc_trace_id = trace_id, tc_tracestate = None\<rparr>)
      | Some (traceparent, trace_id) \<Rightarrow>
          \<lparr>tc_traceparent = traceparent, tc_trace_id = trace_id,
           tc_tracestate = normalize_header_value tracestate_header\<rparr>)"

section \<open>The context variable\<close>

definition current_trace_headers :: "trace_context option \<Rightarrow> (string, string) dict" where
  "current_trace_headers current =
     (case current of
        None \<Rightarrow> []
      | Some tc \<Rightarrow> (''traceparent'', tc_traceparent tc)
          # (case tc_tracestate tc of None \<Rightarrow> [] | Some [] \<Rightarrow> [] | Some s \<Rightarrow> [(''tracestate'', s)]))"

text \<open>\<open>OpencodeUpstreamClient._request_headers\<close>: what the caller passes replaces the trace headers.\<close>

definition request_headers :: "trace_context option \<Rightarrow> (string, string) dict \<Rightarrow> (string, string) dict option" where
  "request_headers current headers =
     (let merged = fold (\<lambda>(k, v) d. dict_set k v d) headers (current_trace_headers current)
      in if merged = [] then None else Some merged)"

text \<open>
  Binding a context runs the body with it and restores the previous one, also when the body raises.  A
  body gets the current context and gives its result and the context it leaves.
\<close>

definition bind_context ::
  "trace_context option \<Rightarrow> (trace_context option \<Rightarrow> ('e + 'a) \<times> trace_context option) \<Rightarrow> trace_context option
     \<Rightarrow> ('e + 'a) \<times> trace_context option" where
  "bind_context tc body current = (fst (body tc), current)"

record trace_state =
  ts_traceparent :: string
  ts_trace_id :: string
  ts_tracestate :: "string option"

definition request_trace_state :: "trace_context \<Rightarrow> trace_state" where
  "request_trace_state tc =
     \<lparr>ts_traceparent = tc_traceparent tc, ts_trace_id = tc_trace_id tc,
      ts_tracestate = (case tc_tracestate tc of Some (c # cs) \<Rightarrow> Some (c # cs) | _ \<Rightarrow> None)\<rparr>"

text \<open>The middleware: the rest of the pipeline gets the state of the request; a response is its headers and the rest.\<close>

definition bind_trace_context ::
  "string \<times> string \<Rightarrow> string option \<Rightarrow> string option
     \<Rightarrow> (trace_state \<Rightarrow> trace_context option \<Rightarrow> ('e + (string, string) dict \<times> 'b) \<times> trace_context option)
     \<Rightarrow> trace_context option \<Rightarrow> ('e + (string, string) dict \<times> 'b) \<times> trace_context option" where
  "bind_trace_context random traceparent_header tracestate_header call_next current =
     (let tc = resolve_trace_context random traceparent_header tracestate_header
      in case bind_context (Some tc) (call_next (request_trace_state tc)) current of
           (Inl e, current') \<Rightarrow> (Inl e, current')
         | (Inr (headers, body), current') \<Rightarrow>
             (Inr (dict_set ''traceparent'' (tc_traceparent tc) headers, body), current'))"

definition log_trace_id :: "trace_context option \<Rightarrow> string" where
  "log_trace_id current = (case current of None \<Rightarrow> ''-'' | Some tc \<Rightarrow> tc_trace_id tc)"

section \<open>Facts\<close>

lemma lower_hex_facts:
  assumes "lower_hex c"
  shows "\<not> py_space c" "py_lower_char c = c" "c \<noteq> CHR ''-''"
proof -
  show "\<not> py_space c" using assms by (auto simp: lower_hex_def py_space_def Let_def)
  show "py_lower_char c = c" using assms by (auto simp: lower_hex_def py_lower_char_def Let_def)
  show "c \<noteq> CHR ''-''" using assms by (auto simp: lower_hex_def)
qed

lemma match_traceparentD:
  assumes "match_traceparent s = Some (v, t, p, f)"
  shows "s = v @ ''-'' @ t @ ''-'' @ p @ ''-'' @ f" "hex_run 2 v" "hex_run 32 t" "hex_run 16 p" "hex_run 2 f"
  using assms by (auto simp: match_traceparent_def Let_def split: if_splits)

lemma match_traceparentI:
  assumes "hex_run 2 v" "hex_run 32 t" "hex_run 16 p" "hex_run 2 f"
  shows "match_traceparent (v @ ''-'' @ t @ ''-'' @ p @ ''-'' @ f) = Some (v, t, p, f)"
  using assms by (auto simp: match_traceparent_def hex_run_def)

lemma traceparent_plain:
  assumes "hex_run 2 v" "hex_run 32 t" "hex_run 16 p" "hex_run 2 f"
  shows "py_strip (v @ ''-'' @ t @ ''-'' @ p @ ''-'' @ f) = v @ ''-'' @ t @ ''-'' @ p @ ''-'' @ f"
    "py_lower (v @ ''-'' @ t @ ''-'' @ p @ ''-'' @ f) = v @ ''-'' @ t @ ''-'' @ p @ ''-'' @ f"
proof -
  let ?s = "v @ ''-'' @ t @ ''-'' @ p @ ''-'' @ f"
  have d: "\<not> py_space (CHR ''-'')" "py_lower_char (CHR ''-'') = CHR ''-''" by code_simp+
  have c: "lower_hex c \<or> c = CHR ''-''" if "c \<in> set ?s" for c
    using that assms by (auto simp: hex_run_def list_all_iff)
  then show "py_strip ?s = ?s" using d(1) lower_hex_facts(1) by (intro py_strip_fixed) blast
  show "py_lower ?s = ?s" unfolding py_lower_def using c d(2) lower_hex_facts(2) by (intro map_idI) blast
qed

text \<open>The value that is kept of a valid header is valid itself, and names the same trace.\<close>

lemma parse_traceparent_idem:
  assumes "parse_traceparent value = Some (traceparent, trace_id)"
  shows "parse_traceparent (Some traceparent) = Some (traceparent, trace_id)" "length trace_id = 32"
proof -
  obtain s v p f where s: "match_traceparent s = Some (v, trace_id, p, f)" "traceparent = s"
    "\<not> (v = ''ff'' \<or> trace_id = replicate 32 (CHR ''0'') \<or> p = replicate 16 (CHR ''0''))"
    using assms by (auto simp: parse_traceparent_def Let_def split: option.splits if_splits)
  note m = match_traceparentD [OF s(1)]
  show "length trace_id = 32" using m(3) by (simp add: hex_run_def)
  have "normalize_header_value (Some s) = Some s"
    using traceparent_plain(1) [OF m(2-5)] m(1) by (simp add: normalize_header_value_def)
  then show "parse_traceparent (Some traceparent) = Some (traceparent, trace_id)"
    using s m(1) traceparent_plain(2) [OF m(2-5)] by (simp add: parse_traceparent_def)
qed

lemma generated_is_valid:
  assumes "hex_run 32 t" "hex_run 16 p" "t \<noteq> replicate 32 (CHR ''0'')" "p \<noteq> replicate 16 (CHR ''0'')"
  shows "parse_traceparent (Some (fst (generate_traceparent (t, p)))) = Some (generate_traceparent (t, p))"
proof -
  have h: "hex_run 2 ''00''" "hex_run 2 ''01''" by code_simp+
  have e: "fst (generate_traceparent (t, p)) = ''00'' @ ''-'' @ t @ ''-'' @ p @ ''-'' @ ''01''"
    by (simp add: generate_traceparent_def)
  show ?thesis
    unfolding e using traceparent_plain [OF h(1) assms(1,2) h(2)] match_traceparentI [OF h(1) assms(1,2) h(2)] assms(3,4)
    by (simp add: parse_traceparent_def normalize_header_value_def generate_traceparent_def nonempty_def)
qed

text \<open>
  While a request is handled, the headers of every call it makes and of its own response carry a valid
  \<open>traceparent\<close> of one trace, which is the client's if its header was valid; the context of the surrounding
  task is restored afterwards, also after an exception.
\<close>

theorem trace_is_propagated:
  assumes "hex_run 32 t" "hex_run 16 p" "t \<noteq> replicate 32 (CHR ''0'')" "p \<noteq> replicate 16 (CHR ''0'')"
    and "headers = current_trace_headers (Some (resolve_trace_context (t, p) tp ts))"
  shows "(\<exists>traceparent trace_id. dict_get headers ''traceparent'' = Some traceparent \<and>
      parse_traceparent (Some traceparent) = Some (traceparent, trace_id) \<and>
      trace_id = (case parse_traceparent tp of None \<Rightarrow> t | Some (_, i) \<Rightarrow> i) \<and>
      log_trace_id (Some (resolve_trace_context (t, p) tp ts)) = trace_id \<and>
      (\<forall>call_next current. snd (bind_trace_context (t, p) tp ts call_next current) = current \<and>
        (\<forall>h body. fst (bind_trace_context (t, p) tp ts call_next current) = Inr (h, body) \<longrightarrow>
          dict_get h ''traceparent'' = Some traceparent)))"
proof (cases "parse_traceparent tp")
  case None
  then have r: "resolve_trace_context (t, p) tp ts =
      \<lparr>tc_traceparent = fst (generate_traceparent (t, p)), tc_trace_id = t, tc_tracestate = None\<rparr>"
    by (simp add: resolve_trace_context_def generate_traceparent_def)
  show ?thesis
    using generated_is_valid [OF assms(1-4)] None unfolding assms(5)
    by (auto simp: r current_trace_headers_def log_trace_id_def bind_trace_context_def bind_context_def
        generate_traceparent_def Let_def dict_get_set split: sum.splits prod.splits)
next
  case (Some a)
  then obtain traceparent trace_id where a: "parse_traceparent tp = Some (traceparent, trace_id)" by (cases a) simp
  have r: "resolve_trace_context (t, p) tp ts =
      \<lparr>tc_traceparent = traceparent, tc_trace_id = trace_id, tc_tracestate = normalize_header_value ts\<rparr>"
    by (simp add: resolve_trace_context_def a)
  show ?thesis
    using parse_traceparent_idem(1) [OF a] a unfolding assms(5)
    by (auto simp: r current_trace_headers_def log_trace_id_def bind_trace_context_def bind_context_def
        Let_def dict_get_set split: sum.splits prod.splits)
qed

theorem trace_is_propagated_witness:
  "\<exists>i. parse_traceparent (Some (the (dict_get (current_trace_headers (Some (resolve_trace_context
       (replicate 32 (CHR ''1''), replicate 16 (CHR ''2'')) (Some ''00-xyz'') None))) ''traceparent''))) =
     Some i \<and> snd i = replicate 32 (CHR ''1'')"
proof -
  have h: "hex_run 32 (replicate 32 (CHR ''1''))" "hex_run 16 (replicate 16 (CHR ''2''))"
    "replicate 32 (CHR ''1'') \<noteq> replicate 32 (CHR ''0'')" "replicate 16 (CHR ''2'') \<noteq> replicate 16 (CHR ''0'')"
    by code_simp+
  have "parse_traceparent (Some ''00-xyz'') = None" by code_simp
  with trace_is_propagated [OF h refl, of "Some ''00-xyz''" None] show ?thesis by auto
qed

end
