(* ===== verification/Client_Requests.thy ===== *)
theory Client_Requests
  imports Client_Settings Trace_Context
begin

text \<open>
  The headers and metadata of the outgoing client's requests (\<open>client/request_context.py\<close>) and the
  address of a peer's agent card (\<open>client/agent_card.py\<close>).  A \<open>ValueError\<close> is the text on the left.
\<close>

section \<open>Headers\<close>

definition build_default_headers ::
  "string option \<Rightarrow> string option \<Rightarrow> string option \<Rightarrow> string + (string, string) dict" where
  "build_default_headers bearer_token basic_auth protocol_version =
     ebind (if truthy_str bearer_token then Inr [(''Authorization'', ''Bearer '' @ the bearer_token)]
            else if truthy_str basic_auth
            then ebind (encode_basic_auth (the basic_auth)) (\<lambda>v. Inr [(''Authorization'', ''Basic '' @ v)])
            else Inr []) (\<lambda>headers.
     if truthy_str protocol_version
     then ebind (normalize_protocol_version (the protocol_version)) (\<lambda>v. Inr (headers @ [(''A2A-Version'', v)]))
     else Inr headers)"

text \<open>
  \<open>split_request_metadata\<close> moves four keys of the metadata, written in any case, to the headers; the
  other keys stay.  \<open>None\<close> is an empty result.
\<close>

definition split_entry ::
  "py_texts \<Rightarrow> string \<times> pyval \<Rightarrow> (string \<times> pyval) list \<times> (string, string) dict
     \<Rightarrow> string + (string \<times> pyval) list \<times> (string, string) dict" where
  "split_entry T entry acc =
     (let (key, v) = entry; (request_metadata, extra_headers) = acc; k = py_lower key;
          with_header = (\<lambda>name text. Inr (request_metadata, dict_set name text extra_headers))
      in if k = ''authorization''
         then (if v = PNone then Inr acc else with_header ''Authorization'' (str_of T v))
         else if k = ''a2a-version''
         then (if v = PNone then Inr acc
               else ebind (normalize_protocol_version (str_of T v)) (with_header ''A2A-Version''))
         else if k = ''traceparent''
         then (if v = PNone then Inr acc else with_header ''traceparent'' (str_of T v))
         else if k = ''tracestate''
         then (if v = PNone then Inr acc else with_header ''tracestate'' (str_of T v))
         else Inr (dict_set key v request_metadata, extra_headers))"

fun split_entries ::
  "py_texts \<Rightarrow> (string \<times> pyval) list \<Rightarrow> (string \<times> pyval) list \<times> (string, string) dict
     \<Rightarrow> string + (string \<times> pyval) list \<times> (string, string) dict" where
  "split_entries T [] acc = Inr acc"
| "split_entries T (e # es) acc = ebind (split_entry T e acc) (split_entries T es)"

definition or_none :: "'a list \<Rightarrow> 'a list option" where
  "or_none xs = (if xs = [] then None else Some xs)"

definition split_request_metadata ::
  "py_texts \<Rightarrow> (string \<times> pyval) list option \<Rightarrow> string + (string \<times> pyval) list option \<times> (string, string) dict option" where
  "split_request_metadata T metadata =
     ebind (split_entries T (case metadata of None \<Rightarrow> [] | Some d \<Rightarrow> d) ([], [])) (\<lambda>(request_metadata, extra_headers).
     Inr (or_none request_metadata, or_none extra_headers))"

text \<open>\<open>headers.update(other)\<close>.\<close>

definition dict_update :: "('k, 'v) dict \<Rightarrow> ('k, 'v) dict \<Rightarrow> ('k, 'v) dict" where
  "dict_update other d = fold (\<lambda>(k, v). dict_set k v) other d"

text \<open>The call context is the headers it carries; \<open>current\<close> is the trace context of the running task.\<close>

definition build_call_context ::
  "trace_context option \<Rightarrow> string option \<Rightarrow> (string, string) dict option \<Rightarrow> string option \<Rightarrow> string option
     \<Rightarrow> string + (string, string) dict option" where
  "build_call_context current bearer_token extra_headers basic_auth protocol_version =
     ebind (build_default_headers bearer_token basic_auth protocol_version) (\<lambda>headers.
     let merged = dict_update (case extra_headers of None \<Rightarrow> [] | Some e \<Rightarrow> e) (dict_update (current_trace_headers current) headers)
     in Inr (or_none merged))"

definition build_resolver_headers :: "trace_context option \<Rightarrow> string option \<Rightarrow> string option \<Rightarrow> string + (string, string) dict option" where
  "build_resolver_headers current bearer_token basic_auth =
     ebind (build_default_headers bearer_token basic_auth None) (\<lambda>headers.
     Inr (or_none (dict_update (current_trace_headers current) headers)))"

section \<open>The address of the agent card\<close>

text \<open>
  \<open>urllib.parse.urlsplit\<close> on text of Latin-1 characters.  Whether a host in brackets is a valid address is
  a parameter.
\<close>

definition scheme_char :: "char \<Rightarrow> bool" where
  "scheme_char c = (let n = (of_char c :: nat) in
     (48 \<le> n \<and> n \<le> 57) \<or> (65 \<le> n \<and> n \<le> 90) \<or> (97 \<le> n \<and> n \<le> 122) \<or> c \<in> {CHR ''+'', CHR ''-'', CHR ''.''})"

definition ascii_letter :: "char \<Rightarrow> bool" where
  "ascii_letter c = (let n = (of_char c :: nat) in (65 \<le> n \<and> n \<le> 90) \<or> (97 \<le> n \<and> n \<le> 122))"

definition split_scheme :: "string \<Rightarrow> string \<times> string" where
  "split_scheme url =
     (let s = takeWhile (\<lambda>c. c \<noteq> CHR '':'') url
      in if length s < length url \<and> s \<noteq> [] \<and> ascii_letter (hd s) \<and> list_all scheme_char s
         then (py_lower s, drop (Suc (length s)) url) else ([], url))"

definition stops_authority :: "char \<Rightarrow> bool" where
  "stops_authority c \<longleftrightarrow> c \<in> {CHR ''/'', CHR ''?'', CHR ''#''}"

record split_url =
  su_scheme :: string
  su_netloc :: string
  su_path :: string

definition urlsplit :: "(string \<Rightarrow> bool) \<Rightarrow> string \<Rightarrow> string + split_url" where
  "urlsplit bracketed_ok raw =
     (let url = filter (\<lambda>c. c \<notin> {CHR 0x09, CHR 0x0A, CHR 0x0D}) (dropWhile (\<lambda>c. (of_char c :: nat) \<le> 32) raw);
          (scheme, rest) = split_scheme url;
          (netloc, rest') = (if take 2 rest = ''//''
            then (takeWhile (\<lambda>c. \<not> stops_authority c) (drop 2 rest), dropWhile (\<lambda>c. \<not> stops_authority c) (drop 2 rest))
            else ([], rest));
          path = takeWhile (\<lambda>c. c \<noteq> CHR ''?'') (takeWhile (\<lambda>c. c \<noteq> CHR ''#'') rest')
      in if (CHR ''['' \<in> set netloc) \<noteq> (CHR '']'' \<in> set netloc) then Inl ''Invalid IPv6 URL''
         else if CHR ''['' \<in> set netloc \<and> \<not> bracketed_ok netloc then Inl ''Invalid bracketed host''
         else Inr \<lparr>su_scheme = scheme, su_netloc = netloc, su_path = path\<rparr>)"

definition lstrip_slash :: "string \<Rightarrow> string" where
  "lstrip_slash s = dropWhile (\<lambda>c. c = CHR ''/'') s"

definition has_suffix :: "string \<Rightarrow> string \<Rightarrow> bool" where
  "has_suffix suff s \<longleftrightarrow> length suff \<le> length s \<and> drop (length s - length suff) s = suff"

text \<open>
  The paths of agent cards are constants of the SDK: the first is the well-known one.  A URL that ends
  with one of them names the card, any other the peer.
\<close>

definition split_card_path :: "string list \<Rightarrow> string \<Rightarrow> string \<times> string" where
  "split_card_path candidate_paths path =
     (case find (\<lambda>c. has_suffix (lstrip_slash c) path) candidate_paths of
        Some c \<Rightarrow> (rstrip_slash (take (length path - length (lstrip_slash c)) path), c)
      | None \<Rightarrow> (path, hd candidate_paths))"

definition normalize_agent_card_endpoint ::
  "(string \<Rightarrow> bool) \<Rightarrow> string list \<Rightarrow> string \<Rightarrow> string + string \<times> string" where
  "normalize_agent_card_endpoint bracketed_ok candidate_paths agent_url =
     ebind (urlsplit bracketed_ok agent_url) (\<lambda>u.
     if su_scheme u = [] \<or> su_netloc u = [] then Inl (''agent_url must be absolute URL: '' @ agent_url)
     else
       let (base_path, card_path) = split_card_path candidate_paths (lstrip_slash (rstrip_slash (su_path u)));
           base_url = rstrip_slash (su_scheme u @ ''://'' @ su_netloc u @ (if base_path = [] then [] else ''/'' @ base_path))
       in Inr (base_url, card_path))"

section \<open>What the settings promise\<close>

lemma bad_setting_Inr [simp]: "value_error x = Inr y \<longleftrightarrow> x = Inr y"
  by (cases x) auto

lemma coerced_str: "coerce_optional_str T name v = Inr (Some s) \<Longrightarrow> s \<noteq> []"
  by (auto simp: coerce_optional_str_def nonempty_def split: pyval.splits if_splits)

lemma coerced_version: "coerce_optional_protocol_version T name v = Inr (Some w) \<Longrightarrow> normalize_protocol_version w = Inr w"
  by (auto simp: coerce_optional_protocol_version_def ebind_Inr_iff dest: normalize_idem split: option.splits)

lemma valid_basic_encodes: "validate_basic_auth b = Inr () \<Longrightarrow> \<exists>v. encode_basic_auth b = Inr v"
  by (auto simp: validate_basic_auth_def encode_basic_auth_def ebind_Inr_iff split: if_splits)

lemma normalized_transport: "normalize_transport t \<noteq> []"
  by (auto simp: normalize_transport_def Let_def py_lower_def)

lemma parsed_transports:
  assumes "parse_transports T raw dflt = Inr ts" "dflt \<noteq> []" "[] \<notin> set dflt"
  shows "ts \<noteq> [] \<and> [] \<notin> set ts"
proof -
  have "ts = dflt \<or> (ts \<noteq> [] \<and> (\<exists>items. ts = map normalize_transport items))"
    using assms(1) unfolding parse_transports_def Let_def by (cases raw) (auto split: if_splits)
  then show ?thesis using assms(2,3) normalized_transport by (auto simp del: map_eq_Cons_conv) metis
qed

lemma loaded_settings:
  assumes "load_settings T src = Inr cs"
  shows "cs_bearer_token cs \<noteq> Some []" "cs_basic_auth cs \<noteq> Some []"
    and "\<And>b. cs_basic_auth cs = Some b \<Longrightarrow> \<exists>v. encode_basic_auth b = Inr v"
    and "\<And>v. cs_protocol_version cs = Some v \<Longrightarrow> normalize_protocol_version v = Inr v"
    and "cs_supported_transports cs \<noteq> []" "[] \<notin> set (cs_supported_transports cs)"
    and "validate_polling_fallback_policy (cs_polling cs) = Inr ()"
proof -
  from assms obtain a b c bt ba u v ts p u' where f:
    "text_setting T src ''A2A_CLIENT_BEARER_TOKEN'' = Inr bt" "text_setting T src ''A2A_CLIENT_BASIC_AUTH'' = Inr ba"
    "(case ba of None \<Rightarrow> Inr () | Some b \<Rightarrow> value_error (validate_basic_auth b)) = Inr u"
    "coerce_optional_protocol_version T ''A2A_CLIENT_PROTOCOL_VERSION''
       (read_setting src (both_cases ''A2A_CLIENT_PROTOCOL_VERSION'' @ both_cases ''A2A_PROTOCOL_VERSION'') PNone) = Inr v"
    "parse_transports T (read_setting src (both_cases ''A2A_CLIENT_SUPPORTED_TRANSPORTS'')
       (PList [PStr ''JSONRPC'', PStr ''HTTP+JSON''])) [''JSONRPC'', ''HTTP+JSON''] = Inr ts"
    "validate_polling_fallback_policy p = Inr u'"
    "cs = \<lparr>cs_default_timeout = a, cs_use_client_preference = b, cs_card_fetch_timeout = c, cs_bearer_token = bt,
       cs_basic_auth = ba, cs_protocol_version = v, cs_supported_transports = ts, cs_polling = p\<rparr>"
    unfolding load_settings_def ebind_Inr_iff sum.inject by (elim exE conjE) (rule that, (assumption | erule sym)+)
  show "cs_bearer_token cs \<noteq> Some []" "cs_basic_auth cs \<noteq> Some []"
    using f(1,2) unfolding f(7) text_setting_def by (auto dest: coerced_str)
  show "\<exists>v. encode_basic_auth b = Inr v" if "cs_basic_auth cs = Some b" for b
    using f(3) that valid_basic_encodes unfolding f(7) by simp
  show "normalize_protocol_version w = Inr w" if "cs_protocol_version cs = Some w" for w
    using f(4) that coerced_version unfolding f(7) by simp
  show "cs_supported_transports cs \<noteq> []" "[] \<notin> set (cs_supported_transports cs)"
    using parsed_transports [OF f(5)] unfolding f(7) by simp_all
  show "validate_polling_fallback_policy (cs_polling cs) = Inr ()" using f(6) unfolding f(7) by simp
qed

section \<open>The headers of a call\<close>

lemma wf_dict_update [simp]: "wf_dict d \<Longrightarrow> wf_dict (dict_update other d)"
  unfolding dict_update_def by (induction other arbitrary: d) (auto simp: distinct_update)

lemma dict_update_get:
  "wf_dict other \<Longrightarrow> dict_get (dict_update other d) k = (case dict_get other k of Some v \<Rightarrow> Some v | None \<Rightarrow> dict_get d k)"
proof (induction other arbitrary: d)
  case Nil
  then show ?case by (simp add: dict_update_def)
next
  case (Cons e other)
  have "dict_update (e # other) d = dict_update other (dict_set (fst e) (snd e) d)"
    by (simp add: dict_update_def split: prod.splits)
  moreover have "dict_get other (fst e) = None" using Cons.prems by (simp add: map_of_eq_None_iff)
  ultimately show ?case using Cons by (cases e) (auto simp: update_conv' split: option.splits)
qed

text \<open>The keys that go to the headers, and the header of each.\<close>

definition reserved_keys :: "string list" where
  "reserved_keys = [''authorization'', ''a2a-version'', ''traceparent'', ''tracestate'']"

definition header_names :: "string list" where
  "header_names = [''Authorization'', ''A2A-Version'', ''traceparent'', ''tracestate'']"

definition stays :: "string \<times> pyval \<Rightarrow> bool" where
  "stays e \<longleftrightarrow> py_lower (fst e) \<notin> set reserved_keys"

lemma split_entry_stays: "stays (k, v) \<Longrightarrow> split_entry T (k, v) (m, h) = Inr (dict_set k v m, h)"
  by (simp add: split_entry_def stays_def reserved_keys_def)

lemma split_entry_moves:
  "\<not> stays (k, v) \<Longrightarrow> split_entry T (k, v) (m, h) = Inr r \<Longrightarrow>
     fst r = m \<and> (snd r = h \<or> (\<exists>name \<in> set header_names. \<exists>text. snd r = dict_set name text h))"
  by (auto simp: split_entry_def stays_def reserved_keys_def header_names_def ebind_Inr_iff Let_def split: if_splits)

lemma update_fresh: "k \<notin> fst ` set d \<Longrightarrow> AList.update k v d = d @ [(k, v)]"
  by (induction d) auto

lemma split_entries_result:
  assumes "split_entries T es (m, h) = Inr (m', h')" "distinct (map fst (m @ es))" "wf_dict h" "fst ` set h \<subseteq> set header_names"
  shows "m' = m @ filter stays es \<and> wf_dict h' \<and> fst ` set h' \<subseteq> set header_names"
  using assms
proof (induction es arbitrary: m h)
  case (Cons e es)
  obtain k v where e: "e = (k, v)" by force
  from Cons.prems(1) e obtain r where r: "split_entry T (k, v) (m, h) = Inr r" "split_entries T es r = Inr (m', h')"
    by (auto simp: ebind_Inr_iff)
  show ?case
  proof (cases "stays e")
    case True
    then have "r = (m @ [(k, v)], h)" using r(1) Cons.prems(2) e by (force simp: split_entry_stays update_fresh)
    then show ?thesis using Cons.IH [of "m @ [(k, v)]" h] r(2) Cons.prems e True by simp
  next
    case False
    note f = split_entry_moves [OF False [unfolded e] r(1)]
    obtain m1 h1 where r1: "r = (m1, h1)" by force
    have "wf_dict h1 \<and> fst ` set h1 \<subseteq> set header_names"
      using f Cons.prems(3,4) unfolding r1 by (elim conjE disjE bexE exE) (simp_all add: distinct_update dom_update)
    then show ?thesis using Cons.IH [of m h1] r(2) Cons.prems e False f r1 by simp
  qed
qed simp

abbreviation entries :: "'a list option \<Rightarrow> 'a list" where
  "entries x \<equiv> (case x of None \<Rightarrow> [] | Some xs \<Rightarrow> xs)"

lemma entries_or_none [simp]: "entries (or_none xs) = xs"
  by (simp add: or_none_def)

text \<open>What the settings alone would send.\<close>

definition own_authorization :: "client_settings \<Rightarrow> string option" where
  "own_authorization cs =
     (case cs_bearer_token cs of
        Some t \<Rightarrow> Some (''Bearer '' @ t)
      | None \<Rightarrow> (case cs_basic_auth cs of
          None \<Rightarrow> None
        | Some b \<Rightarrow> (case encode_basic_auth b of Inr v \<Rightarrow> Some (''Basic '' @ v) | Inl e \<Rightarrow> None)))"

lemma default_headers:
  assumes "load_settings T src = Inr cs"
  obtains h where "build_default_headers (cs_bearer_token cs) (cs_basic_auth cs) (cs_protocol_version cs) = Inr h"
    and "wf_dict h" "dict_get h ''Authorization'' = own_authorization cs" "dict_get h ''A2A-Version'' = cs_protocol_version cs"
    and "dict_get h ''traceparent'' = None" "dict_get h ''tracestate'' = None"
proof -
  note l = loaded_settings [OF assms]
  have v: "truthy_str (cs_protocol_version cs) \<longleftrightarrow> cs_protocol_version cs \<noteq> None"
    using l(4) [of "[]"] by (auto simp: normalize_protocol_version_def py_strip_def)
  obtain a where a: "(if truthy_str (cs_bearer_token cs) then Inr [(''Authorization'', ''Bearer '' @ the (cs_bearer_token cs))]
      else if truthy_str (cs_basic_auth cs)
      then ebind (encode_basic_auth (the (cs_basic_auth cs))) (\<lambda>v. Inr [(''Authorization'', ''Basic '' @ v)])
      else Inr []) = Inr (case own_authorization cs of None \<Rightarrow> [] | Some t \<Rightarrow> [(''Authorization'', t)])"
    using l(1-3) by (cases "cs_bearer_token cs"; cases "cs_basic_auth cs") (fastforce simp: own_authorization_def)+
  show thesis
  proof (cases "cs_protocol_version cs")
    case None
    with a v show thesis by (intro that) (auto simp: build_default_headers_def split: option.splits)
  next
    case (Some w)
    with a v l(4) show thesis by (intro that) (auto simp: build_default_headers_def split: option.splits)
  qed
qed

text \<open>
  With settings that load, the headers of every call can be built.  They authenticate with what the
  caller's metadata say, else with the token of the settings, else with its basic credentials; the version
  likewise.  The metadata that are sent are exactly the caller's without the keys that became headers.
\<close>

theorem calls_carry_credentials:
  assumes "load_settings T src = Inr cs" "wf_dict metadata" "split_request_metadata T (Some metadata) = Inr (m, extra)"
  shows "m = or_none (filter stays metadata) \<and>
    (\<exists>headers. build_call_context current (cs_bearer_token cs) extra (cs_basic_auth cs) (cs_protocol_version cs) = Inr headers \<and>
      dict_get (entries headers) ''Authorization'' =
        (case dict_get (entries extra) ''Authorization'' of Some a \<Rightarrow> Some a | None \<Rightarrow> own_authorization cs) \<and>
      dict_get (entries headers) ''A2A-Version'' =
        (case dict_get (entries extra) ''A2A-Version'' of Some v \<Rightarrow> Some v | None \<Rightarrow> cs_protocol_version cs) \<and>
      dict_get (entries headers) ''traceparent'' =
        (case dict_get (entries extra) ''traceparent'' of Some t \<Rightarrow> Some t
         | None \<Rightarrow> dict_get (current_trace_headers current) ''traceparent''))"
proof -
  obtain m' h' where s: "split_entries T metadata ([], []) = Inr (m', h')" "m = or_none m'" "extra = or_none h'"
    using assms(3) by (auto simp: split_request_metadata_def ebind_Inr_iff)
  note r = split_entries_result [OF s(1)]
  from assms(2) r have m: "m' = filter stays metadata" "wf_dict h'" by simp_all
  obtain h where h: "build_default_headers (cs_bearer_token cs) (cs_basic_auth cs) (cs_protocol_version cs) = Inr h"
    "wf_dict h" "dict_get h ''Authorization'' = own_authorization cs" "dict_get h ''A2A-Version'' = cs_protocol_version cs"
    "dict_get h ''traceparent'' = None" "dict_get h ''tracestate'' = None"
    by (rule default_headers [OF assms(1)])
  have t: "wf_dict (current_trace_headers current)" "dict_get (current_trace_headers current) ''Authorization'' = None"
    "dict_get (current_trace_headers current) ''A2A-Version'' = None"
    by (auto simp: current_trace_headers_def split: option.splits list.splits)
  let ?d = "dict_update h' (dict_update (current_trace_headers current) h)"
  have "build_call_context current (cs_bearer_token cs) extra (cs_basic_auth cs) (cs_protocol_version cs) = Inr (or_none ?d)"
    by (simp add: build_call_context_def h(1) s(3))
  moreover have "dict_get ?d k = (case dict_get h' k of Some v \<Rightarrow> Some v
      | None \<Rightarrow> (case dict_get (current_trace_headers current) k of Some v \<Rightarrow> Some v | None \<Rightarrow> dict_get h k))" for k
    by (cases "dict_get h' k") (simp_all add: dict_update_get [OF m(2)] dict_update_get [OF t(1)])
  ultimately show ?thesis using t(2,3) h(3-5) m(1) s(2,3) by (auto split: option.splits)
qed

section \<open>A concrete call\<close>

definition sample_texts :: py_texts where
  "sample_texts = \<lparr>pt_repr = (\<lambda>_. []), pt_str = (\<lambda>_. []), pt_float = (\<lambda>_. None)\<rparr>"

definition sample_settings :: client_settings where
  "sample_settings = \<lparr>cs_default_timeout = Fin 30, cs_use_client_preference = False, cs_card_fetch_timeout = Fin 5,
     cs_bearer_token = None, cs_basic_auth = None, cs_protocol_version = None,
     cs_supported_transports = [''JSONRPC'', ''HTTP+JSON''],
     cs_polling = \<lparr>pp_enabled = False, pp_initial_interval = Fin (1 / 2), pp_max_interval = Fin 2,
       pp_backoff_multiplier = Fin 2, pp_timeout = Fin 10\<rparr>\<rparr>"

definition sample_metadata :: "(string \<times> pyval) list" where
  "sample_metadata = [(''k'', PInt 1), (''TraceParent'', PStr ''t''), (''Authorization'', PStr ''Bearer tok'')]"

lemma sample_settings_load: "load_settings sample_texts NoSource = Inr sample_settings"
  by (simp add: load_settings_def float_setting_def bool_setting_def text_setting_def polling_setting_def read_setting_def
      coerce_float_def coerce_bool_def coerce_optional_str_def coerce_optional_protocol_version_def parse_transports_def str_of_def
      normalize_transport_def validate_polling_fallback_policy_def sample_settings_def, code_simp)

lemma sample_metadata_split:
  "split_request_metadata sample_texts (Some sample_metadata) = Inr (Some [(''k'', PInt 1)], Some [(''traceparent'', ''t''), (''Authorization'', ''Bearer tok'')])"
  by code_simp

theorem calls_carry_credentials_witness:
  "\<exists>headers. build_call_context None None (Some [(''traceparent'', ''t''), (''Authorization'', ''Bearer tok'')]) None None = Inr headers \<and>
     dict_get (entries headers) ''Authorization'' = Some ''Bearer tok''"
proof -
  have "wf_dict sample_metadata" by (simp add: sample_metadata_def)
  from calls_carry_credentials [OF sample_settings_load this sample_metadata_split, of None]
  show ?thesis by (auto simp: sample_settings_def)
qed

end
