(* ===== verification/Peer_Client.thy ===== *)
theory Peer_Client
  imports Client_Requests Tool_Orchestration
begin

text \<open>
  The outgoing client, \<open>A2AClient\<close> of \<open>client/client.py\<close>.  The peer and the SDK's transports are a
  parameter: their answer to a request depends on all requests so far, which the client's state records.
  A generator is the list of what it yields with the exception that ends it; \<open>OtherException\<close> is also a
  \<open>ValueError\<close> of our own code.
\<close>

section \<open>The client\<close>

datatype http_transport = NoTransport | OpenTransport | ClosedTransport

datatype peer_request =
    FetchCard string string "(string, string) dict option"
  | SendMessage string "string option" "string option" "string option" "(string \<times> pyval) list option"
      "(string, string) dict option" "string list option"
  | GetTask string "int option" "(string \<times> pyval) list option" "(string, string) dict option"
  | CancelTask string "(string \<times> pyval) list option" "(string, string) dict option"
  | Resubscribe string "(string \<times> pyval) list option" "(string, string) dict option"

datatype ('m, 'u) client_event = MessageEvent 'm | TaskEvent task "'u option"

record ('m, 'u) peer_answers =
  pa_card :: "peer_request list \<Rightarrow> peer_exception + unit"
  pa_binds :: "string list \<Rightarrow> bool \<Rightarrow> bool"
  pa_stream :: "peer_request list \<Rightarrow> ('m, 'u) client_event list \<times> peer_exception option"
  pa_task :: "peer_request list \<Rightarrow> peer_exception + task"

text \<open>What else a call depends on: texts, bracketed hosts, the SDK's card paths, the trace of the task.\<close>

record call_env =
  ev_texts :: py_texts
  ev_bracketed_ok :: "string \<Rightarrow> bool"
  ev_card_paths :: "string list"
  ev_trace :: "trace_context option"

record peer_client =
  pc_url :: string
  pc_settings :: client_settings
  pc_owns_http :: bool
  pc_http :: http_transport
  pc_client :: bool
  pc_card :: bool
  pc_active :: nat
  pc_sent :: "peer_request list"

definition new_client :: "string \<Rightarrow> client_settings \<Rightarrow> bool \<Rightarrow> string + peer_client" where
  "new_client agent_url settings given_http =
     (if agent_url = [] \<or> py_strip agent_url = [] then Inl ''agent_url must be non-empty''
      else Inr \<lparr>pc_url = rstrip_slash agent_url, pc_settings = settings, pc_owns_http = (\<not> given_http),
        pc_http = (if given_http then OpenTransport else NoTransport), pc_client = False, pc_card = False,
        pc_active = 0, pc_sent = []\<rparr>)"

definition close_client :: "peer_client \<Rightarrow> peer_client" where
  "close_client c =
     c\<lparr>pc_client := False,
       pc_http := (if pc_http c \<noteq> NoTransport \<and> pc_owns_http c then ClosedTransport else pc_http c)\<rparr>"

definition is_busy :: "peer_client \<Rightarrow> bool" where
  "is_busy c \<longleftrightarrow> 0 < pc_active c"

definition get_httpx_client :: "peer_client \<Rightarrow> peer_client" where
  "get_httpx_client c = (if pc_http c = NoTransport then c\<lparr>pc_http := OpenTransport\<rparr> else c)"

definition acquire_operation :: "peer_client \<Rightarrow> peer_client" where
  "acquire_operation c = c\<lparr>pc_active := pc_active c + 1\<rparr>"

definition release_operation :: "peer_client \<Rightarrow> peer_client" where
  "release_operation c = (if 0 < pc_active c then c\<lparr>pc_active := pc_active c - 1\<rparr> else c)"

definition record_request :: "peer_request \<Rightarrow> peer_client \<Rightarrow> peer_client" where
  "record_request r c = c\<lparr>pc_sent := r # pc_sent c\<rparr>"

section \<open>The agent card and the SDK client\<close>

definition mapped_card_error :: "peer_exception \<Rightarrow> peer_exception" where
  "mapped_card_error e = (case map_agent_card_error e of Some ce \<Rightarrow> ClientErr ce | None \<Rightarrow> e)"

definition get_agent_card ::
  "('m, 'u) peer_answers \<Rightarrow> call_env \<Rightarrow> peer_client \<Rightarrow> (peer_exception + unit) \<times> peer_client" where
  "get_agent_card P E c =
     (if pc_card c then (Inr (), c)
      else
        let c1 = get_httpx_client c
        in case normalize_agent_card_endpoint (ev_bracketed_ok E) (ev_card_paths E) (pc_url c) of
             Inl e \<Rightarrow> (Inl OtherException, c1)
           | Inr (base_url, card_path) \<Rightarrow>
               (case build_resolver_headers (ev_trace E) (cs_bearer_token (pc_settings c)) (cs_basic_auth (pc_settings c)) of
                  Inl e \<Rightarrow> (Inl OtherException, c1)
                | Inr headers \<Rightarrow>
                    (let c2 = record_request (FetchCard base_url card_path headers) c1
                     in case pa_card P (pc_sent c2) of
                          Inl e \<Rightarrow> (Inl (mapped_card_error e), c2)
                        | Inr _ \<Rightarrow> (Inr (), c2\<lparr>pc_card := True\<rparr>))))"

definition build_client ::
  "('m, 'u) peer_answers \<Rightarrow> call_env \<Rightarrow> peer_client \<Rightarrow> (peer_exception + unit) \<times> peer_client" where
  "build_client P E c =
     (case get_agent_card P E c of
        (Inl e, c1) \<Rightarrow> (Inl e, c1)
      | (Inr _, c1) \<Rightarrow>
          (let c2 = get_httpx_client c1
           in if pa_binds P (cs_supported_transports (pc_settings c)) (cs_use_client_preference (pc_settings c))
              then (Inr (), c2\<lparr>pc_client := True\<rparr>)
              else (Inl (ClientErr (client_error_of UnsupportedBinding
                      (''No supported transport found for '' @ pc_url c))), c2)))"

definition ensure_client ::
  "('m, 'u) peer_answers \<Rightarrow> call_env \<Rightarrow> peer_client \<Rightarrow> (peer_exception + unit) \<times> peer_client" where
  "ensure_client P E c = (if pc_client c then (Inr (), c) else build_client P E c)"

section \<open>Operations\<close>

definition mapped_error :: "string \<Rightarrow> peer_exception \<Rightarrow> peer_exception" where
  "mapped_error op e = (case map_operation_error op e of Some ce \<Rightarrow> ClientErr ce | None \<Rightarrow> e)"

text \<open>
  What the four operations share: they count as active, ensure the SDK client, split the metadata and
  build the call context; \<open>finally\<close> the count goes down.
\<close>

definition peer_operation ::
  "('m, 'u) peer_answers \<Rightarrow> call_env \<Rightarrow> (string \<times> pyval) list option \<Rightarrow> (peer_exception \<Rightarrow> 'r)
     \<Rightarrow> ((string \<times> pyval) list option \<Rightarrow> (string, string) dict option \<Rightarrow> peer_client \<Rightarrow> 'r \<times> peer_client)
     \<Rightarrow> peer_client \<Rightarrow> 'r \<times> peer_client" where
  "peer_operation P E metadata failing body c =
     (let (r, c') =
        (case ensure_client P E (acquire_operation c) of
           (Inl e, c1) \<Rightarrow> (failing e, c1)
         | (Inr _, c1) \<Rightarrow>
             (case split_request_metadata (ev_texts E) metadata of
                Inl e \<Rightarrow> (failing OtherException, c1)
              | Inr (request_metadata, extra_headers) \<Rightarrow>
                  (case build_call_context (ev_trace E) (cs_bearer_token (pc_settings c)) extra_headers
                          (cs_basic_auth (pc_settings c)) (cs_protocol_version (pc_settings c)) of
                     Inl e \<Rightarrow> (failing OtherException, c1)
                   | Inr headers \<Rightarrow> body request_metadata headers c1)))
      in (r, release_operation c'))"

definition get_task ::
  "('m, 'u) peer_answers \<Rightarrow> call_env \<Rightarrow> string \<Rightarrow> int option \<Rightarrow> (string \<times> pyval) list option
     \<Rightarrow> peer_client \<Rightarrow> (peer_exception + task) \<times> peer_client" where
  "get_task P E task_id history_length metadata =
     peer_operation P E metadata Inl (\<lambda>rm headers c.
       let c' = record_request (GetTask task_id history_length rm headers) c
       in (case pa_task P (pc_sent c') of Inl e \<Rightarrow> Inl (mapped_error ''tasks/get'' e) | Inr t \<Rightarrow> Inr t, c'))"

definition cancel_task ::
  "('m, 'u) peer_answers \<Rightarrow> call_env \<Rightarrow> string \<Rightarrow> (string \<times> pyval) list option
     \<Rightarrow> peer_client \<Rightarrow> (peer_exception + task) \<times> peer_client" where
  "cancel_task P E task_id metadata =
     peer_operation P E metadata Inl (\<lambda>rm headers c.
       let c' = record_request (CancelTask task_id rm headers) c
       in (case pa_task P (pc_sent c') of Inl e \<Rightarrow> Inl (mapped_error ''tasks/cancel'' e) | Inr t \<Rightarrow> Inr t, c'))"

definition streamed :: "string \<Rightarrow> 'e list \<times> peer_exception option \<Rightarrow> 'e list \<times> peer_exception option" where
  "streamed op s = (fst s, map_option (mapped_error op) (snd s))"

definition resubscribe_task ::
  "('m, 'u) peer_answers \<Rightarrow> call_env \<Rightarrow> string \<Rightarrow> (string \<times> pyval) list option
     \<Rightarrow> peer_client \<Rightarrow> (('m, 'u) client_event list \<times> peer_exception option) \<times> peer_client" where
  "resubscribe_task P E task_id metadata =
     peer_operation P E metadata (\<lambda>e. ([], Some e)) (\<lambda>rm headers c.
       let c' = record_request (Resubscribe task_id rm headers) c
       in (streamed ''tasks/resubscribe'' (pa_stream P (pc_sent c')), c'))"

definition send_message ::
  "('m, 'u) peer_answers \<Rightarrow> call_env \<Rightarrow> string \<Rightarrow> string option \<Rightarrow> string option \<Rightarrow> string option
     \<Rightarrow> string \<Rightarrow> (string \<times> pyval) list option \<Rightarrow> string list option
     \<Rightarrow> peer_client \<Rightarrow> (('m, 'u) client_event list \<times> peer_exception option) \<times> peer_client" where
  "send_message P E text context_id task_id message_id fresh_id metadata extensions =
     peer_operation P E metadata (\<lambda>e. ([], Some e)) (\<lambda>rm headers c.
       let c' = record_request (SendMessage text context_id task_id
                  (Some (if truthy_str message_id then the message_id else fresh_id)) rm headers extensions) c
       in (streamed ''message/send'' (pa_stream P (pc_sent c')), c'))"

section \<open>Sending with polling\<close>

definition should_poll_after_send :: "polling_policy \<Rightarrow> ('m, 'u) client_event option \<Rightarrow> task option" where
  "should_poll_after_send p event =
     (if \<not> pp_enabled p then None
      else case event of
        Some (TaskEvent t None) \<Rightarrow> if should_poll_state (tk_state t) then Some t else None
      | _ \<Rightarrow> None)"

text \<open>
  One reading of the clock per round.  \<open>wake sent now pause\<close> is the reading after a pause that began at
  \<open>now\<close> and the request that followed it.  The fuel bounds the rounds.
  \<open>send\<close> reads the clock once more, at \<open>started\<close>, for the deadline.
\<close>

definition polling_timeout_message :: string where
  "polling_timeout_message =
     ''Remote A2A peer did not reach a terminal task state before polling fallback timed out''"

fun poll_task_until_terminal ::
  "('m, 'u) peer_answers \<Rightarrow> call_env \<Rightarrow> (peer_request list \<Rightarrow> time \<Rightarrow> flt \<Rightarrow> time) \<Rightarrow> (string \<times> pyval) list option
     \<Rightarrow> nat \<Rightarrow> flt \<Rightarrow> flt \<Rightarrow> time \<Rightarrow> task \<Rightarrow> peer_client \<Rightarrow> ((peer_exception + task) \<times> peer_client) option" where
  "poll_task_until_terminal P E wake metadata 0 deadline interval now t c = None"
| "poll_task_until_terminal P E wake metadata (Suc n) deadline interval now t c =
     (if is_terminal_state (tk_state t) then Some (Inr t, c)
      else if \<not> should_poll_state (tk_state t) then Some (Inr t, c)
      else
        let remaining = flt_sub deadline (Fin now)
        in if flt_le remaining (Fin 0) then Some (Inl (ClientErr (client_error_of TimedOut polling_timeout_message)), c)
           else case get_task P E (tk_id t) None metadata c of
                  (Inl e, c') \<Rightarrow> Some (Inl e, c')
                | (Inr t', c') \<Rightarrow>
                    poll_task_until_terminal P E wake metadata n deadline
                      (next_interval (cs_polling (pc_settings c)) interval)
                      (wake (pc_sent c') now (py_min interval remaining)) t' c')"

definition send ::
  "('m, 'u) peer_answers \<Rightarrow> call_env \<Rightarrow> (peer_request list \<Rightarrow> time \<Rightarrow> flt \<Rightarrow> time) \<Rightarrow> nat \<Rightarrow> time \<Rightarrow> time
     \<Rightarrow> string \<Rightarrow> string option \<Rightarrow> string option \<Rightarrow> string option \<Rightarrow> string \<Rightarrow> (string \<times> pyval) list option \<Rightarrow> string list option
     \<Rightarrow> peer_client \<Rightarrow> ((peer_exception + ('m, 'u) client_event option) \<times> peer_client) option" where
  "send P E wake n started now text context_id task_id message_id fresh_id metadata extensions c =
     (case send_message P E text context_id task_id message_id fresh_id metadata extensions c of
        ((events, Some e), c1) \<Rightarrow> Some (Inl e, c1)
      | ((events, None), c1) \<Rightarrow>
          (let last_event = (if events = [] then None else Some (last events));
               policy = cs_polling (pc_settings c)
           in case should_poll_after_send policy last_event of
                None \<Rightarrow> Some (Inr last_event, c1)
              | Some t \<Rightarrow>
                  map_option (\<lambda>(r, c2). (case r of Inl e \<Rightarrow> Inl e | Inr t' \<Rightarrow> Inr (Some (TaskEvent t' None)), c2))
                    (poll_task_until_terminal P E wake metadata n (flt_add (Fin started) (pp_timeout policy))
                       (pp_initial_interval policy) now t c1)))"

section \<open>Operations leave the client idle and map errors\<close>

text \<open>The exceptions that the client does not let through.\<close>

fun mapped_away :: "peer_exception \<Rightarrow> bool" where
  "mapped_away (HttpError s) = True"
| "mapped_away (JsonRpcError e) = True"
| "mapped_away HttpxTimeout = True"
| "mapped_away HttpxTransport = True"
| "mapped_away _ = False"

lemma mapped_error_maps [simp]: "\<not> mapped_away (mapped_error op e)"
  by (cases e) (simp_all add: mapped_error_def)

text \<open>A card is fetched by a plain \<open>GET\<close>: the SDK's resolver raises no JSON-RPC error.\<close>

definition plain_card_fetch :: "('m, 'u) peer_answers \<Rightarrow> bool" where
  "plain_card_fetch P \<longleftrightarrow> (\<forall>sent err. pa_card P sent \<noteq> Inl (JsonRpcError err))"

lemma mapped_card_error_maps:
  "plain_card_fetch P \<Longrightarrow> pa_card P sent = Inl e \<Longrightarrow> \<not> mapped_away (mapped_card_error e)"
  by (cases e) (auto simp: mapped_card_error_def plain_card_fetch_def)

lemma http_active [simp]: "pc_active (get_httpx_client c) = pc_active c" "pc_settings (get_httpx_client c) = pc_settings c"
    "pc_active (record_request r c) = pc_active c" "pc_settings (record_request r c) = pc_settings c"
  by (auto simp: get_httpx_client_def record_request_def)

lemma get_agent_card_facts:
  assumes "get_agent_card P E c = (r, c')" "plain_card_fetch P"
  shows "pc_active c' = pc_active c \<and> pc_settings c' = pc_settings c \<and> (\<forall>e. r = Inl e \<longrightarrow> \<not> mapped_away e)"
  using assms(1) mapped_card_error_maps [OF assms(2)]
  by (auto simp: get_agent_card_def Let_def split: if_splits sum.splits prod.splits)

lemma ensure_client_facts:
  assumes "ensure_client P E c = (r, c')" "plain_card_fetch P"
  shows "pc_active c' = pc_active c \<and> pc_settings c' = pc_settings c \<and> (\<forall>e. r = Inl e \<longrightarrow> \<not> mapped_away e)"
proof -
  obtain r1 c1 where g: "get_agent_card P E c = (r1, c1)" by force
  note f = get_agent_card_facts [OF g assms(2)]
  show ?thesis
    using assms(1) g f by (cases r1) (auto simp: ensure_client_def build_client_def Let_def split: if_splits)
qed

definition keeps :: "('x \<Rightarrow> peer_exception \<Rightarrow> bool) \<Rightarrow> (peer_client \<Rightarrow> 'x \<times> peer_client) \<Rightarrow> bool" where
  "keeps raises f \<longleftrightarrow> (\<forall>c r c'. f c = (r, c') \<longrightarrow>
     pc_active c' = pc_active c \<and> pc_settings c' = pc_settings c \<and> (\<forall>e. raises r e \<longrightarrow> \<not> mapped_away e))"

lemma peer_operation_keeps:
  assumes "\<And>rm h. keeps raises (body rm h)" "\<And>e e'. raises (failing e) e' \<Longrightarrow> e' = e" "plain_card_fetch P"
  shows "keeps raises (peer_operation P E metadata failing body)"
  unfolding keeps_def
proof (intro allI impI)
  fix c r c'
  assume a: "peer_operation P E metadata failing body c = (r, c')"
  obtain r1 c1 where en: "ensure_client P E (acquire_operation c) = (r1, c1)" by force
  then have f: "pc_active c1 = pc_active c + 1" "pc_settings c1 = pc_settings c" "\<And>e. r1 = Inl e \<Longrightarrow> \<not> mapped_away e"
    using ensure_client_facts [OF en assms(3)] by (simp_all add: acquire_operation_def)
  have failed: "\<not> mapped_away e'" if "raises (failing e) e'" "\<not> mapped_away e" for e e'
    using assms(2) [OF that(1)] that(2) by simp
  obtain x d where x: "r = x" "c' = release_operation d"
    and d: "pc_active d = pc_active c + 1" "pc_settings d = pc_settings c" "\<forall>e. raises x e \<longrightarrow> \<not> mapped_away e"
  proof (cases r1)
    case (Inl e)
    with a en have "r = failing e" "c' = release_operation c1" by (simp_all add: peer_operation_def)
    then show thesis using f Inl failed by (intro that [of r c1]) auto
  next
    case (Inr u)
    show thesis
    proof (cases "split_request_metadata (ev_texts E) metadata")
      case sp: (Inl e)
      with a en Inr have "r = failing OtherException" "c' = release_operation c1" by (simp_all add: peer_operation_def)
      then show thesis using f failed [of OtherException] by (intro that [of r c1]) auto
    next
      case sp: (Inr mh)
      obtain rm eh where mh: "mh = (rm, eh)" by force
      show thesis
      proof (cases "build_call_context (ev_trace E) (cs_bearer_token (pc_settings c)) eh
                      (cs_basic_auth (pc_settings c)) (cs_protocol_version (pc_settings c))")
        case (Inl e)
        with a en Inr sp mh have "r = failing OtherException" "c' = release_operation c1" by (simp_all add: peer_operation_def)
        then show thesis using f failed [of OtherException] by (intro that [of r c1]) auto
      next
        case b: (Inr h)
        obtain x d where xd: "body rm h c1 = (x, d)" by force
        with assms(1) [of rm h] have "pc_active d = pc_active c1 \<and> pc_settings d = pc_settings c1 \<and> (\<forall>e. raises x e \<longrightarrow> \<not> mapped_away e)"
          unfolding keeps_def by blast
        moreover from a en Inr sp mh b xd have "r = x" "c' = release_operation d" by (simp_all add: peer_operation_def)
        ultimately show thesis using f by (intro that [of r d]) auto
      qed
    qed
  qed
  then show "pc_active c' = pc_active c \<and> pc_settings c' = pc_settings c \<and> (\<forall>e. raises r e \<longrightarrow> \<not> mapped_away e)"
    by (simp add: release_operation_def)
qed

fun raised :: "peer_exception + 'a \<Rightarrow> peer_exception \<Rightarrow> bool" where
  "raised (Inl e) e' = (e' = e)"
| "raised (Inr x) e' = False"

definition stream_raised :: "'a list \<times> peer_exception option \<Rightarrow> peer_exception \<Rightarrow> bool" where
  "stream_raised s e \<longleftrightarrow> snd s = Some e"

lemma get_task_keeps: "plain_card_fetch P \<Longrightarrow> keeps raised (get_task P E task_id history_length metadata)"
  unfolding get_task_def
  by (rule peer_operation_keeps) (auto simp: keeps_def Let_def split: sum.splits)

lemma cancel_task_keeps: "plain_card_fetch P \<Longrightarrow> keeps raised (cancel_task P E task_id metadata)"
  unfolding cancel_task_def
  by (rule peer_operation_keeps) (auto simp: keeps_def Let_def split: sum.splits)

lemma resubscribe_task_keeps: "plain_card_fetch P \<Longrightarrow> keeps stream_raised (resubscribe_task P E task_id metadata)"
  unfolding resubscribe_task_def
  by (rule peer_operation_keeps) (auto simp: keeps_def Let_def stream_raised_def streamed_def)

lemma send_message_keeps: "plain_card_fetch P \<Longrightarrow> keeps stream_raised (send_message P E text context_id task_id message_id fresh_id metadata extensions)"
  unfolding send_message_def
  by (rule peer_operation_keeps) (auto simp: keeps_def Let_def stream_raised_def streamed_def)

section \<open>Polling ends\<close>

fun is_get :: "peer_request \<Rightarrow> bool" where
  "is_get (GetTask task_id history_length metadata headers) = True"
| "is_get _ = False"

definition polls :: "peer_client \<Rightarrow> nat" where
  "polls c = length (filter is_get (pc_sent c))"

lemma polls_simps [simp]: "polls (get_httpx_client c) = polls c" "polls (acquire_operation c) = polls c"
    "polls (release_operation c) = polls c" "polls (record_request r c) = (if is_get r then Suc (polls c) else polls c)"
  by (auto simp: polls_def get_httpx_client_def acquire_operation_def release_operation_def record_request_def)

lemma polls_flags [simp]: "polls (c\<lparr>pc_card := b\<rparr>) = polls c" "polls (c\<lparr>pc_client := b\<rparr>) = polls c"
  by (simp_all add: polls_def)

lemma get_agent_card_polls: "get_agent_card P E c = (r, c') \<Longrightarrow> polls c' = polls c"
  by (auto simp: get_agent_card_def Let_def split: if_splits sum.splits prod.splits)

lemma ensure_client_polls: "ensure_client P E c = (r, c') \<Longrightarrow> polls c' = polls c"
  using get_agent_card_polls [of P E c]
  by (auto simp: ensure_client_def build_client_def Let_def split: if_splits sum.splits prod.splits)

lemma get_task_polls: "get_task P E task_id history_length metadata c = (r, c') \<Longrightarrow> polls c' \<le> Suc (polls c)"
  using ensure_client_polls [of P E "acquire_operation c"]
  by (auto simp: get_task_def peer_operation_def Let_def split: sum.splits prod.splits)

lemma next_interval_bound:
  assumes "0 < i" "flt_le (Fin i) current" "flt_le (Fin 1) (pp_backoff_multiplier p)" "flt_le (Fin i) (pp_max_interval p)"
  shows "flt_le (Fin i) (next_interval p current)"
proof -
  have m: "i \<le> a * b" if "i \<le> a" "1 \<le> b" for a b :: rat
    using mult_mono [OF that] assms(1) that by simp
  show ?thesis using assms m
    by (cases current; cases "pp_backoff_multiplier p"; cases "pp_max_interval p")
      (fastforce simp: next_interval_def py_min_def py_max_def flt_mult_def flt_sign_def sgn_if order_le_less)+
qed

lemma pause_bound:
  assumes "flt_le (Fin i) interval" "0 < r"
  shows "\<exists>q. py_min interval (Fin r) = Fin q \<and> (q = r \<or> i \<le> q)"
  using assms by (cases interval) (auto simp: py_min_def)

text \<open>A pause lasts at least as long as asked for; the request that follows takes some time as well.\<close>

definition clock_law :: "(peer_request list \<Rightarrow> time \<Rightarrow> flt \<Rightarrow> time) \<Rightarrow> bool" where
  "clock_law wake \<longleftrightarrow> (\<forall>sent now pause. now + pause \<le> wake sent now (Fin pause))"

lemma poll_rounds:
  assumes "clock_law wake" "plain_card_fetch P" "0 < i" "flt_le (Fin 1) (pp_backoff_multiplier p)" "flt_le (Fin i) (pp_max_interval p)"
    and "cs_polling (pc_settings c) = p" "flt_le (Fin i) interval" "d - now \<le> i * rat_of_nat k" "k < n"
  shows "\<exists>r c'. poll_task_until_terminal P E wake metadata n (Fin d) interval now t c = Some (r, c') \<and>
    pc_active c' = pc_active c \<and> (\<forall>e. raised r e \<longrightarrow> \<not> mapped_away e) \<and>
    (\<forall>t'. r = Inr t' \<longrightarrow> \<not> should_poll_state (tk_state t')) \<and> polls c' \<le> polls c + k"
  using assms(6-9)
proof (induction n arbitrary: k interval now t c)
  case (Suc n)
  show ?case
  proof (cases "should_poll_state (tk_state t)")
    case poll: True
    then have nt: "\<not> is_terminal_state (tk_state t)"
      by (auto simp: should_poll_state_def is_terminal_state_def auto_polling_task_states_def terminal_task_states_def)
    show ?thesis
    proof (cases "d - now \<le> 0")
      case True
      then show ?thesis using poll nt by (auto simp: flt_sub_def order_le_less)
    next
      case False
      obtain q where q: "py_min interval (Fin (d - now)) = Fin q" "q = d - now \<or> i \<le> q"
        using False pause_bound [OF Suc.prems(2), of "d - now"] by auto
      obtain k' where k: "k = Suc k'"
        using False Suc.prems(3) by (cases k) auto
      obtain r1 c1 where g: "get_task P E (tk_id t) None metadata c = (r1, c1)" by force
      with get_task_keeps [OF assms(2), of E "tk_id t" None metadata]
      have f: "pc_active c1 = pc_active c" "pc_settings c1 = pc_settings c" "\<forall>e. raised r1 e \<longrightarrow> \<not> mapped_away e"
        unfolding keeps_def by blast+
      note n = get_task_polls [OF g]
      let ?now = "wake (pc_sent c1) now (Fin q)"
      have step: "poll_task_until_terminal P E wake metadata (Suc n) (Fin d) interval now t c =
        (case r1 of Inl e \<Rightarrow> Some (Inl e, c1)
         | Inr t' \<Rightarrow> poll_task_until_terminal P E wake metadata n (Fin d) (next_interval p interval) ?now t' c1)"
        using poll nt False g q(1) Suc.prems(1) by (auto simp: flt_sub_def split: sum.splits)
      show ?thesis
      proof (cases r1)
        case (Inl e)
        then show ?thesis using step f n k by auto
      next
        case (Inr t')
        have "now + q \<le> ?now" using assms(1) unfolding clock_law_def by blast
        moreover have "i * rat_of_nat k = i * rat_of_nat k' + i" by (simp add: k algebra_simps)
        moreover have "0 \<le> i * rat_of_nat k'" using assms(3) by simp
        ultimately have "d - ?now \<le> i * rat_of_nat k'" using q(2) Suc.prems(3) by linarith
        moreover have "flt_le (Fin i) (next_interval p interval)"
          using next_interval_bound assms(3-5) Suc.prems(2) by blast
        ultimately obtain r c' where "poll_task_until_terminal P E wake metadata n (Fin d) (next_interval p interval) ?now t' c1 = Some (r, c')"
          "pc_active c' = pc_active c1" "\<forall>e. raised r e \<longrightarrow> \<not> mapped_away e"
          "\<forall>t'. r = Inr t' \<longrightarrow> \<not> should_poll_state (tk_state t')" "polls c' \<le> polls c1 + k'"
          using Suc.IH [of c1 "next_interval p interval" ?now k' t'] Suc.prems(1,4) f(2) k by auto
        then show ?thesis using step Inr f(1) n k by auto
      qed
    qed
  qed auto
qed simp

text \<open>Settings that load, without NaN, give what the loop needs.\<close>

lemma valid_policy:
  assumes "validate_polling_fallback_policy p = Inr ()" "pp_initial_interval p = Fin i"
    and "pp_max_interval p \<noteq> NaN" "pp_backoff_multiplier p \<noteq> NaN"
  shows "0 < i" "flt_le (Fin 1) (pp_backoff_multiplier p)" "flt_le (Fin i) (pp_max_interval p)"
  using assms by (cases "pp_max_interval p"; cases "pp_backoff_multiplier p";
      auto simp: validate_polling_fallback_policy_def split: if_splits)+


section \<open>Concrete clients\<close>

definition polling_settings :: "flt \<Rightarrow> client_settings" where
  "polling_settings timeout = sample_settings
     \<lparr>cs_polling := (cs_polling sample_settings)\<lparr>pp_enabled := True, pp_timeout := timeout\<rparr>\<rparr>"

definition polling_source :: "string \<Rightarrow> settings_source" where
  "polling_source timeout = MappingSource
     [(''A2A_CLIENT_POLLING_FALLBACK_ENABLED'', PBool True), (''A2A_CLIENT_POLLING_FALLBACK_TIMEOUT_SECONDS'', PStr timeout)]"

lemma polling_settings_load:
  "load_settings sample_texts (polling_source '' '') = Inr (polling_settings (Fin 10))"
  "load_settings sample_texts (polling_source ''NaN'') = Inr (polling_settings NaN)"
  by (simp add: load_settings_def float_setting_def bool_setting_def text_setting_def polling_setting_def read_setting_def
      both_cases_def polling_source_def py_lower_def coerce_float_def coerce_bool_def coerce_optional_str_def
      coerce_optional_protocol_version_def parse_transports_def str_of_def normalize_transport_def
      validate_polling_fallback_policy_def sample_settings_def polling_settings_def, code_simp)+

definition working_task :: task where
  "working_task = \<lparr>tk_id = ''t1'', tk_context_id = ''c1'', tk_state = working, tk_rest = PNone\<rparr>"

definition slow_peer :: "(unit, unit) peer_answers" where
  "slow_peer = \<lparr>pa_card = (\<lambda>_. Inr ()), pa_binds = (\<lambda>_ _. True), pa_stream = (\<lambda>_. ([TaskEvent working_task None], None)),
     pa_task = (\<lambda>_. Inr working_task)\<rparr>"

definition sample_env :: call_env where
  "sample_env = \<lparr>ev_texts = sample_texts, ev_bracketed_ok = (\<lambda>_. True), ev_card_paths = [''/card.json''], ev_trace = None\<rparr>"

definition sample_client :: "flt \<Rightarrow> peer_client" where
  "sample_client timeout = \<lparr>pc_url = ''http://peer'', pc_settings = polling_settings timeout, pc_owns_http = True, pc_http = NoTransport,
     pc_client = False, pc_card = False, pc_active = 0, pc_sent = []\<rparr>"

definition exact_clock :: "peer_request list \<Rightarrow> time \<Rightarrow> flt \<Rightarrow> time" where
  "exact_clock sent now pause = (case pause of Fin p \<Rightarrow> now + p | _ \<Rightarrow> now)"


text \<open>
  A timeout that is not a number passes every check of the policy, since no comparison with it holds, and
  then never expires: while the peer keeps working the loop does not return, whatever the fuel.
\<close>

lemma working_answer:
  assumes "pc_client c" "pc_settings c = polling_settings NaN"
  shows "\<exists>c'. get_task slow_peer sample_env task_id history_length None c = (Inr working_task, c') \<and>
    pc_client c' \<and> pc_settings c' = polling_settings NaN"
  using assms
  by (simp add: get_task_def peer_operation_def ensure_client_def acquire_operation_def release_operation_def record_request_def
      split_request_metadata_def build_call_context_def build_default_headers_def sample_env_def slow_peer_def
      polling_settings_def sample_settings_def or_none_def dict_update_def current_trace_headers_def)

theorem nan_timeout_never_expires:
  "load_settings sample_texts (polling_source ''NaN'') = Inr (polling_settings NaN)"
  "pc_client c \<Longrightarrow> pc_settings c = polling_settings NaN \<Longrightarrow>
     poll_task_until_terminal slow_peer sample_env wake None n
       (flt_add (Fin started) (pp_timeout (cs_polling (pc_settings c)))) interval now working_task c = None"
proof -
  show "load_settings sample_texts (polling_source ''NaN'') = Inr (polling_settings NaN)" by (rule polling_settings_load)
  have "poll_task_until_terminal slow_peer sample_env wake None n NaN interval now working_task c = None"
    if "pc_client c" "pc_settings c = polling_settings NaN" for n interval now c
    using that
  proof (induction n arbitrary: interval now c)
    case (Suc n)
    from working_answer [OF Suc.prems] obtain c' where
      "get_task slow_peer sample_env ''t1'' None None c = (Inr working_task, c')" "pc_client c'" "pc_settings c' = polling_settings NaN"
      by blast
    with Suc.IH show ?case
      by (simp add: working_task_def flt_sub_def is_terminal_state_def terminal_task_states_def should_poll_state_def auto_polling_task_states_def)
  qed simp
  then show "pc_client c \<Longrightarrow> pc_settings c = polling_settings NaN \<Longrightarrow>
     poll_task_until_terminal slow_peer sample_env wake None n
       (flt_add (Fin started) (pp_timeout (cs_polling (pc_settings c)))) interval now working_task c = None"
    by (simp add: polling_settings_def)
qed

end
