(* ===== verification/Payload_Text.thy ===== *)
theory Payload_Text
  imports Prelude
begin

text \<open>
  The readable text of a peer's answer, \<open>extract_text\<close> of \<open>client/payload_text.py\<close>.  A payload is a JSON
  value or an object of the SDK: its class as far as the code asks for it, its attributes, and the mapping
  that \<open>model_dump\<close>, \<open>dict\<close> or \<open>__dict__\<close> gives, if any.
\<close>

datatype object_class = TextPartClass | MessageClass | OtherClass

datatype peer_payload =
    XNone
  | XBool bool
  | XNumber string  \<comment> \<open>with its \<open>str\<close>\<close>
  | XStr string
  | XList "peer_payload list"
  | XDict "(string \<times> peer_payload) list"
  | XObj object_class "(string \<times> peer_payload) list" "(string \<times> peer_payload) list option"

lemma size_member: "x \<in> set xs \<Longrightarrow> size x < size (XList xs)"
  by (induction xs) auto

lemma size_entry: "(k, v) \<in> set d \<Longrightarrow> size v < size (XDict d)"
  by (induction d) auto

lemma size_map_of: "map_of d k = Some v \<Longrightarrow> size v < size (XDict d)"
  by (rule size_entry) (rule map_of_SomeD)

lemma size_attr: "map_of a k = Some v \<Longrightarrow> size v < size (XObj cls a dump)"
  using size_map_of [of a k v] by simp

text \<open>The first non-empty text.\<close>

fun first_text :: "string option list \<Rightarrow> string option" where
  "first_text [] = None"
| "first_text (Some (c # cs) # ts) = Some (c # cs)"
| "first_text (t # ts) = first_text ts"

text \<open>\<open>getattr(part, "text", None)\<close> of a text part, if it is not empty.\<close>

definition part_text :: "(string \<times> peer_payload) list \<Rightarrow> string list" where
  "part_text attributes = (case map_of attributes ''text'' of Some (XStr (c # cs)) \<Rightarrow> [c # cs] | _ \<Rightarrow> [])"

definition mapping_keys :: "string list" where
  "mapping_keys = [''content'', ''message'', ''messages'', ''result'', ''status'', ''text'', ''parts'', ''artifact'',
     ''artifacts'', ''history'', ''events'', ''root'']"

text \<open>\<open>str(value).strip()\<close> of a string or a number.\<close>

fun scalar_text :: "peer_payload \<Rightarrow> string option" where
  "scalar_text (XStr s) = Some (py_strip s)"
| "scalar_text (XNumber s) = Some (py_strip s)"
| "scalar_text (XBool b) = Some (if b then ''True'' else ''False'')"
| "scalar_text _ = None"

fun items_of :: "peer_payload \<Rightarrow> peer_payload list" where
  "items_of (XList xs) = xs"
| "items_of _ = []"

definition attr :: "(string \<times> peer_payload) list \<Rightarrow> string \<Rightarrow> peer_payload" where
  "attr attributes k = (case map_of attributes k of Some v \<Rightarrow> v | None \<Rightarrow> XNone)"

lemma size_items: "x \<in> set (items_of v) \<Longrightarrow> size x < size v"
  by (cases v) (auto simp: size_member simp del: peer_payload.size)

lemma size_attr_le: "size (attr a k) < size (XObj cls a dump)"
  using size_attr [of a k _ cls dump] by (auto simp: attr_def split: option.splits)

text \<open>
  A part that is a mapping without text of its own: its root, or the text of a whole message.
\<close>

definition nested_part :: "(string \<times> peer_payload) list \<Rightarrow> string option \<Rightarrow> string list" where
  "nested_part d whole =
     (case attr d ''root'' of
        XObj TextPartClass b dump \<Rightarrow> part_text b
      | _ \<Rightarrow> (case attr d ''role'' of
          XStr r \<Rightarrow> (case whole of Some (c # cs) \<Rightarrow> [c # cs] | _ \<Rightarrow> [])
        | _ \<Rightarrow> []))"

definition blank_value :: "peer_payload \<Rightarrow> bool" where
  "blank_value v \<longleftrightarrow> v = XNone \<or> v = XStr []"

lemma size_artifact: "XObj c b dump \<in> set (items_of (attr a k)) \<Longrightarrow> size (attr b j) < size (XObj cls a dmp)"
  using size_attr_le [of b j c dump] size_items [of "XObj c b dump" "attr a k"] size_attr_le [of a k cls dmp] by linarith

lemma size_attr_item: "x \<in> set (items_of (attr a k)) \<Longrightarrow> size x < size (XObj cls a dump)"
  using size_items [of x "attr a k"] size_attr_le [of a k cls dump] by linarith

lemma size_double_less:
  "2 * size (XDict d) - 1 < 2 * size (XDict d)" "2 * size (XDict m) - 1 < 2 * size (XObj cls a (Some m))"
  "x \<in> set ps \<Longrightarrow> 2 * size x + 1 < 2 * size (XList ps)"
  using size_member [of x ps] by simp_all

lemma size_map_of_double: "map_of d k = Some v \<Longrightarrow> 2 * size v < 2 * size (XDict d) - 1"
  using size_map_of [of d k v] by linarith

function (sequential) extract_text :: "peer_payload \<Rightarrow> string option"
  and extract_from_parts :: "peer_payload \<Rightarrow> string option"
  and collect_part :: "peer_payload \<Rightarrow> string list"
  and extract_from_mapping :: "(string \<times> peer_payload) list \<Rightarrow> string option"
where
  "extract_text (XList xs) = first_text (map extract_text xs)"
| "extract_text (XStr s) = nonempty (py_strip s)"
| "extract_text (XDict d) = extract_from_mapping d"
| "extract_text (XObj MessageClass a dump) = extract_from_parts (attr a ''parts'')"
| "extract_text (XObj cls a dump) = first_text
     ([extract_text (attr a ''status''), extract_text (attr a ''message''),
       extract_text (attr a ''artifact''), extract_text (attr a ''result'')]
      @ map extract_text (rev (items_of (attr a ''history'')))
      @ map (\<lambda>x. case x of XObj c b dmp \<Rightarrow> extract_from_parts (attr b ''parts'') | _ \<Rightarrow> None) (items_of (attr a ''artifacts''))
      @ [extract_from_parts (attr a ''parts'')]
      @ map extract_text (items_of (attr a ''events''))
      @ [case dump of Some m \<Rightarrow> extract_from_mapping m | None \<Rightarrow> None])"
| "extract_text _ = None"
| "extract_from_parts (XList ps) =
     (let collected = concat (map collect_part ps)
      in if collected = [] then None else Some (py_join [CHR 0x0A] collected))"
| "extract_from_parts _ = None"
| "collect_part (XObj TextPartClass a dump) = part_text a"
| "collect_part (XObj cls a dump) = (case attr a ''root'' of XObj TextPartClass b dmp \<Rightarrow> part_text b | _ \<Rightarrow> [])"
| "collect_part (XDict d) =
     (case attr d ''text'' of
        XStr s \<Rightarrow> if py_strip s \<noteq> [] then [s] else nested_part d (extract_text (XDict d))
      | _ \<Rightarrow> nested_part d (extract_text (XDict d)))"
| "collect_part _ = []"
| "extract_from_mapping d =
     first_text (map (\<lambda>key.
       case map_of d key of
         None \<Rightarrow> None
       | Some v \<Rightarrow>
           if blank_value v then None
           else first_text
             [if key = ''text'' then scalar_text v else None,
              if key = ''parts'' then extract_from_parts v else None,
              extract_text v]) mapping_keys)"
  by pat_completeness auto

termination
  apply (relation "measure (\<lambda>x. case x of
      Inl (Inl p) \<Rightarrow> 2 * size p
    | Inl (Inr p) \<Rightarrow> 2 * size p
    | Inr (Inl p) \<Rightarrow> 2 * size p + 1
    | Inr (Inr d) \<Rightarrow> 2 * size (XDict d) - 1)")
  apply (simp_all only: wf_measure in_measure sum.case)
  apply (simp_all only: size_member size_attr_le size_attr_item size_artifact set_rev mult_less_cancel1 zero_less_numeral simp_thms)
  apply (simp_all only: size_double_less size_map_of_double)
  done

declare extract_from_mapping.simps [simp del]

text \<open>The text of a message is that of its non-empty text parts, one per line.\<close>

lemma text_of_parts:
  "extract_text (XObj MessageClass [(''parts'', XList (map (\<lambda>t. XObj TextPartClass [(''text'', XStr t)] None) ts))] None) =
     (let texts = filter (\<lambda>t. t \<noteq> []) ts in if texts = [] then None else Some (py_join [CHR 0x0A] texts))"
proof -
  have "concat (map collect_part (map (\<lambda>t. XObj TextPartClass [(''text'', XStr t)] None) ts)) = filter (\<lambda>t. t \<noteq> []) ts"
    by (induction ts) (auto simp: part_text_def split: list.splits)
  then show ?thesis by (simp add: attr_def Let_def)
qed

end
