(* ===== verification/Request_Handler.thy ===== *)
theory Request_Handler
  imports Output_Modes Task_Store
begin

text \<open>
  The request handler over the SDK, \<open>OpencodeRequestHandler\<close> of \<open>server/application.py\<close>: what it adds to
  reading, cancelling and resubscribing to a task and to sending a message, and the call context built
  from an authenticated request.  The SDK's own handler, queues and push notifications are parameters; a
  task of the store is seen as a payload through \<open>view\<close>.
\<close>

section \<open>Errors\<close>

datatype server_error =
    TaskNotFound
  | TaskNotCancelable string
  | InternalFailure "string option"
  | UnsupportedRequest string pdict
  | SdkError string

datatype handler_error = ServerFailure server_error | StoreFailure store_error | OtherFailure string

definition task_store_error_type :: string where
  "task_store_error_type = ''TASK_STORE_UNAVAILABLE''"

definition task_store_failure_message :: "string \<Rightarrow> string" where
  "task_store_failure_message operation =
     (if operation = ''get'' then ''Task store unavailable while loading task state.''
      else if operation = ''save'' then ''Task store unavailable while persisting task state.''
      else if operation = ''delete'' then ''Task store unavailable while deleting task state.''
      else ''Task store unavailable.'')"

definition task_store_failure_metadata :: "string \<Rightarrow> pdict" where
  "task_store_failure_metadata operation =
     [(''opencode'', PDict [(''error'', PDict [(''type'', PStr task_store_error_type), (''operation'', PStr operation)])])]"

definition task_store_server_error :: "string \<Rightarrow> handler_error" where
  "task_store_server_error operation = ServerFailure (InternalFailure (Some (task_store_failure_message operation)))"

text \<open>\<open>except TaskStoreOperationError as exc: raise self._task_store_server_error(exc)\<close>.\<close>

fun store_guarded :: "handler_error + 'a \<Rightarrow> handler_error + 'a" where
  "store_guarded (Inl (StoreFailure (TaskStoreOperationError operation t))) = Inl (task_store_server_error operation)"
| "store_guarded r = r"

definition task_store_failure_task :: "string \<Rightarrow> string \<Rightarrow> string \<Rightarrow> a2a_task" where
  "task_store_failure_task task_id context_id operation =
     (let error_message = \<lparr>msg_parts = [TextPart (task_store_failure_message operation)],
            msg_rest = PDict [(''messageId'', PStr (task_id @ '':task-store-error'')), (''role'', PStr ''agent''),
              (''taskId'', PStr task_id), (''contextId'', PStr context_id)]\<rparr>
      in \<lparr>at_state = failed, at_status_message = Some error_message, at_history = Some [error_message], at_artifacts = None,
          at_metadata = Some (task_store_failure_metadata operation),
          at_rest = PDict [(''id'', PStr task_id), (''contextId'', PStr context_id)]\<rparr>)"

definition task_store_failure_events :: "string \<Rightarrow> string \<Rightarrow> string \<Rightarrow> payload list" where
  "task_store_failure_events task_id context_id operation =
     [PArtifact \<lparr>ar_artifact = \<lparr>art_parts = [TextPart (task_store_failure_message operation)],
          art_rest = PDict [(''artifactId'', PStr (task_id @ '':error''))]\<rparr>, ar_metadata = None,
        ar_rest = PDict [(''taskId'', PStr task_id), (''contextId'', PStr context_id), (''append'', PBool False),
          (''lastChunk'', PBool True)]\<rparr>,
      PStatus \<lparr>se_state = failed, se_message = None, se_metadata = Some (task_store_failure_metadata operation),
        se_rest = PDict [(''taskId'', PStr task_id), (''contextId'', PStr context_id), (''final'', PBool True)]\<rparr>]"

section \<open>Parameters of a message\<close>

record configuration =
  cf_accepted_output_modes :: pyval
  cf_blocking :: "bool option"
  cf_history_length :: "int option"

record message_params =
  mp_context_id :: "string option"
  mp_configuration :: "configuration option"

definition resolve_context_id_from_params :: "message_params \<Rightarrow> string \<Rightarrow> string" where
  "resolve_context_id_from_params params task_id = the (str_or (mp_context_id params) (Some task_id))"

definition extract_accepted_output_modes :: "message_params \<Rightarrow> string list option" where
  "extract_accepted_output_modes params =
     (case mp_configuration params of
        None \<Rightarrow> normalize_accepted_output_modes (ModesValue PNone)
      | Some c \<Rightarrow> normalize_accepted_output_modes (ModesConfig (cf_accepted_output_modes c)))"

definition chat_output_modes :: "string list" where
  "chat_output_modes = [''text/plain'', ''application/json'']"

text \<open>\<open>compatible\<close> is the SDK's \<open>are_modalities_compatible\<close>.\<close>

definition validate_chat_output_modes :: "(string list \<Rightarrow> string list \<Rightarrow> bool) \<Rightarrow> message_params \<Rightarrow> handler_error + unit" where
  "validate_chat_output_modes compatible params =
     (case extract_accepted_output_modes params of
        None \<Rightarrow> Inr ()
      | Some [] \<Rightarrow> Inr ()
      | Some modes \<Rightarrow>
          (let strings = (\<lambda>ms. PList (map PStr ms))
           in if \<not> compatible chat_output_modes modes
              then Inl (ServerFailure (UnsupportedRequest
                     ''Requested acceptedOutputModes are not compatible with OpenCode chat responses.''
                     [(''accepted_output_modes'', strings modes), (''supported_output_modes'', strings chat_output_modes)]))
              else if ''text/plain'' \<notin> set modes
              then Inl (ServerFailure (UnsupportedRequest
                     ''OpenCode chat responses require text/plain in acceptedOutputModes.''
                     [(''accepted_output_modes'', strings modes), (''required_output_modes'', strings [''text/plain'']),
                      (''supported_output_modes'', strings chat_output_modes)]))
              else Inr ()))"

definition apply_task_output_negotiation :: "py_floats \<Rightarrow> a2a_task \<Rightarrow> a2a_task" where
  "apply_task_output_negotiation fl t =
     (case apply_accepted_output_modes fl
             (case extract_accepted_output_modes_from_metadata (at_metadata t) of
                None \<Rightarrow> ModesValue PNone | Some ms \<Rightarrow> modes_tuple ms) (PTask t) of
        Some (PTask t') \<Rightarrow> t' | _ \<Rightarrow> t)"

section \<open>Reading, cancelling and resubscribing\<close>

record 's sdk_handler =
  sd_terminal_states :: "task_state list"
  sd_state_text :: "task_state \<Rightarrow> string"
  sd_get_task :: "string \<Rightarrow> 's \<Rightarrow> (handler_error + a2a_task option) \<times> 's"
  sd_cancel_task :: "string \<Rightarrow> 's \<Rightarrow> (handler_error + task option) \<times> 's"
  sd_resubscribe :: "string \<Rightarrow> 's \<Rightarrow> (payload list \<times> handler_error option) \<times> 's"

definition on_get_task :: "py_floats \<Rightarrow> 's sdk_handler \<Rightarrow> string \<Rightarrow> 's \<Rightarrow> (handler_error + a2a_task option) \<times> 's" where
  "on_get_task fl S task_id s =
     (let (r, s') = sd_get_task S task_id s
      in (store_guarded (ebind r (\<lambda>t. Inr (map_option (apply_task_output_negotiation fl) t))), s'))"

definition stored_task :: "'s raw_store \<Rightarrow> store \<Rightarrow> string \<Rightarrow> 's \<Rightarrow> (handler_error + task option) \<times> 's" where
  "stored_task R st task_id s =
     (case store_get R st task_id s of (Inl e, s') \<Rightarrow> (Inl (StoreFailure e), s') | (Inr t, s') \<Rightarrow> (Inr t, s'))"

text \<open>After the SDK refused: the task may have become canceled between the check and the call.\<close>

definition cancel_refused ::
  "'s raw_store \<Rightarrow> store \<Rightarrow> string \<Rightarrow> string \<Rightarrow> 's \<Rightarrow> (handler_error + task option) \<times> 's" where
  "cancel_refused R st task_id msg s =
     (case stored_task R st task_id s of
        (Inl e, s') \<Rightarrow> (Inl e, s')
      | (Inr (Some t), s') \<Rightarrow>
          (if tk_state t = canceled then (Inr (Some t), s') else (Inl (ServerFailure (TaskNotCancelable msg)), s'))
      | (Inr None, s') \<Rightarrow> (Inl (ServerFailure (TaskNotCancelable msg)), s'))"

definition on_cancel_task ::
  "'s raw_store \<Rightarrow> store \<Rightarrow> 's sdk_handler \<Rightarrow> string \<Rightarrow> 's \<Rightarrow> (handler_error + task option) \<times> 's" where
  "on_cancel_task R st S task_id s =
     (let (r, s') =
        (case stored_task R st task_id s of
           (Inl e, s1) \<Rightarrow> (Inl e, s1)
         | (Inr None, s1) \<Rightarrow> (Inl (ServerFailure TaskNotFound), s1)
         | (Inr (Some t), s1) \<Rightarrow>
             (if tk_state t = canceled then (Inr (Some t), s1)
              else if tk_state t \<in> set (sd_terminal_states S)
              then (Inl (ServerFailure (TaskNotCancelable
                     (''Task cannot be canceled - current state: '' @ sd_state_text S (tk_state t)))), s1)
              else (case sd_cancel_task S task_id s1 of
                  (Inl (ServerFailure (TaskNotCancelable msg)), s2) \<Rightarrow> cancel_refused R st task_id msg s2
                | (r, s2) \<Rightarrow> (r, s2))))
      in (store_guarded r, s'))"

text \<open>\<open>getattr(event, "metadata", None)\<close>.\<close>

fun event_metadata :: "payload \<Rightarrow> pdict option" where
  "event_metadata (PTask t) = at_metadata t"
| "event_metadata (PStatus e) = se_metadata e"
| "event_metadata (PArtifact e) = ar_metadata e"
| "event_metadata (PMessage m) = (case pget (mapping_or_empty (msg_rest m)) ''metadata'' of PDict d \<Rightarrow> Some d | _ \<Rightarrow> None)"
| "event_metadata (POther v) = None"

definition negotiated_event :: "py_floats \<Rightarrow> payload \<Rightarrow> payload option" where
  "negotiated_event fl e =
     apply_accepted_output_modes fl
       (case extract_accepted_output_modes_from_metadata (event_metadata e) of
          None \<Rightarrow> ModesValue PNone | Some ms \<Rightarrow> modes_tuple ms) e"

definition on_resubscribe_to_task ::
  "py_floats \<Rightarrow> 's raw_store \<Rightarrow> store \<Rightarrow> 's sdk_handler \<Rightarrow> (task \<Rightarrow> a2a_task) \<Rightarrow> string \<Rightarrow> 's
     \<Rightarrow> (payload list \<times> handler_error option) \<times> 's" where
  "on_resubscribe_to_task fl R st S view task_id s =
     (let ((events, e), s') =
        (case stored_task R st task_id s of
           (Inl e, s1) \<Rightarrow> (([], Some e), s1)
         | (Inr None, s1) \<Rightarrow> (([], Some (ServerFailure TaskNotFound)), s1)
         | (Inr (Some t), s1) \<Rightarrow>
             (if tk_state t \<in> set (sd_terminal_states S)
              then (([PTask (apply_task_output_negotiation fl (view t))], None), s1)
              else (let ((events, e), s2) = sd_resubscribe S task_id s1
                    in ((List.map_filter (negotiated_event fl) events, e), s2))))
      in ((events, case e of None \<Rightarrow> None
                   | Some x \<Rightarrow> (case store_guarded (Inl x) of Inl y \<Rightarrow> Some y | Inr (_ :: unit) \<Rightarrow> None)), s'))"

section \<open>Sending a message\<close>

text \<open>
  What a request does beside answering, in order.  A script says how the environment behaves: the events
  of the aggregator (theory Output_Modes) with the way their iteration ends, and the push notifications.
\<close>

datatype handler_effect =
    CountStream
  | ActiveStreams int
  | PushNotification
  | CancelProducer
  | CloseQueue
  | ScheduleCleanup
  | AwaitCleanup
  | TrackBackground

datatype stream_end = Exhausted | Raised handler_error | Disconnected

text \<open>\<open>mismatch\<close> is the SDK's \<open>_validate_task_id_match\<close>, \<open>id_of\<close> the attribute \<open>id\<close> of an event.\<close>

record send_env =
  en_id_of :: "payload \<Rightarrow> string option"
  en_mismatch :: "string \<Rightarrow> string \<Rightarrow> handler_error option"
  en_push :: "payload list \<Rightarrow> handler_error option"

fun id_error :: "send_env \<Rightarrow> string \<Rightarrow> payload \<Rightarrow> handler_error option" where
  "id_error V task_id e = (case en_id_of V e of None \<Rightarrow> None | Some [] \<Rightarrow> None | Some i \<Rightarrow> en_mismatch V task_id i)"

text \<open>The body of the loop of the stream; the third argument is what has been yielded.\<close>

fun emit_events :: "send_env \<Rightarrow> string \<Rightarrow> payload list \<Rightarrow> stream_end \<Rightarrow> payload list
     \<Rightarrow> payload list \<times> handler_effect list \<times> stream_end" where
  "emit_events V task_id sent ending [] = (sent, [], ending)"
| "emit_events V task_id sent ending (e # es) =
     (case id_error V task_id e of
        Some err \<Rightarrow> (sent, [], Raised err)
      | None \<Rightarrow>
          (case en_push V (sent @ [e]) of
             Some err \<Rightarrow> (sent, [PushNotification], Raised err)
           | None \<Rightarrow>
               (let (out, effects, ending') = emit_events V task_id (sent @ [e]) ending es
                in (out, PushNotification # effects, ending'))))"

definition on_message_send_stream ::
  "(string list \<Rightarrow> string list \<Rightarrow> bool) \<Rightarrow> send_env \<Rightarrow> message_params \<Rightarrow> handler_error + string
     \<Rightarrow> payload list \<times> stream_end \<Rightarrow> payload list \<times> handler_effect list \<times> stream_end" where
  "on_message_send_stream compatible V params setup script =
     (case ebind (validate_chat_output_modes compatible params) (\<lambda>_. setup) of
        Inl err \<Rightarrow> ([], [], Raised err)
      | Inr task_id \<Rightarrow>
          (let (out, effects, ending) = emit_events V task_id [] (snd script) (fst script);
               opened = [CountStream, ActiveStreams 1];
               closed = [ActiveStreams (- 1), ScheduleCleanup]
           in case ending of
                Raised (StoreFailure (TaskStoreOperationError operation t)) \<Rightarrow>
                  (out @ task_store_failure_events task_id (resolve_context_id_from_params params task_id) operation,
                   opened @ effects @ closed, Exhausted)
              | Disconnected \<Rightarrow> (out, opened @ effects @ [CancelProducer, CloseQueue] @ closed, Disconnected)
              | _ \<Rightarrow> (out, opened @ effects @ closed, ending)))"

text \<open>
  \<open>on_message_send\<close> on the outcome of the aggregator: its result, whether it was interrupted, and whether
  a background task goes on consuming.  \<open>cancelled\<close> says that the request's task is cancelled when
  \<open>finally\<close> runs.  \<open>trim\<close> is the SDK's \<open>apply_history_length\<close>.
\<close>

record send_outcome =
  so_result :: "payload option"
  so_interrupted :: bool
  so_background :: bool

definition message_answer ::
  "send_env \<Rightarrow> (a2a_task \<Rightarrow> int option \<Rightarrow> a2a_task) \<Rightarrow> message_params \<Rightarrow> string \<Rightarrow> payload option
     \<Rightarrow> (handler_error + payload) \<times> handler_effect list" where
  "message_answer V trim params task_id res =
     (case res of
        None \<Rightarrow> (Inl (ServerFailure (InternalFailure None)), [])
      | Some r \<Rightarrow>
          (case id_error V task_id r of
             Some err \<Rightarrow> (Inl err, [])
           | None \<Rightarrow>
               (let r' = (case (en_id_of V r, mp_configuration params, r) of
                      (Some (c # cs), Some cf, PTask t) \<Rightarrow> PTask (trim t (cf_history_length cf)) | _ \<Rightarrow> r)
                in case en_push V [r'] of
                     Some err \<Rightarrow> (Inl err, [PushNotification]) | None \<Rightarrow> (Inr r', [PushNotification]))))"

definition on_message_send ::
  "(string list \<Rightarrow> string list \<Rightarrow> bool) \<Rightarrow> send_env \<Rightarrow> (a2a_task \<Rightarrow> int option \<Rightarrow> a2a_task) \<Rightarrow> message_params
     \<Rightarrow> handler_error + string \<Rightarrow> (bool \<Rightarrow> handler_error + send_outcome) \<Rightarrow> bool
     \<Rightarrow> (handler_error + payload) \<times> handler_effect list" where
  "on_message_send compatible V trim params setup consume cancelled =
     (case ebind (validate_chat_output_modes compatible params) (\<lambda>_. setup) of
        Inl err \<Rightarrow> (Inl err, [])
      | Inr task_id \<Rightarrow>
          (let blocking = (case mp_configuration params of Some c \<Rightarrow> cf_blocking c \<noteq> Some False | None \<Rightarrow> True);
               outcome = consume blocking;
               waited = (if cancelled then [CancelProducer, CloseQueue] else []) @ [AwaitCleanup]
           in case outcome of
                Inl (StoreFailure (TaskStoreOperationError operation t)) \<Rightarrow>
                  (Inr (PTask (task_store_failure_task task_id (resolve_context_id_from_params params task_id) operation)), waited)
              | Inl err \<Rightarrow> (Inl err, waited)
              | Inr o' \<Rightarrow>
                  (let tracked = (if so_background o' then [TrackBackground] else []);
                       finally = (if so_interrupted o' then [ScheduleCleanup] else waited);
                       (r, effects) = message_answer V trim params task_id (so_result o')
                   in (r, tracked @ finally @ effects))))"

section \<open>The context of a call\<close>

text \<open>What the middlewares left on the request; \<open>raw_path\<close> is already decoded.\<close>

record request_state =
  rs_path :: string
  rs_raw_path :: string
  rs_identity :: "string option"
  rs_auth_scheme :: "string option"
  rs_credential_id :: "string option"
  rs_traceparent :: "string option"
  rs_tracestate :: "string option"
  rs_trace_id :: "string option"
  rs_protocol_version :: "string option"
  rs_requested_protocol_version :: "string option"

definition ends_in :: "string \<Rightarrow> string \<Rightarrow> bool" where
  "ends_in s suff \<longleftrightarrow> length suff \<le> length s \<and> drop (length s - length suff) s = suff"

definition is_stream_request :: "request_state \<Rightarrow> bool" where
  "is_stream_request rq \<longleftrightarrow>
     ends_in (rs_path rq) ''/v1/message:stream'' \<or> ends_in (rs_path rq) ''/v1/message%3Astream'' \<or>
     ends_in (rs_raw_path rq) ''/v1/message:stream'' \<or> ends_in (rs_raw_path rq) ''/v1/message%3Astream''"

definition set_if :: "string \<Rightarrow> string option \<Rightarrow> pdict \<Rightarrow> pdict" where
  "set_if key v state = (if truthy_str v then dict_set key (PStr (the v)) state else state)"

definition build_call_state :: "request_state \<Rightarrow> pdict \<Rightarrow> pdict" where
  "build_call_state rq base =
     (let state = (if is_stream_request rq then dict_set ''a2a_streaming_request'' (PBool True) base else base)
      in set_if ''a2a_requested_protocol_version'' (rs_requested_protocol_version rq)
           (set_if ''a2a_protocol_version'' (rs_protocol_version rq)
           (set_if ''trace_id'' (rs_trace_id rq)
           (set_if ''tracestate'' (rs_tracestate rq)
           (set_if ''traceparent'' (rs_traceparent rq)
           (set_if ''credential_id'' (rs_credential_id rq)
           (set_if ''auth_scheme'' (rs_auth_scheme rq)
           (set_if ''identity'' (rs_identity rq) state))))))))"

definition normalize_log_level :: "string option \<Rightarrow> string" where
  "normalize_log_level v =
     (let normalized = map (\<lambda>c. let n = (of_char c :: nat) in if 97 \<le> n \<and> n \<le> 122 then char_of (n - 32) else c)
            (py_strip (case v of None \<Rightarrow> [] | Some s \<Rightarrow> s))
      in if normalized \<in> {''CRITICAL'', ''ERROR'', ''WARNING'', ''INFO'', ''DEBUG''} then normalized else ''WARNING'')"

section \<open>Correctness\<close>

lemma store_guarded_no_store_error: "store_guarded r \<noteq> Inl (StoreFailure (TaskStoreOperationError operation t))"
  by (cases r rule: store_guarded.cases) (auto simp: task_store_server_error_def)

lemma store_guarded_server [simp]: "store_guarded r = Inl (ServerFailure (TaskNotCancelable m)) \<longleftrightarrow>
    r = Inl (ServerFailure (TaskNotCancelable m))"
  by (cases r rule: store_guarded.cases) (auto simp: task_store_server_error_def)

lemma stored_task_error: "stored_task R st task_id s = (Inl e, u) \<Longrightarrow> \<exists>x. e = StoreFailure x"
  by (auto simp: stored_task_def split: sum.splits prod.splits)

lemma refused_after_read:
  assumes "cancel_refused R st task_id m' s = (Inl (ServerFailure (TaskNotCancelable m)), s')"
  shows "\<exists>u x. stored_task R st task_id u = (Inr x, s') \<and> (\<forall>t. x = Some t \<longrightarrow> tk_state t \<noteq> canceled)"
proof -
  obtain x u where "stored_task R st task_id s = (x, u)" by force
  with assms show ?thesis
    by (cases x) (auto simp: cancel_refused_def dest!: stored_task_error split: option.splits if_splits)
qed

lemma reported_refusal:
  assumes "on_cancel_task R st S task_id s = (Inl (ServerFailure (TaskNotCancelable m)), s')"
  shows "\<exists>u x. stored_task R st task_id u = (Inr x, s') \<and> (\<forall>t. x = Some t \<longrightarrow> tk_state t \<noteq> canceled)"
proof -
  obtain r1 s1 where read: "stored_task R st task_id s = (r1, s1)" by force
  show ?thesis
  proof (cases r1)
    case (Inl e)
    then show ?thesis using assms read stored_task_error [of R st task_id s e s1] by (auto simp: on_cancel_task_def)
  next
    case (Inr x)
    show ?thesis
    proof (cases x)
      case None
      then show ?thesis using assms read Inr by (auto simp: on_cancel_task_def)
    next
      case (Some t)
      show ?thesis
      proof (cases "tk_state t = canceled \<or> tk_state t \<in> set (sd_terminal_states S)")
        case True
        then show ?thesis using assms read Inr Some by (auto simp: on_cancel_task_def split: if_splits)
      next
        case False
        obtain q s2 where sd: "sd_cancel_task S task_id s1 = (q, s2)" by force
        show ?thesis
        proof (cases "\<exists>m'. q = Inl (ServerFailure (TaskNotCancelable m'))")
          case True
          then obtain m' where q: "q = Inl (ServerFailure (TaskNotCancelable m'))" ..
          obtain c u where c: "cancel_refused R st task_id m' s2 = (c, u)" by force
          show ?thesis using assms read Inr Some False sd q c refused_after_read by (auto simp: on_cancel_task_def)
        next
          case nq: False
          then have "on_cancel_task R st S task_id s = (store_guarded q, s2)"
            using read Inr Some False sd
            by (cases q; cases "projl q"; cases "case projl q of ServerFailure e \<Rightarrow> e | _ \<Rightarrow> TaskNotFound")
              (auto simp: on_cancel_task_def)
          with assms nq show ?thesis by auto
        qed
      qed
    qed
  qed
qed


text \<open>The sum of the changes of the gauge of active streams, and how often the producer is cleaned up.\<close>

fun gauge :: "handler_effect list \<Rightarrow> int" where
  "gauge [] = 0"
| "gauge (ActiveStreams d # es) = d + gauge es"
| "gauge (_ # es) = gauge es"

definition cleanups :: "handler_effect list \<Rightarrow> nat" where
  "cleanups es = length (filter (\<lambda>e. e = ScheduleCleanup \<or> e = AwaitCleanup) es)"

lemma gauge_append [simp]: "gauge (a @ b) = gauge a + gauge b"
  by (induction a rule: gauge.induct) auto

lemma cleanups_simps [simp]: "cleanups [] = 0"
    "cleanups (e # es) = (if e = ScheduleCleanup \<or> e = AwaitCleanup then Suc (cleanups es) else cleanups es)"
  by (simp_all add: cleanups_def)

lemma cleanups_append [simp]: "cleanups (a @ b) = cleanups a + cleanups b"
  by (simp add: cleanups_def)

lemma emit_events_effects:
  "emit_events V task_id sent ending es = (out, effects, ending') \<Longrightarrow>
     gauge effects = 0 \<and> cleanups effects = 0 \<and> (\<exists>more. out = sent @ more \<and> length more \<le> length es \<and> more = take (length more) es)"
proof (induction es arbitrary: sent out effects)
  case (Cons e es)
  show ?case
  proof (cases "id_error V task_id e \<noteq> None \<or> en_push V (sent @ [e]) \<noteq> None")
    case True
    with Cons.prems show ?thesis by (auto split: option.splits)
  next
    case False
    obtain o1 e1 n1 where r: "emit_events V task_id (sent @ [e]) ending es = (o1, e1, n1)" by (cases "emit_events V task_id (sent @ [e]) ending es")
    with Cons.prems False have eq: "out = o1" "effects = PushNotification # e1" "ending' = n1" by auto
    with Cons.IH [of "sent @ [e]" o1 e1] r obtain more where "gauge e1 = 0" "cleanups e1 = 0" "o1 = (sent @ [e]) @ more"
      "length more \<le> length es" "more = take (length more) es" by blast
    with eq show ?thesis by (intro conjI exI [of _ "e # more"]) auto
  qed
qed auto

lemma end_cases:
  obtains "n = Exhausted" | "n = Disconnected" | f where "n = Raised (ServerFailure f)" | m where "n = Raised (OtherFailure m)"
    | m where "n = Raised (StoreFailure (OtherError m))"
    | operation t where "n = Raised (StoreFailure (TaskStoreOperationError operation t))"
  by (metis handler_error.exhaust store_error.exhaust stream_end.exhaust)


text \<open>
  A chat request is admitted exactly when it names no output mode or accepts plain text; then the
  negotiation of its answer keeps every text as it is and loses no structured data.
\<close>

theorem admitted_chats_keep_text:
  assumes "\<And>a b. compatible a b \<longleftrightarrow> a = [] \<or> b = [] \<or> (\<exists>m \<in> set b. m \<in> set a)"
  shows "(validate_chat_output_modes compatible params = Inr ()) =
      (case extract_accepted_output_modes params of None \<Rightarrow> True | Some ms \<Rightarrow> ms = [] \<or> ''text/plain'' \<in> set ms) \<and>
    (\<forall>ms t d. validate_chat_output_modes compatible params = Inr () \<longrightarrow> extract_accepted_output_modes params = Some ms \<longrightarrow> ms \<noteq> [] \<longrightarrow>
      filter_part fl ms (TextPart t) = [TextPart t] \<and> filter_part fl ms (DataPart d) \<noteq> [])"
  using assms
  by (auto simp: validate_chat_output_modes_def Let_def filter_part_def accepts_output_mode_def chat_output_modes_def
      split: option.splits list.splits if_splits)

section \<open>Concrete requests\<close>

definition canceled_task :: task where
  "canceled_task = \<lparr>tk_id = ''t1'', tk_context_id = ''c1'', tk_state = canceled, tk_rest = PNone\<rparr>"

definition one_task_store :: "task raw_store" where
  "one_task_store = \<lparr>raw_get = (\<lambda>i s. (Inr (Some s), s)), raw_save = (\<lambda>t s. (Inr (), t)), raw_delete = (\<lambda>i s. (Inr (), s)),
     raw_execute = (\<lambda>q s. (Inr None, s)), raw_list = (\<lambda>s. (Inr [s], s))\<rparr>"

definition refusing_sdk :: "task sdk_handler" where
  "refusing_sdk = \<lparr>sd_terminal_states = terminal_task_states, sd_state_text = state_value, sd_get_task = (\<lambda>i s. (Inr None, s)),
     sd_cancel_task = (\<lambda>i s. (Inl (ServerFailure (TaskNotCancelable [])), s)), sd_resubscribe = (\<lambda>i s. (([], None), s))\<rparr>"


definition plain_params :: message_params where
  "plain_params = \<lparr>mp_context_id = Some ''c1'', mp_configuration = Some \<lparr>cf_accepted_output_modes = PList [PStr ''text/plain''],
     cf_blocking = None, cf_history_length = None\<rparr>\<rparr>"

definition quiet_env :: send_env where
  "quiet_env = \<lparr>en_id_of = (\<lambda>_. None), en_mismatch = (\<lambda>_ _. None), en_push = (\<lambda>_. None)\<rparr>"

definition shares_mode :: "string list \<Rightarrow> string list \<Rightarrow> bool" where
  "shares_mode a b \<longleftrightarrow> a = [] \<or> b = [] \<or> (\<exists>m \<in> set b. m \<in> set a)"

lemma plain_params_valid: "validate_chat_output_modes shares_mode plain_params = Inr ()"
  by code_simp


theorem admitted_chats_keep_text_witness:
  "filter_part \<lparr>pf_repr = (\<lambda>_. []), pf_parse = (\<lambda>_. None)\<rparr> [''text/plain''] (TextPart ''hello'') = [TextPart ''hello'']"
proof -
  have "extract_accepted_output_modes plain_params = Some [''text/plain'']" by code_simp
  with admitted_chats_keep_text [of shares_mode plain_params] plain_params_valid show ?thesis by (simp add: shares_mode_def)
qed

end
