(* ===== verification/Server_Settings.thy ===== *)
theory Server_Settings
  imports Client_Settings Sandbox_Policy Json_Text
begin

text \<open>
  The settings of the server (\<open>config.py\<close>): the parsing of declared lists and credentials, the fields with
  their defaults and bounds, the validators, and what the server derives from valid settings.  Reading the
  environment and converting text to the declared types is pydantic's.
\<close>

section \<open>Declared lists and credentials\<close>

datatype raw_value = RawNone | RawText string | RawItems "pyval list" | RawOther

text \<open>\<open>str(item)\<close> of a decoded JSON value is a parameter; for a string it is the string.\<close>

definition nonblank_items :: "string list \<Rightarrow> string list" where
  "nonblank_items items = filter (\<lambda>i. i \<noteq> []) (map py_strip items)"

definition parse_declared_list :: "py_texts \<Rightarrow> (json \<Rightarrow> string) \<Rightarrow> raw_value \<Rightarrow> string + string list" where
  "parse_declared_list T json_item v =
     (case v of
        RawNone \<Rightarrow> Inr []
      | RawText text \<Rightarrow>
          (let raw = py_strip text; separated = Inr (nonblank_items (split_at (CHR '','') raw))
           in if raw = [] then Inr []
              else if hd raw = CHR ''['' then
                (case json_loads (codes raw) of
                   None \<Rightarrow> separated
                 | Some (JList items) \<Rightarrow> Inr (nonblank_items (map json_item items))
                 | Some _ \<Rightarrow> Inl ''Expected a JSON array for declared list values.'')
              else separated)
      | RawItems items \<Rightarrow> Inr (nonblank_items (map (str_of T) items))
      | RawOther \<Rightarrow> Inl ''Expected a comma-separated string, JSON array, or sequence.'')"

text \<open>The elements of the array go to the model of a credential; pydantic builds its fields.\<close>

definition parse_auth_credentials :: "(json \<Rightarrow> string + auth_entry) \<Rightarrow> (pyval \<Rightarrow> string + auth_entry) \<Rightarrow> raw_value \<Rightarrow> string + auth_entry list" where
  "parse_auth_credentials of_json of_value v =
     (case v of
        RawNone \<Rightarrow> Inr []
      | RawText text \<Rightarrow>
          (let raw = py_strip text
           in if raw = [] then Inr []
              else (case json_loads (codes raw) of
                  Some (JList items) \<Rightarrow> emap of_json items
                | _ \<Rightarrow> Inl ''Expected a JSON array for static auth credentials.''))
      | RawItems items \<Rightarrow> emap of_value items
      | RawOther \<Rightarrow> Inl ''Expected a JSON array or sequence for static auth credentials.'')"

section \<open>The fields\<close>

record server_settings =
  s_opencode_base_url :: string
  s_opencode_workspace_root :: "string option"
  s_opencode_agent :: "string option"
  s_opencode_system :: "string option"
  s_opencode_variant :: "string option"
  s_opencode_timeout :: flt
  s_opencode_timeout_stream :: "flt option"
  s_opencode_max_concurrent_requests :: int
  s_opencode_max_concurrent_streams :: int
  s_a2a_public_url :: string
  s_a2a_project :: "string option"
  s_a2a_title :: string
  s_a2a_description :: string
  s_a2a_version :: string
  s_a2a_protocol_version :: string
  s_a2a_supported_protocol_versions :: "string list"
  s_a2a_log_level :: string
  s_a2a_log_payloads :: bool
  s_a2a_log_body_limit :: int
  s_a2a_http_gzip_minimum_size :: int
  s_a2a_max_request_body_bytes :: int
  s_a2a_documentation_url :: "string option"
  s_a2a_allow_directory_override :: bool
  s_a2a_enable_session_shell :: bool
  s_a2a_enable_workspace_mutations :: bool
  s_a2a_sandbox_mode :: string
  s_a2a_sandbox_filesystem_scope :: string
  s_a2a_sandbox_writable_roots :: "string list"
  s_a2a_network_access :: string
  s_a2a_network_allowed_domains :: "string list"
  s_a2a_approval_policy :: string
  s_a2a_approval_escalation_behavior :: string
  s_a2a_write_access_scope :: string
  s_a2a_write_access_outside_workspace :: string
  s_a2a_host :: string
  s_a2a_port :: int
  s_a2a_static_auth_credentials :: "auth_entry list"
  s_a2a_pending_session_claim_ttl_seconds :: flt
  s_a2a_interrupt_request_ttl_seconds :: flt
  s_a2a_interrupt_request_tombstone_ttl_seconds :: flt
  s_a2a_cancel_abort_timeout_seconds :: flt
  s_a2a_client_timeout_seconds :: flt
  s_a2a_client_card_fetch_timeout_seconds :: flt
  s_a2a_client_use_client_preference :: bool
  s_a2a_client_bearer_token :: "string option"
  s_a2a_client_basic_auth :: "string option"
  s_a2a_client_protocol_version :: "string option"
  s_a2a_client_cache_ttl_seconds :: flt
  s_a2a_client_cache_maxsize :: int
  s_a2a_client_supported_transports :: "string list"
  s_a2a_task_store_backend :: string
  s_a2a_task_store_database_url :: "string option"

definition declared_defaults :: "string \<Rightarrow> server_settings" where
  "declared_defaults version = \<lparr>
     s_opencode_base_url = ''http://127.0.0.1:4096'', s_opencode_workspace_root = None, s_opencode_agent = None,
     s_opencode_system = None, s_opencode_variant = None, s_opencode_timeout = Fin 120,
     s_opencode_timeout_stream = None, s_opencode_max_concurrent_requests = 0, s_opencode_max_concurrent_streams = 0,
     s_a2a_public_url = ''http://127.0.0.1:8000'', s_a2a_project = None, s_a2a_title = ''OpenCode A2A'',
     s_a2a_description = ''OpenCode A2A runtime'', s_a2a_version = version, s_a2a_protocol_version = ''0.3'',
     s_a2a_supported_protocol_versions = [''0.3'', ''1.0''], s_a2a_log_level = ''WARNING'',
     s_a2a_log_payloads = False, s_a2a_log_body_limit = 0, s_a2a_http_gzip_minimum_size = 8192,
     s_a2a_max_request_body_bytes = 1048576, s_a2a_documentation_url = None, s_a2a_allow_directory_override = True,
     s_a2a_enable_session_shell = False, s_a2a_enable_workspace_mutations = False, s_a2a_sandbox_mode = ''unknown'',
     s_a2a_sandbox_filesystem_scope = ''unknown'', s_a2a_sandbox_writable_roots = [],
     s_a2a_network_access = ''unknown'', s_a2a_network_allowed_domains = [], s_a2a_approval_policy = ''unknown'',
     s_a2a_approval_escalation_behavior = ''unknown'', s_a2a_write_access_scope = ''unknown'',
     s_a2a_write_access_outside_workspace = ''unknown'', s_a2a_host = ''127.0.0.1'', s_a2a_port = 8000,
     s_a2a_static_auth_credentials = [], s_a2a_pending_session_claim_ttl_seconds = Fin 30,
     s_a2a_interrupt_request_ttl_seconds = Fin 10800, s_a2a_interrupt_request_tombstone_ttl_seconds = Fin 600,
     s_a2a_cancel_abort_timeout_seconds = Fin 2, s_a2a_client_timeout_seconds = Fin 30,
     s_a2a_client_card_fetch_timeout_seconds = Fin 5, s_a2a_client_use_client_preference = False,
     s_a2a_client_bearer_token = None, s_a2a_client_basic_auth = None, s_a2a_client_protocol_version = None,
     s_a2a_client_cache_ttl_seconds = Fin 900, s_a2a_client_cache_maxsize = 256,
     s_a2a_client_supported_transports = [''JSONRPC'', ''HTTP+JSON''], s_a2a_task_store_backend = ''database'',
     s_a2a_task_store_database_url = Some ''sqlite+aiosqlite:///./opencode-a2a.db''\<rparr>"

text \<open>The bounds and choices of the declarations.\<close>

definition field_constraints :: "server_settings \<Rightarrow> bool" where
  "field_constraints s \<longleftrightarrow>
     0 \<le> s_opencode_max_concurrent_requests s \<and> 0 \<le> s_opencode_max_concurrent_streams s \<and>
     0 \<le> s_a2a_http_gzip_minimum_size s \<and> 0 \<le> s_a2a_max_request_body_bytes s \<and>
     s_a2a_sandbox_mode s \<in> {''unknown'', ''read-only'', ''workspace-write'', ''danger-full-access'', ''custom''} \<and>
     s_a2a_sandbox_filesystem_scope s \<in> {''unknown'', ''workspace_only'', ''workspace_and_declared_roots'', ''unrestricted'', ''custom''} \<and>
     s_a2a_network_access s \<in> {''unknown'', ''disabled'', ''enabled'', ''restricted'', ''custom''} \<and>
     s_a2a_approval_policy s \<in> {''unknown'', ''never'', ''on-request'', ''on-failure'', ''untrusted'', ''custom''} \<and>
     s_a2a_approval_escalation_behavior s \<in> {''unknown'', ''manual'', ''automatic'', ''unsupported'', ''custom''} \<and>
     s_a2a_write_access_scope s \<in> {''unknown'', ''none'', ''workspace_only'', ''workspace_and_declared_roots'', ''unrestricted'', ''custom''} \<and>
     s_a2a_write_access_outside_workspace s \<in> {''unknown'', ''allowed'', ''disallowed'', ''custom''} \<and>
     flt_less (Fin 0) (s_a2a_pending_session_claim_ttl_seconds s) \<and>
     flt_le (Fin 0) (s_a2a_interrupt_request_ttl_seconds s) \<and>
     flt_le (Fin 0) (s_a2a_interrupt_request_tombstone_ttl_seconds s) \<and>
     flt_le (Fin 0) (s_a2a_cancel_abort_timeout_seconds s) \<and>
     flt_le (Fin 0) (s_a2a_client_cache_ttl_seconds s) \<and> 0 \<le> s_a2a_client_cache_maxsize s \<and>
     s_a2a_task_store_backend s \<in> {''memory'', ''database''}"

section \<open>Validators\<close>

text \<open>pydantic reports the errors of all fields together; the model keeps the first.\<close>

definition normalize_client_version :: "string option \<Rightarrow> string + string option" where
  "normalize_client_version v =
     (case v of
        None \<Rightarrow> Inr None
      | Some t \<Rightarrow> if py_strip t = [] then Inr None else ebind (normalize_protocol_version (py_strip t)) (\<lambda>w. Inr (Some w)))"

definition normalize_fields :: "server_settings \<Rightarrow> string + server_settings" where
  "normalize_fields s =
     ebind (normalize_protocol_version (s_a2a_protocol_version s)) (\<lambda>version.
     ebind (normalize_protocol_versions (s_a2a_supported_protocol_versions s)) (\<lambda>supported.
     ebind (emap validate_shape (s_a2a_static_auth_credentials s)) (\<lambda>entries.
     ebind (normalize_client_version (s_a2a_client_protocol_version s)) (\<lambda>client_version.
     Inr (s\<lparr>s_a2a_protocol_version := version, s_a2a_supported_protocol_versions := supported,
       s_a2a_static_auth_credentials := entries, s_a2a_client_protocol_version := client_version\<rparr>)))))"

definition sandbox_settings_of :: "server_settings \<Rightarrow> sandbox_settings" where
  "sandbox_settings_of s =
     \<lparr>st_workspace_root = s_opencode_workspace_root s, st_allow_directory_override = s_a2a_allow_directory_override s,
      st_sandbox_mode = s_a2a_sandbox_mode s, st_filesystem_scope = s_a2a_sandbox_filesystem_scope s,
      st_writable_roots = s_a2a_sandbox_writable_roots s, st_write_access_scope = s_a2a_write_access_scope s\<rparr>"

definition validate_model :: "resolver \<Rightarrow> string \<Rightarrow> server_settings \<Rightarrow> string + unit" where
  "validate_model rs cwd s =
     ebind (from_settings rs cwd (sandbox_settings_of s) None) (\<lambda>policy.
     ebind (validate_configuration policy) (\<lambda>_.
     if s_a2a_task_store_backend s = ''database'' \<and> \<not> truthy_str (s_a2a_task_store_database_url s)
     then Inl ''A2A_TASK_STORE_DATABASE_URL is required when A2A_TASK_STORE_BACKEND=database''
     else if s_a2a_protocol_version s \<notin> set (s_a2a_supported_protocol_versions s)
     then Inl (''A2A_PROTOCOL_VERSION must be present in A2A_SUPPORTED_PROTOCOL_VERSIONS. Declared supported versions: ''
            @ py_join '', '' (s_a2a_supported_protocol_versions s))
     else if s_a2a_static_auth_credentials s \<noteq> []
     then (if list_ex en_enabled (s_a2a_static_auth_credentials s) then Inr ()
           else Inl ''A2A_STATIC_AUTH_CREDENTIALS must contain at least one enabled credential'')
     else Inl ''Configure runtime authentication via A2A_STATIC_AUTH_CREDENTIALS''))"

definition load_server_settings :: "resolver \<Rightarrow> string \<Rightarrow> server_settings \<Rightarrow> string + server_settings" where
  "load_server_settings rs cwd raw =
     (if \<not> field_constraints raw then Inl ''Input is out of bounds''
      else ebind (normalize_fields raw) (\<lambda>s. ebind (validate_model rs cwd s) (\<lambda>_. Inr s)))"

section \<open>What the server derives\<close>

text \<open>
  \<open>A2AClientManager.__init__\<close> hands the client's settings on as a mapping.  An infinite float is written as
  its text, which the client reads back as the same float.
\<close>

fun flt_value :: "flt \<Rightarrow> pyval" where
  "flt_value (Fin r) = PFloat r"
| "flt_value PosInf = PStr ''inf''"
| "flt_value NegInf = PStr ''-inf''"
| "flt_value NaN = PStr ''nan''"

fun optional_text :: "string option \<Rightarrow> pyval" where
  "optional_text None = PNone"
| "optional_text (Some t) = PStr t"

definition manager_client_source :: "server_settings \<Rightarrow> settings_source" where
  "manager_client_source s = MappingSource
     [(''A2A_CLIENT_TIMEOUT_SECONDS'', flt_value (s_a2a_client_timeout_seconds s)),
      (''A2A_CLIENT_CARD_FETCH_TIMEOUT_SECONDS'', flt_value (s_a2a_client_card_fetch_timeout_seconds s)),
      (''A2A_CLIENT_USE_CLIENT_PREFERENCE'', PBool (s_a2a_client_use_client_preference s)),
      (''A2A_CLIENT_BEARER_TOKEN'', optional_text (s_a2a_client_bearer_token s)),
      (''A2A_CLIENT_BASIC_AUTH'', optional_text (s_a2a_client_basic_auth s)),
      (''A2A_CLIENT_PROTOCOL_VERSION'', optional_text (str_or (s_a2a_client_protocol_version s) (Some (s_a2a_protocol_version s)))),
      (''A2A_CLIENT_SUPPORTED_TRANSPORTS'', PList (map PStr (s_a2a_client_supported_transports s)))]"

definition uses_database :: "server_settings \<Rightarrow> bool" where
  "uses_database s \<longleftrightarrow> s_a2a_task_store_backend s = ''database''"

section \<open>Valid settings can serve\<close>

lemma emap_id: "(\<And>x. x \<in> set xs \<Longrightarrow> f x = Inr x) \<Longrightarrow> emap f xs = Inr xs"
  by (induction xs) auto

lemma normalized_versions:
  assumes "normalize_protocol_versions vs = Inr ws"
  shows "normalize_protocol_versions ws = Inr ws" "\<And>w. w \<in> set ws \<Longrightarrow> normalize_protocol_version w = Inr w"
proof -
  from assms obtain us where u: "emap normalize_protocol_version vs = Inr us" "ws = rev (remdups (rev us))" "ws \<noteq> []"
    by (auto simp: normalize_protocol_versions_def ebind_Inr_iff Let_def split: if_splits)
  show n: "normalize_protocol_version w = Inr w" if "w \<in> set ws" for w
    using that u(2) emap_set [OF u(1)] by (auto dest: normalize_idem)
  have "rev (remdups (rev ws)) = ws" using u(2) by simp
  with u(3) n show "normalize_protocol_versions ws = Inr ws"
    by (simp add: normalize_protocol_versions_def emap_id)
qed

lemma or_blank_version: "normalize_protocol_version v = Inr w \<Longrightarrow> or_blank (Some v) \<noteq> []"
  by (auto simp: normalize_protocol_version_def or_blank_def Let_def split: if_splits)

lemma version_stripped:
  assumes "normalize_protocol_version v = Inr v"
  shows "or_blank (Some v) = v"
proof -
  from normalized_form [OF assms] obtain a b where ab: "digits a" "digits b" "v = a @ ''.'' @ b" by blast
  then have "list_all (\<lambda>c. \<not> py_space c) v"
    using digits_no_space [OF ab(1)] digits_no_space [OF ab(2)] by (simp add: py_space_def)
  then show ?thesis by (simp add: or_blank_def strip_unspaced)
qed

lemma validated_entry:
  assumes "validate_shape e = Inr e'"
  shows "(en_scheme e' = ''bearer'' \<and> truthy_str (en_token e')) \<or> (truthy_str (en_username e') \<and> truthy_str (en_password e'))"
  using assms by (auto simp: validate_shape_def Let_def split: if_splits)

lemma build_credentials_member:
  "e \<in> set es \<Longrightarrow> en_enabled e \<Longrightarrow> credential_of e \<in> set (build_static_auth_credentials es)"
  by (induction es) auto


definition sample_server :: server_settings where
  "sample_server = (declared_defaults ''0.1'')
     \<lparr>s_opencode_workspace_root := Some ''/srv'',
      s_a2a_static_auth_credentials := [\<lparr>en_credential_id = None, en_scheme = ''bearer'', en_principal = Some ''ci'', en_token = Some ''tok'',
        en_username = None, en_password = None, en_capabilities = [], en_enabled = True\<rparr>]\<rparr>"

lemma sample_server_loads: "load_server_settings plain_resolver ''/srv'' sample_server = Inr sample_server"
  by code_simp


end
