(* ===== verification/Runtime_Profile.thy ===== *)
theory Runtime_Profile
  imports Server_Settings Method_Contracts
begin

text \<open>
  The runtime profile of a deployment (\<open>profile/runtime.py\<close>): what the settings switch on, as the
  documents and the health endpoint report it and as the capability snapshot reads it.
\<close>

section \<open>Profiles\<close>

record deployment_profile =
  dp_id :: string
  dp_single_tenant :: bool
  dp_shared_workspace :: bool
  dp_tenant_isolation :: string

definition declared_deployment :: deployment_profile where
  "declared_deployment = \<lparr>dp_id = ''single_tenant_shared_workspace'', dp_single_tenant = True, dp_shared_workspace = True,
     dp_tenant_isolation = ''none''\<rparr>"

definition deployment_dict :: "deployment_profile \<Rightarrow> pyval" where
  "deployment_dict d = PDict [(''id'', PStr (dp_id d)), (''single_tenant'', PBool (dp_single_tenant d)),
     (''shared_workspace_across_consumers'', PBool (dp_shared_workspace d)), (''tenant_isolation'', PStr (dp_tenant_isolation d))]"

record directory_binding =
  db_allow_override :: bool
  db_scope :: string

definition directory_binding_dict :: "directory_binding \<Rightarrow> pyval" where
  "directory_binding_dict b = PDict [(''allow_override'', PBool (db_allow_override b)), (''scope'', PStr (db_scope b)),
     (''metadata_field'', PStr directory_field)]"

definition workspace_binding_dict :: "bool \<Rightarrow> pyval" where
  "workspace_binding_dict enabled = PDict [(''enabled'', PBool enabled), (''metadata_field'', PStr workspace_field),
     (''upstream_query_param'', PStr ''workspace''), (''precedence'', PStr ''prefer_workspace_else_directory'')]"

text \<open>\<open>SessionShellProfile\<close> and \<open>WorkspaceMutationsProfile\<close>.\<close>

record toggled_feature =
  tf_enabled :: bool
  tf_availability :: string
  tf_toggle :: string

definition feature_dict :: "toggled_feature \<Rightarrow> pyval" where
  "feature_dict f = PDict [(''enabled'', PBool (tf_enabled f)), (''availability'', PStr (tf_availability f)),
     (''toggle'', PStr (tf_toggle f))]"

definition strings :: "string list \<Rightarrow> pyval" where
  "strings xs = PList (map PStr xs)"

record execution_environment =
  xe_mode :: string
  xe_filesystem_scope :: string
  xe_writable_roots :: "string list"
  xe_network_access :: string
  xe_allowed_domains :: "string list"
  xe_approval_policy :: string
  xe_escalation_behavior :: string
  xe_write_scope :: string
  xe_outside_workspace :: string

definition sandbox_dict :: "execution_environment \<Rightarrow> pyval" where
  "sandbox_dict e = PDict ([(''mode'', PStr (xe_mode e)), (''filesystem_scope'', PStr (xe_filesystem_scope e))]
     @ (if xe_writable_roots e = [] then [] else [(''writable_roots'', strings (xe_writable_roots e))]))"

definition network_dict :: "execution_environment \<Rightarrow> pyval" where
  "network_dict e = PDict ([(''access'', PStr (xe_network_access e))]
     @ (if xe_allowed_domains e = [] then [] else [(''allowed_domains'', strings (xe_allowed_domains e))]))"

definition approval_dict :: "execution_environment \<Rightarrow> pyval" where
  "approval_dict e = PDict [(''policy'', PStr (xe_approval_policy e)), (''escalation_behavior'', PStr (xe_escalation_behavior e))]"

definition write_access_dict :: "execution_environment \<Rightarrow> pyval" where
  "write_access_dict e = PDict [(''scope'', PStr (xe_write_scope e)), (''outside_workspace'', PStr (xe_outside_workspace e))]"

definition execution_environment_dict :: "execution_environment \<Rightarrow> pyval" where
  "execution_environment_dict e = PDict [(''sandbox'', sandbox_dict e), (''network'', network_dict e),
     (''approval'', approval_dict e), (''write_access'', write_access_dict e)]"

definition service_features_dict :: pyval where
  "service_features_dict =
     (let always = PDict [(''enabled'', PBool True), (''availability'', PStr ''always'')]
      in PDict [(''streaming'', always), (''health_endpoint'', always)])"

record runtime_context =
  rt_project :: "string option"
  rt_workspace_root :: "string option"
  rt_agent :: "string option"
  rt_variant :: "string option"

definition context_entry :: "string \<Rightarrow> string option \<Rightarrow> (string \<times> pyval) list" where
  "context_entry key v = (if truthy_str v then [(key, PStr (the v))] else [])"

definition runtime_context_dict :: "runtime_context \<Rightarrow> (string \<times> pyval) list" where
  "runtime_context_dict c = context_entry ''project'' (rt_project c) @ context_entry ''workspace_root'' (rt_workspace_root c)
     @ context_entry ''agent'' (rt_agent c) @ context_entry ''variant'' (rt_variant c)"

record runtime_profile =
  rp_profile_id :: string
  rp_deployment :: deployment_profile
  rp_directory_binding :: directory_binding
  rp_workspace_binding :: bool
  rp_session_shell :: toggled_feature
  rp_workspace_mutations :: toggled_feature
  rp_execution_environment :: execution_environment
  rp_runtime_context :: runtime_context

section \<open>Documents\<close>

definition runtime_features_dict :: "runtime_profile \<Rightarrow> pyval" where
  "runtime_features_dict p = PDict
     [(''directory_binding'', directory_binding_dict (rp_directory_binding p)),
      (''workspace_binding'', workspace_binding_dict (rp_workspace_binding p)),
      (''session_shell'', feature_dict (rp_session_shell p)),
      (''workspace_mutations'', feature_dict (rp_workspace_mutations p)),
      (''execution_environment'', execution_environment_dict (rp_execution_environment p)),
      (''service_features'', service_features_dict)]"

definition summary_dict :: "runtime_profile \<Rightarrow> string option \<Rightarrow> (string \<times> pyval) list" where
  "summary_dict p protocol_version =
     [(''profile_id'', PStr (rp_profile_id p)), (''deployment'', deployment_dict (rp_deployment p)),
      (''runtime_features'', runtime_features_dict p)]
     @ (let c = runtime_context_dict (rp_runtime_context p) in if c = [] then [] else [(''runtime_context'', PDict c)])
     @ (if truthy_str protocol_version then [(''protocol_version'', PStr (the protocol_version))] else [])"

definition health_payload :: "runtime_profile \<Rightarrow> string \<Rightarrow> string \<Rightarrow> string \<Rightarrow> pyval" where
  "health_payload p service version protocol_version = PDict
     [(''status'', PStr ''ok''), (''service'', PStr service), (''version'', PStr version),
      (''profile'', PDict (summary_dict p (Some protocol_version)))]"

section \<open>The profile of the settings\<close>

definition toggled :: "bool \<Rightarrow> string \<Rightarrow> toggled_feature" where
  "toggled enabled toggle =
     \<lparr>tf_enabled = enabled, tf_availability = (if enabled then ''enabled'' else ''disabled''), tf_toggle = toggle\<rparr>"

definition build_runtime_profile :: "resolver \<Rightarrow> string \<Rightarrow> server_settings \<Rightarrow> string + runtime_profile" where
  "build_runtime_profile rs cwd s =
     ebind (from_settings rs cwd (sandbox_settings_of s) None) (\<lambda>policy. Inr
       \<lparr>rp_profile_id = ''opencode-a2a-single-tenant-coding-v1'',
        rp_deployment = declared_deployment,
        rp_directory_binding = \<lparr>db_allow_override = s_a2a_allow_directory_override s,
          db_scope = (if s_a2a_allow_directory_override s then ''workspace_root_or_descendant'' else ''workspace_root_only'')\<rparr>,
        rp_workspace_binding = True,
        rp_session_shell = toggled (is_session_shell_enabled policy (s_a2a_enable_session_shell s)) ''A2A_ENABLE_SESSION_SHELL'',
        rp_workspace_mutations =
          toggled (is_workspace_mutations_enabled policy (s_a2a_enable_workspace_mutations s)) ''A2A_ENABLE_WORKSPACE_MUTATIONS'',
        rp_execution_environment =
          \<lparr>xe_mode = s_a2a_sandbox_mode s, xe_filesystem_scope = s_a2a_sandbox_filesystem_scope s,
           xe_writable_roots = s_a2a_sandbox_writable_roots s, xe_network_access = s_a2a_network_access s,
           xe_allowed_domains = s_a2a_network_allowed_domains s, xe_approval_policy = s_a2a_approval_policy s,
           xe_escalation_behavior = s_a2a_approval_escalation_behavior s, xe_write_scope = s_a2a_write_access_scope s,
           xe_outside_workspace = s_a2a_write_access_outside_workspace s\<rparr>,
        rp_runtime_context = \<lparr>rt_project = s_a2a_project s, rt_workspace_root = s_opencode_workspace_root s,
          rt_agent = s_opencode_agent s, rt_variant = s_opencode_variant s\<rparr>\<rparr>)"

text \<open>The snapshot of a deployment, \<open>build_capability_snapshot(runtime_profile=...)\<close>.\<close>

definition snapshot_of :: "runtime_profile \<Rightarrow> capability_snapshot" where
  "snapshot_of p = build_capability_snapshot (tf_enabled (rp_session_shell p)) (tf_enabled (rp_workspace_mutations p))"

section \<open>What can be switched on\<close>

lemma mutating_methods:
  "dict_get (build_capability_snapshot ss wm) m = None \<longleftrightarrow> m \<notin> set (''opencode.sessions.shell'' # map snd workspace_mutation_methods)"
  "m \<in> set (map snd workspace_mutation_methods) \<Longrightarrow>
     dict_get (build_capability_snapshot ss wm) m = Some \<lparr>cm_enabled = wm, cm_toggle = ''A2A_ENABLE_WORKSPACE_MUTATIONS''\<rparr>"
  "dict_get (build_capability_snapshot ss wm) ''opencode.sessions.shell'' =
     Some \<lparr>cm_enabled = ss, cm_toggle = ''A2A_ENABLE_SESSION_SHELL''\<rparr>"
proof -
  have w: "workspace_mutation_methods = [(''create_workspace'', ''opencode.workspaces.create''), (''remove_workspace'', ''opencode.workspaces.remove''),
      (''create_worktree'', ''opencode.worktrees.create''), (''remove_worktree'', ''opencode.worktrees.remove''),
      (''reset_worktree'', ''opencode.worktrees.reset'')]" by code_simp
  have c: "the (dict_get session_control_methods ''shell'') = ''opencode.sessions.shell''" by code_simp
  show "dict_get (build_capability_snapshot ss wm) m = None \<longleftrightarrow> m \<notin> set (''opencode.sessions.shell'' # map snd workspace_mutation_methods)"
    "m \<in> set (map snd workspace_mutation_methods) \<Longrightarrow>
       dict_get (build_capability_snapshot ss wm) m = Some \<lparr>cm_enabled = wm, cm_toggle = ''A2A_ENABLE_WORKSPACE_MUTATIONS''\<rparr>"
    "dict_get (build_capability_snapshot ss wm) ''opencode.sessions.shell'' =
       Some \<lparr>cm_enabled = ss, cm_toggle = ''A2A_ENABLE_SESSION_SHELL''\<rparr>"
    by (auto simp: build_capability_snapshot_def w c)
qed

end
