(* ===== verification/Extension_Documents.thy ===== *)
theory Extension_Documents
  imports Runtime_Profile Rpc_Params
begin

text \<open>
  The documents that describe the extensions to clients (\<open>contracts/extensions.py\<close>): the parameters of each
  extension in the agent card and the OpenAPI document, built from the contract tables, the runtime profile
  and the capability snapshot.  \<open>core\<close> are the methods of the SDK's application (\<open>CORE_JSONRPC_METHODS\<close>).
\<close>

section \<open>Dictionaries as documents\<close>

definition dict_extend :: "(string, 'v) dict \<Rightarrow> (string \<times> 'v) list \<Rightarrow> (string, 'v) dict" where
  "dict_extend d items = fold (\<lambda>(k, v). dict_set k v) items d"

definition str_dict :: "(string, string) dict \<Rightarrow> pyval" where
  "str_dict d = PDict (map (\<lambda>(k, v). (k, PStr v)) d)"

definition int_dict :: "(string, int) dict \<Rightarrow> pyval" where
  "int_dict d = PDict (map (\<lambda>(k, v). (k, PInt v)) d)"

definition method_at :: "(string, string) dict \<Rightarrow> string \<Rightarrow> string" where
  "method_at methods key = the (dict_get methods key)"

section \<open>Names\<close>

definition extension_spec_uri :: "string \<Rightarrow> string" where
  "extension_spec_uri fragment =
     ''https://github.com/Intelligent-Internet/opencode-a2a/blob/main/docs/extension-specifications.md'' @ ''#'' @ fragment"

definition shared_session_binding_field :: string where
  "shared_session_binding_field = ''metadata.shared.session.id''"

definition shared_session_metadata_field :: string where
  "shared_session_metadata_field = ''metadata.shared.session''"

definition shared_model_selection_field :: string where
  "shared_model_selection_field = ''metadata.shared.model''"

definition shared_stream_metadata_field :: string where
  "shared_stream_metadata_field = ''metadata.shared.stream''"

definition shared_progress_metadata_field :: string where
  "shared_progress_metadata_field = ''metadata.shared.progress''"

definition shared_interrupt_metadata_field :: string where
  "shared_interrupt_metadata_field = ''metadata.shared.interrupt''"

definition shared_usage_metadata_field :: string where
  "shared_usage_metadata_field = ''metadata.shared.usage''"

definition session_binding_extension_uri :: string where
  "session_binding_extension_uri = extension_spec_uri ''shared-session-binding-v1''"

definition model_selection_extension_uri :: string where
  "model_selection_extension_uri = extension_spec_uri ''shared-model-selection-v1''"

definition streaming_extension_uri :: string where
  "streaming_extension_uri = extension_spec_uri ''shared-stream-hints-v1''"

definition session_management_extension_uri :: string where
  "session_management_extension_uri = extension_spec_uri ''opencode-session-management-v1''"

definition provider_discovery_extension_uri :: string where
  "provider_discovery_extension_uri = extension_spec_uri ''opencode-provider-discovery-v1''"

definition interrupt_callback_extension_uri :: string where
  "interrupt_callback_extension_uri = extension_spec_uri ''shared-interactive-interrupt-v1''"

definition interrupt_recovery_extension_uri :: string where
  "interrupt_recovery_extension_uri = extension_spec_uri ''opencode-interrupt-recovery-v1''"

definition workspace_control_extension_uri :: string where
  "workspace_control_extension_uri = extension_spec_uri ''opencode-workspace-control-v1''"

definition compatibility_profile_extension_uri :: string where
  "compatibility_profile_extension_uri = extension_spec_uri ''a2a-compatibility-profile-v1''"

definition wire_contract_extension_uri :: string where
  "wire_contract_extension_uri = extension_spec_uri ''a2a-wire-contract-v1''"

definition service_behavior_classification :: string where
  "service_behavior_classification = ''service-level-semantic-enhancement''"

definition cancel_idempotency_behavior :: string where
  "cancel_idempotency_behavior = ''return_current_terminal_task''"

definition terminal_resubscribe_behavior :: string where
  "terminal_resubscribe_behavior = ''replay_terminal_task_once_then_close''"

definition v1_partial_compatibility_gaps :: "string list" where
  "v1_partial_compatibility_gaps =
     [
       ''AgentInterface.protocolVersion cannot be declared with a2a-sdk==0.3.25.'',
       ''Transport payloads, enums, pagination, signatures, and push-notification surfaces still follow the SDK-owned 0.3 baseline.'']"

definition prompt_async_supported_part_types :: "string list" where
  "prompt_async_supported_part_types = [''text'', ''file'', ''agent'', ''subtask'']"

definition session_query_pagination_mode :: string where
  "session_query_pagination_mode = ''limit_and_optional_cursor''"

definition session_query_pagination_behavior :: string where
  "session_query_pagination_behavior = ''passthrough''"

definition session_query_pagination_params :: "string list" where
  "session_query_pagination_params = [''limit'', ''before'']"

text \<open>The required and the optional fields of each type of part.\<close>

definition prompt_async_part_contracts :: "(string, string list \<times> string list option) dict" where
  "prompt_async_part_contracts =
     [
       (''text'', ([''type'', ''text''], None)),
       (''file'', ([''type'', ''mime'', ''url''], None)),
       (''agent'', ([''type'', ''name''], None)),
       (''subtask'', ([''type'', ''prompt'', ''description'', ''agent''], Some [''model'', ''command'']))]"

section \<open>Methods and error codes\<close>

definition session_read_methods :: "(string, string) dict" where
  "session_read_methods =
     pick [
       ''status'', ''list_sessions'', ''get_session'', ''get_session_children'', ''get_session_todo'', ''get_session_diff'',
       ''get_session_message'', ''get_session_messages''] session_methods"

definition session_mutation_methods :: "(string, string) dict" where
  "session_mutation_methods =
     pick [''fork'', ''share'', ''unshare'', ''summarize'', ''revert'', ''unrevert''] session_methods"

definition workspace_stable_methods :: "(string, string) dict" where
  "workspace_stable_methods = pick [''list_projects'', ''get_current_project''] workspace_methods"

definition workspace_experimental_upstream_methods :: "(string, string) dict" where
  "workspace_experimental_upstream_methods =
     pick [
       ''list_workspaces'', ''list_worktrees'', ''create_workspace'', ''remove_workspace'', ''create_worktree'',
       ''remove_worktree'', ''reset_worktree''] workspace_methods"

definition core_http_endpoints :: "string list" where
  "core_http_endpoints =
     [
       ''POST /v1/message:send'',
       ''POST /v1/message:stream'',
       ''GET /v1/tasks'',
       ''GET /v1/tasks/{id}'',
       ''POST /v1/tasks/{id}:cancel'',
       ''GET /v1/tasks/{id}:subscribe'',
       ''GET /v1/tasks/{id}/pushNotificationConfigs'',
       ''POST /v1/tasks/{id}/pushNotificationConfigs'',
       ''GET /v1/tasks/{id}/pushNotificationConfigs/{push_id}'']"

definition wire_contract_unsupported_method_data_fields :: "string list" where
  "wire_contract_unsupported_method_data_fields = [''type'', ''method'', ''supported_methods'', ''protocol_version'']"

definition session_query_error_business_codes :: "(string, int) dict" where
  "session_query_error_business_codes =
     [
       (''SESSION_NOT_FOUND'', -32001), (''SESSION_FORBIDDEN'', -32006), (''AUTHORIZATION_FORBIDDEN'', -32007),
       (''UPSTREAM_UNREACHABLE'', -32002), (''UPSTREAM_HTTP_ERROR'', -32003), (''UPSTREAM_PAYLOAD_ERROR'', -32005)]"

definition session_query_error_data_fields :: "string list" where
  "session_query_error_data_fields =
     [''type'', ''method'', ''session_id'', ''capability'', ''credential_id'', ''upstream_status'', ''detail'']"

definition session_query_invalid_params_data_fields :: "string list" where
  "session_query_invalid_params_data_fields = [''type'', ''field'', ''fields'', ''supported'', ''unsupported'']"

definition interrupt_success_result_fields :: "string list" where
  "interrupt_success_result_fields = [''ok'', ''request_id'']"

definition interrupt_error_business_codes :: "(string, int) dict" where
  "interrupt_error_business_codes =
     [
       (''INTERRUPT_REQUEST_NOT_FOUND'', -32004),
       (''INTERRUPT_REQUEST_EXPIRED'', -32007),
       (''INTERRUPT_TYPE_MISMATCH'', -32008),
       (''UPSTREAM_UNREACHABLE'', -32002),
       (''UPSTREAM_HTTP_ERROR'', -32003)]"

definition interrupt_error_types :: "string list" where
  "interrupt_error_types =
     [
       ''INTERRUPT_REQUEST_NOT_FOUND'', ''INTERRUPT_REQUEST_EXPIRED'', ''INTERRUPT_TYPE_MISMATCH'', ''UPSTREAM_UNREACHABLE'',
       ''UPSTREAM_HTTP_ERROR'']"

definition interrupt_error_data_fields :: "string list" where
  "interrupt_error_data_fields =
     [''type'', ''request_id'', ''expected_interrupt_type'', ''actual_interrupt_type'', ''upstream_status'', ''detail'']"

definition interrupt_invalid_params_data_fields :: "string list" where
  "interrupt_invalid_params_data_fields = [''type'', ''field'', ''fields'', ''request_id'']"

definition provider_discovery_error_business_codes :: "(string, int) dict" where
  "provider_discovery_error_business_codes =
     [(''UPSTREAM_UNREACHABLE'', -32002), (''UPSTREAM_HTTP_ERROR'', -32003), (''UPSTREAM_PAYLOAD_ERROR'', -32005)]"

definition provider_discovery_error_data_fields :: "string list" where
  "provider_discovery_error_data_fields = [''type'', ''method'', ''upstream_status'', ''detail'']"

definition provider_discovery_invalid_params_data_fields :: "string list" where
  "provider_discovery_invalid_params_data_fields = [''type'', ''field'', ''fields'']"

definition interrupt_recovery_invalid_params_data_fields :: "string list" where
  "interrupt_recovery_invalid_params_data_fields = [''type'', ''field'', ''fields'']"

definition workspace_control_error_business_codes :: "(string, int) dict" where
  "workspace_control_error_business_codes =
     [
       (''AUTHORIZATION_FORBIDDEN'', -32007), (''UPSTREAM_UNREACHABLE'', -32002), (''UPSTREAM_HTTP_ERROR'', -32003),
       (''UPSTREAM_PAYLOAD_ERROR'', -32005)]"

definition workspace_control_error_data_fields :: "string list" where
  "workspace_control_error_data_fields =
     [''type'', ''method'', ''capability'', ''credential_id'', ''upstream_status'', ''detail'']"

definition workspace_control_invalid_params_data_fields :: "string list" where
  "workspace_control_invalid_params_data_fields = [''type'', ''field'', ''fields'']"

section \<open>Conditional methods\<close>

text \<open>\<open>DeploymentConditionalMethod\<close>; the extension of a conditional method is the one of the snapshot's builder.\<close>

definition conditional_extension_uri :: "string \<Rightarrow> string" where
  "conditional_extension_uri m =
     (if m = method_at session_control_methods ''shell'' then session_management_extension_uri else workspace_control_extension_uri)"

definition control_method_flag :: "string \<Rightarrow> pyval" where
  "control_method_flag toggle = PDict [(''enabled_by_default'', PBool False), (''config_key'', PStr toggle)]"

definition conditional_retention :: "string \<Rightarrow> conditional_method \<Rightarrow> pyval" where
  "conditional_retention m c = PDict
     [(''surface'', PStr ''extension''), (''availability'', PStr (if cm_enabled c then ''enabled'' else ''disabled'')),
      (''retention'', PStr ''deployment-conditional''), (''extension_uri'', PStr (conditional_extension_uri m)),
      (''toggle'', PStr (cm_toggle c))]"

definition conditional_method_retention :: "capability_snapshot \<Rightarrow> (string \<times> pyval) list" where
  "conditional_method_retention snapshot = map (\<lambda>(m, c). (m, conditional_retention m c)) snapshot"

definition flags_document :: "(string, string) dict \<Rightarrow> pyval" where
  "flags_document flags = PDict (map (\<lambda>(m, toggle). (m, control_method_flag toggle)) flags)"

definition conditionally_available_document :: "capability_snapshot \<Rightarrow> pyval" where
  "conditionally_available_document snapshot = PDict
     (map (\<lambda>(m, why, toggle). (m, PDict [(''reason'', PStr why), (''toggle'', PStr toggle)]))
       (conditionally_available_methods snapshot))"

definition active_session_control_methods :: "capability_snapshot \<Rightarrow> (string, string) dict" where
  "active_session_control_methods snapshot =
     (if \<not> is_method_enabled snapshot (method_at session_control_methods ''shell'') then dict_pop ''shell'' session_control_methods
      else session_control_methods)"

section \<open>Contracts of methods\<close>

definition build_method_contract_params :: "string list \<Rightarrow> string list \<Rightarrow> string list \<Rightarrow> pyval" where
  "build_method_contract_params required optional unsupported = PDict
     ((if required = [] then [] else [(''required'', strings required)])
      @ (if optional = [] then [] else [(''optional'', strings optional)])
      @ (if unsupported = [] then [] else [(''unsupported'', strings unsupported)]))"

definition contract_result :: "method_contract \<Rightarrow> pyval" where
  "contract_result c = PDict ((''fields'', strings (mc_result c))
     # (if truthy_str (mc_items_type c) then [(''items_type'', PStr (the (mc_items_type c)))] else []))"

definition notification_entry :: "method_contract \<Rightarrow> (string \<times> pyval) list" where
  "notification_entry c =
     (case mc_notification_status c of None \<Rightarrow> [] | Some status \<Rightarrow> [(''notification_response_status'', PInt status)])"

text \<open>The entry of a method, with the entries of its own (\<open>extra\<close>), and the document of a table of contracts.\<close>

definition contract_document :: "pyval \<Rightarrow> (string \<times> pyval) list \<Rightarrow> method_contract \<Rightarrow> pyval" where
  "contract_document result extra c = PDict
     ([(''params'', build_method_contract_params (mc_required c) (mc_optional c) (mc_unsupported c)), (''result'', result)]
      @ extra @ notification_entry c)"

definition contract_documents :: "(method_contract \<Rightarrow> pyval) \<Rightarrow> method_contract list \<Rightarrow> pyval" where
  "contract_documents document contracts = PDict (dict_extend [] (map (\<lambda>c. (mc_method c, document c)) contracts))"

definition plain_contract_document :: "method_contract \<Rightarrow> pyval" where
  "plain_contract_document c = contract_document (contract_result c) [] c"

definition the_default_list :: "string list option \<Rightarrow> string list" where
  "the_default_list xs = (case xs of None \<Rightarrow> [] | Some xs \<Rightarrow> xs)"

definition part_contract_document :: "string list \<times> string list option \<Rightarrow> pyval" where
  "part_contract_document c = PDict ((''required'', strings (fst c))
     # (let optional = the_default_list (snd c) in if optional = [] then [] else [(''optional'', strings optional)]))"

definition build_prompt_async_part_contracts :: pyval where
  "build_prompt_async_part_contracts =
     PDict [
       (''items_type'', PStr ''PromptAsyncPart[]''),
       (''type_field'', PStr ''type''),
       (''accepted_types'', strings prompt_async_supported_part_types),
       (''part_contracts'', PDict (map (\<lambda>(t, c). (t, part_contract_document c)) prompt_async_part_contracts))]"

definition build_prompt_async_subtask_support :: pyval where
  "build_prompt_async_subtask_support =
     PDict [
       (''support_level'', PStr ''passthrough-compatible''),
       (''invocation_path'', PStr ''request.parts[]''),
       (''part_type'', PStr ''subtask''),
       (''subagent_selector_field'', PStr ''request.parts[].agent''),
       (''execution_model'', PStr ''upstream-provider-private-subagent-runtime''),
       (''notes'', PList [
         PStr ''opencode-a2a validates and forwards provider-private subtask parts to the upstream OpenCode session runtime.'',
         PStr ''The adapter does not define a separate subagent discovery or orchestration JSON-RPC method surface.'',
         PStr ''Subtask execution semantics, available subagent names, and any task-tool fan-out remain upstream OpenCode behavior.''])]"

section \<open>Parameters of the extensions\<close>

definition build_session_binding_extension_params :: "runtime_profile \<Rightarrow> pyval" where
  "build_session_binding_extension_params p =
     PDict [
       (''metadata_field'', PStr shared_session_binding_field),
       (''behavior'', PStr ''prefer_metadata_binding_else_create_session''),
       (''supported_metadata'', PList [
         PStr ''shared.session.id'', PStr ''opencode.directory'', PStr ''opencode.workspace.id'']),
       (''provider_private_metadata'', PList [PStr ''opencode.directory'', PStr ''opencode.workspace.id'']),
       (''profile'', PDict (summary_dict p None)),
       (''notes'', PList [
         PStr ''If metadata.shared.session.id is provided, the server will send the message to that upstream session.'',
         PStr ''Otherwise, the server will create a new upstream session and retain the (identity, contextId)->session_id mapping according to the configured task/state store backend and TTL policy.'',
         PStr ''If metadata.opencode.workspace.id is provided, the server routes the request with workspace precedence and falls back to directory binding only when workspace metadata is absent.''])]"

definition build_model_selection_extension_params :: "runtime_profile \<Rightarrow> pyval" where
  "build_model_selection_extension_params p =
     PDict [
       (''metadata_field'', PStr shared_model_selection_field),
       (''behavior'', PStr ''prefer_metadata_model_else_upstream_default''),
       (''applies_to_methods'', PList [PStr ''message/send'', PStr ''message/stream'']),
       (''supported_metadata'', PList [PStr ''shared.model.providerID'', PStr ''shared.model.modelID'']),
       (''provider_private_metadata'', PList []),
       (''profile'', PDict (summary_dict p None)),
       (''fields'', PDict [
         (''providerID'', PStr (shared_model_selection_field @ ''.providerID'')),
         (''modelID'', PStr (shared_model_selection_field @ ''.modelID''))]),
       (''notes'', PList [
         PStr ''If both metadata.shared.model.providerID and metadata.shared.model.modelID are non-empty strings, the server will override the upstream model for this request only.'',
         PStr ''If shared model metadata is missing, partial, or invalid, the server falls back to the upstream OpenCode default behavior.''])]"

definition build_streaming_extension_params :: pyval where
  "build_streaming_extension_params =
     PDict [
       (''artifact_metadata_field'', PStr shared_stream_metadata_field),
       (''status_metadata_field'', PStr shared_stream_metadata_field),
       (''progress_metadata_field'', PStr shared_progress_metadata_field),
       (''interrupt_metadata_field'', PStr shared_interrupt_metadata_field),
       (''session_metadata_field'', PStr shared_session_metadata_field),
       (''usage_metadata_field'', PStr shared_usage_metadata_field),
       (''block_types'', PList [PStr ''text'', PStr ''reasoning'', PStr ''tool_call'']),
       (''block_contracts'', PDict [
         (''text'', PDict [(''part_kind'', PStr ''text''), (''payload_field'', PStr ''artifact.parts[].text'')]),
         (''reasoning'', PDict [(''part_kind'', PStr ''text''), (''payload_field'', PStr ''artifact.parts[].text'')]),
         (''tool_call'', PDict [
           (''part_kind'', PStr ''data''),
           (''payload_field'', PStr ''artifact.parts[].data''),
           (''payload_fields'', PDict [
             (''call_id'', PStr ''artifact.parts[].data.call_id''),
             (''tool'', PStr ''artifact.parts[].data.tool''),
             (''status'', PStr ''artifact.parts[].data.status''),
             (''title'', PStr ''artifact.parts[].data.title''),
             (''subtitle'', PStr ''artifact.parts[].data.subtitle''),
             (''input'', PStr ''artifact.parts[].data.input''),
             (''output'', PStr ''artifact.parts[].data.output''),
             (''error'', PStr ''artifact.parts[].data.error'')])])]),
       (''stream_fields'', PDict [
         (''block_type'', PStr (shared_stream_metadata_field @ ''.block_type'')),
         (''source'', PStr (shared_stream_metadata_field @ ''.source'')),
         (''message_id'', PStr (shared_stream_metadata_field @ ''.message_id'')),
         (''event_id'', PStr (shared_stream_metadata_field @ ''.event_id'')),
         (''sequence'', PStr (shared_stream_metadata_field @ ''.sequence'')),
         (''role'', PStr (shared_stream_metadata_field @ ''.role''))]),
       (''progress_fields'', PDict [
         (''type'', PStr (shared_progress_metadata_field @ ''.type'')),
         (''part_id'', PStr (shared_progress_metadata_field @ ''.part_id'')),
         (''reason'', PStr (shared_progress_metadata_field @ ''.reason'')),
         (''status'', PStr (shared_progress_metadata_field @ ''.status'')),
         (''title'', PStr (shared_progress_metadata_field @ ''.title'')),
         (''subtitle'', PStr (shared_progress_metadata_field @ ''.subtitle''))]),
       (''interrupt_fields'', PDict [
         (''request_id'', PStr (shared_interrupt_metadata_field @ ''.request_id'')),
         (''type'', PStr (shared_interrupt_metadata_field @ ''.type'')),
         (''phase'', PStr (shared_interrupt_metadata_field @ ''.phase'')),
         (''details'', PStr (shared_interrupt_metadata_field @ ''.details'')),
         (''resolution'', PStr (shared_interrupt_metadata_field @ ''.resolution''))]),
       (''session_fields'', PDict [
         (''id'', PStr (shared_session_metadata_field @ ''.id'')),
         (''title'', PStr (shared_session_metadata_field @ ''.title''))]),
       (''usage_fields'', PDict [
         (''input_tokens'', PStr (shared_usage_metadata_field @ ''.input_tokens'')),
         (''output_tokens'', PStr (shared_usage_metadata_field @ ''.output_tokens'')),
         (''total_tokens'', PStr (shared_usage_metadata_field @ ''.total_tokens'')),
         (''reasoning_tokens'', PStr (shared_usage_metadata_field @ ''.reasoning_tokens'')),
         (''cost'', PStr (shared_usage_metadata_field @ ''.cost'')),
         (''cache_tokens'', PDict [
           (''read_tokens'', PStr (shared_usage_metadata_field @ ''.cache_tokens.read_tokens'')),
           (''write_tokens'', PStr (shared_usage_metadata_field @ ''.cache_tokens.write_tokens''))])])]"

definition active_contracts :: "string list \<Rightarrow> (string, method_contract) dict \<Rightarrow> method_contract list" where
  "active_contracts methods contracts = filter (\<lambda>c. mc_method c \<in> set methods) (map snd contracts)"

definition session_contract_document :: "method_contract \<Rightarrow> pyval" where
  "session_contract_document c = contract_document (contract_result c)
     (if mc_method c = method_at session_methods ''prompt_async''
      then [(''request_parts'', build_prompt_async_part_contracts), (''subtask_support'', build_prompt_async_subtask_support)]
      else []) c"

definition callback_contract_document :: "method_contract \<Rightarrow> pyval" where
  "callback_contract_document c =
     contract_document (PDict [(''fields'', strings interrupt_success_result_fields)]) [] c"

definition build_session_management_extension_params :: "runtime_profile \<Rightarrow> string \<Rightarrow> pyval" where
  "build_session_management_extension_params p context_id_prefix =
     (let snapshot = snapshot_of p;
          contracts = active_contracts (map snd (session_management_methods snapshot)) session_method_contracts
      in PDict [
           (''methods'', str_dict (session_management_methods snapshot)),
           (''read_methods'', str_dict session_read_methods),
           (''mutation_methods'', str_dict session_mutation_methods),
           (''control_methods'', str_dict (active_session_control_methods snapshot)),
           (''control_method_flags'', flags_document (control_method_flags snapshot)),
           (''profile'', PDict (summary_dict p None)),
           (''pagination'', PDict [
             (''mode'', PStr session_query_pagination_mode),
             (''default_limit'', PInt session_query_default_limit),
             (''max_limit'', PInt session_query_max_limit),
             (''behavior'', PStr session_query_pagination_behavior),
             (''params'', strings session_query_pagination_params),
             (''cursor_param'', PStr ''before''),
             (''result_cursor_field'', PStr ''next_cursor''),
             (''applies_to'', strings (map mc_method (filter mc_paginated contracts))),
             (''cursor_applies_to'', PList [PStr (method_at session_methods ''get_session_messages'')])]),
           (''method_contracts'', contract_documents session_contract_document contracts),
           (''errors'', PDict [
             (''business_codes'', int_dict session_query_error_business_codes),
             (''error_data_fields'', strings session_query_error_data_fields),
             (''invalid_params_data_fields'', strings session_query_invalid_params_data_fields)]),
           (''context_semantics'', PDict [
             (''a2a_context_id_field'', PStr ''contextId''),
             (''a2a_context_id_prefix'', PStr context_id_prefix),
             (''upstream_session_id_field'', PStr shared_session_binding_field)])])"

definition build_interrupt_callback_extension_params :: "runtime_profile \<Rightarrow> pyval" where
  "build_interrupt_callback_extension_params p =
     PDict [
       (''methods'', str_dict interrupt_callback_methods),
       (''method_contracts'', contract_documents callback_contract_document (map snd interrupt_callback_method_contracts)),
       (''supported_interrupt_events'', PList [PStr ''permission.asked'', PStr ''question.asked'']),
       (''permission_reply_values'', PList [PStr ''once'', PStr ''always'', PStr ''reject'']),
       (''question_reply_contract'', PDict [(''answers'', PStr ''array of answer arrays (same order as asked questions)'')]),
       (''request_id_field'', PStr (shared_interrupt_metadata_field @ ''.request_id'')),
       (''supported_metadata'', PList [PStr ''opencode.directory'', PStr ''opencode.workspace.id'']),
       (''provider_private_metadata'', PList [PStr ''opencode.directory'', PStr ''opencode.workspace.id'']),
       (''context_fields'', PDict [(''directory'', PStr directory_field), (''workspace_id'', PStr workspace_field)]),
       (''success_result_fields'', strings interrupt_success_result_fields),
       (''errors'', PDict [
         (''business_codes'', int_dict interrupt_error_business_codes),
         (''error_types'', strings interrupt_error_types),
         (''error_data_fields'', strings interrupt_error_data_fields),
         (''invalid_params_data_fields'', strings interrupt_invalid_params_data_fields)]),
       (''profile'', PDict (summary_dict p None))]"

definition build_interrupt_recovery_extension_params :: "runtime_profile \<Rightarrow> pyval" where
  "build_interrupt_recovery_extension_params p =
     PDict [
       (''methods'', str_dict interrupt_recovery_methods),
       (''method_contracts'', contract_documents plain_contract_document (map snd interrupt_recovery_method_contracts)),
       (''supported_metadata'', PList []),
       (''provider_private_metadata'', PList []),
       (''recovery_scope'', PDict [
         (''data_source'', PStr ''local_interrupt_binding_registry''),
         (''identity_scope'', PStr ''current_authenticated_caller''),
         (''empty_result_when_identity_unavailable'', PBool True)]),
       (''item_fields'', PDict [
         (''request_id'', PStr ''items[].request_id''),
         (''session_id'', PStr ''items[].session_id''),
         (''interrupt_type'', PStr ''items[].interrupt_type''),
         (''task_id'', PStr ''items[].task_id''),
         (''context_id'', PStr ''items[].context_id''),
         (''details'', PStr ''items[].details''),
         (''expires_at'', PStr ''items[].expires_at'')]),
       (''errors'', PDict [(''invalid_params_data_fields'', strings interrupt_recovery_invalid_params_data_fields)]),
       (''profile'', PDict (summary_dict p None)),
       (''notes'', PList [
         PStr ''Interrupt recovery methods read from the local interrupt binding registry instead of directly proxying upstream global pending lists.'',
         PStr ''Results are scoped to the current authenticated caller identity when the runtime can resolve one.'',
         PStr ''If the runtime cannot resolve a caller identity for the current request, recovery queries return an empty item list.'',
         PStr ''Use a2a.interrupt.* methods to resolve requests; opencode.permissions.list and opencode.questions.list are recovery surfaces only.''])]"

definition build_provider_discovery_extension_params :: "runtime_profile \<Rightarrow> pyval" where
  "build_provider_discovery_extension_params p =
     PDict [
       (''methods'', str_dict provider_discovery_methods),
       (''method_contracts'', contract_documents plain_contract_document (map snd provider_discovery_method_contracts)),
       (''supported_metadata'', PList [PStr ''opencode.directory'', PStr ''opencode.workspace.id'']),
       (''provider_private_metadata'', PList [PStr ''opencode.directory'', PStr ''opencode.workspace.id'']),
       (''context_fields'', PDict [(''directory'', PStr directory_field), (''workspace_id'', PStr workspace_field)]),
       (''provider_item_fields'', PDict [
         (''provider_id'', PStr ''items[].provider_id''),
         (''name'', PStr ''items[].name''),
         (''source'', PStr ''items[].source''),
         (''connected'', PStr ''items[].connected''),
         (''default_model_id'', PStr ''items[].default_model_id''),
         (''model_count'', PStr ''items[].model_count'')]),
       (''model_item_fields'', PDict [
         (''provider_id'', PStr ''items[].provider_id''),
         (''model_id'', PStr ''items[].model_id''),
         (''name'', PStr ''items[].name''),
         (''status'', PStr ''items[].status''),
         (''context_window'', PStr ''items[].context_window''),
         (''supports_reasoning'', PStr ''items[].supports_reasoning''),
         (''supports_tool_call'', PStr ''items[].supports_tool_call''),
         (''supports_attachments'', PStr ''items[].supports_attachments''),
         (''default'', PStr ''items[].default''),
         (''connected'', PStr ''items[].connected'')]),
       (''errors'', PDict [
         (''business_codes'', int_dict provider_discovery_error_business_codes),
         (''error_data_fields'', strings provider_discovery_error_data_fields),
         (''invalid_params_data_fields'', strings provider_discovery_invalid_params_data_fields)]),
       (''profile'', PDict (summary_dict p None)),
       (''notes'', PList [
         PStr ''Provider/model discovery is OpenCode-specific and exposed through provider-private JSON-RPC methods.'',
         PStr ''The server normalizes upstream provider catalogs into summary records so downstream callers do not need to parse raw OpenCode payloads.'',
         PStr ''If metadata.opencode.workspace.id is present, provider/model discovery is routed to that workspace; otherwise the adapter falls back to directory routing when metadata.opencode.directory is provided.''])]"

definition build_workspace_control_extension_params :: "runtime_profile \<Rightarrow> pyval" where
  "build_workspace_control_extension_params p =
     (let snapshot = snapshot_of p
      in PDict [
           (''methods'', str_dict (workspace_control_methods snapshot)),
           (''control_method_flags'', flags_document (workspace_mutation_method_flags snapshot)),
           (''method_contracts'', contract_documents plain_contract_document (active_contracts (map snd (workspace_control_methods snapshot)) workspace_control_method_contracts)),
           (''upstream_stability'', PDict [
             ((method_at workspace_methods ''list_projects''), PStr ''stable''),
             ((method_at workspace_methods ''get_current_project''), PStr ''stable''),
             ((method_at workspace_methods ''list_workspaces''), PStr ''experimental''),
             ((method_at workspace_methods ''list_worktrees''), PStr ''experimental''),
             ((method_at workspace_methods ''create_workspace''), PStr ''experimental''),
             ((method_at workspace_methods ''remove_workspace''), PStr ''experimental''),
             ((method_at workspace_methods ''create_worktree''), PStr ''experimental''),
             ((method_at workspace_methods ''remove_worktree''), PStr ''experimental''),
             ((method_at workspace_methods ''reset_worktree''), PStr ''experimental'')]),
           (''supported_metadata'', PList [PStr ''opencode.workspace.id'', PStr ''opencode.directory'']),
           (''provider_private_metadata'', PList [PStr ''opencode.workspace.id'', PStr ''opencode.directory'']),
           (''routing_fields'', PDict [(''workspace_id'', PStr workspace_field), (''directory'', PStr directory_field)]),
           (''errors'', PDict [
             (''business_codes'', int_dict workspace_control_error_business_codes),
             (''error_data_fields'', strings workspace_control_error_data_fields),
             (''invalid_params_data_fields'', strings workspace_control_invalid_params_data_fields)]),
           (''profile'', PDict (summary_dict p None)),
           (''notes'', PList [
             PStr ''Workspace control methods expose the OpenCode project/workspace/worktree control plane through provider-private JSON-RPC methods.'',
             PStr ''Mutation methods are deployment-conditional and disabled by default; discover availability from the declared wire contract before calling them.'',
             PStr ''Workspace routing metadata is declared for consistency, but the current control-plane methods operate on the active deployment project rather than per-request workspace forwarding.'',
             PStr ''Workspace/worktree discovery and mutation methods currently wrap upstream /experimental/workspace and /experimental/worktree endpoints.''])])"

definition build_service_behavior_contract_params :: pyval where
  "build_service_behavior_contract_params =
     PDict [
       (''classification'', PStr service_behavior_classification),
       (''methods'', PDict [
         (''tasks/cancel'', PDict [
           (''baseline'', PStr ''core''),
           (''retention'', PStr ''stable''),
           (''idempotency'', PDict [
             (''already_canceled'', PDict [
               (''behavior'', PStr cancel_idempotency_behavior),
               (''returns_current_state'', PStr ''canceled''),
               (''error'', PNone)])])]),
         (''tasks/resubscribe'', PDict [
           (''baseline'', PStr ''core''),
           (''retention'', PStr ''stable''),
           (''terminal_state_behavior'', PDict [
             (''behavior'', PStr terminal_resubscribe_behavior),
             (''delivery'', PStr ''single_task_snapshot''),
             (''closes_stream'', PBool True)])])])]"

section \<open>Protocol versions\<close>

definition known_versions :: "string list \<Rightarrow> string \<Rightarrow> (string, pyval) dict" where
  "known_versions supported default_version =
     [
       (''0.3'', PDict [
         (''enabled'', PBool (''0.3'' \<in> set supported)),
         (''default'', PBool (default_version = ''0.3'')),
         (''status'', PStr ''supported''),
         (''supported_features'', PList [
           PStr ''Default compatibility line for the current deployment.'',
           PStr ''A2A-Version negotiation fallback and explicit 0.3 routing.'',
           PStr ''Legacy JSON-RPC and REST error envelopes.'',
           PStr ''SDK-owned transport payloads, enums, pagination, signatures, and push-notification surfaces.'']),
         (''known_gaps'', PList [])]),
       (''1.0'', PDict [
         (''enabled'', PBool (''1.0'' \<in> set supported)),
         (''default'', PBool (default_version = ''1.0'')),
         (''status'', PStr ''partial''),
         (''supported_features'', PList [
           PStr ''A2A-Version negotiation and request routing.'',
           PStr ''Protocol-aware JSON-RPC error shaping.'',
           PStr ''Protocol-aware REST error shaping.'']),
         (''known_gaps'', strings v1_partial_compatibility_gaps)])]"

definition custom_version :: "bool \<Rightarrow> pyval" where
  "custom_version is_default =
     PDict [
       (''enabled'', PBool True),
       (''default'', PBool is_default),
       (''status'', PStr ''custom''),
       (''supported_features'', PList [
         PStr ''Supported by deployment configuration.'',
         PStr ''Version-specific compatibility details are not yet declared.'']),
       (''known_gaps'', PList [PStr ''This protocol line does not yet have a dedicated compatibility summary.''])]"

definition build_protocol_compatibility_params :: "string list \<Rightarrow> string \<Rightarrow> pyval" where
  "build_protocol_compatibility_params supported default_version = PDict
     [(''default_protocol_version'', PStr default_version), (''supported_protocol_versions'', strings supported),
      (''versions'', PDict (fold
         (\<lambda>version versions. if dict_get versions version \<noteq> None then versions
            else dict_set version (custom_version (default_version = version)) versions)
         supported (known_versions supported default_version)))]"

definition or_version :: "string option \<Rightarrow> string \<Rightarrow> string" where
  "or_version v w = (if truthy_str v then the v else w)"

definition or_versions :: "string list option \<Rightarrow> string \<Rightarrow> string list" where
  "or_versions vs w = (case vs of None \<Rightarrow> [w] | Some [] \<Rightarrow> [w] | Some vs \<Rightarrow> vs)"

section \<open>Retention of the methods\<close>

definition retained :: "string \<Rightarrow> string \<Rightarrow> (string \<times> pyval) list \<Rightarrow> string list \<Rightarrow> (string \<times> pyval) list" where
  "retained retention uri extra methods =
     map (\<lambda>m. (m, PDict ([(''surface'', PStr ''extension''), (''availability'', PStr ''always''),
       (''retention'', PStr retention), (''extension_uri'', PStr uri)] @ extra))) methods"

text \<open>The entries are added in this order; then those of the workspace mutations get one field more.\<close>

definition retention_entries :: "string list \<Rightarrow> capability_snapshot \<Rightarrow> (string \<times> pyval) list" where
  "retention_entries core snapshot =
     map (\<lambda>m. (m, PDict [(''surface'', PStr ''core''), (''availability'', PStr ''always''), (''retention'', PStr ''required'')])) core
     @ retained ''stable'' session_management_extension_uri [] (map snd (filter (\<lambda>(key, m). key \<noteq> ''shell'') session_methods))
     @ conditional_method_retention snapshot
     @ retained ''stable'' provider_discovery_extension_uri [] (map snd provider_discovery_methods)
     @ retained ''stable'' workspace_control_extension_uri [] (map snd workspace_stable_methods)
     @ retained ''experimental-upstream'' workspace_control_extension_uri []
         [method_at workspace_experimental_upstream_methods ''list_workspaces'',
          method_at workspace_experimental_upstream_methods ''list_worktrees'']
     @ retained ''stable'' interrupt_recovery_extension_uri
         [(''implementation_scope'', PStr ''adapter-local''), (''identity_scope'', PStr ''current_authenticated_caller'')]
         (map snd interrupt_recovery_methods)"

definition mark_experimental :: "string \<Rightarrow> (string, pyval) dict \<Rightarrow> (string, pyval) dict" where
  "mark_experimental m retention =
     (case dict_get retention m of
        Some (PDict entry) \<Rightarrow> dict_set m (PDict (dict_set ''upstream_stability'' (PStr ''experimental'') entry)) retention
      | _ \<Rightarrow> retention)"

definition method_retention :: "string list \<Rightarrow> capability_snapshot \<Rightarrow> (string, pyval) dict" where
  "method_retention core snapshot =
     dict_extend (fold mark_experimental (map snd workspace_mutation_methods) (dict_extend [] (retention_entries core snapshot)))
       (retained ''stable'' interrupt_callback_extension_uri [] (map snd interrupt_callback_methods))"

section \<open>Compatibility profile and wire contract\<close>

definition build_compatibility_profile_params :: "string list \<Rightarrow> string \<Rightarrow> runtime_profile \<Rightarrow> string list option \<Rightarrow> string option \<Rightarrow> pyval" where
  "build_compatibility_profile_params core protocol_version p supported_protocol_versions default_protocol_version =
     (let default_version = or_version default_protocol_version protocol_version;
          supported = or_versions supported_protocol_versions default_version;
          snapshot = snapshot_of p
      in PDict (dict_extend (summary_dict p (Some protocol_version)) [
           (''default_protocol_version'', PStr default_version),
           (''supported_protocol_versions'', strings supported),
           (''protocol_compatibility'', build_protocol_compatibility_params supported default_version),
           (''core'', PDict [(''jsonrpc_methods'', strings core), (''http_endpoints'', strings core_http_endpoints)]),
           (''extension_retention'', PDict [
             (session_binding_extension_uri, PDict [
               (''surface'', PStr ''core-runtime-metadata''),
               (''availability'', PStr ''always''),
               (''retention'', PStr ''required'')]),
             (model_selection_extension_uri, PDict [
               (''surface'', PStr ''core-runtime-metadata''),
               (''availability'', PStr ''always''),
               (''retention'', PStr ''stable'')]),
             (streaming_extension_uri, PDict [
               (''surface'', PStr ''core-runtime-metadata''),
               (''availability'', PStr ''always''),
               (''retention'', PStr ''required'')]),
             (session_management_extension_uri, PDict [
               (''surface'', PStr ''jsonrpc-extension''),
               (''availability'', PStr ''always''),
               (''retention'', PStr ''stable'')]),
             (provider_discovery_extension_uri, PDict [
               (''surface'', PStr ''jsonrpc-extension''),
               (''availability'', PStr ''always''),
               (''retention'', PStr ''stable'')]),
             (workspace_control_extension_uri, PDict [
               (''surface'', PStr ''jsonrpc-extension''),
               (''availability'', PStr ''always''),
               (''retention'', PStr ''mixed''),
               (''upstream_stability'', PStr ''mixed'')]),
             (interrupt_recovery_extension_uri, PDict [
               (''surface'', PStr ''jsonrpc-extension''),
               (''availability'', PStr ''always''),
               (''retention'', PStr ''stable''),
               (''implementation_scope'', PStr ''adapter-local''),
               (''identity_scope'', PStr ''current_authenticated_caller'')]),
             (interrupt_callback_extension_uri, PDict [
               (''surface'', PStr ''jsonrpc-extension''),
               (''availability'', PStr ''always''),
               (''retention'', PStr ''stable'')])]),
           (''method_retention'', PDict (method_retention core snapshot)),
           (''service_behaviors'', build_service_behavior_contract_params),
           (''consumer_guidance'', PList [
             PStr ''Treat core A2A methods as the stable interoperability baseline for generic clients.'',
             PStr ''Treat this deployment as a single-tenant, shared-workspace coding profile; do not assume per-consumer workspace or tenant isolation.'',
             PStr ''Treat shared model selection metadata as a stable request-scoped plugin surface for the main chat path; provider defaults still belong to OpenCode.'',
             PStr ''Treat opencode.sessions.*, opencode.providers.*, opencode.models.*, opencode.projects.*, opencode.workspaces.*, opencode.worktrees.*, opencode.permissions.list, and opencode.questions.list as provider-private operational surfaces rather than portable A2A baseline capabilities.'',
             PStr ''Treat a2a.interrupt.* methods as declared shared extensions and opencode.* methods as vendor-specific extensions that remain stable within the current major line.'',
             PStr ''Treat opencode.sessions.shell as deployment-conditional and discover it from the declared profile and current wire contract before calling it.'',
             PStr ''Treat opencode.workspaces.create/remove and opencode.worktrees.create/remove/reset as deployment-conditional operator surfaces rather than baseline workspace discovery methods.'',
             PStr ''Treat opencode.workspaces.list and opencode.worktrees.list as declared adapter contracts over upstream experimental endpoints, not the same stability tier as project discovery.'',
             PStr ''Treat opencode.permissions.list and opencode.questions.list as adapter-local, identity-scoped recovery views rather than upstream global pending queues.'',
             PStr ''Treat declared service behaviors as stable server-level semantic enhancements layered on top of the core A2A method baseline.'',
             PStr ''Treat protocol_compatibility as the runtime truth for which major line is fully supported versus partially adapted.''])]))"

definition build_wire_contract_params :: "string list \<Rightarrow> string \<Rightarrow> runtime_profile \<Rightarrow> string list option \<Rightarrow> string option \<Rightarrow> pyval" where
  "build_wire_contract_params core protocol_version p supported_protocol_versions default_protocol_version =
     (let default_version = or_version default_protocol_version protocol_version;
          supported = or_versions supported_protocol_versions default_version;
          snapshot = snapshot_of p
      in PDict [
           (''protocol_version'', PStr protocol_version),
           (''default_protocol_version'', PStr default_version),
           (''supported_protocol_versions'', strings supported),
           (''protocol_compatibility'', build_protocol_compatibility_params supported default_version),
           (''profile'', PDict (summary_dict p (Some protocol_version))),
           (''preferred_transport'', PStr ''HTTP+JSON''),
           (''additional_transports'', PList [PStr ''JSON-RPC'']),
           (''core'', PDict [(''jsonrpc_methods'', strings core), (''http_endpoints'', strings core_http_endpoints)]),
           (''extensions'', PDict [
             (''jsonrpc_methods'', strings (extension_jsonrpc_methods snapshot)),
             (''conditionally_available_methods'', conditionally_available_document snapshot),
             (''extension_uris'', PList [
               PStr session_binding_extension_uri, PStr model_selection_extension_uri, PStr streaming_extension_uri,
               PStr session_management_extension_uri, PStr provider_discovery_extension_uri,
               PStr workspace_control_extension_uri, PStr interrupt_recovery_extension_uri,
               PStr interrupt_callback_extension_uri])]),
           (''all_jsonrpc_methods'', strings (supported_jsonrpc_methods core snapshot)),
           (''service_behaviors'', build_service_behavior_contract_params),
           (''unsupported_method_error'', PDict [
             (''code'', PInt (-32601)),
             (''type'', PStr ''METHOD_NOT_SUPPORTED''),
             (''data_fields'', strings wire_contract_unsupported_method_data_fields)])])"

end
