(* ===== verification/Agent_Card.thy ===== *)
theory Agent_Card
  imports Extension_Documents Auth
begin

text \<open>
  The agent card (\<open>server/agent_card.py\<close>): the public card and the extended card that only authenticated
  callers read.  The classes of the SDK are records of the fields that are set; \<open>core\<close> are the methods of
  the SDK's application.
\<close>

section \<open>Cards\<close>

datatype transport_protocol = Http_Json | Json_Rpc

record agent_extension =
  ae_uri :: string
  ae_required :: bool
  ae_description :: string
  ae_params :: "pyval option"

record agent_skill =
  sk_id :: string
  sk_name :: string
  sk_description :: string
  sk_input_modes :: "string list"
  sk_output_modes :: "string list"
  sk_tags :: "string list"
  sk_examples :: "string list option"

record security_scheme =
  sc_description :: string
  sc_scheme :: string
  sc_bearer_format :: "string option"

record agent_card =
  ac_name :: string
  ac_description :: string
  ac_url :: string
  ac_documentation_url :: "string option"
  ac_version :: string
  ac_protocol_version :: string
  ac_preferred_transport :: transport_protocol
  ac_default_input_modes :: "string list"
  ac_default_output_modes :: "string list"
  ac_streaming :: bool
  ac_extensions :: "agent_extension list"
  ac_skills :: "agent_skill list"
  ac_supports_authenticated_extended_card :: bool
  ac_additional_interfaces :: "(transport_protocol \<times> string) list"
  ac_security_schemes :: "(string, security_scheme) dict"
  ac_security :: "string list list"

definition chat_input_modes :: "string list" where
  "chat_input_modes = [''text/plain'', ''application/octet-stream'']"

definition card_output_modes :: "string list" where
  "card_output_modes = [''text/plain'', ''application/json'']"

definition json_rpc_modes :: "string list" where "json_rpc_modes = [''application/json'']"

section \<open>Public parameters\<close>

definition select_public_extension_params :: "string list \<Rightarrow> pyval \<Rightarrow> pyval" where
  "select_public_extension_params keys params =
     (case params of PDict d \<Rightarrow> PDict (List.map_filter (\<lambda>k. map_option (Pair k) (dict_get d k)) keys) | _ \<Rightarrow> params)"

definition param_at :: "pyval \<Rightarrow> string \<Rightarrow> pyval" where
  "param_at params key = (case params of PDict d \<Rightarrow> the (dict_get d key) | _ \<Rightarrow> PNone)"

definition build_public_streaming_extension_params :: "pyval \<Rightarrow> pyval" where
  "build_public_streaming_extension_params params =
     PDict [
       (''artifact_metadata_field'', param_at params ''artifact_metadata_field''),
       (''progress_metadata_field'', param_at params ''progress_metadata_field''),
       (''interrupt_metadata_field'', param_at params ''interrupt_metadata_field''),
       (''session_metadata_field'', param_at params ''session_metadata_field''),
       (''usage_metadata_field'', param_at params ''usage_metadata_field''),
       (''block_types'', param_at params ''block_types''),
       (''stream_fields'', select_public_extension_params [''block_type'', ''message_id'', ''sequence''] (param_at params ''stream_fields'')),
       (''progress_fields'', select_public_extension_params [''type'', ''status''] (param_at params ''progress_fields'')),
       (''interrupt_fields'', select_public_extension_params [''request_id'', ''type'', ''phase''] (param_at params ''interrupt_fields'')),
       (''session_fields'', select_public_extension_params [''id'', ''title''] (param_at params ''session_fields'')),
       (''usage_fields'', select_public_extension_params [''input_tokens'', ''output_tokens'', ''total_tokens''] (param_at params ''usage_fields''))]"

section \<open>Description\<close>

definition public_summary :: "string list" where
  "public_summary =
     [
       ''Supports HTTP+JSON and JSON-RPC transports, streaming-first A2A messaging, and authenticated extended Agent Card discovery.'',
       ''Authenticated endpoints accept statically configured bearer/basic credentials, including multi-credential registry deployments.'',
       ''Single-tenant deployment; all consumers share the same underlying OpenCode workspace/environment.'']"

definition detailed_summary :: "string list" where
  "detailed_summary =
     [
       ''Supports HTTP+JSON and JSON-RPC transports, streaming-first A2A messaging (message/send, message/stream), authenticated extended Agent Card (agent/getAuthenticatedExtendedCard), task APIs (tasks/get, tasks/cancel, tasks/resubscribe; SDK-owned push notification config surfaces remain exposed but currently return unsupported; REST mappings include GET /v1/tasks and GET /v1/tasks/{id}:subscribe), shared session-binding/model-selection/streaming contracts, provider-private OpenCode session/provider/model/workspace-control/interrupt recovery extensions, and shared interrupt callback extensions.'',
       ''Authenticated endpoints accept statically configured bearer/basic credentials, including multi-credential registry deployments.'',
       ''This runtime profile is intended for single-tenant, self-hosted coding workflows.'',
       ''Within one opencode-a2a instance, all consumers share the same underlying OpenCode workspace/environment; per-consumer workspace isolation is not provided.'']"

definition card_base :: "server_settings \<Rightarrow> string" where
  "card_base s = (let d = py_strip (s_a2a_description s) in if d = [] then ''OpenCode A2A runtime.'' else d)"

definition context_sentence :: "string \<Rightarrow> string option \<Rightarrow> string list" where
  "context_sentence label v =
     (if truthy_str v \<and> py_strip (the v) \<noteq> [] then [label @ '': '' @ the v @ ''.''] else [])"

definition build_agent_card_description :: "server_settings \<Rightarrow> runtime_profile \<Rightarrow> bool \<Rightarrow> string" where
  "build_agent_card_description s p detailed =
     (let base = card_base s; context = rp_runtime_context p
      in if \<not> detailed
         then py_join '' '' (base # public_summary @ context_sentence ''Deployment project'' (rt_project context))
         else py_join '' '' (base # detailed_summary @ context_sentence ''Deployment project'' (rt_project context)
                @ context_sentence ''Workspace root'' (rt_workspace_root context)))"

section \<open>Examples of the skills\<close>

definition build_chat_examples :: "string option \<Rightarrow> string list" where
  "build_chat_examples project =
     [
       ''Explain what this repository does.'',
       ''Summarize the API endpoints in this project.'',
       ''Review the attached diff and summarize the highest-risk findings.'']
     @ (if truthy_str project then [''Summarize current work items for project '' @ the project @ ''.''] else [])"

definition build_session_management_skill_examples :: "capability_snapshot \<Rightarrow> string list" where
  "build_session_management_skill_examples snapshot =
     [
       ''Get session status snapshots (method opencode.sessions.status).'',
       ''List OpenCode sessions with filters (method opencode.sessions.list).'',
       ''Get one OpenCode session (method opencode.sessions.get).'',
       ''List child sessions (method opencode.sessions.children).'',
       ''Read one session todo list (method opencode.sessions.todo).'',
       ''Read one session diff (method opencode.sessions.diff).'',
       ''List messages with cursor pagination (method opencode.sessions.messages.list).'',
       ''Get one session message (method opencode.sessions.messages.get).'',
       ''Send async prompt to a session, including provider-private agent/subtask parts (method opencode.sessions.prompt_async).'',
       ''Send command to a session (method opencode.sessions.command).'',
       ''Fork a session at a message boundary (method opencode.sessions.fork).'',
       ''Share or unshare a session (methods opencode.sessions.share / opencode.sessions.unshare).'',
       ''Summarize or undo a session (methods opencode.sessions.summarize / opencode.sessions.revert / opencode.sessions.unrevert).'']
     @ (if is_method_enabled snapshot (method_at session_methods ''shell'') then [
         ''Run shell in a session (method opencode.sessions.shell).''] else [])"

definition build_interrupt_recovery_skill_examples :: "string list" where
  "build_interrupt_recovery_skill_examples =
     [
       ''List pending permission interrupts (method opencode.permissions.list).'',
       ''List pending question interrupts (method opencode.questions.list).'']"

definition build_workspace_control_skill_examples :: "capability_snapshot \<Rightarrow> string list" where
  "build_workspace_control_skill_examples snapshot =
     [
       ''List OpenCode projects (method opencode.projects.list).'',
       ''List workspaces for the active project (method opencode.workspaces.list).'']
     @ (if is_method_enabled snapshot ''opencode.worktrees.create'' then [
         ''Create a worktree (method opencode.worktrees.create).''] else [])"

section \<open>Extensions\<close>

definition session_context_prefix :: string where "session_context_prefix = ''ctx:opencode-session:''"

text \<open>Both documents about the protocol take the settings' version for each of their two versions.\<close>

definition card_document ::
  "(string list \<Rightarrow> string \<Rightarrow> runtime_profile \<Rightarrow> string list option \<Rightarrow> string option \<Rightarrow> pyval)
    \<Rightarrow> string list \<Rightarrow> server_settings \<Rightarrow> runtime_profile \<Rightarrow> pyval" where
  "card_document build core s p = build core (s_a2a_protocol_version s) p
     (Some (s_a2a_supported_protocol_versions s)) (Some (s_a2a_protocol_version s))"

definition build_agent_extensions :: "string list \<Rightarrow> server_settings \<Rightarrow> runtime_profile \<Rightarrow> bool \<Rightarrow> agent_extension list" where
  "build_agent_extensions core s p detailed = [
      \<lparr>ae_uri = session_binding_extension_uri, ae_required = False,
       ae_description = ''Shared contract to bind A2A messages to an existing upstream session when continuing a previous chat. Clients should pass metadata.shared.session.id. The metadata.opencode.directory field remains available as an OpenCode-private override under server-side directory boundary validation.'',
       ae_params = Some (if detailed then (build_session_binding_extension_params p) else select_public_extension_params [''metadata_field'', ''behavior'', ''supported_metadata'', ''provider_private_metadata''] (build_session_binding_extension_params p))\<rparr>,
      \<lparr>ae_uri = model_selection_extension_uri, ae_required = False,
       ae_description = ''Shared contract for request-scoped upstream model selection on the main chat path. Clients should pass metadata.shared.model with providerID/modelID.'',
       ae_params = Some (if detailed then (build_model_selection_extension_params p) else select_public_extension_params [''metadata_field'', ''behavior'', ''applies_to_methods'', ''supported_metadata'', ''provider_private_metadata'', ''fields''] (build_model_selection_extension_params p))\<rparr>,
      \<lparr>ae_uri = streaming_extension_uri, ae_required = False,
       ae_description = ''Shared streaming metadata contract for canonical block hints, timeline identity, usage, and interactive interrupt metadata.'',
       ae_params = Some (if detailed then build_streaming_extension_params else build_public_streaming_extension_params build_streaming_extension_params)\<rparr>,
      \<lparr>ae_uri = session_management_extension_uri, ae_required = False,
       ae_description = (''Support OpenCode session read, mutation, and control methods through provider-private JSON-RPC extensions on the agent'' @ [CHR 0x27] @ ''s A2A JSON-RPC interface.''),
       ae_params = (if detailed then Some (build_session_management_extension_params p session_context_prefix) else None)\<rparr>,
      \<lparr>ae_uri = provider_discovery_extension_uri, ae_required = False,
       ae_description = ''Expose OpenCode-specific provider/model discovery methods through JSON-RPC extensions.'',
       ae_params = (if detailed then Some (build_provider_discovery_extension_params p) else None)\<rparr>,
      \<lparr>ae_uri = workspace_control_extension_uri, ae_required = False,
       ae_description = ''Expose OpenCode-specific project discovery plus workspace/worktree discovery and deployment-conditional control-plane mutations through JSON-RPC extensions. Workspace/worktree surfaces depend on upstream experimental endpoints.'',
       ae_params = (if detailed then Some (build_workspace_control_extension_params p) else None)\<rparr>,
      \<lparr>ae_uri = interrupt_recovery_extension_uri, ae_required = False,
       ae_description = ''Expose adapter-local, identity-scoped interrupt recovery methods so clients can rediscover pending permission/question requests after reconnecting.'',
       ae_params = (if detailed then Some (build_interrupt_recovery_extension_params p) else None)\<rparr>,
      \<lparr>ae_uri = interrupt_callback_extension_uri, ae_required = False,
       ae_description = ''Handle interactive interrupt callbacks generated during streaming through shared JSON-RPC methods.'',
       ae_params = Some (if detailed then (build_interrupt_callback_extension_params p) else select_public_extension_params [''methods'', ''supported_interrupt_events'', ''request_id_field''] (build_interrupt_callback_extension_params p))\<rparr>,
      \<lparr>ae_uri = compatibility_profile_extension_uri, ae_required = False,
       ae_description = ''Expose the A2A compatibility profile defining core baselines, extension retention policies, declared service behaviors, and deployment-conditional methods.'',
       ae_params = (if detailed then Some (card_document build_compatibility_profile_params core s p) else None)\<rparr>,
      \<lparr>ae_uri = wire_contract_extension_uri, ae_required = False,
       ae_description = ''Expose the wire-level contract declaring supported JSON-RPC methods, HTTP endpoints, declared service behaviors, and unified error contracts.'',
       ae_params = (if detailed then Some (card_document build_wire_contract_params core s p) else None)\<rparr>]"

section \<open>Skills\<close>

definition public_agent_skills :: "agent_skill list" where
  "public_agent_skills = [
      \<lparr>sk_id = ''opencode.chat'', sk_name = ''OpenCode Chat'',
       sk_description = ''Handle core A2A chat turns with shared session binding and optional request-scoped model selection. Chat clients should continue accepting text/plain responses; application/json is additive structured-output support.'',
       sk_input_modes = chat_input_modes, sk_output_modes = card_output_modes, sk_tags = [''assistant'', ''coding'', ''opencode'', ''core-a2a'', ''portable''],
       sk_examples = None\<rparr>,
      \<lparr>sk_id = ''opencode.sessions.management'', sk_name = ''OpenCode Session Management'',
       sk_description = ''Read, mutate, and control OpenCode sessions through provider-private JSON-RPC extensions.'',
       sk_input_modes = json_rpc_modes, sk_output_modes = json_rpc_modes, sk_tags = [''opencode'', ''sessions'', ''history'', ''provider-private''],
       sk_examples = None\<rparr>,
      \<lparr>sk_id = ''opencode.providers.query'', sk_name = ''OpenCode Provider Catalog'',
       sk_description = ''Discover available upstream providers and models through provider-private JSON-RPC extensions.'',
       sk_input_modes = json_rpc_modes, sk_output_modes = json_rpc_modes, sk_tags = [''opencode'', ''providers'', ''models'', ''provider-private''],
       sk_examples = None\<rparr>,
      \<lparr>sk_id = ''opencode.workspace.control'', sk_name = ''OpenCode Workspace Control'',
       sk_description = ''Discover OpenCode projects, workspaces, and worktrees through provider-private JSON-RPC extensions. Mutation methods are deployment-conditional and workspace/worktree surfaces depend on upstream experimental endpoints.'',
       sk_input_modes = json_rpc_modes, sk_output_modes = json_rpc_modes, sk_tags = [''opencode'', ''project'', ''workspace'', ''worktree'', ''provider-private''],
       sk_examples = None\<rparr>,
      \<lparr>sk_id = ''opencode.interrupt.recovery'', sk_name = ''OpenCode Interrupt Recovery'',
       sk_description = ''Recover pending permission and question interrupts from the adapter-local interrupt registry for the current caller.'',
       sk_input_modes = json_rpc_modes, sk_output_modes = json_rpc_modes, sk_tags = [''interrupt'', ''permission'', ''question'', ''provider-private''],
       sk_examples = None\<rparr>,
      \<lparr>sk_id = ''opencode.interrupt.callback'', sk_name = ''Shared Interrupt Callback'',
       sk_description = ''Reply to streaming permission and question interrupts through shared JSON-RPC callbacks.'',
       sk_input_modes = json_rpc_modes, sk_output_modes = json_rpc_modes, sk_tags = [''interrupt'', ''permission'', ''question'', ''shared''],
       sk_examples = None\<rparr>]"

definition detailed_agent_skills :: "server_settings \<Rightarrow> capability_snapshot \<Rightarrow> agent_skill list" where
  "detailed_agent_skills s snapshot = [
      \<lparr>sk_id = ''opencode.chat'', sk_name = ''OpenCode Chat'',
       sk_description = ''Handle core A2A message/send and message/stream requests by routing TextPart and FilePart inputs to OpenCode sessions with shared session binding and optional request-scoped model selection. Chat clients should continue accepting text/plain responses; application/json is additive structured-output support.'',
       sk_input_modes = chat_input_modes, sk_output_modes = card_output_modes, sk_tags = [''assistant'', ''coding'', ''opencode'', ''core-a2a'', ''portable''],
       sk_examples = Some (build_chat_examples (s_a2a_project s))\<rparr>,
      \<lparr>sk_id = ''opencode.sessions.management'', sk_name = ''OpenCode Session Management'',
       sk_description = ''provider-private OpenCode session read/mutation/control surface exposed through JSON-RPC extensions.'',
       sk_input_modes = json_rpc_modes, sk_output_modes = json_rpc_modes, sk_tags = [''opencode'', ''sessions'', ''history'', ''provider-private''],
       sk_examples = Some (build_session_management_skill_examples snapshot)\<rparr>,
      \<lparr>sk_id = ''opencode.providers.query'', sk_name = ''OpenCode Provider Catalog'',
       sk_description = ''provider-private OpenCode provider/model discovery surface exposed through JSON-RPC extensions.'',
       sk_input_modes = json_rpc_modes, sk_output_modes = json_rpc_modes, sk_tags = [''opencode'', ''providers'', ''models'', ''provider-private''],
       sk_examples = Some [''List available providers (method opencode.providers.list).'', ''List available models for a provider (method opencode.models.list).'']\<rparr>,
      \<lparr>sk_id = ''opencode.workspace.control'', sk_name = ''OpenCode Workspace Control'',
       sk_description = ''provider-private OpenCode project discovery plus workspace/worktree discovery surface with deployment-conditional mutation methods exposed through JSON-RPC extensions; workspace/worktree methods currently wrap upstream experimental endpoints.'',
       sk_input_modes = json_rpc_modes, sk_output_modes = json_rpc_modes, sk_tags = [''opencode'', ''project'', ''workspace'', ''worktree'', ''provider-private''],
       sk_examples = Some (build_workspace_control_skill_examples snapshot)\<rparr>,
      \<lparr>sk_id = ''opencode.interrupt.recovery'', sk_name = ''OpenCode Interrupt Recovery'',
       sk_description = ''adapter-local, identity-scoped interrupt recovery surface exposed through JSON-RPC extensions.'',
       sk_input_modes = json_rpc_modes, sk_output_modes = json_rpc_modes, sk_tags = [''interrupt'', ''permission'', ''question'', ''provider-private''],
       sk_examples = Some build_interrupt_recovery_skill_examples\<rparr>,
      \<lparr>sk_id = ''opencode.interrupt.callback'', sk_name = ''Shared Interrupt Callback'',
       sk_description = ''Reply permission/question interrupts emitted during streaming via JSON-RPC methods a2a.interrupt.permission.reply, a2a.interrupt.question.reply, and a2a.interrupt.question.reject.'',
       sk_input_modes = json_rpc_modes, sk_output_modes = json_rpc_modes, sk_tags = [''interrupt'', ''permission'', ''question'', ''shared''],
       sk_examples = Some [''Reply once/always/reject to a permission request by request_id.'', ''Submit answers for a question request by request_id.'']\<rparr>]"

definition build_agent_skills :: "server_settings \<Rightarrow> capability_snapshot \<Rightarrow> bool \<Rightarrow> agent_skill list" where
  "build_agent_skills s snapshot detailed = (if \<not> detailed then public_agent_skills else detailed_agent_skills s snapshot)"

section \<open>The card\<close>

definition has_configured_auth_scheme :: "server_settings \<Rightarrow> string \<Rightarrow> bool" where
  "has_configured_auth_scheme s scheme =
     list_ex (\<lambda>c. cr_auth_scheme c = scheme) (build_static_auth_credentials (s_a2a_static_auth_credentials s))"

definition bearer_scheme :: security_scheme where
  "bearer_scheme = \<lparr>sc_description = ''Bearer token authentication'', sc_scheme = ''bearer'', sc_bearer_format = Some ''opaque''\<rparr>"

definition basic_scheme :: security_scheme where
  "basic_scheme = \<lparr>sc_description = ''Basic authentication'', sc_scheme = ''basic'', sc_bearer_format = None\<rparr>"

definition card_security_schemes :: "server_settings \<Rightarrow> (string, security_scheme) dict" where
  "card_security_schemes s =
     (if has_configured_auth_scheme s ''bearer'' then [(''bearerAuth'', bearer_scheme)] else [])
     @ (if has_configured_auth_scheme s ''basic'' then [(''basicAuth'', basic_scheme)] else [])"

text \<open>A security requirement is the list of its schemes, each without scopes.\<close>

definition agent_card_of :: "string list \<Rightarrow> server_settings \<Rightarrow> runtime_profile \<Rightarrow> bool \<Rightarrow> agent_card" where
  "agent_card_of core s p detailed =
     (let url = rstrip_slash (s_a2a_public_url s)
      in \<lparr>ac_name = s_a2a_title s, ac_description = build_agent_card_description s p detailed, ac_url = url,
         ac_documentation_url = s_a2a_documentation_url s, ac_version = s_a2a_version s,
         ac_protocol_version = s_a2a_protocol_version s, ac_preferred_transport = Http_Json,
         ac_default_input_modes = chat_input_modes, ac_default_output_modes = card_output_modes, ac_streaming = True,
         ac_extensions = build_agent_extensions core s p detailed, ac_skills = build_agent_skills s (snapshot_of p) detailed,
         ac_supports_authenticated_extended_card = True,
         ac_additional_interfaces = [(Http_Json, url), (Json_Rpc, url)],
         ac_security_schemes = card_security_schemes s, ac_security = map (\<lambda>(name, _). [name]) (card_security_schemes s)\<rparr>)"

definition build_card :: "bool \<Rightarrow> string list \<Rightarrow> resolver \<Rightarrow> string \<Rightarrow> server_settings \<Rightarrow> string + agent_card" where
  "build_card detailed core rs cwd s =
     ebind (build_runtime_profile rs cwd s) (\<lambda>p. Inr (agent_card_of core s p detailed))"

definition build_agent_card :: "string list \<Rightarrow> resolver \<Rightarrow> string \<Rightarrow> server_settings \<Rightarrow> string + agent_card" where
  "build_agent_card = build_card False"

definition build_authenticated_extended_agent_card :: "string list \<Rightarrow> resolver \<Rightarrow> string \<Rightarrow> server_settings \<Rightarrow> string + agent_card" where
  "build_authenticated_extended_agent_card = build_card True"

end
