(* ===== verification/Openapi.thy ===== *)
theory Openapi
  imports Agent_Card
begin

text \<open>
  The OpenAPI document (\<open>server/openapi.py\<close>): the description and the examples of the JSON-RPC entry point,
  the examples of the REST endpoints, and the patch of the schema that the framework generates.  The
  generated schema is an argument.
\<close>

section \<open>Description and examples\<close>

definition sorted_methods :: "(string, string) dict \<Rightarrow> string" where
  "sorted_methods methods = py_join '', '' (sort (map snd methods))"

definition build_jsonrpc_extension_openapi_description :: "capability_snapshot \<Rightarrow> string" where
  "build_jsonrpc_extension_openapi_description snapshot =
     ''A2A JSON-RPC entrypoint. Supports core A2A methods (message/send, message/stream, tasks/get, tasks/cancel, tasks/resubscribe) plus shared model-selection metadata, OpenCode session/provider extensions, interrupt recovery extensions, and shared interrupt callback methods.'' @ [CHR 0x0A] @ [CHR 0x0A] @ ''OpenCode session read/mutation/control methods: ''
     @ py_join '', '' (map snd (session_management_methods snapshot))
     @ ''.'' @ [CHR 0x0A] @ ''The existing prompt_async extension also accepts provider-private OpenCode request.parts[] item types such as text, file, agent, and subtask; subtask execution remains upstream runtime behavior rather than a separate A2A orchestration API.'' @ [CHR 0x0A] @ ''OpenCode provider/model discovery methods: ''
     @ sorted_methods provider_discovery_methods
     @ ''.'' @ [CHR 0x0A] @ ''OpenCode project/workspace/worktree control methods: ''
     @ sorted_methods (workspace_control_methods snapshot)
     @ ''.'' @ [CHR 0x0A] @ ''OpenCode interrupt recovery methods: ''
     @ sorted_methods interrupt_recovery_methods
     @ ''.'' @ [CHR 0x0A] @ ''Shared interrupt callback methods: ''
     @ sorted_methods interrupt_callback_methods
     @ ''.'' @ [CHR 0x0A] @ [CHR 0x0A] @ ''Notification semantics: extension requests without JSON-RPC id return HTTP 204.''"

definition core_examples :: "(string, pyval) dict" where
  "core_examples =
     [
       (''message_send'', PDict [
         (''summary'', PStr ''Send message via JSON-RPC core method''),
         (''value'', PDict [
           (''jsonrpc'', PStr ''2.0''),
           (''id'', PInt 101),
           (''method'', PStr ''message/send''),
           (''params'', PDict [
             (''message'', PDict [
               (''messageId'', PStr ''msg-1''),
               (''role'', PStr ''user''),
               (''parts'', PList [
                 PDict [(''kind'', PStr ''text''), (''text'', PStr ''Explain what this repository does.'')]])])])])]),
       (''message_stream'', PDict [
         (''summary'', PStr ''Stream message via JSON-RPC core method''),
         (''value'', PDict [
           (''jsonrpc'', PStr ''2.0''),
           (''id'', PInt 102),
           (''method'', PStr ''message/stream''),
           (''params'', PDict [
             (''message'', PDict [
               (''messageId'', PStr ''msg-stream-1''),
               (''role'', PStr ''user''),
               (''parts'', PList [
                 PDict [(''kind'', PStr ''text''), (''text'', PStr ''Stream the answer and highlight key conclusions.'')]])])])])]),
       (''message_send_model_override'', PDict [
         (''summary'', PStr ''Send message with shared model override''),
         (''value'', PDict [
           (''jsonrpc'', PStr ''2.0''),
           (''id'', PInt 103),
           (''method'', PStr ''message/send''),
           (''params'', PDict [
             (''message'', PDict [
               (''messageId'', PStr ''msg-model-1''),
               (''role'', PStr ''user''),
               (''parts'', PList [PDict [(''kind'', PStr ''text''), (''text'', PStr ''Answer with the faster model.'')]])]),
             (''metadata'', PDict [
               (''shared'', PDict [
                 (''model'', PDict [(''providerID'', PStr ''google''), (''modelID'', PStr ''gemini-2.5-flash'')])])])])])]),
       (''message_send_file_input'', PDict [
         (''summary'', PStr ''Send message with text + file input''),
         (''value'', PDict [
           (''jsonrpc'', PStr ''2.0''),
           (''id'', PInt 104),
           (''method'', PStr ''message/send''),
           (''params'', PDict [
             (''message'', PDict [
               (''messageId'', PStr ''msg-file-1''),
               (''role'', PStr ''user''),
               (''parts'', PList [
                 PDict [
                   (''kind'', PStr ''text''),
                   (''text'', PStr ''Review the attached file and summarize the main risks.'')],
                 PDict [
                   (''kind'', PStr ''file''),
                   (''file'', PDict [
                     (''name'', PStr ''report.pdf''),
                     (''mimeType'', PStr ''application/pdf''),
                     (''uri'', PStr ''file:///workspace/report.pdf'')])]])])])])])]"

definition session_read_examples :: "(string, pyval) dict" where
  "session_read_examples =
     [
       (''session_list'', PDict [
         (''summary'', PStr ''List OpenCode sessions''),
         (''value'', PDict [
           (''jsonrpc'', PStr ''2.0''),
           (''id'', PInt 1),
           (''method'', PStr (method_at session_methods ''list_sessions'')),
           (''params'', PDict [
             (''directory'', PStr ''services/api''),
             (''roots'', PBool True),
             (''search'', PStr ''planner''),
             (''limit'', PInt session_query_default_limit)])])]),
       (''session_status'', PDict [
         (''summary'', PStr ''Get OpenCode session status snapshots''),
         (''value'', PDict [
           (''jsonrpc'', PStr ''2.0''),
           (''id'', PInt 11),
           (''method'', PStr (method_at session_methods ''status'')),
           (''params'', PDict [(''directory'', PStr ''services/api'')])])]),
       (''session_get'', PDict [
         (''summary'', PStr ''Get one OpenCode session''),
         (''value'', PDict [
           (''jsonrpc'', PStr ''2.0''),
           (''id'', PInt 12),
           (''method'', PStr (method_at session_methods ''get_session'')),
           (''params'', PDict [(''session_id'', PStr ''s-1'')])])]),
       (''session_children'', PDict [
         (''summary'', PStr ''List child sessions for one OpenCode session''),
         (''value'', PDict [
           (''jsonrpc'', PStr ''2.0''),
           (''id'', PInt 13),
           (''method'', PStr (method_at session_methods ''get_session_children'')),
           (''params'', PDict [(''session_id'', PStr ''s-1'')])])]),
       (''session_todo'', PDict [
         (''summary'', PStr ''Read todo items for one OpenCode session''),
         (''value'', PDict [
           (''jsonrpc'', PStr ''2.0''),
           (''id'', PInt 14),
           (''method'', PStr (method_at session_methods ''get_session_todo'')),
           (''params'', PDict [(''session_id'', PStr ''s-1'')])])]),
       (''session_diff'', PDict [
         (''summary'', PStr ''Read diff summary for one OpenCode session''),
         (''value'', PDict [
           (''jsonrpc'', PStr ''2.0''),
           (''id'', PInt 15),
           (''method'', PStr (method_at session_methods ''get_session_diff'')),
           (''params'', PDict [(''session_id'', PStr ''s-1''), (''message_id'', PStr ''msg-1'')])])]),
       (''session_messages'', PDict [
         (''summary'', PStr ''List session messages''),
         (''value'', PDict [
           (''jsonrpc'', PStr ''2.0''),
           (''id'', PInt 2),
           (''method'', PStr (method_at session_methods ''get_session_messages'')),
           (''params'', PDict [
             (''session_id'', PStr ''s-1''),
             (''before'', PStr ''cursor-1''),
             (''limit'', PInt session_query_default_limit)])])]),
       (''session_message_get'', PDict [
         (''summary'', PStr ''Get one session message''),
         (''value'', PDict [
           (''jsonrpc'', PStr ''2.0''),
           (''id'', PInt 16),
           (''method'', PStr (method_at session_methods ''get_session_message'')),
           (''params'', PDict [(''session_id'', PStr ''s-1''), (''message_id'', PStr ''msg-1'')])])])]"

definition session_change_examples :: "(string, pyval) dict" where
  "session_change_examples =
     [
       (''session_prompt_async'', PDict [
         (''summary'', PStr ''Send async prompt to an existing session''),
         (''value'', PDict [
           (''jsonrpc'', PStr ''2.0''),
           (''id'', PInt 21),
           (''method'', PStr (method_at session_methods ''prompt_async'')),
           (''params'', PDict [
             (''session_id'', PStr ''s-1''),
             (''request'', PDict [
               (''parts'', PList [
                 PDict [(''type'', PStr ''text''), (''text'', PStr ''Continue and summarize next steps.'')]])])])])]),
       (''session_prompt_async_subtask'', PDict [
         (''summary'', PStr ''Send a provider-private subtask part to an existing session''),
         (''value'', PDict [
           (''jsonrpc'', PStr ''2.0''),
           (''id'', PInt 211),
           (''method'', PStr (method_at session_methods ''prompt_async'')),
           (''params'', PDict [
             (''session_id'', PStr ''s-1''),
             (''request'', PDict [
               (''parts'', PList [
                 PDict [
                   (''type'', PStr ''subtask''),
                   (''prompt'', PStr ''Inspect the auth middleware and list gaps.''),
                   (''description'', PStr ''Security-focused pass over request auth flow''),
                   (''agent'', PStr ''explore''),
                   (''command'', PStr ''review'')]])])])])]),
       (''session_command'', PDict [
         (''summary'', PStr ''Send command to an existing session''),
         (''value'', PDict [
           (''jsonrpc'', PStr ''2.0''),
           (''id'', PInt 22),
           (''method'', PStr (method_at session_methods ''command'')),
           (''params'', PDict [
             (''session_id'', PStr ''s-1''),
             (''request'', PDict [(''command'', PStr ''/review''), (''arguments'', PStr ''focus on security findings'')])])])]),
       (''session_fork'', PDict [
         (''summary'', PStr ''Fork one OpenCode session''),
         (''value'', PDict [
           (''jsonrpc'', PStr ''2.0''),
           (''id'', PInt 221),
           (''method'', PStr (method_at session_methods ''fork'')),
           (''params'', PDict [(''session_id'', PStr ''s-1''), (''request'', PDict [(''messageID'', PStr ''msg-1'')])])])]),
       (''session_share'', PDict [
         (''summary'', PStr ''Share one OpenCode session''),
         (''value'', PDict [
           (''jsonrpc'', PStr ''2.0''),
           (''id'', PInt 222),
           (''method'', PStr (method_at session_methods ''share'')),
           (''params'', PDict [(''session_id'', PStr ''s-1'')])])]),
       (''session_unshare'', PDict [
         (''summary'', PStr ''Unshare one OpenCode session''),
         (''value'', PDict [
           (''jsonrpc'', PStr ''2.0''),
           (''id'', PInt 223),
           (''method'', PStr (method_at session_methods ''unshare'')),
           (''params'', PDict [(''session_id'', PStr ''s-1'')])])]),
       (''session_summarize'', PDict [
         (''summary'', PStr ''Summarize one OpenCode session''),
         (''value'', PDict [
           (''jsonrpc'', PStr ''2.0''),
           (''id'', PInt 224),
           (''method'', PStr (method_at session_methods ''summarize'')),
           (''params'', PDict [
             (''session_id'', PStr ''s-1''),
             (''request'', PDict [(''providerID'', PStr ''openai''), (''modelID'', PStr ''gpt-5''), (''auto'', PBool True)])])])]),
       (''session_revert'', PDict [
         (''summary'', PStr ''Revert one OpenCode session to a message boundary''),
         (''value'', PDict [
           (''jsonrpc'', PStr ''2.0''),
           (''id'', PInt 225),
           (''method'', PStr (method_at session_methods ''revert'')),
           (''params'', PDict [
             (''session_id'', PStr ''s-1''),
             (''request'', PDict [(''messageID'', PStr ''msg-1''), (''partID'', PStr ''part-1'')])])])]),
       (''session_unrevert'', PDict [
         (''summary'', PStr ''Restore reverted content in one OpenCode session''),
         (''value'', PDict [
           (''jsonrpc'', PStr ''2.0''),
           (''id'', PInt 226),
           (''method'', PStr (method_at session_methods ''unrevert'')),
           (''params'', PDict [(''session_id'', PStr ''s-1'')])])])]"

definition resource_examples :: "(string, pyval) dict" where
  "resource_examples =
     [
       (''providers_list'', PDict [
         (''summary'', PStr ''List available OpenCode providers''),
         (''value'', PDict [
           (''jsonrpc'', PStr ''2.0''),
           (''id'', PInt 24),
           (''method'', PStr (method_at provider_discovery_methods ''list_providers'')),
           (''params'', PDict [])])]),
       (''models_list'', PDict [
         (''summary'', PStr ''List available models for one provider''),
         (''value'', PDict [
           (''jsonrpc'', PStr ''2.0''),
           (''id'', PInt 25),
           (''method'', PStr (method_at provider_discovery_methods ''list_models'')),
           (''params'', PDict [(''provider_id'', PStr ''openai'')])])]),
       (''projects_list'', PDict [
         (''summary'', PStr ''List OpenCode projects''),
         (''value'', PDict [
           (''jsonrpc'', PStr ''2.0''),
           (''id'', PInt 28),
           (''method'', PStr (method_at workspace_methods ''list_projects'')),
           (''params'', PDict [])])]),
       (''projects_current'', PDict [
         (''summary'', PStr ''Get the current OpenCode project''),
         (''value'', PDict [
           (''jsonrpc'', PStr ''2.0''),
           (''id'', PInt 281),
           (''method'', PStr (method_at workspace_methods ''get_current_project'')),
           (''params'', PDict [])])]),
       (''workspaces_list'', PDict [
         (''summary'', PStr ''List workspaces for the active project''),
         (''value'', PDict [
           (''jsonrpc'', PStr ''2.0''),
           (''id'', PInt 29),
           (''method'', PStr (method_at workspace_methods ''list_workspaces'')),
           (''params'', PDict [])])]),
       (''worktrees_list'', PDict [
         (''summary'', PStr ''List worktrees for the active project''),
         (''value'', PDict [
           (''jsonrpc'', PStr ''2.0''),
           (''id'', PInt 293),
           (''method'', PStr (method_at workspace_methods ''list_worktrees'')),
           (''params'', PDict [])])]),
       (''permissions_list'', PDict [
         (''summary'', PStr ''List pending permission interrupts for the current caller''),
         (''value'', PDict [
           (''jsonrpc'', PStr ''2.0''),
           (''id'', PInt 26),
           (''method'', PStr (method_at interrupt_recovery_methods ''list_permissions'')),
           (''params'', PDict [])])]),
       (''questions_list'', PDict [
         (''summary'', PStr ''List pending question interrupts for the current caller''),
         (''value'', PDict [
           (''jsonrpc'', PStr ''2.0''),
           (''id'', PInt 27),
           (''method'', PStr (method_at interrupt_recovery_methods ''list_questions'')),
           (''params'', PDict [])])])]"

definition reply_examples :: "(string, pyval) dict" where
  "reply_examples =
     [
       (''permission_reply'', PDict [
         (''summary'', PStr ''Reply to permission interrupt request''),
         (''value'', PDict [
           (''jsonrpc'', PStr ''2.0''),
           (''id'', PInt 31),
           (''method'', PStr (method_at interrupt_callback_methods ''reply_permission'')),
           (''params'', PDict [(''request_id'', PStr ''req-1''), (''reply'', PStr ''once'')])])]),
       (''question_reply'', PDict [
         (''summary'', PStr ''Reply to question interrupt request''),
         (''value'', PDict [
           (''jsonrpc'', PStr ''2.0''),
           (''id'', PInt 32),
           (''method'', PStr (method_at interrupt_callback_methods ''reply_question'')),
           (''params'', PDict [(''request_id'', PStr ''req-2''), (''answers'', PList [PList [PStr ''answer'']])])])]),
       (''question_reject'', PDict [
         (''summary'', PStr ''Reject question interrupt request''),
         (''value'', PDict [
           (''jsonrpc'', PStr ''2.0''),
           (''id'', PInt 33),
           (''method'', PStr (method_at interrupt_callback_methods ''reject_question'')),
           (''params'', PDict [(''request_id'', PStr ''req-3'')])])])]"

definition shell_examples :: "(string, pyval) dict" where
  "shell_examples =
     [
       (''session_shell'', PDict [
         (''summary'', PStr ''Run shell command in an existing session''),
         (''value'', PDict [
           (''jsonrpc'', PStr ''2.0''),
           (''id'', PInt 23),
           (''method'', PStr (method_at session_methods ''shell'')),
           (''params'', PDict [
             (''session_id'', PStr ''s-1''),
             (''request'', PDict [(''agent'', PStr ''code-reviewer''), (''command'', PStr ''git status --short'')])])])])]"

definition workspace_mutation_examples :: "(string, pyval) dict" where
  "workspace_mutation_examples =
     [
       (''workspaces_create'', PDict [
         (''summary'', PStr ''Create a workspace for the active project''),
         (''value'', PDict [
           (''jsonrpc'', PStr ''2.0''),
           (''id'', PInt 291),
           (''method'', PStr (method_at workspace_methods ''create_workspace'')),
           (''params'', PDict [(''request'', PDict [(''type'', PStr ''git''), (''branch'', PStr ''main'')])])])]),
       (''workspaces_remove'', PDict [
         (''summary'', PStr ''Remove a workspace''),
         (''value'', PDict [
           (''jsonrpc'', PStr ''2.0''),
           (''id'', PInt 292),
           (''method'', PStr (method_at workspace_methods ''remove_workspace'')),
           (''params'', PDict [(''workspace_id'', PStr ''wrk-1'')])])]),
       (''worktrees_create'', PDict [
         (''summary'', PStr ''Create a new worktree''),
         (''value'', PDict [
           (''jsonrpc'', PStr ''2.0''),
           (''id'', PInt 30),
           (''method'', PStr (method_at workspace_methods ''create_worktree'')),
           (''params'', PDict [
             (''request'', PDict [(''name'', PStr ''feature-branch''), (''startCommand'', PStr ''pnpm install'')])])])]),
       (''worktrees_remove'', PDict [
         (''summary'', PStr ''Remove a worktree''),
         (''value'', PDict [
           (''jsonrpc'', PStr ''2.0''),
           (''id'', PInt 301),
           (''method'', PStr (method_at workspace_methods ''remove_worktree'')),
           (''params'', PDict [(''request'', PDict [(''directory'', PStr ''/tmp/worktrees/feature-branch'')])])])]),
       (''worktrees_reset'', PDict [
         (''summary'', PStr ''Reset a worktree branch''),
         (''value'', PDict [
           (''jsonrpc'', PStr ''2.0''),
           (''id'', PInt 302),
           (''method'', PStr (method_at workspace_methods ''reset_worktree'')),
           (''params'', PDict [(''request'', PDict [(''directory'', PStr ''/tmp/worktrees/feature-branch'')])])])])]"

definition build_jsonrpc_extension_openapi_examples :: "capability_snapshot \<Rightarrow> (string, pyval) dict" where
  "build_jsonrpc_extension_openapi_examples snapshot =
     core_examples @ session_read_examples @ session_change_examples @ resource_examples @ reply_examples
     @ (if is_method_enabled snapshot (method_at session_methods ''shell'') then shell_examples else [])
     @ (if is_method_enabled snapshot (method_at workspace_methods ''create_workspace'') then workspace_mutation_examples else [])"

definition build_rest_message_openapi_examples :: pyval where
  "build_rest_message_openapi_examples =
     PDict [
       (''basic_message'', PDict [
         (''summary'', PStr ''Send a basic user message (HTTP+JSON)''),
         (''value'', PDict [
           (''message'', PDict [
             (''messageId'', PStr ''msg-rest-1''),
             (''role'', PStr ''ROLE_USER''),
             (''content'', PList [PDict [(''text'', PStr ''Explain what this repository does.'')]])])])]),
       (''message_with_file_input'', PDict [
         (''summary'', PStr ''Send message with FilePart input (HTTP+JSON)''),
         (''value'', PDict [
           (''message'', PDict [
             (''messageId'', PStr ''msg-rest-file-1''),
             (''role'', PStr ''ROLE_USER''),
             (''content'', PList [
               PDict [(''text'', PStr ''Review the attached file and summarize the main risks.'')],
               PDict [
                 (''file'', PDict [
                   (''name'', PStr ''report.pdf''),
                   (''mimeType'', PStr ''application/pdf''),
                   (''uri'', PStr ''file:///workspace/report.pdf'')])]])])])]),
       (''continue_session'', PDict [
         (''summary'', PStr ''Continue a historical OpenCode session''),
         (''value'', PDict [
           (''message'', PDict [
             (''messageId'', PStr ''msg-rest-continue-1''),
             (''role'', PStr ''ROLE_USER''),
             (''content'', PList [PDict [(''text'', PStr ''Continue previous work and summarize next steps.'')]])]),
           (''metadata'', PDict [(''shared'', PDict [(''session'', PDict [(''id'', PStr ''s-1'')])])])])]),
       (''message_with_model_override'', PDict [
         (''summary'', PStr ''Send message with shared model override''),
         (''value'', PDict [
           (''message'', PDict [
             (''messageId'', PStr ''msg-rest-model-1''),
             (''role'', PStr ''ROLE_USER''),
             (''content'', PList [PDict [(''text'', PStr ''Answer with the faster model.'')]])]),
           (''metadata'', PDict [
             (''shared'', PDict [
               (''model'', PDict [(''providerID'', PStr ''google''), (''modelID'', PStr ''gemini-2.5-flash'')])])])])])]"

section \<open>The patch of the schema\<close>

text \<open>Path, summary, description and schema of the two REST endpoints.\<close>

definition rest_post_contracts :: "(string \<times> string \<times> string \<times> string) list" where
  "rest_post_contracts =
     [
       (''/v1/message:send'', ''Send Message (HTTP+JSON)'', ''A2A HTTP+JSON message send endpoint. Use REST payload shape with message.content and ROLE_* roles.'', ''#/components/schemas/SendMessageRequest''),
       (''/v1/message:stream'', ''Stream Message (HTTP+JSON)'', ''A2A HTTP+JSON streaming endpoint. Use REST payload shape with message.content and ROLE_* roles.'', ''#/components/schemas/SendStreamingMessageRequest'')]"

definition extension_contracts :: "string list \<Rightarrow> server_settings \<Rightarrow> runtime_profile \<Rightarrow> pyval" where
  "extension_contracts core s p = PDict
     [(''session_binding'', build_session_binding_extension_params p),
      (''model_selection'', build_model_selection_extension_params p),
      (''streaming'', build_streaming_extension_params),
      (''session_management'', build_session_management_extension_params p session_context_prefix),
      (''provider_discovery'', build_provider_discovery_extension_params p),
      (''workspace_control'', build_workspace_control_extension_params p),
      (''interrupt_recovery'', build_interrupt_recovery_extension_params p),
      (''interrupt_callback'', build_interrupt_callback_extension_params p),
      (''compatibility_profile'', card_document build_compatibility_profile_params core s p),
      (''wire_contract'', card_document build_wire_contract_params core s p)]"

text \<open>
  The patch changes the nested dictionaries in place: \<open>at_dict\<close> changes an entry when it is a dictionary,
  \<open>at_default_dict\<close> does so after \<open>setdefault(key, {})\<close>.
\<close>

definition setdefault :: "string \<Rightarrow> pyval \<Rightarrow> (string, pyval) dict \<Rightarrow> (string, pyval) dict" where
  "setdefault key v d = (if dict_get d key = None then dict_set key v d else d)"

definition at_dict :: "string \<Rightarrow> ((string, pyval) dict \<Rightarrow> (string, pyval) dict) \<Rightarrow> (string, pyval) dict \<Rightarrow> (string, pyval) dict" where
  "at_dict key f d = (case dict_get d key of Some (PDict inner) \<Rightarrow> dict_set key (PDict (f inner)) d | _ \<Rightarrow> d)"

definition at_default_dict ::
  "string \<Rightarrow> ((string, pyval) dict \<Rightarrow> (string, pyval) dict) \<Rightarrow> (string, pyval) dict \<Rightarrow> (string, pyval) dict" where
  "at_default_dict key f d = at_dict key f (setdefault key (PDict []) d)"

definition patch_jsonrpc_post ::
  "string list \<Rightarrow> server_settings \<Rightarrow> runtime_profile \<Rightarrow> (string, pyval) dict \<Rightarrow> (string, pyval) dict" where
  "patch_jsonrpc_post core s p post =
     (let snapshot = snapshot_of p;
          post = dict_set ''summary'' (PStr ''Handle A2A JSON-RPC Requests'') post;
          post = dict_set ''description'' (PStr (build_jsonrpc_extension_openapi_description snapshot)) post;
          post = dict_set ''x-a2a-extension-contracts'' (extension_contracts core s p) post
      in at_default_dict ''requestBody'' (at_default_dict ''content'' (at_default_dict ''application/json''
           (dict_set ''examples'' (PDict (build_jsonrpc_extension_openapi_examples snapshot))))) post)"

definition patch_rest_post :: "string \<Rightarrow> string \<Rightarrow> string \<Rightarrow> (string, pyval) dict \<Rightarrow> (string, pyval) dict" where
  "patch_rest_post summary description schema_ref post =
     (let post = dict_set ''description'' (PStr description) (dict_set ''summary'' (PStr summary) post)
      in at_default_dict ''requestBody'' (\<lambda>request_body.
           at_default_dict ''content'' (at_default_dict ''application/json'' (\<lambda>app_json.
             dict_set ''examples'' build_rest_message_openapi_examples
               (dict_set ''schema'' (PDict [(''$ref'', PStr schema_ref)]) app_json)))
             (setdefault ''required'' (PBool True) request_body)) post)"

definition patch_paths :: "string list \<Rightarrow> server_settings \<Rightarrow> runtime_profile \<Rightarrow> (string, pyval) dict \<Rightarrow> (string, pyval) dict" where
  "patch_paths core s p paths =
     fold (\<lambda>(path, summary, description, schema_ref).
         at_dict path (at_dict ''post'' (patch_rest_post summary description schema_ref)))
       rest_post_contracts (at_dict ''/'' (at_dict ''post'' (patch_jsonrpc_post core s p)) paths)"

text \<open>\<open>custom_openapi\<close>: a schema that was built before is returned as it is.  The result is also the stored schema.\<close>

definition custom_openapi ::
  "string list \<Rightarrow> server_settings \<Rightarrow> runtime_profile \<Rightarrow> (string, pyval) dict \<Rightarrow> (string, pyval) dict option \<Rightarrow> (string, pyval) dict" where
  "custom_openapi core s p original stored =
     (case stored of
        Some (entry # entries) \<Rightarrow> entry # entries
      | _ \<Rightarrow> at_dict ''paths'' (patch_paths core s p) original)"

end
