(* ===== verification/Document_Properties.thy ===== *)
theory Document_Properties
  imports Openapi
begin

text \<open>
  What the agent cards disclose, and the OpenAPI document: the public card depends only on the settings
  meant for everybody, the cards declare the schemes that authenticate, the examples call the served methods
  with parameters their contracts allow, and the patch of the schema changes three entries only.
\<close>

section \<open>The public card\<close>

definition same_public_settings :: "server_settings \<Rightarrow> server_settings \<Rightarrow> bool" where
  "same_public_settings s s' \<longleftrightarrow>
     s_a2a_title s = s_a2a_title s' \<and> s_a2a_description s = s_a2a_description s' \<and> s_a2a_project s = s_a2a_project s'
     \<and> s_a2a_public_url s = s_a2a_public_url s' \<and> s_a2a_documentation_url s = s_a2a_documentation_url s'
     \<and> s_a2a_version s = s_a2a_version s' \<and> s_a2a_protocol_version s = s_a2a_protocol_version s'
     \<and> has_configured_auth_scheme s ''bearer'' = has_configured_auth_scheme s' ''bearer''
     \<and> has_configured_auth_scheme s ''basic'' = has_configured_auth_scheme s' ''basic''"

lemma public_session_binding:
  "select_public_extension_params [''metadata_field'', ''behavior'', ''supported_metadata'', ''provider_private_metadata'']
     (build_session_binding_extension_params p) =
   select_public_extension_params [''metadata_field'', ''behavior'', ''supported_metadata'', ''provider_private_metadata'']
     (build_session_binding_extension_params q)"
  by (simp add: select_public_extension_params_def build_session_binding_extension_params_def List.map_filter_simps)

lemma public_model_selection:
  "select_public_extension_params [''metadata_field'', ''behavior'', ''applies_to_methods'', ''supported_metadata'',
       ''provider_private_metadata'', ''fields''] (build_model_selection_extension_params p) =
   select_public_extension_params [''metadata_field'', ''behavior'', ''applies_to_methods'', ''supported_metadata'',
       ''provider_private_metadata'', ''fields''] (build_model_selection_extension_params q)"
  by (simp add: select_public_extension_params_def build_model_selection_extension_params_def List.map_filter_simps)

lemma public_interrupt_callback:
  "select_public_extension_params [''methods'', ''supported_interrupt_events'', ''request_id_field'']
     (build_interrupt_callback_extension_params p) =
   select_public_extension_params [''methods'', ''supported_interrupt_events'', ''request_id_field'']
     (build_interrupt_callback_extension_params q)"
  by (simp add: select_public_extension_params_def build_interrupt_callback_extension_params_def List.map_filter_simps)

lemma public_extensions:
  "build_agent_extensions core s p False = build_agent_extensions core' s' p' False"
  using public_session_binding [of p p'] public_model_selection [of p p'] public_interrupt_callback [of p p']
  by (simp add: build_agent_extensions_def)

lemma profile_project: "build_runtime_profile rs cwd s = Inr p \<Longrightarrow> rt_project (rp_runtime_context p) = s_a2a_project s"
  by (auto simp: build_runtime_profile_def ebind_Inr_iff)

lemma public_cards_agree:
  assumes "same_public_settings s s'" "rt_project (rp_runtime_context p) = rt_project (rp_runtime_context p')"
  shows "agent_card_of core s p False = agent_card_of core' s' p' False"
  using assms public_extensions [of core s p core' s' p']
  by (simp add: agent_card_of_def same_public_settings_def build_agent_card_description_def card_base_def
      build_agent_skills_def card_security_schemes_def Let_def)

text \<open>
  C37: the public agent card tells nothing of the deployment but the settings meant for it.  Two deployments
  that agree on title, description, project, address, documentation, versions and the kinds of credentials
  show the same public card, however their workspace, sandbox, network, approval, switches and supported
  versions differ; and the extended card declares the same extensions.
\<close>

theorem public_card_hides_deployment:
  assumes "build_runtime_profile rs cwd s = Inr p" "build_runtime_profile rs' cwd' s' = Inr p'"
    and "same_public_settings s s'"
  shows "\<exists>card. build_agent_card core rs cwd s = Inr card \<and> build_agent_card core' rs' cwd' s' = Inr card \<and>
    (\<exists>extended. build_authenticated_extended_agent_card core rs cwd s = Inr extended \<and>
      map ae_uri (ac_extensions extended) = map ae_uri (ac_extensions card))"
proof -
  have "s_a2a_project s = s_a2a_project s'" using assms(3) by (simp add: same_public_settings_def)
  then have "agent_card_of core s p False = agent_card_of core' s' p' False"
    using assms by (intro public_cards_agree) (simp_all add: profile_project)
  moreover have "map ae_uri (ac_extensions (agent_card_of core s p True)) = map ae_uri (ac_extensions (agent_card_of core s p False))"
    by (simp add: agent_card_of_def build_agent_extensions_def Let_def)
  ultimately show ?thesis
    using assms(1,2)
    by (simp add: build_agent_card_def build_authenticated_extended_agent_card_def build_card_def)
qed

definition open_server :: server_settings where
  "open_server = (declared_defaults ''0.1'')\<lparr>s_opencode_workspace_root := Some ''/srv/demo'', s_a2a_enable_session_shell := True\<rparr>"

definition locked_server :: server_settings where
  "locked_server = (declared_defaults ''0.1'')\<lparr>s_opencode_workspace_root := Some ''/home/secret'', s_a2a_sandbox_mode := ''read-only'',
     s_a2a_network_allowed_domains := [''internal.example'']\<rparr>"

theorem public_card_hides_deployment_witness:
  "\<exists>card. build_agent_card [] plain_resolver ''/'' open_server = Inr card \<and>
     build_agent_card [''message/send''] plain_resolver ''/'' locked_server = Inr card"
proof -
  have b: "build_runtime_profile plain_resolver ''/'' open_server = Inr (projr (build_runtime_profile plain_resolver ''/'' open_server))"
    "build_runtime_profile plain_resolver ''/'' locked_server = Inr (projr (build_runtime_profile plain_resolver ''/'' locked_server))"
    by code_simp+
  have "same_public_settings open_server locked_server"
    by (simp add: same_public_settings_def open_server_def locked_server_def has_configured_auth_scheme_def)
  from public_card_hides_deployment [OF b this] show ?thesis by blast
qed

section \<open>The schemes of the cards\<close>

abbreviation credentials_of :: "server_settings \<Rightarrow> credential list" where
  "credentials_of s \<equiv> build_static_auth_credentials (s_a2a_static_auth_credentials s)"

lemma lower_schemes: "py_lower ''bearer'' = ''bearer''" "py_lower ''basic'' = ''basic''"
  by code_simp+

lemma validated_secret:
  assumes "validate_shape e = Inr e'"
  shows "if en_scheme e' = ''bearer'' then truthy_str (en_token e') else truthy_str (en_username e') \<and> truthy_str (en_password e')"
  using assms by (auto simp: validate_shape_def Let_def split: if_splits)

lemma loaded_entry:
  assumes "load_server_settings rs cwd raw = Inr s" "c \<in> set (credentials_of s)"
  obtains e where "e \<in> set (s_a2a_static_auth_credentials s)" "en_enabled e" "c = credential_of e"
    "if en_scheme e = ''bearer'' then truthy_str (en_token e) else truthy_str (en_username e) \<and> truthy_str (en_password e)"
proof -
  from assms(2) obtain e where e: "e \<in> set (s_a2a_static_auth_credentials s)" "en_enabled e" "c = credential_of e"
    by (auto simp: built_credentials)
  from assms(1) have "\<exists>raw_entries. emap validate_shape raw_entries = Inr (s_a2a_static_auth_credentials s)"
    by (auto simp: load_server_settings_def normalize_fields_def ebind_Inr_iff split: if_splits)
  then obtain e0 where "validate_shape e0 = Inr e" using e(1) by (auto dest: emap_set)
  then show thesis using that [OF e validated_secret] by blast
qed

lemma card_schemes:
  "(name, sc) \<in> set (card_security_schemes s) \<longleftrightarrow>
     (name = ''bearerAuth'' \<and> sc = bearer_scheme \<and> has_configured_auth_scheme s ''bearer''
      \<or> name = ''basicAuth'' \<and> sc = basic_scheme \<and> has_configured_auth_scheme s ''basic'')"
  by (auto simp: card_security_schemes_def)

lemma authenticated_scheme:
  assumes "authenticate_static_credential (credentials_of s) scheme value = Inr (Some pr)"
  shows "py_lower scheme \<in> {''bearer'', ''basic''} \<and> has_configured_auth_scheme s (py_lower scheme)"
  using authenticated_presents [OF assms]
  by (auto simp: presents_def has_configured_auth_scheme_def list_ex_iff split: if_splits)

lemma bearer_usable:
  assumes "load_server_settings rs cwd raw = Inr s" "has_configured_auth_scheme s ''bearer''"
  shows "\<exists>value pr. authenticate_static_credential (credentials_of s) ''bearer'' value = Inr (Some pr)"
proof -
  from assms(2) obtain c where c: "c \<in> set (credentials_of s)" "cr_auth_scheme c = ''bearer''"
    by (auto simp: has_configured_auth_scheme_def list_ex_iff)
  obtain e where e: "c = credential_of e"
    "if en_scheme e = ''bearer'' then truthy_str (en_token e) else truthy_str (en_username e) \<and> truthy_str (en_password e)"
    using loaded_entry [OF assms(1) c(1)] by metis
  with c(2) obtain t where t: "cr_token c = Some t" by (auto simp: credential_of_def)
  have "find (\<lambda>c. cr_auth_scheme c = ''bearer'' \<and> cr_token c = Some t) (credentials_of s) \<noteq> None"
    using c t by (simp add: find_None_iff) blast
  then show ?thesis
    by (intro exI [of _ t]) (auto simp: authenticate_static_credential_def find_bearer_first lower_schemes)
qed

lemma basic_usable:
  assumes "load_server_settings rs cwd raw = Inr s" "e \<in> set (s_a2a_static_auth_credentials s)" "en_enabled e"
    and "en_scheme e = ''basic''" "CHR '':'' \<notin> set (the (en_username e))"
  shows "\<exists>value pr. authenticate_static_credential (credentials_of s) ''basic'' value = Inr (Some pr)"
proof -
  have c: "credential_of e \<in> set (credentials_of s)" using build_credentials_member [OF assms(2,3)] .
  from assms(1) have "\<exists>raw_entries. emap validate_shape raw_entries = Inr (s_a2a_static_auth_credentials s)"
    by (auto simp: load_server_settings_def normalize_fields_def ebind_Inr_iff split: if_splits)
  then obtain e0 where "validate_shape e0 = Inr e" using assms(2) by (auto dest: emap_set)
  from validated_secret [OF this] assms(4) obtain u w where u: "en_username e = Some u" "en_password e = Some w" "u \<noteq> []" "w \<noteq> []"
    by auto
  obtain v where v: "decode_basic_credentials v = Inr (Some (codes u, codes w))"
    using basic_credentials_roundtrip [of u w] assms(5) u by auto
  have "find (\<lambda>c. cr_auth_scheme c = ''basic'' \<and> (\<exists>x y. cr_username c = Some x \<and> cr_password c = Some y
      \<and> codes u = codes x \<and> codes w = codes y)) (credentials_of s) \<noteq> None"
    using c u assms(4) by (simp add: find_None_iff) (force simp: credential_of_def)
  then show ?thesis
    by (intro exI [of _ v]) (auto simp: authenticate_static_credential_def find_basic_first lower_schemes v)
qed


lemma sample_server_names:
  "\<forall>e \<in> set (s_a2a_static_auth_credentials sample_server). en_scheme e = ''basic'' \<longrightarrow> CHR '':'' \<notin> set (the (en_username e))"
  by (simp add: sample_server_def)


text \<open>
  The colon of a user name: settings accept it, the card declares basic authentication, and no header can
  present it, since the decoded value is split at its first colon.
\<close>

lemma decoded_username: "decode_basic_credentials v = Inr (Some (u, w)) \<Longrightarrow> 58 \<notin> set u"
  by (auto simp: decode_basic_credentials_def Let_def dest: set_takeWhileD split: option.splits if_splits)

theorem colon_in_username_never_authenticates:
  assumes "\<forall>e \<in> set entries. en_scheme e = ''basic'' \<longrightarrow> CHR '':'' \<in> set (the (en_username e)) \<and> en_username e \<noteq> None"
    and "py_lower scheme = ''basic''"
  shows "authenticate_static_credential (build_static_auth_credentials entries) scheme value \<noteq> Inr (Some pr)"
proof
  assume "authenticate_static_credential (build_static_auth_credentials entries) scheme value = Inr (Some pr)"
  from authenticated_presents [OF this] obtain c where c: "c \<in> set (build_static_auth_credentials entries)" "presents scheme value c"
    by blast
  then obtain u w where u: "cr_auth_scheme c = ''basic''" "cr_username c = Some u" "decode_basic_credentials value = Inr (Some (codes u, codes w))"
    using assms(2) by (auto simp: presents_def)
  from c(1) obtain e where "e \<in> set entries" "c = credential_of e" by (auto simp: built_credentials)
  then have "CHR '':'' \<in> set u" using assms(1) u(1,2) by (auto simp: credential_of_def)
  then have "58 \<in> set (codes u)" by (auto simp: codes_def intro!: rev_image_eqI)
  then show False using decoded_username [OF u(3)] by simp
qed

section \<open>The examples\<close>

fun keys_of :: "pyval \<Rightarrow> string set" where
  "keys_of (PDict d) = fst ` set d"
| "keys_of v = {}"

definition path_at :: "pyval \<Rightarrow> string list \<Rightarrow> pyval" where
  "path_at doc path = foldl param_at doc path"

definition contract_tables :: "method_contract list" where
  "contract_tables = map snd (session_method_contracts @ provider_discovery_method_contracts
     @ workspace_control_method_contracts @ interrupt_recovery_method_contracts @ interrupt_callback_method_contracts)"

fun split_dots :: "string \<Rightarrow> string list" where
  "split_dots [] = [[]]"
| "split_dots (c # cs) =
     (if c = CHR ''.'' then [] # split_dots cs
      else case split_dots cs of [] \<Rightarrow> [[c]] | w # ws \<Rightarrow> (c # w) # ws)"

fun has_path :: "pyval \<Rightarrow> string list \<Rightarrow> bool" where
  "has_path v [] \<longleftrightarrow> True"
| "has_path (PDict d) (k # ks) \<longleftrightarrow> (case dict_get d k of None \<Rightarrow> False | Some v \<Rightarrow> has_path v ks)"
| "has_path v (k # ks) \<longleftrightarrow> False"

text \<open>Parameters fit a contract: every required path is there, and every key, or every key below it, is a path of the contract.\<close>

definition params_fit :: "method_contract \<Rightarrow> pyval \<Rightarrow> bool" where
  "params_fit c params =
     (let allowed = mc_required c @ mc_optional c
      in (\<forall>path \<in> set (mc_required c). has_path params (split_dots path)) \<and>
         (case params of
            PDict d \<Rightarrow> (\<forall>(k, v) \<in> set d. k \<in> set allowed \<or>
              (case v of PDict inner \<Rightarrow> \<forall>(j, _) \<in> set inner. k @ ''.'' @ j \<in> set allowed | _ \<Rightarrow> False))
          | _ \<Rightarrow> False))"

definition example_method :: "pyval \<Rightarrow> string" where
  "example_method e = (case path_at e [''value'', ''method''] of PStr m \<Rightarrow> m | _ \<Rightarrow> [])"

definition example_fits :: "pyval \<Rightarrow> bool" where
  "example_fits e = (\<forall>c \<in> set contract_tables. mc_method c = example_method e \<longrightarrow> params_fit c (path_at e [''value'', ''params'']))"

definition examples_ok :: "bool \<Rightarrow> bool \<Rightarrow> bool" where
  "examples_ok ss wm \<longleftrightarrow>
     (let snapshot = build_capability_snapshot ss wm; examples = map snd (build_jsonrpc_extension_openapi_examples snapshot)
      in set (map example_method examples) = set ([''message/send'', ''message/stream''] @ extension_jsonrpc_methods snapshot)
        \<and> (\<forall>e \<in> set examples. example_fits e))"

lemma examples_ok_TT: "examples_ok True True" by code_simp

lemma examples_ok_TF: "examples_ok True False" by code_simp

lemma examples_ok_FT: "examples_ok False True" by code_simp

lemma examples_ok_FF: "examples_ok False False" by code_simp

lemma examples_ok_all: "examples_ok ss wm"
  using examples_ok_TT examples_ok_TF examples_ok_FT examples_ok_FF by (cases ss; cases wm) simp_all

text \<open>
  C39: the OpenAPI examples of the JSON-RPC entry point can be sent as they are.  Whatever the settings, they
  call the two core methods for messages and exactly the extension methods that are served, each of them at
  least once, and the parameters of each example are those its contract requires and allows.
\<close>

theorem examples_call_served_methods:
  "example_method ` set (map snd (build_jsonrpc_extension_openapi_examples (snapshot_of p))) =
     {''message/send'', ''message/stream''} \<union> set (extension_jsonrpc_methods (snapshot_of p)) \<and>
   (\<forall>e \<in> set (map snd (build_jsonrpc_extension_openapi_examples (snapshot_of p))).
      \<forall>c \<in> set contract_tables. mc_method c = example_method e \<longrightarrow> params_fit c (path_at e [''value'', ''params'']))"
  using examples_ok_all [of "tf_enabled (rp_session_shell p)" "tf_enabled (rp_workspace_mutations p)"]
  unfolding examples_ok_def Let_def snapshot_of_def [symmetric] example_fits_def
  by (elim conjE, intro conjI) (simp_all only: set_append list.set set_map [of example_method] Un_insert_left Un_empty_left)

definition open_profile :: runtime_profile where
  "open_profile = projr (build_runtime_profile plain_resolver ''/'' open_server)"

definition fork_example :: pyval where "fork_example = the (dict_get session_change_examples ''session_fork'')"

definition fork_contract :: method_contract where "fork_contract = the (dict_get session_method_contracts ''fork'')"

lemma fork_facts:
  "fork_example \<in> set (map snd session_change_examples)" "fork_contract \<in> set contract_tables"
  "mc_method fork_contract = example_method fork_example"
proof -
  have "(''session_fork'', fork_example) \<in> set session_change_examples"
    by (rule map_of_SomeD) (simp add: fork_example_def session_change_examples_def)
  then show "fork_example \<in> set (map snd session_change_examples)" by force
  have "(''fork'', fork_contract) \<in> set session_method_contracts"
    by (rule map_of_SomeD) (simp add: fork_contract_def session_method_contracts_def session_query_contracts_def session_command_contracts_def)
  then show "fork_contract \<in> set contract_tables" by (force simp: contract_tables_def)
  show "mc_method fork_contract = example_method fork_example" by code_simp
qed

theorem examples_call_served_methods_witness:
  "params_fit fork_contract (path_at fork_example [''value'', ''params''])"
proof -
  have "fork_example \<in> set (map snd (build_jsonrpc_extension_openapi_examples (snapshot_of open_profile)))"
    using fork_facts(1) by (auto simp: build_jsonrpc_extension_openapi_examples_def)
  then show ?thesis
    using examples_call_served_methods [of open_profile, THEN conjunct2] fork_facts(2,3) by blast
qed

section \<open>The patch of the schema\<close>

lemma at_dict_get:
  "dict_get (at_dict key f d) k =
     (if k = key then (case dict_get d key of Some (PDict inner) \<Rightarrow> Some (PDict (f inner)) | v \<Rightarrow> v) else dict_get d k)"
  by (cases "dict_get d key") (auto simp: at_dict_def dict_simps split: pyval.split)

lemma setdefault_get:
  "dict_get (setdefault key v d) k = (if k = key \<and> dict_get d key = None then Some v else dict_get d k)"
  by (simp add: setdefault_def dict_simps)

text \<open>What the patch of an item of \<open>paths\<close> keeps.\<close>

definition item_kept :: "pyval option \<Rightarrow> pyval option \<Rightarrow> bool" where
  "item_kept v v' \<longleftrightarrow>
     (case v of
        Some (PDict item) \<Rightarrow> (\<exists>item'. v' = Some (PDict item') \<and> (\<forall>verb. verb \<noteq> ''post'' \<longrightarrow> dict_get item' verb = dict_get item verb))
      | _ \<Rightarrow> v' = v)"

lemma item_kept_refl: "item_kept v v"
  by (simp add: item_kept_def split: option.split pyval.split)

lemma item_kept_trans: "item_kept u v \<Longrightarrow> item_kept v w \<Longrightarrow> item_kept u w"
  by (cases u; cases "the u") (auto simp: item_kept_def)

lemma at_path_kept: "item_kept (dict_get paths path) (dict_get (at_dict key (at_dict ''post'' f) paths) path)"
proof (cases "path = key")
  case True
  then show ?thesis
    by (cases "dict_get paths key"; cases "the (dict_get paths key)") (simp_all add: item_kept_def at_dict_get)
qed (simp add: at_dict_get item_kept_refl)

lemma patch_paths_kept: "item_kept (dict_get paths path) (dict_get (patch_paths core s p paths) path)"
  by (simp add: patch_paths_def rest_post_contracts_def) (intro item_kept_trans [OF _ at_path_kept] at_path_kept)

lemma patch_paths_others:
  "path \<notin> {''/'', ''/v1/message:send'', ''/v1/message:stream''} \<Longrightarrow> dict_get (patch_paths core s p paths) path = dict_get paths path"
  by (simp add: patch_paths_def rest_post_contracts_def at_dict_get)

lemma patch_paths_root:
  "dict_get (patch_paths core s p paths) ''/'' = dict_get (at_dict ''/'' (at_dict ''post'' (patch_jsonrpc_post core s p)) paths) ''/''"
  by (simp add: patch_paths_def rest_post_contracts_def at_dict_get [of "''/v1/message:send''"] at_dict_get [of "''/v1/message:stream''"])

lemma jsonrpc_examples:
  assumes "dict_get post ''requestBody'' = None"
  shows "path_at (PDict (patch_jsonrpc_post core s p post)) [''requestBody'', ''content'', ''application/json'', ''examples''] =
    PDict (build_jsonrpc_extension_openapi_examples (snapshot_of p))"
  using assms
  by (simp add: path_at_def param_at_def patch_jsonrpc_post_def Let_def at_default_dict_def at_dict_get setdefault_get dict_simps)

text \<open>
  The patch of the generated OpenAPI schema is confined.  Everything but the POST operations of the
  entry point and of the two message endpoints is as the framework generated it; an entry point without a
  request body gets the examples of the deployment; and once the patched schema is stored it is what every
  later call returns.
\<close>

theorem openapi_patch_is_confined:
  "(\<forall>k. k \<noteq> ''paths'' \<longrightarrow> dict_get (custom_openapi core s p original None) k = dict_get original k) \<and>
   (\<forall>paths. dict_get original ''paths'' = Some (PDict paths) \<longrightarrow>
      (\<exists>patched. dict_get (custom_openapi core s p original None) ''paths'' = Some (PDict patched) \<and>
        (\<forall>path. path \<notin> {''/'', ''/v1/message:send'', ''/v1/message:stream''} \<longrightarrow> dict_get patched path = dict_get paths path) \<and>
        (\<forall>path. item_kept (dict_get paths path) (dict_get patched path)) \<and>
        (\<forall>item post. dict_get paths ''/'' = Some (PDict item) \<and> dict_get item ''post'' = Some (PDict post) \<and>
           dict_get post ''requestBody'' = None \<longrightarrow>
           path_at (PDict patched) [''/'', ''post'', ''requestBody'', ''content'', ''application/json'', ''examples''] =
             PDict (build_jsonrpc_extension_openapi_examples (snapshot_of p))))) \<and>
   (custom_openapi core s p original None \<noteq> [] \<longrightarrow>
      custom_openapi core s p original (Some (custom_openapi core s p original None)) = custom_openapi core s p original None)"
proof -
  let ?r = "custom_openapi core s p original None"
  have r: "dict_get ?r k = (if k = ''paths'' then (case dict_get original ''paths'' of
      Some (PDict inner) \<Rightarrow> Some (PDict (patch_paths core s p inner)) | v \<Rightarrow> v) else dict_get original k)" for k
    by (simp add: custom_openapi_def at_dict_get)
  have root: "path_at (PDict (patch_paths core s p paths)) [''/'', ''post'', ''requestBody'', ''content'', ''application/json'', ''examples''] =
      PDict (build_jsonrpc_extension_openapi_examples (snapshot_of p))"
    if "dict_get paths ''/'' = Some (PDict item)" "dict_get item ''post'' = Some (PDict post)" "dict_get post ''requestBody'' = None"
    for paths item post
  proof -
    have "dict_get (patch_paths core s p paths) ''/'' = Some (PDict (at_dict ''post'' (patch_jsonrpc_post core s p) item))"
      using that(1) by (simp add: patch_paths_root at_dict_get)
    moreover have "dict_get (at_dict ''post'' (patch_jsonrpc_post core s p) item) ''post'' = Some (PDict (patch_jsonrpc_post core s p post))"
      using that(2) by (simp add: at_dict_get)
    ultimately show ?thesis using jsonrpc_examples [OF that(3), of core s p] by (simp add: path_at_def param_at_def)
  qed
  have "custom_openapi core s p original (Some ?r) = ?r" if "?r \<noteq> []"
    using that by (cases ?r) (simp_all add: custom_openapi_def)
  then show ?thesis
    using root patch_paths_others patch_paths_kept by (simp add: r) blast
qed

definition generated_paths :: "(string, pyval) dict" where
  "generated_paths = [(''/'', PDict [(''post'', PDict [])]), (''/health'', PDict [])]"

theorem openapi_patch_is_confined_witness:
  "\<exists>patched. dict_get (custom_openapi [] open_server open_profile [(''paths'', PDict generated_paths)] None) ''paths'' = Some (PDict patched) \<and>
     dict_get patched ''/health'' = Some (PDict []) \<and>
     path_at (PDict patched) [''/'', ''post'', ''requestBody'', ''content'', ''application/json'', ''examples''] =
       PDict (build_jsonrpc_extension_openapi_examples (snapshot_of open_profile))"
proof -
  have g: "dict_get [(''paths'', PDict generated_paths)] ''paths'' = Some (PDict generated_paths)"
    "dict_get generated_paths ''/health'' = Some (PDict [])" "dict_get generated_paths ''/'' = Some (PDict [(''post'', PDict [])])"
    "dict_get [(''post'', PDict [])] ''post'' = Some (PDict [])" "dict_get [] ''requestBody'' = (None :: pyval option)"
    "''/health'' \<notin> {''/'', ''/v1/message:send'', ''/v1/message:stream''}"
    by (simp_all add: generated_paths_def)
  from openapi_patch_is_confined [of "[]" open_server open_profile "[(''paths'', PDict generated_paths)]",
      THEN conjunct2, THEN conjunct1, THEN spec, THEN mp, OF g(1)]
  show ?thesis using g by metis
qed

end
