(* ===== verification/Deployment.thy ===== *)
theory Deployment
  imports Rpc_Dispatch Document_Properties
begin

text \<open>
  What a deployment offers and what it says of itself: the settings decide the methods that are served
  (theories Server_Settings, Runtime_Profile, Rpc_Dispatch), and the agent cards, the documents of the
  extensions and the OpenAPI examples describe the same methods.
\<close>

section \<open>The switches\<close>

abbreviation shell_method :: string where
  "shell_method \<equiv> method_at session_methods ''shell''"

definition writes_allowed :: "server_settings \<Rightarrow> bool" where
  "writes_allowed s \<longleftrightarrow> s_a2a_sandbox_mode s \<noteq> ''read-only'' \<and> s_a2a_write_access_scope s \<noteq> ''none''"

lemma snapshot_switches:
  assumes "build_runtime_profile rs cwd s = Inr p"
  shows "snapshot_of p = build_capability_snapshot (s_a2a_enable_session_shell s \<and> writes_allowed s)
           (s_a2a_enable_workspace_mutations s \<and> writes_allowed s)"
proof -
  from assms obtain policy where policy: "from_settings rs cwd (sandbox_settings_of s) None = Inr policy"
    and p: "tf_enabled (rp_session_shell p) = is_session_shell_enabled policy (s_a2a_enable_session_shell s)"
      "tf_enabled (rp_workspace_mutations p) = is_workspace_mutations_enabled policy (s_a2a_enable_workspace_mutations s)"
    by (auto simp: build_runtime_profile_def ebind_Inr_iff toggled_def)
  from policy have "sandbox_mode policy = s_a2a_sandbox_mode s" "write_access_scope policy = s_a2a_write_access_scope s"
    by (auto simp: from_settings_def Let_def ebind_Inr_iff sandbox_settings_of_def)
  then show ?thesis
    by (simp add: snapshot_of_def p is_session_shell_enabled_def is_workspace_mutations_enabled_def writes_allowed_def)
qed

definition switched_methods_ok :: "bool \<Rightarrow> bool \<Rightarrow> bool" where
  "switched_methods_ok ss wm \<longleftrightarrow>
     (let declared = extension_jsonrpc_methods (build_capability_snapshot ss wm)
      in (shell_method \<in> set declared \<longleftrightarrow> ss)
        \<and> (\<forall>m \<in> set (map snd workspace_mutation_methods). m \<in> set declared \<longleftrightarrow> wm))"

lemma switched_methods_ok_all: "switched_methods_ok ss wm"
proof -
  have "switched_methods_ok True True" "switched_methods_ok True False" "switched_methods_ok False True"
    "switched_methods_ok False False"
    by code_simp+
  then show ?thesis by (cases ss; cases wm) simp_all
qed

lemma switched_methods:
  "shell_method \<in> set (extension_jsonrpc_methods (build_capability_snapshot ss wm)) \<longleftrightarrow> ss"
  "m \<in> set (map snd workspace_mutation_methods) \<Longrightarrow>
     m \<in> set (extension_jsonrpc_methods (build_capability_snapshot ss wm)) \<longleftrightarrow> wm"
  using switched_methods_ok_all [of ss wm]
  by (simp_all only: switched_methods_ok_def Let_def simp_thms Ball_def)

lemma served_iff_declared:
  assumes "\<And>m. dict_get registry m \<noteq> None \<longleftrightarrow> m \<in> set (extension_jsonrpc_methods snapshot)" "is_dict (jr_params rq)"
  shows "served (route_parsed registry core supported version rq) \<longleftrightarrow>
    jr_method rq \<in> set (supported_jsonrpc_methods core snapshot)"
  using assms(1) [of "jr_method rq"] assms(2)
  by (cases "jr_params rq"; cases "dict_get registry (jr_method rq)")
    (auto simp: served_def route_parsed_def supported_jsonrpc_methods_def Let_def)

text \<open>
  C35: the shell and the changing workspace methods are served exactly when their setting asks for them and
  the sandbox lets the deployment write: a deployment that is read-only, or whose write scope is none, serves
  none of them, whatever the two settings say.
\<close>

theorem mutating_methods_follow_settings:
  assumes "build_runtime_profile rs cwd s = Inr p"
    and "shell_method \<notin> set core" "\<forall>m \<in> set (map snd workspace_mutation_methods). m \<notin> set core"
  shows "\<exists>cx registry. deployed_context core (snapshot_of p) us send resolve = Some cx \<and>
    build_extension_method_registry cx = Inr registry \<and>
    (\<forall>rq version. is_dict (jr_params rq) \<longrightarrow>
      (jr_method rq = shell_method \<longrightarrow>
         served (route_parsed registry core (cx_supported_methods cx) version rq) = (s_a2a_enable_session_shell s \<and> writes_allowed s)) \<and>
      (jr_method rq \<in> set (map snd workspace_mutation_methods) \<longrightarrow>
         served (route_parsed registry core (cx_supported_methods cx) version rq) =
           (s_a2a_enable_workspace_mutations s \<and> writes_allowed s)))"
proof -
  let ?ss = "s_a2a_enable_session_shell s \<and> writes_allowed s" and ?wm = "s_a2a_enable_workspace_mutations s \<and> writes_allowed s"
  have sn: "snapshot_of p = build_capability_snapshot ?ss ?wm" by (rule snapshot_switches [OF assms(1)])
  obtain cx registry where d: "deployed_context core (snapshot_of p) us send resolve = Some cx"
    "build_extension_method_registry cx = Inr registry"
    "\<And>m. dict_get registry m \<noteq> None \<longleftrightarrow> m \<in> set (extension_jsonrpc_methods (snapshot_of p))"
    by (rule deployment [of core ?ss ?wm us send resolve, folded sn]) (rule that)
  have s: "served (route_parsed registry core supported version rq) \<longleftrightarrow> jr_method rq \<in> set (extension_jsonrpc_methods (snapshot_of p))"
    if "is_dict (jr_params rq)" "jr_method rq \<notin> set core" for supported version rq
    using served_iff_declared [OF d(3) that(1)] that(2) by (simp add: supported_jsonrpc_methods_def)
  have e: "shell_method \<in> set (extension_jsonrpc_methods (snapshot_of p)) \<longleftrightarrow> ?ss"
    "m \<in> set (map snd workspace_mutation_methods) \<Longrightarrow> m \<in> set (extension_jsonrpc_methods (snapshot_of p)) \<longleftrightarrow> ?wm" for m
    unfolding sn by (rule switched_methods(1)) (rule switched_methods(2))
  have "(jr_method rq = shell_method \<longrightarrow> served (route_parsed registry core (cx_supported_methods cx) version rq) = ?ss) \<and>
      (jr_method rq \<in> set (map snd workspace_mutation_methods) \<longrightarrow>
         served (route_parsed registry core (cx_supported_methods cx) version rq) = ?wm)"
    if q: "is_dict (jr_params rq)" for rq version
  proof (intro conjI impI)
    assume "jr_method rq = shell_method"
    then show "served (route_parsed registry core (cx_supported_methods cx) version rq) = ?ss"
      using s [OF q] e(1) assms(2) by simp
  next
    assume m: "jr_method rq \<in> set (map snd workspace_mutation_methods)"
    then show "served (route_parsed registry core (cx_supported_methods cx) version rq) = ?wm"
      using s [OF q] e(2) [OF m] bspec [OF assms(3) m] by simp
  qed
  with d(1,2) show ?thesis by blast
qed

definition sample_deployment :: server_settings where
  "sample_deployment = (declared_defaults ''0.1'')
     \<lparr>s_opencode_workspace_root := Some ''/srv'', s_a2a_project := Some ''demo'', s_a2a_enable_session_shell := True,
      s_a2a_enable_workspace_mutations := True, s_a2a_write_access_scope := ''none'',
      s_a2a_static_auth_credentials := [\<lparr>en_credential_id = None, en_scheme = ''bearer'', en_principal = Some ''ci'',
        en_token = Some ''tok'', en_username = None, en_password = None, en_capabilities = [], en_enabled = True\<rparr>]\<rparr>"

definition sample_core :: "string list" where "sample_core = [''message/send'', ''message/stream'']"

lemma sample_profile: "build_runtime_profile plain_resolver ''/srv'' sample_deployment = Inr (projr (build_runtime_profile plain_resolver ''/srv'' sample_deployment))"
  by code_simp

lemma sample_core_methods:
  "shell_method \<notin> set sample_core" "\<forall>m \<in> set (map snd workspace_mutation_methods). m \<notin> set sample_core"
  by code_simp+

theorem mutating_methods_follow_settings_witness:
  "\<exists>p cx registry. build_runtime_profile plain_resolver ''/srv'' sample_deployment = Inr p \<and>
     deployed_context sample_core (snapshot_of p) sample_upstream (answers 200 None) Inr = Some cx \<and>
     build_extension_method_registry cx = Inr registry \<and>
     \<not> served (route_parsed registry sample_core (cx_supported_methods cx) ''1.0'' (request_to shell_method))"
proof -
  have "\<not> writes_allowed sample_deployment" "is_dict (jr_params (request_to shell_method))"
    by (simp_all add: writes_allowed_def sample_deployment_def request_to_def)
  then show ?thesis
    using sample_profile
      mutating_methods_follow_settings [OF sample_profile sample_core_methods, of sample_upstream "answers 200 None" Inr]
    by (metis request_to_def jsonrpc_request.select_convs(1))
qed

section \<open>The documents and the methods\<close>

lemma dict_extend_keys: "fst ` set (dict_extend d items) = fst ` set d \<union> fst ` set items"
proof (induction items arbitrary: d)
  case (Cons item items)
  obtain k v where "item = (k, v)" by (cases item)
  with Cons [of "dict_set k v d"] show ?case by (simp add: dict_extend_def dom_update)
qed (simp add: dict_extend_def)

lemma contract_documents_keys: "keys_of (contract_documents document contracts) = mc_method ` set contracts"
  by (simp add: contract_documents_def dict_extend_keys image_image)

lemma mark_experimental_keys: "fst ` set (mark_experimental m retention) = fst ` set retention"
  by (auto simp: mark_experimental_def dom_update dest: map_of_SomeD split: option.split pyval.split intro: rev_image_eqI)

lemma marks_keys: "fst ` set (fold mark_experimental ms retention) = fst ` set retention"
  by (induction ms arbitrary: retention) (simp_all add: mark_experimental_keys)

lemma method_retention_keys:
  "fst ` set (method_retention core snapshot) =
     set core \<union> fst ` set (retention_entries [] snapshot) \<union> set (map snd interrupt_callback_methods)"
  by (simp add: method_retention_def dict_extend_keys marks_keys retention_entries_def retained_def image_Un image_image Un_assoc)

definition documented_methods :: "runtime_profile \<Rightarrow> string set" where
  "documented_methods p =
     (\<Union>doc \<in> {build_session_management_extension_params p session_context_prefix, build_provider_discovery_extension_params p,
         build_workspace_control_extension_params p, build_interrupt_recovery_extension_params p,
         build_interrupt_callback_extension_params p}. keys_of (path_at doc [''method_contracts'']))"

text \<open>The names as the tables give them, for each setting of the two switches.\<close>

definition active_methods :: "capability_snapshot \<Rightarrow> string list" where
  "active_methods snapshot = map mc_method
     (active_contracts (map snd (session_management_methods snapshot)) session_method_contracts
      @ map snd provider_discovery_method_contracts
      @ active_contracts (map snd (workspace_control_methods snapshot)) workspace_control_method_contracts
      @ map snd interrupt_recovery_method_contracts @ map snd interrupt_callback_method_contracts)"

definition tables_ok :: "bool \<Rightarrow> bool \<Rightarrow> bool" where
  "tables_ok ss wm \<longleftrightarrow>
     (let snapshot = build_capability_snapshot ss wm; served_methods = extension_jsonrpc_methods snapshot;
          off = map fst (conditionally_available_methods snapshot); all_methods = map mc_method contract_tables
      in set (active_methods snapshot) = set served_methods \<and> set served_methods \<inter> set off = {}
        \<and> set served_methods \<union> set off = set all_methods
        \<and> set (map fst (retention_entries [] snapshot) @ map snd interrupt_callback_methods) = set all_methods)"

lemma tables_ok_TT: "tables_ok True True" by code_simp

lemma tables_ok_TF: "tables_ok True False" by code_simp

lemma tables_ok_FT: "tables_ok False True" by code_simp

lemma tables_ok_FF: "tables_ok False False" by code_simp

lemma tables_ok_all: "tables_ok ss wm"
  using tables_ok_TT tables_ok_TF tables_ok_FT tables_ok_FF by (cases ss; cases wm) simp_all

lemma documented_active: "documented_methods p = set (active_methods (snapshot_of p))"
  by (simp add: documented_methods_def path_at_def param_at_def build_session_management_extension_params_def
      build_provider_discovery_extension_params_def build_workspace_control_extension_params_def
      build_interrupt_recovery_extension_params_def build_interrupt_callback_extension_params_def Let_def
      contract_documents_keys active_methods_def image_Un image_image Un_assoc)

text \<open>
  C36: whatever the settings, the documents describe the deployment.  The wire contract lists exactly the
  methods that are served; the contracts of the extensions document exactly the served extension methods;
  the methods listed as conditionally available are those switched off, and with the served ones they are
  all methods of the contract tables; and the compatibility profile states the retention of each of them and
  of each core method, and of no other.
\<close>

theorem documents_describe_what_is_served:
  "path_at (card_document build_wire_contract_params core s p) [''all_jsonrpc_methods''] =
     strings (supported_jsonrpc_methods core (snapshot_of p)) \<and>
   documented_methods p = set (extension_jsonrpc_methods (snapshot_of p)) \<and>
   set (extension_jsonrpc_methods (snapshot_of p)) \<inter>
     keys_of (path_at (card_document build_wire_contract_params core s p) [''extensions'', ''conditionally_available_methods'']) = {} \<and>
   set (extension_jsonrpc_methods (snapshot_of p)) \<union>
     keys_of (path_at (card_document build_wire_contract_params core s p) [''extensions'', ''conditionally_available_methods'']) =
     mc_method ` set contract_tables \<and>
   keys_of (path_at (card_document build_compatibility_profile_params core s p) [''method_retention'']) =
     set core \<union> mc_method ` set contract_tables"
proof -
  have ok: "tables_ok (tf_enabled (rp_session_shell p)) (tf_enabled (rp_workspace_mutations p))" by (rule tables_ok_all)
  note ok = ok [unfolded tables_ok_def Let_def, folded snapshot_of_def]
  have w: "path_at (card_document build_wire_contract_params core s p) [''all_jsonrpc_methods''] =
      strings (supported_jsonrpc_methods core (snapshot_of p))"
    "path_at (card_document build_wire_contract_params core s p) [''extensions'', ''conditionally_available_methods''] =
      conditionally_available_document (snapshot_of p)"
    by (simp_all add: path_at_def param_at_def card_document_def build_wire_contract_params_def Let_def)
  have c: "keys_of (conditionally_available_document snapshot) = set (map fst (conditionally_available_methods snapshot))" for snapshot
    by (simp add: conditionally_available_document_def image_image case_prod_beta')
  have r: "path_at (card_document build_compatibility_profile_params core s p) [''method_retention''] =
      PDict (method_retention core (snapshot_of p))"
    by (simp add: path_at_def param_at_def card_document_def build_compatibility_profile_params_def Let_def
        dict_extend_def dict_simps)
  show ?thesis
    unfolding w r c documented_active keys_of.simps method_retention_keys
    using ok by (simp add: Un_assoc)
qed

end
