(* ===== verification/Migrations.thy ===== *)
theory Migrations
  imports Prelude
begin

text \<open>
  The schema of the state store and its migrations (\<open>server/migrations.py\<close>, the tables of
  \<open>server/state_store.py\<close>).  A database is its tables with their columns and indexes, and the table of
  schema versions; the rows of the other tables are those of theories State_Store and Interrupt_Store and
  are not touched here.  The types of columns are left out.
\<close>

section \<open>Declared and existing tables\<close>

record column_spec =
  co_primary :: bool
  co_nullable :: bool

record table_decl =
  td_name :: string
  td_columns :: "(string, column_spec) dict"
  td_indexes :: "(string, string list) dict"

record table_state =
  tb_columns :: "string list"
  tb_indexes :: "string list"

record schema_db =
  sd_tables :: "(string, table_state) dict"
  sd_versions :: "(string, int) dict option"

datatype schema_error = BadArgument string | SchemaFailure string | SqlFailure string

definition key_column :: column_spec where "key_column = \<lparr>co_primary = True, co_nullable = False\<rparr>"

definition required_column :: column_spec where "required_column = \<lparr>co_primary = False, co_nullable = False\<rparr>"

definition optional_column :: column_spec where "optional_column = \<lparr>co_primary = False, co_nullable = True\<rparr>"

definition session_bindings_table :: table_decl where
  "session_bindings_table = \<lparr>td_name = ''a2a_session_bindings'',
     td_columns = [(''identity'', key_column), (''context_id'', key_column), (''session_id'', required_column)], td_indexes = []\<rparr>"

definition session_owners_table :: table_decl where
  "session_owners_table = \<lparr>td_name = ''a2a_session_owners'',
     td_columns = [(''session_id'', key_column), (''identity'', required_column)], td_indexes = []\<rparr>"

definition pending_session_claims_table :: table_decl where
  "pending_session_claims_table = \<lparr>td_name = ''a2a_pending_session_claims'',
     td_columns = [(''session_id'', key_column), (''identity'', required_column), (''updated_at'', optional_column),
       (''expires_at'', optional_column)],
     td_indexes = [(''ix_a2a_pending_session_claims_expires_at'', [''expires_at''])]\<rparr>"

definition interrupt_requests_table :: table_decl where
  "interrupt_requests_table = \<lparr>td_name = ''a2a_interrupt_requests'',
     td_columns = [(''request_id'', key_column), (''session_id'', optional_column), (''interrupt_type'', optional_column),
       (''identity'', optional_column), (''credential_id'', optional_column), (''task_id'', optional_column),
       (''context_id'', optional_column), (''details_json'', optional_column), (''expires_at'', optional_column),
       (''tombstone_expires_at'', optional_column)],
     td_indexes = [(''ix_a2a_interrupt_requests_identity_expires_at'', [''identity'', ''expires_at'']),
       (''ix_a2a_interrupt_requests_identity_type_expires_at'', [''identity'', ''interrupt_type'', ''expires_at'']),
       (''ix_a2a_interrupt_requests_tombstone_expires_at'', [''tombstone_expires_at''])]\<rparr>"

definition state_metadata :: "table_decl list" where
  "state_metadata = [session_bindings_table, session_owners_table, pending_session_claims_table, interrupt_requests_table]"

text \<open>\<open>create_all\<close> creates the tables that do not exist, with their indexes, and leaves the others alone.\<close>

definition create_table :: "table_decl \<Rightarrow> (string, table_state) dict \<Rightarrow> (string, table_state) dict" where
  "create_table d tables =
     (if dict_get tables (td_name d) = None
      then dict_set (td_name d) \<lparr>tb_columns = map fst (td_columns d), tb_indexes = map fst (td_indexes d)\<rparr> tables
      else tables)"

definition create_all :: "table_decl list \<Rightarrow> schema_db \<Rightarrow> schema_db" where
  "create_all ds db = db\<lparr>sd_tables := fold create_table ds (sd_tables db)\<rparr>"

definition create_version_table :: "schema_db \<Rightarrow> schema_db" where
  "create_version_table db = db\<lparr>sd_versions := Some (case sd_versions db of None \<Rightarrow> [] | Some vs \<Rightarrow> vs)\<rparr>"

section \<open>Steps\<close>

text \<open>A table that does not exist has no columns for the inspector to list: it raises.\<close>

definition existing_table :: "table_decl \<Rightarrow> schema_db \<Rightarrow> schema_error + table_state" where
  "existing_table d db = (case dict_get (sd_tables db) (td_name d) of None \<Rightarrow> Inl (SqlFailure ''no such table'') | Some t \<Rightarrow> Inr t)"

definition put_table :: "table_decl \<Rightarrow> table_state \<Rightarrow> schema_db \<Rightarrow> schema_db" where
  "put_table d t db = db\<lparr>sd_tables := dict_set (td_name d) t (sd_tables db)\<rparr>"

definition add_missing_nullable_column :: "table_decl \<Rightarrow> string \<Rightarrow> schema_db \<Rightarrow> schema_error + schema_db" where
  "add_missing_nullable_column d column db =
     ebind (existing_table d db) (\<lambda>t.
     if column \<in> set (tb_columns t) then Inr db
     else case dict_get (td_columns d) column of
       None \<Rightarrow> Inl (SchemaFailure column)
     | Some spec \<Rightarrow>
         if co_primary spec \<or> \<not> co_nullable spec
         then Inl (SchemaFailure (''Unsupported state-store migration for '' @ td_name d @ ''.'' @ column))
         else Inr (put_table d (t\<lparr>tb_columns := tb_columns t @ [column]\<rparr>) db))"

text \<open>An index can only be created on columns that exist.\<close>

definition create_missing_index :: "table_decl \<times> string \<times> string list \<Rightarrow> schema_db \<Rightarrow> schema_error + schema_db" where
  "create_missing_index ix db =
     (let (d, name, columns) = ix
      in ebind (existing_table d db) (\<lambda>t.
         if name \<in> set (tb_indexes t) then Inr db
         else if \<not> set columns \<subseteq> set (tb_columns t) then Inl (SqlFailure ''no such column'')
         else Inr (put_table d (t\<lparr>tb_indexes := tb_indexes t @ [name]\<rparr>) db)))"

fun run_all :: "('i \<Rightarrow> schema_db \<Rightarrow> schema_error + schema_db) \<Rightarrow> 'i list \<Rightarrow> schema_db \<Rightarrow> schema_error + schema_db" where
  "run_all f [] db = Inr db"
| "run_all f (x # xs) db = ebind (f x db) (run_all f xs)"

definition lightweight_state_indexes :: "(table_decl \<times> string \<times> string list) list" where
  "lightweight_state_indexes =
     sort_key (\<lambda>(d, name, columns). name)
       (map (Pair pending_session_claims_table) (td_indexes pending_session_claims_table)
        @ map (Pair interrupt_requests_table) (td_indexes interrupt_requests_table))"

definition migration_1_add_interrupt_details_json :: "schema_db \<Rightarrow> schema_error + schema_db" where
  "migration_1_add_interrupt_details_json = add_missing_nullable_column interrupt_requests_table ''details_json''"

definition migration_2_add_pending_claim_expires_at :: "schema_db \<Rightarrow> schema_error + schema_db" where
  "migration_2_add_pending_claim_expires_at = add_missing_nullable_column pending_session_claims_table ''expires_at''"

definition migration_3_add_lightweight_state_indexes :: "schema_db \<Rightarrow> schema_error + schema_db" where
  "migration_3_add_lightweight_state_indexes = run_all create_missing_index lightweight_state_indexes"

definition migration_4_add_interrupt_credential_id :: "schema_db \<Rightarrow> schema_error + schema_db" where
  "migration_4_add_interrupt_credential_id = add_missing_nullable_column interrupt_requests_table ''credential_id''"

lemmas migration_defs = migration_1_add_interrupt_details_json_def migration_2_add_pending_claim_expires_at_def
  migration_3_add_lightweight_state_indexes_def migration_4_add_interrupt_credential_id_def

definition migration :: "int \<Rightarrow> (schema_db \<Rightarrow> schema_error + schema_db) option" where
  "migration version =
     (if version = 1 then Some migration_1_add_interrupt_details_json
      else if version = 2 then Some migration_2_add_pending_claim_expires_at
      else if version = 3 then Some migration_3_add_lightweight_state_indexes
      else if version = 4 then Some migration_4_add_interrupt_credential_id
      else None)"

section \<open>Versions\<close>

definition state_store_schema_name :: string where "state_store_schema_name = ''state_store''"

definition current_state_store_schema_version :: int where "current_state_store_schema_version = 4"

definition read_schema_version :: "string \<Rightarrow> schema_db \<Rightarrow> int option" where
  "read_schema_version scope db = (case sd_versions db of None \<Rightarrow> None | Some vs \<Rightarrow> dict_get vs scope)"

text \<open>
  A row that another process inserts after the read makes the insertion fail, and the row is updated
  instead: in each case the row holds the version afterwards.  \<open>raced\<close> is the version the other wrote.
\<close>

definition write_schema_version :: "int option \<Rightarrow> string \<Rightarrow> int \<Rightarrow> schema_db \<Rightarrow> schema_db" where
  "write_schema_version raced scope version db =
     (let vs = (case sd_versions db of None \<Rightarrow> [] | Some vs \<Rightarrow> vs);
          updated = (\<lambda>vs. map (\<lambda>(k, v). (k, if k = scope then version else v)) vs)
      in if read_schema_version scope db \<noteq> None then db\<lparr>sd_versions := Some (updated vs)\<rparr>
         else case raced of
           None \<Rightarrow> db\<lparr>sd_versions := Some (vs @ [(scope, version)])\<rparr>
         | Some v \<Rightarrow> db\<lparr>sd_versions := Some (updated (vs @ [(scope, v)]))\<rparr>)"

text \<open>The loop over the versions; on an error the database is as the steps before left it.\<close>

fun run_migrations :: "int option \<Rightarrow> string \<Rightarrow> int list \<Rightarrow> schema_db \<Rightarrow> (schema_error + unit) \<times> schema_db" where
  "run_migrations raced scope [] db = (Inr (), db)"
| "run_migrations raced scope (version # versions) db =
     (case migration version of
        None \<Rightarrow> (Inl (SchemaFailure (''Missing migration for schema scope '' @ scope)), db)
      | Some step \<Rightarrow>
          (case step db of
             Inl e \<Rightarrow> (Inl e, db)
           | Inr db' \<Rightarrow> run_migrations raced scope versions (write_schema_version raced scope version db')))"

definition apply_schema_migrations :: "int option \<Rightarrow> string \<Rightarrow> int \<Rightarrow> schema_db \<Rightarrow> (schema_error + int) \<times> schema_db" where
  "apply_schema_migrations raced scope current_version db =
     (if current_version < 0 then (Inl (BadArgument ''current_version must be non-negative''), db)
      else
        let stored = read_schema_version scope db
        in if (case stored of Some v \<Rightarrow> current_version < v | None \<Rightarrow> False)
           then (Inl (SchemaFailure (''Database schema scope '' @ scope @ '' is newer than this application supports'')), db)
           else case run_migrations raced scope [(case stored of None \<Rightarrow> 0 | Some v \<Rightarrow> v) + 1 .. current_version] db of
                  (Inl e, db') \<Rightarrow> (Inl e, db')
                | (Inr u, db') \<Rightarrow> (Inr current_version, db'))"

definition migrate_state_store_schema :: "int option \<Rightarrow> int \<Rightarrow> schema_db \<Rightarrow> (schema_error + int) \<times> schema_db" where
  "migrate_state_store_schema raced current_version db =
     apply_schema_migrations raced state_store_schema_name current_version (create_all state_metadata (create_version_table db))"

section \<open>Databases of an earlier version\<close>

text \<open>
  The columns the migrations after a version add, and the databases of a version: each declared table is
  there (or yet to be created) with all its columns but those, and from version 3 on with its indexes.
\<close>

definition later_column :: "int \<Rightarrow> string \<Rightarrow> string \<Rightarrow> bool" where
  "later_column v table column =
     (table = ''a2a_interrupt_requests'' \<and> column = ''details_json'' \<and> v < 1
      \<or> table = ''a2a_pending_session_claims'' \<and> column = ''expires_at'' \<and> v < 2
      \<or> table = ''a2a_interrupt_requests'' \<and> column = ''credential_id'' \<and> v < 4)"

definition table_of_version :: "int \<Rightarrow> table_decl \<Rightarrow> table_state \<Rightarrow> bool" where
  "table_of_version v d t =
     ((\<forall>c \<in> fst ` set (td_columns d). c \<in> set (tb_columns t) \<or> later_column v (td_name d) c)
      \<and> (v < 3 \<or> fst ` set (td_indexes d) \<subseteq> set (tb_indexes t)))"

definition tables_of_version :: "int \<Rightarrow> (string, table_state) dict \<Rightarrow> bool" where
  "tables_of_version v ts =
     (\<forall>d \<in> set state_metadata. \<exists>t. dict_get ts (td_name d) = Some t \<and> table_of_version v d t)"

definition upgradable :: "int \<Rightarrow> (string, table_state) dict \<Rightarrow> bool" where
  "upgradable v ts =
     (\<forall>d \<in> set state_metadata. case dict_get ts (td_name d) of None \<Rightarrow> True | Some t \<Rightarrow> table_of_version v d t)"

definition table_extends :: "(string, table_state) dict \<Rightarrow> (string, table_state) dict \<Rightarrow> bool" where
  "table_extends ts ts' =
     (\<forall>n t. dict_get ts n = Some t \<longrightarrow>
        (\<exists>t'. dict_get ts' n = Some t' \<and> set (tb_columns t) \<subseteq> set (tb_columns t') \<and> set (tb_indexes t) \<subseteq> set (tb_indexes t')))"

lemma table_extends_refl [simp]: "table_extends ts ts"
  by (simp add: table_extends_def)

lemma table_extends_trans: "table_extends a b \<Longrightarrow> table_extends b c \<Longrightarrow> table_extends a c"
  unfolding table_extends_def by (meson order_trans)

lemma table_extends_set:
  assumes "dict_get ts n = Some t" "set (tb_columns t) \<subseteq> set (tb_columns t')" "set (tb_indexes t) \<subseteq> set (tb_indexes t')"
  shows "table_extends ts (dict_set n t' ts)"
  using assms by (auto simp: table_extends_def dict_simps)

lemmas table_decls = session_bindings_table_def session_owners_table_def pending_session_claims_table_def
  interrupt_requests_table_def

lemma distinct_names: "distinct (map td_name state_metadata)"
  by code_simp

lemma names_differ:
  "d \<in> set state_metadata \<Longrightarrow> d' \<in> set state_metadata \<Longrightarrow> td_name d = td_name d' \<Longrightarrow> d = d'"
  by (metis inj_onD distinct_map distinct_names)

section \<open>Each step\<close>

lemma create_table_extends: "table_extends ts (create_table d ts)"
  by (auto simp: create_table_def table_extends_def dict_simps)

lemma creates_extend: "table_extends ts (fold create_table ds ts)"
  by (induction ds arbitrary: ts) (auto intro: table_extends_trans create_table_extends)

lemma fold_create_table_get:
  "dict_get (fold create_table ds ts) n =
    (case dict_get ts n of Some t \<Rightarrow> Some t
     | None \<Rightarrow> map_option (\<lambda>d. \<lparr>tb_columns = map fst (td_columns d), tb_indexes = map fst (td_indexes d)\<rparr>)
                 (List.find (\<lambda>d. td_name d = n) ds))"
proof (induction ds arbitrary: ts)
  case Nil
  then show ?case by (cases "dict_get ts n") simp_all
next
  case (Cons d ds)
  have "dict_get (create_table d ts) n =
    (case dict_get ts n of Some t \<Rightarrow> Some t
     | None \<Rightarrow> if td_name d = n then Some \<lparr>tb_columns = map fst (td_columns d), tb_indexes = map fst (td_indexes d)\<rparr> else None)"
    by (cases "dict_get ts n") (auto simp: create_table_def dict_simps)
  with Cons show ?case
    by (cases "dict_get ts n"; cases "td_name d = n") simp_all
qed

lemma fresh_table: "table_of_version v d \<lparr>tb_columns = map fst (td_columns d), tb_indexes = map fst (td_indexes d)\<rparr>"
  by (auto simp: table_of_version_def)

lemma find_by_name:
  "d \<in> set ds \<Longrightarrow> distinct (map td_name ds) \<Longrightarrow> List.find (\<lambda>e. td_name e = td_name d) ds = Some d"
  by (induction ds) (auto simp: rev_image_eqI)

lemma create_all_tables:
  assumes "upgradable v (sd_tables db)"
  shows "tables_of_version v (sd_tables (create_all state_metadata db))"
proof -
  have "\<exists>t. dict_get (fold create_table state_metadata (sd_tables db)) (td_name d) = Some t \<and> table_of_version v d t"
    if d: "d \<in> set state_metadata" for d
  proof (cases "dict_get (sd_tables db) (td_name d)")
    case None
    have f: "List.find (\<lambda>e. td_name e = td_name d) state_metadata = Some d"
      using find_by_name [of d state_metadata] d distinct_names by simp
    with f None show ?thesis by (simp add: fold_create_table_get fresh_table)
  next
    case (Some t)
    moreover from this have "table_of_version v d t"
      using assms d unfolding upgradable_def by (metis option.simps(5))
    ultimately show ?thesis by (simp add: fold_create_table_get)
  qed
  then show ?thesis by (simp add: tables_of_version_def create_all_def)
qed

lemma create_all_idle:
  assumes "tables_of_version v (sd_tables db)"
  shows "create_all state_metadata db = db"
proof -
  have "fold create_table ds (sd_tables db) = sd_tables db" if "set ds \<subseteq> set state_metadata" for ds
    using that
  proof (induction ds)
    case (Cons d ds)
    then obtain t where "dict_get (sd_tables db) (td_name d) = Some t"
      using assms by (force simp: tables_of_version_def)
    with Cons show ?case by (simp add: create_table_def)
  qed simp
  then show ?thesis by (simp add: create_all_def)
qed

text \<open>Adding a column makes the table one of the next version.\<close>

lemma adds_column:
  assumes v: "tables_of_version v (sd_tables db)" and d: "d \<in> set state_metadata"
    and c: "dict_get (td_columns d) c = Some \<lparr>co_primary = False, co_nullable = True\<rparr>"
  obtains db' where "add_missing_nullable_column d c db = Inr db'"
    "\<forall>e \<in> set state_metadata. \<exists>t t'. dict_get (sd_tables db) (td_name e) = Some t \<and> table_of_version v e t
       \<and> dict_get (sd_tables db') (td_name e) = Some t' \<and> set (tb_columns t) \<subseteq> set (tb_columns t')
       \<and> set (tb_indexes t) \<subseteq> set (tb_indexes t') \<and> (e = d \<longrightarrow> c \<in> set (tb_columns t'))"
    "table_extends (sd_tables db) (sd_tables db')" "sd_versions db' = sd_versions db"
proof -
  from v d obtain t where t: "dict_get (sd_tables db) (td_name d) = Some t" "table_of_version v d t"
    by (force simp: tables_of_version_def)
  define t' where "t' = (if c \<in> set (tb_columns t) then t else t\<lparr>tb_columns := tb_columns t @ [c]\<rparr>)"
  define db' where "db' = (if c \<in> set (tb_columns t) then db else put_table d t' db)"
  have r: "add_missing_nullable_column d c db = Inr db'"
    using t c by (simp add: add_missing_nullable_column_def existing_table_def db'_def t'_def)
  have g: "dict_get (sd_tables db') n = (if n = td_name d then Some t' else dict_get (sd_tables db) n)" for n
    using t by (auto simp: db'_def t'_def put_table_def dict_simps)
  have s: "set (tb_columns t) \<subseteq> set (tb_columns t')" "tb_indexes t' = tb_indexes t" "c \<in> set (tb_columns t')"
    by (auto simp: t'_def)
  have x: "table_extends (sd_tables db) (sd_tables db')"
    using s t by (auto simp: table_extends_def g)
  have p: "\<exists>t t'. dict_get (sd_tables db) (td_name e) = Some t \<and> table_of_version v e t
       \<and> dict_get (sd_tables db') (td_name e) = Some t' \<and> set (tb_columns t) \<subseteq> set (tb_columns t')
       \<and> set (tb_indexes t) \<subseteq> set (tb_indexes t') \<and> (e = d \<longrightarrow> c \<in> set (tb_columns t'))"
    if "e \<in> set state_metadata" for e
  proof (cases "e = d")
    case True
    with t s show ?thesis by (simp add: g)
  next
    case False
    then have n: "td_name e \<noteq> td_name d" using that d names_differ by blast
    from v that obtain u where "dict_get (sd_tables db) (td_name e) = Some u" "table_of_version v e u"
      by (force simp: tables_of_version_def)
    with n False show ?thesis by (simp add: g)
  qed
  show ?thesis by (rule that [OF r _ x]) (use p in \<open>auto simp: db'_def put_table_def\<close>)
qed

lemma table_of_next_version:
  assumes "table_of_version v e t" "set (tb_columns t) \<subseteq> set (tb_columns t')" "set (tb_indexes t) \<subseteq> set (tb_indexes t')"
    and "\<And>c. later_column v (td_name e) c \<Longrightarrow> later_column (v + 1) (td_name e) c \<or> c \<in> set (tb_columns t')"
    and "v \<noteq> 2 \<or> fst ` set (td_indexes e) \<subseteq> set (tb_indexes t')"
  shows "table_of_version (v + 1) e t'"
proof -
  have "c \<in> set (tb_columns t') \<or> later_column (v + 1) (td_name e) c" if "c \<in> fst ` set (td_columns e)" for c
    using that assms(1,2,4) unfolding table_of_version_def by blast
  moreover have "v + 1 < 3 \<or> fst ` set (td_indexes e) \<subseteq> set (tb_indexes t')"
  proof (cases "v + 1 < 3 \<or> v = 2")
    case True
    then show ?thesis using assms(5) by blast
  next
    case False
    then have "\<not> v < 3" by simp
    then show ?thesis using assms(1,3) unfolding table_of_version_def by blast
  qed
  ultimately show ?thesis by (simp add: table_of_version_def)
qed

lemma column_migration:
  assumes "tables_of_version v (sd_tables db)" "d \<in> set state_metadata"
    and "dict_get (td_columns d) c = Some \<lparr>co_primary = False, co_nullable = True\<rparr>"
    and "\<And>n c'. later_column v n c' \<Longrightarrow> later_column (v + 1) n c' \<or> n = td_name d \<and> c' = c" and "v \<noteq> 2"
  obtains db' where "add_missing_nullable_column d c db = Inr db'" "tables_of_version (v + 1) (sd_tables db')"
    "table_extends (sd_tables db) (sd_tables db')" "sd_versions db' = sd_versions db"
proof -
  obtain db' where r: "add_missing_nullable_column d c db = Inr db'"
    and p: "\<forall>e \<in> set state_metadata. \<exists>t t'. dict_get (sd_tables db) (td_name e) = Some t \<and> table_of_version v e t
       \<and> dict_get (sd_tables db') (td_name e) = Some t' \<and> set (tb_columns t) \<subseteq> set (tb_columns t')
       \<and> set (tb_indexes t) \<subseteq> set (tb_indexes t') \<and> (e = d \<longrightarrow> c \<in> set (tb_columns t'))"
    and x: "table_extends (sd_tables db) (sd_tables db')" "sd_versions db' = sd_versions db"
    using adds_column [OF assms(1-3)] by blast
  have "\<exists>t'. dict_get (sd_tables db') (td_name e) = Some t' \<and> table_of_version (v + 1) e t'"
    if e: "e \<in> set state_metadata" for e
  proof -
    obtain t t' where t: "table_of_version v e t" "dict_get (sd_tables db') (td_name e) = Some t'"
       "set (tb_columns t) \<subseteq> set (tb_columns t')" "set (tb_indexes t) \<subseteq> set (tb_indexes t')"
       "e = d \<longrightarrow> c \<in> set (tb_columns t')"
      using bspec [OF p e] by (elim exE conjE) (rule that)
    have "table_of_version (v + 1) e t'"
      by (rule table_of_next_version [OF t(1) t(3,4)])
        (use assms(4,5) t(5) names_differ [OF e assms(2)] in blast)+
    with t show ?thesis by blast
  qed
  with that r x show ?thesis unfolding tables_of_version_def by blast
qed

lemma creates_index:
  assumes v: "tables_of_version v (sd_tables db)" and d: "d \<in> set state_metadata"
    and c: "set columns \<subseteq> fst ` set (td_columns d)" "\<forall>c \<in> set columns. \<not> later_column v (td_name d) c"
  obtains db' t where "create_missing_index (d, name, columns) db = Inr db'" "tables_of_version v (sd_tables db')"
    "table_extends (sd_tables db) (sd_tables db')" "sd_versions db' = sd_versions db"
    "dict_get (sd_tables db') (td_name d) = Some t" "name \<in> set (tb_indexes t)"
proof -
  from v d obtain t where t: "dict_get (sd_tables db) (td_name d) = Some t" "table_of_version v d t"
    by (force simp: tables_of_version_def)
  have cs: "set columns \<subseteq> set (tb_columns t)"
  proof
    fix x assume "x \<in> set columns"
    with c have "x \<in> fst ` set (td_columns d)" "\<not> later_column v (td_name d) x" by (simp_all add: subset_iff)
    with t(2) show "x \<in> set (tb_columns t)" by (simp only: table_of_version_def) metis
  qed
  define t' where "t' = t\<lparr>tb_indexes := tb_indexes t @ [name]\<rparr>"
  show ?thesis
  proof (cases "name \<in> set (tb_indexes t)")
    case True
    show ?thesis
      by (rule that [of db t]) (use True t v in \<open>simp_all add: create_missing_index_def existing_table_def\<close>)
  next
    case False
    have g: "dict_get (sd_tables (put_table d t' db)) n = (if n = td_name d then Some t' else dict_get (sd_tables db) n)" for n
      by (simp add: put_table_def dict_simps)
    have t': "table_of_version v d t'" "set (tb_columns t) \<subseteq> set (tb_columns t')" "set (tb_indexes t) \<subseteq> set (tb_indexes t')"
      using t(2) by (auto simp: table_of_version_def t'_def)
    have "\<exists>u. dict_get (sd_tables (put_table d t' db)) (td_name e) = Some u \<and> table_of_version v e u"
      if e: "e \<in> set state_metadata" for e
    proof (cases "td_name e = td_name d")
      case True
      then have "e = d" using e d names_differ by blast
      with t' show ?thesis by (simp add: g)
    next
      case False
      with v e show ?thesis by (simp add: g tables_of_version_def)
    qed
    then have "tables_of_version v (sd_tables (put_table d t' db))" by (simp add: tables_of_version_def)
    moreover have "table_extends (sd_tables db) (sd_tables (put_table d t' db))"
      using t t' by (auto simp: table_extends_def g)
    moreover have "create_missing_index (d, name, columns) db = Inr (put_table d t' db)"
      using False cs t by (simp add: create_missing_index_def existing_table_def t'_def)
    moreover have "sd_versions (put_table d t' db) = sd_versions db" by (simp add: put_table_def)
    moreover have "dict_get (sd_tables (put_table d t' db)) (td_name d) = Some t'" by (simp add: g)
    moreover have "name \<in> set (tb_indexes t')" by (simp add: t'_def)
    ultimately show ?thesis by (intro that [of "put_table d t' db" t'])
  qed
qed

lemma creates_indexes:
  assumes "tables_of_version v (sd_tables db)"
    and "\<forall>(d, name, columns) \<in> set ixs. d \<in> set state_metadata \<and> set columns \<subseteq> fst ` set (td_columns d)
      \<and> (\<forall>c \<in> set columns. \<not> later_column v (td_name d) c)"
  shows "\<exists>db'. run_all create_missing_index ixs db = Inr db' \<and> tables_of_version v (sd_tables db')
    \<and> table_extends (sd_tables db) (sd_tables db') \<and> sd_versions db' = sd_versions db
    \<and> (\<forall>(d, name, columns) \<in> set ixs. \<exists>t. dict_get (sd_tables db') (td_name d) = Some t \<and> name \<in> set (tb_indexes t))"
  using assms
proof (induction ixs arbitrary: db)
  case (Cons ix ixs)
  obtain d name columns where ix: "ix = (d, name, columns)" by (cases ix)
  obtain db1 t where s: "create_missing_index (d, name, columns) db = Inr db1" "tables_of_version v (sd_tables db1)"
    "table_extends (sd_tables db) (sd_tables db1)" "sd_versions db1 = sd_versions db"
    "dict_get (sd_tables db1) (td_name d) = Some t" "name \<in> set (tb_indexes t)"
    using creates_index [OF Cons.prems(1), of d columns name] Cons.prems(2) ix by auto
  obtain db' where r: "run_all create_missing_index ixs db1 = Inr db'" "tables_of_version v (sd_tables db')"
    "table_extends (sd_tables db1) (sd_tables db')" "sd_versions db' = sd_versions db1"
    "\<forall>(d, name, columns) \<in> set ixs. \<exists>t. dict_get (sd_tables db') (td_name d) = Some t \<and> name \<in> set (tb_indexes t)"
    using Cons.IH [OF s(2)] Cons.prems(2) by (auto simp del: Ball_def)
  have "\<exists>t. dict_get (sd_tables db') (td_name d) = Some t \<and> name \<in> set (tb_indexes t)"
    using r(3) s(5,6) unfolding table_extends_def by blast
  moreover have "run_all create_missing_index (ix # ixs) db = Inr db'" using s(1) r(1) ix by simp
  moreover have "table_extends (sd_tables db) (sd_tables db')" using s(3) r(3) by (rule table_extends_trans)
  ultimately show ?case using s(4) r(2,4,5) ix by (intro exI [of _ db']) simp
qed (simp add: table_extends_def)

lemma lightweight_indexes:
  "set lightweight_state_indexes =
     Pair pending_session_claims_table ` set (td_indexes pending_session_claims_table)
     \<union> Pair interrupt_requests_table ` set (td_indexes interrupt_requests_table)"
  by (simp add: lightweight_state_indexes_def)

lemma index_migration:
  assumes "tables_of_version 2 (sd_tables db)"
  obtains db' where "run_all create_missing_index lightweight_state_indexes db = Inr db'"
    "tables_of_version 3 (sd_tables db')" "table_extends (sd_tables db) (sd_tables db')" "sd_versions db' = sd_versions db"
proof -
  have "\<forall>(d, name, columns) \<in> set lightweight_state_indexes. d \<in> set state_metadata \<and> set columns \<subseteq> fst ` set (td_columns d)
      \<and> (\<forall>c \<in> set columns. \<not> later_column 2 (td_name d) c)"
    by code_simp
  from creates_indexes [OF assms this] obtain db' where
    r: "run_all create_missing_index lightweight_state_indexes db = Inr db'" "tables_of_version 2 (sd_tables db')"
      "table_extends (sd_tables db) (sd_tables db')" "sd_versions db' = sd_versions db"
    and ix: "\<forall>(d, name, columns) \<in> set lightweight_state_indexes.
       \<exists>t. dict_get (sd_tables db') (td_name d) = Some t \<and> name \<in> set (tb_indexes t)"
    by blast
  have "\<exists>t. dict_get (sd_tables db') (td_name e) = Some t \<and> table_of_version (2 + 1) e t"
    if e: "e \<in> set state_metadata" for e
  proof -
    from r(2) e obtain t where t: "dict_get (sd_tables db') (td_name e) = Some t" "table_of_version 2 e t"
      unfolding tables_of_version_def by blast
    have n: "\<And>c. later_column 2 (td_name e) c \<Longrightarrow> later_column (2 + 1) (td_name e) c \<or> c \<in> set (tb_columns t)"
      by (simp add: later_column_def)
    have "td_indexes e = [] \<or> Pair e ` set (td_indexes e) \<subseteq> set lightweight_state_indexes"
      using e by (auto simp: state_metadata_def lightweight_indexes session_bindings_table_def session_owners_table_def)
    then have i: "fst ` set (td_indexes e) \<subseteq> set (tb_indexes t)"
      using ix t(1) by fastforce
    have "table_of_version (2 + 1) e t"
      by (rule table_of_next_version [OF t(2) order_refl order_refl n disjI2 [OF i]])
    with t show ?thesis by blast
  qed
  then have "tables_of_version 3 (sd_tables db')" by (simp add: tables_of_version_def)
  with that r show ?thesis by blast
qed

section \<open>Runs\<close>

lemma get_updated:
  "dict_get (map (\<lambda>(k, v). (k, if k = scope then version else v)) vs) scope = map_option (\<lambda>_. version) (dict_get vs scope)"
  by (induction vs) auto

lemma write_tables [simp]: "sd_tables (write_schema_version raced scope version db) = sd_tables db"
  by (simp add: write_schema_version_def Let_def split: option.split)

lemma write_read: "read_schema_version scope (write_schema_version raced scope version db) = Some version"
proof (cases "read_schema_version scope db")
  case None
  then have "dict_get (case sd_versions db of None \<Rightarrow> [] | Some vs \<Rightarrow> vs) scope = None"
    by (simp add: read_schema_version_def split: option.splits)
  then show ?thesis
    using None by (cases raced) (simp_all add: write_schema_version_def Let_def read_schema_version_def get_updated map_add_def)
next
  case (Some v)
  then have "dict_get (case sd_versions db of None \<Rightarrow> [] | Some vs \<Rightarrow> vs) scope = Some v"
    by (simp add: read_schema_version_def split: option.splits)
  with Some show ?thesis by (simp add: write_schema_version_def Let_def read_schema_version_def get_updated)
qed

lemma write_versions: "sd_versions (write_schema_version raced scope version db) \<noteq> None"
  using write_read unfolding read_schema_version_def by (metis not_None_eq option.simps(4))

lemma migration_step:
  assumes "tables_of_version v (sd_tables db)" "0 \<le> v" "v < 4"
  obtains step db' where "migration (v + 1) = Some step" "step db = Inr db'" "tables_of_version (v + 1) (sd_tables db')"
    "table_extends (sd_tables db) (sd_tables db')" "sd_versions db' = sd_versions db"
proof -
  have m: "interrupt_requests_table \<in> set state_metadata" "pending_session_claims_table \<in> set state_metadata"
    by (simp_all add: state_metadata_def)
  from assms(2,3) consider "v = 0" | "v = 1" | "v = 2" | "v = 3" by linarith
  then show ?thesis
  proof cases
    case 1
    show ?thesis
      by (rule column_migration [OF assms(1) m(1), of "''details_json''"])
        (use 1 in \<open>auto simp: interrupt_requests_table_def optional_column_def later_column_def migration_def migration_defs intro: that\<close>)
  next
    case 2
    show ?thesis
      by (rule column_migration [OF assms(1) m(2), of "''expires_at''"])
        (use 2 in \<open>auto simp: pending_session_claims_table_def optional_column_def later_column_def migration_def migration_defs intro: that\<close>)
  next
    case 3
    with assms(1) show ?thesis by (auto elim!: index_migration simp: migration_def migration_defs intro!: that)
  next
    case 4
    show ?thesis
      by (rule column_migration [OF assms(1) m(1), of "''credential_id''"])
        (use 4 in \<open>auto simp: interrupt_requests_table_def optional_column_def later_column_def migration_def migration_defs intro: that\<close>)
  qed
qed

lemma run_append:
  "run_migrations raced scope (xs @ ys) db =
     (case run_migrations raced scope xs db of (Inl e, db') \<Rightarrow> (Inl e, db') | (Inr u, db') \<Rightarrow> run_migrations raced scope ys db')"
  by (induction xs arbitrary: db) (auto split: option.splits sum.splits)

lemma runs_from:
  assumes "tables_of_version v (sd_tables db)" "0 \<le> v" "v + int n \<le> 4"
  shows "\<exists>db'. run_migrations raced scope [v + 1 .. v + int n] db = (Inr (), db') \<and> tables_of_version (v + int n) (sd_tables db')
    \<and> table_extends (sd_tables db) (sd_tables db')
    \<and> (if n = 0 then db' = db else read_schema_version scope db' = Some (v + int n) \<and> sd_versions db' \<noteq> None)"
  using assms
proof (induction n)
  case 0
  then show ?case by simp
next
  case (Suc n)
  then obtain db1 where r: "run_migrations raced scope [v + 1 .. v + int n] db = (Inr (), db1)"
    "tables_of_version (v + int n) (sd_tables db1)" "table_extends (sd_tables db) (sd_tables db1)"
    by fastforce
  obtain step db2 where s: "migration (v + int n + 1) = Some step" "step db1 = Inr db2"
    "tables_of_version (v + int n + 1) (sd_tables db2)" "table_extends (sd_tables db1) (sd_tables db2)"
    by (rule migration_step [OF r(2)]) (use Suc.prems in auto)
  have u: "[v + 1 .. v + int (Suc n)] = [v + 1 .. v + int n] @ [v + int n + 1]"
    using upto_rec2 [of "v + 1" "v + int n + 1"] by (simp add: add.commute add.left_commute)
  have "run_migrations raced scope [v + 1 .. v + int (Suc n)] db = (Inr (), write_schema_version raced scope (v + int n + 1) db2)"
    unfolding u run_append r(1) using s(1,2) by simp
  moreover have "table_extends (sd_tables db) (sd_tables (write_schema_version raced scope (v + int n + 1) db2))"
    using r(3) s(4) table_extends_trans by simp
  ultimately show ?case
    using s(3) write_read write_versions
    by (intro exI [of _ "write_schema_version raced scope (v + int n + 1) db2"]) (simp add: add.assoc add.commute add.left_commute)
qed

definition stored_schema_version :: "schema_db \<Rightarrow> int" where
  "stored_schema_version db = (case read_schema_version state_store_schema_name db of None \<Rightarrow> 0 | Some v \<Rightarrow> v)"

definition current_schema :: "schema_db \<Rightarrow> bool" where
  "current_schema db =
     (read_schema_version state_store_schema_name db = Some current_state_store_schema_version
      \<and> (\<forall>d \<in> set state_metadata. \<exists>t. dict_get (sd_tables db) (td_name d) = Some t
           \<and> fst ` set (td_columns d) \<subseteq> set (tb_columns t) \<and> fst ` set (td_indexes d) \<subseteq> set (tb_indexes t)))"

lemma current_tables:
  "tables_of_version 4 ts \<Longrightarrow> d \<in> set state_metadata \<Longrightarrow> \<exists>t. dict_get ts (td_name d) = Some t
     \<and> fst ` set (td_columns d) \<subseteq> set (tb_columns t) \<and> fst ` set (td_indexes d) \<subseteq> set (tb_indexes t)"
  by (simp add: tables_of_version_def table_of_version_def later_column_def subset_iff) blast

lemma version_table_read [simp]: "read_schema_version scope (create_version_table db) = read_schema_version scope db"
  by (simp add: create_version_table_def read_schema_version_def split: option.split)

lemma create_all_read [simp]: "read_schema_version scope (create_all ds db) = read_schema_version scope db"
  by (simp add: create_all_def read_schema_version_def)

lemma migrate_runs:
  assumes "0 \<le> stored_schema_version db" "stored_schema_version db \<le> k"
  shows "migrate_state_store_schema raced k db =
    (case run_migrations raced state_store_schema_name [stored_schema_version db + 1 .. k]
            (create_all state_metadata (create_version_table db)) of
       (Inl e, db') \<Rightarrow> (Inl e, db') | (Inr u, db') \<Rightarrow> (Inr k, db'))"
  using assms
  by (cases "read_schema_version state_store_schema_name db")
    (simp_all add: migrate_state_store_schema_def apply_schema_migrations_def stored_schema_version_def)

text \<open>Migrating to a version at or above the stored one.\<close>

lemma migrates_to:
  assumes "0 \<le> stored_schema_version db" "stored_schema_version db \<le> k" "k \<le> 4"
    and "upgradable (stored_schema_version db) (sd_tables db)"
  shows "\<exists>db'. migrate_state_store_schema raced k db = (Inr k, db') \<and> tables_of_version k (sd_tables db')
    \<and> table_extends (sd_tables db) (sd_tables db') \<and> stored_schema_version db' = k \<and> sd_versions db' \<noteq> None
    \<and> (0 < k \<longrightarrow> read_schema_version state_store_schema_name db' = Some k)
    \<and> run_migrations raced state_store_schema_name [stored_schema_version db + 1 .. k]
         (create_all state_metadata (create_version_table db)) = (Inr (), db')"
proof -
  let ?v = "stored_schema_version db" and ?db = "create_all state_metadata (create_version_table db)"
  let ?n = "nat (k - ?v)"
  have t: "tables_of_version ?v (sd_tables ?db)"
    using assms(4) by (intro create_all_tables) (simp add: create_version_table_def)
  have x: "table_extends (sd_tables db) (sd_tables ?db)"
    by (simp add: create_all_def create_version_table_def creates_extend)
  have k: "?v + int ?n = k" using assms by simp
  then obtain db' where r: "run_migrations raced state_store_schema_name [?v + 1 .. k] ?db = (Inr (), db')"
    "tables_of_version k (sd_tables db')" "table_extends (sd_tables ?db) (sd_tables db')"
    "if ?n = 0 then db' = ?db else read_schema_version state_store_schema_name db' = Some k \<and> sd_versions db' \<noteq> None"
    using runs_from [OF t assms(1), of ?n raced state_store_schema_name] assms(3) by (simp only: k) blast
  have s: "stored_schema_version db' = k \<and> sd_versions db' \<noteq> None \<and> (0 < k \<longrightarrow> read_schema_version state_store_schema_name db' = Some k)"
  proof (cases "?n = 0")
    case True
    then have "k = ?v" "db' = ?db" using k r(4) by simp_all
    then show ?thesis
      by (auto simp: stored_schema_version_def create_all_def create_version_table_def read_schema_version_def split: option.splits)
  next
    case False
    with r(4) show ?thesis by (simp add: stored_schema_version_def)
  qed
  from x r(3) have "table_extends (sd_tables db) (sd_tables db')" by (rule table_extends_trans)
  with r s migrate_runs [OF assms(1,2)] show ?thesis by (intro exI [of _ db']) simp
qed

text \<open>
  C34: A database at any earlier version of the schema migrates to the current one: every declared table
  then has every declared column and index, the version is recorded, and no table, column or index that was
  there is lost, whether or not another process records a version meanwhile (\<open>raced\<close>).  Running the
  migrations again changes nothing, and a run that stopped after any of them is completed by the next.
\<close>

theorem migrations_reach_current_schema:
  assumes "0 \<le> stored_schema_version db" "stored_schema_version db \<le> current_state_store_schema_version"
    and "upgradable (stored_schema_version db) (sd_tables db)"
  shows "\<exists>db'. migrate_state_store_schema raced current_state_store_schema_version db = (Inr current_state_store_schema_version, db')
    \<and> current_schema db' \<and> table_extends (sd_tables db) (sd_tables db')
    \<and> migrate_state_store_schema raced current_state_store_schema_version db' = (Inr current_state_store_schema_version, db')
    \<and> (\<forall>k. stored_schema_version db \<le> k \<and> k \<le> current_state_store_schema_version \<longrightarrow>
         migrate_state_store_schema raced current_state_store_schema_version (snd (migrate_state_store_schema raced k db))
           = (Inr current_state_store_schema_version, db'))"
proof -
  let ?v = "stored_schema_version db" and ?db = "create_all state_metadata (create_version_table db)"
  let ?run = "run_migrations raced state_store_schema_name"
  have four: "current_state_store_schema_version = 4" by (simp add: current_state_store_schema_version_def)
  obtain db' where m: "migrate_state_store_schema raced 4 db = (Inr 4, db')" "tables_of_version 4 (sd_tables db')"
    "table_extends (sd_tables db) (sd_tables db')" "read_schema_version state_store_schema_name db' = Some 4"
    "?run [?v + 1 .. 4] ?db = (Inr (), db')"
    using migrates_to [OF assms(1) _ _ assms(3), of 4 raced] assms(2) by (simp add: four) blast
  have resume: "migrate_state_store_schema raced 4 (snd (migrate_state_store_schema raced k db)) = (Inr 4, db')"
    if k: "?v \<le> k" "k \<le> 4" for k
  proof -
    obtain dk where dk: "migrate_state_store_schema raced k db = (Inr k, dk)" "tables_of_version k (sd_tables dk)"
      "stored_schema_version dk = k" "sd_versions dk \<noteq> None" "?run [?v + 1 .. k] ?db = (Inr (), dk)"
      using migrates_to [OF assms(1) k assms(3), of raced] by blast
    have idle: "create_all state_metadata (create_version_table dk) = dk"
    proof -
      have "create_version_table dk = dk" using dk(4) by (cases dk) (auto simp: create_version_table_def)
      with create_all_idle [OF dk(2)] show ?thesis by simp
    qed
    have "[?v + 1 .. 4] = [?v + 1 .. k] @ [k + 1 .. 4]"
      using k upto_split2 [of "?v + 1" k 4] by (cases "?v = k") simp_all
    then have "?run [k + 1 .. 4] dk = (Inr (), db')"
      using m(5) dk(5) by (simp add: run_append)
    then show ?thesis
      using migrate_runs [of dk 4 raced] dk(1,3) idle assms(1) k by simp
  qed
  have again: "migrate_state_store_schema raced 4 db' = (Inr 4, db')"
    using resume [of 4] m(1) assms(2) by (simp add: four)
  have "current_schema db'"
    using m(4) current_tables [OF m(2)] by (simp add: current_schema_def four)
  with m resume again show ?thesis by (simp add: four)
qed

text \<open>A database of a newer schema is refused, and its version is kept.\<close>

lemma newer_schema_is_refused:
  assumes "current_state_store_schema_version < stored_schema_version db"
  shows "\<exists>e. fst (migrate_state_store_schema raced current_state_store_schema_version db) = Inl (SchemaFailure e)
    \<and> sd_versions (snd (migrate_state_store_schema raced current_state_store_schema_version db)) = sd_versions db"
proof -
  obtain v where v: "read_schema_version state_store_schema_name db = Some v" "4 < v"
    using assms by (cases "read_schema_version state_store_schema_name db")
      (simp_all add: stored_schema_version_def current_state_store_schema_version_def)
  then have "sd_versions (create_version_table db) = sd_versions db"
    by (simp add: read_schema_version_def create_version_table_def split: option.splits)
  with v show ?thesis
    by (simp add: migrate_state_store_schema_def apply_schema_migrations_def current_state_store_schema_version_def create_all_def
        read_schema_version_def create_version_table_def split: option.splits)
qed

definition first_release_db :: schema_db where
  "first_release_db =
     \<lparr>sd_tables = [(''a2a_interrupt_requests'', \<lparr>tb_columns = [''request_id'', ''session_id'', ''interrupt_type'', ''identity'',
          ''task_id'', ''context_id'', ''expires_at'', ''tombstone_expires_at''], tb_indexes = []\<rparr>)],
      sd_versions = None\<rparr>"

lemma migrations_reach_current_schema_witness:
  "\<exists>db'. migrate_state_store_schema (Some 3) current_state_store_schema_version first_release_db
      = (Inr current_state_store_schema_version, db') \<and> current_schema db'"
proof -
  have "0 \<le> stored_schema_version first_release_db"
    "stored_schema_version first_release_db \<le> current_state_store_schema_version"
    "upgradable (stored_schema_version first_release_db) (sd_tables first_release_db)"
    by code_simp+
  from migrations_reach_current_schema [OF this, of "Some 3"] show ?thesis by blast
qed

end
