(* ===== verification/Application.thy ===== *)
theory Application
  imports Deployment Migrations Task_Store State_Store Interrupt_Store Request_Handler
begin

text \<open>
  The application (\<open>create_app\<close> of \<open>server/application.py\<close>): the repositories and stores that the settings
  choose (\<open>server/state_store.py\<close>, \<open>server/task_store.py\<close>), the parts it is built of, its start over an
  existing database, and its lifespan (\<open>server/lifespan.py\<close>).
\<close>

section \<open>Repositories and stores\<close>

text \<open>
  Lifetimes in the repositories are finite; a lifetime that is infinite or not a number, which the settings
  accept, has no repository here (\<open>None\<close>).
\<close>

fun finite_time :: "flt \<Rightarrow> rat option" where
  "finite_time (Fin t) = Some t"
| "finite_time _ = None"

datatype session_repository = Memory_Sessions memory_sessions | Database_Sessions db_sessions

datatype interrupt_repository = Memory_Interrupts mem_interrupts | Database_Interrupts db_interrupts

definition build_session_state_repository :: "server_settings \<Rightarrow> session_repository option" where
  "build_session_state_repository s =
     map_option (\<lambda>ttl. if s_a2a_task_store_backend s = ''database'' then Database_Sessions (db_new ttl)
                      else Memory_Sessions (mem_new 3600 10000 ttl))
       (finite_time (s_a2a_pending_session_claim_ttl_seconds s))"

definition build_interrupt_request_repository :: "server_settings \<Rightarrow> interrupt_repository option" where
  "build_interrupt_request_repository s =
     (case (finite_time (s_a2a_interrupt_request_ttl_seconds s), finite_time (s_a2a_interrupt_request_tombstone_ttl_seconds s)) of
        (Some request_ttl, Some tombstone_ttl) \<Rightarrow>
          Some (if s_a2a_task_store_backend s = ''database'' then Database_Interrupts (di_new request_ttl tombstone_ttl)
                else Memory_Interrupts (mi_new request_ttl tombstone_ttl))
      | _ \<Rightarrow> None)"

text \<open>What SQLAlchemy's \<open>make_url\<close> reads from the address of a database; the text hides the password.\<close>

record database_url =
  du_drivername :: string
  du_database :: "string option"
  du_rendered :: string

definition is_sqlite :: "database_url \<Rightarrow> bool" where
  "is_sqlite url = prefix ''sqlite'' (du_drivername url)"

definition describe_lightweight_persistence_backend ::
  "(string \<Rightarrow> database_url) \<Rightarrow> server_settings \<Rightarrow> (string, string) dict" where
  "describe_lightweight_persistence_backend make_url s =
     (let summary = [(''backend'', s_a2a_task_store_backend s), (''scope'', ''sdk_tasks_and_adapter_state'')]
      in if s_a2a_task_store_backend s \<noteq> ''database'' then summary
         else let url = make_url (the (s_a2a_task_store_database_url s))
              in summary @ [(''database_url'', du_rendered url),
                   (''sqlite_tuning'', if is_sqlite url then ''local_durability_defaults'' else ''not_applicable'')])"

text \<open>
  An engine is the directory that is created for it, whether its connections are tested before use, and the
  statements that each new connection runs.
\<close>

record database_engine =
  de_directory :: "string list option"
  de_pool_pre_ping :: bool
  de_on_connect :: "string list"

definition configure_sqlite_connection :: "string list" where
  "configure_sqlite_connection = [''PRAGMA journal_mode=WAL'', ''PRAGMA busy_timeout=30000'', ''PRAGMA synchronous=NORMAL'']"

definition database_directory :: "resolver \<Rightarrow> string \<Rightarrow> string \<Rightarrow> string + string list" where
  "database_directory rs cwd database_path =
     (let path = parse_path database_path
      in if fst path then Inr (butlast (snd path))
         else ebind (rs (join_path (snd (parse_path cwd)) path)) (\<lambda>resolved. Inr (butlast resolved)))"

definition build_database_engine ::
  "(string \<Rightarrow> database_url) \<Rightarrow> resolver \<Rightarrow> string \<Rightarrow> server_settings \<Rightarrow> string + database_engine" where
  "build_database_engine make_url rs cwd s =
     (let url = make_url (the (s_a2a_task_store_database_url s))
      in ebind
           (case du_database url of
              Some (c # cs) \<Rightarrow>
                if is_sqlite url \<and> c # cs \<noteq> '':memory:'' \<and> \<not> prefix ''file:'' (c # cs)
                then ebind (database_directory rs cwd (c # cs)) (\<lambda>d. Inr (Some d)) else Inr None
            | _ \<Rightarrow> Inr None)
           (\<lambda>directory. Inr \<lparr>de_directory = directory, de_pool_pre_ping = \<not> is_sqlite url,
              de_on_connect = (if is_sqlite url then configure_sqlite_connection else [])\<rparr>))"

section \<open>The parts of the application\<close>

definition upstream_of :: "(pyval \<Rightarrow> string) \<Rightarrow> server_settings \<Rightarrow> upstream" where
  "upstream_of str s = \<lparr>us_directory = s_opencode_workspace_root s, us_agent = s_opencode_agent s,
     us_system = s_opencode_system s, us_variant = s_opencode_variant s, us_str = str\<rparr>"

record application =
  ap_database :: "database_engine option"
  ap_sessions :: "session_repository option"
  ap_interrupts :: "interrupt_repository option"
  ap_task_store :: store
  ap_cancel_abort_timeout :: flt
  ap_policy :: sandbox_policy
  ap_card :: agent_card
  ap_extended_card :: agent_card
  ap_context :: handler_context
  ap_registry :: "(string, method_spec) dict"
  ap_summary :: "(string, string) dict"
  ap_gzip_minimum_size :: int
  ap_health :: pyval

text \<open>
  \<open>create_app\<close>.  \<open>core\<close> are the methods of the SDK, \<open>dialect\<close> the one of the database engine, \<open>str\<close> and
  \<open>send\<close> belong to the upstream client (theory Upstream_Client); the error is the text of the exception.
\<close>

definition create_app ::
  "string list \<Rightarrow> (string \<Rightarrow> database_url) \<Rightarrow> string \<Rightarrow> resolver \<Rightarrow> string \<Rightarrow> (pyval \<Rightarrow> string)
     \<Rightarrow> (http_call \<Rightarrow> call_exception + up_response) \<Rightarrow> server_settings \<Rightarrow> string + application" where
  "create_app core make_url dialect rs cwd str send s =
     ebind (if s_a2a_task_store_backend s = ''database''
            then ebind (build_database_engine make_url rs cwd s) (\<lambda>engine. Inr (Some engine)) else Inr None) (\<lambda>database.
     ebind (from_settings rs cwd (sandbox_settings_of s) (s_opencode_workspace_root s)) (\<lambda>policy.
     ebind (build_agent_card core rs cwd s) (\<lambda>card.
     ebind (build_authenticated_extended_agent_card core rs cwd s) (\<lambda>extended.
     ebind (build_runtime_profile rs cwd s) (\<lambda>profile.
     case deployed_context core (snapshot_of profile) (upstream_of str s) send
            (\<lambda>req. ebind (resolve_directory rs policy req (s_opencode_workspace_root s)) (\<lambda>d. Inr (Some d))) of
       None \<Rightarrow> Inl ''KeyError''
     | Some cx \<Rightarrow>
         ebind (build_extension_method_registry cx) (\<lambda>registry.
         Inr \<lparr>ap_database = database, ap_sessions = build_session_state_repository s,
           ap_interrupts = build_interrupt_request_repository s,
           ap_task_store = build_task_store (s_a2a_task_store_backend s) dialect,
           ap_cancel_abort_timeout = s_a2a_cancel_abort_timeout_seconds s, ap_policy = policy,
           ap_card = card, ap_extended_card = extended, ap_context = cx, ap_registry = registry,
           ap_summary = describe_lightweight_persistence_backend make_url s,
           ap_gzip_minimum_size = s_a2a_http_gzip_minimum_size s,
           ap_health = health_payload profile ''opencode-a2a'' (s_a2a_version s) (s_a2a_protocol_version s)\<rparr>))))))"

section \<open>An application serves what its card says\<close>

definition extension_params :: "agent_card \<Rightarrow> string \<Rightarrow> pyval option" where
  "extension_params c uri =
     (case find (\<lambda>e. ae_uri e = uri) (ac_extensions c) of None \<Rightarrow> None | Some e \<Rightarrow> ae_params e)"

fun texts_of :: "pyval \<Rightarrow> string list" where
  "texts_of (PList vs) = List.map_filter (\<lambda>v. case v of PStr t \<Rightarrow> Some t | _ \<Rightarrow> None) vs"
| "texts_of v = []"

lemma texts_of_strings [simp]: "texts_of (strings xs) = xs"
  by (induction xs) (simp_all add: strings_def List.map_filter_simps)

lemma wire_contract_params:
  "extension_params (agent_card_of core s p True) wire_contract_extension_uri = Some (card_document build_wire_contract_params core s p)"
  by (simp add: extension_params_def agent_card_of_def build_agent_extensions_def Let_def extension_spec_uri_def
      session_binding_extension_uri_def model_selection_extension_uri_def streaming_extension_uri_def
      session_management_extension_uri_def provider_discovery_extension_uri_def workspace_control_extension_uri_def
      interrupt_recovery_extension_uri_def interrupt_callback_extension_uri_def compatibility_profile_extension_uri_def
      wire_contract_extension_uri_def)

lemma wire_contract_methods:
  "path_at (card_document build_wire_contract_params core s p) [''all_jsonrpc_methods''] =
     strings (supported_jsonrpc_methods core (snapshot_of p))"
  by (simp add: path_at_def param_at_def card_document_def build_wire_contract_params_def Let_def)

lemma same_policy:
  assumes "from_settings rs cwd (sandbox_settings_of s) None = Inr policy"
  shows "from_settings rs cwd (sandbox_settings_of s) (s_opencode_workspace_root s) = Inr policy"
proof -
  have "the (str_or (s_opencode_workspace_root s) (str_or (s_opencode_workspace_root s) (Some cwd))) =
      the (str_or None (str_or (s_opencode_workspace_root s) (Some cwd)))"
    by (simp add: str_or_eq)
  with assms show ?thesis by (simp only: from_settings_def sandbox_settings_of_def sandbox_settings.select_convs)
qed

lemma profile_builds:
  "from_settings rs cwd (sandbox_settings_of s) None = Inr policy \<Longrightarrow> \<exists>p. build_runtime_profile rs cwd s = Inr p"
  by (simp add: build_runtime_profile_def)


definition plain_url :: "string \<Rightarrow> database_url" where
  "plain_url address = \<lparr>du_drivername = ''sqlite+aiosqlite'', du_database = Some ''/srv/opencode-a2a.db'', du_rendered = address\<rparr>"


section \<open>The schema before its use\<close>

text \<open>
  Both database repositories migrate the same schema, when the application starts or at their first use
  (\<open>initialize\<close>, \<open>_ensure_initialized\<close>).  \<open>raced\<close> is as in theory Migrations; \<open>left\<close> is what a failed
  transaction leaves of its changes.
\<close>

definition initialize_repository ::
  "int option \<Rightarrow> (schema_db \<Rightarrow> schema_db) \<Rightarrow> bool \<Rightarrow> schema_db \<Rightarrow> (schema_error + unit) \<times> bool \<times> schema_db" where
  "initialize_repository raced left ready db =
     (if ready then (Inr (), True, db)
      else case migrate_state_store_schema raced current_state_store_schema_version db of
             (Inr v, db') \<Rightarrow> (Inr (), True, db')
           | (Inl e, db') \<Rightarrow> (Inl e, False, left db'))"

definition ensure_initialized ::
  "int option \<Rightarrow> (schema_db \<Rightarrow> schema_db) \<Rightarrow> bool \<Rightarrow> schema_db \<Rightarrow> (schema_error + unit) \<times> bool \<times> schema_db" where
  "ensure_initialized raced left ready db =
     (if \<not> ready then initialize_repository raced left ready db else (Inr (), ready, db))"

record state_stores =
  sr_schema :: schema_db
  sr_sessions_ready :: bool
  sr_interrupts_ready :: bool

text \<open>An access to one of the repositories; \<open>starting\<close> is the initialization by the lifespan.\<close>

datatype repository_access = Session_Access bool | Interrupt_Access bool

fun access ::
  "int option \<Rightarrow> (schema_db \<Rightarrow> schema_db) \<Rightarrow> repository_access \<Rightarrow> state_stores \<Rightarrow> (schema_error + unit) \<times> state_stores" where
  "access raced left (Session_Access starting) st =
     (let (r, ready, db) = (if starting then initialize_repository else ensure_initialized) raced left (sr_sessions_ready st) (sr_schema st)
      in (r, st\<lparr>sr_schema := db, sr_sessions_ready := ready\<rparr>))"
| "access raced left (Interrupt_Access starting) st =
     (let (r, ready, db) = (if starting then initialize_repository else ensure_initialized) raced left (sr_interrupts_ready st) (sr_schema st)
      in (r, st\<lparr>sr_schema := db, sr_interrupts_ready := ready\<rparr>))"

fun accesses ::
  "int option \<Rightarrow> (schema_db \<Rightarrow> schema_db) \<Rightarrow> repository_access list \<Rightarrow> state_stores \<Rightarrow> (schema_error + unit) list \<times> state_stores" where
  "accesses raced left [] st = ([], st)"
| "accesses raced left (a # rest) st =
     (let (r, st1) = access raced left a st; (rs, st2) = accesses raced left rest st1 in (r # rs, st2))"

definition fully_migrated :: "schema_db \<Rightarrow> bool" where
  "fully_migrated db \<longleftrightarrow> tables_of_version 4 (sd_tables db) \<and> stored_schema_version db = 4 \<and> sd_versions db \<noteq> None
     \<and> current_schema db"

lemma initialize_migrates:
  assumes "0 \<le> stored_schema_version db" "stored_schema_version db \<le> 4" "upgradable (stored_schema_version db) (sd_tables db)"
  shows "\<exists>db'. initialize_repository raced left ready db = (Inr (), True, if ready then db else db') \<and> fully_migrated db'"
proof -
  from migrates_to [OF assms(1,2) _ assms(3), of raced] obtain db' where
    m: "migrate_state_store_schema raced 4 db = (Inr 4, db')" "tables_of_version 4 (sd_tables db')"
      "stored_schema_version db' = 4" "sd_versions db' \<noteq> None" "read_schema_version state_store_schema_name db' = Some 4"
    by auto
  then have "fully_migrated db'"
    using current_tables [OF m(2)] by (simp add: fully_migrated_def current_schema_def current_state_store_schema_version_def)
  with m(1) show ?thesis
    by (intro exI [of _ db']) (simp add: initialize_repository_def current_state_store_schema_version_def)
qed

lemma migrated_idle:
  assumes "fully_migrated db"
  shows "initialize_repository raced left ready db = (Inr (), True, db)"
proof -
  have t: "tables_of_version 4 (sd_tables db)" "stored_schema_version db = 4" "sd_versions db \<noteq> None"
    using assms by (simp_all add: fully_migrated_def)
  have "create_version_table db = db" using t(3) by (cases db) (auto simp: create_version_table_def)
  then have "create_all state_metadata (create_version_table db) = db" using create_all_idle [OF t(1)] by simp
  then have "migrate_state_store_schema raced 4 db = (Inr 4, db)"
    using migrate_runs [of db 4 raced] t(2) by simp
  then show ?thesis by (simp add: initialize_repository_def current_state_store_schema_version_def)
qed

lemma ensure_is_initialize: "ensure_initialized raced left ready db = initialize_repository raced left ready db"
  by (simp add: ensure_initialized_def initialize_repository_def)

definition stores_ok :: "state_stores \<Rightarrow> bool" where
  "stores_ok st \<longleftrightarrow>
     fully_migrated (sr_schema st)
     \<or> (\<not> sr_sessions_ready st \<and> \<not> sr_interrupts_ready st \<and> 0 \<le> stored_schema_version (sr_schema st)
        \<and> stored_schema_version (sr_schema st) \<le> 4 \<and> upgradable (stored_schema_version (sr_schema st)) (sd_tables (sr_schema st)))"

lemma access_migrates:
  assumes "stores_ok st"
  shows "\<exists>st'. access raced left a st = (Inr (), st') \<and> fully_migrated (sr_schema st')
    \<and> (fully_migrated (sr_schema st) \<longrightarrow> sr_schema st' = sr_schema st)"
proof (cases "fully_migrated (sr_schema st)")
  case True
  then show ?thesis by (cases a) (simp_all add: ensure_is_initialize migrated_idle)
next
  case False
  then have u: "\<not> sr_sessions_ready st" "\<not> sr_interrupts_ready st" "0 \<le> stored_schema_version (sr_schema st)"
    "stored_schema_version (sr_schema st) \<le> 4" "upgradable (stored_schema_version (sr_schema st)) (sd_tables (sr_schema st))"
    using assms by (auto simp: stores_ok_def)
  from initialize_migrates [OF u(3-5), of raced left False] obtain db' where
    "initialize_repository raced left False (sr_schema st) = (Inr (), True, db')" "fully_migrated db'" by auto
  then show ?thesis using u(1,2) False by (cases a) (simp_all add: ensure_is_initialize)
qed

text \<open>
  However the repositories are first used, over a database of any earlier version every access succeeds, and
  from the first on the schema is the current one and stays as it is.
\<close>

theorem schema_is_current_in_use:
  assumes "stores_ok st" "accesses raced left (a # rest) st = (outcomes, st')"
  shows "set outcomes = {Inr ()} \<and> current_schema (sr_schema st') \<and> sr_schema st' = sr_schema (snd (access raced left a st))"
proof -
  have later: "set (fst (accesses raced left as st1)) \<subseteq> {Inr ()} \<and> sr_schema (snd (accesses raced left as st1)) = sr_schema st1"
    if "fully_migrated (sr_schema st1)" for as st1
    using that
  proof (induction as arbitrary: st1)
    case (Cons b as)
    obtain st2 where b: "access raced left b st1 = (Inr (), st2)" "sr_schema st2 = sr_schema st1"
      using access_migrates [of st1 raced left b] Cons.prems by (auto simp: stores_ok_def)
    with Cons show ?case by (simp add: case_prod_beta)
  qed simp
  obtain st1 where f: "access raced left a st = (Inr (), st1)" "fully_migrated (sr_schema st1)"
    using access_migrates [OF assms(1)] by blast
  show ?thesis
    using assms(2) f later [OF f(2), of rest] by (auto simp: case_prod_beta fully_migrated_def)
qed

section \<open>The lifespan\<close>

datatype lifespan_action =
  Initialize_Tasks | Initialize_Sessions | Initialize_Interrupts | Serve | Dispose_Engine | Close_Clients | Close_Upstream

text \<open>\<open>fails\<close> tells which action raises: nothing after it is done.\<close>

fun perform :: "(lifespan_action \<Rightarrow> bool) \<Rightarrow> lifespan_action list \<Rightarrow> lifespan_action list \<times> bool" where
  "perform fails [] = ([], True)"
| "perform fails (a # rest) =
     (if fails a then ([], False) else let (performed, ok) = perform fails rest in (a # performed, ok))"

definition lifespan :: "(lifespan_action \<Rightarrow> bool) \<Rightarrow> bool \<Rightarrow> lifespan_action list \<times> bool" where
  "lifespan fails has_engine = perform fails
     ([Initialize_Tasks, Initialize_Sessions, Initialize_Interrupts, Serve]
      @ (if has_engine then [Dispose_Engine] else []) @ [Close_Clients, Close_Upstream])"

lemma perform_prefix: "prefix (fst (perform fails xs)) xs \<and> (snd (perform fails xs) \<longleftrightarrow> (\<forall>a \<in> set xs. \<not> fails a))"
  by (induction xs) (auto simp: case_prod_beta)

text \<open>
  The server only serves when all stores are initialized; and what was opened is closed only when nothing
  before fails: an engine whose disposal raises leaves the clients open.
\<close>

theorem serving_needs_initialized_stores:
  "Serve \<in> set (fst (lifespan fails has_engine)) \<longleftrightarrow>
     \<not> fails Initialize_Tasks \<and> \<not> fails Initialize_Sessions \<and> \<not> fails Initialize_Interrupts \<and> \<not> fails Serve"
  by (auto simp: lifespan_def case_prod_beta)

theorem failed_disposal_leaves_clients_open:
  "fails Dispose_Engine \<Longrightarrow> Close_Clients \<notin> set (fst (lifespan fails True)) \<and> Close_Upstream \<notin> set (fst (lifespan fails True))"
  by (auto simp: lifespan_def case_prod_beta)

section \<open>Starting the server\<close>

text \<open>What \<open>main\<close> hands to the server after the application is created: address, port and log level.\<close>

definition main_call ::
  "string list \<Rightarrow> (string \<Rightarrow> database_url) \<Rightarrow> string \<Rightarrow> resolver \<Rightarrow> string \<Rightarrow> (pyval \<Rightarrow> string)
     \<Rightarrow> (http_call \<Rightarrow> call_exception + up_response) \<Rightarrow> server_settings \<Rightarrow> string + application \<times> string \<times> int \<times> string" where
  "main_call core make_url dialect rs cwd str send raw =
     ebind (load_server_settings rs cwd raw) (\<lambda>s.
     ebind (create_app core make_url dialect rs cwd str send s) (\<lambda>app.
     Inr (app, s_a2a_host s, s_a2a_port s, py_lower (normalize_log_level (Some (s_a2a_log_level s))))))"

end
