(* ===== verification/Command_Line.thy ===== *)
theory Command_Line
  imports Peer_Client
begin

text \<open>
  The command line (\<open>cli.py\<close>): what a call of a peer prints for the events of the answer (theory
  Peer_Client), and the choice of the command.  The parser of the standard library is a parameter.
\<close>

section \<open>Calling a peer\<close>

text \<open>
  The updates of a task: the parts of an artifact with their texts (\<open>None\<close> for a part without one), or a
  status with the text of its message.
\<close>

datatype task_update =
    Artifact_Update "string option list option"
  | Status_Update "(string \<times> string option) option"
  | Other_Update

definition newline :: string where "newline = [CHR 0x0A]"

definition part_texts :: "string option list \<Rightarrow> string" where
  "part_texts parts = concat (List.map_filter id parts)"

fun printed :: "(string option list, task_update) client_event \<Rightarrow> string" where
  "printed (TaskEvent t (Some (Artifact_Update (Some parts)))) = part_texts parts"
| "printed (TaskEvent t (Some (Status_Update (Some (state, message))))) =
     (if state = ''failed'' then newline @ ''[Failed] '' @ (case message of None \<Rightarrow> [] | Some m \<Rightarrow> m) @ newline else [])"
| "printed (TaskEvent t u) = []"
| "printed (MessageEvent parts) = part_texts parts"

record call_result =
  cl_stdout :: string
  cl_stderr :: string
  cl_exit_code :: int
  cl_closed :: bool

text \<open>\<open>run_call\<close>: the events that arrive and, when the answer ends with an exception, its text.\<close>

definition run_call :: "(string option list, task_update) client_event list \<Rightarrow> string option \<Rightarrow> call_result" where
  "run_call events failure =
     (let shown = concat (map printed events)
      in case failure of
           None \<Rightarrow> \<lparr>cl_stdout = shown @ newline, cl_stderr = [], cl_exit_code = 0, cl_closed = True\<rparr>
         | Some text_of_failure \<Rightarrow>
             \<lparr>cl_stdout = shown, cl_stderr = newline @ ''[Error] '' @ text_of_failure @ newline, cl_exit_code = 1, cl_closed = True\<rparr>)"

section \<open>Commands\<close>

text \<open>What \<open>parse_args\<close> makes of the arguments: a command with its arguments, or the exit of the parser.\<close>

datatype parsed_arguments = Call_Command string string | Absent_Command | Other_Command string | Parser_Exit int

datatype cli_outcome = Served int | Called string string call_result | Exited int

definition cli_main ::
  "(string list \<Rightarrow> parsed_arguments) \<Rightarrow> (string \<Rightarrow> string \<Rightarrow> (string option list, task_update) client_event list \<times> string option)
     \<Rightarrow> string list \<Rightarrow> cli_outcome" where
  "cli_main parse_args answer args =
     (if args = [] then Served 0
      else case parse_args args of
             Call_Command agent_url text_arg \<Rightarrow>
               Called agent_url text_arg (let (events, failure) = answer agent_url text_arg in run_call events failure)
           | Absent_Command \<Rightarrow> Served 0
           | Other_Command _ \<Rightarrow> Exited 2
           | Parser_Exit code \<Rightarrow> Exited code)"

text \<open>
  The exit code tells whether the answer ended with an exception, whatever it contained: an answer that
  reports a failed task is printed and exits with 0.
\<close>

theorem exit_code_ignores_failed_tasks:
  "cl_exit_code (run_call events failure) = (if failure = None then 0 else 1) \<and> cl_closed (run_call events failure)"
  by (cases failure) (simp_all add: run_call_def Let_def)

lemma failed_task_exits_normally:
  "run_call [TaskEvent t (Some (Status_Update (Some (''failed'', Some ''no model''))))] None =
     \<lparr>cl_stdout = newline @ ''[Failed] no model'' @ newline @ newline, cl_stderr = [], cl_exit_code = 0, cl_closed = True\<rparr>"
  by (simp add: run_call_def Let_def)

text \<open>
  An answer that is a task without an update, as a peer that does not stream sends it and as polling ends,
  is not printed at all: its artifacts are lost and the call exits with 0.
\<close>

theorem unstreamed_answer_is_not_printed:
  "run_call [TaskEvent t None] None = \<lparr>cl_stdout = newline, cl_stderr = [], cl_exit_code = 0, cl_closed = True\<rparr>"
  by (simp add: run_call_def Let_def)

end
